(* ===== verification/TF_Prelude.thy ===== *)
theory TF_Prelude
  imports Main "HOL-Library.Word" "HOL-Library.Sublist"
begin

text \<open>
  Shared vocabulary of the development.

  \<^item> Rust's \<open>Result\<close> is the sum \<open>'e + 'a\<close> with \<open>Inl\<close> for \<open>Err\<close>;
    \<open>rbind\<close> is the \<open>?\<close> operator and \<open>rmap_list\<close> is \<open>iter().map(f).collect()\<close> into a
    \<open>Result\<close>.
  \<^item> A method with interior mutability or I/O is a state transformer
    \<open>'s \<Rightarrow> ('e + 'a) \<times> 's\<close>; \<open>sbind\<close> is \<open>?\<close> on it and \<open>stry\<close> is a \<open>match\<close> on its
    result. \<open>wp\<close> is the weakest precondition, with one equation per combinator in the
    collection \<open>wp_simps\<close>.
  \<^item> Generic facts on \<open>find\<close>, \<open>prefix\<close> and updates of the first matching list element.
\<close>

named_theorems wp_simps \<open>equations of the weakest precondition\<close>
named_theorems res_simps \<open>equations of the result combinators\<close>

type_synonym u64 = "64 word"
type_synonym u32 = "32 word"
type_synonym u16 = "16 word"

section \<open>Results\<close>

definition rbind :: "'e + 'a \<Rightarrow> ('a \<Rightarrow> 'e + 'b) \<Rightarrow> 'e + 'b" where
  "rbind r f = (case r of Inl e \<Rightarrow> Inl e | Inr x \<Rightarrow> f x)"

lemma rbind_simps [simp, res_simps]:
  "rbind (Inl e) f = Inl e"
  "rbind (Inr x) f = f x"
  by (simp_all add: rbind_def)

lemma rbind_Inr_iff [res_simps]:
  "rbind r f = Inr y \<longleftrightarrow> (\<exists>x. r = Inr x \<and> f x = Inr y)"
  by (cases r) auto

lemma rbind_Inl_iff [res_simps]:
  "rbind r f = Inl e \<longleftrightarrow> r = Inl e \<or> (\<exists>x. r = Inr x \<and> f x = Inl e)"
  by (cases r) auto

lemma rbind_InrE:
  assumes "rbind r f = Inr y"
  obtains x where "r = Inr x" and "f x = Inr y"
  using assms by (auto simp: rbind_Inr_iff)

definition guard :: "bool \<Rightarrow> 'e \<Rightarrow> 'e + unit" where
  "guard b e = (if b then Inr () else Inl e)"

lemma guard_simps [simp, res_simps]:
  "guard True e = Inr ()"
  "guard False e = Inl e"
  "guard b e = Inr u \<longleftrightarrow> b"
  "guard b e = Inl e' \<longleftrightarrow> \<not> b \<and> e' = e"
  by (auto simp: guard_def)

fun is_ok :: "'e + 'a \<Rightarrow> bool" where
  "is_ok (Inl e) = False"
| "is_ok (Inr x) = True"

lemma is_ok_iff: "is_ok r \<longleftrightarrow> (\<exists>x. r = Inr x)"
  by (cases r) auto

fun rmap_list :: "('a \<Rightarrow> 'e + 'b) \<Rightarrow> 'a list \<Rightarrow> 'e + 'b list" where
  "rmap_list f [] = Inr []"
| "rmap_list f (x # xs) =
     rbind (f x) (\<lambda>y. rbind (rmap_list f xs) (\<lambda>ys. Inr (y # ys)))"

lemma rmap_list_Inr_iff:
  "rmap_list f xs = Inr ys \<longleftrightarrow> list_all2 (\<lambda>x y. f x = Inr y) xs ys"
proof (induction xs arbitrary: ys)
  case Nil
  then show ?case by auto
next
  case (Cons x xs)
  then show ?case by (auto simp: rbind_Inr_iff list_all2_Cons1)
qed

lemma rmap_list_all:
  assumes "rmap_list f xs = Inr ys" and "\<And>x y. f x = Inr y \<Longrightarrow> P y"
  shows "\<forall>y \<in> set ys. P y"
proof
  fix y assume "y \<in> set ys"
  moreover from assms(1) have "list_all2 (\<lambda>x y. f x = Inr y) xs ys"
    by (simp add: rmap_list_Inr_iff)
  ultimately obtain x where "f x = Inr y"
    by (auto simp: list_all2_conv_all_nth in_set_conv_nth)
  then show "P y" by (rule assms(2))
qed

lemma rmap_list_source:
  "rmap_list f xs = Inr ys \<Longrightarrow> y \<in> set ys \<Longrightarrow> \<exists>x \<in> set xs. f x = Inr y"
  by (induction xs arbitrary: ys) (auto simp: rbind_Inr_iff)

fun ropt :: "('a \<Rightarrow> 'e + 'b) \<Rightarrow> 'a option \<Rightarrow> 'e + 'b option" where
  "ropt f None = Inr None"
| "ropt f (Some x) = rbind (f x) (\<lambda>y. Inr (Some y))"

section \<open>State transformers with errors\<close>

definition sreturn :: "'a \<Rightarrow> 's \<Rightarrow> ('e + 'a) \<times> 's" where
  "sreturn x s = (Inr x, s)"

definition sfail :: "'e \<Rightarrow> 's \<Rightarrow> ('e + 'a) \<times> 's" where
  "sfail e s = (Inl e, s)"

definition stry ::
  "('s \<Rightarrow> ('e + 'a) \<times> 's) \<Rightarrow> ('e \<Rightarrow> 's \<Rightarrow> ('f + 'b) \<times> 's) \<Rightarrow>
   ('a \<Rightarrow> 's \<Rightarrow> ('f + 'b) \<times> 's) \<Rightarrow> 's \<Rightarrow> ('f + 'b) \<times> 's" where
  "stry m h f s = (case m s of (Inl e, s') \<Rightarrow> h e s' | (Inr x, s') \<Rightarrow> f x s')"

definition sbind ::
  "('s \<Rightarrow> ('e + 'a) \<times> 's) \<Rightarrow> ('a \<Rightarrow> 's \<Rightarrow> ('e + 'b) \<times> 's) \<Rightarrow>
   's \<Rightarrow> ('e + 'b) \<times> 's" where
  "sbind m f = stry m sfail f"

definition slift :: "'e + 'a \<Rightarrow> 's \<Rightarrow> ('e + 'a) \<times> 's" where
  "slift r s = (r, s)"

definition wp ::
  "('s \<Rightarrow> ('e + 'a) \<times> 's) \<Rightarrow> ('a \<Rightarrow> 's \<Rightarrow> bool) \<Rightarrow> ('e \<Rightarrow> 's \<Rightarrow> bool) \<Rightarrow> 's \<Rightarrow> bool" where
  "wp m Q E s = (case m s of (Inl e, s') \<Rightarrow> E e s' | (Inr x, s') \<Rightarrow> Q x s')"

lemma wp_sreturn [wp_simps]: "wp (sreturn x) Q E s = Q x s"
  by (simp add: wp_def sreturn_def)

lemma wp_sfail [wp_simps]: "wp (sfail e) Q E s = E e s"
  by (simp add: wp_def sfail_def)

lemma wp_slift [wp_simps]:
  "wp (slift r) Q E s = (case r of Inl e \<Rightarrow> E e s | Inr x \<Rightarrow> Q x s)"
  by (simp add: wp_def slift_def)

lemma wp_stry [wp_simps]:
  "wp (stry m h f) Q E s = wp m (\<lambda>x. wp (f x) Q E) (\<lambda>e. wp (h e) Q E) s"
  by (auto simp: wp_def stry_def split: prod.splits sum.splits)

lemma wp_sbind [wp_simps]:
  "wp (sbind m f) Q E s = wp m (\<lambda>x. wp (f x) Q E) E s"
  by (auto simp: sbind_def stry_def wp_def sfail_def split: prod.splits sum.splits)

lemma wp_mono:
  assumes "wp m Q E s"
    and "\<And>x s'. Q x s' \<Longrightarrow> Q' x s'" and "\<And>e s'. E e s' \<Longrightarrow> E' e s'"
  shows "wp m Q' E' s"
  using assms by (auto simp: wp_def split: prod.splits sum.splits)

lemma wp_conj:
  "wp m Q E s \<Longrightarrow> wp m Q' E' s \<Longrightarrow> wp m (\<lambda>x s. Q x s \<and> Q' x s) (\<lambda>e s. E e s \<and> E' e s) s"
  by (auto simp: wp_def split: prod.splits sum.splits)

lemma wpD:
  assumes "wp m Q E s"
  shows "m s = (Inr x, s') \<Longrightarrow> Q x s'" and "m s = (Inl e, s') \<Longrightarrow> E e s'"
  using assms by (auto simp: wp_def)

text \<open>
  Hoare triples over state transformers; \<open>preserves\<close> is the triple of an invariant. The rules
  in \<open>hoare_rules\<close> follow the structure of a program.
\<close>

named_theorems hoare_rules \<open>structural rules of Hoare triples\<close>

definition hoare ::
  "('s \<Rightarrow> bool) \<Rightarrow> ('s \<Rightarrow> ('e + 'a) \<times> 's) \<Rightarrow> ('a \<Rightarrow> 's \<Rightarrow> bool) \<Rightarrow> ('e \<Rightarrow> 's \<Rightarrow> bool) \<Rightarrow> bool"
  where "hoare P m Q E \<longleftrightarrow> (\<forall>s. P s \<longrightarrow> wp m Q E s)"

definition preserves :: "('s \<Rightarrow> bool) \<Rightarrow> ('s \<Rightarrow> ('e + 'a) \<times> 's) \<Rightarrow> bool" where
  "preserves J m \<longleftrightarrow> hoare J m (\<lambda>_. J) (\<lambda>_. J)"

lemma hoare_sbind [hoare_rules]:
  "hoare P m R E \<Longrightarrow> (\<And>x. hoare (R x) (f x) Q E) \<Longrightarrow> hoare P (sbind m f) Q E"
  unfolding hoare_def wp_sbind by (intro allI impI, rule wp_mono [where Q = R and E = E]) auto

lemma hoare_stry [hoare_rules]:
  "hoare P m R F \<Longrightarrow> (\<And>e. hoare (F e) (h e) Q E) \<Longrightarrow> (\<And>x. hoare (R x) (f x) Q E) \<Longrightarrow>
   hoare P (stry m h f) Q E"
  unfolding hoare_def wp_stry by (intro allI impI, rule wp_mono [where Q = R and E = F]) auto

lemma hoare_sreturn: "(\<And>s. P s \<Longrightarrow> Q x s) \<Longrightarrow> hoare P (sreturn x) Q E"
  by (simp add: hoare_def wp_sreturn)

lemma hoare_sfail: "(\<And>s. P s \<Longrightarrow> E e s) \<Longrightarrow> hoare P (sfail e) Q E"
  by (simp add: hoare_def wp_sfail)

lemma hoare_conseq:
  assumes "hoare P m Q E" and "\<And>s. P' s \<Longrightarrow> P s"
    and "\<And>x s. Q x s \<Longrightarrow> Q' x s" and "\<And>e s. E e s \<Longrightarrow> E' e s"
  shows "hoare P' m Q' E'"
  unfolding hoare_def
proof (intro allI impI)
  fix s assume "P' s"
  with assms(1,2) have "wp m Q E s" by (simp add: hoare_def)
  then show "wp m Q' E' s" using assms(3,4) by (rule wp_mono)
qed

lemma hoare_pre: "hoare P m Q E \<Longrightarrow> (\<And>s. P' s \<Longrightarrow> P s) \<Longrightarrow> hoare P' m Q E"
  by (rule hoare_conseq)

lemma hoare_conj:
  "hoare P m Q E \<Longrightarrow> hoare P' m Q' E' \<Longrightarrow>
   hoare (\<lambda>s. P s \<and> P' s) m (\<lambda>x s. Q x s \<and> Q' x s) (\<lambda>e s. E e s \<and> E' e s)"
  unfolding hoare_def by (auto intro: wp_conj)

lemma hoareD:
  assumes "hoare P m Q E" and "P s"
  shows "m s = (Inr x, s') \<Longrightarrow> Q x s'" and "m s = (Inl e, s') \<Longrightarrow> E e s'"
  using assms by (auto simp: hoare_def wp_def)

lemma preserves_sbind [hoare_rules]:
  "preserves J m \<Longrightarrow> (\<And>x. preserves J (f x)) \<Longrightarrow> preserves J (sbind m f)"
  unfolding preserves_def by (rule hoare_sbind)

lemma preserves_stry [hoare_rules]:
  "preserves J m \<Longrightarrow> (\<And>e. preserves J (h e)) \<Longrightarrow> (\<And>x. preserves J (f x)) \<Longrightarrow>
   preserves J (stry m h f)"
  unfolding preserves_def by (rule hoare_stry)

lemma preserves_sreturn [hoare_rules]: "preserves J (sreturn x)"
  by (simp add: preserves_def hoare_sreturn)

lemma preserves_sfail [hoare_rules]: "preserves J (sfail e)"
  by (simp add: preserves_def hoare_sfail)

lemma preserves_slift [hoare_rules]: "preserves J (slift r)"
  by (auto simp: preserves_def hoare_def wp_slift split: sum.splits)

lemma preserves_if_state [hoare_rules]:
  "preserves J m \<Longrightarrow> preserves J m' \<Longrightarrow> preserves J (\<lambda>s. if b s then m s else m' s)"
  by (auto simp: preserves_def hoare_def wp_def)

lemma hoare_if_state:
  "hoare (\<lambda>s. P s \<and> b s) m Q E \<Longrightarrow> hoare (\<lambda>s. P s \<and> \<not> b s) m' Q E \<Longrightarrow>
   hoare P (\<lambda>s. if b s then m s else m' s) Q E"
  by (auto simp: hoare_def wp_def)

lemma preserves_conj:
  "preserves J m \<Longrightarrow> preserves J' m \<Longrightarrow> preserves (\<lambda>s. J s \<and> J' s) m"
  unfolding preserves_def by (rule hoare_conj)

lemma preserves_hoare: "preserves J m \<Longrightarrow> hoare J m (\<lambda>_. J) (\<lambda>_. J)"
  by (simp add: preserves_def)

lemma preservesD:
  assumes "preserves J m" and "J s" and "m s = (r, s')"
  shows "J s'"
proof -
  from assms(1,2) have "wp m (\<lambda>_. J) (\<lambda>_. J) s" by (simp add: preserves_def hoare_def)
  with assms(3) show ?thesis by (cases r) (simp_all add: wp_def)
qed

section \<open>Logs of calls\<close>

definition each_call :: "('c list \<Rightarrow> 'c \<Rightarrow> bool) \<Rightarrow> 'c list \<Rightarrow> bool" where
  "each_call P log \<longleftrightarrow> (\<forall>pre c post. log = pre @ c # post \<longrightarrow> P pre c)"

lemma each_call_Nil [simp]: "each_call P []"
  by (simp add: each_call_def)

lemma each_call_snoc [simp]: "each_call P (log @ [c]) \<longleftrightarrow> each_call P log \<and> P log c"
proof
  assume a: "each_call P (log @ [c])"
  have "P pre d" if "log = pre @ d # post" for pre d post
    using a that unfolding each_call_def by (metis append.assoc append_Cons)
  moreover have "P log c" using a unfolding each_call_def by blast
  ultimately show "each_call P log \<and> P log c" by (simp add: each_call_def)
next
  assume a: "each_call P log \<and> P log c"
  have "P pre d" if "log @ [c] = pre @ d # post" for pre d post
    using that a by (cases post rule: rev_cases) (auto simp: each_call_def)
  then show "each_call P (log @ [c])" by (simp add: each_call_def)
qed

lemma each_call_mono:
  "each_call P log \<Longrightarrow> (\<And>pre c. prefix (pre @ [c]) log \<Longrightarrow> P pre c \<Longrightarrow> Q pre c) \<Longrightarrow> each_call Q log"
  unfolding each_call_def prefix_def by (metis append.assoc append_Cons append_Nil)

lemma each_call_prefix: "each_call P log \<Longrightarrow> prefix log' log \<Longrightarrow> each_call P log'"
  unfolding each_call_def prefix_def by (metis append.assoc append_Cons)

lemma each_call_append:
  "each_call P log \<Longrightarrow> (\<And>pre c. q c \<Longrightarrow> P pre c) \<Longrightarrow> list_all q ext \<Longrightarrow> each_call P (log @ ext)"
  by (induction ext rule: rev_induct) (simp_all flip: append_assoc)

text \<open>A computation that only appends calls of a kind to its log.\<close>

named_theorems append_rules \<open>structural rules of computations that only append to a log\<close>

definition appends :: "('c \<Rightarrow> bool) \<Rightarrow> ('c list \<Rightarrow> ('e + 'a) \<times> 'c list) \<Rightarrow> bool" where
  "appends p m \<longleftrightarrow> (\<forall>log. \<exists>ext. snd (m log) = log @ ext \<and> list_all p ext)"

lemma appends_sreturn [append_rules]: "appends p (sreturn x)"
  by (simp add: appends_def sreturn_def)

lemma appends_sfail [append_rules]: "appends p (sfail e)"
  by (simp add: appends_def sfail_def)

lemma appends_slift [append_rules]: "appends p (slift r)"
  by (simp add: appends_def slift_def)

lemma appends_stry [append_rules]:
  assumes "appends p m" and "\<And>e. appends p (h e)" and "\<And>x. appends p (f x)"
  shows "appends p (stry m h f)"
  unfolding appends_def
proof
  fix log
  obtain r l ext where m: "m log = (r, l)" "l = log @ ext" "list_all p ext"
    using assms(1) unfolding appends_def by (metis prod.collapse)
  have "\<exists>ext'. snd ((case r of Inl e \<Rightarrow> h e | Inr x \<Rightarrow> f x) l) = l @ ext' \<and> list_all p ext'"
    using assms(2,3) unfolding appends_def by (cases r) auto
  with m show "\<exists>ext. snd (stry m h f log) = log @ ext \<and> list_all p ext"
    by (cases r) (fastforce simp: stry_def)+
qed

lemma appends_sbind [append_rules]:
  "appends p m \<Longrightarrow> (\<And>x. appends p (f x)) \<Longrightarrow> appends p (sbind m f)"
  unfolding sbind_def by (intro append_rules)

lemma appends_lift:
  "(\<And>x. r = Inr x \<Longrightarrow> appends p (f x)) \<Longrightarrow> appends p (sbind (slift r) f)"
  by (cases r) (auto simp: appends_def sbind_def stry_def slift_def sfail_def)

lemma appends_if: "(b \<Longrightarrow> appends p m) \<Longrightarrow> (\<not> b \<Longrightarrow> appends p n) \<Longrightarrow> appends p (if b then m else n)"
  by simp

lemma appends_mono: "appends p m \<Longrightarrow> (\<And>c. p c \<Longrightarrow> q c) \<Longrightarrow> appends q m"
  unfolding appends_def by (metis list.pred_mono_strong)

lemma appendsD: "appends p m \<Longrightarrow> list_all p log \<Longrightarrow> list_all p (snd (m log))"
  unfolding appends_def by (metis list_all_append)

section \<open>First match in a list\<close>

fun update_first :: "('a \<Rightarrow> bool) \<Rightarrow> ('a \<Rightarrow> 'a) \<Rightarrow> 'a list \<Rightarrow> 'a list" where
  "update_first p f [] = []"
| "update_first p f (x # xs) = (if p x then f x # xs else x # update_first p f xs)"

lemma length_update_first [simp]: "length (update_first p f xs) = length xs"
  by (induction xs) auto

lemma map_update_first:
  "(\<And>x. p x \<Longrightarrow> g (f x) = g x) \<Longrightarrow> map g (update_first p f xs) = map g xs"
  by (induction xs) auto

lemma find_None_iff_all: "find p xs = None \<longleftrightarrow> (\<forall>x \<in> set xs. \<not> p x)"
  by (auto simp: find_None_iff)

lemma find_SomeD: "find p xs = Some x \<Longrightarrow> x \<in> set xs \<and> p x"
  by (auto simp: find_Some_iff)

lemma find_filter_hd:
  "find p xs = (case filter p xs of [] \<Rightarrow> None | x # _ \<Rightarrow> Some x)"
  by (induction xs) auto

lemma update_first_split:
  "find p xs = Some x \<Longrightarrow>
   \<exists>us vs. xs = us @ x # vs \<and> (\<forall>u \<in> set us. \<not> p u) \<and> update_first p f xs = us @ f x # vs"
proof (induction xs)
  case Nil
  then show ?case by simp
next
  case (Cons y ys)
  show ?case
  proof (cases "p y")
    case True
    with Cons.prems show ?thesis by (intro exI [of _ "[]"] exI [of _ ys]) auto
  next
    case False
    with Cons obtain us vs where "ys = us @ x # vs" "\<forall>u \<in> set us. \<not> p u"
      "update_first p f ys = us @ f x # vs" by auto
    with False show ?thesis by (intro exI [of _ "y # us"] exI [of _ vs]) auto
  qed
qed

lemma update_first_none: "find p xs = None \<Longrightarrow> update_first p f xs = xs"
  by (induction xs) (auto split: if_splits)

end
