(* ===== verification/Rust_Str.thy ===== *)
theory Rust_Str
  imports TF_Prelude "HOL-Library.Char_ord" "HOL-Library.List_Lexorder"
begin

text \<open>
  Rust's \<open>str\<close> as the list of its UTF-8 bytes: a \<open>char\<close> is a byte, so \<open>length\<close> is
  \<open>str::len\<close>, and \<open>contains\<close>, \<open>starts_with\<close> and \<open>find\<close> work on bytes as they do in
  Rust. Operations that Rust defines on characters (\<open>trim\<close>, \<open>char::is_whitespace\<close>,
  \<open>char::is_control\<close>) recognise the UTF-8 encodings of those characters: the White\_Space
  characters are encoded on one byte (U+0009 to U+000D, U+0020), two (U+0085, U+00A0) or
  three (U+1680, U+2000 to U+200A, U+2028, U+2029, U+202F, U+205F, U+3000), the control
  characters on one (U+0000 to U+001F, U+007F) or two (U+0080 to U+009F). UTF-8 is
  self-synchronising, so scanning bytes and scanning characters find the same occurrences
  in every valid string.
\<close>

named_theorems str_defs \<open>definitions of the string operations\<close>

abbreviation byte :: "char \<Rightarrow> nat" where
  "byte c \<equiv> of_char c"

section \<open>Character classes\<close>

definition is_ws1 :: "char \<Rightarrow> bool" where
  "is_ws1 a \<longleftrightarrow> a \<in> set [CHR 0x20, CHR 0x0A, CHR 0x0D, CHR 0x09, CHR 0x0B, CHR 0x0C]"

definition is_ws2 :: "char \<Rightarrow> char \<Rightarrow> bool" where
  "is_ws2 a b \<longleftrightarrow> a = CHR 0xC2 \<and> (b = CHR 0x85 \<or> b = CHR 0xA0)"

definition is_ws3 :: "char \<Rightarrow> char \<Rightarrow> char \<Rightarrow> bool" where
  "is_ws3 a b c \<longleftrightarrow>
     a = CHR 0xE1 \<and> b = CHR 0x9A \<and> c = CHR 0x80
   \<or> a = CHR 0xE2 \<and> b = CHR 0x80 \<and>
       (128 \<le> byte c \<and> byte c \<le> 138 \<or> c = CHR 0xA8 \<or> c = CHR 0xA9 \<or> c = CHR 0xAF)
   \<or> a = CHR 0xE2 \<and> b = CHR 0x81 \<and> c = CHR 0x9F
   \<or> a = CHR 0xE3 \<and> b = CHR 0x80 \<and> c = CHR 0x80"

definition is_ctl1 :: "char \<Rightarrow> bool" where
  "is_ctl1 a \<longleftrightarrow> byte a < 32 \<or> byte a = 127"

definition is_ctl2 :: "char \<Rightarrow> char \<Rightarrow> bool" where
  "is_ctl2 a b \<longleftrightarrow> a = CHR 0xC2 \<and> 128 \<le> byte b \<and> byte b < 160"

definition is_digit :: "char \<Rightarrow> bool" where
  "is_digit c \<longleftrightarrow> 48 \<le> byte c \<and> byte c \<le> 57"

definition is_upper :: "char \<Rightarrow> bool" where
  "is_upper c \<longleftrightarrow> 65 \<le> byte c \<and> byte c \<le> 90"

definition is_lower :: "char \<Rightarrow> bool" where
  "is_lower c \<longleftrightarrow> 97 \<le> byte c \<and> byte c \<le> 122"

definition is_alnum :: "char \<Rightarrow> bool" where
  "is_alnum c \<longleftrightarrow> is_digit c \<or> is_upper c \<or> is_lower c"

definition lower_char :: "char \<Rightarrow> char" where
  "lower_char c = (if is_upper c then char_of (byte c + 32) else c)"

definition upper_char :: "char \<Rightarrow> char" where
  "upper_char c = (if is_lower c then char_of (byte c - 32) else c)"

abbreviation to_lower :: "string \<Rightarrow> string" where
  "to_lower s \<equiv> map lower_char s"

abbreviation to_upper :: "string \<Rightarrow> string" where
  "to_upper s \<equiv> map upper_char s"

lemmas [str_defs] = is_ws1_def is_ws2_def is_ws3_def is_ctl1_def is_ctl2_def
  is_digit_def is_upper_def is_lower_def is_alnum_def lower_char_def upper_char_def

fun has_control :: "string \<Rightarrow> bool" where
  "has_control [] = False"
| "has_control [a] = is_ctl1 a"
| "has_control (a # b # s) = (is_ctl1 a \<or> is_ctl2 a b \<or> has_control (b # s))"

fun has_whitespace :: "string \<Rightarrow> bool" where
  "has_whitespace (a # b # c # s) =
     (is_ws1 a \<or> is_ws2 a b \<or> is_ws3 a b c \<or> has_whitespace (b # c # s))"
| "has_whitespace [a, b] = (is_ws1 a \<or> is_ws2 a b \<or> is_ws1 b)"
| "has_whitespace [a] = is_ws1 a"
| "has_whitespace [] = False"

section \<open>Trimming\<close>

fun strip_ws ::
  "(char \<Rightarrow> char \<Rightarrow> bool) \<Rightarrow> (char \<Rightarrow> char \<Rightarrow> char \<Rightarrow> bool) \<Rightarrow> string \<Rightarrow> string" where
  "strip_ws p2 p3 (a # b # c # s) =
     (if is_ws1 a then strip_ws p2 p3 (b # c # s)
      else if p2 a b then strip_ws p2 p3 (c # s)
      else if p3 a b c then strip_ws p2 p3 s
      else a # b # c # s)"
| "strip_ws p2 p3 [a, b] =
     (if is_ws1 a then strip_ws p2 p3 [b] else if p2 a b then [] else [a, b])"
| "strip_ws p2 p3 [a] = (if is_ws1 a then [] else [a])"
| "strip_ws p2 p3 [] = []"

definition trim_start :: "string \<Rightarrow> string" where
  "trim_start s = strip_ws is_ws2 is_ws3 s"

definition trim_end :: "string \<Rightarrow> string" where
  "trim_end s = rev (strip_ws (\<lambda>b a. is_ws2 a b) (\<lambda>c b a. is_ws3 a b c) (rev s))"

definition trim :: "string \<Rightarrow> string" where
  "trim s = trim_end (trim_start s)"

lemmas [str_defs] = trim_def trim_start_def trim_end_def

section \<open>Searching and splitting\<close>

fun str_contains :: "string \<Rightarrow> string \<Rightarrow> bool" where
  "str_contains p [] = (p = [])"
| "str_contains p (c # s) = (prefix p (c # s) \<or> str_contains p s)"

fun str_find :: "string \<Rightarrow> string \<Rightarrow> nat option" where
  "str_find p [] = (if p = [] then Some 0 else None)"
| "str_find p (c # s) =
     (if prefix p (c # s) then Some 0 else map_option Suc (str_find p s))"

fun split_on :: "char \<Rightarrow> string \<Rightarrow> string list" where
  "split_on d [] = [[]]"
| "split_on d (c # s) =
     (if c = d then [] # split_on d s
      else (case split_on d s of [] \<Rightarrow> [[c]] | w # ws \<Rightarrow> (c # w) # ws))"

fun split_once :: "char \<Rightarrow> string \<Rightarrow> (string \<times> string) option" where
  "split_once d [] = None"
| "split_once d (c # s) =
     (if c = d then Some ([], s) else map_option (\<lambda>(u, v). (c # u, v)) (split_once d s))"

fun str_join :: "string \<Rightarrow> string list \<Rightarrow> string" where
  "str_join sep [] = []"
| "str_join sep [w] = w"
| "str_join sep (w # v # ws) = w @ sep @ str_join sep (v # ws)"

definition trim_start_char :: "char \<Rightarrow> string \<Rightarrow> string" where
  "trim_start_char d s = dropWhile (\<lambda>c. c = d) s"

definition trim_end_char :: "char \<Rightarrow> string \<Rightarrow> string" where
  "trim_end_char d s = rev (dropWhile (\<lambda>c. c = d) (rev s))"

definition trim_char :: "char \<Rightarrow> string \<Rightarrow> string" where
  "trim_char d s = trim_end_char d (trim_start_char d s)"

lemmas [str_defs] = trim_start_char_def trim_end_char_def trim_char_def

section \<open>Numbers\<close>

fun dec_digits :: "nat \<Rightarrow> string" where
  "dec_digits n =
     (if n < 10 then [char_of (48 + n)] else dec_digits (n div 10) @ [char_of (48 + n mod 10)])"

declare dec_digits.simps [simp del]

fun parse_digits :: "nat \<Rightarrow> string \<Rightarrow> nat option" where
  "parse_digits acc [] = Some acc"
| "parse_digits acc (c # s) =
     (if is_digit c then parse_digits (10 * acc + (byte c - 48)) s else None)"

text \<open>\<open>str::parse\<close> for an unsigned type: an optional \<open>+\<close>, at least one digit, no overflow.\<close>

definition parse_uint :: "nat \<Rightarrow> string \<Rightarrow> nat option" where
  "parse_uint limit s =
     (let body = (case s of CHR ''+'' # t \<Rightarrow> t | _ \<Rightarrow> s)
      in if body = [] then None
         else case parse_digits 0 body of
                None \<Rightarrow> None
              | Some n \<Rightarrow> if n < limit then Some n else None)"

section \<open>Debug text\<close>

text \<open>
  \<open>{:?}\<close> of a string: quotes, escapes for the backslash, the double quote and the ASCII control
  characters and U+0080 to U+009F. Non-ASCII characters above U+009F are printed as they are;
  Rust also escapes the unprintable ones among them.
\<close>

definition hex_digit :: "nat \<Rightarrow> char" where
  "hex_digit n = (if n < 10 then char_of (48 + n) else char_of (87 + n))"

definition hex_digits :: "nat \<Rightarrow> string" where
  "hex_digits n = (if n < 16 then [hex_digit n] else [hex_digit (n div 16), hex_digit (n mod 16)])"

definition unicode_escape :: "nat \<Rightarrow> string" where
  "unicode_escape n = CHR 0x5C # ''u{'' @ hex_digits n @ ''}''"

definition debug_char :: "char \<Rightarrow> string" where
  "debug_char c =
     (if c = CHR 0x00 then [CHR 0x5C, CHR ''0'']
      else if c = CHR 0x09 then [CHR 0x5C, CHR ''t'']
      else if c = CHR 0x0A then [CHR 0x5C, CHR ''n'']
      else if c = CHR 0x0D then [CHR 0x5C, CHR ''r'']
      else if c = CHR 0x22 \<or> c = CHR 0x5C then [CHR 0x5C, c]
      else if is_ctl1 c then unicode_escape (byte c)
      else [c])"

fun debug_body :: "string \<Rightarrow> string" where
  "debug_body [] = []"
| "debug_body [a] = debug_char a"
| "debug_body (a # b # s) =
     (if is_ctl2 a b then unicode_escape (byte b) @ debug_body s
      else debug_char a @ debug_body (b # s))"

definition debug_str :: "string \<Rightarrow> string" where
  "debug_str s = [CHR 0x22] @ debug_body s @ [CHR 0x22]"

section \<open>Facts\<close>

lemma str_contains_sublist: "str_contains p s \<longleftrightarrow> sublist p s"
  by (induction s) (auto simp: sublist_Cons_right)

lemma str_contains_Nil [simp]: "str_contains [] s"
  by (cases s) auto

lemma str_find_None: "str_find p s = None \<longleftrightarrow> \<not> str_contains p s"
  by (induction s) (auto split: if_splits)

lemma str_find_Some_prefix:
  "str_find p s = Some i \<Longrightarrow> prefix p (drop i s) \<and> i \<le> length s"
proof (induction s arbitrary: i)
  case Nil
  then show ?case by (auto split: if_splits)
next
  case (Cons c s)
  then show ?case by (auto split: if_splits)
qed

lemma str_find_first:
  "str_find p s = Some i \<Longrightarrow> j < i \<Longrightarrow> \<not> prefix p (drop j s)"
proof (induction s arbitrary: i j)
  case Nil
  then show ?case by (auto split: if_splits)
next
  case (Cons c s)
  then show ?case by (cases j) (auto split: if_splits)
qed

lemma split_on_ne [simp]: "split_on d s \<noteq> []"
  by (induction s) (auto split: list.splits)

lemma split_on_no_sep: "w \<in> set (split_on d s) \<Longrightarrow> d \<notin> set w"
proof (induction s arbitrary: w)
  case Nil
  then show ?case by simp
next
  case (Cons c s)
  then show ?case by (cases "split_on d s") (auto split: if_splits)
qed

lemma str_join_split: "str_join [d] (split_on d s) = s"
proof (induction s)
  case Nil
  then show ?case by simp
next
  case (Cons c s)
  obtain w ws where "split_on d s = w # ws" by (cases "split_on d s") auto
  with Cons show ?case by (cases ws) auto
qed

lemma split_once_SomeD:
  "split_once d s = Some (u, v) \<Longrightarrow> s = u @ d # v \<and> d \<notin> set u"
  by (induction s arbitrary: u v) (auto split: if_splits)

lemma split_once_None: "split_once d s = None \<longleftrightarrow> d \<notin> set s"
  by (induction s) auto

text \<open>The decimal digits of a number.\<close>

lemma digit_char: "d < 10 \<Longrightarrow> is_digit (char_of (48 + d)) \<and> byte (char_of (48 + d)) = 48 + d"
  by (simp add: is_digit_def)

lemma dec_digits_digits: "list_all is_digit (dec_digits n) \<and> dec_digits n \<noteq> []"
proof (induction n rule: dec_digits.induct)
  case (1 n)
  then show ?case
    using digit_char [of n] digit_char [of "n mod 10"]
    by (subst (1 2) dec_digits.simps) auto
qed

lemma dec_digits_char: "c \<in> set (dec_digits n) \<Longrightarrow> is_digit c"
  using dec_digits_digits [of n] by (simp add: list_all_iff)

section \<open>Case folding and trimming are idempotent and commute\<close>

lemma lower_char_eq_iff:
  "lower_char c = d \<longleftrightarrow> (if is_upper c then byte c + 32 = byte d else c = d)"
  by (auto simp: lower_char_def is_upper_def char_of_eq_iff take_bit_eq_mod)

lemma lower_char_idem [simp]: "lower_char (lower_char c) = lower_char c"
  by (auto simp: lower_char_def is_upper_def of_char_of)

lemma to_lower_idem [simp]: "to_lower (to_lower s) = to_lower s"
  by simp

lemma byte_lower_char: "byte (lower_char c) = (if is_upper c then byte c + 32 else byte c)"
  by (auto simp: lower_char_def is_upper_def of_char_of)

lemma is_ws1_lower [simp]: "is_ws1 (lower_char c) = is_ws1 c"
  by (auto simp: is_ws1_def lower_char_eq_iff is_upper_def)

lemma is_ws2_lower [simp]: "is_ws2 (lower_char a) (lower_char b) = is_ws2 a b"
  by (auto simp: is_ws2_def lower_char_eq_iff is_upper_def)

lemma is_ws3_lower [simp]:
  "is_ws3 (lower_char a) (lower_char b) (lower_char c) = is_ws3 a b c"
  by (auto simp: is_ws3_def lower_char_eq_iff byte_lower_char is_upper_def)

lemma strip_ws_lower:
  assumes "\<And>a b. p2 (lower_char a) (lower_char b) = p2 a b"
    and "\<And>a b c. p3 (lower_char a) (lower_char b) (lower_char c) = p3 a b c"
  shows "strip_ws p2 p3 (to_lower s) = to_lower (strip_ws p2 p3 s)"
  using assms by (induction p2 p3 s rule: strip_ws.induct) auto

lemma trim_to_lower [simp]: "trim (to_lower s) = to_lower (trim s)"
  by (simp add: trim_def trim_start_def trim_end_def rev_map strip_ws_lower)

lemma suffix_strip_ws: "suffix (strip_ws p2 p3 s) s"
  by (induction p2 p3 s rule: strip_ws.induct) (auto intro: suffix_ConsI)

lemma strip_ws_idem: "strip_ws p2 p3 (strip_ws p2 p3 s) = strip_ws p2 p3 s"
  by (induction p2 p3 s rule: strip_ws.induct) auto

lemma strip_ws_length: "length (strip_ws p2 p3 s) \<le> length s"
  using suffix_length_le [OF suffix_strip_ws] .

lemma strip_ws_fixed:
  "strip_ws p2 p3 s = s \<longleftrightarrow>
    (case s of [] \<Rightarrow> True
     | [a] \<Rightarrow> \<not> is_ws1 a
     | [a, b] \<Rightarrow> \<not> is_ws1 a \<and> \<not> p2 a b
     | a # b # c # _ \<Rightarrow> \<not> is_ws1 a \<and> \<not> p2 a b \<and> \<not> p3 a b c)"
proof -
  have "strip_ws p2 p3 t \<noteq> u @ t" if "u \<noteq> []" for t u
    using strip_ws_length [of p2 p3 t] that by (auto dest: arg_cong [where f = length])
  note shorter = this [of "[_]"] this [of "[_, _]"] this [of "[_, _, _]"]
  show ?thesis
    using shorter by (cases "(p2, p3, s)" rule: strip_ws.cases) auto
qed

lemma strip_ws_fixed_prefix:
  assumes "strip_ws p2 p3 s = s" and "prefix t s"
  shows "strip_ws p2 p3 t = t"
proof -
  from assms(2) obtain u where "s = t @ u" by (auto simp: prefix_def)
  with assms(1) show ?thesis
    by (cases "(p2, p3, t)" rule: strip_ws.cases)
      (auto simp: strip_ws_fixed split: list.splits)
qed

lemma prefix_trim_end: "prefix (trim_end s) s"
  using suffix_strip_ws [of _ _ "rev s"]
  by (simp add: trim_end_def suffix_to_prefix)

lemma trim_start_trim [simp]: "trim_start (trim s) = trim s"
  unfolding trim_def trim_start_def
  by (rule strip_ws_fixed_prefix [OF strip_ws_idem]) (rule prefix_trim_end)

lemma trim_end_trim [simp]: "trim_end (trim s) = trim s"
  by (simp add: trim_def trim_end_def strip_ws_idem)

lemma trim_idem [simp]: "trim (trim s) = trim s"
  by (simp add: trim_def [of "trim s"])

lemma sublist_trim: "sublist (trim s) s"
proof -
  have "sublist (trim s) (trim_start s)"
    by (simp add: trim_def prefix_trim_end prefix_imp_sublist)
  moreover have "sublist (trim_start s) s"
    by (simp add: trim_start_def suffix_strip_ws suffix_imp_sublist)
  ultimately show ?thesis by (rule sublist_order.order.trans)
qed

lemma set_trim: "set (trim s) \<subseteq> set s"
  using sublist_trim by (rule set_mono_sublist)

lemma trim_Nil [simp]: "trim [] = []"
  by (simp add: trim_def trim_start_def trim_end_def)

text \<open>The normal form of protocol, tool and budget names.\<close>

definition norm_name :: "string \<Rightarrow> string" where
  "norm_name s = to_lower (trim s)"

lemma norm_name_idem [simp]: "norm_name (norm_name s) = norm_name s"
  by (simp add: norm_name_def)

lemma trim_norm_name [simp]: "trim (norm_name s) = norm_name s"
  by (simp add: norm_name_def)

lemma lower_norm_name [simp]: "to_lower (norm_name s) = norm_name s"
  by (simp add: norm_name_def)

end
