(* ===== verification/Rust_Path.thy ===== *)
theory Rust_Path
  imports Rust_Str "HOL-Library.Product_Lexorder"
begin

text \<open>
  Unix paths (\<open>camino::Utf8Path\<close> over \<open>std::path\<close>) as strings. \<open>components\<close> follows
  \<open>Path::components\<close>: a leading \<open>/\<close> is \<open>RootDir\<close>, repeated and trailing separators and
  inner \<open>.\<close> segments vanish, a leading \<open>.\<close> of a relative path is \<open>CurDir\<close>. Equality,
  \<open>starts_with\<close> and \<open>parent\<close> of \<open>Path\<close> are defined on components, as they are here.
\<close>

datatype path_component = RootDir | CurDir | ParentDir | Normal string

definition is_absolute :: "string \<Rightarrow> bool" where
  "is_absolute p \<longleftrightarrow> prefix ''/'' p"

definition segment_component :: "string \<Rightarrow> path_component" where
  "segment_component s = (if s = ''..'' then ParentDir else Normal s)"

definition components :: "string \<Rightarrow> path_component list" where
  "components p =
     (let segs = split_on CHR ''/'' p
      in (if is_absolute p then [RootDir] else if hd segs = ''.'' then [CurDir] else [])
         @ map segment_component (filter (\<lambda>s. s \<noteq> [] \<and> s \<noteq> ''.'') segs))"

definition path_eq :: "string \<Rightarrow> string \<Rightarrow> bool" where
  "path_eq p q \<longleftrightarrow> components p = components q"

definition path_starts_with :: "string \<Rightarrow> string \<Rightarrow> bool" where
  "path_starts_with p base \<longleftrightarrow> prefix (components base) (components p)"

definition contains_parent_dir :: "string \<Rightarrow> bool" where
  "contains_parent_dir p \<longleftrightarrow> ParentDir \<in> set (components p)"

text \<open>\<open>Path::join\<close>: an absolute argument replaces the base.\<close>

definition path_join :: "string \<Rightarrow> string \<Rightarrow> string" where
  "path_join base p =
     (if is_absolute p then p
      else if base = [] \<or> last base = CHR ''/'' then base @ p
      else base @ ''/'' @ p)"

fun component_text :: "path_component \<Rightarrow> string" where
  "component_text RootDir = ''/''"
| "component_text CurDir = ''.''"
| "component_text ParentDir = ''..''"
| "component_text (Normal s) = s"

fun render_components :: "path_component list \<Rightarrow> string" where
  "render_components (RootDir # cs) = ''/'' @ str_join ''/'' (map component_text cs)"
| "render_components cs = str_join ''/'' (map component_text cs)"

text \<open>
  \<open>Path::parent\<close>: the path without its last component, \<open>None\<close> for the root and the empty
  path. The result is rendered from its components, hence equal to Rust's as a path.
\<close>

definition path_parent :: "string \<Rightarrow> string option" where
  "path_parent p =
     (let cs = components p
      in if cs = [] \<or> last cs = RootDir then None else Some (render_components (butlast cs)))"

definition file_name :: "string \<Rightarrow> string option" where
  "file_name p =
     (let cs = components p
      in if cs = [] then None
         else case last cs of Normal s \<Rightarrow> Some s | _ \<Rightarrow> None)"

text \<open>
  \<open>file_stem\<close> and \<open>extension\<close> split the file name at its last dot; a name whose only dot is
  the first character has no extension.
\<close>

definition split_extension :: "string \<Rightarrow> string \<times> string option" where
  "split_extension s =
     (if s = ''..'' then (s, None)
      else case split_once CHR ''.'' (rev s) of
             None \<Rightarrow> (s, None)
           | Some (rext, rstem) \<Rightarrow>
               if rstem = [] then (s, None) else (rev rstem, Some (rev rext)))"

definition file_stem :: "string \<Rightarrow> string option" where
  "file_stem p = map_option (fst \<circ> split_extension) (file_name p)"

definition extension :: "string \<Rightarrow> string option" where
  "extension p = Option.bind (file_name p) (snd \<circ> split_extension)"

section \<open>The order of paths\<close>

text \<open>\<open>Ord\<close> of \<open>std::path::Component\<close>: the order of the constructors, names bytewise.\<close>

fun component_rank :: "path_component \<Rightarrow> nat \<times> string" where
  "component_rank RootDir = (0, [])"
| "component_rank CurDir = (1, [])"
| "component_rank ParentDir = (2, [])"
| "component_rank (Normal s) = (3, s)"

lemma component_rank_inj: "component_rank a = component_rank b \<Longrightarrow> a = b"
  by (cases a; cases b) auto

instantiation path_component :: linorder
begin

definition less_eq_path_component :: "path_component \<Rightarrow> path_component \<Rightarrow> bool" where
  "less_eq_path_component a b \<longleftrightarrow> component_rank a \<le> component_rank b"

definition less_path_component :: "path_component \<Rightarrow> path_component \<Rightarrow> bool" where
  "less_path_component a b \<longleftrightarrow> component_rank a < component_rank b"

instance
  by standard (auto simp: less_eq_path_component_def less_path_component_def less_le_not_le
    dest: component_rank_inj intro: order.trans)

end

section \<open>Facts\<close>

lemma path_starts_with_refl [simp]: "path_starts_with p p"
  by (simp add: path_starts_with_def)

lemma path_starts_with_trans:
  "path_starts_with p q \<Longrightarrow> path_starts_with q r \<Longrightarrow> path_starts_with p r"
  by (auto simp: path_starts_with_def prefix_def)

lemma path_starts_with_no_parent:
  "path_starts_with p q \<Longrightarrow> \<not> contains_parent_dir p \<Longrightarrow> \<not> contains_parent_dir q"
  by (auto simp: path_starts_with_def contains_parent_dir_def dest: set_mono_prefix)

lemma split_on_single: "d \<notin> set s \<Longrightarrow> split_on d s = [s]"
  by (induction s) auto

lemma split_on_append_sep: "split_on d (s @ d # t) = split_on d s @ split_on d t"
proof (induction s)
  case Nil
  then show ?case by simp
next
  case (Cons c s)
  obtain w ws where "split_on d s = w # ws" by (cases "split_on d s") auto
  with Cons show ?case by auto
qed

lemma hd_split_on_append:
  "hd (split_on d (s @ d # t)) = hd (split_on d s)"
  by (simp add: split_on_append_sep)

text \<open>Joining a safe single component extends the component list by it.\<close>

definition safe_component :: "string \<Rightarrow> bool" where
  "safe_component s \<longleftrightarrow>
     s \<noteq> [] \<and> s \<noteq> ''.'' \<and> s \<noteq> ''..'' \<and> CHR ''/'' \<notin> set s"

lemma is_absolute_append: "b \<noteq> [] \<Longrightarrow> is_absolute (b @ t) \<longleftrightarrow> is_absolute b"
  by (cases b) (auto simp: is_absolute_def)

lemma components_append_sep:
  assumes "b \<noteq> []"
  shows "components (b @ CHR ''/'' # t) =
    components b @ map segment_component (filter (\<lambda>s. s \<noteq> [] \<and> s \<noteq> ''.'') (split_on CHR ''/'' t))"
  using assms
  by (simp add: components_def Let_def is_absolute_append hd_split_on_append split_on_append_sep)

lemma components_join_safe:
  assumes "base \<noteq> []" and "safe_component s"
  shows "components (path_join base s) = components base @ [Normal s]"
proof -
  from assms(2) have s: "s \<noteq> []" "s \<noteq> ''.''" "s \<noteq> ''..''" "CHR ''/'' \<notin> set s"
    by (auto simp: safe_component_def)
  then have rel: "\<not> is_absolute s"
    by (cases s) (auto simp: is_absolute_def)
  have seg: "map segment_component (filter (\<lambda>s. s \<noteq> [] \<and> s \<noteq> ''.'') (split_on CHR ''/'' s)) = [Normal s]"
    using s by (simp add: split_on_single segment_component_def)
  show ?thesis
  proof (cases "last base = CHR ''/''")
    case True
    with assms(1) obtain b where b: "base = b @ [CHR ''/'']"
      by (metis append_butlast_last_id)
    have join: "path_join base s = b @ CHR ''/'' # s"
      using rel True by (simp add: path_join_def b)
    show ?thesis
    proof (cases "b = []")
      case True
      with s show ?thesis
        unfolding join unfolding b by (simp add: components_def is_absolute_def segment_component_def split_on_single)
    next
      case False
      then show ?thesis
        unfolding join unfolding b by (simp add: components_append_sep seg)
    qed
  next
    case False
    with assms(1) rel have "path_join base s = base @ CHR ''/'' # s"
      by (simp add: path_join_def)
    with assms(1) show ?thesis by (simp add: components_append_sep seg)
  qed
qed

lemma path_join_safe_under:
  "base \<noteq> [] \<Longrightarrow> safe_component s \<Longrightarrow> path_starts_with (path_join base s) base"
  by (simp add: components_join_safe path_starts_with_def)

lemma path_join_safe_nonempty: "safe_component s \<Longrightarrow> path_join base s \<noteq> []"
  by (auto simp: path_join_def safe_component_def)

lemma path_join_safe_inj:
  "base \<noteq> [] \<Longrightarrow> safe_component s \<Longrightarrow> safe_component t \<Longrightarrow>
   path_eq (path_join base s) (path_join base t) \<longleftrightarrow> s = t"
  by (simp add: path_eq_def components_join_safe)

end
