(* ===== verification/Rust_BTree.thy ===== *)
theory Rust_BTree
  imports Rust_Str
begin

text \<open>
  \<open>std::collections::BTreeMap\<close> as an association list in strictly ascending key order, so
  that iteration (\<open>for (k, v) in map\<close>, \<open>values()\<close>) is the list itself. The locale
  \<open>ordered_map\<close> is the contract the program relies on; \<open>bt\<close> interprets it on the model.
\<close>

type_synonym ('k, 'v) btree = "('k \<times> 'v) list"

fun bt_insert :: "'k::linorder \<Rightarrow> 'v \<Rightarrow> ('k, 'v) btree \<Rightarrow> ('k, 'v) btree" where
  "bt_insert k v [] = [(k, v)]"
| "bt_insert k v ((k', v') # m) =
     (if k < k' then (k, v) # (k', v') # m
      else if k = k' then (k, v) # m
      else (k', v') # bt_insert k v m)"

definition bt_get :: "('k, 'v) btree \<Rightarrow> 'k \<Rightarrow> 'v option" where
  "bt_get m k = map_of m k"

definition bt_ok :: "('k::linorder, 'v) btree \<Rightarrow> bool" where
  "bt_ok m \<longleftrightarrow> sorted_wrt (<) (map fst m)"

definition bt_of_list :: "('k::linorder \<times> 'v) list \<Rightarrow> ('k, 'v) btree" where
  "bt_of_list xs = foldl (\<lambda>m (k, v). bt_insert k v m) [] xs"

locale ordered_map =
  fixes empty :: 'm
    and insert :: "'k::linorder \<Rightarrow> 'v \<Rightarrow> 'm \<Rightarrow> 'm"
    and get :: "'m \<Rightarrow> 'k \<Rightarrow> 'v option"
    and entries :: "'m \<Rightarrow> ('k \<times> 'v) list"
    and ok :: "'m \<Rightarrow> bool"
  assumes ok_empty: "ok empty"
    and ok_insert: "ok m \<Longrightarrow> ok (insert k v m)"
    and get_empty: "get empty k = None"
    and get_insert: "ok m \<Longrightarrow> get (insert k v m) k' = (if k' = k then Some v else get m k')"
    and entries_iff: "ok m \<Longrightarrow> (k, v) \<in> set (entries m) \<longleftrightarrow> get m k = Some v"
    and entries_sorted: "ok m \<Longrightarrow> sorted_wrt (<) (map fst (entries m))"
begin

lemma get_same: "ok m \<Longrightarrow> get (insert k v m) k = Some v"
  by (simp add: get_insert)

lemma get_other: "ok m \<Longrightarrow> k' \<noteq> k \<Longrightarrow> get (insert k v m) k' = get m k'"
  by (simp add: get_insert)

lemma insert_entries:
  assumes "ok m"
  shows "set (entries (insert k v m)) = {(k', v'). if k' = k then v' = v else (k', v') \<in> set (entries m)}"
proof -
  have "(a, b) \<in> set (entries (insert k v m)) \<longleftrightarrow>
      (if a = k then b = v else (a, b) \<in> set (entries m))" for a b
    using assms by (auto simp: entries_iff ok_insert get_insert)
  then show ?thesis by auto
qed

end

lemma set_bt_insert:
  "fst ` set (bt_insert k v m) = insert k (fst ` set m)"
  by (induction k v m rule: bt_insert.induct) auto

lemma bt_insert_entries: "set (bt_insert k v m) \<subseteq> insert (k, v) (set m)"
  by (induction k v m rule: bt_insert.induct) auto

lemma bt_insert_all: "list_all P m \<Longrightarrow> P (k, v) \<Longrightarrow> list_all P (bt_insert k v m)"
  using bt_insert_entries [of k v m] by (auto simp: list_all_iff)

lemma bt_ok_insert: "bt_ok m \<Longrightarrow> bt_ok (bt_insert k v m)"
proof (induction m)
  case Nil
  then show ?case by (simp add: bt_ok_def)
next
  case (Cons p m)
  obtain k' v' where p: "p = (k', v')" by (cases p)
  from Cons.prems have tail: "bt_ok m" and lt: "\<forall>x \<in> fst ` set m. k' < x"
    by (auto simp: bt_ok_def p)
  have "\<forall>x \<in> fst ` set (bt_insert k v m). k' < x" if "k' < k"
    using lt that by (simp add: set_bt_insert)
  with Cons.IH [OF tail] Cons.prems lt show ?case
    by (auto simp: bt_ok_def p image_iff dest: order.strict_trans)
qed

lemma bt_get_insert:
  "bt_get (bt_insert k v m) k' = (if k' = k then Some v else bt_get m k')"
  if "bt_ok m"
  using that
proof (induction m)
  case Nil
  then show ?case by (simp add: bt_get_def)
next
  case (Cons p m)
  obtain a b where p: "p = (a, b)" by (cases p)
  from Cons have "bt_get (bt_insert k v m) k' = (if k' = k then Some v else bt_get m k')"
    by (simp add: bt_ok_def p)
  then show ?case
    by (auto simp: bt_get_def p)
qed

lemma bt_ok_distinct: "bt_ok m \<Longrightarrow> distinct (map fst m)"
  unfolding bt_ok_def by (induction m) force+

lemma bt_entries_iff: "bt_ok m \<Longrightarrow> (k, v) \<in> set m \<longleftrightarrow> bt_get m k = Some v"
  by (simp add: bt_get_def bt_ok_distinct)

interpretation bt: ordered_map "[]" bt_insert bt_get "\<lambda>m. m" bt_ok
proof (standard, goal_cases)
  case 1 show ?case by (simp add: bt_ok_def)
next
  case (2 m k v) then show ?case by (rule bt_ok_insert)
next
  case (3 k) show ?case by (simp add: bt_get_def)
next
  case (4 m k v k') then show ?case by (rule bt_get_insert)
next
  case (5 m k v) then show ?case by (rule bt_entries_iff)
next
  case (6 m) then show ?case by (simp add: bt_ok_def)
qed

text \<open>Updating the value under a present key keeps the keys and their order.\<close>

lemma bt_insert_keys:
  "bt_ok m \<Longrightarrow> bt_get m k \<noteq> None \<Longrightarrow> map fst (bt_insert k v m) = map fst m"
proof (induction m)
  case Nil
  then show ?case by (simp add: bt_get_def)
next
  case (Cons p m)
  obtain a b where p: "p = (a, b)" by (cases p)
  from Cons.prems have m: "bt_ok m" and lt: "\<forall>x \<in> fst ` set m. a < x"
    by (auto simp: bt_ok_def p)
  show ?case
  proof (cases "k = a")
    case True
    then show ?thesis by (simp add: p)
  next
    case False
    with Cons.prems have "bt_get m k \<noteq> None" by (simp add: bt_get_def p)
    moreover from this have "k \<in> fst ` set m"
      by (auto simp: bt_get_def dest: map_of_SomeD intro: image_eqI [rotated])
    ultimately show ?thesis using Cons.IH [OF m] lt False by (auto simp: p)
  qed
qed

lemma bt_ok_of_list: "bt_ok (bt_of_list xs)"
proof -
  have "bt_ok m \<Longrightarrow> bt_ok (foldl (\<lambda>m (k, v). bt_insert k v m) m xs)" for m
    by (induction xs arbitrary: m) (auto intro: bt_ok_insert)
  from this [of "[]"] show ?thesis
    by (simp add: bt_of_list_def bt_ok_def)
qed


text \<open>Inserting a key above all present ones appends it.\<close>

lemma bt_insert_last:
  "\<forall>k' \<in> fst ` set m. k' < k \<Longrightarrow> bt_insert k v m = m @ [(k, v)]"
  by (induction k v m rule: bt_insert.induct) auto

end
