(* ===== verification/Core_Types.thy ===== *)
theory Core_Types
  imports Rust_Path Rust_BTree
begin

text \<open>
  The domain types of \<open>crates/taskfence-core/src/lib.rs\<close>: errors, the resolved task with its
  permissions and gateway configuration, actions and decisions, tool requests and executions,
  approvals, runner inputs and outputs, artifacts, audit events. A struct is a record whose
  fields carry a short prefix of the struct's name, an enum is a datatype with the source's
  constructors. Identifiers and paths are strings, \<open>u64\<close> and \<open>u16\<close> are words, a point in time
  (\<open>OffsetDateTime\<close>) is an integer number of nanoseconds, and a \<open>BTreeMap\<close> is a sorted
  association list.
\<close>

type_synonym task_id = string
type_synonym approval_id = string
type_synonym path = string
type_synonym time = int

section \<open>Errors\<close>

datatype taskfence_error =
    Config string
  | Policy string
  | Approval string
  | Runner string
  | Audit string
  | ArtifactErr string
  | Report string
  | StateErr string
  | Gateway string
  | UnsupportedErr string

text \<open>The \<open>Display\<close> text that \<open>thiserror\<close> derives from the \<open>#[error]\<close> attributes.\<close>

fun error_display :: "taskfence_error \<Rightarrow> string" where
  "error_display (Config m) = ''configuration error: '' @ m"
| "error_display (Policy m) = ''policy error: '' @ m"
| "error_display (Approval m) = ''approval error: '' @ m"
| "error_display (Runner m) = ''runner error: '' @ m"
| "error_display (Audit m) = ''audit error: '' @ m"
| "error_display (ArtifactErr m) = ''artifact error: '' @ m"
| "error_display (Report m) = ''report error: '' @ m"
| "error_display (StateErr m) = ''state error: '' @ m"
| "error_display (Gateway m) = ''gateway error: '' @ m"
| "error_display (UnsupportedErr m) = ''unsupported operation: '' @ m"

type_synonym 'a result = "taskfence_error + 'a"

section \<open>Task configuration\<close>

datatype task_status =
    Created | Validating | Preparing | Running | WaitingForApproval | Stopping
  | CollectingArtifacts | Reporting | Succeeded | Failed | Denied | TimedOut | Cancelled

datatype sandbox_kind =
    Docker | RemoteSsh | KubernetesJob | MicroVm | ManagedCloud | UnsupportedSandbox string

fun sandbox_label :: "sandbox_kind \<Rightarrow> string" where
  "sandbox_label Docker = ''docker''"
| "sandbox_label RemoteSsh = ''remote_ssh''"
| "sandbox_label KubernetesJob = ''kubernetes_job''"
| "sandbox_label MicroVm = ''microvm''"
| "sandbox_label ManagedCloud = ''managed_cloud''"
| "sandbox_label (UnsupportedSandbox k) = k"

datatype agent_kind = Generic | Specialized string

datatype network_default = NetAllow | NetDeny | NetDisabled

record agent_config =
  ag_kind :: agent_kind
  ag_command :: string
  ag_args :: "string list"

datatype ssh_network_policy = UncontrolledAllow

record ssh_sandbox_config =
  ssh_host :: string
  ssh_user :: "string option"
  ssh_port :: "u16 option"
  ssh_workspace :: "path option"
  ssh_identity_file :: "path option"
  ssh_known_hosts_file :: "path option"
  ssh_isolated_workspace :: bool
  ssh_isolated_secrets :: bool
  ssh_terminates_remote_processes :: bool
  ssh_enforces_resource_limits :: bool
  ssh_network_policy :: "ssh_network_policy option"

record limit_config =
  lim_timeout_minutes :: "u64 option"
  lim_cpu :: "u64 option"
  lim_memory :: "string option"
  lim_disk :: "string option"

record sandbox_config =
  sb_kind :: sandbox_kind
  sb_image :: "string option"
  sb_ssh :: "ssh_sandbox_config option"
  sb_limits :: limit_config

record path_permissions =
  pp_read :: "path list"
  pp_write :: "path list"

record command_permissions =
  cp_allow :: "string list"
  cp_approval_required :: "string list"
  cp_deny :: "string list"

record network_permissions =
  np_default :: network_default
  np_allow_domains :: "string list"

definition default_network_permissions :: network_permissions where
  "default_network_permissions = \<lparr>np_default = NetDeny, np_allow_domains = []\<rparr>"

record env_permissions =
  ep_allow :: "string list"

record tool_permissions =
  tp_allow :: "string list"
  tp_approval_required :: "string list"
  tp_deny :: "string list"

record budget_limit =
  bl_kind :: string
  bl_max_amount :: u64

record budget_permissions =
  bp_allow :: "budget_limit list"

record permission_config =
  pm_paths :: path_permissions
  pm_commands :: command_permissions
  pm_network :: network_permissions
  pm_env :: env_permissions
  pm_tools :: tool_permissions
  pm_budget :: budget_permissions

record secret_grant =
  sg_name :: string
  sg_use_for :: "string list"

record secret_config =
  sc_expose_to_agent :: bool
  sc_available_to_gateway :: "secret_grant list"

record approval_config =
  ac_require_for :: "string list"
  ac_timeout_minutes :: "u64 option"

definition default_approval_config :: approval_config where
  "default_approval_config = \<lparr>ac_require_for = [], ac_timeout_minutes = Some 60\<rparr>"

datatype gateway_mode = SpoolOnly | LocalListener

datatype gateway_connector_config =
    LocalFixture (fixture_kind: string) (fixture_path: path)
  | GitHubRest (gh_api_base: string) (gh_repository: string)
  | GitHubEnterpriseRest (ghe_api_base: string) (ghe_repository: string)
  | GitLab (gitlab_api_base: string) (gitlab_project: string)
  | Jira (jira_api_base: string) (jira_project_key: string)
  | Feishu (feishu_api_base: string) (feishu_app: string)
  | WeCom (wecom_api_base: string) (wecom_corp_id: string)
  | DingTalk (dingtalk_api_base: string) (dingtalk_tenant: string)
  | Gitee (gitee_api_base: string) (gitee_repository: string)
  | Coding (coding_api_base: string) (coding_project: string)
  | Database (db_engine: string) (db_database_ref: string)
  | InternalHttp (ih_api_base: string) (ih_service: string)
  | SiemExport (siem_api_base: string) (siem_sink: string)
  | UnsupportedConnector (uc_kind: string)

record gateway_secret_reference_config =
  sr_name :: string
  sr_parameter :: string
  sr_scope :: string

record gateway_tool_config =
  gt_protocol :: string
  gt_tool :: string
  gt_operation :: string
  gt_connector :: gateway_connector_config
  gt_secret_refs :: "gateway_secret_reference_config list"

record gateway_config =
  gw_mode :: gateway_mode
  gw_egress_allow_domains :: bool
  gw_tools :: "gateway_tool_config list"

datatype report_format = Markdown | Html

record capture_config =
  cap_stdout :: bool
  cap_stderr :: bool
  cap_file_diff :: bool
  cap_network_destinations :: bool
  cap_approvals :: bool

definition default_capture_config :: capture_config where
  "default_capture_config =
     \<lparr>cap_stdout = True, cap_stderr = True, cap_file_diff = True,
      cap_network_destinations = True, cap_approvals = True\<rparr>"

record audit_config =
  au_report_format :: report_format
  au_capture :: capture_config

record resolved_task =
  rt_id :: task_id
  rt_task_file :: path
  rt_goal :: string
  rt_workspace_host_path :: path
  rt_workspace_container_path :: path
  rt_agent :: agent_config
  rt_sandbox :: sandbox_config
  rt_permissions :: permission_config
  rt_secrets :: secret_config
  rt_approval :: approval_config
  rt_gateway :: gateway_config
  rt_audit :: audit_config

section \<open>Actions and decisions\<close>

datatype redacted_value = Plain string | Redacted string

type_synonym parameters = "(string, redacted_value) btree"

record command_action =
  ca_executable :: string
  ca_args :: "string list"
  ca_raw :: string
  ca_shell_wrapped :: bool

record tool_action =
  ta_protocol :: string
  ta_tool :: string
  ta_operation :: string
  ta_parameters :: parameters

datatype action =
    FileRead path
  | FileWrite path
  | Command command_action
  | Network string "u16 option"
  | EnvExpose string
  | SecretAccess string string
  | ToolCall tool_action
  | Budget string u64

datatype risk_level = Low | Medium | High | Critical

datatype action_decision =
    Allow "string option" string
  | RequireApproval string "string option" string risk_level
  | Deny "string option" string

record budget_usage =
  bu_kind :: string
  bu_amount :: u64
  bu_provider :: "string option"
  bu_model :: "string option"
  bu_operation :: "string option"
  bu_metadata :: parameters

record budget_usage_record =
  br_usage :: budget_usage
  br_limit :: "budget_limit option"
  br_decision :: action_decision

section \<open>Tool requests and executions\<close>

record tool_adapter_identity =
  ai_kind :: string
  ai_name :: string

record tool_request =
  tr_action :: tool_action
  tr_adapter :: "tool_adapter_identity option"

record tool_execution_context =
  tc_task_dir :: "path option"
  tc_artifact_dir :: "path option"

record tool_result =
  tres_summary :: string
  tres_values :: parameters
  tres_artifacts :: "path list"
  tres_usage :: "budget_usage list"

datatype tool_execution_error_kind =
    UnsupportedProtocol | UnsupportedTool | UnregisteredTool | InvalidParameters
  | PolicyDenied | ApprovalDeniedOrTimedOut | BudgetExceeded | AdapterFailed
  | SecretUnavailable

record tool_execution_error =
  te_kind :: tool_execution_error_kind
  te_message :: string

record tool_execution =
  tx_request :: tool_request
  tx_result :: "tool_result option"
  tx_error :: "tool_execution_error option"

section \<open>Approvals\<close>

datatype approval_decision = Approved | ADenied | ATimedOut

record approval_record =
  ar_id :: approval_id
  ar_task_id :: task_id
  ar_actor :: string
  ar_source :: "string option"
  ar_requested_at :: time
  ar_resolved_at :: "time option"
  ar_action :: action
  ar_policy_decision :: action_decision
  ar_decision :: "approval_decision option"

section \<open>Runs\<close>

record agent_invocation =
  in_executable :: string
  in_args :: "string list"
  in_env :: "(string, string) btree"
  in_working_dir :: path

datatype mount_mode = ReadOnly | ReadWrite

record mount_plan =
  mp_host_path :: path
  mp_container_path :: path
  mp_mode :: mount_mode

record prepared_ssh_run =
  ps_host :: string
  ps_user :: "string option"
  ps_port :: "u16 option"
  ps_workspace :: path
  ps_identity_file :: path
  ps_known_hosts_file :: "path option"

record prepared_gateway =
  pg_mode :: gateway_mode
  pg_spool_container_path :: "path option"
  pg_egress :: "string list option"

record prepared_run =
  pr_task_id :: task_id
  pr_runner_kind :: sandbox_kind
  pr_image :: "string option"
  pr_mounts :: "mount_plan list"
  pr_env :: "(string, string) btree"
  pr_network :: network_permissions
  pr_gateway :: prepared_gateway
  pr_limits :: limit_config
  pr_ssh :: "prepared_ssh_run option"

record task_validation =
  tv_task_id :: task_id
  tv_workspace_host_path :: path
  tv_invocation :: agent_invocation
  tv_command_action :: command_action
  tv_command_decision :: action_decision
  tv_prepared :: prepared_run

record running_task =
  rn_task_id :: task_id
  rn_runner_ref :: string

datatype log_stream = Stdout | Stderr

record log_chunk =
  lc_stream :: log_stream
  lc_text :: string
  lc_timestamp :: time

record exit_status =
  ex_code :: "int option"
  ex_timed_out :: bool
  ex_signal :: "string option"

record run_output =
  ro_exit_status :: exit_status
  ro_stdout :: string
  ro_stderr :: string

record artifact_refs =
  af_task_dir :: path
  af_resolved_task :: "path option"
  af_events :: "path option"
  af_stdout :: "path option"
  af_stderr :: "path option"
  af_diff :: "path option"
  af_report :: "path option"
  af_gateway_spool :: "path option"

record workspace_baseline =
  wb_dirty_before_run :: bool
  wb_summary :: string

record task_result =
  rs_task_id :: task_id
  rs_status :: task_status
  rs_exit_status :: "exit_status option"
  rs_artifacts :: artifact_refs
  rs_message :: "string option"

section \<open>Audit events\<close>

datatype audit_event =
    TaskCreated task_id time string
  | TaskStatusChanged task_id time task_status
  | PolicyDecision task_id time action action_decision
  | ToolExecutionStarted task_id time tool_request
  | ToolExecutionFinished task_id time tool_execution
  | BudgetUsageRecorded task_id time budget_usage_record
  | ApprovalRequested approval_record
  | ApprovalResolved approval_record
  | Log task_id log_chunk
  | RunnerExit task_id time exit_status
  | Artifact task_id time string path
  | Error task_id time string

fun is_deny :: "action_decision \<Rightarrow> bool" where
  "is_deny (Deny r m) = True"
| "is_deny _ = False"

fun is_allow :: "action_decision \<Rightarrow> bool" where
  "is_allow (Allow r m) = True"
| "is_allow _ = False"

fun needs_approval :: "action_decision \<Rightarrow> bool" where
  "needs_approval (RequireApproval k r m l) = True"
| "needs_approval _ = False"

lemma decision_trichotomy:
  "is_deny d \<or> is_allow d \<or> needs_approval d"
  by (cases d) auto

lemma granting_not_deny: "is_allow d \<or> needs_approval d \<Longrightarrow> \<not> is_deny d"
  by (cases d) auto

end
