(* ===== verification/Policy_Engine.thy ===== *)
theory Policy_Engine
  imports Core_Types
begin

text \<open>
  The built-in policy engine of \<open>crates/taskfence-policy/src/lib.rs\<close>. The glob compiler of
  the \<open>globset\<close> package is the parameter \<open>glob\<close>: compiling a pattern yields an error text or
  a matcher. The locale \<open>policy_engine\<close> states what the orchestrator and the gateway rely on;
  it is interpreted on \<open>evaluate\<close>.
\<close>

type_synonym glob_compiler = "string \<Rightarrow> string + (string \<Rightarrow> bool)"

section \<open>Pattern matching\<close>

definition glob_matcher :: "glob_compiler \<Rightarrow> string \<Rightarrow> (string \<Rightarrow> bool) result" where
  "glob_matcher glob pattern =
     (case glob pattern of
        Inl err \<Rightarrow> Inl (Policy (''invalid policy pattern '' @ pattern @ '': '' @ err))
      | Inr m \<Rightarrow> Inr m)"

fun matches_any :: "glob_compiler \<Rightarrow> string \<Rightarrow> string list \<Rightarrow> bool result" where
  "matches_any glob v [] = Inr False"
| "matches_any glob v (pattern # patterns) =
     (if v = pattern \<or> prefix (pattern @ '' '') v then Inr True
      else rbind (glob_matcher glob pattern) (\<lambda>m.
        if m v then Inr True else matches_any glob v patterns))"

fun matches_any_candidate ::
  "glob_compiler \<Rightarrow> string list \<Rightarrow> string list \<Rightarrow> bool result" where
  "matches_any_candidate glob [] patterns = Inr False"
| "matches_any_candidate glob (c # cs) patterns =
     rbind (matches_any glob c patterns) (\<lambda>b.
       if b then Inr True else matches_any_candidate glob cs patterns)"

datatype match_decision = MDeny | MApproval | MAllow | NoMatch

definition first_match ::
  "glob_compiler \<Rightarrow> string list \<Rightarrow> string list \<Rightarrow> string list \<Rightarrow> string list \<Rightarrow>
   match_decision result" where
  "first_match glob candidates deny_patterns approval_patterns allow_patterns =
     rbind (matches_any_candidate glob candidates deny_patterns) (\<lambda>d.
     if d then Inr MDeny
     else rbind (matches_any_candidate glob candidates approval_patterns) (\<lambda>a.
       if a then Inr MApproval
       else rbind (matches_any_candidate glob candidates allow_patterns) (\<lambda>w.
         if w then Inr MAllow else Inr NoMatch)))"

definition push_unique :: "string list \<Rightarrow> string \<Rightarrow> string list" where
  "push_unique vs v = (if trim v \<noteq> [] \<and> v \<notin> set vs then vs @ [v] else vs)"

definition command_match_candidates :: "command_action \<Rightarrow> string list" where
  "command_match_candidates c =
     (let cs = push_unique (push_unique [] (ca_raw c)) (ca_executable c)
      in if ca_args c \<noteq> [] then push_unique cs (str_join '' '' (ca_executable c # ca_args c))
         else cs)"

section \<open>Decisions\<close>

abbreviation allow :: "string \<Rightarrow> action_decision result" where
  "allow reason \<equiv> Inr (Allow None reason)"

abbreviation deny :: "string \<Rightarrow> action_decision result" where
  "deny reason \<equiv> Inr (Deny None reason)"

abbreviation require_approval :: "string \<Rightarrow> string \<Rightarrow> risk_level \<Rightarrow> action_decision result" where
  "require_approval kind reason risk \<equiv> Inr (RequireApproval kind None reason risk)"

definition evaluate_budget :: "resolved_task \<Rightarrow> string \<Rightarrow> u64 \<Rightarrow> action_decision result" where
  "evaluate_budget task kind amount =
     (let kind = to_lower (trim kind)
      in if kind = [] then deny ''budget kind is empty''
         else case find (\<lambda>limit. bl_kind limit = kind)
                     (bp_allow (pm_budget (rt_permissions task))) of
                None \<Rightarrow> deny ''budget kind is not allowed''
              | Some limit \<Rightarrow>
                  if bl_max_amount limit < amount
                  then deny ''budget amount exceeds configured limit''
                  else allow ''budget action matched configured limit'')"

definition evaluate_command ::
  "glob_compiler \<Rightarrow> resolved_task \<Rightarrow> command_action \<Rightarrow> action_decision result" where
  "evaluate_command glob task command =
     (let candidates = command_match_candidates command;
          cp = pm_commands (rt_permissions task)
      in rbind (matches_any_candidate glob candidates (cp_deny cp)) (\<lambda>d.
         if d then deny ''command matched deny rule''
         else if ca_shell_wrapped command
         then require_approval ''shell_wrapped_command''
                ''shell-wrapped commands require approval'' High
         else rbind (first_match glob candidates [] (cp_approval_required cp) (cp_allow cp))
           (\<lambda>m. case m of
              MDeny \<Rightarrow> deny ''command matched deny rule''
            | MApproval \<Rightarrow> require_approval ''command'' ''command matched approval rule'' High
            | MAllow \<Rightarrow> allow ''command matched allow rule''
            | NoMatch \<Rightarrow> deny ''command did not match policy'')))"

definition secret_granted :: "resolved_task \<Rightarrow> string \<Rightarrow> string \<Rightarrow> bool" where
  "secret_granted task name scope \<longleftrightarrow>
     list_ex (\<lambda>g. sg_name g = name \<and> scope \<in> set (sg_use_for g))
       (sc_available_to_gateway (rt_secrets task))"

definition tool_key_name :: "tool_action \<Rightarrow> string" where
  "tool_key_name tool = ta_tool tool @ ''.'' @ ta_operation tool"

fun evaluate :: "glob_compiler \<Rightarrow> resolved_task \<Rightarrow> action \<Rightarrow> action_decision result" where
  "evaluate glob task (Command command) = evaluate_command glob task command"
| "evaluate glob task (FileRead path) =
     (if list_ex (path_starts_with path) (pp_read (pm_paths (rt_permissions task)))
      then allow ''file read path matched''
      else deny ''file read path is outside allowed roots'')"
| "evaluate glob task (FileWrite path) =
     (if list_ex (path_starts_with path) (pp_write (pm_paths (rt_permissions task)))
      then allow ''file write path matched''
      else deny ''file write path is outside writable roots'')"
| "evaluate glob task (Network host port) =
     (case np_default (pm_network (rt_permissions task)) of
        NetDisabled \<Rightarrow> deny ''network is disabled''
      | NetDeny \<Rightarrow>
          if to_lower host \<in> set (np_allow_domains (pm_network (rt_permissions task)))
          then allow ''network domain matched allowlist''
          else deny ''network domain is not allowlisted''
      | NetAllow \<Rightarrow> allow ''network default allow'')"
| "evaluate glob task (EnvExpose name) =
     (if name \<in> set (ep_allow (pm_env (rt_permissions task)))
      then allow ''environment variable matched allowlist''
      else deny ''environment variable is not allowlisted'')"
| "evaluate glob task (SecretAccess name scope) =
     (if secret_granted task name scope \<and> \<not> sc_expose_to_agent (rt_secrets task)
      then require_approval ''secret_access'' ''secret access requires approval'' High
      else deny ''secret is not available for requested scope'')"
| "evaluate glob task (ToolCall tool) =
     (let tp = pm_tools (rt_permissions task)
      in rbind (first_match glob [tool_key_name tool] (tp_deny tp) (tp_approval_required tp)
                  (tp_allow tp))
           (\<lambda>m. case m of
              MDeny \<Rightarrow> deny ''tool call matched deny rule''
            | MApproval \<Rightarrow> require_approval ''tool_call'' ''tool call matched approval rule'' Medium
            | MAllow \<Rightarrow> allow ''tool call matched allow rule''
            | NoMatch \<Rightarrow> deny ''tool call did not match policy''))"
| "evaluate glob task (Budget kind amount) = evaluate_budget task kind amount"

section \<open>What a match means\<close>

text \<open>A pattern hits a value when it equals it, is a word prefix of it, or its glob matches.\<close>

definition pattern_hits :: "glob_compiler \<Rightarrow> string \<Rightarrow> string \<Rightarrow> bool" where
  "pattern_hits glob v p \<longleftrightarrow>
     v = p \<or> prefix (p @ '' '') v \<or> (\<exists>m. glob p = Inr m \<and> m v)"

definition any_hit :: "glob_compiler \<Rightarrow> string list \<Rightarrow> string list \<Rightarrow> bool" where
  "any_hit glob candidates patterns \<longleftrightarrow>
     (\<exists>c \<in> set candidates. \<exists>p \<in> set patterns. pattern_hits glob c p)"

definition compiles :: "glob_compiler \<Rightarrow> string list \<Rightarrow> bool" where
  "compiles glob patterns \<longleftrightarrow> (\<forall>p \<in> set patterns. is_ok (glob p))"

lemma matches_any_True: "matches_any glob v ps = Inr True \<Longrightarrow> \<exists>p \<in> set ps. pattern_hits glob v p"
proof (induction ps)
  case Nil
  then show ?case by simp
next
  case (Cons p ps)
  then show ?case
    by (auto simp: pattern_hits_def glob_matcher_def rbind_Inr_iff split: if_splits sum.splits)
qed

lemma matches_any_False: "matches_any glob v ps = Inr False \<Longrightarrow> \<forall>p \<in> set ps. \<not> pattern_hits glob v p"
proof (induction ps)
  case Nil
  then show ?case by simp
next
  case (Cons p ps)
  then show ?case
    by (auto simp: pattern_hits_def glob_matcher_def rbind_Inr_iff split: if_splits sum.splits)
qed

lemma matches_any_candidate_iff:
  "matches_any_candidate glob cs ps = Inr b \<Longrightarrow> b = any_hit glob cs ps"
proof (induction cs)
  case Nil
  then show ?case by (simp add: any_hit_def)
next
  case (Cons c cs)
  then show ?case
    by (auto simp: any_hit_def rbind_Inr_iff split: if_splits
        dest!: matches_any_True matches_any_False)
qed

lemma matches_any_total: "compiles glob ps \<Longrightarrow> \<exists>b. matches_any glob v ps = Inr b"
  by (induction ps) (auto simp: compiles_def glob_matcher_def is_ok_iff
      intro: exI [of _ True] exI [of _ False])

lemma matches_any_candidate_total:
  "compiles glob ps \<Longrightarrow> matches_any_candidate glob cs ps = Inr (any_hit glob cs ps)"
proof -
  assume c: "compiles glob ps"
  have "\<exists>b. matches_any_candidate glob cs ps = Inr b"
  proof (induction cs)
    case Nil
    then show ?case by (auto intro: exI [of _ False])
  next
    case (Cons x cs)
    then obtain b where "matches_any_candidate glob cs ps = Inr b" by blast
    moreover obtain b' where "matches_any glob x ps = Inr b'"
      using matches_any_total [OF c] by blast
    ultimately show ?case by (cases b') (auto intro: exI [of _ True] exI [of _ False])
  qed
  then show ?thesis using matches_any_candidate_iff by blast
qed


lemma matches_any_False_compiles: "matches_any glob v ps = Inr False \<Longrightarrow> compiles glob ps"
proof (induction ps)
  case Nil
  then show ?case by (simp add: compiles_def)
next
  case (Cons p ps)
  then show ?case
    by (auto simp: compiles_def glob_matcher_def rbind_Inr_iff split: if_splits sum.splits)
qed

lemma matches_any_candidate_False_compiles:
  "matches_any_candidate glob (c # cs) ps = Inr False \<Longrightarrow> compiles glob ps"
  by (auto simp: rbind_Inr_iff split: if_splits dest: matches_any_False_compiles)

text \<open>The decision that the lists of patterns call for, independent of the order of matching.\<close>

definition spec_match ::
  "glob_compiler \<Rightarrow> string list \<Rightarrow> string list \<Rightarrow> string list \<Rightarrow> string list \<Rightarrow> match_decision"
  where
  "spec_match glob cs d a w =
     (if any_hit glob cs d then MDeny
      else if any_hit glob cs a then MApproval
      else if any_hit glob cs w then MAllow else NoMatch)"

lemma first_match_spec: "first_match glob cs d a w = Inr m \<Longrightarrow> m = spec_match glob cs d a w"
  by (auto simp: first_match_def spec_match_def rbind_Inr_iff split: if_splits
      dest!: matches_any_candidate_iff)

lemma first_match_total:
  "compiles glob d \<Longrightarrow> compiles glob a \<Longrightarrow> compiles glob w \<Longrightarrow>
   first_match glob cs d a w = Inr (spec_match glob cs d a w)"
  by (simp add: first_match_def spec_match_def matches_any_candidate_total)

lemma first_match_allow_compiles:
  "first_match glob (c # cs) d a w = Inr MAllow \<Longrightarrow> compiles glob d \<and> compiles glob a"
  by (auto simp: first_match_def rbind_Inr_iff simp del: matches_any_candidate.simps
      split: if_splits dest: matches_any_candidate_False_compiles)

lemma any_hit_mono: "set ps \<subseteq> set qs \<Longrightarrow> any_hit glob cs ps \<Longrightarrow> any_hit glob cs qs"
  by (auto simp: any_hit_def)

section \<open>Permissiveness of a decision\<close>

fun permissiveness :: "action_decision \<Rightarrow> nat" where
  "permissiveness (Deny r m) = 0"
| "permissiveness (RequireApproval k r m l) = 1"
| "permissiveness (Allow r m) = 2"

fun match_permissiveness :: "match_decision \<Rightarrow> nat" where
  "match_permissiveness MDeny = 0"
| "match_permissiveness NoMatch = 0"
| "match_permissiveness MApproval = 1"
| "match_permissiveness MAllow = 2"

text \<open>More deny patterns or fewer allow patterns never make a decision more permissive.\<close>

lemma spec_match_antimono:
  assumes "set d \<subseteq> set d'" and "set w' \<subseteq> set w"
  shows "match_permissiveness (spec_match glob cs d' [] w') \<le> match_permissiveness (spec_match glob cs d [] w)"
    and "match_permissiveness (spec_match glob cs d' a w') \<le> match_permissiveness (spec_match glob cs d a w)"
  using any_hit_mono [OF assms(1)] any_hit_mono [OF assms(2)]
  by (auto simp: spec_match_def)

definition tool_match :: "glob_compiler \<Rightarrow> resolved_task \<Rightarrow> tool_action \<Rightarrow> match_decision" where
  "tool_match glob task tool =
     (let tp = pm_tools (rt_permissions task)
      in spec_match glob [tool_key_name tool] (tp_deny tp) (tp_approval_required tp) (tp_allow tp))"

lemma evaluate_tool_spec:
  assumes "evaluate glob task (ToolCall tool) = Inr d"
  shows "permissiveness d = match_permissiveness (tool_match glob task tool)"
proof -
  let ?tp = "pm_tools (rt_permissions task)"
  from assms obtain m where
    m: "first_match glob [tool_key_name tool] (tp_deny ?tp) (tp_approval_required ?tp)
          (tp_allow ?tp) = Inr m" and
    d: "(case m of MDeny \<Rightarrow> deny ''tool call matched deny rule''
        | MApproval \<Rightarrow> require_approval ''tool_call'' ''tool call matched approval rule'' Medium
        | MAllow \<Rightarrow> allow ''tool call matched allow rule''
        | NoMatch \<Rightarrow> deny ''tool call did not match policy'') = Inr d"
    by (auto simp: Let_def rbind_Inr_iff)
  have "tool_match glob task tool = m"
    using first_match_spec [OF m] by (simp add: tool_match_def Let_def)
  with d show ?thesis by (cases m) auto
qed

lemma command_allow_facts:
  assumes "evaluate glob task (Command c) = Inr d" and "is_allow d"
  shows "\<not> ca_shell_wrapped c
    \<and> \<not> any_hit glob (command_match_candidates c) (cp_deny (pm_commands (rt_permissions task)))
    \<and> \<not> any_hit glob (command_match_candidates c)
         (cp_approval_required (pm_commands (rt_permissions task)))
    \<and> any_hit glob (command_match_candidates c) (cp_allow (pm_commands (rt_permissions task)))"
proof -
  let ?cs = "command_match_candidates c" and ?cp = "pm_commands (rt_permissions task)"
  from assms obtain m where
    nd: "matches_any_candidate glob ?cs (cp_deny ?cp) = Inr False" and
    ns: "\<not> ca_shell_wrapped c" and
    m: "first_match glob ?cs [] (cp_approval_required ?cp) (cp_allow ?cp) = Inr m" and
    d: "(case m of MDeny \<Rightarrow> deny ''command matched deny rule''
        | MApproval \<Rightarrow> require_approval ''command'' ''command matched approval rule'' High
        | MAllow \<Rightarrow> allow ''command matched allow rule''
        | NoMatch \<Rightarrow> deny ''command did not match policy'') = Inr d"
    by (auto simp: evaluate_command_def Let_def rbind_Inr_iff split: if_splits)
  from d assms(2) have "m = MAllow" by (cases m) auto
  with first_match_spec [OF m] have "spec_match glob ?cs [] (cp_approval_required ?cp) (cp_allow ?cp) = MAllow"
    by simp
  then show ?thesis
    using nd ns matches_any_candidate_iff [OF nd]
    by (auto simp: spec_match_def split: if_splits)
qed

text \<open>The command decision as a function of the patterns hit, when every pattern compiles.\<close>

definition command_match :: "glob_compiler \<Rightarrow> resolved_task \<Rightarrow> command_action \<Rightarrow> match_decision" where
  "command_match glob task c =
     (let cp = pm_commands (rt_permissions task); cs = command_match_candidates c
      in if any_hit glob cs (cp_deny cp) then MDeny
         else if ca_shell_wrapped c then MApproval
         else spec_match glob cs [] (cp_approval_required cp) (cp_allow cp))"

lemma evaluate_command_spec:
  assumes "evaluate glob task (Command c) = Inr d"
  shows "permissiveness d = match_permissiveness (command_match glob task c)"
proof -
  let ?cs = "command_match_candidates c" and ?cp = "pm_commands (rt_permissions task)"
  from assms obtain b where b: "matches_any_candidate glob ?cs (cp_deny ?cp) = Inr b"
    by (auto simp: evaluate_command_def Let_def rbind_Inr_iff)
  note hit = matches_any_candidate_iff [OF b]
  show ?thesis
  proof (cases "b \<or> ca_shell_wrapped c")
    case True
    with assms b hit show ?thesis
      by (auto simp: evaluate_command_def Let_def command_match_def)
  next
    case False
    with assms b obtain m where
      m: "first_match glob ?cs [] (cp_approval_required ?cp) (cp_allow ?cp) = Inr m" and
      d: "(case m of MDeny \<Rightarrow> deny ''command matched deny rule''
        | MApproval \<Rightarrow> require_approval ''command'' ''command matched approval rule'' High
        | MAllow \<Rightarrow> allow ''command matched allow rule''
        | NoMatch \<Rightarrow> deny ''command did not match policy'') = Inr d"
      by (auto simp: evaluate_command_def Let_def rbind_Inr_iff)
    have "command_match glob task c = m"
      using first_match_spec [OF m] False hit by (simp add: command_match_def Let_def)
    with d show ?thesis by (cases m) auto
  qed
qed

section \<open>The contract of a policy engine\<close>

locale policy_engine =
  fixes eval :: "resolved_task \<Rightarrow> action \<Rightarrow> action_decision result"
  assumes secret_never_allowed:
      "eval t (SecretAccess n s) = Inr d \<Longrightarrow> \<not> is_allow d"
    and shell_never_allowed:
      "ca_shell_wrapped c \<Longrightarrow> eval t (Command c) = Inr d \<Longrightarrow> \<not> is_allow d"
    and network_disabled:
      "np_default (pm_network (rt_permissions t)) = NetDisabled \<Longrightarrow>
       eval t (Network h p) = Inr d \<Longrightarrow> is_deny d"
    and network_allowlist:
      "np_default (pm_network (rt_permissions t)) = NetDeny \<Longrightarrow>
       eval t (Network h p) = Inr d \<Longrightarrow> is_allow d \<Longrightarrow>
       to_lower h \<in> set (np_allow_domains (pm_network (rt_permissions t)))"
    and network_no_approval: "eval t (Network h p) = Inr d \<Longrightarrow> \<not> needs_approval d"
    and budget_within:
      "eval t (Budget k amt) = Inr d \<Longrightarrow> is_allow d \<Longrightarrow>
       (\<exists>l \<in> set (bp_allow (pm_budget (rt_permissions t))).
          bl_kind l = to_lower (trim k) \<and> amt \<le> bl_max_amount l)"
    and budget_no_approval: "eval t (Budget k amt) = Inr d \<Longrightarrow> \<not> needs_approval d"
begin

lemma network_allow_cases:
  assumes "eval t (Network h p) = Inr d" and "\<not> is_deny d"
  shows "np_default (pm_network (rt_permissions t)) = NetAllow
       \<or> to_lower h \<in> set (np_allow_domains (pm_network (rt_permissions t)))"
proof -
  from assms network_no_approval [OF assms(1)] have "is_allow d"
    using decision_trichotomy by blast
  then show ?thesis
    using assms network_disabled network_allowlist
    by (cases "np_default (pm_network (rt_permissions t))") auto
qed

lemma budget_not_denied_within:
  assumes "eval t (Budget k amt) = Inr d" and "\<not> is_deny d"
  shows "\<exists>l \<in> set (bp_allow (pm_budget (rt_permissions t))).
          bl_kind l = to_lower (trim k) \<and> amt \<le> bl_max_amount l"
  using assms budget_no_approval [OF assms(1)] budget_within [OF assms(1)] decision_trichotomy
  by blast

end

lemma evaluate_shell_not_allowed:
  "ca_shell_wrapped c \<Longrightarrow> evaluate glob t (Command c) = Inr d \<Longrightarrow> \<not> is_allow d"
  using command_allow_facts by blast

lemma evaluate_budget_allow:
  assumes "evaluate glob t (Budget k amt) = Inr d" and "is_allow d"
  shows "\<exists>l \<in> set (bp_allow (pm_budget (rt_permissions t))).
          bl_kind l = to_lower (trim k) \<and> amt \<le> bl_max_amount l"
  using assms
  by (auto simp: evaluate_budget_def Let_def not_less split: if_splits option.splits
      dest!: find_SomeD)

interpretation builtin: policy_engine "evaluate glob" for glob
proof (standard, goal_cases)
  case (1 t n s d) then show ?case by (auto split: if_splits)
next
  case (2 c t d) then show ?case by (rule evaluate_shell_not_allowed)
next
  case (3 t h p d) then show ?case by auto
next
  case (4 t h p d) then show ?case by (auto split: if_splits)
next
  case (5 t h p d) then show ?case by (auto split: if_splits network_default.splits)
next
  case (6 t k n d) then show ?case by (rule evaluate_budget_allow)
next
  case (7 t k n d)
  then show ?case by (auto simp: evaluate_budget_def Let_def split: if_splits option.splits)
qed


section \<open>Properties of the engine\<close>

text \<open>A task whose permissions are the given ones, and a glob compiler that matches exactly.\<close>

definition exact_glob :: glob_compiler where
  "exact_glob p = (if p = ''['' then Inl ''unclosed class'' else Inr (\<lambda>v. v = p))"

definition task_with :: "permission_config \<Rightarrow> secret_config \<Rightarrow> resolved_task" where
  "task_with pm sc =
     \<lparr>rt_id = ''t1'', rt_task_file = ''/tmp/task.yaml'', rt_goal = ''test'',
      rt_workspace_host_path = ''/tmp/repo'', rt_workspace_container_path = ''/workspace'',
      rt_agent = \<lparr>ag_kind = Generic, ag_command = ''codex'', ag_args = []\<rparr>,
      rt_sandbox = \<lparr>sb_kind = Docker, sb_image = Some ''img'', sb_ssh = None,
        sb_limits = \<lparr>lim_timeout_minutes = None, lim_cpu = None, lim_memory = None,
          lim_disk = None\<rparr>\<rparr>,
      rt_permissions = pm, rt_secrets = sc, rt_approval = default_approval_config,
      rt_gateway = \<lparr>gw_mode = SpoolOnly, gw_egress_allow_domains = False, gw_tools = []\<rparr>,
      rt_audit = \<lparr>au_report_format = Markdown, au_capture = default_capture_config\<rparr>\<rparr>"

definition sample_permissions :: permission_config where
  "sample_permissions =
     \<lparr>pm_paths = \<lparr>pp_read = [''/tmp/repo''], pp_write = [''/tmp/repo/src'']\<rparr>,
      pm_commands = \<lparr>cp_allow = [''npm test''], cp_approval_required = [''git push''],
        cp_deny = [''sudo'']\<rparr>,
      pm_network = \<lparr>np_default = NetDeny, np_allow_domains = [''api.github.com'']\<rparr>,
      pm_env = \<lparr>ep_allow = [''CI'']\<rparr>,
      pm_tools = \<lparr>tp_allow = [''github.read_issue'', ''github.create_pr''],
        tp_approval_required = [''github.create_pr''], tp_deny = [''github.delete_repo'']\<rparr>,
      pm_budget = \<lparr>bp_allow = [\<lparr>bl_kind = ''gateway_calls'', bl_max_amount = 10\<rparr>]\<rparr>\<rparr>"

definition sample_task :: resolved_task where
  "sample_task = task_with sample_permissions
     \<lparr>sc_expose_to_agent = False, sc_available_to_gateway =
        [\<lparr>sg_name = ''github_token'', sg_use_for = [''github.create_pr'']\<rparr>]\<rparr>"

definition sample_tool :: "string \<Rightarrow> tool_action" where
  "sample_tool op = \<lparr>ta_protocol = ''mcp'', ta_tool = ''github'', ta_operation = op,
     ta_parameters = []\<rparr>"

lemmas sample_defs = exact_glob_def task_with_def sample_permissions_def sample_task_def
  sample_tool_def

text \<open>C17: when every configured tool pattern compiles, a tool call is decided by the key
  \<open>tool.operation\<close> alone: denied when a deny pattern hits or when no approval and no allow
  pattern does, sent to approval when an approval pattern hits and no deny pattern does,
  allowed only when an allow pattern is the only kind that hits.\<close>

theorem tool_call_decision:
  fixes glob task tool
  defines "tp \<equiv> pm_tools (rt_permissions task)"
    and "hit \<equiv> any_hit glob [ta_tool tool @ ''.'' @ ta_operation tool]"
  assumes "compiles glob (tp_deny tp)" and "compiles glob (tp_approval_required tp)"
    and "compiles glob (tp_allow tp)"
  shows "\<exists>d. evaluate glob task (ToolCall tool) = Inr d
    \<and> (is_deny d \<longleftrightarrow> hit (tp_deny tp) \<or> \<not> hit (tp_approval_required tp) \<and> \<not> hit (tp_allow tp))
    \<and> (needs_approval d \<longleftrightarrow> \<not> hit (tp_deny tp) \<and> hit (tp_approval_required tp))
    \<and> (is_allow d \<longleftrightarrow>
         \<not> hit (tp_deny tp) \<and> \<not> hit (tp_approval_required tp) \<and> hit (tp_allow tp))"
  using first_match_total [OF assms(3-5), of "[tool_key_name tool]"]
  by (auto simp: tp_def hit_def tool_key_name_def Let_def spec_match_def)

theorem tool_call_decision_witness:
  "\<exists>d. evaluate exact_glob sample_task (ToolCall (sample_tool ''create_pr'')) = Inr d \<and> needs_approval d"
proof -
  let ?tp = "pm_tools (rt_permissions sample_task)"
  have "compiles exact_glob (tp_deny ?tp)" "compiles exact_glob (tp_approval_required ?tp)"
    "compiles exact_glob (tp_allow ?tp)"
    by (simp_all add: compiles_def sample_defs)
  from tool_call_decision [OF this, of "sample_tool ''create_pr''"] show ?thesis
    by (auto simp: sample_defs any_hit_def pattern_hits_def)
qed

text \<open>C18: no command is allowed unless it is not shell-wrapped, an allow pattern hits one of
  its forms, and no deny and no approval pattern hits any of them.\<close>

theorem command_allow_justified:
  assumes "evaluate glob task (Command c) = Inr d" and "is_allow d"
  shows "\<not> ca_shell_wrapped c
    \<and> \<not> any_hit glob (command_match_candidates c) (cp_deny (pm_commands (rt_permissions task)))
    \<and> \<not> any_hit glob (command_match_candidates c)
         (cp_approval_required (pm_commands (rt_permissions task)))
    \<and> any_hit glob (command_match_candidates c) (cp_allow (pm_commands (rt_permissions task)))"
  using assms by (rule command_allow_facts)

definition sample_command :: "string list \<Rightarrow> command_action" where
  "sample_command ws =
     \<lparr>ca_executable = hd ws, ca_args = tl ws, ca_raw = str_join '' '' ws,
      ca_shell_wrapped = False\<rparr>"

theorem command_allow_justified_witness:
  "any_hit exact_glob (command_match_candidates (sample_command [''npm'', ''test'']))
     (cp_allow (pm_commands (rt_permissions sample_task)))"
proof -
  have "evaluate exact_glob sample_task (Command (sample_command [''npm'', ''test''])) =
      Inr (Allow None ''command matched allow rule'')"
    by code_simp
  from command_allow_justified [OF this] show ?thesis by simp
qed

text \<open>C19: extending a deny list or shortening an allow list never makes a decision on a tool
  call or on a command more permissive.\<close>

theorem tightening_is_antitone:
  assumes "evaluate glob task a = Inr d" and "evaluate glob task' a = Inr d'"
    and "a = ToolCall tool \<or> a = Command c"
    and "set (tp_deny (pm_tools (rt_permissions task))) \<subseteq> set (tp_deny (pm_tools (rt_permissions task')))"
    and "tp_approval_required (pm_tools (rt_permissions task')) =
         tp_approval_required (pm_tools (rt_permissions task))"
    and "set (tp_allow (pm_tools (rt_permissions task'))) \<subseteq> set (tp_allow (pm_tools (rt_permissions task)))"
    and "set (cp_deny (pm_commands (rt_permissions task))) \<subseteq> set (cp_deny (pm_commands (rt_permissions task')))"
    and "cp_approval_required (pm_commands (rt_permissions task')) =
         cp_approval_required (pm_commands (rt_permissions task))"
    and "set (cp_allow (pm_commands (rt_permissions task'))) \<subseteq> set (cp_allow (pm_commands (rt_permissions task)))"
  shows "permissiveness d' \<le> permissiveness d"
  using assms(3)
proof
  assume a: "a = ToolCall tool"
  have "match_permissiveness (tool_match glob task' tool) \<le> match_permissiveness (tool_match glob task tool)"
    unfolding tool_match_def Let_def assms(5) by (rule spec_match_antimono(2) [OF assms(4,6)])
  with assms(1,2) a show ?thesis by (simp only: evaluate_tool_spec)
next
  assume a: "a = Command c"
  have "match_permissiveness (spec_match glob cs [] ap (cp_allow (pm_commands (rt_permissions task'))))
     \<le> match_permissiveness (spec_match glob cs [] ap (cp_allow (pm_commands (rt_permissions task))))"
    for cs ap
    by (rule spec_match_antimono(2) [OF _ assms(9)]) simp
  then have "match_permissiveness (command_match glob task' c) \<le> match_permissiveness (command_match glob task c)"
    using any_hit_mono [OF assms(7)] by (auto simp: command_match_def Let_def assms(8))
  with assms(1,2) a show ?thesis by (simp only: evaluate_command_spec)
qed


definition tightened_task :: resolved_task where
  "tightened_task = sample_task\<lparr>rt_permissions := sample_permissions\<lparr>pm_tools :=
     (pm_tools sample_permissions)\<lparr>tp_deny := [''github.read_issue'', ''github.delete_repo'']\<rparr>\<rparr>\<rparr>"

theorem tightening_is_antitone_witness:
  "permissiveness (Deny None ''tool call matched deny rule'')
     \<le> permissiveness (Allow None ''tool call matched allow rule'')"
proof -
  let ?a = "ToolCall (sample_tool ''read_issue'')"
  have 1: "evaluate exact_glob sample_task ?a = Inr (Allow None ''tool call matched allow rule'')"
    by code_simp
  have 2: "evaluate exact_glob tightened_task ?a = Inr (Deny None ''tool call matched deny rule'')"
    by code_simp
  show ?thesis
    by (rule tightening_is_antitone [OF 1 2, of "sample_tool ''read_issue''"])
      (simp_all add: sample_defs tightened_task_def)
qed

text \<open>a network action that the engine does not deny is either to a task whose network
  default is \<open>allow\<close> or to a host whose lower-case name is on the task's domain allowlist.\<close>

theorem network_gate:
  assumes "evaluate glob task (Network host port) = Inr d" and "\<not> is_deny d"
  shows "np_default (pm_network (rt_permissions task)) = NetAllow
       \<or> to_lower host \<in> set (np_allow_domains (pm_network (rt_permissions task)))"
  using assms by (rule builtin.network_allow_cases)

theorem network_gate_witness:
  "to_lower ''API.github.com'' \<in> set (np_allow_domains (pm_network (rt_permissions sample_task)))"
proof -
  have "evaluate exact_glob sample_task (Network ''API.github.com'' None) =
      Inr (Allow None ''network domain matched allowlist'')"
    by code_simp
  from network_gate [OF this] show ?thesis by (simp add: sample_defs)
qed

text \<open>a budget action that the engine does not deny stays within a configured limit of
  the same normalised kind.\<close>

theorem budget_gate:
  assumes "evaluate glob task (Budget kind amount) = Inr d" and "\<not> is_deny d"
  shows "\<exists>l \<in> set (bp_allow (pm_budget (rt_permissions task))).
          bl_kind l = to_lower (trim kind) \<and> amount \<le> bl_max_amount l"
  using assms by (rule builtin.budget_not_denied_within)

theorem budget_gate_witness:
  "\<exists>l \<in> set (bp_allow (pm_budget (rt_permissions sample_task))).
     bl_kind l = to_lower (trim '' Gateway_Calls '') \<and> 10 \<le> bl_max_amount l"
proof -
  have "evaluate exact_glob sample_task (Budget '' Gateway_Calls '' 10) =
      Inr (Allow None ''budget action matched configured limit'')"
    by code_simp
  from budget_gate [OF this] show ?thesis by simp
qed

text \<open>path rules compare components without resolving \<open>..\<close>: with \<open>/tmp/repo\<close> as the only
  readable root the engine allows reading \<open>/tmp/repo/../../etc/passwd\<close>, a path outside it.\<close>

theorem file_read_parent_escape:
  "pp_read (pm_paths (rt_permissions sample_task)) = [''/tmp/repo'']
   \<and> contains_parent_dir ''/tmp/repo/../../etc/passwd''
   \<and> evaluate glob sample_task (FileRead ''/tmp/repo/../../etc/passwd'') =
       Inr (Allow None ''file read path matched'')"
  by (simp add: sample_defs path_starts_with_def components_def Let_def is_absolute_def
      segment_component_def contains_parent_dir_def)

end
