(* ===== verification/Core_Command.thy ===== *)
theory Core_Command
  imports Core_Types
begin

text \<open>
  Command lines and budget usage of \<open>crates/taskfence-core/src/lib.rs\<close>: the word splitter
  behind \<open>CommandAction::parse\<close>, the command action that the orchestrator derives from an
  agent invocation, and the normalisation of reported budget usage.
\<close>

section \<open>Splitting a command line into words\<close>

text \<open>Number of bytes of the white-space character at the head of the string, 0 if none.\<close>

definition ws_len :: "string \<Rightarrow> nat" where
  "ws_len s =
     (case s of [] \<Rightarrow> 0
      | a # t \<Rightarrow>
          if is_ws1 a then 1
          else case t of [] \<Rightarrow> 0
               | b # u \<Rightarrow>
                   if is_ws2 a b then 2
                   else case u of [] \<Rightarrow> 0 | c # _ \<Rightarrow> if is_ws3 a b c then 3 else 0)"

abbreviation is_quote :: "char \<Rightarrow> bool" where
  "is_quote c \<equiv> c = CHR 0x27 \<or> c = CHR 0x22"

function split_words_from ::
  "string list \<Rightarrow> string \<Rightarrow> char option \<Rightarrow> bool \<Rightarrow> string \<Rightarrow> string list" where
  "split_words_from words current quote escaped [] =
     (if current \<noteq> [] then words @ [current] else words)"
| "split_words_from words current quote escaped (c # s) =
     (if escaped then split_words_from words (current @ [c]) quote False s
      else if c = CHR 0x5C then split_words_from words current quote True s
      else if is_quote c \<and> quote = Some c then split_words_from words current None False s
      else if is_quote c \<and> quote = None then split_words_from words current (Some c) False s
      else if 0 < ws_len (c # s) \<and> quote = None then
        (if current \<noteq> [] then
           split_words_from (words @ [current]) [] quote False (drop (ws_len (c # s) - 1) s)
         else split_words_from words current quote False (drop (ws_len (c # s) - 1) s))
      else split_words_from words (current @ [c]) quote False s)"
  by pat_completeness auto
termination
  by (relation "measure (\<lambda>(words, current, quote, escaped, s). length s)") auto

definition split_command_words :: "string \<Rightarrow> string list" where
  "split_command_words raw = split_words_from [] [] None False raw"

definition shell_names :: "string list" where
  "shell_names = [''sh'', ''bash'', ''zsh'', ''/bin/sh'', ''/bin/bash'', ''/bin/zsh'']"

definition parse_command :: "string \<Rightarrow> command_action" where
  "parse_command raw =
     (let parts = split_command_words raw;
          executable = (case parts of [] \<Rightarrow> [] | p # _ \<Rightarrow> p);
          args = drop 1 parts
      in \<lparr>ca_executable = executable, ca_args = args, ca_raw = raw,
          ca_shell_wrapped = (executable \<in> set shell_names \<and> ''-c'' \<in> set args)\<rparr>)"

definition command_action_from_invocation :: "agent_invocation \<Rightarrow> command_action" where
  "command_action_from_invocation invocation =
     (let raw = str_join '' '' (in_executable invocation # in_args invocation)
      in \<lparr>ca_executable = in_executable invocation, ca_args = in_args invocation, ca_raw = raw,
          ca_shell_wrapped = ca_shell_wrapped (parse_command raw)\<rparr>)"

section \<open>Budget usage\<close>

definition normalize_budget_usage_text :: "string \<Rightarrow> string \<Rightarrow> string result" where
  "normalize_budget_usage_text field value =
     (let normalized = to_lower (trim value)
      in if normalized = [] then Inl (Policy (field @ '' must not be empty''))
         else Inr normalized)"

definition normalize_optional_budget_usage_text :: "string option \<Rightarrow> string option" where
  "normalize_optional_budget_usage_text value =
     (case value of None \<Rightarrow> None
      | Some v \<Rightarrow> if trim v = [] then None else Some (trim v))"

fun normalize_keys ::
  "taskfence_error \<Rightarrow> parameters \<Rightarrow> parameters \<Rightarrow> parameters result" where
  "normalize_keys err acc [] = Inr acc"
| "normalize_keys err acc ((key, value) # rest) =
     (if trim key = [] then Inl err
      else normalize_keys err (bt_insert (trim key) value acc) rest)"

definition budget_usage_normalized :: "budget_usage \<Rightarrow> budget_usage result" where
  "budget_usage_normalized u =
     rbind (normalize_budget_usage_text ''budget usage kind'' (bu_kind u)) (\<lambda>kind.
     if bu_amount u = 0 then Inl (Policy ''budget usage amount must be positive'')
     else
       rbind (normalize_keys (Policy ''budget usage metadata key must not be empty'') []
                (bu_metadata u)) (\<lambda>metadata.
       Inr (u\<lparr>bu_kind := kind,
              bu_provider := normalize_optional_budget_usage_text (bu_provider u),
              bu_model := normalize_optional_budget_usage_text (bu_model u),
              bu_operation := normalize_optional_budget_usage_text (bu_operation u),
              bu_metadata := metadata\<rparr>)))"

definition budget_limit_for :: "resolved_task \<Rightarrow> string \<Rightarrow> budget_limit option" where
  "budget_limit_for task kind =
     (let normalized = to_lower (trim kind)
      in find (\<lambda>limit. bl_kind limit = normalized) (bp_allow (pm_budget (rt_permissions task))))"

section \<open>Facts on word splitting\<close>

text \<open>A plain word has no quote, backslash or white space and is not empty.\<close>

fun plain_chars :: "string \<Rightarrow> bool" where
  "plain_chars [] = True"
| "plain_chars (c # s) =
     (c \<noteq> CHR 0x5C \<and> \<not> is_quote c \<and> 0 = ws_len (c # s @ '' '') \<and> plain_chars s)"

definition plain_word :: "string \<Rightarrow> bool" where
  "plain_word w \<longleftrightarrow> w \<noteq> [] \<and> plain_chars w"

lemma ws_len_append_space:
  "ws_len (c # s @ '' '') = 0 \<Longrightarrow> ws_len (c # s) = 0 \<and> ws_len (c # s @ '' '' @ t) = 0"
proof -
  have space: "\<not> is_ws2 a (CHR '' '')" "\<not> is_ws3 a (CHR '' '') b" "\<not> is_ws3 a b (CHR '' '')" for a b
    by (auto simp: is_ws2_def is_ws3_def)
  assume "ws_len (c # s @ '' '') = 0"
  then show ?thesis
    by (cases s rule: remdups_adj.cases) (auto simp: ws_len_def space split: if_splits list.splits)
qed

lemma split_words_plain_last:
  "plain_chars w \<Longrightarrow> current @ w \<noteq> [] \<Longrightarrow>
   split_words_from words current None False w = words @ [current @ w]"
proof (induction w arbitrary: current)
  case Nil
  then show ?case by simp
next
  case (Cons c w)
  then have "ws_len (c # w) = 0"
    using ws_len_append_space [of c w] by simp
  with Cons show ?case by simp
qed

lemma split_words_plain_step:
  "plain_chars w \<Longrightarrow> current @ w \<noteq> [] \<Longrightarrow>
   split_words_from words current None False (w @ '' '' @ rest) =
   split_words_from (words @ [current @ w]) [] None False rest"
proof (induction w arbitrary: current)
  case Nil
  then show ?case by (simp add: ws_len_def is_ws1_def)
next
  case (Cons c w)
  then have "ws_len (c # w @ '' '' @ rest) = 0"
    using ws_len_append_space [of c w rest] by simp
  with Cons show ?case by simp
qed

lemma split_words_join:
  assumes "\<forall>w \<in> set ws. plain_word w"
  shows "split_words_from words [] None False (str_join '' '' ws) = words @ ws"
  using assms
proof (induction ws arbitrary: words rule: induct_list012)
  case 1
  then show ?case by simp
next
  case (2 w)
  then show ?case
    using split_words_plain_last [of w "[]"] by (simp add: plain_word_def)
next
  case (3 w v ws)
  then have "plain_chars w" "w \<noteq> []" by (simp_all add: plain_word_def)
  then have "split_words_from words [] None False (w @ '' '' @ str_join '' '' (v # ws)) =
      split_words_from (words @ [w]) [] None False (str_join '' '' (v # ws))"
    using split_words_plain_step [of w "[]"] by simp
  with 3 show ?case by simp
qed


lemma split_command_words_join:
  "\<forall>w \<in> set ws. plain_word w \<Longrightarrow> split_command_words (str_join '' '' ws) = ws"
  by (simp add: split_command_words_def split_words_join)

text \<open>Every word the splitter returns is non-empty.\<close>

lemma split_words_nonempty:
  "\<forall>w \<in> set words. w \<noteq> [] \<Longrightarrow>
   w \<in> set (split_words_from words current quote escaped s) \<Longrightarrow> w \<noteq> []"
proof (induction words current quote escaped s rule: split_words_from.induct)
  case (1 words current quote escaped)
  then show ?case by (auto split: if_splits)
next
  case (2 words current quote escaped c s)
  then show ?case by (auto split: if_splits)
qed

text \<open>for an agent invocation made of plain words, re-splitting the joined command line
  gives back exactly the invocation's argv, so the command action is marked shell-wrapped
  precisely when the executable is a known shell and \<open>-c\<close> is one of the arguments.\<close>

theorem shell_wrapped_plain_invocation:
  assumes "plain_word (in_executable i)" and "\<forall>a \<in> set (in_args i). plain_word a"
  shows "split_command_words (ca_raw (command_action_from_invocation i)) =
           in_executable i # in_args i
       \<and> ca_shell_wrapped (command_action_from_invocation i) =
           (in_executable i \<in> set shell_names \<and> ''-c'' \<in> set (in_args i))"
proof -
  have "split_command_words (str_join '' '' (in_executable i # in_args i)) =
      in_executable i # in_args i"
    using assms by (intro split_command_words_join) auto
  then show ?thesis
    by (simp add: command_action_from_invocation_def parse_command_def Let_def)
qed

definition sample_invocation :: "string \<Rightarrow> string list \<Rightarrow> agent_invocation" where
  "sample_invocation e as =
     \<lparr>in_executable = e, in_args = as, in_env = [], in_working_dir = ''/workspace''\<rparr>"

theorem shell_wrapped_plain_invocation_witness:
  "ca_shell_wrapped (command_action_from_invocation
     (sample_invocation ''sh'' [''-c'', ''ls'']))"
proof -
  let ?i = "sample_invocation ''sh'' [''-c'', ''ls'']"
  have "plain_word (in_executable ?i)" "\<forall>a \<in> set (in_args ?i). plain_word a"
    by (simp_all add: sample_invocation_def plain_word_def ws_len_def str_defs)
  from shell_wrapped_plain_invocation [OF this] show ?thesis
    by (simp add: sample_invocation_def shell_names_def)
qed

text \<open>
  the re-splitting loses the argv boundary of an argument with a quote. The argv
  \<open>bash --rcfile it's -c cmd\<close> passes \<open>-c\<close> to the shell, yet its command action is not
  marked shell-wrapped.
\<close>

theorem shell_wrapped_missed:
  "''-c'' \<in> set (in_args (sample_invocation ''bash'' [''--rcfile'', ''it'' @ [CHR 0x27] @ ''s'', ''-c'', ''cmd'']))
   \<and> \<not> ca_shell_wrapped (command_action_from_invocation
       (sample_invocation ''bash'' [''--rcfile'', ''it'' @ [CHR 0x27] @ ''s'', ''-c'', ''cmd'']))"
  by (simp add: sample_invocation_def command_action_from_invocation_def parse_command_def
      split_command_words_def ws_len_def str_defs shell_names_def)

section \<open>Facts on budget usage\<close>

lemma normalize_keys_ok:
  "normalize_keys err acc ps = Inr m \<Longrightarrow> bt_ok acc \<Longrightarrow>
   \<forall>k \<in> fst ` set acc. k \<noteq> [] \<and> trim k = k \<Longrightarrow>
   bt_ok m \<and> (\<forall>k \<in> fst ` set m. k \<noteq> [] \<and> trim k = k)"
proof (induction err acc ps rule: normalize_keys.induct)
  case (1 err acc)
  then show ?case by simp
next
  case (2 err acc key val ps)
  from "2.prems"(1) have ne: "trim key \<noteq> []"
    and rest: "normalize_keys err (bt_insert (trim key) val acc) ps = Inr m"
    by (simp_all split: if_splits)
  have "bt_ok (bt_insert (trim key) val acc)"
    using "2.prems"(2) by (rule bt_ok_insert)
  moreover have "\<forall>k \<in> fst ` set (bt_insert (trim key) val acc). k \<noteq> [] \<and> trim k = k"
    unfolding set_bt_insert using ne "2.prems"(3) by simp
  ultimately show ?case
    using "2.IH" ne rest by blast
qed

lemma normalize_keys_error: "normalize_keys err acc ps = Inl e \<Longrightarrow> e = err"
  by (induction err acc ps rule: normalize_keys.induct) (auto split: if_splits)


lemma normalize_keys_append:
  "bt_ok m \<Longrightarrow> \<forall>k \<in> fst ` set m. k \<noteq> [] \<and> trim k = k \<Longrightarrow>
   \<forall>k \<in> fst ` set acc. \<forall>k' \<in> fst ` set m. k < k' \<Longrightarrow>
   normalize_keys err acc m = Inr (acc @ m)"
proof (induction err acc m rule: normalize_keys.induct)
  case (1 err acc)
  then show ?case by simp
next
  case (2 err acc key val m)
  from "2.prems"(2) have key: "trim key = key" "key \<noteq> []" by simp_all
  have ins: "bt_insert key val acc = acc @ [(key, val)]"
    using "2.prems"(3) by (intro bt_insert_last) simp
  have "\<forall>k \<in> fst ` set (acc @ [(key, val)]). \<forall>k' \<in> fst ` set m. k < k'"
    using "2.prems"(1,3) by (auto simp: bt_ok_def)
  moreover have "bt_ok m"
    using "2.prems"(1) by (simp add: bt_ok_def)
  ultimately show ?case
    using "2.IH" "2.prems"(2) key ins by simp
qed

lemma normalize_keys_fixed:
  "bt_ok m \<Longrightarrow> \<forall>k \<in> fst ` set m. k \<noteq> [] \<and> trim k = k \<Longrightarrow> normalize_keys err [] m = Inr m"
  using normalize_keys_append [of m "[]"] by simp

lemma normalize_keys_idem:
  "normalize_keys err [] ps = Inr m \<Longrightarrow> normalize_keys err' [] m = Inr m"
  using normalize_keys_ok [of err "[]" ps m] normalize_keys_fixed [of m]
  by (simp add: bt_ok_def)

lemma normalize_optional_idem [simp]:
  "normalize_optional_budget_usage_text (normalize_optional_budget_usage_text v) =
   normalize_optional_budget_usage_text v"
  by (auto simp: normalize_optional_budget_usage_text_def split: option.splits)

text \<open>normalising a reported budget usage yields a usage whose kind is a non-empty
  trimmed lower-case name, whose amount is positive and whose metadata keys are non-empty
  and trimmed, and normalising it again changes nothing.\<close>

theorem budget_usage_normalized_idempotent:
  assumes "budget_usage_normalized u = Inr u'"
  shows "budget_usage_normalized u' = Inr u'
    \<and> bu_kind u' \<noteq> [] \<and> bu_kind u' = to_lower (trim (bu_kind u))
    \<and> bu_amount u' = bu_amount u \<and> 0 < bu_amount u'
    \<and> bt_ok (bu_metadata u') \<and> (\<forall>k \<in> fst ` set (bu_metadata u'). k \<noteq> [] \<and> trim k = k)"
proof -
  from assms obtain m where
    kind: "to_lower (trim (bu_kind u)) \<noteq> []" and amount: "bu_amount u \<noteq> 0" and
    m: "normalize_keys (Policy ''budget usage metadata key must not be empty'') []
          (bu_metadata u) = Inr m" and
    u': "u' = u\<lparr>bu_kind := to_lower (trim (bu_kind u)),
              bu_provider := normalize_optional_budget_usage_text (bu_provider u),
              bu_model := normalize_optional_budget_usage_text (bu_model u),
              bu_operation := normalize_optional_budget_usage_text (bu_operation u),
              bu_metadata := m\<rparr>"
    by (auto simp: budget_usage_normalized_def normalize_budget_usage_text_def Let_def
        rbind_Inr_iff split: if_splits)
  have keys: "bt_ok m \<and> (\<forall>k \<in> fst ` set m. k \<noteq> [] \<and> trim k = k)"
    using normalize_keys_ok [OF m] by (simp add: bt_ok_def)
  have "budget_usage_normalized u' = Inr u'"
    using kind amount normalize_keys_idem [OF m]
    by (simp add: u' budget_usage_normalized_def normalize_budget_usage_text_def Let_def)
  with keys kind amount show ?thesis
    by (simp add: u' word_gt_0)
qed

definition sample_usage :: "string \<Rightarrow> u64 \<Rightarrow> budget_usage" where
  "sample_usage kind amount =
     \<lparr>bu_kind = kind, bu_amount = amount, bu_provider = Some ''github'', bu_model = None,
      bu_operation = None, bu_metadata = [(''run'', Plain ''1'')]\<rparr>"

theorem budget_usage_normalized_idempotent_witness:
  "budget_usage_normalized (sample_usage ''tokens'' 7) = Inr (sample_usage ''tokens'' 7)
   \<and> 0 < bu_amount (sample_usage ''tokens'' 7)"
proof -
  have "budget_usage_normalized (sample_usage '' Tokens '' 7) = Inr (sample_usage ''tokens'' 7)"
    by code_simp
  from budget_usage_normalized_idempotent [OF this] show ?thesis by blast
qed

end
