(* ===== verification/Orchestrator.thy ===== *)
theory Orchestrator
  imports Core_Command
begin

text \<open>
  The task orchestrator of \<open>crates/taskfence-core/src/lib.rs\<close> (\<open>Orchestrator::run\<close> and its
  helpers). The eight trait objects it drives are the parameter \<open>orch_env\<close>: one response
  function per trait method, which sees the whole history of calls made so far, so that any
  stateful implementation of the traits is covered. The state of a run is the \<open>events\<close> vector
  and the log of the calls with their results.
\<close>

section \<open>Calls, environment and state\<close>

datatype call =
    CSetStatus task_id task_status "unit result"
  | CAudit audit_event "unit result"
  | CBuildInvocation "agent_invocation result"
  | CCreateTaskDir "artifact_refs result"
  | CWriteResolvedTask "path result"
  | CWriteLog log_stream string "path result"
  | CCaptureBaseline "workspace_baseline result"
  | CCollectDiff workspace_baseline "path option result"
  | CEvaluate action "action_decision result"
  | CRequest action action_decision "approval_record result"
  | CWait approval_id "approval_record result"
  | CPrepare "prepared_run result"
  | CStart prepared_run agent_invocation "running_task result"
  | CStop running_task "unit result"
  | CCollectExit running_task "run_output result"
  | CGenerate artifact_refs "audit_event list" "path result"

record orch_env =
  oe_now :: "call list \<Rightarrow> time"
  oe_set_status :: "call list \<Rightarrow> task_id \<Rightarrow> task_status \<Rightarrow> unit result"
  oe_audit :: "call list \<Rightarrow> audit_event \<Rightarrow> unit result"
  oe_build_invocation :: "call list \<Rightarrow> resolved_task \<Rightarrow> agent_invocation result"
  oe_create_task_dir :: "call list \<Rightarrow> resolved_task \<Rightarrow> artifact_refs result"
  oe_write_resolved_task :: "call list \<Rightarrow> resolved_task \<Rightarrow> path result"
  oe_write_log :: "call list \<Rightarrow> resolved_task \<Rightarrow> log_stream \<Rightarrow> string \<Rightarrow> path result"
  oe_capture_baseline :: "call list \<Rightarrow> resolved_task \<Rightarrow> workspace_baseline result"
  oe_collect_diff :: "call list \<Rightarrow> resolved_task \<Rightarrow> workspace_baseline \<Rightarrow> path option result"
  oe_evaluate :: "call list \<Rightarrow> resolved_task \<Rightarrow> action \<Rightarrow> action_decision result"
  oe_request ::
    "call list \<Rightarrow> resolved_task \<Rightarrow> action \<Rightarrow> action_decision \<Rightarrow> approval_record result"
  oe_wait :: "call list \<Rightarrow> approval_id \<Rightarrow> approval_record result"
  oe_prepare :: "call list \<Rightarrow> resolved_task \<Rightarrow> prepared_run result"
  oe_start :: "call list \<Rightarrow> prepared_run \<Rightarrow> agent_invocation \<Rightarrow> running_task result"
  oe_stop :: "call list \<Rightarrow> running_task \<Rightarrow> unit result"
  oe_collect_exit :: "call list \<Rightarrow> running_task \<Rightarrow> run_output result"
  oe_generate ::
    "call list \<Rightarrow> resolved_task \<Rightarrow> artifact_refs \<Rightarrow> audit_event list \<Rightarrow> path result"

record orch_state =
  os_events :: "audit_event list"
  os_log :: "call list"

type_synonym 'a orch = "orch_state \<Rightarrow> 'a result \<times> orch_state"

text \<open>One call of a trait method: its response is logged with it.\<close>

definition perform :: "(call list \<Rightarrow> 'a result) \<Rightarrow> ('a result \<Rightarrow> call) \<Rightarrow> 'a orch" where
  "perform resp mk s =
     (let r = resp (os_log s) in (r, s\<lparr>os_log := os_log s @ [mk r]\<rparr>))"

section \<open>Helpers of the orchestrator\<close>

definition record_event :: "orch_env \<Rightarrow> audit_event \<Rightarrow> unit orch" where
  "record_event env event =
     sbind (perform (\<lambda>h. oe_audit env h event) (CAudit event)) (\<lambda>_ s.
       (Inr (), s\<lparr>os_events := os_events s @ [event]\<rparr>))"

text \<open>An event stamped with \<open>OffsetDateTime::now_utc()\<close>.\<close>

definition record_now :: "orch_env \<Rightarrow> (time \<Rightarrow> audit_event) \<Rightarrow> unit orch" where
  "record_now env mk s = record_event env (mk (oe_now env (os_log s))) s"

definition record_error :: "orch_env \<Rightarrow> task_id \<Rightarrow> string \<Rightarrow> unit orch" where
  "record_error env tid message = record_now env (\<lambda>t. Error tid t message)"

definition transition :: "orch_env \<Rightarrow> task_id \<Rightarrow> task_status \<Rightarrow> unit orch" where
  "transition env tid status =
     sbind (perform (\<lambda>h. oe_set_status env h tid status) (CSetStatus tid status)) (\<lambda>_.
       record_now env (\<lambda>t. TaskStatusChanged tid t status))"

definition generate_report :: "orch_env \<Rightarrow> resolved_task \<Rightarrow> artifact_refs \<Rightarrow> unit orch" where
  "generate_report env task artifacts =
     sbind (\<lambda>s. perform (\<lambda>h. oe_generate env h task artifacts (os_events s))
                  (CGenerate artifacts (os_events s)) s) (\<lambda>report_path.
       record_now env (\<lambda>t. Artifact (rt_id task) t ''report'' report_path))"

definition has_status :: "audit_event list \<Rightarrow> task_status \<Rightarrow> bool" where
  "has_status events expected \<longleftrightarrow>
     list_ex (\<lambda>e. case e of TaskStatusChanged _ _ status \<Rightarrow> status = expected | _ \<Rightarrow> False) events"

definition record_stream_log ::
  "orch_env \<Rightarrow> resolved_task \<Rightarrow> log_stream \<Rightarrow> string \<Rightarrow> string \<Rightarrow> unit orch" where
  "record_stream_log env task stream kind text =
     sbind (perform (\<lambda>h. oe_write_log env h task stream text) (CWriteLog stream text)) (\<lambda>path.
     sbind (record_now env (\<lambda>t. Artifact (rt_id task) t kind path)) (\<lambda>_.
       record_now env (\<lambda>t. Log (rt_id task)
         \<lparr>lc_stream = stream, lc_text = text, lc_timestamp = t\<rparr>)))"

definition record_run_logs :: "orch_env \<Rightarrow> resolved_task \<Rightarrow> run_output \<Rightarrow> unit orch" where
  "record_run_logs env task out =
     sbind (if cap_stdout (au_capture (rt_audit task)) \<and> ro_stdout out \<noteq> []
            then record_stream_log env task Stdout ''stdout'' (ro_stdout out)
            else sreturn ()) (\<lambda>_.
       if cap_stderr (au_capture (rt_audit task)) \<and> ro_stderr out \<noteq> []
       then record_stream_log env task Stderr ''stderr'' (ro_stderr out)
       else sreturn ())"

definition evaluate_or_request_approval ::
  "orch_env \<Rightarrow> resolved_task \<Rightarrow> action \<Rightarrow> unit orch" where
  "evaluate_or_request_approval env task action =
     sbind (perform (\<lambda>h. oe_evaluate env h task action) (CEvaluate action)) (\<lambda>decision.
     sbind (record_now env (\<lambda>t. PolicyDecision (rt_id task) t action decision)) (\<lambda>_.
       case decision of
         Allow _ _ \<Rightarrow> sreturn ()
       | Deny _ reason \<Rightarrow>
           sbind (transition env (rt_id task) Denied) (\<lambda>_. sfail (Policy reason))
       | RequireApproval _ _ _ _ \<Rightarrow>
           sbind (transition env (rt_id task) WaitingForApproval) (\<lambda>_.
           sbind (perform (\<lambda>h. oe_request env h task action decision)
                    (CRequest action decision)) (\<lambda>requested.
           sbind (record_event env (ApprovalRequested requested)) (\<lambda>_.
           sbind (perform (\<lambda>h. oe_wait env h (ar_id requested)) (CWait (ar_id requested)))
             (\<lambda>resolved.
           sbind (record_event env (ApprovalResolved resolved)) (\<lambda>_.
             if ar_decision resolved = Some Approved then sreturn ()
             else sbind (transition env (rt_id task) Denied) (\<lambda>_.
                    sfail (Approval ''approval denied or timed out'')))))))))"

definition result_of ::
  "resolved_task \<Rightarrow> task_status \<Rightarrow> exit_status option \<Rightarrow> artifact_refs \<Rightarrow> string option \<Rightarrow>
   task_result" where
  "result_of task status exit artifacts message =
     \<lparr>rs_task_id = rt_id task, rs_status = status, rs_exit_status = exit,
      rs_artifacts = artifacts, rs_message = message\<rparr>"

definition finish_pre_run_failure ::
  "orch_env \<Rightarrow> resolved_task \<Rightarrow> artifact_refs \<Rightarrow> taskfence_error \<Rightarrow> task_result orch" where
  "finish_pre_run_failure env task artifacts err =
     sbind (\<lambda>s. if has_status (os_events s) Denied then sreturn Denied s
                else sbind (transition env (rt_id task) Failed) (\<lambda>_. sreturn Failed) s)
       (\<lambda>status.
     sbind (record_error env (rt_id task) (error_display err)) (\<lambda>_.
     stry (generate_report env task artifacts)
       (\<lambda>report_err.
          sbind (record_error env (rt_id task) (error_display report_err)) (\<lambda>_.
          sbind (transition env (rt_id task) Failed) (\<lambda>_.
            sreturn (result_of task Failed None artifacts (Some (error_display report_err))))))
       (\<lambda>_. sreturn (result_of task status None artifacts (Some (error_display err))))))"

section \<open>The run\<close>

text \<open>A runner error after the start: the common body of the two error arms of \<open>run\<close>.\<close>

definition run_failed ::
  "orch_env \<Rightarrow> resolved_task \<Rightarrow> artifact_refs \<Rightarrow> taskfence_error \<Rightarrow> task_result orch" where
  "run_failed env task artifacts err =
     sbind (record_error env (rt_id task) (error_display err)) (\<lambda>_.
     sbind (transition env (rt_id task) Failed) (\<lambda>_.
     stry (generate_report env task artifacts)
       (\<lambda>_. sreturn (result_of task Failed None artifacts (Some (error_display err))))
       (\<lambda>_. sreturn (result_of task Failed None artifacts (Some (error_display err))))))"

definition collect_diff_stage ::
  "orch_env \<Rightarrow> resolved_task \<Rightarrow> workspace_baseline \<Rightarrow> string option \<Rightarrow> string option orch" where
  "collect_diff_stage env task baseline failure =
     (if cap_file_diff (au_capture (rt_audit task)) then
        stry (perform (\<lambda>h. oe_collect_diff env h task baseline) (CCollectDiff baseline))
          (\<lambda>err. sbind (record_error env (rt_id task) (error_display err)) (\<lambda>_.
             sreturn (if failure = None then Some (error_display err) else failure)))
          (\<lambda>diff. case diff of
             Some diff_path \<Rightarrow>
               sbind (record_now env (\<lambda>t. Artifact (rt_id task) t ''diff'' diff_path)) (\<lambda>_.
                 sreturn failure)
           | None \<Rightarrow> sreturn failure)
      else sreturn failure)"

definition final_status_of :: "string option \<Rightarrow> exit_status \<Rightarrow> task_status" where
  "final_status_of failure exit =
     (if failure \<noteq> None then Failed
      else if ex_timed_out exit then TimedOut
      else if ex_code exit = Some 0 then Succeeded
      else Failed)"

definition run_finished ::
  "orch_env \<Rightarrow> resolved_task \<Rightarrow> artifact_refs \<Rightarrow> workspace_baseline \<Rightarrow> run_output \<Rightarrow>
   task_result orch" where
  "run_finished env task artifacts baseline out =
     sbind (stry (record_run_logs env task out)
              (\<lambda>err. sbind (record_error env (rt_id task) (error_display err)) (\<lambda>_.
                 sreturn (Some (error_display err))))
              (\<lambda>_. sreturn None)) (\<lambda>failure.
     sbind (record_now env (\<lambda>t. RunnerExit (rt_id task) t (ro_exit_status out))) (\<lambda>_.
     sbind (transition env (rt_id task) CollectingArtifacts) (\<lambda>_.
     sbind (collect_diff_stage env task baseline failure) (\<lambda>failure'.
     let final_status = final_status_of failure' (ro_exit_status out) in
     sbind (transition env (rt_id task) Reporting) (\<lambda>_.
     sbind (transition env (rt_id task) final_status) (\<lambda>_.
     stry (generate_report env task artifacts)
       (\<lambda>err.
          sbind (record_error env (rt_id task) (error_display err)) (\<lambda>_.
          sbind (transition env (rt_id task) Failed) (\<lambda>_.
            sreturn (result_of task Failed (Some (ro_exit_status out)) artifacts
                       (Some (error_display err))))))
       (\<lambda>_. sreturn (result_of task final_status (Some (ro_exit_status out)) artifacts
                      failure'))))))))"

definition run_approved ::
  "orch_env \<Rightarrow> resolved_task \<Rightarrow> artifact_refs \<Rightarrow> agent_invocation \<Rightarrow> task_result orch" where
  "run_approved env task artifacts invocation =
     sbind (perform (\<lambda>h. oe_capture_baseline env h task) CCaptureBaseline) (\<lambda>baseline.
     sbind (perform (\<lambda>h. oe_prepare env h task) CPrepare) (\<lambda>prepared.
     sbind (transition env (rt_id task) Running) (\<lambda>_.
     stry (perform (\<lambda>h. oe_start env h prepared invocation) (CStart prepared invocation))
       (\<lambda>err. run_failed env task artifacts err)
       (\<lambda>running.
          stry (perform (\<lambda>h. oe_collect_exit env h running) (CCollectExit running))
            (\<lambda>err. stry (perform (\<lambda>h. oe_stop env h running) (CStop running))
                      (\<lambda>_. run_failed env task artifacts err)
                      (\<lambda>_. run_failed env task artifacts err))
            (\<lambda>out. run_finished env task artifacts baseline out)))))"

definition run :: "orch_env \<Rightarrow> resolved_task \<Rightarrow> task_result orch" where
  "run env task =
     sbind (transition env (rt_id task) Created) (\<lambda>_.
     sbind (record_now env (\<lambda>t. TaskCreated (rt_id task) t (rt_goal task))) (\<lambda>_.
     sbind (transition env (rt_id task) Validating) (\<lambda>_.
     sbind (perform (\<lambda>h. oe_build_invocation env h task) CBuildInvocation) (\<lambda>invocation.
     let command_action = command_action_from_invocation invocation in
     sbind (transition env (rt_id task) Preparing) (\<lambda>_.
     sbind (perform (\<lambda>h. oe_create_task_dir env h task) CCreateTaskDir) (\<lambda>artifacts.
     sbind (perform (\<lambda>h. oe_write_resolved_task env h task) CWriteResolvedTask) (\<lambda>_.
     stry (evaluate_or_request_approval env task (Command command_action))
       (\<lambda>err. finish_pre_run_failure env task artifacts err)
       (\<lambda>_. run_approved env task artifacts invocation))))))))"

definition initial_state :: orch_state where
  "initial_state = \<lparr>os_events = [], os_log = []\<rparr>"

section \<open>Validation before a run\<close>

fun risk_debug :: "risk_level \<Rightarrow> string" where
  "risk_debug Low = ''Low''"
| "risk_debug Medium = ''Medium''"
| "risk_debug High = ''High''"
| "risk_debug Critical = ''Critical''"

fun action_decision_summary :: "action_decision \<Rightarrow> string" where
  "action_decision_summary (Allow _ reason) = ''allow: '' @ reason"
| "action_decision_summary (RequireApproval kind _ reason risk) =
     ''requires '' @ kind @ '' approval: '' @ reason @ ''; risk '' @ risk_debug risk"
| "action_decision_summary (Deny _ reason) = ''deny: '' @ reason"

definition validate_task_for_run ::
  "(resolved_task \<Rightarrow> agent_invocation result) \<Rightarrow>
   (resolved_task \<Rightarrow> action \<Rightarrow> action_decision result) \<Rightarrow>
   (resolved_task \<Rightarrow> prepared_run result) \<Rightarrow> resolved_task \<Rightarrow> task_validation result" where
  "validate_task_for_run build_invocation evaluate prepare task =
     rbind (build_invocation task) (\<lambda>invocation.
     let command_action = command_action_from_invocation invocation in
     rbind (evaluate task (Command command_action)) (\<lambda>decision.
     if is_deny decision then
       Inl (Policy (''planned agent command rejected: '' @ action_decision_summary decision))
     else
       rbind (prepare task) (\<lambda>prepared.
       Inr \<lparr>tv_task_id = rt_id task, tv_workspace_host_path = rt_workspace_host_path task,
            tv_invocation = invocation, tv_command_action = command_action,
            tv_command_decision = decision, tv_prepared = prepared\<rparr>)))"

end
