(* ===== verification/Orchestrator_Safety.thy ===== *)
theory Orchestrator_Safety
  imports Orchestrator
begin

text \<open>
  Invariants of the orchestrator. The locales \<open>orch_quiet\<close>, \<open>orch_invariant\<close> and
  \<open>orch_full_invariant\<close> say what an invariant owes to the single calls and prove that the
  helpers, the stages and the whole run keep it; they are interpreted on the audit invariant,
  on the monotone facts about the call log, on the start gate and on the status life cycle.
\<close>

section \<open>Invariants of the helpers, the stages and the run\<close>

fun plain_call :: "call \<Rightarrow> bool" where
  "plain_call (CSetStatus _ _ _) = False"
| "plain_call (CAudit _ _) = False"
| "plain_call (CStart _ _ _) = False"
| "plain_call (CGenerate _ _ _) = False"
| "plain_call (CCollectExit _ _) = False"
| "plain_call (CEvaluate _ _) = False"
| "plain_call _ = True"

locale orch_quiet =
  fixes J :: "orch_state \<Rightarrow> bool" and env :: orch_env and ok_event :: "audit_event \<Rightarrow> bool"
  assumes event: "ok_event e \<Longrightarrow> preserves J (record_event env e)"
    and report: "preserves J (\<lambda>s. perform (\<lambda>h. oe_generate env h task artifacts (os_events s))
                   (CGenerate artifacts (os_events s)) s)"
    and plain: "plain_call c \<Longrightarrow> J s \<Longrightarrow> J (s\<lparr>os_log := os_log s @ [c]\<rparr>)"
    and ok_other: "(\<And>tid t st. e \<noteq> TaskStatusChanged tid t st) \<Longrightarrow> ok_event e"
begin

lemma step: "(\<And>r. plain_call (mk r)) \<Longrightarrow> preserves J (perform resp mk)"
  using plain by (auto simp: preserves_def hoare_def wp_def perform_def Let_def split: sum.splits)

lemma now: "(\<And>t. ok_event (mk t)) \<Longrightarrow> preserves J (record_now env mk)"
  using event by (auto simp: preserves_def hoare_def record_now_def [abs_def] wp_def)

lemma error: "preserves J (record_error env tid m)"
  by (simp add: record_error_def now ok_other)

lemma generate: "preserves J (generate_report env task artifacts)"
  unfolding generate_report_def by (intro hoare_rules report now ok_other) simp

lemma stream_log: "preserves J (record_stream_log env task stream kind text)"
  unfolding record_stream_log_def by (intro hoare_rules step now ok_other) simp_all

lemma run_logs: "preserves J (record_run_logs env task out)"
  unfolding record_run_logs_def by (auto intro!: hoare_rules stream_log)

lemma diff_stage: "preserves J (collect_diff_stage env task baseline failure)"
proof -
  have "preserves J (case diff of
             Some diff_path \<Rightarrow>
               sbind (record_now env (\<lambda>t. Artifact (rt_id task) t ''diff'' diff_path)) (\<lambda>_.
                 sreturn failure)
           | None \<Rightarrow> sreturn failure)" for diff
    by (cases diff) (auto intro!: hoare_rules now ok_other)
  then show ?thesis
    unfolding collect_diff_stage_def by (auto intro!: hoare_rules step error)
qed

end

locale orch_invariant = orch_quiet +
  fixes task :: resolved_task
  assumes status: "preserves J (perform (\<lambda>h. oe_set_status env h tid st) (CSetStatus tid st))"
    and decide: "preserves J (perform (\<lambda>h. oe_evaluate env h task a) (CEvaluate a))"
    and ok_all: "ok_event e"
begin

lemma trans: "preserves J (transition env tid st)"
  unfolding transition_def by (intro hoare_rules status now ok_all)

lemma approval_gate: "preserves J (evaluate_or_request_approval env task a)"
  unfolding evaluate_or_request_approval_def
  by (intro hoare_rules decide step now)
    (auto simp: ok_all split: action_decision.splits intro!: hoare_rules step event trans)

lemma pre_run_failure: "preserves J (finish_pre_run_failure env task artifacts err)"
  unfolding finish_pre_run_failure_def
  by (intro hoare_rules error generate trans)

lemma failed: "preserves J (run_failed env task artifacts err)"
  unfolding run_failed_def by (intro hoare_rules error generate trans)

lemma finished: "preserves J (run_finished env task artifacts baseline out)"
  unfolding run_finished_def Let_def
  by (intro hoare_rules error generate trans run_logs now diff_stage ok_all)

end

locale orch_full_invariant = orch_invariant +
  assumes start: "preserves J (perform (\<lambda>h. oe_start env h prepared invocation)
                   (CStart prepared invocation))"
    and collect: "preserves J (perform (\<lambda>h. oe_collect_exit env h running) (CCollectExit running))"
begin

lemma approved: "preserves J (run_approved env task artifacts invocation)"
  unfolding run_approved_def
  by (intro hoare_rules failed finished trans start collect step) simp_all

lemma whole_run: "preserves J (run env task)"
  unfolding run_def Let_def
  by (intro hoare_rules trans now step approval_gate approved pre_run_failure ok_all) simp_all

end

lemma preserves_record_event:
  assumes "\<And>s r. J s \<Longrightarrow> r = oe_audit env (os_log s) e \<Longrightarrow>
      (case r of Inl err \<Rightarrow> J (s\<lparr>os_log := os_log s @ [CAudit e r]\<rparr>)
       | Inr u \<Rightarrow> J (s\<lparr>os_log := os_log s @ [CAudit e r], os_events := os_events s @ [e]\<rparr>))"
  shows "preserves J (record_event env e)"
proof -
  have "wp (record_event env e) (\<lambda>_. J) (\<lambda>_. J) s" if "J s" for s
    using assms [OF that refl]
    unfolding record_event_def wp_sbind
    by (auto simp: wp_def perform_def Let_def split: sum.splits)
  then show ?thesis by (simp add: preserves_def hoare_def)
qed

section \<open>Every logged decision is the policy's\<close>

fun decided_by :: "orch_env \<Rightarrow> resolved_task \<Rightarrow> call list \<Rightarrow> call \<Rightarrow> bool" where
  "decided_by env task pre (CEvaluate a r) = (r = oe_evaluate env pre task a)"
| "decided_by env task pre c = True"

definition policy_inv :: "orch_env \<Rightarrow> resolved_task \<Rightarrow> orch_state \<Rightarrow> bool" where
  "policy_inv env task s \<longleftrightarrow> each_call (decided_by env task) (os_log s)"

lemma plain_decided: "plain_call c \<Longrightarrow> decided_by env task pre c"
  by (cases c) auto

interpretation policy: orch_full_invariant "policy_inv env task" env "\<lambda>_. True" task for env task
proof (standard, goal_cases)
  case (1 e)
  show ?case by (rule preserves_record_event) (auto simp: policy_inv_def split: sum.splits)
next
  case (3 c s)
  then show ?case by (simp add: policy_inv_def plain_decided)
qed (auto simp: policy_inv_def preserves_def hoare_def wp_def perform_def Let_def
      split: sum.splits)

lemma run_policy_inv:
  "each_call (decided_by env task) (os_log (snd (run env task initial_state)))"
  using preservesD [OF policy.whole_run [of env task], of initial_state]
  by (cases "run env task initial_state") (simp add: policy_inv_def initial_state_def)

section \<open>Facts that only grow with the log\<close>

definition logged :: "call set \<Rightarrow> orch_state \<Rightarrow> bool" where
  "logged C s \<longleftrightarrow> C \<subseteq> set (os_log s)"

interpretation logged: orch_full_invariant "logged C" env "\<lambda>_. True" task for C env task
proof (standard, goal_cases)
  case (1 e)
  show ?case by (rule preserves_record_event) (auto simp: logged_def split: sum.splits)
qed (auto simp: logged_def preserves_def hoare_def wp_def perform_def Let_def split: sum.splits)

lemma perform_logged:
  "hoare (logged C) (perform resp mk) (\<lambda>x. logged (insert (mk (Inr x)) C)) (\<lambda>_. logged C)"
  by (auto simp: hoare_def wp_def perform_def Let_def logged_def split: sum.splits)

text \<open>The answer of a call is one that the environment gave.\<close>

lemma perform_answer:
  assumes "preserves J (perform resp mk)"
  shows "hoare J (perform resp mk) (\<lambda>x s. J s \<and> (\<exists>h. resp h = Inr x)) (\<lambda>_. J)"
  using assms unfolding preserves_def hoare_def
  by (auto simp: wp_def perform_def Let_def split: sum.splits)

lemma hoare_pure: "(A \<Longrightarrow> hoare P m Q E) \<Longrightarrow> hoare (\<lambda>s. P s \<and> A) m Q E"
  by (auto simp: hoare_def)

section \<open>The audit trail and the reports\<close>

text \<open>The events that the audit logger accepted, in order.\<close>

fun audited_event :: "call \<Rightarrow> audit_event option" where
  "audited_event (CAudit e (Inr _)) = Some e"
| "audited_event _ = None"

definition audited :: "call list \<Rightarrow> audit_event list" where
  "audited log = List.map_filter audited_event log"

lemma audited_Nil [simp]: "audited [] = []"
  by (simp add: audited_def List.map_filter_def)

lemma audited_snoc [simp]:
  "audited (log @ [c]) = audited log @ (case audited_event c of None \<Rightarrow> [] | Some e \<Rightarrow> [e])"
  by (auto simp: audited_def List.map_filter_def split: option.splits)

fun report_from_audit :: "call list \<Rightarrow> call \<Rightarrow> bool" where
  "report_from_audit pre (CGenerate artifacts events r) = (events = audited pre)"
| "report_from_audit pre c = True"

definition audit_inv :: "orch_state \<Rightarrow> bool" where
  "audit_inv s \<longleftrightarrow>
     os_events s = audited (os_log s) \<and> each_call report_from_audit (os_log s)"

lemma plain_call_facts:
  "plain_call c \<Longrightarrow> audited_event c = None \<and> report_from_audit pre c"
  by (cases c) auto

interpretation audit: orch_full_invariant audit_inv env "\<lambda>_. True" task for env task
proof (standard, goal_cases)
  case (1 e)
  show ?case by (rule preserves_record_event) (auto simp: audit_inv_def split: sum.splits)
next
  case (3 c s)
  then show ?case by (simp add: audit_inv_def plain_call_facts)
qed (auto simp: audit_inv_def preserves_def hoare_def wp_def perform_def Let_def split: sum.splits)

section \<open>Nothing starts without authorisation\<close>

text \<open>
  An action is authorised by a log in which the policy engine allowed it, or required approval
  for it and the approval requested for that decision was resolved as approved.
\<close>

definition authorised :: "action \<Rightarrow> call list \<Rightarrow> bool" where
  "authorised a log \<longleftrightarrow>
     (\<exists>d. CEvaluate a (Inr d) \<in> set log \<and>
        (is_allow d \<or>
         needs_approval d \<and>
         (\<exists>req res. CRequest a d (Inr req) \<in> set log \<and> CWait (ar_id req) (Inr res) \<in> set log \<and>
            ar_decision res = Some Approved)))"

lemma authorised_mono: "authorised a log \<Longrightarrow> set log \<subseteq> set log' \<Longrightarrow> authorised a log'"
  unfolding authorised_def by blast

fun start_authorised :: "call list \<Rightarrow> call \<Rightarrow> bool" where
  "start_authorised pre (CStart prepared invocation r) =
     authorised (Command (command_action_from_invocation invocation)) pre"
| "start_authorised pre c = True"

text \<open>The same with the approval given by the environment itself, which is what is proved.\<close>

definition authorised_by :: "orch_env \<Rightarrow> action \<Rightarrow> call list \<Rightarrow> bool" where
  "authorised_by env a log \<longleftrightarrow>
     (\<exists>d. CEvaluate a (Inr d) \<in> set log \<and>
        (is_allow d \<or>
         needs_approval d \<and>
         (\<exists>req res. CRequest a d (Inr req) \<in> set log \<and> CWait (ar_id req) (Inr res) \<in> set log \<and>
            ar_decision res = Some Approved \<and> (\<exists>h. oe_wait env h (ar_id req) = Inr res))))"

lemma authorised_by_mono:
  "authorised_by env a log \<Longrightarrow> set log \<subseteq> set log' \<Longrightarrow> authorised_by env a log'"
  unfolding authorised_by_def by blast

lemma authorised_by_authorised: "authorised_by env a log \<Longrightarrow> authorised a log"
  unfolding authorised_by_def authorised_def by blast

fun start_authorised_by :: "orch_env \<Rightarrow> call list \<Rightarrow> call \<Rightarrow> bool" where
  "start_authorised_by env pre (CStart prepared invocation r) =
     authorised_by env (Command (command_action_from_invocation invocation)) pre"
| "start_authorised_by env pre c = True"

definition start_inv :: "orch_env \<Rightarrow> orch_state \<Rightarrow> bool" where
  "start_inv env s \<longleftrightarrow> each_call (start_authorised_by env) (os_log s)"

definition is_authorised :: "orch_env \<Rightarrow> action \<Rightarrow> orch_state \<Rightarrow> bool" where
  "is_authorised env a s \<longleftrightarrow> authorised_by env a (os_log s)"

lemma plain_start_authorised: "plain_call c \<Longrightarrow> start_authorised_by env pre c"
  by (cases c) auto

interpretation gate: orch_invariant "start_inv env" env "\<lambda>_. True" task for env task
proof (standard, goal_cases)
  case (1 e)
  show ?case by (rule preserves_record_event) (auto simp: start_inv_def split: sum.splits)
next
  case (3 c s)
  then show ?case by (simp add: start_inv_def plain_start_authorised)
qed (auto simp: start_inv_def preserves_def hoare_def wp_def perform_def Let_def split: sum.splits)

interpretation auth: orch_full_invariant "is_authorised env a" env "\<lambda>_. True" task for a env task
proof (standard, goal_cases)
  case (1 e)
  show ?case
    by (rule preserves_record_event)
      (auto simp: is_authorised_def elim!: authorised_by_mono split: sum.splits)
qed (auto simp: is_authorised_def preserves_def hoare_def wp_def perform_def Let_def
      elim!: authorised_by_mono split: sum.splits)

text \<open>The approval gate succeeds only with the action authorised.\<close>

lemma gate_authorises:
  "hoare (\<lambda>_. True) (evaluate_or_request_approval env task a) (\<lambda>_. is_authorised env a) (\<lambda>_ _. True)"
proof -
  define any where "any = (\<lambda>(_::taskfence_error) (_::orch_state). True)"
  have weak: "hoare P m Q any" if "hoare P m Q E" for P E and m :: "'x orch" and Q
    by (rule hoare_conseq [OF that]) (simp_all add: any_def)
  have keep: "hoare (logged C) m (\<lambda>_. logged C) any"
    if "preserves (logged C) m" for C and m :: "unit orch"
    using that by (intro weak [OF preserves_hoare])
  have perf: "hoare (logged C) (perform resp mk) (\<lambda>x. logged (insert (mk (Inr x)) C)) any"
    for C and resp :: "call list \<Rightarrow> 'y result" and mk
    by (rule weak [OF perform_logged])
  have fail: "hoare P (sfail e) (\<lambda>_. is_authorised env a) any" for P e
    by (simp add: hoare_sfail any_def)
  have start: "hoare (\<lambda>_. True) m Q any" if "hoare (logged {}) m Q any" for m :: "unit orch" and Q
    by (rule hoare_pre [OF that]) (simp add: logged_def)
  have decide: "hoare (logged {CEvaluate a (Inr d)})
     (case d of
         Allow _ _ \<Rightarrow> sreturn ()
       | Deny _ reason \<Rightarrow>
           sbind (transition env (rt_id task) Denied) (\<lambda>_. sfail (Policy reason))
       | RequireApproval _ _ _ _ \<Rightarrow>
           sbind (transition env (rt_id task) WaitingForApproval) (\<lambda>_.
           sbind (perform (\<lambda>h. oe_request env h task a d) (CRequest a d)) (\<lambda>requested.
           sbind (record_event env (ApprovalRequested requested)) (\<lambda>_.
           sbind (perform (\<lambda>h. oe_wait env h (ar_id requested)) (CWait (ar_id requested)))
             (\<lambda>resolved.
           sbind (record_event env (ApprovalResolved resolved)) (\<lambda>_.
             if ar_decision resolved = Some Approved then sreturn ()
             else sbind (transition env (rt_id task) Denied) (\<lambda>_.
                    sfail (Approval ''approval denied or timed out''))))))))
     (\<lambda>_. is_authorised env a) any" for d
  proof (cases d)
    case (Allow r m)
    have "is_authorised env a s" if "logged {CEvaluate a (Inr d)} s" for s
      using that Allow unfolding logged_def is_authorised_def authorised_by_def
      by (intro exI [of _ d]) simp
    then show ?thesis
      using Allow by (simp add: hoare_sreturn)
  next
    case (Deny r m)
    then show ?thesis
      by (auto intro!: hoare_sbind [OF keep [OF logged.trans]] fail)
  next
    case (RequireApproval k r m l)
    have last: "hoare (logged {CWait (ar_id req) (Inr res), CRequest a d (Inr req), CEvaluate a (Inr d)})
       (if ar_decision res = Some Approved then sreturn ()
        else sbind (transition env (rt_id task) Denied) (\<lambda>_.
               sfail (Approval ''approval denied or timed out'')))
       (\<lambda>_. is_authorised env a) any" if ans: "\<exists>h. oe_wait env h (ar_id req) = Inr res" for req res
    proof (cases "ar_decision res = Some Approved")
      case True
      then have "is_authorised env a s"
        if "logged {CWait (ar_id req) (Inr res), CRequest a d (Inr req), CEvaluate a (Inr d)} s"
        for s
        using that ans RequireApproval unfolding logged_def is_authorised_def authorised_by_def
        by (intro exI [of _ d]) auto
      with True show ?thesis by (simp add: hoare_sreturn)
    next
      case False
      then show ?thesis
        by (auto intro!: hoare_sbind [OF keep [OF logged.trans]] fail)
    qed
    have wait: "hoare (logged C) (perform (\<lambda>h. oe_wait env h (ar_id req)) (CWait (ar_id req)))
        (\<lambda>x s. logged (insert (CWait (ar_id req) (Inr x)) C) s \<and>
           (\<exists>h. oe_wait env h (ar_id req) = Inr x)) any" for C req
      by (auto simp: hoare_def wp_def perform_def Let_def logged_def any_def split: sum.splits)
    show ?thesis
      unfolding RequireApproval action_decision.case
      unfolding RequireApproval [symmetric]
      by (rule hoare_sbind [OF keep [OF logged.trans]],
          rule hoare_sbind [OF perf],
          rule hoare_sbind [OF keep [OF logged.event]], simp,
          rule hoare_sbind [OF wait], rule hoare_pure,
          rule hoare_sbind [OF keep [OF logged.event]], simp,
          rule last)
  qed
  have "hoare (logged {}) (evaluate_or_request_approval env task a) (\<lambda>_. is_authorised env a) any"
    unfolding evaluate_or_request_approval_def
    by (rule hoare_sbind [OF perf], rule hoare_sbind [OF keep [OF logged.now]], simp, rule decide)
  then show ?thesis
    using start by (simp add: any_def)
qed

lemma approved_start_inv:
  "hoare (\<lambda>s. start_inv env s \<and> is_authorised env (Command (command_action_from_invocation invocation)) s)
     (run_approved env task artifacts invocation) (\<lambda>_. start_inv env) (\<lambda>_. start_inv env)"
proof -
  let ?a = "Command (command_action_from_invocation invocation)"
  let ?J = "\<lambda>s. start_inv env s \<and> is_authorised env ?a s"
  have keep: "hoare ?J m (\<lambda>_. ?J) (\<lambda>_. start_inv env)"
    if "preserves (start_inv env) m" "preserves (is_authorised env ?a) m" for m :: "'x orch"
    by (rule hoare_conseq [OF preserves_hoare [OF preserves_conj [OF that]]]) simp_all
  have start: "hoare ?J (perform (\<lambda>h. oe_start env h prepared invocation) (CStart prepared invocation))
      (\<lambda>_. start_inv env) (\<lambda>_. start_inv env)" for prepared
    by (auto simp: hoare_def wp_def perform_def Let_def start_inv_def is_authorised_def
        split: sum.splits)
  have collect: "preserves (start_inv env)
      (perform (\<lambda>h. oe_collect_exit env h running) (CCollectExit running))" for running
    by (auto simp: preserves_def hoare_def wp_def perform_def Let_def start_inv_def
        split: sum.splits)
  show ?thesis
    unfolding run_approved_def
    by (intro hoare_sbind [OF keep] hoare_stry [OF start] gate.step auth.step gate.trans auth.trans
        preserves_hoare hoare_rules gate.failed gate.finished collect) simp_all
qed

lemma run_start_inv: "preserves (start_inv env) (run env task)"
proof -
  have gate': "hoare (start_inv env) (evaluate_or_request_approval env task a)
      (\<lambda>_ s. start_inv env s \<and> is_authorised env a s) (\<lambda>_. start_inv env)" for a
    by (rule hoare_conseq [OF hoare_conj [OF preserves_hoare [OF gate.approval_gate] gate_authorises]])
      simp_all
  have last: "preserves (start_inv env)
     (stry (evaluate_or_request_approval env task (Command (command_action_from_invocation invocation)))
       (\<lambda>err. finish_pre_run_failure env task artifacts err)
       (\<lambda>_. run_approved env task artifacts invocation))" for invocation artifacts
    unfolding preserves_def
    by (rule hoare_stry [OF gate' preserves_hoare [OF gate.pre_run_failure] approved_start_inv])
  show ?thesis
    unfolding run_def Let_def
    by (intro preserves_sbind gate.trans gate.now gate.step last) simp_all
qed

lemma starts_authorised_by:
  "each_call (start_authorised_by env) (os_log (snd (run env task initial_state)))"
  using preservesD [OF run_start_inv [of env task], of initial_state]
  by (cases "run env task initial_state") (simp add: start_inv_def initial_state_def)

lemma start_requires_authorised:
  "each_call start_authorised (os_log (snd (run env task initial_state)))"
proof (rule each_call_mono [OF starts_authorised_by])
  fix pre c
  assume "start_authorised_by env pre c"
  then show "start_authorised pre c" by (cases c) (auto dest: authorised_by_authorised)
qed

text \<open>
  C3: Nothing runs without authorisation. In every run, against every environment, a call of
  \<open>RunnerBackend::start\<close> comes after a policy decision on the command of exactly the invocation
  that is started, and that decision either allows it or requires an approval that was
  requested for it and resolved as approved.
\<close>

theorem start_requires_authorisation:
  "each_call start_authorised (os_log (snd (run env task initial_state)))"
  by (rule start_requires_authorised)

text \<open>
  The event list of the orchestrator is exactly the audited trail. At the end of every run
  the \<open>events\<close> vector holds the events that the audit logger accepted, in order (an event whose
  logging failed is not in it), and every report was generated from the trail audited so far.
\<close>

theorem reports_show_audited_trail:
  "os_events (snd (run env task initial_state)) = audited (os_log (snd (run env task initial_state)))
   \<and> each_call report_from_audit (os_log (snd (run env task initial_state)))"
  using preservesD [OF audit.whole_run [of env task], of initial_state]
  by (cases "run env task initial_state") (simp add: audit_inv_def initial_state_def)

end
