(* ===== verification/Orchestrator_Life.thy ===== *)
theory Orchestrator_Life
  imports Orchestrator_Safety Policy_Engine
begin

text \<open>
  The life cycle of a task as a state machine on its status, and the proof that every run of
  the orchestrator walks it: each status that is set follows a step of the machine, and a run
  that returns a result has set that result's status last.
\<close>

section \<open>The status machine\<close>

inductive status_step :: "task_status option \<Rightarrow> task_status \<Rightarrow> bool" where
  create: "status_step None Created"
| validate: "status_step (Some Created) Validating"
| prepare: "status_step (Some Validating) Preparing"
| wait: "status_step (Some Preparing) WaitingForApproval"
| deny: "st \<in> {Preparing, WaitingForApproval} \<Longrightarrow> status_step (Some st) Denied"
| start: "st \<in> {Preparing, WaitingForApproval} \<Longrightarrow> status_step (Some st) Running"
| collect: "status_step (Some Running) CollectingArtifacts"
| report: "status_step (Some CollectingArtifacts) Reporting"
| finish: "final \<in> {Succeeded, Failed, TimedOut} \<Longrightarrow> status_step (Some Reporting) final"
| fail: "st \<in> {Preparing, WaitingForApproval, Denied, Running, Succeeded, Failed, TimedOut} \<Longrightarrow>
    status_step (Some st) Failed"

inductive_simps status_step_simps [simp]:
  "status_step None st"
  "status_step (Some Created) st"
  "status_step (Some Validating) st"
  "status_step (Some Preparing) st"
  "status_step (Some WaitingForApproval) st"
  "status_step (Some Denied) st"
  "status_step (Some Running) st"
  "status_step (Some CollectingArtifacts) st"
  "status_step (Some Reporting) st"
  "status_step (Some Succeeded) st"
  "status_step (Some Failed) st"
  "status_step (Some TimedOut) st"

definition terminal :: "task_status set" where
  "terminal = {Succeeded, Failed, Denied, TimedOut}"

section \<open>Status of a log\<close>

text \<open>The status that a log leaves in the state store: the last one set with success.\<close>

fun status_after :: "call \<Rightarrow> task_status option \<Rightarrow> task_status option" where
  "status_after (CSetStatus _ st (Inr _)) _ = Some st"
| "status_after _ old = old"

definition last_status :: "call list \<Rightarrow> task_status option" where
  "last_status log = fold status_after log None"

lemma last_status_simps [simp]:
  "last_status [] = None"
  "last_status (log @ [c]) = status_after c (last_status log)"
  by (simp_all add: last_status_def)

fun follows_machine :: "call list \<Rightarrow> call \<Rightarrow> bool" where
  "follows_machine pre (CSetStatus _ st _) = status_step (last_status pre) st"
| "follows_machine pre c = True"

definition life :: "task_status option set \<Rightarrow> orch_state \<Rightarrow> bool" where
  "life A s \<longleftrightarrow> each_call follows_machine (os_log s) \<and> last_status (os_log s) \<in> A"

definition denied_known :: "orch_state \<Rightarrow> bool" where
  "denied_known s \<longleftrightarrow>
     (has_status (os_events s) Denied \<longrightarrow> last_status (os_log s) = Some Denied)"

definition no_status_event :: "audit_event \<Rightarrow> bool" where
  "no_status_event e \<longleftrightarrow> (case e of TaskStatusChanged _ _ _ \<Rightarrow> False | _ \<Rightarrow> True)"

lemma plain_status:
  "plain_call c \<Longrightarrow> status_after c old = old \<and> follows_machine pre c"
  by (cases c) auto

lemma life_mono: "life A s \<Longrightarrow> A \<subseteq> B \<Longrightarrow> life B s"
  by (auto simp: life_def)

interpretation life: orch_quiet "life A" env "\<lambda>_. True" for A env
proof (standard, goal_cases)
  case (1 e)
  show ?case by (rule preserves_record_event) (auto simp: life_def split: sum.splits)
next
  case (3 c s)
  then show ?case by (simp add: life_def plain_status)
qed (auto simp: life_def preserves_def hoare_def wp_def perform_def Let_def split: sum.splits)

lemma has_status_snoc [simp]:
  "no_status_event e \<Longrightarrow> has_status (es @ [e]) st = has_status es st"
  by (cases e) (auto simp: has_status_def no_status_event_def)

interpretation denied: orch_quiet denied_known env no_status_event for env
proof (standard, goal_cases)
  case (1 e)
  then show ?case
    by (intro preserves_record_event) (auto simp: denied_known_def split: sum.splits)
next
  case (3 c s)
  then show ?case by (simp add: denied_known_def plain_status)
next
  case (4 e)
  then show ?case by (simp add: no_status_event_def split: audit_event.split)
qed (auto simp: denied_known_def preserves_def hoare_def wp_def perform_def Let_def
      split: sum.splits)

lemma decide_life:
  "preserves (life A) (perform (\<lambda>h. oe_evaluate env h task a) (CEvaluate a))"
  "preserves denied_known (perform (\<lambda>h. oe_evaluate env h task a) (CEvaluate a))"
  by (auto simp: life_def denied_known_def preserves_def hoare_def wp_def perform_def Let_def
      split: sum.splits)

lemma life_transition:
  assumes "\<And>st'. st' \<in> A \<Longrightarrow> status_step st' st"
  shows "hoare (life A) (transition env tid st) (\<lambda>_. life {Some st}) (\<lambda>_. life (insert (Some st) A))"
proof -
  have call: "hoare (life A)
       (perform (\<lambda>h. oe_set_status env h tid st) (CSetStatus tid st))
       (\<lambda>_. life {Some st}) (\<lambda>_. life (insert (Some st) A))"
    using assms by (auto simp: hoare_def wp_def perform_def Let_def life_def split: sum.splits)
  have audit: "hoare (life {Some st}) (record_now env mk) (\<lambda>_. life {Some st})
      (\<lambda>_. life (insert (Some st) A))" for mk
    by (rule hoare_conseq [OF preserves_hoare [OF life.now [where A = "{Some st}"]]])
      (auto elim: life_mono)
  show ?thesis
    unfolding transition_def by (rule hoare_sbind [OF call audit])
qed


section \<open>The stages\<close>

text \<open>What a returned result owes: its status is terminal and was set last.\<close>

definition settled :: "task_result \<Rightarrow> orch_state \<Rightarrow> bool" where
  "settled r s \<longleftrightarrow> life {Some (rs_status r)} s \<and> rs_status r \<in> terminal"

abbreviation any_life :: "taskfence_error \<Rightarrow> orch_state \<Rightarrow> bool" where
  "any_life \<equiv> \<lambda>_. life UNIV"

lemma step_to:
  assumes "\<And>st'. st' \<in> A \<Longrightarrow> status_step st' st"
  shows "hoare (life A) (transition env tid st) (\<lambda>_. life {Some st}) any_life"
  by (rule hoare_conseq [OF life_transition [OF assms]]) (auto elim: life_mono)

lemma quiet:
  assumes "preserves (life A) m"
  shows "hoare (life A) m (\<lambda>_. life A) any_life"
  by (rule hoare_conseq [OF preserves_hoare [OF assms]]) (auto elim: life_mono)

lemma quiet_try:
  assumes "preserves (life A) m"
  shows "hoare (life A) m (\<lambda>_. life A) (\<lambda>_. life A)"
  by (rule preserves_hoare [OF assms])

lemma settle:
  "rs_status r = st \<Longrightarrow> st \<in> terminal \<Longrightarrow> hoare (life {Some st}) (sreturn r) settled any_life"
  by (rule hoare_sreturn) (simp add: settled_def)

lemma result_of_status [simp]: "rs_status (result_of task st exit artifacts m) = st"
  by (simp add: result_of_def)

lemma run_failed_life:
  "hoare (life {Some Running}) (run_failed env task artifacts err) settled any_life"
  unfolding run_failed_def
  by (rule hoare_sbind [OF quiet [OF life.error]], rule hoare_sbind [OF step_to], simp,
      rule hoare_stry [OF quiet_try [OF life.generate]])
    (auto intro: settle simp: terminal_def)

lemma final_status_terminal: "final_status_of f x \<in> {Succeeded, Failed, TimedOut}"
  by (simp add: final_status_of_def)

lemma run_finished_life:
  "hoare (life {Some Running}) (run_finished env task artifacts baseline out) settled any_life"
proof -
  have logs: "hoare (life {Some Running})
     (stry (record_run_logs env task out)
        (\<lambda>err. sbind (record_error env (rt_id task) (error_display err)) (\<lambda>_.
           sreturn (Some (error_display err))))
        (\<lambda>_. sreturn None)) (\<lambda>_. life {Some Running}) any_life"
    by (intro quiet hoare_rules life.run_logs life.error)
  have report: "hoare (life {Some final})
     (stry (generate_report env task artifacts)
       (\<lambda>err.
          sbind (record_error env (rt_id task) (error_display err)) (\<lambda>_.
          sbind (transition env (rt_id task) Failed) (\<lambda>_.
            sreturn (result_of task Failed exit artifacts (Some (error_display err))))))
       (\<lambda>_. sreturn (result_of task final exit artifacts m))) settled any_life"
    if "final \<in> {Succeeded, Failed, TimedOut}" for final exit m
    using that
    by (intro hoare_stry [OF quiet_try [OF life.generate]] hoare_sbind [OF quiet [OF life.error]]
        hoare_sbind [OF step_to] settle) (auto simp: terminal_def)
  show ?thesis
    unfolding run_finished_def Let_def
    using final_status_terminal
    by (intro hoare_sbind [OF logs] hoare_sbind [OF quiet [OF life.now]]
        hoare_sbind [OF step_to] hoare_sbind [OF quiet [OF life.diff_stage]] report) auto
qed

lemma start_life:
  "preserves (life A) (perform (\<lambda>h. oe_start env h prepared invocation)
     (CStart prepared invocation))"
  "preserves (life A) (perform (\<lambda>h. oe_collect_exit env h running) (CCollectExit running))"
  by (auto simp: life_def preserves_def hoare_def wp_def perform_def Let_def split: sum.splits)

lemmas collect_life = start_life(2)

lemma run_approved_life:
  "hoare (life {Some Preparing, Some WaitingForApproval})
     (run_approved env task artifacts invocation) settled any_life"
  unfolding run_approved_def
  by (intro hoare_sbind [OF quiet [OF life.step]] hoare_sbind [OF step_to]
      hoare_stry [OF quiet_try [OF start_life(1)]] hoare_stry [OF quiet_try [OF collect_life]]
      hoare_stry [OF quiet_try [OF life.step]] run_failed_life run_finished_life) auto


section \<open>Before the start\<close>

definition pre_run :: "task_status option set \<Rightarrow> orch_state \<Rightarrow> bool" where
  "pre_run A s \<longleftrightarrow> life A s \<and> denied_known s"

lemma pre_run_mono: "pre_run A s \<Longrightarrow> A \<subseteq> B \<Longrightarrow> pre_run B s"
  by (auto simp: pre_run_def elim: life_mono)

lemma pre_run_life: "pre_run A s \<Longrightarrow> A \<subseteq> B \<Longrightarrow> life B s"
  by (auto simp: pre_run_def elim: life_mono)

lemma pre_run_quiet:
  assumes "preserves (life A) m" and "preserves denied_known m" and "A \<subseteq> B"
  shows "hoare (pre_run A) m (\<lambda>_. pre_run A) (\<lambda>_. pre_run B)"
proof (rule hoare_conseq [OF preserves_hoare [OF preserves_conj [OF assms(1,2)]]])
  fix s assume "life A s \<and> denied_known s"
  then show "pre_run B s" using assms(3) by (auto simp: pre_run_def elim: life_mono)
qed (simp_all add: pre_run_def)

lemma has_status_changed:
  "has_status (es @ [TaskStatusChanged tid t st]) st' \<longleftrightarrow> has_status es st' \<or> st = st'"
  by (simp add: has_status_def)

lemma pre_run_transition:
  assumes "\<And>st'. st' \<in> A \<Longrightarrow> status_step st' st" and "Some Denied \<notin> A" and "insert (Some st) A \<subseteq> B"
  shows "hoare (pre_run A) (transition env tid st) (\<lambda>_. pre_run {Some st}) (\<lambda>_. pre_run B)"
proof -
  have "wp (transition env tid st) (\<lambda>_. denied_known) (\<lambda>_. denied_known) s" if "pre_run A s" for s
  proof -
    have "\<not> has_status (os_events s) Denied"
      using that assms(2) by (auto simp: pre_run_def life_def denied_known_def)
    then show ?thesis
      by (auto simp: transition_def record_now_def [abs_def] record_event_def sbind_def stry_def
          sfail_def wp_def perform_def Let_def denied_known_def has_status_changed last_status_def
          split: sum.splits)
  qed
  then have "hoare (pre_run A) (transition env tid st) (\<lambda>_. denied_known) (\<lambda>_. denied_known)"
    by (simp add: hoare_def)
  from hoare_conj [OF life_transition [where A = A, OF assms(1)] this]
  show ?thesis
  proof (rule hoare_conseq)
    fix s assume "life (insert (Some st) A) s \<and> denied_known s"
    then show "pre_run B s" using assms(3) by (auto simp: pre_run_def elim: life_mono)
  qed (simp_all add: pre_run_def)
qed

lemma no_status_decision [simp]:
  "no_status_event (PolicyDecision tid t a d)" "no_status_event (ApprovalRequested req)"
  "no_status_event (ApprovalResolved res)" "no_status_event (TaskCreated tid t goal)"
  by (simp_all add: no_status_event_def)

lemma approval_gate_life:
  "hoare (pre_run {Some Preparing}) (evaluate_or_request_approval env task a)
     (\<lambda>_. life {Some Preparing, Some WaitingForApproval})
     (\<lambda>_. pre_run {Some Preparing, Some WaitingForApproval, Some Denied})"
proof -
  let ?E = "\<lambda>_::taskfence_error. pre_run {Some Preparing, Some WaitingForApproval, Some Denied}"
  have deny: "hoare (pre_run {Some st}) (sbind (transition env tid Denied) (\<lambda>_. sfail e))
      (\<lambda>_. life {Some Preparing, Some WaitingForApproval}) ?E"
    if "st \<in> {Preparing, WaitingForApproval}" for st tid e
    using that
    by (intro hoare_sbind [OF pre_run_transition] hoare_sfail) (auto elim: pre_run_mono)
  have wait: "hoare (pre_run {Some Preparing}) (transition env tid WaitingForApproval)
      (\<lambda>_. pre_run {Some WaitingForApproval}) ?E" for tid
    by (rule pre_run_transition) auto
  have resolved: "hoare (pre_run {Some WaitingForApproval})
      (if b then sreturn () else sbind (transition env tid Denied) (\<lambda>_. sfail e))
      (\<lambda>_. life {Some Preparing, Some WaitingForApproval}) ?E" for b tid e
    by (cases b) (auto intro!: hoare_sreturn deny elim: pre_run_life)
  have decide: "hoare (pre_run {Some Preparing}) (case d of
         Allow _ _ \<Rightarrow> sreturn ()
       | Deny _ reason \<Rightarrow>
           sbind (transition env (rt_id task) Denied) (\<lambda>_. sfail (Policy reason))
       | RequireApproval _ _ _ _ \<Rightarrow>
           sbind (transition env (rt_id task) WaitingForApproval) (\<lambda>_.
           sbind (perform (\<lambda>h. oe_request env h task a d) (CRequest a d)) (\<lambda>requested.
           sbind (record_event env (ApprovalRequested requested)) (\<lambda>_.
           sbind (perform (\<lambda>h. oe_wait env h (ar_id requested)) (CWait (ar_id requested)))
             (\<lambda>resolved.
           sbind (record_event env (ApprovalResolved resolved)) (\<lambda>_.
             if ar_decision resolved = Some Approved then sreturn ()
             else sbind (transition env (rt_id task) Denied) (\<lambda>_.
                    sfail (Approval ''approval denied or timed out''))))))))
      (\<lambda>_. life {Some Preparing, Some WaitingForApproval}) ?E" for d
  proof (cases d)
    case (Allow r m)
    then show ?thesis by (auto intro!: hoare_sreturn elim: pre_run_life)
  next
    case (Deny r m)
    then show ?thesis by (auto intro: deny)
  next
    case (RequireApproval k r m l)
    show ?thesis
      unfolding RequireApproval action_decision.case
      by (intro hoare_sbind [OF wait] resolved
          hoare_sbind [OF pre_run_quiet [OF life.step denied.step]]
          hoare_sbind [OF pre_run_quiet [OF life.event denied.event]]) auto
  qed
  show ?thesis
    unfolding evaluate_or_request_approval_def
    by (intro decide hoare_sbind [OF pre_run_quiet [OF decide_life]]
        hoare_sbind [OF pre_run_quiet [OF life.now denied.now]]) auto
qed

lemma pre_run_failure_life:
  "hoare (pre_run {Some Preparing, Some WaitingForApproval, Some Denied})
     (finish_pre_run_failure env task artifacts err) settled any_life"
proof -
  let ?A = "{Some Preparing, Some WaitingForApproval, Some Denied}"
  have choose: "hoare (pre_run ?A)
     (\<lambda>s. if has_status (os_events s) Denied then sreturn Denied s
          else sbind (transition env (rt_id task) Failed) (\<lambda>_. sreturn Failed) s)
     (\<lambda>st s. life {Some st} s \<and> st \<in> {Denied, Failed}) any_life"
  proof (rule hoare_if_state)
    show "hoare (\<lambda>s. pre_run ?A s \<and> has_status (os_events s) Denied) (sreturn Denied)
       (\<lambda>st s. life {Some st} s \<and> st \<in> {Denied, Failed}) any_life"
      by (rule hoare_sreturn) (auto simp: pre_run_def denied_known_def life_def)
    have "hoare (life ?A) (sbind (transition env (rt_id task) Failed) (\<lambda>_. sreturn Failed))
       (\<lambda>st s. life {Some st} s \<and> st \<in> {Denied, Failed}) any_life"
      by (rule hoare_sbind [OF step_to hoare_sreturn]) auto
    then show "hoare (\<lambda>s. pre_run ?A s \<and> \<not> has_status (os_events s) Denied)
       (sbind (transition env (rt_id task) Failed) (\<lambda>_. sreturn Failed))
       (\<lambda>st s. life {Some st} s \<and> st \<in> {Denied, Failed}) any_life"
      by (rule hoare_pre) (simp add: pre_run_def)
  qed
  have rest: "hoare (\<lambda>s. life {Some st} s \<and> st \<in> {Denied, Failed})
     (sbind (record_error env (rt_id task) (error_display err)) (\<lambda>_.
       stry (generate_report env task artifacts)
       (\<lambda>report_err.
          sbind (record_error env (rt_id task) (error_display report_err)) (\<lambda>_.
          sbind (transition env (rt_id task) Failed) (\<lambda>_.
            sreturn (result_of task Failed None artifacts (Some (error_display report_err))))))
       (\<lambda>_. sreturn (result_of task st None artifacts (Some (error_display err)))))) settled any_life"
    for st
  proof (cases "st \<in> {Denied, Failed}")
    case True
    then have "hoare (life {Some st})
     (sbind (record_error env (rt_id task) (error_display err)) (\<lambda>_.
       stry (generate_report env task artifacts)
       (\<lambda>report_err.
          sbind (record_error env (rt_id task) (error_display report_err)) (\<lambda>_.
          sbind (transition env (rt_id task) Failed) (\<lambda>_.
            sreturn (result_of task Failed None artifacts (Some (error_display report_err))))))
       (\<lambda>_. sreturn (result_of task st None artifacts (Some (error_display err)))))) settled any_life"
      by (intro hoare_sbind [OF quiet [OF life.error]] hoare_sbind [OF step_to] settle
          hoare_stry [OF quiet_try [OF life.generate]]) (auto simp: terminal_def)
    then show ?thesis by (rule hoare_pre) simp
  next
    case False
    then show ?thesis by (simp add: hoare_def)
  qed
  show ?thesis
    unfolding finish_pre_run_failure_def by (rule hoare_sbind [OF choose rest])
qed

lemma run_life:
  "hoare (pre_run {None}) (run env task) settled any_life"
proof -
  have to: "hoare (pre_run A) (transition env tid st) (\<lambda>_. pre_run {Some st}) any_life"
    if "\<And>st'. st' \<in> A \<Longrightarrow> status_step st' st" "Some Denied \<notin> A" for A tid st
    by (rule hoare_conseq [OF pre_run_transition [OF that subset_UNIV]]) (auto elim: pre_run_life)
  have q: "hoare (pre_run A) m (\<lambda>_. pre_run A) any_life"
    if "preserves (life A) m" "preserves denied_known m" for A and m :: "'x orch"
    by (rule hoare_conseq [OF pre_run_quiet [OF that subset_UNIV]]) (auto elim: pre_run_life)
  show ?thesis
    unfolding run_def Let_def
    by (intro hoare_sbind [OF to] hoare_sbind [OF q [OF life.step denied.step]]
        hoare_sbind [OF q [OF life.now denied.now]]
        hoare_stry [OF approval_gate_life pre_run_failure_life run_approved_life]) auto
qed

lemma pre_run_initial: "pre_run {None} initial_state"
  by (simp add: pre_run_def life_def initial_state_def denied_known_def has_status_def)

text \<open>
  C14: Every run walks the status machine \<open>status_step\<close>: whatever the state store, the audit
  logger, the policy, the approvals and the runner answer, each status the orchestrator sets is
  a step from the last status that was stored. In particular the run cannot reach \<open>Running\<close>
  from \<open>Denied\<close>.
\<close>

theorem run_walks_status_machine:
  "each_call follows_machine (os_log (snd (run env task initial_state)))"
proof (cases "run env task initial_state")
  case (Pair r s)
  with hoareD [OF run_life pre_run_initial, of env task] show ?thesis
    by (cases r) (auto simp: settled_def life_def)
qed

text \<open>
  A result that \<open>run\<close> returns agrees with the store: its status is \<open>Succeeded\<close>, \<open>Failed\<close>,
  \<open>Denied\<close> or \<open>TimedOut\<close>, and it is the last status that was stored with success.
\<close>

theorem run_result_is_stored_status:
  assumes "run env task initial_state = (Inr r, s)"
  shows "rs_status r \<in> {Succeeded, Failed, Denied, TimedOut} \<and>
    last_status (os_log s) = Some (rs_status r)"
  using hoareD(1) [OF run_life pre_run_initial assms]
  by (simp_all add: settled_def life_def terminal_def)


section \<open>A concrete environment\<close>

definition sample_refs :: artifact_refs where
  "sample_refs = \<lparr>af_task_dir = ''/tmp/t1'', af_resolved_task = None, af_events = None,
     af_stdout = None, af_stderr = None, af_diff = None, af_report = None, af_gateway_spool = None\<rparr>"

definition sample_prepared :: prepared_run where
  "sample_prepared = \<lparr>pr_task_id = ''t1'', pr_runner_kind = Docker, pr_image = None, pr_mounts = [],
     pr_env = [], pr_network = \<lparr>np_default = NetDisabled, np_allow_domains = []\<rparr>,
     pr_gateway = \<lparr>pg_mode = SpoolOnly, pg_spool_container_path = None, pg_egress = None\<rparr>,
     pr_limits = \<lparr>lim_timeout_minutes = None, lim_cpu = None, lim_memory = None, lim_disk = None\<rparr>,
     pr_ssh = None\<rparr>"

definition sample_run_invocation :: agent_invocation where
  "sample_run_invocation = \<lparr>in_executable = ''npm'', in_args = [''test''], in_env = [],
     in_working_dir = ''/workspace''\<rparr>"

definition sample_record :: "action \<Rightarrow> action_decision \<Rightarrow> approval_decision option \<Rightarrow> approval_record" where
  "sample_record a d r = \<lparr>ar_id = ''a1'', ar_task_id = ''t1'', ar_actor = ''user'', ar_source = None,
     ar_requested_at = 0, ar_resolved_at = None, ar_action = a, ar_policy_decision = d,
     ar_decision = r\<rparr>"

text \<open>
  The built-in policy engine with exact patterns, an approval engine that answers \<open>answer\<close>, and
  a runner whose process ends with \<open>exit\<close>; every other call succeeds.
\<close>

definition sample_env :: "approval_decision \<Rightarrow> exit_status \<Rightarrow> orch_env" where
  "sample_env answer exit =
     \<lparr>oe_now = (\<lambda>h. int (length h)), oe_set_status = (\<lambda>h t st. Inr ()), oe_audit = (\<lambda>h e. Inr ()),
      oe_build_invocation = (\<lambda>h t. Inr sample_run_invocation),
      oe_create_task_dir = (\<lambda>h t. Inr sample_refs),
      oe_write_resolved_task = (\<lambda>h t. Inr ''/tmp/t1/task.yaml''),
      oe_write_log = (\<lambda>h t stream text. Inr ''/tmp/t1/log''),
      oe_capture_baseline = (\<lambda>h t. Inr \<lparr>wb_dirty_before_run = False, wb_summary = []\<rparr>),
      oe_collect_diff = (\<lambda>h t b. Inr None),
      oe_evaluate = (\<lambda>h. evaluate exact_glob),
      oe_request = (\<lambda>h t a d. Inr (sample_record a d None)),
      oe_wait = (\<lambda>h i. Inr (sample_record (EnvExpose []) (Allow None []) (Some answer))),
      oe_prepare = (\<lambda>h t. Inr sample_prepared),
      oe_start = (\<lambda>h p i. Inr \<lparr>rn_task_id = ''t1'', rn_runner_ref = ''c1''\<rparr>),
      oe_stop = (\<lambda>h r. Inr ()),
      oe_collect_exit = (\<lambda>h r. Inr \<lparr>ro_exit_status = exit, ro_stdout = ''ok'', ro_stderr = []\<rparr>),
      oe_generate = (\<lambda>h t a e. Inr ''/tmp/t1/report.md'')\<rparr>"

definition exit_zero :: exit_status where
  "exit_zero = \<lparr>ex_code = Some 0, ex_timed_out = False, ex_signal = None\<rparr>"

lemma sample_env_simps [simp]:
  "oe_now (sample_env a e) h = int (length h)"
  "oe_set_status (sample_env a e) h tid st = Inr ()"
  "oe_audit (sample_env a e) h ev = Inr ()"
  "oe_build_invocation (sample_env a e) h t = Inr sample_run_invocation"
  "oe_create_task_dir (sample_env a e) h t = Inr sample_refs"
  "oe_write_resolved_task (sample_env a e) h t = Inr ''/tmp/t1/task.yaml''"
  "oe_write_log (sample_env a e) h t stream text = Inr ''/tmp/t1/log''"
  "oe_capture_baseline (sample_env a e) h t = Inr \<lparr>wb_dirty_before_run = False, wb_summary = []\<rparr>"
  "oe_collect_diff (sample_env a e) h t b = Inr None"
  "oe_evaluate (sample_env a e) h t c = evaluate exact_glob t c"
  "oe_request (sample_env a e) h t c d = Inr (sample_record c d None)"
  "oe_wait (sample_env a e) h aid = Inr (sample_record (EnvExpose []) (Allow None []) (Some a))"
  "oe_prepare (sample_env a e) h t = Inr sample_prepared"
  "oe_start (sample_env a e) h p i = Inr \<lparr>rn_task_id = ''t1'', rn_runner_ref = ''c1''\<rparr>"
  "oe_stop (sample_env a e) h rn = Inr ()"
  "oe_collect_exit (sample_env a e) h rn =
     Inr \<lparr>ro_exit_status = e, ro_stdout = ''ok'', ro_stderr = []\<rparr>"
  "oe_generate (sample_env a e) h t refs es = Inr ''/tmp/t1/report.md''"
  by (simp_all add: sample_env_def)

lemma sbind_apply: "sbind m f s = (case m s of (Inl e, s') \<Rightarrow> (Inl e, s') | (Inr x, s') \<Rightarrow> f x s')"
  by (auto simp: sbind_def stry_def sfail_def split: prod.split sum.split)

lemmas run_eval = run_def run_approved_def run_finished_def run_failed_def
  finish_pre_run_failure_def evaluate_or_request_approval_def transition_def record_now_def
  record_event_def record_error_def generate_report_def record_run_logs_def
  record_stream_log_def collect_diff_stage_def sbind_apply stry_def sreturn_def sfail_def
  perform_def Let_def

lemma sample_decision:
  "evaluate exact_glob sample_task (Command (command_action_from_invocation sample_run_invocation)) =
     Inr (Allow None ''command matched allow rule'')"
  by code_simp

lemma sample_task_simps [simp]:
  "au_capture (rt_audit sample_task) = default_capture_config"
  "rt_id sample_task = ''t1''"
  by (simp_all add: sample_task_def task_with_def)

lemma sample_run:
  "fst (run (sample_env Approved exit_zero) sample_task initial_state) =
     Inr (result_of sample_task Succeeded (Some exit_zero) sample_refs None)"
  by (simp add: run_eval sample_decision initial_state_def exit_zero_def final_status_of_def
      default_capture_config_def del: evaluate.simps)

theorem run_result_is_stored_status_witness:
  "last_status (os_log (snd (run (sample_env Approved exit_zero) sample_task initial_state))) =
     Some Succeeded"
proof -
  obtain r s where run: "run (sample_env Approved exit_zero) sample_task initial_state = (r, s)"
    by fastforce
  with sample_run
  have "run (sample_env Approved exit_zero) sample_task initial_state =
      (Inr (result_of sample_task Succeeded (Some exit_zero) sample_refs None), s)"
    by simp
  from run_result_is_stored_status [OF this] this show ?thesis by simp
qed

end
