(* ===== verification/Orchestrator_Outcome.thy ===== *)
theory Orchestrator_Outcome
  imports Orchestrator_Life
begin

text \<open>
  What the outcome of a run says: a successful task was executed and reported, every runner
  that was started is observed or stopped, and the errors that \<open>run\<close> propagates after the
  approval leave no terminal status behind.
\<close>

section \<open>Success\<close>

definition report_logged :: "orch_state \<Rightarrow> bool" where
  "report_logged s \<longleftrightarrow> (\<exists>refs events p. CGenerate refs events (Inr p) \<in> set (os_log s))"

abbreviation any_error :: "taskfence_error \<Rightarrow> orch_state \<Rightarrow> bool" where
  "any_error \<equiv> \<lambda>_ _. True"

lemma hoare_any: "hoare (\<lambda>_. True) m (\<lambda>_ _. True) E" if "E = any_error"
  using that by (auto simp: hoare_def wp_def split: sum.split)

lemma generate_report_logged:
  "hoare (\<lambda>_. True) (generate_report env task refs) (\<lambda>_. report_logged) any_error"
  by (fastforce simp: hoare_def wp_def generate_report_def record_now_def record_event_def
      sbind_apply perform_def Let_def report_logged_def split: sum.splits)

lemma not_success:
  "hoare (\<lambda>_. True) (run_failed env task refs err) (\<lambda>r _. rs_status r = Failed) any_error"
  "hoare (\<lambda>_. True) (finish_pre_run_failure env task refs err)
     (\<lambda>r _. rs_status r \<noteq> Succeeded) any_error"
proof -
  have ret: "hoare (\<lambda>_. True) (sreturn r) (\<lambda>r _. Q r) any_error" if "Q r" for r :: task_result and Q
    using that by (simp add: hoare_sreturn)
  note any = hoare_any [OF refl]
  show "hoare (\<lambda>_. True) (run_failed env task refs err) (\<lambda>r _. rs_status r = Failed) any_error"
    unfolding run_failed_def
    by (rule hoare_sbind [OF any], rule hoare_sbind [OF any], rule hoare_stry [OF any]) (simp_all add: ret)
  have pick: "hoare (\<lambda>_. True)
      (\<lambda>s. if has_status (os_events s) Denied then sreturn Denied s
           else sbind (transition env (rt_id task) Failed) (\<lambda>_. sreturn Failed) s)
      (\<lambda>st _. st \<noteq> Succeeded) any_error"
    by (auto intro!: hoare_if_state hoare_sreturn hoare_sbind
        simp: hoare_def wp_def sreturn_def sbind_apply split: sum.splits prod.splits)
  have "hoare (\<lambda>_. st \<noteq> Succeeded)
     (sbind (record_error env (rt_id task) (error_display err)) (\<lambda>_.
     stry (generate_report env task refs)
       (\<lambda>report_err.
          sbind (record_error env (rt_id task) (error_display report_err)) (\<lambda>_.
          sbind (transition env (rt_id task) Failed) (\<lambda>_.
            sreturn (result_of task Failed None refs (Some (error_display report_err))))))
       (\<lambda>_. sreturn (result_of task st None refs (Some (error_display err))))))
     (\<lambda>r _. rs_status r \<noteq> Succeeded) any_error" for st
  proof (cases "st = Succeeded")
    case False
    show ?thesis
      by (rule hoare_pre [where P = "\<lambda>_. True"], rule hoare_sbind [OF any],
          rule hoare_stry [OF any], rule hoare_sbind [OF any], rule hoare_sbind [OF any])
        (simp_all add: ret False)
  qed (simp add: hoare_def)
  then show "hoare (\<lambda>_. True) (finish_pre_run_failure env task refs err)
     (\<lambda>r _. rs_status r \<noteq> Succeeded) any_error"
    unfolding finish_pre_run_failure_def by (rule hoare_sbind [OF pick])
qed

definition earned :: "exit_status \<Rightarrow> task_result \<Rightarrow> orch_state \<Rightarrow> bool" where
  "earned exit r s \<longleftrightarrow>
     ex_code exit = Some 0 \<and> \<not> ex_timed_out exit \<and> rs_exit_status r = Some exit \<and>
     rs_message r = None \<and> report_logged s"

lemma finished_success:
  "hoare (\<lambda>_. True) (run_finished env task refs baseline out)
     (\<lambda>r s. rs_status r = Succeeded \<longrightarrow> earned (ro_exit_status out) r s) any_error"
proof -
  note any = hoare_any [OF refl]
  let ?exit = "ro_exit_status out"
  have last: "hoare (\<lambda>_. True) (stry (generate_report env task refs)
       (\<lambda>err.
          sbind (record_error env (rt_id task) (error_display err)) (\<lambda>_.
          sbind (transition env (rt_id task) Failed) (\<lambda>_.
            sreturn (result_of task Failed (Some ?exit) refs (Some (error_display err))))))
       (\<lambda>_. sreturn (result_of task (final_status_of f ?exit) (Some ?exit) refs f)))
     (\<lambda>r s. rs_status r = Succeeded \<longrightarrow> earned ?exit r s) any_error" for f
    by (rule hoare_stry [OF generate_report_logged], rule hoare_sbind [OF any],
        rule hoare_sbind [OF any])
      (auto intro!: hoare_sreturn simp: earned_def final_status_of_def result_of_def split: if_splits)
  show ?thesis
    unfolding run_finished_def Let_def
    by (rule hoare_sbind [OF any], rule hoare_sbind [OF any], rule hoare_sbind [OF any],
        rule hoare_sbind [OF any], rule hoare_sbind [OF any], rule hoare_sbind [OF any], rule last)
qed

definition success_earned :: "task_result \<Rightarrow> orch_state \<Rightarrow> bool" where
  "success_earned r s \<longleftrightarrow>
     (rs_status r = Succeeded \<longrightarrow>
       (\<exists>running out. CCollectExit running (Inr out) \<in> set (os_log s) \<and>
          earned (ro_exit_status out) r s))"

lemma approved_success:
  "hoare (\<lambda>_. True) (run_approved env task refs invocation) success_earned any_error"
proof -
  note any = hoare_any [OF refl]
  have failed: "hoare (\<lambda>_. True) (run_failed env task refs err) success_earned any_error" for err
    by (rule hoare_conseq [OF not_success(1)]) (simp_all add: success_earned_def)
  have finished: "hoare (logged {CCollectExit running (Inr out)})
      (run_finished env task refs baseline out) success_earned any_error" for running baseline out
    by (rule hoare_conseq [OF hoare_conj [OF preserves_hoare [OF
          logged.finished [where C = "{CCollectExit running (Inr out)}"]] finished_success]])
      (auto simp: success_earned_def logged_def)
  have collect: "hoare (\<lambda>_. True)
      (perform (\<lambda>h. oe_collect_exit env h running) (CCollectExit running))
      (\<lambda>out. logged {CCollectExit running (Inr out)}) any_error" for running
    by (rule hoare_conseq [OF perform_logged [where C = "{}"]]) (simp_all add: logged_def)
  show ?thesis
    unfolding run_approved_def
    by (rule hoare_sbind [OF any], rule hoare_sbind [OF any], rule hoare_sbind [OF any],
        rule hoare_stry [OF any], rule failed, rule hoare_stry [OF collect],
        rule hoare_stry [OF any], rule failed, rule failed, rule finished)
qed

lemma run_success: "hoare (\<lambda>_. True) (run env task) success_earned any_error"
proof -
  note any = hoare_any [OF refl]
  have failed: "hoare (\<lambda>_. True) (finish_pre_run_failure env task refs err) success_earned any_error"
    for refs err
    by (rule hoare_conseq [OF not_success(2)]) (simp_all add: success_earned_def)
  show ?thesis
    unfolding run_def Let_def
    by (rule hoare_sbind [OF any], rule hoare_sbind [OF any], rule hoare_sbind [OF any],
        rule hoare_sbind [OF any], rule hoare_sbind [OF any], rule hoare_sbind [OF any],
        rule hoare_sbind [OF any], rule hoare_stry [OF any], rule failed, rule approved_success)
qed

text \<open>
  C16: Success is earned. A run that returns \<open>Succeeded\<close> collected from the runner an exit status
  with code 0 and no timeout, returns that exit status with no message, and generated its report.
\<close>

theorem success_is_earned:
  assumes "run env task initial_state = (Inr r, s)" and "rs_status r = Succeeded"
  shows "\<exists>running out exit refs events p.
    CCollectExit running (Inr out) \<in> set (os_log s) \<and> ro_exit_status out = exit \<and>
    ex_code exit = Some 0 \<and> \<not> ex_timed_out exit \<and> rs_exit_status r = Some exit \<and>
    rs_message r = None \<and> CGenerate refs events (Inr p) \<in> set (os_log s)"
  using hoareD(1) [OF run_success _ assms(1)] assms(2)
  unfolding success_earned_def earned_def report_logged_def by blast

theorem success_is_earned_witness:
  "\<exists>running out. CCollectExit running (Inr out)
     \<in> set (os_log (snd (run (sample_env Approved exit_zero) sample_task initial_state)))"
proof -
  obtain r s where "run (sample_env Approved exit_zero) sample_task initial_state = (r, s)"
    by fastforce
  with sample_run
  have run: "run (sample_env Approved exit_zero) sample_task initial_state =
      (Inr (result_of sample_task Succeeded (Some exit_zero) sample_refs None), s)"
    by simp
  from success_is_earned [OF this] run show ?thesis by (simp add: result_of_def) blast
qed

section \<open>Every started runner is observed\<close>

fun obliges :: "call \<Rightarrow> call \<Rightarrow> bool" where
  "obliges (CStart _ _ (Inr running)) c = (\<exists>r. c = CCollectExit running r)"
| "obliges (CCollectExit running (Inl _)) c = (\<exists>r. c = CStop running r)"
| "obliges _ c = True"

fun pending :: "call \<Rightarrow> bool" where
  "pending (CStart _ _ (Inr _)) = True"
| "pending (CCollectExit _ (Inl _)) = True"
| "pending _ = False"

definition obeys :: "call list \<Rightarrow> call \<Rightarrow> bool" where
  "obeys pre c \<longleftrightarrow> pre = [] \<or> obliges (last pre) c"

definition observed :: "orch_state \<Rightarrow> bool" where
  "observed s \<longleftrightarrow> each_call obeys (os_log s) \<and> (os_log s = [] \<or> \<not> pending (last (os_log s)))"

definition discharged :: "call list \<Rightarrow> bool" where
  "discharged log \<longleftrightarrow> log = [] \<or> \<not> pending (last log)"

lemma obliges_not_pending: "\<not> pending c \<Longrightarrow> obliges c d"
  by (cases c) (auto split: sum.splits elim: pending.elims)

lemma observed_obeys: "observed s \<Longrightarrow> obeys (os_log s) c"
  by (auto simp: observed_def obeys_def obliges_not_pending)

lemma plain_not_pending: "plain_call c \<Longrightarrow> \<not> pending c"
  by (cases c) auto

interpretation observed: orch_invariant observed env "\<lambda>_. True" task for env task
proof (standard, goal_cases)
  case (1 e)
  show ?case
    by (rule preserves_record_event)
      (auto simp: observed_def obeys_def obliges_not_pending split: sum.splits)
next
  case (3 c s)
  then show ?case using observed_obeys [of s c] by (simp add: observed_def plain_not_pending)
next
  case (2 task artifacts)
  show ?case
    by (auto simp: preserves_def hoare_def wp_def perform_def Let_def observed_def obeys_def
        obliges_not_pending split: sum.splits)
qed (auto simp: preserves_def hoare_def wp_def perform_def Let_def observed_def obeys_def
      obliges_not_pending split: sum.splits)


text \<open>The log ends with a call that obliges the next one.\<close>

definition awaits :: "(call \<Rightarrow> bool) \<Rightarrow> orch_state \<Rightarrow> bool" where
  "awaits P s \<longleftrightarrow> each_call obeys (os_log s) \<and> os_log s \<noteq> [] \<and> P (last (os_log s))"

lemma approved_observed: "preserves observed (run_approved env task refs invocation)"
proof -
  have start: "hoare observed
      (perform (\<lambda>h. oe_start env h prepared invocation) (CStart prepared invocation))
      (\<lambda>running. awaits (\<lambda>c. c = CStart prepared invocation (Inr running))) (\<lambda>_. observed)"
    for prepared
    by (auto simp: hoare_def wp_def perform_def Let_def awaits_def observed_def obeys_def
        obliges_not_pending split: sum.splits)
  have collect: "hoare (awaits (\<lambda>c. c = CStart prepared invocation (Inr running)))
      (perform (\<lambda>h. oe_collect_exit env h running) (CCollectExit running))
      (\<lambda>_. observed) (\<lambda>e. awaits (\<lambda>c. c = CCollectExit running (Inl e)))"
    for prepared running
    by (auto simp: hoare_def wp_def perform_def Let_def awaits_def observed_def obeys_def
        split: sum.splits)
  have stop: "hoare (awaits (\<lambda>c. c = CCollectExit running (Inl e)))
      (perform (\<lambda>h. oe_stop env h running) (CStop running)) (\<lambda>_. observed) (\<lambda>_. observed)"
    for running e
    by (auto simp: hoare_def wp_def perform_def Let_def awaits_def observed_def obeys_def
        split: sum.splits)
  have steps: "preserves observed
      (sbind (perform (\<lambda>h. oe_capture_baseline env h task) CCaptureBaseline) f)"
    if "\<And>x. preserves observed (f x)" for f :: "workspace_baseline \<Rightarrow> task_result orch"
    by (intro hoare_rules observed.step that) simp
  show ?thesis
    unfolding run_approved_def
  proof (intro steps preserves_sbind observed.step observed.trans)
    fix baseline prepared and x :: unit
    show "preserves observed
       (stry (perform (\<lambda>h. oe_start env h prepared invocation) (CStart prepared invocation))
         (run_failed env task refs)
         (\<lambda>running. stry (perform (\<lambda>h. oe_collect_exit env h running) (CCollectExit running))
           (\<lambda>err. stry (perform (\<lambda>h. oe_stop env h running) (CStop running))
              (\<lambda>_. run_failed env task refs err) (\<lambda>_. run_failed env task refs err))
           (run_finished env task refs baseline)))"
      unfolding preserves_def
      by (rule hoare_stry [OF start preserves_hoare [OF observed.failed]],
          rule hoare_stry [OF collect], rule hoare_stry [OF stop])
        (intro preserves_hoare observed.failed observed.finished)+
  qed simp
qed

lemma run_observed: "preserves observed (run env task)"
  unfolding run_def Let_def
  by (intro hoare_rules observed.trans observed.now observed.step observed.approval_gate
      approved_observed observed.pre_run_failure) simp_all

text \<open>
  C15: No started process is abandoned. In every run, the call after a successful \<open>start\<close> collects
  the exit of exactly that task, the call after a failed \<open>collect_exit\<close> stops it, and a run never
  ends between the two.
\<close>

theorem started_runner_is_observed:
  "each_call obeys (os_log (snd (run env task initial_state))) \<and>
   discharged (os_log (snd (run env task initial_state)))"
  using preservesD [OF run_observed [of env task], of initial_state]
  by (cases "run env task initial_state") (auto simp: observed_def discharged_def initial_state_def)

section \<open>Errors that leave no terminal status\<close>

definition failing_prepare :: "taskfence_error \<Rightarrow> orch_env" where
  "failing_prepare err = (sample_env Approved exit_zero)\<lparr>oe_prepare := \<lambda>h t. Inl err\<rparr>"

lemma failing_prepare_simps [simp]:
  "oe_prepare (failing_prepare err) h t = Inl err"
  "oe_now (failing_prepare err) h = int (length h)"
  "oe_set_status (failing_prepare err) h tid st = Inr ()"
  "oe_audit (failing_prepare err) h ev = Inr ()"
  "oe_build_invocation (failing_prepare err) h t = Inr sample_run_invocation"
  "oe_create_task_dir (failing_prepare err) h t = Inr sample_refs"
  "oe_write_resolved_task (failing_prepare err) h t = Inr ''/tmp/t1/task.yaml''"
  "oe_capture_baseline (failing_prepare err) h t =
     Inr \<lparr>wb_dirty_before_run = False, wb_summary = []\<rparr>"
  "oe_evaluate (failing_prepare err) h t c = evaluate exact_glob t c"
  by (simp_all add: failing_prepare_def)

text \<open>
  A \<open>prepare\<close> error is not recorded. With an allowed command and a runner whose \<open>prepare\<close>
  fails, \<open>run\<close> returns the error with the task's stored status still \<open>Preparing\<close>: no terminal
  status is set, no error event is audited and no report is generated.
\<close>

theorem prepare_error_leaves_task_open:
  "fst (run (failing_prepare err) sample_task initial_state) = Inl err \<and>
   last_status (os_log (snd (run (failing_prepare err) sample_task initial_state))) = Some Preparing \<and>
   list_all (\<lambda>e. case e of Error _ _ _ \<Rightarrow> False | _ \<Rightarrow> True)
     (os_events (snd (run (failing_prepare err) sample_task initial_state))) \<and>
   \<not> report_logged (snd (run (failing_prepare err) sample_task initial_state))"
  by (simp add: run_eval sample_decision initial_state_def report_logged_def last_status_def
      del: evaluate.simps)

end
