(* ===== verification/Redaction.thy ===== *)
theory Redaction
  imports Core_Types
begin

text \<open>
  Redaction of secret-like text and of audit events
  (\<open>crates/taskfence-audit/src/lib.rs\<close>, and the copies of the text functions in
  \<open>taskfence-gateway\<close> and \<open>taskfence-report\<close>). The cursor loops of the source keep the part of
  the input behind the cursor untouched, so they are recursions on the remaining input. The
  source calls the two scanning functions with non-empty literals only: with an empty literal
  the Rust loop need not end, and the model has no behaviour to state for it.
\<close>

section \<open>Text\<close>

definition redaction_marker :: string where
  "redaction_marker = ''[redacted]''"

definition truncation_marker :: string where
  "truncation_marker = ''[taskfence truncated]''"

fun strip_terminal_controls :: "string \<Rightarrow> string" where
  "strip_terminal_controls [] = []"
| "strip_terminal_controls [a] =
     (if is_ctl1 a \<and> a \<notin> set [CHR 0x0A, CHR 0x0D, CHR 0x09] then '' '' else [a])"
| "strip_terminal_controls (a # b # s) =
     (if is_ctl1 a \<and> a \<notin> set [CHR 0x0A, CHR 0x0D, CHR 0x09]
      then CHR '' '' # strip_terminal_controls (b # s)
      else if is_ctl2 a b then CHR '' '' # strip_terminal_controls s
      else a # strip_terminal_controls (b # s))"

definition is_token_char :: "char \<Rightarrow> bool" where
  "is_token_char c \<longleftrightarrow> is_alnum c \<or> c \<in> set ''_-.''"

lemma str_find_length: "str_find p s = Some i \<Longrightarrow> i + length p \<le> length s"
  using str_find_Some_prefix [of p s i] prefix_length_le [of p "drop i s"] by auto

function redact_token_prefix :: "string \<Rightarrow> string \<Rightarrow> string" where
  "redact_token_prefix [] s = s"
| "redact_token_prefix (p # ps) s =
     (case str_find (p # ps) s of
        None \<Rightarrow> s
      | Some start \<Rightarrow>
          take start s @ redaction_marker @
          redact_token_prefix (p # ps) (dropWhile is_token_char (drop (start + length (p # ps)) s)))"
  by pat_completeness auto
termination
proof (relation "measure (\<lambda>(p, s). length s)", goal_cases)
  case (2 p ps s start)
  then show ?case
    using str_find_length [OF 2] length_dropWhile_le [of is_token_char "drop (start + length (p # ps)) s"]
    by (auto simp del: length_dropWhile_le)
qed simp

definition ends_value :: "char \<Rightarrow> bool" where
  "ends_value c \<longleftrightarrow> is_ws1 c \<or> c = CHR '','' \<or> c = CHR '';''"

text \<open>The input from the first whitespace character, comma or semicolon on.\<close>

fun after_value :: "string \<Rightarrow> string" where
  "after_value (a # b # c # s) =
     (if ends_value a \<or> is_ws2 a b \<or> is_ws3 a b c then a # b # c # s else after_value (b # c # s))"
| "after_value [a, b] =
     (if ends_value a \<or> is_ws2 a b then [a, b] else after_value [b])"
| "after_value [a] = (if ends_value a then [a] else [])"
| "after_value [] = []"

lemma suffix_after_value: "suffix (after_value s) s"
  by (induction s rule: after_value.induct) (auto intro: suffix_ConsI)

function redact_after_marker_case_insensitive :: "string \<Rightarrow> string \<Rightarrow> string" where
  "redact_after_marker_case_insensitive [] s = s"
| "redact_after_marker_case_insensitive (m # ms) s =
     (case str_find (m # ms) (to_lower s) of
        None \<Rightarrow> s
      | Some marker_start \<Rightarrow>
          take (marker_start + length (m # ms)) s @ redaction_marker @
          redact_after_marker_case_insensitive (m # ms)
            (after_value (drop (marker_start + length (m # ms)) s)))"
  by pat_completeness auto
termination
proof (relation "measure (\<lambda>(m, s). length s)", goal_cases)
  case (2 m ms s start)
  then show ?case
    using str_find_length [OF 2]
      suffix_length_le [OF suffix_after_value [of "drop (start + length (m # ms)) s"]]
    by auto
qed simp

declare redact_token_prefix.simps [simp del] redact_after_marker_case_insensitive.simps [simp del]

text \<open>Equations for evaluation that wait until the text is known.\<close>

lemma redact_token_prefix_code [code]:
  "redact_token_prefix q [] = []"
  "redact_token_prefix [] (c # s) = c # s"
  "redact_token_prefix (p # ps) (c # s) =
     (case str_find (p # ps) (c # s) of
        None \<Rightarrow> c # s
      | Some start \<Rightarrow>
          take start (c # s) @ redaction_marker @
          redact_token_prefix (p # ps) (dropWhile is_token_char (drop (start + length (p # ps)) (c # s))))"
  by (cases q; simp add: redact_token_prefix.simps) (simp_all add: redact_token_prefix.simps)

lemma redact_after_marker_code [code]:
  "redact_after_marker_case_insensitive q [] = []"
  "redact_after_marker_case_insensitive [] (c # s) = c # s"
  "redact_after_marker_case_insensitive (m # ms) (c # s) =
     (case str_find (m # ms) (to_lower (c # s)) of
        None \<Rightarrow> c # s
      | Some marker_start \<Rightarrow>
          take (marker_start + length (m # ms)) (c # s) @ redaction_marker @
          redact_after_marker_case_insensitive (m # ms)
            (after_value (drop (marker_start + length (m # ms)) (c # s))))"
  by (cases q; simp add: redact_after_marker_case_insensitive.simps)
    (simp_all add: redact_after_marker_case_insensitive.simps)

definition token_prefixes :: "string list" where
  "token_prefixes = [''sk-'', ''ghp_'', ''github_pat_'', ''xoxb-'', ''xoxp-'']"

definition value_markers :: "string list" where
  "value_markers = [''token='', ''token:'', ''password='', ''password:'', ''secret='', ''secret:'',
     ''api_key='', ''api_key:'', ''authorization='', ''authorization:'', ''bearer '']"

definition redact_secret_like_text :: "string \<Rightarrow> string" where
  "redact_secret_like_text input =
     fold redact_after_marker_case_insensitive value_markers
       (fold redact_token_prefix token_prefixes input)"

text \<open>The variant of the gateway and of the report renderer strips terminal controls first.\<close>

definition gateway_redact_secret_like_text :: "string \<Rightarrow> string" where
  "gateway_redact_secret_like_text input =
     redact_secret_like_text (strip_terminal_controls input)"

definition report_redact_secret_like_text :: "string \<Rightarrow> string" where
  "report_redact_secret_like_text input =
     redact_secret_like_text (strip_terminal_controls input)"

definition is_cont :: "char \<Rightarrow> bool" where
  "is_cont c \<longleftrightarrow> 128 \<le> byte c \<and> byte c < 192"

definition is_char_boundary :: "string \<Rightarrow> nat \<Rightarrow> bool" where
  "is_char_boundary s n \<longleftrightarrow> n = 0 \<or> n = length s \<or> n < length s \<and> \<not> is_cont (s ! n)"

fun char_boundary_before :: "string \<Rightarrow> nat \<Rightarrow> nat" where
  "char_boundary_before s 0 = 0"
| "char_boundary_before s (Suc n) =
     (if is_char_boundary s (Suc n) then Suc n else char_boundary_before s n)"

definition truncate_utf8 :: "string \<Rightarrow> nat \<Rightarrow> string" where
  "truncate_utf8 input max_bytes =
     (if length input \<le> max_bytes then input
      else take (char_boundary_before input max_bytes) input @ truncation_marker)"

definition sanitize_text :: "string \<Rightarrow> nat \<Rightarrow> string" where
  "sanitize_text input max_bytes =
     truncate_utf8 (redact_secret_like_text (strip_terminal_controls input)) max_bytes"

section \<open>JSON values\<close>

datatype json =
    JNull | JBool bool | JNumber string | JString string
  | JArray "json list" | JObject "(string \<times> json) list"

definition is_secret_key :: "string \<Rightarrow> bool" where
  "is_secret_key key =
     (let key = to_lower key
      in str_contains ''secret'' key \<or> str_contains ''token'' key \<or> str_contains ''password'' key
       \<or> str_contains ''api_key'' key \<or> str_contains ''apikey'' key
       \<or> str_contains ''authorization'' key)"

fun is_redacted_value_shape :: "json \<Rightarrow> bool" where
  "is_redacted_value_shape (JObject [(k, _)]) = (k = ''Plain'' \<or> k = ''Redacted'')"
| "is_redacted_value_shape _ = False"

definition redacted_value_marker :: json where
  "redacted_value_marker =
     JObject [(''Redacted'',
       JObject [(''reason'', JString ''audit sanitizer redacted secret-like field'')])]"

fun sanitize_json_value :: "nat \<Rightarrow> json \<Rightarrow> json" where
  "sanitize_json_value n (JObject m) =
     JObject (map (\<lambda>(key, child).
       (key, if is_secret_key key
             then if is_redacted_value_shape child then redacted_value_marker
                  else JString redaction_marker
             else sanitize_json_value n child)) m)"
| "sanitize_json_value n (JArray items) = JArray (map (sanitize_json_value n) items)"
| "sanitize_json_value n (JString text) = JString (sanitize_text text n)"
| "sanitize_json_value n v = v"

section \<open>Pieces between redaction markers\<close>

lemma token_step:
  "p \<noteq> [] \<Longrightarrow> str_find p s = Some i \<Longrightarrow> redact_token_prefix p s = take i s @ redaction_marker @
     redact_token_prefix p (dropWhile is_token_char (drop (i + length p) s))"
  "str_find p s = None \<Longrightarrow> redact_token_prefix p s = s"
  by (cases p; simp add: redact_token_prefix.simps)+

lemma marker_step:
  "m \<noteq> [] \<Longrightarrow> str_find m (to_lower s) = Some i \<Longrightarrow>
   redact_after_marker_case_insensitive m s = take (i + length m) s @ redaction_marker @
     redact_after_marker_case_insensitive m (after_value (drop (i + length m) s))"
  "str_find m (to_lower s) = None \<Longrightarrow> redact_after_marker_case_insensitive m s = s"
  by (cases m; simp add: redact_after_marker_case_insensitive.simps)+

lemmas redact_Nil [simp] = redact_token_prefix.simps(1) redact_after_marker_case_insensitive.simps(1)

lemma split_at_sep:
  assumes "A @ c # B = u @ x @ v" and "c \<notin> set x" and "x \<noteq> []"
  obtains (left) v' where "A = u @ x @ v'" and "v = v' @ c # B"
  | (right) u' where "B = u' @ x @ v" and "u = A @ c # u'"
proof -
  from assms(1) consider us where "A = u @ us" "us @ c # B = x @ v"
    | us where "u = A @ us" "c # B = us @ x @ v"
    by (auto simp: append_eq_append_conv2)
  then show thesis
  proof cases
    case 1
    from 1(2) consider ws where "us = x @ ws" "ws @ c # B = v" | ws where "x = us @ ws" "c # B = ws @ v"
      by (auto simp: append_eq_append_conv2)
    then show thesis
    proof cases
      case 1
      with \<open>A = u @ us\<close> left show thesis by auto
    next
      case 2
      with assms(2) have "ws = []" by (cases ws) auto
      with 2 \<open>A = u @ us\<close> left [of "[]"] show thesis by simp
    qed
  next
    case 2
    with assms(2,3) show thesis
      by (cases us) (auto simp: Cons_eq_append_conv intro: right)
  qed
qed

definition unmarked :: "string \<Rightarrow> bool" where
  "unmarked p \<longleftrightarrow> p \<noteq> [] \<and> CHR ''['' \<notin> set p \<and> CHR '']'' \<notin> set p \<and> \<not> sublist p ''redacted''"

lemma redaction_marker_split: "redaction_marker = CHR ''['' # ''redacted'' @ [CHR '']'']"
  by (simp add: redaction_marker_def)

lemma split_at_marker:
  assumes "A @ redaction_marker @ B = u @ x @ v" and "unmarked x"
  obtains (left) v' where "A = u @ x @ v'" and "v = v' @ redaction_marker @ B"
  | (right) u' where "B = u' @ x @ v"
proof -
  have "A @ CHR ''['' # (''redacted'' @ CHR '']'' # B) = u @ x @ v"
    using assms(1) by (simp add: redaction_marker_split)
  then consider v' where "A = u @ x @ v'" "v = v' @ CHR ''['' # (''redacted'' @ CHR '']'' # B)"
    | u' where "''redacted'' @ CHR '']'' # B = u' @ x @ v"
    using split_at_sep assms(2) unfolding unmarked_def by metis
  then show thesis
  proof cases
    case 1
    with that(1) show thesis by (simp add: redaction_marker_split)
  next
    case 2
    then consider v' where "''redacted'' = u' @ x @ v'" | u'' where "B = u'' @ x @ v"
      using split_at_sep assms(2) unfolding unmarked_def by metis
    then show thesis
    proof cases
      case 1
      then have "sublist x ''redacted''" by (metis sublist_def)
      with assms(2) show thesis by (simp add: unmarked_def)
    next
      case 2
      then show thesis by (rule that(2))
    qed
  qed
qed

lemma sublist_at_marker:
  assumes "unmarked p" and "sublist p (A @ redaction_marker @ B)"
  shows "sublist p A \<or> sublist p B"
proof -
  from assms(2) obtain u v where "A @ redaction_marker @ B = u @ p @ v" by (auto simp: sublist_def)
  then show ?thesis
    using assms(1) by (cases rule: split_at_marker) auto
qed

lemma take_find_avoids:
  assumes "str_find p s = Some i" and "p \<noteq> []"
  shows "\<not> sublist p (take i s)"
proof
  assume "sublist p (take i s)"
  then obtain u v where uv: "take i s = u @ p @ v" by (auto simp: sublist_def)
  have "length (u @ p @ v) \<le> i" unfolding uv [symmetric] by simp
  with assms(2) have "length u < i" by (cases p) auto
  moreover have "s = u @ p @ v @ drop i s"
    using uv by (metis append.assoc append_take_drop_id)
  then have "prefix p (drop (length u) s)" by (metis append_eq_conv_conj prefix_def)
  ultimately show False using str_find_first [OF assms(1)] by blast
qed

lemma sublist_takeI: "sublist p (take i s) \<Longrightarrow> sublist p s"
  by (meson sublist_order.order.trans sublist_take)

lemma sublist_suffixI: "sublist p t \<Longrightarrow> suffix t s \<Longrightarrow> sublist p s"
  by (meson sublist_order.order.trans suffix_imp_sublist)

lemma redact_token_prefix_avoids:
  "unmarked p \<Longrightarrow> \<not> sublist p (redact_token_prefix p s)"
proof (induction p s rule: redact_token_prefix.induct)
  case (1 s)
  then show ?case by (simp add: unmarked_def)
next
  case (2 p ps s)
  show ?case
  proof (cases "str_find (p # ps) s")
    case None
    then show ?thesis
      using str_find_None [of "p # ps" s] by (simp add: token_step(2) str_contains_sublist)
  next
    case (Some i)
    from sublist_at_marker [OF 2(2)] take_find_avoids [OF Some] 2(1) [OF Some 2(2)]
    show ?thesis unfolding token_step(1) [OF list.distinct(2) Some] by blast
  qed
qed

lemma redact_token_prefix_keeps:
  assumes "unmarked q"
  shows "\<not> sublist q s \<Longrightarrow> \<not> sublist q (redact_token_prefix p s)"
proof (induction p s rule: redact_token_prefix.induct)
  case (1 s)
  then show ?case by simp
next
  case (2 p ps s)
  show ?case
  proof (cases "str_find (p # ps) s")
    case None
    with 2(2) show ?thesis by (simp add: token_step(2))
  next
    case (Some i)
    have "suffix (dropWhile is_token_char (drop (i + length (p # ps)) s)) s"
      by (meson suffix_dropWhile suffix_drop suffix_order.trans)
    with 2(2) have "\<not> sublist q (dropWhile is_token_char (drop (i + length (p # ps)) s))"
      using sublist_suffixI by blast
    from 2(1) [OF Some this] 2(2) sublist_at_marker [OF assms] sublist_takeI
    show ?thesis unfolding token_step(1) [OF list.distinct(2) Some] by blast
  qed
qed

lemma redact_after_marker_keeps:
  assumes "unmarked q"
  shows "\<not> sublist q s \<Longrightarrow> \<not> sublist q (redact_after_marker_case_insensitive m s)"
proof (induction m s rule: redact_after_marker_case_insensitive.induct)
  case (1 s)
  then show ?case by simp
next
  case (2 m ms s)
  show ?case
  proof (cases "str_find (m # ms) (to_lower s)")
    case None
    with 2(2) show ?thesis by (simp add: marker_step(2))
  next
    case (Some i)
    have "suffix (after_value (drop (i + length (m # ms)) s)) s"
      by (meson suffix_after_value suffix_drop suffix_order.trans)
    with 2(2) have "\<not> sublist q (after_value (drop (i + length (m # ms)) s))"
      using sublist_suffixI by blast
    from 2(1) [OF Some this] 2(2) sublist_at_marker [OF assms] sublist_takeI
    show ?thesis unfolding marker_step(1) [OF list.distinct(2) Some] by blast
  qed
qed

lemma token_prefixes_unmarked: "p \<in> set token_prefixes \<Longrightarrow> unmarked p"
  by (auto simp: token_prefixes_def unmarked_def simp flip: str_contains_sublist)

lemma fold_token_keeps:
  "unmarked q \<Longrightarrow> \<not> sublist q s \<Longrightarrow> \<not> sublist q (fold redact_token_prefix ps s)"
  by (induction ps arbitrary: s) (auto simp: redact_token_prefix_keeps)

lemma fold_marker_keeps:
  "unmarked q \<Longrightarrow> \<not> sublist q s \<Longrightarrow> \<not> sublist q (fold redact_after_marker_case_insensitive ms s)"
  by (induction ms arbitrary: s) (auto simp: redact_after_marker_keeps)

lemma fold_token_avoids:
  assumes "p \<in> set ps" and "unmarked p"
  shows "\<not> sublist p (fold redact_token_prefix ps s)"
proof -
  obtain us vs where ps: "ps = us @ p # vs" using split_list [OF assms(1)] by blast
  show ?thesis
    using fold_token_keeps [OF assms(2) redact_token_prefix_avoids [OF assms(2)]] by (simp add: ps)
qed

lemma redact_avoids_prefix:
  "p \<in> set token_prefixes \<Longrightarrow> \<not> sublist p (redact_secret_like_text s)"
  by (simp add: redact_secret_like_text_def fold_marker_keeps fold_token_avoids
      token_prefixes_unmarked)

section \<open>Values behind markers\<close>

text \<open>The input is at its end or at a character that ends a value.\<close>

fun at_stop :: "string \<Rightarrow> bool" where
  "at_stop (a # b # c # s) = (ends_value a \<or> is_ws2 a b \<or> is_ws3 a b c)"
| "at_stop [a, b] = (ends_value a \<or> is_ws2 a b)"
| "at_stop [a] = ends_value a"
| "at_stop [] = True"

definition values_redacted :: "string \<Rightarrow> string \<Rightarrow> bool" where
  "values_redacted m s \<longleftrightarrow>
     (\<forall>u x v. s = u @ x @ v \<and> to_lower x = m \<longrightarrow>
        (\<exists>w. v = redaction_marker @ w \<and> at_stop w))"

definition marker_ok :: "string \<Rightarrow> bool" where
  "marker_ok m \<longleftrightarrow> unmarked m \<and> 3 \<le> length m \<and> last m \<notin> set redaction_marker \<and> byte (last m) < 128"

lemma value_markers_ok: "m \<in> set value_markers \<Longrightarrow> marker_ok m"
  by (auto simp: value_markers_def marker_ok_def unmarked_def redaction_marker_def
      simp flip: str_contains_sublist)

lemma at_stop_after_value: "at_stop (after_value s)"
proof (induction s rule: after_value.induct)
  case (2 a b)
  then show ?case by auto
qed auto

lemma at_stop_same_start: "at_stop (t @ y) \<Longrightarrow> 3 \<le> length t \<Longrightarrow> at_stop (t @ y')"
  by (cases t rule: at_stop.cases) auto

lemma at_stop_redact:
  assumes "at_stop t" and "3 \<le> length m"
  shows "at_stop (redact_after_marker_case_insensitive m t)"
proof (cases "str_find m (to_lower t)")
  case None
  with assms(1) show ?thesis by (simp add: marker_step(2))
next
  case (Some i)
  let ?n = "i + length m"
  have "at_stop (take ?n t @ drop ?n t)" using assms(1) by simp
  moreover have "3 \<le> length (take ?n t)"
    using str_find_length [OF Some] assms(2) by simp
  ultimately have "at_stop (take ?n t @ y)" for y by (rule at_stop_same_start)
  moreover have "m \<noteq> []" using assms(2) by auto
  ultimately show ?thesis by (simp add: marker_step(1) [OF _ Some])
qed

lemma unmarked_fold: "to_lower x = m \<Longrightarrow> unmarked m \<Longrightarrow> unmarked x"
proof -
  assume m: "to_lower x = m" "unmarked m"
  have "lower_char (CHR ''['') = CHR ''[''" "lower_char (CHR '']'') = CHR '']''"
    by (simp_all add: lower_char_eq_iff is_upper_def)
  then have "CHR ''['' \<notin> set x" "CHR '']'' \<notin> set x"
    using m by (metis image_eqI list.set_map unmarked_def)+
  moreover have "sublist (to_lower x) (to_lower ''redacted'')" if "sublist x ''redacted''"
    using that by (metis map_append sublist_def)
  moreover have "to_lower ''redacted'' = ''redacted''"
    by (simp add: lower_char_eq_iff is_upper_def)
  ultimately show "unmarked x" using m by (auto simp: unmarked_def)
qed

lemma occurrence_index:
  assumes "s = u @ x @ v" and "to_lower x = m" and "str_find m (to_lower s) = Some i"
  shows "i \<le> length u"
proof (rule ccontr)
  assume "\<not> i \<le> length u"
  then have "\<not> prefix m (drop (length u) (to_lower s))"
    using str_find_first [OF assms(3)] by simp
  then show False using assms(1,2) by simp
qed

lemma values_redacted_own:
  assumes "marker_ok m"
  shows "values_redacted m (redact_after_marker_case_insensitive m s)"
proof (induction "length s" arbitrary: s rule: less_induct)
  case less
  have ne: "m \<noteq> []" and len: "3 \<le> length m" and um: "unmarked m"
    using assms by (auto simp: marker_ok_def unmarked_def)
  show ?case
  proof (cases "str_find m (to_lower s)")
    case None
    have "\<not> (s = u @ x @ v \<and> to_lower x = m)" for u x v
      using None str_find_None [of m "to_lower s"] by (auto simp: str_contains_sublist)
    then show ?thesis unfolding values_redacted_def marker_step(2) [OF None] by blast
  next
    case (Some i)
    let ?n = "i + length m" and ?rest = "after_value (drop (i + length m) s)"
    have bound: "?n \<le> length s" using str_find_length [OF Some] by simp
    with ne suffix_length_le [OF suffix_after_value [of "drop ?n s"]]
    have "length ?rest < length s" by (cases m) auto
    note IH = less [OF this]
    show ?thesis
      unfolding values_redacted_def marker_step(1) [OF ne Some]
    proof (intro allI impI, elim conjE)
      fix u x v
      assume eq: "take ?n s @ redaction_marker @ redact_after_marker_case_insensitive m ?rest = u @ x @ v"
        and x: "to_lower x = m"
      from eq unmarked_fold [OF x um]
      show "\<exists>w. v = redaction_marker @ w \<and> at_stop w"
      proof (cases rule: split_at_marker)
        case (left v')
        have "s = u @ x @ (v' @ drop ?n s)"
          using left(1) by (metis append.assoc append_take_drop_id)
        then have "i \<le> length u" using x Some by (rule occurrence_index)
        moreover have "length (take ?n s) = length u + length m + length v'"
          using left(1) x by auto
        ultimately have "v' = []" using bound by simp
        with left(2) at_stop_redact [OF at_stop_after_value len] show ?thesis by auto
      next
        case (right u')
        with IH x show ?thesis by (auto simp: values_redacted_def)
      qed
    qed
  qed
qed

lemma values_redacted_suffix: "values_redacted m s \<Longrightarrow> suffix t s \<Longrightarrow> values_redacted m t"
  unfolding values_redacted_def by (metis append.assoc suffix_def)

text \<open>A stop that is followed by a one-byte character stays a stop when the rest changes.\<close>

lemma at_stop_ascii_end:
  assumes "at_stop (t @ y)" and "t \<noteq> []" and "byte (last t) < 128"
  shows "at_stop (t @ y')"
proof -
  have small: "\<not> is_ws2 a b" "\<not> is_ws3 a b c" if "byte a < 128" for a b c
    using that by (auto simp: is_ws2_def is_ws3_def)
  have small2: "\<not> is_ws2 a b" "\<not> is_ws3 a b c" if "byte b < 128" for a b c
    using that by (auto simp: is_ws2_def is_ws3_def)
  show ?thesis
  proof (cases t rule: at_stop.cases)
    case (1 a b c s)
    with assms(1) show ?thesis by simp
  next
    case (2 a b)
    with assms small2 [of b] show ?thesis by (cases y; cases y') auto
  next
    case (3 a)
    with assms small [of a] show ?thesis
      by (cases y rule: at_stop.cases; cases y' rule: at_stop.cases) auto
  qed (use assms in simp)
qed

lemma values_redacted_keep:
  assumes "marker_ok m'" and "unmarked m"
  shows "values_redacted m s \<Longrightarrow> values_redacted m (redact_after_marker_case_insensitive m' s)"
proof (induction "length s" arbitrary: s rule: less_induct)
  case less
  have ne: "m' \<noteq> []" and len: "3 \<le> length m'"
    using assms(1) by (auto simp: marker_ok_def unmarked_def)
  show ?case
  proof (cases "str_find m' (to_lower s)")
    case None
    with less.prems show ?thesis by (simp add: marker_step(2))
  next
    case (Some i)
    let ?n = "i + length m'" and ?rest = "after_value (drop (i + length m') s)"
    let ?out = "redact_after_marker_case_insensitive m' ?rest"
    have bound: "?n \<le> length s" using str_find_length [OF Some] by simp
    have suf: "suffix ?rest s"
      by (meson suffix_after_value suffix_drop suffix_order.trans)
    from bound ne suffix_length_le [OF suffix_after_value [of "drop ?n s"]]
    have "length ?rest < length s" by (cases m') auto
    note IH = less.hyps [OF this values_redacted_suffix [OF less.prems suf]]
    have last_lower: "lower_char (last (take ?n s)) = last m'"
    proof -
      have "prefix m' (drop i (to_lower s))" using str_find_Some_prefix [OF Some] by simp
      then have "take (length m') (drop i (to_lower s)) = m'" by (auto simp: prefix_def)
      then have "take ?n (to_lower s) = take i (to_lower s) @ m'"
        by (simp add: take_add)
      then have "last (take ?n (to_lower s)) = last m'" using ne by simp
      moreover have "take ?n s \<noteq> []" using bound ne by (cases m'; cases s) auto
      ultimately show ?thesis by (metis last_map take_map)
    qed
    have marker_lower: "lower_char c = c" if "c \<in> set redaction_marker" for c
      using that by (auto simp: redaction_marker_def lower_char_eq_iff is_upper_def)
    have last_off: "last (take ?n s) \<notin> set redaction_marker"
      using last_lower marker_lower assms(1) unfolding marker_ok_def by metis
    have last_ascii: "byte (last (take ?n s)) < 128"
      using arg_cong [OF last_lower, of "byte"] assms(1)
      by (auto simp: byte_lower_char marker_ok_def split: if_splits)
    show ?thesis
      unfolding values_redacted_def marker_step(1) [OF ne Some]
    proof (intro allI impI, elim conjE)
      fix u x v
      assume eq: "take ?n s @ redaction_marker @ ?out = u @ x @ v" and x: "to_lower x = m"
      from eq unmarked_fold [OF x assms(2)]
      show "\<exists>w. v = redaction_marker @ w \<and> at_stop w"
      proof (cases rule: split_at_marker)
        case (left v')
        have "s = u @ x @ (v' @ drop ?n s)"
          using left(1) by (metis append.assoc append_take_drop_id)
        with less.prems x obtain w where w: "v' @ drop ?n s = redaction_marker @ w" "at_stop w"
          unfolding values_redacted_def by metis
        show ?thesis
        proof (cases "v' = []")
          case True
          with left(2) at_stop_redact [OF at_stop_after_value len] show ?thesis by auto
        next
          case False
          then have l: "last (take ?n s) = last v'" using left(1) by simp
          from w(1) consider t where "v' = redaction_marker @ t" "t @ drop ?n s = w"
            | t where "v' @ t = redaction_marker"
            by (auto simp: append_eq_append_conv2)
          then show ?thesis
          proof cases
            case 1
            have "t \<noteq> []"
            proof
              assume "t = []"
              with 1(1) l have "last (take ?n s) = last redaction_marker" by simp
              then show False using last_off by (simp add: redaction_marker_def)
            qed
            moreover from this have "last v' = last t" by (simp add: 1(1))
            with l last_ascii have "byte (last t) < 128" by metis
            moreover have "at_stop (t @ drop ?n s)" using w(2) unfolding 1(2) .
            ultimately have "at_stop (t @ (redaction_marker @ ?out))"
              using at_stop_ascii_end [of t "drop ?n s"] by blast
            moreover have "v = redaction_marker @ (t @ redaction_marker @ ?out)"
              using left(2) 1(1) by (simp only: append.assoc)
            ultimately show ?thesis by blast
          next
            case 2
            then have "last v' \<in> set redaction_marker" using False by (metis UnCI last_in_set set_append)
            with l last_off show ?thesis by simp
          qed
        qed
      next
        case (right u')
        with IH x show ?thesis by (auto simp: values_redacted_def)
      qed
    qed
  qed
qed

lemma fold_values_keep:
  "unmarked m \<Longrightarrow> values_redacted m s \<Longrightarrow> \<forall>m' \<in> set ms. marker_ok m' \<Longrightarrow>
   values_redacted m (fold redact_after_marker_case_insensitive ms s)"
  by (induction ms arbitrary: s) (auto simp: values_redacted_keep)

lemma fold_values_redacted:
  assumes "m \<in> set ms" and "\<forall>m' \<in> set ms. marker_ok m'"
  shows "values_redacted m (fold redact_after_marker_case_insensitive ms s)"
proof -
  obtain us vs where ms: "ms = us @ m # vs" using split_list [OF assms(1)] by blast
  with assms(2) show ?thesis
    using fold_values_keep [OF _ values_redacted_own]
    by (auto simp: marker_ok_def)
qed

section \<open>Terminal controls\<close>

text \<open>No control character other than line feed, carriage return and tab.\<close>

fun printable :: "string \<Rightarrow> bool" where
  "printable [] = True"
| "printable [a] = (is_ctl1 a \<longrightarrow> a \<in> set [CHR 0x0A, CHR 0x0D, CHR 0x09])"
| "printable (a # b # s) =
     ((is_ctl1 a \<longrightarrow> a \<in> set [CHR 0x0A, CHR 0x0D, CHR 0x09]) \<and> \<not> is_ctl2 a b \<and> printable (b # s))"

lemma printable_append:
  "printable (s @ t) \<longleftrightarrow>
     printable s \<and> printable t \<and> (s \<noteq> [] \<and> t \<noteq> [] \<longrightarrow> \<not> is_ctl2 (last s) (hd t))"
proof (induction s rule: printable.induct)
  case (2 a)
  then show ?case by (cases t) auto
qed auto

lemma is_ctl2_second: "byte b < 128 \<Longrightarrow> \<not> is_ctl2 a b"
  by (simp add: is_ctl2_def)

lemma printable_marker:
  "printable (A @ redaction_marker @ B) \<longleftrightarrow> printable A \<and> printable B"
  "printable (A @ truncation_marker) \<longleftrightarrow> printable A"
proof -
  have m: "printable redaction_marker" "printable truncation_marker"
    by (auto simp: redaction_marker_def truncation_marker_def is_ctl1_def is_ctl2_def)
  have h: "\<not> is_ctl2 a (hd (redaction_marker @ B))" "\<not> is_ctl2 a (hd truncation_marker)" for a
    by (simp_all add: redaction_marker_def truncation_marker_def is_ctl2_def)
  have l: "\<not> is_ctl2 (last redaction_marker) b" for b
    by (simp add: redaction_marker_def is_ctl2_def)
  show "printable (A @ redaction_marker @ B) \<longleftrightarrow> printable A \<and> printable B"
    using m h l by (auto simp: printable_append [of A] printable_append [of redaction_marker])
  show "printable (A @ truncation_marker) \<longleftrightarrow> printable A"
    using m h by (auto simp: printable_append)
qed

lemma strip_head:
  "strip_terminal_controls (a # s) = c # t \<Longrightarrow> c = a \<or> c = CHR '' ''"
  by (cases "a # s" rule: strip_terminal_controls.cases) (auto split: if_splits)

lemma printable_strip: "printable (strip_terminal_controls s)"
proof (induction s rule: strip_terminal_controls.induct)
  case (3 a b s)
  have sp: "printable (CHR '' '' # t)" if "printable t" for t
    using that by (cases t) (auto simp: is_ctl1_def is_ctl2_def)
  show ?case
  proof (cases "is_ctl1 a \<and> a \<notin> set [CHR 0x0A, CHR 0x0D, CHR 0x09]")
    case True
    with 3(1) show ?thesis by (auto intro: sp)
  next
    case no1: False
    show ?thesis
    proof (cases "is_ctl2 a b")
      case True
      with 3(2) no1 show ?thesis by (auto intro: sp)
    next
      case False
      with 3(3) no1 have IH: "printable (strip_terminal_controls (b # s))" by simp
      moreover have "\<not> is_ctl2 a (hd (strip_terminal_controls (b # s)))"
        if "strip_terminal_controls (b # s) \<noteq> []"
        using that False strip_head [of b s] is_ctl2_second [of "CHR '' ''" a]
        by (cases "strip_terminal_controls (b # s)") auto
      ultimately have "printable ([a] @ strip_terminal_controls (b # s))"
        using no1 unfolding printable_append by auto
      with no1 False show ?thesis by auto
    qed
  qed
qed (auto simp: is_ctl1_def)

lemma printable_sublist: "printable s \<Longrightarrow> sublist t s \<Longrightarrow> printable t"
  by (auto simp: sublist_def printable_append)

lemma printable_token: "printable s \<Longrightarrow> printable (redact_token_prefix p s)"
proof (induction "length s" arbitrary: s rule: less_induct)
  case less
  show ?case
  proof (cases "p = [] \<or> str_find p s = None")
    case True
    with less.prems show ?thesis by (auto simp: token_step(2))
  next
    case False
    then obtain i where i: "p \<noteq> []" "str_find p s = Some i" by auto
    let ?rest = "dropWhile is_token_char (drop (i + length p) s)"
    have "suffix ?rest s" by (meson suffix_dropWhile suffix_drop suffix_order.trans)
    then have rest: "printable ?rest"
      using less.prems by (meson printable_sublist suffix_imp_sublist)
    have "length ?rest \<le> length s - (i + length p)"
      by (metis length_drop length_dropWhile_le)
    with i str_find_length [OF i(2)] have "length ?rest < length s" by (cases p) auto
    from less.hyps [OF this rest] less.prems show ?thesis
      by (simp add: token_step(1) [OF i] printable_marker)
        (meson printable_sublist sublist_take)
  qed
qed

lemma printable_after_marker:
  "printable s \<Longrightarrow> printable (redact_after_marker_case_insensitive m s)"
proof (induction "length s" arbitrary: s rule: less_induct)
  case less
  show ?case
  proof (cases "m = [] \<or> str_find m (to_lower s) = None")
    case True
    with less.prems show ?thesis by (auto simp: marker_step(2))
  next
    case False
    then obtain i where i: "m \<noteq> []" "str_find m (to_lower s) = Some i" by auto
    let ?rest = "after_value (drop (i + length m) s)"
    have "suffix ?rest s" by (meson suffix_after_value suffix_drop suffix_order.trans)
    then have rest: "printable ?rest"
      using less.prems by (meson printable_sublist suffix_imp_sublist)
    have "length ?rest \<le> length s - (i + length m)"
      using suffix_length_le [OF suffix_after_value] by (metis length_drop)
    with i str_find_length [OF i(2)] have "length ?rest < length s" by (cases m) auto
    from less.hyps [OF this rest] less.prems show ?thesis
      by (simp add: marker_step(1) [OF i] printable_marker)
        (meson printable_sublist sublist_take)
  qed
qed

lemma printable_redact: "printable s \<Longrightarrow> printable (redact_secret_like_text s)"
proof -
  have "printable s \<Longrightarrow> printable (fold redact_token_prefix ps s)" for ps s
    by (induction ps arbitrary: s) (auto simp: printable_token)
  moreover have "printable s \<Longrightarrow> printable (fold redact_after_marker_case_insensitive ms s)" for ms s
    by (induction ms arbitrary: s) (auto simp: printable_after_marker)
  ultimately show "printable s \<Longrightarrow> printable (redact_secret_like_text s)"
    by (simp add: redact_secret_like_text_def)
qed

lemma printable_truncate: "printable s \<Longrightarrow> printable (truncate_utf8 s n)"
  by (auto simp: truncate_utf8_def printable_marker intro: printable_sublist)

section \<open>Redacted text is a fixed point\<close>

lemma token_char_stops: "\<not> sublist p s \<Longrightarrow> redact_token_prefix p s = s"
  using str_find_None [of p s] by (simp add: token_step(2) str_contains_sublist)

lemma after_value_marker:
  assumes "at_stop w"
  shows "after_value (redaction_marker @ w) = w"
proof -
  have "after_value w = w" using assms by (cases w rule: at_stop.cases) auto
  moreover have "\<not> ends_value c \<and> \<not> is_ws2 c x \<and> \<not> is_ws3 c x y" if "c \<in> set redaction_marker" for c x y
    using that
    by (auto simp: redaction_marker_def ends_value_def is_ws1_def is_ws2_def is_ws3_def)
  then have "set t \<subseteq> set redaction_marker \<Longrightarrow> after_value (t @ w) = after_value w" for t
  proof (induction t)
    case (Cons a t)
    then show ?case by (cases "t @ w" rule: at_stop.cases) auto
  qed simp
  ultimately show ?thesis by simp
qed

lemma values_redacted_fixed:
  assumes "m \<noteq> []"
  shows "values_redacted m s \<Longrightarrow> redact_after_marker_case_insensitive m s = s"
proof (induction "length s" arbitrary: s rule: less_induct)
  case less
  show ?case
  proof (cases "str_find m (to_lower s)")
    case None
    then show ?thesis by (simp add: marker_step(2))
  next
    case (Some i)
    let ?x = "take (length m) (drop i s)" and ?v = "drop (i + length m) s"
    have s: "s = take i s @ ?x @ ?v"
      by (metis add.commute append_take_drop_id drop_drop)
    have "prefix m (drop i (to_lower s))" using str_find_Some_prefix [OF Some] by simp
    then have "to_lower ?x = m" by (auto simp: prefix_def take_map [symmetric] drop_map [symmetric])
    with less.prems s obtain w where w: "?v = redaction_marker @ w" "at_stop w"
      unfolding values_redacted_def by metis
    have suf: "suffix w s" using w(1) s by (metis suffixI append.assoc)
    have "length w < length s"
      using arg_cong [OF w(1), of length] by (simp add: redaction_marker_def)
    from less.hyps [OF this values_redacted_suffix [OF less.prems suf]]
    have "redact_after_marker_case_insensitive m w = w" .
    then show ?thesis
      using marker_step(1) [OF assms Some] after_value_marker [OF w(2)] w(1)
      by (metis append_take_drop_id)
  qed
qed

lemma fold_fixed: "(\<And>x. x \<in> set xs \<Longrightarrow> f x s = s) \<Longrightarrow> fold f xs s = s"
  by (induction xs) auto

lemma redact_fixed:
  assumes "\<And>p. p \<in> set token_prefixes \<Longrightarrow> \<not> sublist p s"
    and "\<And>m. m \<in> set value_markers \<Longrightarrow> values_redacted m s"
  shows "redact_secret_like_text s = s"
proof -
  have "fold redact_token_prefix token_prefixes s = s"
    using assms(1) by (intro fold_fixed token_char_stops)
  moreover have "fold redact_after_marker_case_insensitive value_markers s = s"
    using assms(2) value_markers_ok
    by (intro fold_fixed values_redacted_fixed) (auto simp: marker_ok_def unmarked_def)
  ultimately show ?thesis by (simp add: redact_secret_like_text_def)
qed

lemma redact_values: "m \<in> set value_markers \<Longrightarrow> values_redacted m (redact_secret_like_text s)"
  by (simp add: redact_secret_like_text_def fold_values_redacted value_markers_ok)

section \<open>Truncation\<close>

fun utf8_width :: "char \<Rightarrow> nat" where
  "utf8_width a =
     (if byte a < 128 then 1 else if 194 \<le> byte a \<and> byte a < 224 then 2
      else if 224 \<le> byte a \<and> byte a < 240 then 3
      else if 240 \<le> byte a \<and> byte a < 245 then 4 else 0)"

inductive utf8 :: "string \<Rightarrow> bool" where
  Nil: "utf8 []"
| Char: "utf8_width a = Suc (length cs) \<Longrightarrow> list_all is_cont cs \<Longrightarrow> utf8 s \<Longrightarrow> utf8 (a # cs @ s)"

lemma utf8_width_start: "utf8_width a = Suc k \<Longrightarrow> \<not> is_cont a"
  by (auto simp: is_cont_def split: if_splits)

lemma utf8_width_le: "utf8_width a \<le> 4"
  by simp

lemma utf8_start: "utf8 s \<Longrightarrow> s = [] \<or> \<not> is_cont (hd s)"
  by (induction rule: utf8.induct) (auto dest: utf8_width_start simp del: utf8_width.simps)

lemma boundary_shift:
  assumes "utf8 s"
  shows "is_char_boundary (t @ s) (length t + n) = is_char_boundary s n \<or> t = []"
  using utf8_start [OF assms]
  by (cases s; cases n) (auto simp: is_char_boundary_def nth_append hd_conv_nth)

lemma boundary_before_shift:
  assumes "utf8 s" and "t \<noteq> []"
  shows "char_boundary_before (t @ s) (length t + n) = length t + char_boundary_before s n"
proof (induction n)
  case 0
  have "is_char_boundary (t @ s) (length t)"
    using boundary_shift [OF assms(1), of t 0] assms(2) by (simp add: is_char_boundary_def)
  then show ?case using assms(2) by (cases "length t") auto
next
  case (Suc n)
  then show ?case
    using boundary_shift [OF assms(1), of t "Suc n"] assms(2) by auto
qed

lemma boundary_before_inside:
  assumes "list_all is_cont cs" and "n \<le> length cs"
  shows "char_boundary_before (a # cs @ s) n = 0"
  using assms(2)
proof (induction n)
  case (Suc n)
  with assms(1) have "is_cont ((a # cs @ s) ! Suc n)" by (auto simp: nth_append list_all_length)
  moreover have "Suc n < length (a # cs @ s)" using Suc by simp
  ultimately show ?case using Suc by (simp add: is_char_boundary_def)
qed simp

lemma char_boundary_before_utf8:
  "utf8 s \<Longrightarrow> n \<le> length s \<Longrightarrow>
   utf8 (take (char_boundary_before s n) s) \<and> char_boundary_before s n \<le> n \<and>
   n \<le> char_boundary_before s n + 3"
proof (induction arbitrary: n rule: utf8.induct)
  case Nil
  then show ?case by (simp add: utf8.Nil)
next
  case (Char a cs s)
  show ?case
  proof (cases "n \<le> length cs")
    case True
    have "length cs \<le> 3" using Char(1) utf8_width_le [of a] by linarith
    with True boundary_before_inside [OF Char(2) True, of a s] show ?thesis
      by (simp add: utf8.Nil)
  next
    case False
    then obtain k where n: "n = length (a # cs) + k"
      by (metis Suc_leI le_iff_add length_Cons not_le)
    have cut: "char_boundary_before (a # cs @ s) n = length (a # cs) + char_boundary_before s k"
      using boundary_before_shift [OF Char(3), of "a # cs" k] n by simp
    have k: "k \<le> length s" using Char.prems n by simp
    have "take (length (a # cs) + j) (a # cs @ s) = a # cs @ take j s" for j by simp
    with Char.IH [OF k] utf8.Char [OF Char(1,2)] show ?thesis
      unfolding cut by (simp add: n)
  qed
qed

section \<open>Audit values\<close>

text \<open>Every value behind a secret-like key is one of the two markers.\<close>

fun secrets_hidden :: "json \<Rightarrow> bool" where
  "secrets_hidden (JObject m) =
     list_all (\<lambda>(k, v). if is_secret_key k
                then v = JString redaction_marker \<or> v = redacted_value_marker
                else secrets_hidden v) m"
| "secrets_hidden (JArray items) = list_all secrets_hidden items"
| "secrets_hidden v = True"

text \<open>The string values of a JSON value, at every depth; the keys of its objects are not values.\<close>

fun string_values :: "json \<Rightarrow> string list" where
  "string_values (JObject m) = concat (map (\<lambda>(k, v). string_values v) m)"
| "string_values (JArray items) = concat (map string_values items)"
| "string_values (JString t) = [t]"
| "string_values v = []"

lemma sanitized_hidden: "secrets_hidden (sanitize_json_value n v)"
  by (induction v rule: secrets_hidden.induct) (auto simp: list_all_iff)

definition text_safe :: "nat \<Rightarrow> string \<Rightarrow> bool" where
  "text_safe n t \<longleftrightarrow> printable t \<and> length t \<le> n + 64 \<and>
     list_all (\<lambda>p. \<not> str_contains p t) token_prefixes"

lemma char_boundary_before_le: "char_boundary_before s n \<le> n"
  by (induction s n rule: char_boundary_before.induct) auto

lemma truncation_unmarked: "\<not> sublist p (u @ truncation_marker)"
  if "\<not> sublist p u" "p \<in> set token_prefixes"
proof
  assume "sublist p (u @ truncation_marker)"
  then obtain x y where "u @ CHR ''['' # ''taskfence truncated]'' = x @ p @ y"
    by (auto simp: sublist_def truncation_marker_def)
  then show False
  proof (rule split_at_sep)
    show "CHR ''['' \<notin> set p" "p \<noteq> []"
      using token_prefixes_unmarked [OF that(2)] by (auto simp: unmarked_def)
  next
    fix v' assume "u = x @ p @ v'"
    with that(1) show False by (metis sublist_def)
  next
    fix u' assume "''taskfence truncated]'' = u' @ p @ y"
    then have "sublist p ''taskfence truncated]''" by (metis sublist_def)
    then show False
      using that(2) by (auto simp: token_prefixes_def simp flip: str_contains_sublist)
  qed
qed

lemma text_safe_sanitize: "text_safe n (sanitize_text s n)"
proof -
  let ?r = "redact_secret_like_text (strip_terminal_controls s)"
  have "printable (sanitize_text s n)"
    by (simp add: sanitize_text_def printable_truncate printable_redact printable_strip)
  moreover have "length (sanitize_text s n) \<le> n + 64"
    using char_boundary_before_le [of ?r n]
    by (auto simp: sanitize_text_def truncate_utf8_def truncation_marker_def)
  moreover have "\<not> sublist p (sanitize_text s n)" if "p \<in> set token_prefixes" for p
  proof -
    have "\<not> sublist p (take k ?r @ truncation_marker)" for k
      using truncation_unmarked [OF _ that] sublist_takeI redact_avoids_prefix [OF that] by blast
    with redact_avoids_prefix [OF that] show ?thesis
      by (simp add: sanitize_text_def truncate_utf8_def)
  qed
  ultimately show ?thesis by (simp add: text_safe_def list_all_iff str_contains_sublist)
qed

lemma text_safe_constants:
  "text_safe n redaction_marker"
  "text_safe n ''audit sanitizer redacted secret-like field''"
  by (auto simp: text_safe_def redaction_marker_def token_prefixes_def is_ctl1_def is_ctl2_def)

lemma sanitized_texts: "list_all (text_safe n) (string_values (sanitize_json_value n v))"
proof (induction v rule: string_values.induct)
  case (1 m)
  then show ?case
    by (auto simp: list_all_iff redacted_value_marker_def text_safe_constants split: if_splits)
next
  case (2 items)
  then show ?case by (auto simp: list_all_iff)
qed (auto simp: text_safe_sanitize)

text \<open>
  What sanitising does not touch: the order and the keys of the objects, the lengths of the arrays,
  the numbers, booleans and nulls. The outline of a value leaves out its strings and what lies behind
  its secret-like keys.
\<close>

fun outline :: "json \<Rightarrow> json" where
  "outline (JObject m) = JObject (map (\<lambda>(k, v). (k, if is_secret_key k then JNull else outline v)) m)"
| "outline (JArray items) = JArray (map outline items)"
| "outline (JString t) = JString []"
| "outline v = v"

lemma sanitized_outline: "outline (sanitize_json_value n v) = outline v"
  by (induction v rule: outline.induct) auto

text \<open>So a token that is the key of an object is logged as it is.\<close>

lemma object_key_not_sanitised:
  "sanitize_json_value n (JObject [(''ghp_0123456789abcdef'', JBool True)]) =
     JObject [(''ghp_0123456789abcdef'', JBool True)]"
proof -
  have "\<not> is_secret_key ''ghp_0123456789abcdef''" by code_simp
  then show ?thesis by simp
qed

section \<open>Properties\<close>

text \<open>
  C21: Redacted text shows no token and no marked value. For every input, the result of
  \<open>redact_secret_like_text\<close> contains none of the five token prefixes, and every occurrence of one
  of the eleven markers (in any case) is followed by \<open>[redacted]\<close> and then by the end of the
  text, white space, a comma or a semicolon.
\<close>

theorem redacted_text_safe:
  "list_all (\<lambda>p. \<not> str_contains p (redact_secret_like_text s)) token_prefixes
   \<and> list_all (\<lambda>m. values_redacted m (redact_secret_like_text s)) value_markers"
  using redact_avoids_prefix redact_values by (auto simp: list_all_iff str_contains_sublist)

text \<open>
  Redaction is idempotent, so text that was redacted for the audit log is not changed again
  when the gateway or the report renderer redacts it.
\<close>

theorem redact_idempotent:
  "redact_secret_like_text (redact_secret_like_text s) = redact_secret_like_text s"
  using redact_avoids_prefix redact_values by (rule redact_fixed)


text \<open>
  Truncation never splits a character. A valid UTF-8 text longer than the limit is cut to a
  valid UTF-8 prefix that loses at most three bytes below the limit, followed by the marker.
\<close>

theorem truncate_keeps_utf8:
  assumes "utf8 s" and "n < length s"
  shows "\<exists>k \<le> n. n \<le> k + 3 \<and> utf8 (take k s) \<and> truncate_utf8 s n = take k s @ truncation_marker"
  using char_boundary_before_utf8 [OF assms(1), of n] assms(2)
  by (intro exI [of _ "char_boundary_before s n"]) (simp add: truncate_utf8_def)

theorem truncate_keeps_utf8_witness:
  "\<exists>k \<le> 2. utf8 (take k [CHR ''a'', CHR 0xC3, CHR 0xA9]) \<and>
     truncate_utf8 [CHR ''a'', CHR 0xC3, CHR 0xA9] 2 =
       take k [CHR ''a'', CHR 0xC3, CHR 0xA9] @ truncation_marker"
proof -
  have "utf8 ([CHR 0xC3] @ [CHR 0xA9] @ [])"
    using utf8.Char [of "CHR 0xC3" "[CHR 0xA9]" "[]"] by (simp add: utf8.Nil is_cont_def)
  then have "utf8 [CHR ''a'', CHR 0xC3, CHR 0xA9]"
    using utf8.Char [of "CHR ''a''" "[]"] by simp
  from truncate_keeps_utf8 [OF this, of 2] show ?thesis by auto
qed

text \<open>
  A value behind a marker and a space is not redacted: \<open>redact_after_marker_case_insensitive\<close>
  stops at the first white space, so \<open>password: hunter2\<close> keeps the password.
\<close>

theorem redaction_stops_at_space:
  "redact_secret_like_text ''password: hunter2'' = ''password:[redacted] hunter2''"
  by code_simp

end
