(* ===== verification/Approval_Engine.thy ===== *)
theory Approval_Engine
  imports Orchestrator
begin

text \<open>
  Approvals (\<open>crates/taskfence-approval/src/lib.rs\<close>): the in-memory \<open>LocalApprovalEngine\<close>, the
  terminal prompt, the workspace directory \<open>LocalApprovalStore\<close> and the
  \<open>LocalExternalApprovalEngine\<close> that polls it. The locale \<open>approval_engine\<close> is the contract of
  the trait \<open>ApprovalEngine\<close>; both engines interpret it.
\<close>

section \<open>The local engine\<close>

datatype local_approval_mode =
    Preconfigured approval_decision | TimedOutMode | Interactive | FailClosed

text \<open>
  The prompt is a trait object: a function of the number of locks taken so far and of the
  record, so that repeated prompts may answer differently.
\<close>

record local_engine =
  le_actor :: string
  le_source :: "string option"
  le_mode :: local_approval_mode
  le_prompt :: "(nat \<Rightarrow> approval_record \<Rightarrow> approval_decision result) option"

record engine_io =
  io_fresh :: "nat \<Rightarrow> approval_id"
  io_now :: "nat \<Rightarrow> time"

record engine_state =
  es_records :: "(approval_id, approval_record) btree"
  es_poisoned :: bool
  es_tick :: nat

definition engine_fail_closed :: local_engine where
  "engine_fail_closed = \<lparr>le_actor = ''local'', le_source = None, le_mode = FailClosed, le_prompt = None\<rparr>"

definition engine_preconfigured :: "approval_decision \<Rightarrow> local_engine" where
  "engine_preconfigured d = \<lparr>le_actor = ''local'', le_source = Some ''preconfigured'',
     le_mode = Preconfigured d, le_prompt = None\<rparr>"

definition engine_timed_out :: local_engine where
  "engine_timed_out = \<lparr>le_actor = ''local'', le_source = Some ''timeout'', le_mode = TimedOutMode,
     le_prompt = None\<rparr>"

definition engine_interactive_with_prompt ::
  "(nat \<Rightarrow> approval_record \<Rightarrow> approval_decision result) \<Rightarrow> local_engine" where
  "engine_interactive_with_prompt prompt = \<lparr>le_actor = ''local'', le_source = Some ''interactive'',
     le_mode = Interactive, le_prompt = Some prompt\<rparr>"

definition resolve_decision ::
  "local_engine \<Rightarrow> nat \<Rightarrow> approval_record \<Rightarrow> approval_decision result" where
  "resolve_decision e tick record =
     (case le_mode e of
        Preconfigured d \<Rightarrow> Inr d
      | TimedOutMode \<Rightarrow> Inr ATimedOut
      | Interactive \<Rightarrow> (case le_prompt e of Some prompt \<Rightarrow> prompt tick record | None \<Rightarrow> Inr ADenied)
      | FailClosed \<Rightarrow> Inr ADenied)"

definition local_request ::
  "engine_io \<Rightarrow> local_engine \<Rightarrow> resolved_task \<Rightarrow> action \<Rightarrow> action_decision \<Rightarrow> engine_state \<Rightarrow>
   approval_record result \<times> engine_state" where
  "local_request io e task action decision s =
     (let record = \<lparr>ar_id = io_fresh io (es_tick s), ar_task_id = rt_id task, ar_actor = le_actor e,
        ar_source = le_source e, ar_requested_at = io_now io (es_tick s), ar_resolved_at = None,
        ar_action = action, ar_policy_decision = decision, ar_decision = None\<rparr>
      in if es_poisoned s then (Inl (Approval ''approval record store is poisoned''), s)
         else (Inr record, s\<lparr>es_records := bt_insert (ar_id record) record (es_records s),
                             es_tick := es_tick s + 1\<rparr>))"

text \<open>The first critical section of \<open>wait\<close>: the record under the id.\<close>

definition local_pending :: "approval_id \<Rightarrow> engine_state \<Rightarrow> approval_record result \<times> engine_state" where
  "local_pending aid s =
     (if es_poisoned s then (Inl (Approval ''approval record store is poisoned''), s)
      else case bt_get (es_records s) aid of
             None \<Rightarrow> (Inl (Approval (''unknown approval id '' @ aid)), s)
           | Some record \<Rightarrow> (Inr record, s\<lparr>es_tick := es_tick s + 1\<rparr>))"

text \<open>The second critical section of \<open>wait\<close>: the first decision is kept.\<close>

definition local_commit ::
  "engine_io \<Rightarrow> approval_id \<Rightarrow> approval_decision \<Rightarrow> engine_state \<Rightarrow>
   approval_record result \<times> engine_state" where
  "local_commit io aid d s =
     (if es_poisoned s then (Inl (Approval ''approval record store is poisoned''), s)
      else case bt_get (es_records s) aid of
             None \<Rightarrow> (Inl (Approval (''unknown approval id '' @ aid)), s)
           | Some record \<Rightarrow>
               let record' = (if ar_decision record = None
                              then record\<lparr>ar_decision := Some d,
                                          ar_resolved_at := Some (io_now io (es_tick s))\<rparr>
                              else record)
               in (Inr record', s\<lparr>es_records := bt_insert aid record' (es_records s),
                                 es_tick := es_tick s + 1\<rparr>))"

definition local_wait ::
  "engine_io \<Rightarrow> local_engine \<Rightarrow> approval_id \<Rightarrow> engine_state \<Rightarrow>
   approval_record result \<times> engine_state" where
  "local_wait io e aid =
     sbind (local_pending aid) (\<lambda>pending.
       if ar_decision pending \<noteq> None then sreturn pending
       else sbind (\<lambda>s. (resolve_decision e (es_tick s) pending, s)) (\<lambda>d. local_commit io aid d))"

section \<open>Rendering\<close>

definition rule_suffix :: "string option \<Rightarrow> string" where
  "rule_suffix rule = (case rule of Some r \<Rightarrow> '' by rule '' @ r | None \<Rightarrow> [])"

fun risk_label :: "risk_level \<Rightarrow> string" where
  "risk_label Low = ''low''"
| "risk_label Medium = ''medium''"
| "risk_label High = ''high''"
| "risk_label Critical = ''critical''"

fun decision_summary :: "action_decision \<Rightarrow> string" where
  "decision_summary (Allow rule reason) = ''allow'' @ rule_suffix rule @ '': '' @ reason"
| "decision_summary (RequireApproval kind rule reason risk) =
     ''requires '' @ kind @ '' approval'' @ rule_suffix rule @ '': '' @ reason @ ''; risk '' @ risk_label risk"
| "decision_summary (Deny rule reason) = ''deny'' @ rule_suffix rule @ '': '' @ reason"

fun action_summary :: "action \<Rightarrow> string" where
  "action_summary (FileRead path) = ''file read '' @ path"
| "action_summary (FileWrite path) = ''file write '' @ path"
| "action_summary (Command command) =
     ''command `'' @ ca_raw command @ ''`'' @
     (if ca_shell_wrapped command then '' (shell wrapped)'' else [])"
| "action_summary (Network host port) =
     ''network '' @ host @
     (case port of Some p \<Rightarrow> '':'' @ dec_digits (unat p) | None \<Rightarrow> [])"
| "action_summary (EnvExpose name) = ''environment variable '' @ name"
| "action_summary (SecretAccess name scope) = ''secret access '' @ name @ '' for scope '' @ scope"
| "action_summary (ToolCall tool) =
     ''tool call '' @ ta_protocol tool @ '' '' @ ta_tool tool @ ''.'' @ ta_operation tool @
     '' with '' @ dec_digits (length (ta_parameters tool)) @ '' parameter(s)''"
| "action_summary (Budget kind amount) = ''budget '' @ kind @ '' amount '' @ dec_digits (unat amount)"

definition newline :: string where
  "newline = [CHR 0x0A]"

definition render_approval_request :: "approval_record \<Rightarrow> string" where
  "render_approval_request record =
     newline @ ''TaskFence approval required'' @ newline
     @ ''  task: '' @ ar_task_id record @ newline
     @ ''  approval: '' @ ar_id record @ newline
     @ ''  action: '' @ action_summary (ar_action record) @ newline
     @ ''  policy: '' @ decision_summary (ar_policy_decision record) @ newline
     @ ''  actor: '' @ ar_actor record @ newline
     @ (case ar_source record of Some source \<Rightarrow> ''  source: '' @ source @ newline | None \<Rightarrow> [])
     @ newline"

definition render_external_approval_commands :: "approval_record \<Rightarrow> path \<Rightarrow> string" where
  "render_external_approval_commands record workspace =
     ''Resolve from another terminal:'' @ newline
     @ ''  taskfence approve '' @ ar_id record @ '' --workspace '' @ [CHR 0x22] @ workspace
     @ [CHR 0x22] @ newline
     @ ''  taskfence deny '' @ ar_id record @ '' --workspace '' @ [CHR 0x22] @ workspace
     @ [CHR 0x22] @ newline @ newline"

section \<open>The terminal prompt\<close>

definition parse_approval_response :: "string \<Rightarrow> approval_decision option" where
  "parse_approval_response input =
     (let w = to_lower (trim input)
      in if w \<in> set [''approve'', ''approved'', ''yes'', ''y''] then Some Approved
         else if w \<in> set [''deny'', ''denied'', ''no'', ''n''] then Some ADenied
         else None)"

text \<open>
  Standard input as the sequence of results of \<open>read_line\<close> (the empty line is the end of the
  input) and standard error as the text written; a write of a text may fail.
\<close>

record terminal =
  tm_input :: "(string + string) list"
  tm_output :: string

definition approval_io_error :: "string \<Rightarrow> taskfence_error" where
  "approval_io_error err = Approval (''approval prompt IO failed: '' @ err)"

definition term_write ::
  "(string \<Rightarrow> string option) \<Rightarrow> string \<Rightarrow> terminal \<Rightarrow> unit result \<times> terminal" where
  "term_write fails text t =
     (case fails (tm_output t) of
        Some err \<Rightarrow> (Inl (approval_io_error err), t)
      | None \<Rightarrow> (Inr (), t\<lparr>tm_output := tm_output t @ text\<rparr>))"

definition term_read_line :: "terminal \<Rightarrow> string result \<times> terminal" where
  "term_read_line t =
     (case tm_input t of
        [] \<Rightarrow> (Inr [], t)
      | Inl err # rest \<Rightarrow> (Inl (approval_io_error err), t\<lparr>tm_input := rest\<rparr>)
      | Inr line # rest \<Rightarrow> (Inr line, t\<lparr>tm_input := rest\<rparr>))"

definition max_interactive_attempts :: nat where
  "max_interactive_attempts = 3"

text \<open>The loop of \<open>prompt\<close> with \<open>n\<close> attempts left.\<close>

fun prompt_attempts ::
  "(string \<Rightarrow> string option) \<Rightarrow> nat \<Rightarrow> terminal \<Rightarrow> approval_decision result \<times> terminal" where
  "prompt_attempts fails 0 = sreturn ADenied"
| "prompt_attempts fails (Suc n) =
     sbind (term_write fails ''Approve this action? Type 'approve' or 'deny': '') (\<lambda>_.
     sbind term_read_line (\<lambda>response.
       if response = [] then
         sbind (term_write fails (newline @ ''No approval input received; denying by default.'' @ newline))
           (\<lambda>_. sreturn ADenied)
       else case parse_approval_response response of
              Some d \<Rightarrow> sreturn d
            | None \<Rightarrow>
                sbind (term_write fails
                    (if n = 0 then ''Approval response was not explicit; denying by default.'' @ newline
                     else ''Response must be explicit: approve or deny.'' @ newline))
                  (\<lambda>_. prompt_attempts fails n)))"

definition terminal_prompt ::
  "(string \<Rightarrow> string option) \<Rightarrow> approval_record \<Rightarrow> terminal \<Rightarrow>
   approval_decision result \<times> terminal" where
  "terminal_prompt fails record =
     sbind (term_write fails (render_approval_request record)) (\<lambda>_.
       prompt_attempts fails max_interactive_attempts)"


section \<open>The approval directory\<close>

text \<open>
  The directory \<open><workspace>/.taskfence/approvals\<close> holds one file per approval. The content
  of a file has the type \<open>'c\<close>; \<open>sv_encode\<close> and \<open>sv_decode\<close> are serde's serialisation. What lies
  under a name need not be a file the store has written: an entry carries its kind, as
  \<open>file_type\<close> reports it, and what \<open>read_to_string\<close> on the name gives. A read follows a link, so
  the answer of a link is that of its target, and the read of a FIFO or of a stuck mount may
  never answer. Other processes change the directory: before each access of the store the step
  \<open>sv_world\<close> is applied to it, indexed by the number of accesses so far.
\<close>

datatype 'c record_read = RecordText 'c | RecordError string | RecordNever

datatype node_kind = RegularFile | Symlink | SpecialFile

datatype 'c dir_entry = Entry node_kind "'c record_read" | SubDirectory

abbreviation FileEntry :: "'c \<Rightarrow> 'c dir_entry" where
  "FileEntry c \<equiv> Entry RegularFile (RecordText c)"

datatype 'c dir_state =
    DirMissing | NotADirectory | DirError string | DirEntries "(string \<times> 'c dir_entry) list"

record 'c store_env =
  sv_workspace :: path
  sv_encode :: "approval_record \<Rightarrow> string + 'c"
  sv_decode :: "'c \<Rightarrow> string + approval_record"
  sv_io_error :: "nat \<Rightarrow> string option"
  sv_missing :: "string"
  sv_now :: "nat \<Rightarrow> time"
  sv_clock :: "nat \<Rightarrow> nat"
  sv_fresh :: "nat \<Rightarrow> approval_id"
  sv_world :: "nat \<Rightarrow> 'c dir_state \<Rightarrow> 'c dir_state"

record 'c store_state =
  st_dir :: "'c dir_state"
  st_tick :: nat
  st_timeouts :: "(approval_id, nat) btree"
  st_poisoned :: bool

text \<open>
  An operation that only writes always answers; one that reads may block for ever, which is the
  value \<open>None\<close>.
\<close>

type_synonym ('c, 'a) store = "'c store_state \<Rightarrow> 'a result \<times> 'c store_state"

type_synonym ('c, 'a) store_call = "'c store_state \<Rightarrow> ('a result \<times> 'c store_state) option"

definition call_returns :: "('c, 'a) store \<Rightarrow> ('c, 'a) store_call" where
  "call_returns m s = Some (m s)"

definition call_try ::
  "('c, 'a) store_call \<Rightarrow> (taskfence_error \<Rightarrow> ('c, 'b) store_call) \<Rightarrow> ('a \<Rightarrow> ('c, 'b) store_call) \<Rightarrow>
   ('c, 'b) store_call" where
  "call_try m h f s =
     (case m s of None \<Rightarrow> None | Some (Inl e, s') \<Rightarrow> h e s' | Some (Inr x, s') \<Rightarrow> f x s')"

definition call_bind ::
  "('c, 'a) store_call \<Rightarrow> ('a \<Rightarrow> ('c, 'b) store_call) \<Rightarrow> ('c, 'b) store_call" where
  "call_bind m = call_try m (\<lambda>e s. Some (Inl e, s))"

definition observe :: "'c store_env \<Rightarrow> 'c store_state \<Rightarrow> 'c store_state" where
  "observe env s = s\<lparr>st_dir := sv_world env (st_tick s) (st_dir s), st_tick := st_tick s + 1\<rparr>"

definition validate_approval_id_component :: "string \<Rightarrow> unit result" where
  "validate_approval_id_component v =
     (if v = [] \<or> v = ''.'' \<or> v = ''..'' \<or> CHR ''/'' \<in> set v \<or> CHR 0x5C \<in> set v \<or> has_control v
      then Inl (Approval (''approval id is not a safe path component: '' @ debug_str v))
      else Inr ())"

definition approvals_dir :: "'c store_env \<Rightarrow> path" where
  "approvals_dir env = path_join (path_join (sv_workspace env) ''.taskfence'') ''approvals''"

definition record_file :: "approval_id \<Rightarrow> string" where
  "record_file aid = aid @ ''.json''"

definition approval_path :: "'c store_env \<Rightarrow> approval_id \<Rightarrow> path result" where
  "approval_path env aid =
     rbind (validate_approval_id_component aid) (\<lambda>_.
       Inr (path_join (approvals_dir env) (record_file aid)))"

definition dir_entry_at :: "'c dir_state \<Rightarrow> string \<Rightarrow> 'c dir_entry option" where
  "dir_entry_at d name = (case d of DirEntries es \<Rightarrow> map_of es name | _ \<Rightarrow> None)"

text \<open>\<open>read_to_string\<close> of a name in the directory; \<open>missing\<close> is the error of a path that is none.\<close>

definition dir_read :: "string \<Rightarrow> 'c dir_state \<Rightarrow> string \<Rightarrow> 'c record_read" where
  "dir_read missing d name =
     (case d of
        DirError err \<Rightarrow> RecordError err
      | _ \<Rightarrow> (case dir_entry_at d name of
               Some (Entry kind answer) \<Rightarrow> answer
             | Some SubDirectory \<Rightarrow> RecordError missing
             | None \<Rightarrow> RecordError missing))"

definition dir_file :: "'c dir_state \<Rightarrow> string \<Rightarrow> 'c option" where
  "dir_file d name = (case dir_read [] d name of RecordText c \<Rightarrow> Some c | _ \<Rightarrow> None)"

text \<open>What \<open>read_record_at\<close> makes of a content: it is decoded and its id checked.\<close>

definition decode_record ::
  "'c store_env \<Rightarrow> path \<Rightarrow> approval_id \<Rightarrow> 'c \<Rightarrow> approval_record result" where
  "decode_record env path aid c =
     (case sv_decode env c of
        Inl err \<Rightarrow> Inl (Approval (''approval record is not valid JSON for '' @ aid @ '' at '' @
                    path @ '': '' @ err))
      | Inr record \<Rightarrow>
          rbind (validate_approval_id_component (ar_id record)) (\<lambda>_.
            if ar_id record \<noteq> aid
            then Inl (Approval (''approval record id '' @ ar_id record @
                   '' does not match path id '' @ aid @ '' at '' @ path))
            else Inr record))"

text \<open>\<open>read_record_at\<close> on a directory; \<open>None\<close> is a read that never returns.\<close>

definition read_record_at ::
  "'c store_env \<Rightarrow> path \<Rightarrow> approval_id \<Rightarrow> 'c dir_state \<Rightarrow> approval_record result option" where
  "read_record_at env path aid d =
     (case dir_read (sv_missing env) d (record_file aid) of
        RecordNever \<Rightarrow> None
      | RecordError err \<Rightarrow> Some (Inl (Approval (''approval record not found for '' @ aid @ '' at '' @
          path @ '': '' @ err)))
      | RecordText c \<Rightarrow> Some (decode_record env path aid c))"

definition store_read :: "'c store_env \<Rightarrow> approval_id \<Rightarrow> ('c, approval_record) store_call" where
  "store_read env aid s =
     (case approval_path env aid of
        Inl err \<Rightarrow> Some (Inl err, s)
      | Inr path \<Rightarrow>
          (let s' = observe env s
           in map_option (\<lambda>r. (r, s')) (read_record_at env path aid (st_dir s'))))"

definition put_entry ::
  "string \<Rightarrow> 'c dir_entry \<Rightarrow> (string \<times> 'c dir_entry) list \<Rightarrow> (string \<times> 'c dir_entry) list" where
  "put_entry name e es =
     (if name \<in> fst ` set es then map (\<lambda>(n, e'). if n = name then (n, e) else (n, e')) es
      else es @ [(name, e)])"

definition approval_store_io_error :: "string \<Rightarrow> taskfence_error" where
  "approval_store_io_error err = Approval (''approval store IO failed: '' @ err)"

text \<open>
  \<open>create_dir_all\<close>, the write of the temporary file and the rename onto the record's file: an
  error of any of them leaves the records as they are. A path that is taken by something other
  than a directory (or, for the file, by a directory) fails; the rename replaces a link or a FIFO.
\<close>

definition write_file ::
  "'c store_env \<Rightarrow> nat \<Rightarrow> string \<Rightarrow> 'c \<Rightarrow> 'c dir_state \<Rightarrow> string + 'c dir_state" where
  "write_file env tick name c d =
     (case sv_io_error env tick of
        Some err \<Rightarrow> Inl err
      | None \<Rightarrow>
          (case d of
             DirMissing \<Rightarrow> Inr (DirEntries [(name, FileEntry c)])
           | NotADirectory \<Rightarrow> Inl (sv_missing env)
           | DirError err \<Rightarrow> Inl err
           | DirEntries es \<Rightarrow>
               if map_of es name = Some SubDirectory then Inl (sv_missing env)
               else Inr (DirEntries (put_entry name (FileEntry c) es))))"

definition write_record :: "'c store_env \<Rightarrow> approval_record \<Rightarrow> ('c, path) store" where
  "write_record env record =
     sbind (slift (approval_path env (ar_id record))) (\<lambda>path s.
       case sv_encode env record of
         Inl err \<Rightarrow> (Inl (Approval (''failed to serialize approval record '' @ ar_id record @ '': '' @ err)), s)
       | Inr c \<Rightarrow>
           (let s' = observe env s
            in case write_file env (st_tick s) (record_file (ar_id record)) c (st_dir s') of
                 Inl err \<Rightarrow> (Inl (approval_store_io_error err), s')
               | Inr d \<Rightarrow> (Inr path, s'\<lparr>st_dir := d\<rparr>)))"

definition already_resolved :: "approval_id \<Rightarrow> taskfence_error" where
  "already_resolved aid = Approval (''approval '' @ aid @ '' is already resolved'')"

definition write_pending :: "'c store_env \<Rightarrow> approval_record \<Rightarrow> ('c, path) store" where
  "write_pending env record =
     (if ar_decision record \<noteq> None then sfail (already_resolved (ar_id record))
      else write_record env record)"

definition resolve_with_actor ::
  "'c store_env \<Rightarrow> approval_id \<Rightarrow> approval_decision \<Rightarrow> string \<Rightarrow> string option \<Rightarrow>
   ('c, approval_record) store_call" where
  "resolve_with_actor env aid decision actor source =
     call_bind (store_read env aid) (\<lambda>record. call_returns (\<lambda>s.
       if ar_decision record \<noteq> None then (Inl (already_resolved aid), s)
       else
         (let record' = record\<lparr>ar_actor := actor, ar_source := source,
                ar_decision := Some decision, ar_resolved_at := Some (sv_now env (st_tick s))\<rparr>
          in sbind (write_record env record') (\<lambda>_. sreturn record') s)))"

definition store_resolve ::
  "'c store_env \<Rightarrow> approval_id \<Rightarrow> approval_decision \<Rightarrow> ('c, approval_record) store_call" where
  "store_resolve env aid decision =
     resolve_with_actor env aid decision ''local-cli'' (Some ''cli'')"

text \<open>
  \<open>list\<close>: the record of every regular file with the extension \<open>json\<close>, sorted by id. The directory
  is taken as it is at the start of the call.
\<close>

definition list_entry ::
  "'c store_env \<Rightarrow> 'c dir_state \<Rightarrow> string \<Rightarrow> approval_record result option" where
  "list_entry env d name =
     (case file_stem name of
        None \<Rightarrow> Some (Inl (Approval (''approval record has no file stem under '' @ approvals_dir env @
                  '': '' @ path_join (approvals_dir env) name)))
      | Some aid \<Rightarrow>
          (case validate_approval_id_component aid of
             Inl err \<Rightarrow> Some (Inl err)
           | Inr _ \<Rightarrow> read_record_at env (path_join (approvals_dir env) name) aid d))"

fun list_entries ::
  "'c store_env \<Rightarrow> 'c dir_state \<Rightarrow> string list \<Rightarrow> approval_record list result option" where
  "list_entries env d [] = Some (Inr [])"
| "list_entries env d (name # names) =
     (case list_entry env d name of
        None \<Rightarrow> None
      | Some (Inl err) \<Rightarrow> Some (Inl err)
      | Some (Inr record) \<Rightarrow>
          map_option (\<lambda>rest. rbind rest (\<lambda>records. Inr (record # records))) (list_entries env d names))"

definition is_json_file :: "string \<times> 'c dir_entry \<Rightarrow> bool" where
  "is_json_file e \<longleftrightarrow> (case snd e of Entry kind _ \<Rightarrow> kind = RegularFile | SubDirectory \<Rightarrow> False)
     \<and> extension (fst e) = Some ''json''"

definition store_list :: "'c store_env \<Rightarrow> ('c, approval_record list) store_call" where
  "store_list env s =
     (let s' = observe env s; dir = approvals_dir env
      in case st_dir s' of
           DirMissing \<Rightarrow> Some (Inr [], s')
         | DirError err \<Rightarrow>
             Some (Inl (Approval (''failed to access approval queue '' @ dir @ '': '' @ err)), s')
         | NotADirectory \<Rightarrow> Some (Inl (Approval (''approval queue is not a directory: '' @ dir)), s')
         | DirEntries es \<Rightarrow>
             map_option (\<lambda>r. (rbind r (\<lambda>records. Inr (sort_key ar_id records)), s'))
               (list_entries env (st_dir s') (map fst (filter is_json_file es))))"

section \<open>The external engine\<close>

text \<open>Durations are nanoseconds.\<close>

definition nanos_per_sec :: nat where
  "nanos_per_sec = 1000000000"

definition default_external_timeout :: nat where
  "default_external_timeout = 60 * 60 * nanos_per_sec"

definition saturating_mul :: "u64 \<Rightarrow> u64 \<Rightarrow> u64" where
  "saturating_mul a b = (if unat a * unat b < 2 ^ 64 then a * b else - 1)"

record external_engine =
  xe_actor :: string
  xe_source :: "string option"
  xe_timeout_override :: "nat option"
  xe_announce :: bool

definition timeout_for :: "external_engine \<Rightarrow> resolved_task \<Rightarrow> nat" where
  "timeout_for x task =
     (case xe_timeout_override x of
        Some t \<Rightarrow> t
      | None \<Rightarrow>
          (case ac_timeout_minutes (rt_approval task) of
             Some minutes \<Rightarrow> unat (saturating_mul minutes 60) * nanos_per_sec
           | None \<Rightarrow> default_external_timeout))"

definition timeouts_poisoned :: taskfence_error where
  "timeouts_poisoned = Approval ''external approval timeout store is poisoned''"

definition remember_timeout :: "approval_id \<Rightarrow> nat \<Rightarrow> ('c, unit) store" where
  "remember_timeout aid t s =
     (if st_poisoned s then (Inl timeouts_poisoned, s)
      else (Inr (), s\<lparr>st_timeouts := bt_insert aid t (st_timeouts s)\<rparr>))"

definition timeout_for_approval :: "approval_id \<Rightarrow> ('c, nat) store" where
  "timeout_for_approval aid s =
     (if st_poisoned s then (Inl timeouts_poisoned, s)
      else (Inr (case bt_get (st_timeouts s) aid of Some t \<Rightarrow> t | None \<Rightarrow> default_external_timeout), s))"

text \<open>The request is printed to standard error; \<open>announce\<close> is the error of that, if any.\<close>

definition announce_request :: "string option \<Rightarrow> external_engine \<Rightarrow> ('c, unit) store" where
  "announce_request announce x s =
     (if \<not> xe_announce x then (Inr (), s)
      else case announce of
             Some err \<Rightarrow> (Inl (approval_io_error err), s)
           | None \<Rightarrow> (Inr (), s))"

definition external_request ::
  "'c store_env \<Rightarrow> string option \<Rightarrow> external_engine \<Rightarrow> resolved_task \<Rightarrow> action \<Rightarrow>
   action_decision \<Rightarrow> ('c, approval_record) store" where
  "external_request env announce x task action decision s =
     (let record = \<lparr>ar_id = sv_fresh env (st_tick s), ar_task_id = rt_id task,
        ar_actor = xe_actor x, ar_source = xe_source x, ar_requested_at = sv_now env (st_tick s),
        ar_resolved_at = None, ar_action = action, ar_policy_decision = decision,
        ar_decision = None\<rparr>
      in sbind (write_pending env record) (\<lambda>_.
         sbind (remember_timeout (ar_id record) (timeout_for x task)) (\<lambda>_.
         sbind (announce_request announce x) (\<lambda>_.
           sreturn record))) s)"

text \<open>The timeout arm of \<open>wait\<close>.\<close>

definition on_timeout ::
  "'c store_env \<Rightarrow> external_engine \<Rightarrow> approval_id \<Rightarrow> ('c, approval_record) store_call" where
  "on_timeout env x aid =
     call_try (resolve_with_actor env aid ATimedOut (xe_actor x) (Some ''external-timeout''))
       (\<lambda>err. call_bind (store_read env aid) (\<lambda>current. call_returns
          (if ar_decision current \<noteq> None then sreturn current else sfail err)))
       (\<lambda>record. call_returns (sreturn record))"

text \<open>The polling loop; \<open>None\<close> is the loop that never ends, or a read that never returns.\<close>

partial_function (option) wait_loop ::
  "'c store_env \<Rightarrow> external_engine \<Rightarrow> approval_id \<Rightarrow> nat \<Rightarrow> nat \<Rightarrow> ('c, approval_record) store_call" where
  "wait_loop env x aid timeout started s =
     (case store_read env aid s of
        None \<Rightarrow> None
      | Some (Inl e, s1) \<Rightarrow> Some (Inl e, s1)
      | Some (Inr record, s1) \<Rightarrow>
          if ar_decision record \<noteq> None then Some (Inr record, s1)
          else if timeout \<le> sv_clock env (st_tick s1) - started then on_timeout env x aid s1
          else wait_loop env x aid timeout started s1)"

definition external_wait ::
  "'c store_env \<Rightarrow> external_engine \<Rightarrow> approval_id \<Rightarrow> ('c, approval_record) store_call" where
  "external_wait env x aid s =
     (case timeout_for_approval aid s of
        (Inl e, s1) \<Rightarrow> Some (Inl e, s1)
      | (Inr timeout, s1) \<Rightarrow> wait_loop env x aid timeout (sv_clock env (st_tick s1)) s1)"

end
