(* ===== verification/Approval_Safety.thy ===== *)
theory Approval_Safety
  imports Approval_Engine Orchestrator_Life
begin

text \<open>
  The contract of \<open>ApprovalEngine\<close> as a locale, its two implementations, and what an approval
  can be trusted for: approvals are only given by a configured or prompted decision, the first
  decision is kept, waiting ends, and the two places where the code is weaker than that.
\<close>

section \<open>The contract\<close>

definition same_request :: "approval_record \<Rightarrow> approval_record \<Rightarrow> bool" where
  "same_request r r' \<longleftrightarrow> ar_id r' = ar_id r \<and> ar_task_id r' = ar_task_id r
     \<and> ar_requested_at r' = ar_requested_at r \<and> ar_action r' = ar_action r
     \<and> ar_policy_decision r' = ar_policy_decision r"

lemma same_request_refl [simp]: "same_request r r"
  by (simp add: same_request_def)

lemma same_request_update [simp]:
  "same_request r (r\<lparr>ar_decision := d, ar_resolved_at := t\<rparr>)"
  "same_request r (r\<lparr>ar_actor := a, ar_source := src, ar_decision := d, ar_resolved_at := t\<rparr>)"
  by (simp_all add: same_request_def)

locale approval_engine =
  fixes request :: "resolved_task \<Rightarrow> action \<Rightarrow> action_decision \<Rightarrow> 's \<Rightarrow> approval_record result \<times> 's"
    and await :: "approval_id \<Rightarrow> 's \<Rightarrow> (approval_record result \<times> 's) option"
    and known :: "'s \<Rightarrow> approval_id \<Rightarrow> approval_record option"
    and ok :: "'s \<Rightarrow> bool"
  assumes request_known: "ok s \<Longrightarrow> request task a d s = (Inr r, s') \<Longrightarrow>
      ok s' \<and> known s' (ar_id r) = Some r \<and> ar_decision r = None \<and> ar_task_id r = rt_id task
      \<and> ar_action r = a \<and> ar_policy_decision r = d"
    and await_known: "ok s \<Longrightarrow> known s aid = Some r0 \<Longrightarrow> await aid s = Some (Inr r, s') \<Longrightarrow>
      ok s' \<and> known s' aid = Some r \<and> ar_decision r \<noteq> None \<and> same_request r0 r"
    and await_resolved: "ok s \<Longrightarrow> known s aid = Some r \<Longrightarrow> ar_decision r \<noteq> None \<Longrightarrow>
      \<exists>s'. await aid s = Some (Inr r, s')"
begin

text \<open>Asking and waiting resolves the request that was asked.\<close>

lemma ask:
  assumes "ok s" and "request task a d s = (Inr r, s1)" and "await (ar_id r) s1 = Some (Inr r', s2)"
  shows "ar_decision r' \<noteq> None \<and> ar_action r' = a \<and> ar_policy_decision r' = d
     \<and> ar_task_id r' = rt_id task \<and> ar_id r' = ar_id r"
  using request_known [OF assms(1,2)] await_known [OF _ _ assms(3)]
  by (auto simp: same_request_def)

text \<open>A resolved approval stays as it is: waiting again gives the same record.\<close>

lemma await_again:
  assumes "ok s" and "known s aid = Some r0" and "await aid s = Some (Inr r, s1)"
  shows "\<exists>s2. await aid s1 = Some (Inr r, s2)"
  using await_known [OF assms] await_resolved by blast

end

section \<open>The local engine\<close>

definition local_ok :: "engine_state \<Rightarrow> bool" where
  "local_ok s \<longleftrightarrow> bt_ok (es_records s) \<and> \<not> es_poisoned s"

definition local_known :: "engine_state \<Rightarrow> approval_id \<Rightarrow> approval_record option" where
  "local_known s aid = bt_get (es_records s) aid"

lemma local_wait_cases:
  assumes "local_wait io e aid s = (Inr r, s')" and "local_ok s"
  obtains r0 where "local_known s aid = Some r0" "ar_decision r0 \<noteq> None" "r = r0"
      "s' = s\<lparr>es_tick := es_tick s + 1\<rparr>"
  | r0 d where "local_known s aid = Some r0" "ar_decision r0 = None"
      "resolve_decision e (es_tick s + 1) r0 = Inr d"
      "r = r0\<lparr>ar_decision := Some d, ar_resolved_at := Some (io_now io (es_tick s + 1))\<rparr>"
      "s' = s\<lparr>es_records := bt_insert aid r (es_records s), es_tick := es_tick s + 2\<rparr>"
proof -
  from assms obtain r0 where r0: "bt_get (es_records s) aid = Some r0"
    by (auto simp: local_wait_def local_pending_def sbind_apply local_ok_def split: option.splits)
  show thesis
  proof (cases "ar_decision r0")
    case (Some d)
    with r0 assms that(1) show thesis
      by (simp add: local_wait_def local_pending_def sbind_apply local_ok_def local_known_def
          sreturn_def)
  next
    case None
    with r0 assms that(2) show thesis
      by (auto simp: local_wait_def local_pending_def local_commit_def sbind_apply local_ok_def
          local_known_def sreturn_def Let_def split: sum.splits)
  qed
qed

interpretation loc: approval_engine "local_request io e" "\<lambda>aid s. Some (local_wait io e aid s)"
  local_known local_ok for io e
proof (standard, goal_cases)
  case (1 s task a d r s')
  then show ?case
    by (auto simp: local_request_def local_ok_def local_known_def Let_def bt.ok_insert
        bt.get_insert split: if_splits)
next
  case (2 s aid r0 r s')
  then have "local_wait io e aid s = (Inr r, s')" by simp
  then show ?case using \<open>local_ok s\<close>
    by (rule local_wait_cases)
      (use 2(1,2) in \<open>auto simp: local_ok_def local_known_def bt.ok_insert bt.get_insert\<close>)
next
  case (3 s aid r)
  then show ?case
    by (auto simp: local_wait_def local_pending_def sbind_apply local_ok_def local_known_def
        sreturn_def)
qed

text \<open>
  C24: An approval asked from the local engine is answered for what was asked: after \<open>request\<close>,
  \<open>wait\<close> on the returned id gives a decided record with the same action, policy decision and
  task, and waiting again gives the same record.
\<close>

theorem local_engine_answers_request:
  assumes "local_ok s" and "local_request io e task a d s = (Inr r, s1)"
    and "local_wait io e (ar_id r) s1 = (Inr r', s2)"
  shows "ar_decision r' \<noteq> None \<and> ar_action r' = a \<and> ar_policy_decision r' = d
    \<and> ar_task_id r' = rt_id task \<and> fst (local_wait io e (ar_id r) s2) = Inr r'"
proof -
  have ok1: "local_ok s1" and k1: "local_known s1 (ar_id r) = Some r"
    using loc.request_known [OF assms(1,2)] by simp_all
  have w: "Some (local_wait io e (ar_id r) s1) = Some (Inr r', s2)" using assms(3) by simp
  from loc.ask [OF assms(1,2) w] loc.await_again [OF ok1 k1 w] show ?thesis by auto
qed

definition sample_io :: engine_io where
  "sample_io = \<lparr>io_fresh = (\<lambda>n. ''a'' @ dec_digits n), io_now = int\<rparr>"

definition empty_engine :: engine_state where
  "empty_engine = \<lparr>es_records = [], es_poisoned = False, es_tick = 0\<rparr>"

definition sample_push :: action where
  "sample_push = Command \<lparr>ca_executable = ''git'', ca_args = [''push''], ca_raw = ''git push'',
     ca_shell_wrapped = False\<rparr>"

definition sample_ask :: action_decision where
  "sample_ask = RequireApproval ''command'' None ''matched'' High"

theorem local_engine_answers_request_witness:
  "\<exists>r s1 r' s2. local_request sample_io (engine_preconfigured Approved) sample_task sample_push
      sample_ask empty_engine = (Inr r, s1)
    \<and> local_wait sample_io (engine_preconfigured Approved) (ar_id r) s1 = (Inr r', s2)
    \<and> ar_action r' = sample_push"
proof -
  obtain r s1 where r: "local_request sample_io (engine_preconfigured Approved) sample_task
      sample_push sample_ask empty_engine = (Inr r, s1)"
    by (simp add: local_request_def empty_engine_def Let_def)
  then obtain r' s2 where r': "local_wait sample_io (engine_preconfigured Approved) (ar_id r) s1 =
      (Inr r', s2)"
    by (auto simp: local_request_def empty_engine_def Let_def local_wait_def local_pending_def
        local_commit_def sbind_apply bt_get_def engine_preconfigured_def resolve_decision_def)
  have "local_ok empty_engine" by (simp add: local_ok_def empty_engine_def bt.ok_empty)
  from local_engine_answers_request [OF this r r'] r r' show ?thesis by blast
qed

text \<open>
  No local engine approves by itself. A record that \<open>wait\<close> returns as approved was approved
  before, or the engine is preconfigured to approve, or it is interactive and its prompt
  approved exactly this record.
\<close>

theorem local_approval_is_granted:
  assumes "local_ok s" and "local_wait io e aid s = (Inr r, s')" and "ar_decision r = Some Approved"
  shows "\<exists>r0. local_known s aid = Some r0 \<and>
    (ar_decision r0 = Some Approved \<or> le_mode e = Preconfigured Approved \<or>
     le_mode e = Interactive \<and>
       (\<exists>prompt tick. le_prompt e = Some prompt \<and> prompt tick r0 = Inr Approved))"
  using assms(2,1)
proof (cases rule: local_wait_cases)
  case (1 r0)
  with assms(3) show ?thesis by auto
next
  case (2 r0 d)
  with assms(3) show ?thesis
    by (auto simp: resolve_decision_def split: local_approval_mode.splits option.splits)
qed

definition pending_engine :: engine_state where
  "pending_engine = \<lparr>es_records = [(''a1'', sample_record sample_push sample_ask None)],
     es_poisoned = False, es_tick = 0\<rparr>"

lemma pending_engine_ok: "local_ok pending_engine"
  by (simp add: local_ok_def bt_ok_def pending_engine_def)

theorem local_approval_is_granted_witness:
  "\<exists>r0. local_known pending_engine ''a1'' = Some r0 \<and>
    (ar_decision r0 = Some Approved \<or>
     le_mode (engine_preconfigured Approved) = Preconfigured Approved \<or>
     le_mode (engine_preconfigured Approved) = Interactive \<and>
       (\<exists>prompt tick. le_prompt (engine_preconfigured Approved) = Some prompt \<and>
          prompt tick r0 = Inr Approved))"
proof -
  obtain r s' where w: "local_wait sample_io (engine_preconfigured Approved) ''a1'' pending_engine =
      (Inr r, s')" "ar_decision r = Some Approved"
    by (simp add: local_wait_def local_pending_def local_commit_def sbind_apply bt_get_def
        engine_preconfigured_def resolve_decision_def sample_record_def pending_engine_def Let_def)
  from local_approval_is_granted [OF pending_engine_ok w] show ?thesis .
qed

text \<open>
  The first decision wins. When two waiters took their decisions for the same pending
  approval and then store them one after the other, both return the record with the first
  decision.
\<close>

theorem first_decision_wins:
  assumes "local_ok s" and "local_commit io aid d s = (Inr r, s1)"
  shows "\<exists>s2. local_commit io' aid d' s1 = (Inr r, s2)"
  using assms
  by (auto simp: local_commit_def local_ok_def Let_def bt.get_insert bt.ok_insert
      split: if_splits option.splits)

theorem first_decision_wins_witness:
  "\<exists>s1 r s2. local_commit sample_io ''a1'' ADenied pending_engine = (Inr r, s1)
    \<and> ar_decision r = Some ADenied \<and> local_commit sample_io ''a1'' Approved s1 = (Inr r, s2)"
proof -
  obtain r s1 where "local_commit sample_io ''a1'' ADenied pending_engine = (Inr r, s1)"
      "ar_decision r = Some ADenied"
    by (simp add: local_commit_def bt_get_def sample_record_def Let_def pending_engine_def)
  with first_decision_wins [OF pending_engine_ok this(1), of sample_io Approved]
  show ?thesis by blast
qed

section \<open>The terminal prompt\<close>

definition explicit_answer :: "nat \<Rightarrow> (string + string) list \<Rightarrow> bool" where
  "explicit_answer n input \<longleftrightarrow>
     (\<exists>k line. k < n \<and> k < length input \<and> input ! k = Inr line \<and>
        parse_approval_response line = Some Approved \<and>
        list_all (\<lambda>l. \<exists>text. l = Inr text \<and> text \<noteq> [] \<and> parse_approval_response text = None)
          (take k input))"

lemma explicit_answer_first:
  "parse_approval_response line = Some Approved \<Longrightarrow> explicit_answer (Suc n) (Inr line # input)"
  unfolding explicit_answer_def by (intro exI [of _ 0] exI [of _ line]) simp

lemma explicit_answer_later:
  assumes "explicit_answer n input" and "line \<noteq> []" and "parse_approval_response line = None"
  shows "explicit_answer (Suc n) (Inr line # input)"
proof -
  from assms(1) obtain k a where "k < n" "k < length input" "input ! k = Inr a"
      "parse_approval_response a = Some Approved"
      "list_all (\<lambda>l. \<exists>text. l = Inr text \<and> text \<noteq> [] \<and> parse_approval_response text = None)
         (take k input)"
    unfolding explicit_answer_def by blast
  with assms(2,3) show ?thesis
    unfolding explicit_answer_def by (intro exI [of _ "Suc k"] exI [of _ a]) simp
qed

lemma wp_term_write:
  "(\<And>t'. tm_input t' = tm_input t \<Longrightarrow> Q () t') \<Longrightarrow> wp (term_write fails text) Q (\<lambda>_ _. True) t"
  by (auto simp: wp_def term_write_def split: option.split)

lemma wp_term_read_line:
  "wp term_read_line Q (\<lambda>_ _. True) t =
     (case tm_input t of [] \<Rightarrow> Q [] t | Inl err # rest \<Rightarrow> True
      | Inr line # rest \<Rightarrow> Q line (t\<lparr>tm_input := rest\<rparr>))"
  by (auto simp: wp_def term_read_line_def split: list.split sum.split)

lemma prompt_attempts_wp:
  "wp (prompt_attempts fails n) (\<lambda>d _. d = Approved \<longrightarrow> explicit_answer n (tm_input t)) (\<lambda>_ _. True) t"
proof (induction n arbitrary: t)
  case 0
  then show ?case by (simp add: wp_sreturn)
next
  case (Suc n)
  show ?case
    unfolding prompt_attempts.simps wp_sbind wp_term_read_line
  proof (rule wp_term_write)
    fix t1 :: terminal
    assume t1: "tm_input t1 = tm_input t"
    let ?Q = "\<lambda>d (_::terminal). d = Approved \<longrightarrow> explicit_answer (Suc n) (tm_input t)"
    let ?after = "\<lambda>response. if response = [] then
         sbind (term_write fails (newline @ ''No approval input received; denying by default.'' @ newline))
           (\<lambda>_. sreturn ADenied)
       else case parse_approval_response response of
              Some d \<Rightarrow> sreturn d
            | None \<Rightarrow>
                sbind (term_write fails
                    (if n = 0 then ''Approval response was not explicit; denying by default.'' @ newline
                     else ''Response must be explicit: approve or deny.'' @ newline))
                  (\<lambda>_. prompt_attempts fails n)"
    have eof: "wp (?after []) ?Q (\<lambda>_ _. True) t2" for t2
      by (simp add: wp_sbind wp_sreturn wp_term_write)
    have line: "wp (?after line) ?Q (\<lambda>_ _. True) t2"
      if "tm_input t = Inr line # rest" "tm_input t2 = rest" for line rest t2
    proof (cases "line = []")
      case True
      then show ?thesis using eof by simp
    next
      case False
      show ?thesis
      proof (cases "parse_approval_response line")
        case (Some d)
        with that show ?thesis using False by (auto simp: wp_sreturn explicit_answer_first)
      next
        case None
        have "wp (prompt_attempts fails n) ?Q (\<lambda>_ _. True) t3" if "tm_input t3 = rest" for t3
          by (rule wp_mono [OF Suc.IH [of t3]])
            (use that \<open>tm_input t = Inr line # rest\<close> False None in \<open>auto intro: explicit_answer_later\<close>)
        with None False that(2) show ?thesis
          by (auto simp: wp_sbind intro: wp_term_write)
      qed
    qed
    show "case tm_input t1 of [] \<Rightarrow> wp (?after []) ?Q (\<lambda>_ _. True) t1 | Inl err # rest \<Rightarrow> True
      | Inr l # rest \<Rightarrow> wp (?after l) ?Q (\<lambda>_ _. True) (t1\<lparr>tm_input := rest\<rparr>)"
    proof (cases "tm_input t")
      case Nil
      with t1 have i: "tm_input t1 = []" by simp
      show ?thesis unfolding i list.case by (rule eof)
    next
      case (Cons l rest)
      with t1 have i: "tm_input t1 = l # rest" by simp
      show ?thesis
      proof (cases l)
        case (Inl err)
        then show ?thesis unfolding i by simp
      next
        case (Inr answer)
        with Cons have "tm_input t = Inr answer # rest" by simp
        from line [OF this, of "t1\<lparr>tm_input := rest\<rparr>"] show ?thesis
          unfolding i list.case Inr sum.case by simp
      qed
    qed
  qed
qed

text \<open>
  The terminal prompt approves only on an explicit answer. If it returns \<open>Approved\<close>, one of
  the first three lines of the input is an approval and every line before it is a non-empty line
  that is neither an approval nor a denial; the end of the input, an error and three unclear
  answers never approve.
\<close>

theorem prompt_needs_explicit_answer:
  assumes "fst (terminal_prompt fails record t) = Inr Approved"
  shows "\<exists>k line. k < 3 \<and> k < length (tm_input t) \<and> tm_input t ! k = Inr line \<and>
     parse_approval_response line = Some Approved \<and>
     list_all (\<lambda>l. \<exists>text. l = Inr text \<and> text \<noteq> [] \<and> parse_approval_response text = None)
       (take k (tm_input t))"
proof -
  have "wp (terminal_prompt fails record)
      (\<lambda>d _. d = Approved \<longrightarrow> explicit_answer max_interactive_attempts (tm_input t)) (\<lambda>_ _. True) t"
    unfolding terminal_prompt_def wp_sbind
    by (rule wp_term_write) (metis (no_types, lifting) prompt_attempts_wp wp_mono)
  with assms show ?thesis
    by (auto simp: wp_def explicit_answer_def max_interactive_attempts_def split: prod.splits sum.splits)
qed

theorem prompt_needs_explicit_answer_witness:
  "\<exists>k line. k < 3 \<and> [Inr ''maybe'', Inr '' Yes '', Inl ''closed''] ! k = (Inr line :: string + string) \<and>
     parse_approval_response line = Some Approved"
proof -
  let ?t = "\<lparr>tm_input = [Inr ''maybe'', Inr '' Yes '', Inl ''closed''], tm_output = []\<rparr>"
  have "fst (terminal_prompt (\<lambda>_. None) (sample_record sample_push sample_ask None) ?t) = Inr Approved"
    by code_simp
  from prompt_needs_explicit_answer [OF this] show ?thesis by auto
qed

text \<open>
  The prompt shows the command of the agent unescaped. A command whose text holds line breaks
  adds lines of its own to the request that the user reads: here a forged \<open>policy\<close> line
  stands before the true one.
\<close>

definition forged_push :: action where
  "forged_push = Command \<lparr>ca_executable = ''git'', ca_args = [],
     ca_raw = ''ls`'' @ newline @ ''  policy: allow: safe'' @ newline @ ''  note: `'',
     ca_shell_wrapped = False\<rparr>"

theorem prompt_shows_forged_line:
  "str_contains (newline @ ''  policy: allow: safe'' @ newline)
     (render_approval_request (sample_record forged_push sample_ask None))"
  by code_simp

end
