(* ===== verification/Approval_Store.thy ===== *)
theory Approval_Store
  imports Approval_Safety
begin

text \<open>
  The approval directory and the engine that polls it, beside other processes that resolve
  approvals: reads give what was written, an approval is resolved once, the external engine
  satisfies the contract \<open>approval_engine\<close>, its wait ends when the clock passes the timeout and
  its reads answer, and the race that two processes resolving the same approval can run into.
\<close>

section \<open>Reading what was written\<close>

text \<open>Calls in sequence.\<close>

lemma call_bind_apply:
  "call_bind m f s =
     (case m s of None \<Rightarrow> None | Some (Inl e, s') \<Rightarrow> Some (Inl e, s') | Some (Inr x, s') \<Rightarrow> f x s')"
  by (simp add: call_bind_def call_try_def)

text \<open>The record under an id, as a directory gives it to a reader.\<close>

definition known_in :: "'c store_env \<Rightarrow> approval_id \<Rightarrow> 'c dir_state \<Rightarrow> approval_record option" where
  "known_in env aid d =
     (case approval_path env aid of
        Inl _ \<Rightarrow> None
      | Inr path \<Rightarrow> (case read_record_at env path aid d of Some (Inr r) \<Rightarrow> Some r | _ \<Rightarrow> None))"

lemma store_read_known:
  "store_read env aid s = Some (Inr r, s') \<longleftrightarrow>
     known_in env aid (st_dir (observe env s)) = Some r \<and> s' = observe env s"
  by (auto simp: store_read_def known_in_def Let_def split: sum.splits option.splits)

lemma store_read_error:
  "store_read env aid s = Some (Inl e, s') \<Longrightarrow>
   s' = s \<and> approval_path env aid = Inl e \<or> s' = observe env s"
  by (auto simp: store_read_def Let_def split: sum.splits)

lemma known_in_ids:
  "known_in env aid d = Some r \<Longrightarrow> ar_id r = aid \<and> validate_approval_id_component aid = Inr ()"
  by (auto simp: known_in_def read_record_at_def decode_record_def approval_path_def rbind_Inr_iff
      split: option.splits sum.splits if_splits record_read.splits)

lemma observe_simps [simp]:
  "st_tick (observe env s) = Suc (st_tick s)" "st_dir (observe env s) = sv_world env (st_tick s) (st_dir s)"
  "st_poisoned (observe env s) = st_poisoned s" "st_timeouts (observe env s) = st_timeouts s"
  by (simp_all add: observe_def)

text \<open>
  The store after \<open>n\<close> accesses that write nothing, and what the access \<open>n\<close> of such a sequence reads
  under an id.
\<close>

abbreviation observed :: "'c store_env \<Rightarrow> nat \<Rightarrow> 'c store_state \<Rightarrow> 'c store_state" where
  "observed env n s \<equiv> (observe env ^^ n) s"

definition seen :: "'c store_env \<Rightarrow> approval_id \<Rightarrow> 'c store_state \<Rightarrow> nat \<Rightarrow> approval_record option" where
  "seen env aid s n = known_in env aid (st_dir (observed env (Suc n) s))"

lemma observed_simps [simp]:
  "st_tick (observed env n s) = st_tick s + n" "st_poisoned (observed env n s) = st_poisoned s"
  "st_timeouts (observed env n s) = st_timeouts s"
  by (induction n) simp_all

lemma read_observed:
  "store_read env aid (observed env n s) = Some (Inr r, s') \<longleftrightarrow>
     seen env aid s n = Some r \<and> s' = observed env (Suc n) s"
  by (simp add: store_read_known seen_def)

definition pending_at :: "'c store_env \<Rightarrow> approval_id \<Rightarrow> 'c store_state \<Rightarrow> nat \<Rightarrow> bool" where
  "pending_at env aid s n \<longleftrightarrow> (\<exists>r. seen env aid s n = Some r \<and> ar_decision r = None)"

text \<open>An invariant rule for the polling loop.\<close>

lemma wait_loop_rule:
  assumes "wait_loop env x aid timeout started s = Some y" and "P s"
    and "\<And>s e s1. P s \<Longrightarrow> store_read env aid s = Some (Inl e, s1) \<Longrightarrow> Q (Inl e, s1)"
    and "\<And>s r s1. P s \<Longrightarrow> store_read env aid s = Some (Inr r, s1) \<Longrightarrow> ar_decision r \<noteq> None \<Longrightarrow> Q (Inr r, s1)"
    and "\<And>s r s1. P s \<Longrightarrow> store_read env aid s = Some (Inr r, s1) \<Longrightarrow> ar_decision r = None \<Longrightarrow> P s1"
    and "\<And>s r s1 y. P s \<Longrightarrow> store_read env aid s = Some (Inr r, s1) \<Longrightarrow> ar_decision r = None \<Longrightarrow>
      timeout \<le> sv_clock env (st_tick s1) - started \<Longrightarrow> on_timeout env x aid s1 = Some y \<Longrightarrow> Q y"
  shows "Q y"
proof -
  let ?P = "\<lambda>env' x' aid' t' st' s y. env' = env \<and> x' = x \<and> aid' = aid \<and> t' = timeout \<and> st' = started
     \<longrightarrow> P s \<longrightarrow> Q y"
  have "?P env x aid timeout started s y"
  proof (rule wait_loop.raw_induct [where P = ?P and y = y
        and xa = "(((((env, x), aid), timeout), started), s)", unfolded prod.case])
    fix wl env' x' aid' t' st' s y
    assume IH: "\<And>a b c d e f g. wl a b c d e f = Some g \<Longrightarrow>
        a = env \<and> b = x \<and> c = aid \<and> d = timeout \<and> e = started \<longrightarrow> P f \<longrightarrow> Q g"
      and step: "(case store_read env' aid' s of None \<Rightarrow> None | Some (Inl e, s1) \<Rightarrow> Some (Inl e, s1)
         | Some (Inr record, s1) \<Rightarrow> if ar_decision record \<noteq> None then Some (Inr record, s1)
             else if t' \<le> sv_clock env' (st_tick s1) - st' then on_timeout env' x' aid' s1
             else wl env' x' aid' t' st' s1) = Some y"
    show "env' = env \<and> x' = x \<and> aid' = aid \<and> t' = timeout \<and> st' = started \<longrightarrow> P s \<longrightarrow> Q y"
    proof (intro impI, elim conjE)
      assume e: "env' = env" "x' = x" "aid' = aid" "t' = timeout" "st' = started" and P: "P s"
      from step e obtain a s1 where r: "store_read env aid s = Some (a, s1)"
        by (cases "store_read env aid s") auto
      show "Q y"
      proof (cases a)
        case (Inl err)
        with step e P r assms(3) show ?thesis by auto
      next
        case (Inr rc)
        with step e P r assms(4-6) IH show ?thesis by (cases "ar_decision rc") (auto split: if_splits)
      qed
    qed
  next
    show "wait_loop env x aid timeout started s = Some y" by (rule assms(1))
  qed
  with assms(2) show ?thesis by simp
qed

lemma map_of_update_entry:
  "map_of (map (\<lambda>(n, e'). if n = name then (n, e) else (n, e')) es) n =
     (if n = name then map_option (\<lambda>_. e) (map_of es n) else map_of es n)"
  by (induction es) auto

lemma map_of_put_entry:
  "map_of (put_entry name e es) n = (if n = name then Some e else map_of es n)"
proof (cases "name \<in> fst ` set es")
  case True
  then have "map_of es name \<noteq> None" by (auto simp: map_of_eq_None_iff)
  then show ?thesis using True by (auto simp: put_entry_def map_of_update_entry)
next
  case False
  then have "map_of es name = None" by (simp add: map_of_eq_None_iff)
  with False show ?thesis by (auto simp: put_entry_def map_add_def split: option.split)
qed

lemma write_file_entry:
  assumes "write_file env tick name c d = Inr d'"
  shows "dir_entry_at d' n = (if n = name then Some (FileEntry c) else dir_entry_at d n)"
    and "dir_read e d' n = (if n = name then RecordText c else dir_read e d n)"
  using assms
  by (auto simp: write_file_def dir_entry_at_def dir_read_def map_of_put_entry
      split: option.splits dir_state.splits if_splits dir_entry.splits)

lemma write_record_cases:
  assumes "write_record env r s = (a, s')"
  obtains e where "a = Inl e" "s' = s \<or> s' = observe env s"
  | p c d where "a = Inr p" "approval_path env (ar_id r) = Inr p" "sv_encode env r = Inr c"
      "write_file env (st_tick s) (record_file (ar_id r)) c (st_dir (observe env s)) = Inr d"
      "s' = (observe env s)\<lparr>st_dir := d\<rparr>"
proof (cases "approval_path env (ar_id r)")
  case (Inl e)
  with assms that(1) [of e] show thesis by (simp add: write_record_def sbind_apply slift_def)
next
  case path: (Inr p)
  show thesis
  proof (cases "sv_encode env r")
    case (Inl e)
    with assms path have "(\<exists>e. a = Inl e) \<and> s' = s" by (auto simp: write_record_def sbind_apply slift_def)
    with that(1) show thesis by blast
  next
    case (Inr c)
    show thesis
    proof (cases "write_file env (st_tick s) (record_file (ar_id r)) c (st_dir (observe env s))")
      case (Inl e)
      with assms path Inr have "(\<exists>e. a = Inl e) \<and> s' = observe env s"
        by (auto simp: write_record_def sbind_apply slift_def Let_def)
      with that(1) show thesis by blast
    next
      case (Inr d)
      with assms path \<open>sv_encode env r = Inr c\<close>
      have "a = Inr p" "s' = (observe env s)\<lparr>st_dir := d\<rparr>"
        by (simp_all add: write_record_def sbind_apply slift_def Let_def)
      with that(2) path Inr \<open>sv_encode env r = Inr c\<close> show thesis by blast
    qed
  qed
qed

text \<open>\<open>resolve_with_actor\<close> that returns: what it read, and what it wrote.\<close>

definition resolution ::
  "approval_decision \<Rightarrow> string \<Rightarrow> string option \<Rightarrow> time \<Rightarrow> approval_record \<Rightarrow> approval_record" where
  "resolution d actor source at r =
     r\<lparr>ar_actor := actor, ar_source := source, ar_decision := Some d, ar_resolved_at := Some at\<rparr>"

lemma resolution_simps [simp]:
  "ar_decision (resolution d actor source at r) = Some d" "ar_id (resolution d actor source at r) = ar_id r"
  "ar_actor (resolution d actor source at r) = actor" "ar_source (resolution d actor source at r) = source"
  "same_request r0 (resolution d actor source at r) = same_request r0 r"
  by (simp_all add: resolution_def same_request_def)

lemma resolve_cases:
  assumes "resolve_with_actor env aid d actor source s = Some (a, s')"
  obtains (no_read) e where "a = Inl e" "store_read env aid s = Some (Inl e, s')"
  | (decided) r0 where "known_in env aid (st_dir (observe env s)) = Some r0" "ar_decision r0 \<noteq> None"
      "a = Inl (already_resolved aid)" "s' = observe env s"
  | (no_write) r0 e where "known_in env aid (st_dir (observe env s)) = Some r0" "ar_decision r0 = None"
      "a = Inl e" "s' = observe env s \<or> s' = observe env (observe env s)"
  | (written) r0 r c f where "known_in env aid (st_dir (observe env s)) = Some r0" "ar_decision r0 = None"
      "r = resolution d actor source (sv_now env (Suc (st_tick s))) r0" "a = Inr r" "sv_encode env r = Inr c"
      "write_file env (Suc (st_tick s)) (record_file aid) c (st_dir (observe env (observe env s))) = Inr f"
      "s' = (observe env (observe env s))\<lparr>st_dir := f\<rparr>"
proof (cases "store_read env aid s")
  case None
  with assms show thesis by (simp add: resolve_with_actor_def call_bind_apply)
next
  case (Some y)
  obtain b s1 where y: "y = (b, s1)" by (cases y)
  show thesis
  proof (cases b)
    case (Inl e)
    with Some y assms no_read [of e] show thesis by (simp add: resolve_with_actor_def call_bind_apply)
  next
    case (Inr r0)
    with Some y have k: "known_in env aid (st_dir (observe env s)) = Some r0" and s1: "s1 = observe env s"
      by (simp_all add: store_read_known)
    show thesis
    proof (cases "ar_decision r0")
      case (Some q)
      with \<open>store_read env aid s = Some y\<close> y Inr assms s1
      have "a = Inl (already_resolved aid)" "s' = observe env s"
        by (simp_all add: resolve_with_actor_def call_bind_apply call_returns_def)
      with Some show thesis by (intro decided [OF k]) auto
    next
      case None
      let ?r = "resolution d actor source (sv_now env (Suc (st_tick s))) r0"
      obtain b2 s2 where w: "write_record env ?r s1 = (b2, s2)" by fastforce
      have res: "(a, s') = (case b2 of Inl e \<Rightarrow> (Inl e, s2) | Inr _ \<Rightarrow> (Inr ?r, s2))"
        using Some y Inr assms None w s1
        by (cases b2)
          (simp_all add: resolve_with_actor_def call_bind_apply call_returns_def resolution_def sbind_apply
            sreturn_def)
      from w show thesis
      proof (cases rule: write_record_cases)
        case (1 e)
        with res have "a = Inl e" "s' = s2" by simp_all
        with 1(2) s1 k None show thesis by (intro no_write) simp_all
      next
        case (2 p c f)
        with res have "a = Inr ?r" "s' = s2" by simp_all
        with 2 s1 k None known_in_ids [OF k] show thesis by (intro written [OF k None refl]) simp_all
      qed
    qed
  qed
qed


text \<open>
  What other processes may do to a record: resolve it while it is pending. They may do anything to
  other files of the directory, add requests of their own, and decide at any time.
\<close>

definition only_resolves :: "'c store_env \<Rightarrow> 'c dir_state \<Rightarrow> 'c dir_state \<Rightarrow> bool" where
  "only_resolves env d d' \<longleftrightarrow>
     (\<forall>aid r. known_in env aid d = Some r \<longrightarrow>
        (\<exists>r'. known_in env aid d' = Some r' \<and> same_request r r' \<and> (ar_decision r \<noteq> None \<longrightarrow> r' = r)))"

lemma same_request_trans: "same_request r q \<Longrightarrow> same_request q t \<Longrightarrow> same_request r t"
  by (auto simp: same_request_def)

text \<open>The two ways in which waiting on a record from the state \<open>s\<close> on ends with \<open>r\<close>.\<close>

definition answered_by_other ::
  "'c store_env \<Rightarrow> approval_id \<Rightarrow> 'c store_state \<Rightarrow> approval_record \<Rightarrow> bool" where
  "answered_by_other env aid s r \<longleftrightarrow>
     ar_decision r \<noteq> None \<and> (\<exists>n. seen env aid s n = Some r \<and> (\<forall>m < n. pending_at env aid s m))"

definition timed_out ::
  "'c store_env \<Rightarrow> external_engine \<Rightarrow> approval_id \<Rightarrow> nat \<Rightarrow> nat \<Rightarrow> 'c store_state \<Rightarrow> approval_record \<Rightarrow> bool"
  where
  "timed_out env x aid timeout started s r \<longleftrightarrow>
     (\<exists>n q. (\<forall>m \<le> n. pending_at env aid s m) \<and> seen env aid s n = Some q
        \<and> timeout \<le> sv_clock env (st_tick s + n) - started
        \<and> r = resolution ATimedOut (xe_actor x) (Some ''external-timeout'')
                (sv_now env (Suc (st_tick s + n))) q)"

locale store_codec =
  fixes env :: "'c store_env"
  assumes others: "only_resolves env d (sv_world env t d)"
    and codec: "sv_encode env record = Inr c \<Longrightarrow> sv_decode env c = Inr record"
begin

definition known :: "'c store_state \<Rightarrow> approval_id \<Rightarrow> approval_record option" where
  "known s aid = known_in env aid (st_dir s)"

lemma known_observe:
  assumes "known s aid = Some r"
  shows "\<exists>r'. known (observe env s) aid = Some r' \<and> same_request r r' \<and> (ar_decision r \<noteq> None \<longrightarrow> r' = r)"
  using assms others unfolding known_def only_resolves_def by simp

lemma known_observed:
  assumes "known s aid = Some r"
  shows "\<exists>r'. known (observed env n s) aid = Some r' \<and> same_request r r' \<and> (ar_decision r \<noteq> None \<longrightarrow> r' = r)"
proof (induction n)
  case (Suc n)
  then obtain q where q: "known (observed env n s) aid = Some q" "same_request r q"
    "ar_decision r \<noteq> None \<longrightarrow> q = r" by blast
  from known_observe [OF q(1)] q(2,3) same_request_trans show ?case by fastforce
qed (simp add: assms)

lemma seen_observed: "seen env aid s n = known (observed env (Suc n) s) aid"
  by (simp add: seen_def known_def)

lemma seen_step:
  "seen env aid s n = Some r \<Longrightarrow> \<exists>r'. seen env aid s (Suc n) = Some r' \<and> (ar_decision r \<noteq> None \<longrightarrow> r' = r)"
  using known_observe [of "observed env (Suc n) s" aid r] by (auto simp: seen_observed)

lemma read_decided:
  assumes "known s aid = Some r" and "ar_decision r \<noteq> None"
  shows "store_read env aid s = Some (Inr r, observe env s)"
  using known_observe [OF assms(1)] assms(2) by (auto simp: store_read_known known_def)

lemma written_known:
  assumes "write_file env t (record_file aid) c d = Inr d'" and "sv_encode env r = Inr c"
    and "ar_id r = aid" and "validate_approval_id_component aid = Inr ()"
  shows "known_in env aid d' = Some r"
  using write_file_entry(2) [OF assms(1)] codec [OF assms(2)] assms(3,4)
  by (simp add: known_in_def approval_path_def read_record_at_def decode_record_def)

lemma write_known:
  assumes "write_record env r s = (Inr p, s')"
  shows "known s' (ar_id r) = Some r \<and> st_poisoned s' = st_poisoned s \<and> st_timeouts s' = st_timeouts s"
  using assms
proof (cases rule: write_record_cases)
  case (2 p' c d)
  then have "validate_approval_id_component (ar_id r) = Inr ()"
    by (simp add: approval_path_def rbind_Inr_iff)
  from written_known [OF 2(4,3) refl this] 2(5) show ?thesis by (simp add: known_def)
qed simp

lemma resolve_known:
  assumes "resolve_with_actor env aid d actor source s = Some (Inr r, s')"
  shows "known s' aid = Some r \<and> ar_decision r = Some d \<and> st_poisoned s' = st_poisoned s
    \<and> (\<exists>r0. known (observe env s) aid = Some r0 \<and> ar_decision r0 = None \<and> same_request r0 r)"
  using assms
proof (cases rule: resolve_cases)
  case (written r0 r' c f)
  note ids = known_in_ids [OF written(1)]
  have "known_in env aid f = Some r'"
    by (rule written_known [OF written(6,5)]) (use ids written(3) in simp_all)
  with written show ?thesis by (auto simp: known_def)
qed simp_all

lemma resolve_again:
  assumes "known s aid = Some r" and "ar_decision r \<noteq> None"
  shows "resolve_with_actor env aid d actor source s = Some (Inl (already_resolved aid), observe env s)
    \<and> known (observe env s) aid = Some r"
  using read_decided [OF assms] known_observe [OF assms(1)] assms(2)
  by (auto simp: resolve_with_actor_def call_bind_apply call_returns_def)

text \<open>The first decision that a sequence of reads sees is the one every later read sees.\<close>

lemma first_decision:
  assumes "known s aid = Some r0" and "seen env aid s k = Some r" and "ar_decision r \<noteq> None"
  shows "answered_by_other env aid s r"
  using assms(2,3)
proof (induction k arbitrary: r)
  case 0
  then show ?case unfolding answered_by_other_def by blast
next
  case (Suc k)
  have all: "\<exists>q. seen env aid s m = Some q" for m
    using known_observed [OF assms(1), of "Suc m"] by (auto simp: seen_observed simp del: funpow.simps)
  show ?case
  proof (cases "\<forall>m < Suc k. pending_at env aid s m")
    case True
    with Suc show ?thesis unfolding answered_by_other_def by blast
  next
    case False
    then obtain m where m: "m \<le> k" "\<not> pending_at env aid s m" by (auto simp: less_Suc_eq_le)
    from all [of m] m(2) obtain q where q: "seen env aid s m = Some q" "ar_decision q \<noteq> None"
      by (auto simp: pending_at_def)
    have "seen env aid s (m + j) = Some q" for j
      by (induction j) (use q seen_step in fastforce)+
    from this [of "k - m"] this [of "Suc k - m"] m(1) Suc.prems(1) have "seen env aid s k = Some r" by simp
    from Suc.IH [OF this Suc.prems(2)] show ?thesis .
  qed
qed

lemma on_timeout_answer:
  assumes k: "known s aid = Some r0"
    and late: "timeout \<le> sv_clock env (st_tick s + n) - started" and n: "\<forall>m < n. pending_at env aid s m"
    and t: "on_timeout env x aid (observed env n s) = Some (Inr r, s')"
  shows "(answered_by_other env aid s r \<or> timed_out env x aid timeout started s r)
    \<and> known s' aid = Some r \<and> st_poisoned s' = st_poisoned s"
proof -
  let ?s = "observed env n s"
  from t obtain a s1 where a: "resolve_with_actor env aid ATimedOut (xe_actor x) (Some ''external-timeout'') ?s
      = Some (a, s1)"
    by (auto simp: on_timeout_def call_try_def split: option.splits)
  have again: ?thesis if e: "a = Inl e" and j: "s1 = observed env j s" for e j
  proof -
    from e a t have "store_read env aid s1 = Some (Inr r, s')" and d: "ar_decision r \<noteq> None"
      by (auto simp: on_timeout_def call_try_def call_bind_apply call_returns_def sreturn_def sfail_def
          split: option.splits sum.splits if_splits)
    with j have s: "seen env aid s j = Some r" "s' = observed env (Suc j) s"
      using read_observed by blast+
    from first_decision [OF k s(1) d] s show ?thesis
      by (simp add: seen_def known_def)
  qed
  from a show ?thesis
  proof (cases rule: resolve_cases)
    case (no_read e)
    from store_read_error [OF no_read(2)] no_read(1) again [of e n] again [of e "Suc n"] show ?thesis
      by auto
  next
    case (decided q)
    with again [of _ "Suc n"] show ?thesis by simp
  next
    case (no_write q e)
    with again [of e "Suc n"] again [of e "Suc (Suc n)"] show ?thesis by auto
  next
    case (written q r' c f)
    with a t have r: "r' = r" "s1 = s'"
      by (auto simp: on_timeout_def call_try_def call_returns_def sreturn_def)
    have q: "seen env aid s n = Some q" using written(1) by (simp add: seen_def)
    then have "pending_at env aid s n" using written(2) by (simp add: pending_at_def)
    with n have "\<forall>m \<le> n. pending_at env aid s m" by (auto simp: le_less)
    with q late written(3) r have "timed_out env x aid timeout started s r"
      unfolding timed_out_def by auto
    with resolve_known [of aid ATimedOut] a written(4) r show ?thesis by auto
  qed
qed

lemma wait_loop_answer:
  assumes k: "known s aid = Some r0"
    and "wait_loop env x aid timeout started s = Some (Inr r, s')"
  shows "(answered_by_other env aid s r \<or> timed_out env x aid timeout started s r)
    \<and> known s' aid = Some r \<and> st_poisoned s' = st_poisoned s"
proof -
  let ?P = "\<lambda>t. \<exists>n. t = observed env n s \<and> (\<forall>m < n. pending_at env aid s m)"
  define Q where "Q = (\<lambda>y :: approval_record result \<times> 'c store_state. \<forall>r s'. y = (Inr r, s') \<longrightarrow>
    (answered_by_other env aid s r \<or> timed_out env x aid timeout started s r)
    \<and> known s' aid = Some r \<and> st_poisoned s' = st_poisoned s)"
  have "Q (Inr r, s')"
  proof (rule wait_loop_rule [OF assms(2), where P = ?P and Q = Q])
    show "?P s" by (rule exI [of _ 0]) simp
  next
    fix t q s1
    assume t: "?P t" "store_read env aid t = Some (Inr q, s1)"
    then obtain n where n: "t = observed env n s" "\<forall>m < n. pending_at env aid s m" by blast
    with t(2) have q: "seen env aid s n = Some q" "s1 = observed env (Suc n) s"
      using read_observed by blast+
    {
      assume "ar_decision q \<noteq> None"
      from first_decision [OF k q(1) this] q show "Q (Inr q, s1)"
        by (simp add: Q_def seen_def known_def)
    }
    assume none: "ar_decision q = None"
    with q n have p: "\<forall>m < Suc n. pending_at env aid s m" by (auto simp: pending_at_def less_Suc_eq)
    with q show "?P s1" by blast
    fix y
    assume "timeout \<le> sv_clock env (st_tick s1) - started" "on_timeout env x aid s1 = Some y"
    with q(2) have late: "timeout \<le> sv_clock env (st_tick s + Suc n) - started"
      and y: "on_timeout env x aid (observed env (Suc n) s) = Some y" by simp_all
    show "Q y" unfolding Q_def
    proof (intro allI impI)
      fix r2 s2 assume "y = (Inr r2, s2)"
      with y on_timeout_answer [OF k late p, of x r2 s2]
      show "(answered_by_other env aid s r2 \<or> timed_out env x aid timeout started s r2)
          \<and> known s2 aid = Some r2 \<and> st_poisoned s2 = st_poisoned s" by simp
    qed
  qed (simp add: Q_def)
  then show ?thesis by (simp add: Q_def)
qed

lemma known_loop:
  "known s aid = Some r \<Longrightarrow> ar_decision r \<noteq> None \<Longrightarrow>
   wait_loop env x aid timeout started s = Some (Inr r, observe env s)"
  by (simp add: wait_loop.simps read_decided)

lemma answered_same:
  assumes "known s aid = Some r0"
    and "answered_by_other env aid s r \<or> timed_out env x aid timeout started s r"
  shows "ar_decision r \<noteq> None \<and> same_request r0 r"
proof -
  have "same_request r0 q" if "seen env aid s n = Some q" for n q
    using known_observed [OF assms(1), of "Suc n"] that by (auto simp: seen_observed)
  with assms(2) show ?thesis by (auto simp: answered_by_other_def timed_out_def)
qed

definition ready :: "'c store_state \<Rightarrow> bool" where
  "ready s \<longleftrightarrow> \<not> st_poisoned s"

end

sublocale store_codec \<subseteq> ext: approval_engine "external_request env announce x" "external_wait env x"
  known ready for announce x
proof (standard, goal_cases)
  case (1 s task a d r s')
  let ?r = "\<lparr>ar_id = sv_fresh env (st_tick s), ar_task_id = rt_id task,
        ar_actor = xe_actor x, ar_source = xe_source x, ar_requested_at = sv_now env (st_tick s),
        ar_resolved_at = None, ar_action = a, ar_policy_decision = d, ar_decision = None\<rparr>"
  from 1(2) obtain p s1 where w: "write_record env ?r s = (Inr p, s1)" and r: "r = ?r"
      and d: "st_dir s' = st_dir s1" "st_poisoned s' = st_poisoned s1"
    by (auto simp: external_request_def write_pending_def sbind_apply remember_timeout_def
        announce_request_def sreturn_def Let_def split: sum.splits prod.splits if_splits option.splits)
  from write_known [OF w] d 1(1) r show ?case by (simp add: ready_def known_def)
next
  case (2 s aid r0 r s')
  then obtain t where "wait_loop env x aid t (sv_clock env (st_tick s)) s = Some (Inr r, s')"
    by (auto simp: external_wait_def timeout_for_approval_def ready_def)
  from wait_loop_answer [OF 2(2) this] answered_same [OF 2(2)] 2(1) show ?case
    unfolding ready_def by blast
next
  case (3 s aid r)
  then show ?case
    using known_loop by (auto simp: external_wait_def timeout_for_approval_def ready_def)
qed

context store_codec
begin

lemma answers:
  assumes "\<not> st_poisoned s" and "external_request env announce x task a d s = (Inr r, s1)"
    and "external_wait env x (ar_id r) s1 = Some (Inr r', s2)"
    and "fst (timeout_for_approval (ar_id r) s1) = Inr t"
  shows "(answered_by_other env (ar_id r) s1 r' \<or> timed_out env x (ar_id r) t (sv_clock env (st_tick s1)) s1 r')
    \<and> ar_decision r' \<noteq> None \<and> ar_action r' = a \<and> ar_policy_decision r' = d
    \<and> ar_task_id r' = rt_id task \<and> known s2 (ar_id r) = Some r'
    \<and> (\<exists>s3. external_wait env x (ar_id r) s2 = Some (Inr r', s3))"
proof -
  have ok: "ready s" using assms(1) by (simp add: ready_def)
  have ok1: "ready s1" and k1: "known s1 (ar_id r) = Some r"
    using ext.request_known [OF ok assms(2)] by simp_all
  from assms(3,4) ok1 have "wait_loop env x (ar_id r) t (sv_clock env (st_tick s1)) s1 = Some (Inr r', s2)"
    by (simp add: external_wait_def timeout_for_approval_def ready_def)
  from wait_loop_answer [OF k1 this] ext.ask [OF ok assms(2,3)] ext.await_again [OF ok1 k1 assms(3)]
  show ?thesis by simp
qed

lemma resolves_once:
  assumes "resolve_with_actor env aid d actor source s = Some (Inr r, s1)"
  shows "ar_decision r = Some d \<and>
    resolve_with_actor env aid d' actor' source' s1 = Some (Inl (already_resolved aid), observe env s1)
    \<and> known (observe env s1) aid = Some r"
proof -
  from resolve_known [OF assms] have "known s1 aid = Some r" "ar_decision r = Some d" by auto
  with resolve_again [of s1 aid r d' actor' source'] show ?thesis by simp
qed

end

section \<open>Samples\<close>

text \<open>
  Content that is the record itself: the instance on which the witnesses run. Its world is a
  parameter, so that the same environment also shows an approver at work and the race below.
\<close>

definition plain_env ::
  "(nat \<Rightarrow> approval_record dir_state \<Rightarrow> approval_record dir_state) \<Rightarrow> approval_record store_env" where
  "plain_env world =
     \<lparr>sv_workspace = ''/tmp/repo'', sv_encode = Inr, sv_decode = Inr, sv_io_error = (\<lambda>_. None),
      sv_missing = ''No such file or directory'', sv_now = int, sv_clock = (\<lambda>n. n * nanos_per_sec),
      sv_fresh = (\<lambda>n. ''a'' @ dec_digits n), sv_world = world\<rparr>"

definition no_world :: "nat \<Rightarrow> 'c dir_state \<Rightarrow> 'c dir_state" where
  "no_world n d = d"

lemma plain_simps [simp]:
  "sv_world (plain_env w) = w" "sv_encode (plain_env w) = Inr" "sv_decode (plain_env w) = Inr"
  "sv_io_error (plain_env w) n = None" "sv_now (plain_env w) = int"
  "sv_workspace (plain_env w) = ''/tmp/repo''" "sv_fresh (plain_env w) n = ''a'' @ dec_digits n"
  "sv_clock (plain_env w) n = n * nanos_per_sec" "sv_missing (plain_env w) = ''No such file or directory''"
  by (simp_all add: plain_env_def)

lemma only_resolves_refl [simp]: "only_resolves env d d"
  by (auto simp: only_resolves_def)

interpretation plain: store_codec "plain_env no_world"
  by unfold_locales (simp_all add: no_world_def)

lemma plain_known: "known_in (plain_env w) = known_in (plain_env no_world)"
proof (intro ext)
  fix aid d
  have "read_record_at (plain_env w) path aid d = read_record_at (plain_env no_world) path aid d" for path
    by (simp add: read_record_at_def decode_record_def split: record_read.split)
  then show "known_in (plain_env w) aid d = known_in (plain_env no_world) aid d"
    by (simp add: known_in_def approval_path_def approvals_dir_def split: sum.split)
qed

text \<open>Another process that resolves the approval \<open>a1\<close> at one of the accesses.\<close>

definition resolved_by_other ::
  "approval_decision \<Rightarrow> approval_record dir_state \<Rightarrow> approval_record dir_state" where
  "resolved_by_other decision d =
     (case resolve_with_actor (plain_env no_world) ''a1'' decision ''other'' None
             \<lparr>st_dir = d, st_tick = 0, st_timeouts = [], st_poisoned = False\<rparr> of
        Some (Inr _, s) \<Rightarrow> st_dir s | _ \<Rightarrow> d)"

definition world_at ::
  "nat \<Rightarrow> approval_decision \<Rightarrow> nat \<Rightarrow> approval_record dir_state \<Rightarrow> approval_record dir_state" where
  "world_at n decision m d = (if m = n then resolved_by_other decision d else d)"

lemma record_file_inj: "record_file a = record_file b \<longleftrightarrow> a = b"
  by (simp add: record_file_def)

lemma known_other:
  assumes "write_file env t (record_file aid) c d = Inr f" and "b \<noteq> aid"
  shows "known_in env b f = known_in env b d"
proof -
  have "read_record_at env path b f = read_record_at env path b d" for path
    using write_file_entry(2) [OF assms(1)] assms(2) by (simp add: read_record_at_def record_file_inj)
  then show ?thesis by (simp add: known_in_def split: sum.split)
qed

lemma other_only_resolves: "only_resolves (plain_env no_world) d (resolved_by_other decision d)"
proof -
  let ?env = "plain_env no_world"
  let ?s = "\<lparr>st_dir = d, st_tick = 0, st_timeouts = [], st_poisoned = False\<rparr> :: approval_record store_state"
  show ?thesis
  proof (cases "resolve_with_actor ?env ''a1'' decision ''other'' None ?s")
    case None
    then show ?thesis by (simp add: resolved_by_other_def)
  next
    case (Some y)
    obtain a s' where y: "y = (a, s')" by (cases y)
    note res = Some [unfolded y]
    from res show ?thesis
    proof (cases rule: resolve_cases)
      case (written r0 r c f)
      note w = written(6)
      have d: "st_dir (observe ?env ?s) = d" "st_dir (observe ?env (observe ?env ?s)) = d"
        by (simp_all add: no_world_def)
      have "only_resolves ?env d f"
        unfolding only_resolves_def
      proof (intro allI impI)
        fix aid q assume q: "known_in ?env aid d = Some q"
        show "\<exists>r'. known_in ?env aid f = Some r' \<and> same_request q r' \<and> (ar_decision q \<noteq> None \<longrightarrow> r' = q)"
        proof (cases "aid = ''a1''")
          case True
          with plain.resolve_known [OF res [unfolded written(4)]] written q d show ?thesis
            by (auto simp: plain.known_def)
        next
          case False
          with known_other [OF w, of aid] q d show ?thesis by simp
        qed
      qed
      with Some y written show ?thesis by (simp add: resolved_by_other_def)
    qed (use Some y in \<open>simp_all add: resolved_by_other_def\<close>)
  qed
qed

lemma world_at_only_resolves: "only_resolves (plain_env (world_at n decision)) d (world_at n decision m d)"
  using other_only_resolves
  by (simp add: only_resolves_def plain_known [of "world_at n decision"] world_at_def)

interpretation approver: store_codec "plain_env (world_at n decision)" for n decision
  by unfold_locales (simp_all add: world_at_only_resolves)

definition sample_store :: "approval_record store_state" where
  "sample_store =
     \<lparr>st_dir = DirEntries [(''a1.json'', FileEntry (sample_record sample_push sample_ask None))],
      st_tick = 0, st_timeouts = [(''a1'', 0)], st_poisoned = False\<rparr>"

definition fresh_store :: "approval_record store_state" where
  "fresh_store = \<lparr>st_dir = DirMissing, st_tick = 1, st_timeouts = [], st_poisoned = False\<rparr>"

definition sample_external :: external_engine where
  "sample_external = \<lparr>xe_actor = ''local'', xe_source = Some ''external'',
     xe_timeout_override = Some 0, xe_announce = False\<rparr>"

definition patient_external :: external_engine where
  "patient_external = sample_external\<lparr>xe_timeout_override := Some (60 * nanos_per_sec)\<rparr>"

lemma codec_locale:
  assumes "\<forall>t d. only_resolves env d (sv_world env t d)"
    and "\<forall>r c. sv_encode env r = Inr c \<longrightarrow> sv_decode env c = Inr r"
  shows "store_codec env"
  using assms by unfold_locales auto

lemma sample_id_ok: "validate_approval_id_component ''a1'' = Inr ()"
  by code_simp

lemma sample_ids [simp]:
  "ar_id (sample_record a d r) = ''a1''" "ar_decision (sample_record a d r) = r"
  by (simp_all add: sample_record_def)

lemma sample_path: "approval_path (plain_env w) ''a1'' = Inr ''/tmp/repo/.taskfence/approvals/a1.json''"
proof -
  have "path_join (approvals_dir (plain_env w)) (record_file ''a1'') =
      ''/tmp/repo/.taskfence/approvals/a1.json''"
    by (simp add: approvals_dir_def path_join_def is_absolute_def record_file_def)
  then show ?thesis by (simp add: approval_path_def sample_id_ok)
qed

lemma known_entry:
  "ar_id r = ''a1'' \<Longrightarrow> known_in (plain_env w) ''a1'' (DirEntries [(''a1.json'', FileEntry r)]) = Some r"
  by (simp add: known_in_def sample_path read_record_at_def decode_record_def dir_read_def dir_entry_at_def
      record_file_def sample_id_ok)

lemma read_entry:
  "sv_world (plain_env w) (st_tick s) (st_dir s) = DirEntries [(''a1.json'', FileEntry r)] \<Longrightarrow> ar_id r = ''a1'' \<Longrightarrow>
   store_read (plain_env w) ''a1'' s = Some (Inr r, observe (plain_env w) s)"
  by (simp add: store_read_known known_entry)

lemma write_entry:
  assumes "ar_id r = ''a1''"
    and "w (st_tick s) (st_dir s) = DirEntries [(''a1.json'', FileEntry r0)] \<or> w (st_tick s) (st_dir s) = DirMissing"
  shows "write_record (plain_env w) r s = (Inr ''/tmp/repo/.taskfence/approvals/a1.json'',
    (observe (plain_env w) s)\<lparr>st_dir := DirEntries [(''a1.json'', FileEntry r)]\<rparr>)"
  using assms
  by (auto simp: write_record_def sbind_apply slift_def sample_path write_file_def put_entry_def
      record_file_def Let_def)

lemma resolve_entry:
  assumes "w (st_tick s) (st_dir s) = DirEntries [(''a1.json'', FileEntry r)]"
    and "w (Suc (st_tick s)) (DirEntries [(''a1.json'', FileEntry r)]) = DirEntries [(''a1.json'', FileEntry r1)]"
    and "ar_id r = ''a1''" and "ar_decision r = None"
  shows "resolve_with_actor (plain_env w) ''a1'' d actor source s =
    (let r' = resolution d actor source (int (Suc (st_tick s))) r
     in Some (Inr r', (observe (plain_env w) (observe (plain_env w) s))
          \<lparr>st_dir := DirEntries [(''a1.json'', FileEntry r')]\<rparr>))"
  using assms read_entry [of w s r]
    write_entry [of "resolution d actor source (int (Suc (st_tick s))) r" w "observe (plain_env w) s" r1]
  by (simp add: resolve_with_actor_def call_bind_apply call_returns_def sbind_apply sreturn_def Let_def
      resolution_def)

lemma other_entry:
  assumes "ar_id r = ''a1''" and "ar_decision r = None"
  shows "resolved_by_other d (DirEntries [(''a1.json'', FileEntry r)]) =
    DirEntries [(''a1.json'', FileEntry (resolution d ''other'' None 1 r))]"
  using assms resolve_entry [of no_world "\<lparr>st_dir = DirEntries [(''a1.json'', FileEntry r)], st_tick = 0,
      st_timeouts = [], st_poisoned = False\<rparr>" r r d "''other''" None]
  by (simp add: resolved_by_other_def no_world_def Let_def)

lemma wait_loop_late:
  assumes "store_read env aid s = Some (Inr r, s1)" and "ar_decision r = None"
    and "timeout \<le> sv_clock env (st_tick s1) - started"
  shows "wait_loop env x aid timeout started s = on_timeout env x aid s1"
  using assms by (subst wait_loop.simps) simp

lemma wait_loop_next:
  assumes "store_read env aid s = Some (Inr r, s1)" and "ar_decision r = None"
    and "\<not> timeout \<le> sv_clock env (st_tick s1) - started"
  shows "wait_loop env x aid timeout started s = wait_loop env x aid timeout started s1"
  using assms by (subst wait_loop.simps) simp

section \<open>What the external engine answers\<close>

text \<open>
  C25: The external engine answers what was asked, with the decision of the approver. Other
  processes may resolve pending approvals at any time and otherwise leave the records alone. Then
  waiting on a request returns a decided record for the same action, policy decision and task: the
  first decided record that one of its polls reads, as the approver stored it; or, when all polls
  up to the end of the timeout read a pending record, its resolution as timed out. The
  directory then holds this record and waiting again returns it.
\<close>

theorem external_engine_answers_request:
  assumes "\<forall>t d. only_resolves env d (sv_world env t d)"
    and "\<forall>r c. sv_encode env r = Inr c \<longrightarrow> sv_decode env c = Inr r"
    and "\<not> st_poisoned s"
    and "external_request env announce x task a d s = (Inr r, s1)"
    and "external_wait env x (ar_id r) s1 = Some (Inr r', s2)"
    and "fst (timeout_for_approval (ar_id r) s1) = Inr t"
  shows "(answered_by_other env (ar_id r) s1 r' \<or> timed_out env x (ar_id r) t (sv_clock env (st_tick s1)) s1 r')
    \<and> ar_decision r' \<noteq> None \<and> ar_action r' = a \<and> ar_policy_decision r' = d \<and> ar_task_id r' = rt_id task
    \<and> known_in env (ar_id r) (st_dir s2) = Some r'
    \<and> (\<exists>s3. external_wait env x (ar_id r) s2 = Some (Inr r', s3))"
  using store_codec.answers [OF codec_locale [OF assms(1,2)] assms(3-6)]
    store_codec.known_def [OF codec_locale [OF assms(1,2)]]
  by simp

text \<open>A request that is approved by another process between the first and the second poll.\<close>

theorem external_engine_answers_request_witness:
  "\<exists>r s1 r' s2. external_request (plain_env (world_at 3 Approved)) None patient_external sample_task
       sample_push sample_ask fresh_store = (Inr r, s1)
     \<and> external_wait (plain_env (world_at 3 Approved)) patient_external (ar_id r) s1 = Some (Inr r', s2)
     \<and> ar_decision r' = Some Approved \<and> ar_actor r' = ''other'' \<and> ar_action r' = sample_push
     \<and> answered_by_other (plain_env (world_at 3 Approved)) (ar_id r) s1 r'"
proof -
  let ?w = "world_at 3 Approved" and ?x = patient_external
  let ?env = "plain_env ?w"
  let ?r = "\<lparr>ar_id = ''a1'', ar_task_id = rt_id sample_task, ar_actor = ''local'', ar_source = Some ''external'',
     ar_requested_at = 1, ar_resolved_at = None, ar_action = sample_push, ar_policy_decision = sample_ask,
     ar_decision = None\<rparr>"
  let ?d = "DirEntries [(''a1.json'', FileEntry ?r)]"
  let ?s1 = "\<lparr>st_dir = ?d, st_tick = 2, st_timeouts = [(''a1'', 60 * nanos_per_sec)], st_poisoned = False\<rparr>"
  let ?r' = "resolution Approved ''other'' None 1 ?r"
  have id: "''a'' @ dec_digits (Suc 0) = ''a1''" by code_simp
  have "write_record ?env ?r fresh_store = (Inr ''/tmp/repo/.taskfence/approvals/a1.json'',
      (observe ?env fresh_store)\<lparr>st_dir := ?d\<rparr>)"
    by (rule write_entry) (simp_all add: fresh_store_def world_at_def)
  then have req: "external_request ?env None ?x sample_task sample_push sample_ask fresh_store = (Inr ?r, ?s1)"
    using id
    by (simp add: external_request_def write_pending_def remember_timeout_def announce_request_def
        patient_external_def sample_external_def timeout_for_def sbind_apply sreturn_def fresh_store_def
        observe_def world_at_def Let_def numeral_2_eq_2)
  let ?s2 = "observe ?env ?s1"
  have one: "store_read ?env ''a1'' ?s1 = Some (Inr ?r, ?s2)"
    by (rule read_entry) (simp_all add: world_at_def)
  have two: "store_read ?env ''a1'' ?s2 = Some (Inr ?r', observe ?env ?s2)"
    by (rule read_entry) (simp_all add: world_at_def other_entry)
  have "wait_loop ?env ?x ''a1'' (60 * nanos_per_sec) (2 * nanos_per_sec) ?s1 =
      Some (Inr ?r', observe ?env ?s2)"
    using wait_loop_next [OF one, of "60 * nanos_per_sec" "2 * nanos_per_sec" ?x] two
    by (simp add: nanos_per_sec_def) (subst wait_loop.simps, simp)
  then have wait: "external_wait ?env ?x (ar_id ?r) ?s1 = Some (Inr ?r', observe ?env ?s2)"
    by (simp add: external_wait_def timeout_for_approval_def bt_get_def)
  have h: "\<forall>t d. only_resolves ?env d (sv_world ?env t d)"
    "\<forall>r c. sv_encode ?env r = Inr c \<longrightarrow> sv_decode ?env c = Inr r"
    by (simp_all add: world_at_only_resolves)
  have t: "fst (timeout_for_approval (ar_id ?r) ?s1) = Inr (60 * nanos_per_sec)"
    by (simp add: timeout_for_approval_def bt_get_def)
  have "\<not> st_poisoned fresh_store" by (simp add: fresh_store_def)
  from external_engine_answers_request [OF h this req wait t]
  have "answered_by_other ?env (ar_id ?r) ?s1 ?r'" and "ar_action ?r' = sample_push"
    by (auto simp: timed_out_def dest: arg_cong [of _ _ ar_decision])
  with req wait show ?thesis
    by (intro exI [of _ ?r] exI [of _ ?s1] exI [of _ ?r'] exI [of _ "observe ?env ?s2"]) simp
qed

lemma sample_wait:
  "\<exists>r s'. external_wait (plain_env no_world) sample_external ''a1'' sample_store = Some (Inr r, s')
     \<and> ar_decision r = Some ATimedOut"
proof -
  let ?env = "plain_env no_world"
  let ?q = "sample_record sample_push sample_ask None"
  let ?s1 = "observe ?env sample_store"
  have d: "st_dir sample_store = DirEntries [(''a1.json'', FileEntry ?q)]" by (simp add: sample_store_def)
  have r: "store_read ?env ''a1'' sample_store = Some (Inr ?q, ?s1)"
    by (rule read_entry) (simp_all add: no_world_def d)
  have "wait_loop ?env sample_external ''a1'' 0 0 sample_store = on_timeout ?env sample_external ''a1'' ?s1"
    by (rule wait_loop_late [OF r]) simp_all
  moreover have "\<exists>r s'. on_timeout ?env sample_external ''a1'' ?s1 = Some (Inr r, s') \<and> ar_decision r = Some ATimedOut"
    using resolve_entry [of no_world ?s1 ?q ?q ATimedOut "xe_actor sample_external" "Some ''external-timeout''"] d
    by (simp add: no_world_def Let_def on_timeout_def call_try_def call_returns_def sreturn_def)
  ultimately show ?thesis
    by (simp add: external_wait_def timeout_for_approval_def sample_store_def bt_get_def)
qed

text \<open>
  An approval is resolved once. When other processes do no more than resolve pending approvals,
  after a resolution that succeeded every further resolution fails with \<open>already resolved\<close> and the
  record stays.
\<close>

theorem approval_resolved_once:
  assumes "\<forall>t d. only_resolves env d (sv_world env t d)"
    and "\<forall>r c. sv_encode env r = Inr c \<longrightarrow> sv_decode env c = Inr r"
    and "resolve_with_actor env aid d actor source s = Some (Inr r, s1)"
  shows "ar_decision r = Some d \<and>
    resolve_with_actor env aid d' actor' source' s1 = Some (Inl (already_resolved aid), observe env s1)
    \<and> known_in env aid (st_dir (observe env s1)) = Some r"
  using store_codec.resolves_once [OF codec_locale [OF assms(1,2)] assms(3)]
    store_codec.known_def [OF codec_locale [OF assms(1,2)]]
  by simp

section \<open>Waiting ends, unless a read does not\<close>

lemma on_timeout_returns:
  assumes "\<forall>n. dir_read (sv_missing env) (st_dir (observed env (Suc n) s)) (record_file aid) \<noteq> RecordNever"
  shows "\<exists>y. on_timeout env x aid (observed env n s) = Some y"
proof -
  have read: "store_read env aid (observed env k s) \<noteq> None" for k
    using assms by (auto simp: store_read_def read_record_at_def Let_def simp del: observe_simps
        split: sum.splits record_read.splits)
  let ?s = "observed env n s"
  have "resolve_with_actor env aid ATimedOut (xe_actor x) (Some ''external-timeout'') ?s \<noteq> None"
    using read [of n] by (auto simp: resolve_with_actor_def call_bind_apply call_returns_def split: sum.splits)
  then obtain a s1 where a: "resolve_with_actor env aid ATimedOut (xe_actor x) (Some ''external-timeout'') ?s
      = Some (a, s1)" by auto
  have again: ?thesis if e: "a = Inl e" and j: "s1 = observed env j s" for e j
    using a e j read [of j]
    by (auto simp: on_timeout_def call_try_def call_bind_apply call_returns_def split: sum.splits)
  from a show ?thesis
  proof (cases rule: resolve_cases)
    case (no_read e)
    from store_read_error [OF no_read(2)] no_read(1) again [of e n] again [of e "Suc n"] show ?thesis by auto
  next
    case (decided q)
    with again [of _ "Suc n"] show ?thesis by simp
  next
    case (no_write q e)
    with again [of e "Suc n"] again [of e "Suc (Suc n)"] show ?thesis by auto
  next
    case (written q r' c f)
    with a show ?thesis by (simp add: on_timeout_def call_try_def call_returns_def)
  qed
qed

lemma wait_loop_ends:
  assumes clock: "\<forall>j \<ge> k. timeout \<le> sv_clock env j - started"
    and reads: "\<forall>n. dir_read (sv_missing env) (st_dir (observed env (Suc n) s)) (record_file aid) \<noteq> RecordNever"
  shows "\<exists>y. wait_loop env x aid timeout started (observed env n s) = Some y"
proof (induction "k - (st_tick s + n)" arbitrary: n rule: less_induct)
  case less
  let ?s = "observed env n s"
  have "store_read env aid ?s \<noteq> None"
    using reads by (auto simp: store_read_def read_record_at_def Let_def simp del: observe_simps
        split: sum.splits record_read.splits)
  then obtain a s1 where a: "store_read env aid ?s = Some (a, s1)" by auto
  show ?case
  proof (cases a)
    case (Inl e)
    with a show ?thesis by (subst wait_loop.simps) simp
  next
    case (Inr r)
    with a have s1: "s1 = observed env (Suc n) s" using read_observed by blast
    consider "ar_decision r \<noteq> None" | "ar_decision r = None" "timeout \<le> sv_clock env (st_tick s1) - started"
      | "ar_decision r = None" "\<not> timeout \<le> sv_clock env (st_tick s1) - started" by blast
    then show ?thesis
    proof cases
      case 1
      with a Inr show ?thesis by (subst wait_loop.simps) auto
    next
      case 2
      from wait_loop_late [OF a [unfolded Inr] this] on_timeout_returns [OF reads, of x "Suc n"] s1
      show ?thesis by simp
    next
      case 3
      then have "\<not> k \<le> st_tick s1" using clock by blast
      with s1 have "k - (st_tick s + Suc n) < k - (st_tick s + n)" by simp
      from less [OF this] wait_loop_next [OF a [unfolded Inr] 3] s1 show ?thesis by simp
    qed
  qed
qed


lemma observed_quiet:
  "st_dir (observed (plain_env no_world) n s) = st_dir s"
  by (induction n) (simp_all add: no_world_def)


text \<open>
  The timeout does not bound a read. A FIFO without a writer under the record's name stops the first
  poll, and the wait does not return, however short its timeout is.
\<close>

lemma fifo_defeats_timeout:
  assumes "approval_path env aid = Inr path"
    and "dir_read (sv_missing env) (st_dir (observe env s)) (record_file aid) = RecordNever"
  shows "wait_loop env x aid timeout started s = None"
proof -
  have "store_read env aid s = None"
    using assms by (simp add: store_read_def read_record_at_def Let_def)
  then show ?thesis by (subst wait_loop.simps) simp
qed

text \<open>A link is read through: what its target holds is taken for the record.\<close>

lemma link_is_followed:
  "dir_entry_at d (record_file aid) = Some (Entry Symlink (RecordText c)) \<Longrightarrow>
   read_record_at env path aid d = Some (decode_record env path aid c)"
  by (cases d) (simp_all add: read_record_at_def dir_read_def dir_entry_at_def)

section \<open>Interference\<close>

text \<open>What is read under the name of the approval decodes to an approved record.\<close>

definition file_approved :: "'c store_env \<Rightarrow> approval_id \<Rightarrow> 'c dir_state \<Rightarrow> bool" where
  "file_approved env aid d \<longleftrightarrow>
     (\<exists>c r. dir_file d (record_file aid) = Some c \<and> sv_decode env c = Inr r \<and>
        ar_decision r = Some Approved)"

lemma dir_read_text: "dir_read e d n = RecordText c \<longleftrightarrow> dir_file d n = Some c"
  by (auto simp: dir_file_def dir_read_def split: dir_state.splits option.splits dir_entry.splits
      record_read.splits)

lemma known_not_approved:
  assumes "known_in env aid d = Some r" and "\<not> file_approved env aid d"
  shows "ar_decision r \<noteq> Some Approved"
  using assms
  by (auto simp: known_in_def read_record_at_def decode_record_def file_approved_def rbind_Inr_iff dir_read_text
      split: sum.splits option.splits record_read.splits if_splits)

lemma observe_not_approved:
  assumes "\<forall>n d. \<not> file_approved env aid d \<longrightarrow> \<not> file_approved env aid (sv_world env n d)"
    and "\<not> file_approved env aid (st_dir s)"
  shows "\<not> file_approved env aid (st_dir (observe env s))"
  using assms by simp

lemma timeout_not_approved:
  assumes t: "on_timeout env x aid s = Some (Inr r, s1)"
    and w: "\<forall>n d. \<not> file_approved env aid d \<longrightarrow> \<not> file_approved env aid (sv_world env n d)"
    and n: "\<not> file_approved env aid (st_dir s)"
  shows "ar_decision r \<noteq> Some Approved"
proof -
  from t obtain a s2 where a: "resolve_with_actor env aid ATimedOut (xe_actor x) (Some ''external-timeout'') s
      = Some (a, s2)"
    by (auto simp: on_timeout_def call_try_def split: option.splits)
  have again: ?thesis if "a = Inl e" and n2: "\<not> file_approved env aid (st_dir s2)" for e
  proof -
    from that a t have "store_read env aid s2 = Some (Inr r, s1)"
      by (auto simp: on_timeout_def call_try_def call_bind_apply call_returns_def sreturn_def sfail_def
          split: option.splits sum.splits if_splits)
    with known_not_approved observe_not_approved [OF w n2] show ?thesis by (auto simp: store_read_known)
  qed
  note n1 = observe_not_approved [OF w n]
  from a show ?thesis
  proof (cases rule: resolve_cases)
    case (no_read e)
    with again [of e] store_read_error [OF no_read(2)] n n1 show ?thesis by auto
  next
    case (decided q)
    with again n1 show ?thesis by blast
  next
    case (no_write q e)
    with again [of e] n1 observe_not_approved [OF w n1] show ?thesis by auto
  next
    case (written q r' c f)
    with a t show ?thesis by (auto simp: on_timeout_def call_try_def call_returns_def sreturn_def)
  qed
qed

text \<open>
  Waiting fails closed. If no other process turns the record of an approval into an approved
  one, then whatever else it does to the directory, \<open>wait\<close> on a pending approval never returns
  an approved record: the timeout, an unreadable file and a failed write do not approve.
\<close>

theorem external_wait_fails_closed:
  assumes "\<forall>n d. \<not> file_approved env aid d \<longrightarrow> \<not> file_approved env aid (sv_world env n d)"
    and "\<not> file_approved env aid (st_dir s)"
    and "external_wait env x aid s = Some (Inr r, s')"
  shows "ar_decision r \<noteq> Some Approved"
proof -
  define Q where "Q = (\<lambda>y :: approval_record result \<times> 'a store_state.
    \<forall>r. fst y = Inr r \<longrightarrow> ar_decision r \<noteq> Some Approved)"
  from assms(3) obtain t where
    "wait_loop env x aid t (sv_clock env (st_tick s)) s = Some (Inr r, s')"
    by (auto simp: external_wait_def timeout_for_approval_def split: if_splits)
  then have "Q (Inr r, s')"
  proof (rule wait_loop_rule [where P = "\<lambda>s. \<not> file_approved env aid (st_dir s)" and Q = Q])
    show "\<not> file_approved env aid (st_dir s)" by (rule assms(2))
  next
    fix s r1 s1
    assume s: "\<not> file_approved env aid (st_dir s)" "store_read env aid s = Some (Inr r1, s1)"
    then have k: "known_in env aid (st_dir s1) = Some r1" and s1: "s1 = observe env s"
      by (simp_all add: store_read_known)
    have n: "\<not> file_approved env aid (st_dir s1)"
      using observe_not_approved [OF assms(1) s(1)] s1 by simp
    then show "\<not> file_approved env aid (st_dir s1)" .
    from known_not_approved [OF k n] show "Q (Inr r1, s1)" by (simp add: Q_def)
    fix y assume "on_timeout env x aid s1 = Some y"
    with timeout_not_approved [OF _ assms(1) n] show "Q y" by (cases y) (auto simp: Q_def)
  qed (simp add: Q_def)
  then show ?thesis by (simp add: Q_def)
qed

theorem external_wait_fails_closed_witness:
  "\<exists>r s'. external_wait (plain_env no_world) sample_external ''a1'' sample_store = Some (Inr r, s')
     \<and> ar_decision r \<noteq> Some Approved"
proof -
  obtain r s' where w:
    "external_wait (plain_env no_world) sample_external ''a1'' sample_store = Some (Inr r, s')"
    using sample_wait by blast
  have "\<not> file_approved (plain_env no_world) ''a1'' (st_dir sample_store)"
    by (simp add: file_approved_def dir_file_def dir_read_def dir_entry_at_def record_file_def sample_store_def)
  from external_wait_fails_closed [OF _ this w] w show ?thesis by (simp add: no_world_def)
qed

text \<open>
  Check and write of a resolution are not atomic. A denial that another process completes
  between them is accepted and stored, and is then overwritten: the approving resolution also
  succeeds and the directory ends with the approval.
\<close>

theorem denial_overwritten:
  "\<exists>r s' q. store_resolve (plain_env (world_at 1 ADenied)) ''a1'' Approved sample_store = Some (Inr r, s')
     \<and> file_approved (plain_env (world_at 1 ADenied)) ''a1'' (st_dir s')
     \<and> resolved_by_other ADenied (st_dir sample_store) = DirEntries [(''a1.json'', FileEntry q)]
     \<and> ar_decision q = Some ADenied"
proof -
  let ?w = "world_at 1 ADenied"
  let ?q = "sample_record sample_push sample_ask None"
  have o: "resolved_by_other ADenied (st_dir sample_store) =
      DirEntries [(''a1.json'', FileEntry (resolution ADenied ''other'' None 1 ?q))]"
    by (simp add: sample_store_def other_entry)
  have "?w (st_tick sample_store) (st_dir sample_store) = DirEntries [(''a1.json'', FileEntry ?q)]"
    by (simp add: sample_store_def world_at_def)
  from resolve_entry [of ?w, OF this] o
  show ?thesis
    by (simp add: store_resolve_def sample_store_def world_at_def Let_def file_approved_def dir_file_def
        dir_read_def dir_entry_at_def record_file_def)
qed

end
