(* ===== verification/Team_State.thy ===== *)
theory Team_State
  imports Core_Types
begin

text \<open>
  Team state (\<open>crates/taskfence-state/src/lib.rs\<close>): the in-memory state store and worker queue,
  role based access, approval resolution, artifact paths, the file backed team store and the
  service in front of any backend. The Postgres backend is in \<open>Team_Postgres\<close>.
\<close>

section \<open>The in-memory state store\<close>

record state_store =
  ss_statuses :: "(task_id, task_status) btree"
  ss_poisoned :: bool

definition state_poisoned :: taskfence_error where
  "state_poisoned = StateErr ''state store is poisoned''"

definition state_snapshot :: "state_store \<Rightarrow> (task_id, task_status) btree result" where
  "state_snapshot s = (if ss_poisoned s then Inl state_poisoned else Inr (ss_statuses s))"

definition set_status :: "task_id \<Rightarrow> task_status \<Rightarrow> state_store \<Rightarrow> unit result \<times> state_store" where
  "set_status tid st s =
     (if ss_poisoned s then (Inl state_poisoned, s)
      else (Inr (), s\<lparr>ss_statuses := bt_insert tid st (ss_statuses s)\<rparr>))"

definition get_status :: "task_id \<Rightarrow> state_store \<Rightarrow> task_status option result" where
  "get_status tid s =
     (if ss_poisoned s then Inl state_poisoned else Inr (bt_get (ss_statuses s) tid))"

section \<open>Requests, roles and leases\<close>

datatype team_api_resource =
    TaskList | TaskDetail task_id | TaskEvents task_id | TaskLogs task_id | TaskDiff task_id
  | TaskReport task_id | TaskArtifacts task_id | Approvals | ApprovalDetail approval_id
  | ReplayInputs task_id | AuditExport

datatype team_api_method = Read | ResolveApproval | EnqueueTask | WriteArtifact | ExportAudit

record team_api_request =
  rq_organization :: string
  rq_actor :: string
  rq_method :: team_api_method
  rq_resource :: team_api_resource

datatype team_role = Viewer | Approver | Operator | Auditor | Admin

record rbac_grant =
  rg_actor :: string
  rg_role :: team_role

record organization_policy =
  op_organization :: string
  op_grants :: "rbac_grant list"
  op_require_approval_owner :: bool
  op_allowed_artifact_roots :: "path list"

datatype team_access_decision = AccessAllow team_role string | AccessDeny string

datatype worker_lease_state =
    LeasePending | Leased string | LeaseCompleted | LeaseFailed string

record worker_lease =
  wl_task_id :: task_id
  wl_organization :: string
  wl_state :: worker_lease_state

datatype audit_export_sink_kind = Siem | Webhook | ObjectStorage

record audit_export_sink_config =
  sk_kind :: audit_export_sink_kind
  sk_destination_ref :: string
  sk_credential_env :: string

record team_task_record =
  tt_organization :: string
  tt_task_id :: task_id
  tt_status :: "task_status option"
  tt_goal :: "string option"
  tt_evidence_dir :: path

record team_artifact_record =
  tar_organization :: string
  tar_task_id :: task_id
  tar_path :: path
  tar_size_bytes :: u64
  tar_sha256 :: string

datatype team_audit_export_status = Planned | ExportCompleted path | ExportFailed string

record team_audit_export_record =
  tae_organization :: string
  tae_sink :: audit_export_sink_config
  tae_requested_by :: string
  tae_status :: team_audit_export_status

section \<open>Validators\<close>

definition normalize_non_empty :: "string \<Rightarrow> string \<Rightarrow> string result" where
  "normalize_non_empty field v =
     (let normalized = trim v
      in if normalized = [] then Inl (StateErr (field @ '' must not be empty'')) else Inr normalized)"

definition validate_task_id_component :: "string \<Rightarrow> unit result" where
  "validate_task_id_component v =
     (if v = [] \<or> v = ''.'' \<or> v = ''..'' \<or> CHR ''/'' \<in> set v \<or> CHR 0x5C \<in> set v \<or> has_control v
      then Inl (StateErr (''task id is not a safe artifact path component: '' @ debug_str v))
      else Inr ())"

definition validate_env_ref :: "string \<Rightarrow> string \<Rightarrow> unit result" where
  "validate_env_ref field v =
     (if v = [] \<or> \<not> list_all (\<lambda>c. is_upper c \<or> is_digit c \<or> c = CHR ''_'') v
      then Inl (StateErr (field @ '' must be an uppercase environment variable name''))
      else Inr ())"

definition validate_schema_name :: "string \<Rightarrow> unit result" where
  "validate_schema_name v =
     (if v = [] \<or> \<not> list_all (\<lambda>c. is_lower c \<or> is_digit c \<or> c = CHR ''_'') v
      then Inl (StateErr (''Postgres schema must contain only lowercase letters, digits, or '_'' @ [CHR 0x27]))
      else Inr ())"

definition url_scheme_prefixes :: "string list" where
  "url_scheme_prefixes = [''http://'', ''https://'', ''postgres://'', ''postgresql://'']"

definition secret_texts :: "string list" where
  "secret_texts = [''token='', ''password='', ''secret='', ''api_key='', ''authorization='', ''bearer '']"

definition validate_non_secret_ref :: "string \<Rightarrow> string \<Rightarrow> unit result" where
  "validate_non_secret_ref field v =
     (let normalized = trim v; lower = to_lower normalized
      in if normalized = [] \<or> has_whitespace normalized \<or> CHR ''@'' \<in> set normalized
            \<or> CHR ''?'' \<in> set normalized \<or> CHR ''#'' \<in> set normalized
            \<or> list_ex (\<lambda>t. str_contains t lower) secret_texts
            \<or> list_ex (\<lambda>p. prefix p lower) url_scheme_prefixes
         then Inl (StateErr (field @ '' must be a non-secret operator-owned reference''))
         else Inr ())"

definition audit_export_sink_config_new ::
  "audit_export_sink_kind \<Rightarrow> string \<Rightarrow> string \<Rightarrow> audit_export_sink_config result" where
  "audit_export_sink_config_new kind destination_ref credential_env =
     rbind (validate_non_secret_ref ''audit export destination_ref'' destination_ref) (\<lambda>_.
     rbind (validate_env_ref ''audit export credential_env'' credential_env) (\<lambda>_.
       Inr \<lparr>sk_kind = kind, sk_destination_ref = destination_ref,
            sk_credential_env = credential_env\<rparr>))"

definition validate_completed_export_artifact :: "path \<Rightarrow> unit result" where
  "validate_completed_export_artifact p =
     (if \<not> is_absolute p \<or> contains_parent_dir p
      then Inl (StateErr (''completed audit export artifact must be absolute without '..': '' @ p))
      else Inr ())"

text \<open>
  One \<open>_\<close> for each character that is not an ASCII letter, a digit, a dot, an underscore or a
  hyphen: the continuation bytes of a character add nothing.
\<close>

definition export_byte :: "char \<Rightarrow> string" where
  "export_byte c =
     (if is_alnum c \<or> c \<in> set ''._-'' then [c]
      else if 128 \<le> byte c \<and> byte c < 192 then [] else ''_'')"

definition export_artifact_component :: "string \<Rightarrow> string result" where
  "export_artifact_component v =
     (let output = concat (map export_byte (trim v))
      in if output = [] \<or> str_contains ''..'' output
         then Inl (StateErr ''audit export destination_ref must produce a safe artifact name'')
         else Inr output)"

text \<open>\<open>split_whitespace\<close> with the word read so far, and \<open>chars().take(n)\<close>.\<close>

definition flush_word :: "string \<Rightarrow> string list \<Rightarrow> string list" where
  "flush_word w ws = (if w = [] then ws else w # ws)"

fun split_whitespace_from :: "string \<Rightarrow> string \<Rightarrow> string list" where
  "split_whitespace_from w (a # b # c # s) =
     (if is_ws1 a then flush_word w (split_whitespace_from [] (b # c # s))
      else if is_ws2 a b then flush_word w (split_whitespace_from [] (c # s))
      else if is_ws3 a b c then flush_word w (split_whitespace_from [] s)
      else split_whitespace_from (w @ [a]) (b # c # s))"
| "split_whitespace_from w [a, b] =
     (if is_ws1 a then flush_word w (split_whitespace_from [] [b])
      else if is_ws2 a b then flush_word w []
      else split_whitespace_from (w @ [a]) [b])"
| "split_whitespace_from w [a] = (if is_ws1 a then flush_word w [] else [w @ [a]])"
| "split_whitespace_from w [] = flush_word w []"

definition split_whitespace :: "string \<Rightarrow> string list" where
  "split_whitespace s = split_whitespace_from [] s"

fun take_chars :: "nat \<Rightarrow> string \<Rightarrow> string" where
  "take_chars n [] = []"
| "take_chars n (c # s) =
     (if 128 \<le> byte c \<and> byte c < 192 then c # take_chars n s
      else case n of 0 \<Rightarrow> [] | Suc k \<Rightarrow> c # take_chars k s)"

definition sanitize_export_failure_reason :: "string \<Rightarrow> string result" where
  "sanitize_export_failure_reason reason =
     (let cleaned = take_chars 512 (str_join '' '' (split_whitespace reason));
          lower = to_lower cleaned
      in if cleaned = [] \<or> CHR ''@'' \<in> set cleaned
            \<or> list_ex (\<lambda>t. str_contains t lower) secret_texts
            \<or> list_ex (\<lambda>p. prefix p lower) url_scheme_prefixes
         then Inl (StateErr ''audit export failure reason must not contain secret-like material'')
         else Inr cleaned)"

definition validate_team_artifact_root :: "path \<Rightarrow> unit result" where
  "validate_team_artifact_root root =
     (if \<not> is_absolute root
      then Inl (StateErr (''team artifact root must be absolute: '' @ root))
      else if contains_parent_dir root
      then Inl (StateErr (''team artifact root must not contain '..': '' @ root))
      else Inr ())"

definition validate_team_state_file_path :: "path \<Rightarrow> unit result" where
  "validate_team_state_file_path p =
     (if \<not> is_absolute p \<or> contains_parent_dir p
      then Inl (StateErr (''team state file path must be absolute without '..': '' @ p))
      else Inr ())"

definition validate_team_task_record :: "team_task_record \<Rightarrow> unit result" where
  "validate_team_task_record r =
     rbind (normalize_non_empty ''organization'' (tt_organization r)) (\<lambda>_.
     rbind (validate_task_id_component (tt_task_id r)) (\<lambda>_.
       if \<not> is_absolute (tt_evidence_dir r) \<or> contains_parent_dir (tt_evidence_dir r)
       then Inl (StateErr (''team task evidence_dir must be absolute without '..': '' @
              tt_evidence_dir r))
       else Inr ()))"

section \<open>Status labels\<close>

fun task_status_label :: "task_status \<Rightarrow> string" where
  "task_status_label Created = ''created''"
| "task_status_label Validating = ''validating''"
| "task_status_label Preparing = ''preparing''"
| "task_status_label Running = ''running''"
| "task_status_label WaitingForApproval = ''waiting_for_approval''"
| "task_status_label Stopping = ''stopping''"
| "task_status_label CollectingArtifacts = ''collecting_artifacts''"
| "task_status_label Reporting = ''reporting''"
| "task_status_label Succeeded = ''succeeded''"
| "task_status_label Failed = ''failed''"
| "task_status_label Denied = ''denied''"
| "task_status_label TimedOut = ''timed_out''"
| "task_status_label Cancelled = ''cancelled''"

definition all_statuses :: "task_status list" where
  "all_statuses = [Created, Validating, Preparing, Running, WaitingForApproval, Stopping,
     CollectingArtifacts, Reporting, Succeeded, Failed, Denied, TimedOut, Cancelled]"

definition task_status_from_label :: "string \<Rightarrow> task_status result" where
  "task_status_from_label v =
     (case find (\<lambda>st. task_status_label st = v) all_statuses of
        Some st \<Rightarrow> Inr st
      | None \<Rightarrow> Inl (StateErr (''unknown task status label from team state: '' @ v)))"

section \<open>Access decisions\<close>

text \<open>The derived \<open>Debug\<close> texts that the denial reasons show.\<close>

definition debug_task_id :: "task_id \<Rightarrow> string" where
  "debug_task_id t = ''TaskId('' @ debug_str t @ '')''"

fun resource_debug :: "team_api_resource \<Rightarrow> string" where
  "resource_debug TaskList = ''TaskList''"
| "resource_debug (TaskDetail t) = ''TaskDetail('' @ debug_task_id t @ '')''"
| "resource_debug (TaskEvents t) = ''TaskEvents('' @ debug_task_id t @ '')''"
| "resource_debug (TaskLogs t) = ''TaskLogs('' @ debug_task_id t @ '')''"
| "resource_debug (TaskDiff t) = ''TaskDiff('' @ debug_task_id t @ '')''"
| "resource_debug (TaskReport t) = ''TaskReport('' @ debug_task_id t @ '')''"
| "resource_debug (TaskArtifacts t) = ''TaskArtifacts('' @ debug_task_id t @ '')''"
| "resource_debug Approvals = ''Approvals''"
| "resource_debug (ApprovalDetail a) = ''ApprovalDetail(ApprovalId('' @ debug_str a @ ''))''"
| "resource_debug (ReplayInputs t) = ''ReplayInputs('' @ debug_task_id t @ '')''"
| "resource_debug AuditExport = ''AuditExport''"

fun method_debug :: "team_api_method \<Rightarrow> string" where
  "method_debug Read = ''Read''"
| "method_debug ResolveApproval = ''ResolveApproval''"
| "method_debug EnqueueTask = ''EnqueueTask''"
| "method_debug WriteArtifact = ''WriteArtifact''"
| "method_debug ExportAudit = ''ExportAudit''"

fun role_debug :: "team_role \<Rightarrow> string" where
  "role_debug Viewer = ''Viewer''"
| "role_debug Approver = ''Approver''"
| "role_debug Operator = ''Operator''"
| "role_debug Auditor = ''Auditor''"
| "role_debug Admin = ''Admin''"

fun method_matches_resource :: "team_api_method \<Rightarrow> team_api_resource \<Rightarrow> bool" where
  "method_matches_resource Read resource = (resource \<noteq> AuditExport)"
| "method_matches_resource ResolveApproval resource =
     (case resource of ApprovalDetail _ \<Rightarrow> True | _ \<Rightarrow> False)"
| "method_matches_resource EnqueueTask resource = (resource = TaskList)"
| "method_matches_resource WriteArtifact resource =
     (case resource of TaskArtifacts _ \<Rightarrow> True | _ \<Rightarrow> False)"
| "method_matches_resource ExportAudit resource = (resource = AuditExport)"

fun role_allows :: "team_role \<Rightarrow> team_api_method \<Rightarrow> team_api_resource \<Rightarrow> bool" where
  "role_allows Admin m r = True"
| "role_allows Viewer m r =
     (m = Read \<and>
      (case r of
         TaskList \<Rightarrow> True | TaskDetail _ \<Rightarrow> True | TaskEvents _ \<Rightarrow> True | TaskLogs _ \<Rightarrow> True
       | TaskDiff _ \<Rightarrow> True | TaskReport _ \<Rightarrow> True | TaskArtifacts _ \<Rightarrow> True
       | ReplayInputs _ \<Rightarrow> True | _ \<Rightarrow> False))"
| "role_allows Approver m r =
     (case m of
        Read \<Rightarrow>
          (case r of
             TaskList \<Rightarrow> True | TaskDetail _ \<Rightarrow> True | TaskEvents _ \<Rightarrow> True | TaskLogs _ \<Rightarrow> True
           | TaskDiff _ \<Rightarrow> True | TaskReport _ \<Rightarrow> True | TaskArtifacts _ \<Rightarrow> True
           | Approvals \<Rightarrow> True | ApprovalDetail _ \<Rightarrow> True | ReplayInputs _ \<Rightarrow> True | _ \<Rightarrow> False)
      | ResolveApproval \<Rightarrow> True
      | _ \<Rightarrow> False)"
| "role_allows Operator m r =
     (case m of
        Read \<Rightarrow> r \<noteq> AuditExport
      | EnqueueTask \<Rightarrow> True
      | WriteArtifact \<Rightarrow> True
      | ResolveApproval \<Rightarrow> True
      | ExportAudit \<Rightarrow> False)"
| "role_allows Auditor m r =
     (case m of
        Read \<Rightarrow> (case r of ReplayInputs _ \<Rightarrow> False | _ \<Rightarrow> True)
      | ExportAudit \<Rightarrow> r = AuditExport
      | _ \<Rightarrow> False)"

definition evaluate_team_access ::
  "organization_policy \<Rightarrow> team_api_request \<Rightarrow> team_access_decision" where
  "evaluate_team_access policy request =
     (if op_organization policy \<noteq> rq_organization request
      then AccessDeny ''request organization does not match policy''
      else case find (\<lambda>g. rg_actor g = rq_actor request) (op_grants policy) of
             None \<Rightarrow> AccessDeny ''actor has no organization role''
           | Some grant \<Rightarrow>
               (let role = rg_role grant; m = rq_method request; r = rq_resource request
                in if \<not> method_matches_resource m r
                   then AccessDeny (''method '' @ method_debug m @ '' is not valid for resource '' @
                          resource_debug r)
                   else if role_allows role m r
                   then AccessAllow role ''role permits resource action''
                   else AccessDeny (''role '' @ role_debug role @ '' does not permit '' @
                          method_debug m)))"

definition evaluate_approval_resolution ::
  "organization_policy \<Rightarrow> team_api_request \<Rightarrow> approval_record \<Rightarrow> team_access_decision" where
  "evaluate_approval_resolution policy request record =
     (if rq_method request \<noteq> ResolveApproval
      then AccessDeny ''request method is not approval resolution''
      else if rq_resource request \<noteq> ApprovalDetail (ar_id record)
      then AccessDeny ''approval request resource does not match approval record''
      else let access = evaluate_team_access policy request
           in case access of
                AccessDeny _ \<Rightarrow> access
              | AccessAllow _ _ \<Rightarrow>
                  if op_require_approval_owner policy \<and> rq_actor request \<noteq> ar_actor record
                  then AccessDeny (''approval '' @ ar_id record @ '' is owned by '' @
                         ar_actor record @ '', not '' @ rq_actor request)
                  else if ar_decision record \<noteq> None
                  then AccessDeny (''approval '' @ ar_id record @ '' is already resolved'')
                  else access)"

section \<open>Artifact paths\<close>

text \<open>The result of \<open>fs::canonicalize\<close> on a path, at the time of the call.\<close>

datatype canonical = CanonicalPath path | CanonicalError string | CanonicalNotUtf8 string

datatype team_artifact_decision = ArtifactAllow path | ArtifactDeny string

definition canonical_utf8 :: "(path \<Rightarrow> canonical) \<Rightarrow> path \<Rightarrow> path result" where
  "canonical_utf8 fs p =
     (case fs p of
        CanonicalPath q \<Rightarrow> Inr q
      | CanonicalError err \<Rightarrow> Inl (StateErr (''failed to canonicalize '' @ p @ '': '' @ err))
      | CanonicalNotUtf8 shown \<Rightarrow> Inl (StateErr (''canonical path is not valid UTF-8: '' @ shown)))"

fun artifact_root_decision ::
  "(path \<Rightarrow> canonical) \<Rightarrow> path \<Rightarrow> path \<Rightarrow> path list \<Rightarrow> team_artifact_decision" where
  "artifact_root_decision fs requested parent [] =
     ArtifactDeny ''artifact path is outside allowed organization roots''"
| "artifact_root_decision fs requested parent (configured # roots) =
     (case validate_team_artifact_root configured of
        Inl err \<Rightarrow> ArtifactDeny (error_display err)
      | Inr _ \<Rightarrow>
          (case canonical_utf8 fs configured of
             Inl err \<Rightarrow>
               ArtifactDeny (''artifact root must exist and be canonicalizable: '' @ error_display err)
           | Inr root \<Rightarrow>
               (case (case canonical_utf8 fs parent of
                        Inr q \<Rightarrow> Inr q
                      | Inl err \<Rightarrow>
                          if path_starts_with requested configured \<or> path_starts_with requested root
                          then Inr parent else Inl err) of
                  Inl err \<Rightarrow>
                    ArtifactDeny (''artifact parent must be under an allowed root: '' @ error_display err)
                | Inr q \<Rightarrow>
                    if path_eq q root \<or> path_starts_with q root \<or> path_eq q configured
                       \<or> path_starts_with q configured
                    then ArtifactAllow root
                    else artifact_root_decision fs requested parent roots)))"

definition evaluate_artifact_storage_path ::
  "(path \<Rightarrow> canonical) \<Rightarrow> organization_policy \<Rightarrow> path \<Rightarrow> team_artifact_decision" where
  "evaluate_artifact_storage_path fs policy requested =
     (if op_allowed_artifact_roots policy = []
      then ArtifactDeny ''organization has no allowed artifact roots''
      else if \<not> is_absolute requested then ArtifactDeny ''artifact path must be absolute''
      else if contains_parent_dir requested
      then ArtifactDeny (''artifact path must not contain '..'' @ [CHR 0x27])
      else case path_parent requested of
             None \<Rightarrow> ArtifactDeny ''artifact path must have a parent directory''
           | Some parent \<Rightarrow>
               artifact_root_decision fs requested parent (op_allowed_artifact_roots policy))"

section \<open>The in-memory worker queue\<close>

record worker_queue =
  wq_leases :: "(task_id, worker_lease) btree"
  wq_poisoned :: bool

definition queue_poisoned :: taskfence_error where
  "queue_poisoned = StateErr ''worker queue is poisoned''"

definition already_queued :: "task_id \<Rightarrow> taskfence_error" where
  "already_queued tid = StateErr (''task '' @ tid @ '' is already queued for team execution'')"

definition not_queued :: "task_id \<Rightarrow> taskfence_error" where
  "not_queued tid = StateErr (''task '' @ tid @ '' is not queued for team execution'')"

text \<open>The match on the state of a lease that \<open>finish_leased\<close> and \<open>finish_lease\<close> share.\<close>

definition finish_error :: "task_id \<Rightarrow> string \<Rightarrow> worker_lease_state \<Rightarrow> taskfence_error option" where
  "finish_error tid worker st =
     (case st of
        Leased leased_by \<Rightarrow>
          if leased_by = worker then None
          else Some (StateErr (''task '' @ tid @ '' is leased by worker '' @ leased_by @ '', not '' @ worker))
      | LeasePending \<Rightarrow> Some (StateErr (''task '' @ tid @ '' has not been leased by a worker''))
      | LeaseCompleted \<Rightarrow> Some (StateErr (''task '' @ tid @ '' is already completed''))
      | LeaseFailed reason \<Rightarrow>
          Some (StateErr (''task '' @ tid @ '' is already failed: '' @ reason)))"

type_synonym 'a queue_op = "worker_queue \<Rightarrow> 'a result \<times> worker_queue"

definition lock_queue :: "unit queue_op" where
  "lock_queue q = (if wq_poisoned q then (Inl queue_poisoned, q) else (Inr (), q))"

definition queue_enqueue :: "string \<Rightarrow> task_id \<Rightarrow> worker_lease queue_op" where
  "queue_enqueue organization tid =
     sbind (slift (validate_task_id_component tid)) (\<lambda>_.
     sbind (slift (normalize_non_empty ''organization'' organization)) (\<lambda>org.
     sbind lock_queue (\<lambda>_ q.
       if bt_get (wq_leases q) tid \<noteq> None then (Inl (already_queued tid), q)
       else
         (let lease = \<lparr>wl_task_id = tid, wl_organization = org, wl_state = LeasePending\<rparr>
          in (Inr lease, q\<lparr>wq_leases := bt_insert tid lease (wq_leases q)\<rparr>)))))"

definition leasable :: "string \<Rightarrow> worker_lease \<Rightarrow> bool" where
  "leasable org lease \<longleftrightarrow> wl_organization lease = org \<and> wl_state lease = LeasePending"

definition queue_lease_next :: "string \<Rightarrow> string \<Rightarrow> worker_lease option queue_op" where
  "queue_lease_next organization worker_id =
     sbind (slift (normalize_non_empty ''organization'' organization)) (\<lambda>org.
     sbind (slift (normalize_non_empty ''worker_id'' worker_id)) (\<lambda>worker.
     sbind lock_queue (\<lambda>_ q.
       case find (\<lambda>(_, lease). leasable org lease) (wq_leases q) of
         None \<Rightarrow> (Inr None, q)
       | Some (tid, lease) \<Rightarrow>
           (let lease' = lease\<lparr>wl_state := Leased worker\<rparr>
            in (Inr (Some lease'), q\<lparr>wq_leases := bt_insert tid lease' (wq_leases q)\<rparr>)))))"

definition queue_finish_leased ::
  "task_id \<Rightarrow> string \<Rightarrow> worker_lease_state \<Rightarrow> worker_lease queue_op" where
  "queue_finish_leased tid worker_id next_state =
     sbind (slift (validate_task_id_component tid)) (\<lambda>_.
     sbind (slift (normalize_non_empty ''worker_id'' worker_id)) (\<lambda>worker.
     sbind lock_queue (\<lambda>_ q.
       case bt_get (wq_leases q) tid of
         None \<Rightarrow> (Inl (not_queued tid), q)
       | Some lease \<Rightarrow>
           (case finish_error tid worker (wl_state lease) of
              Some err \<Rightarrow> (Inl err, q)
            | None \<Rightarrow>
                (let lease' = lease\<lparr>wl_state := next_state\<rparr>
                 in (Inr lease', q\<lparr>wq_leases := bt_insert tid lease' (wq_leases q)\<rparr>))))))"

definition queue_complete :: "task_id \<Rightarrow> string \<Rightarrow> worker_lease queue_op" where
  "queue_complete tid worker_id = queue_finish_leased tid worker_id LeaseCompleted"

definition queue_fail :: "task_id \<Rightarrow> string \<Rightarrow> string \<Rightarrow> worker_lease queue_op" where
  "queue_fail tid worker_id reason =
     sbind (slift (normalize_non_empty ''reason'' reason)) (\<lambda>r.
       queue_finish_leased tid worker_id (LeaseFailed r))"

definition queue_snapshot :: "worker_queue \<Rightarrow> worker_lease list result" where
  "queue_snapshot q = (if wq_poisoned q then Inl queue_poisoned else Inr (map snd (wq_leases q)))"

section \<open>The file backed team store\<close>

record file_team_state =
  fs_tasks :: "team_task_record list"
  fs_leases :: "worker_lease list"
  fs_artifacts :: "team_artifact_record list"
  fs_audit_exports :: "team_audit_export_record list"

text \<open>
  \<open>lt_disk\<close> is the content of the state file, \<open>lt_writes\<close> the artifact files written. The world
  answers: the error of a persist with the content it leaves on the disk, the error of an
  artifact write, \<open>fs::canonicalize\<close> and SHA-256, each at a count of the world's calls.
\<close>

record team_store =
  lt_policy :: organization_policy
  lt_path :: path
  lt_state :: file_team_state
  lt_disk :: "file_team_state option"
  lt_writes :: "(path \<times> string) list"
  lt_tick :: nat

record team_io =
  ti_persist :: "nat \<Rightarrow> (taskfence_error \<times> file_team_state option) option"
  ti_write :: "nat \<Rightarrow> path \<Rightarrow> taskfence_error option"
  ti_canonicalize :: "nat \<Rightarrow> path \<Rightarrow> canonical"
  ti_sha256_hex :: "string \<Rightarrow> string"

type_synonym 'a team_op = "team_store \<Rightarrow> 'a result \<times> team_store"

definition empty_team_state :: file_team_state where
  "empty_team_state = \<lparr>fs_tasks = [], fs_leases = [], fs_artifacts = [], fs_audit_exports = []\<rparr>"

text \<open>\<open>open\<close>: \<open>file\<close> is the state file, if it is one, read and parsed.\<close>

definition team_open ::
  "organization_policy \<Rightarrow> path \<Rightarrow> (taskfence_error + file_team_state) option \<Rightarrow> team_store result" where
  "team_open policy p file =
     rbind (validate_team_state_file_path p) (\<lambda>_.
     rbind (case file of Some r \<Rightarrow> r | None \<Rightarrow> Inr empty_team_state) (\<lambda>st.
       Inr \<lparr>lt_policy = policy, lt_path = p, lt_state = st,
            lt_disk = (case file of Some (Inr st') \<Rightarrow> Some st' | _ \<Rightarrow> None), lt_writes = [],
            lt_tick = 0\<rparr>))"

definition persist :: "team_io \<Rightarrow> unit team_op" where
  "persist io s =
     (case ti_persist io (lt_tick s) of
        Some (err, disk) \<Rightarrow> (Inl err, s\<lparr>lt_disk := disk, lt_tick := lt_tick s + 1\<rparr>)
      | None \<Rightarrow> (Inr (), s\<lparr>lt_disk := Some (lt_state s), lt_tick := lt_tick s + 1\<rparr>))"

definition update_state :: "(file_team_state \<Rightarrow> file_team_state) \<Rightarrow> unit team_op" where
  "update_state f s = (Inr (), s\<lparr>lt_state := f (lt_state s)\<rparr>)"

definition team_put_task :: "team_io \<Rightarrow> team_task_record \<Rightarrow> unit team_op" where
  "team_put_task io record =
     sbind (slift (validate_team_task_record record)) (\<lambda>_ s.
       if tt_organization record \<noteq> op_organization (lt_policy s)
       then (Inl (StateErr ''team task organization does not match policy''), s)
       else
         sbind (update_state (\<lambda>st. st\<lparr>fs_tasks :=
             sort_key tt_task_id
               (filter (\<lambda>t. \<not> (tt_organization t = tt_organization record \<and> tt_task_id t = tt_task_id record))
                  (fs_tasks st) @ [record])\<rparr>))
           (\<lambda>_. persist io) s)"

definition team_get_task :: "string \<Rightarrow> task_id \<Rightarrow> team_task_record option team_op" where
  "team_get_task organization tid =
     sbind (slift (validate_task_id_component tid)) (\<lambda>_ s.
       (Inr (find (\<lambda>t. tt_organization t = organization \<and> tt_task_id t = tid)
          (fs_tasks (lt_state s))), s))"

definition team_list_tasks :: "string \<Rightarrow> team_task_record list team_op" where
  "team_list_tasks organization =
     sbind (slift (normalize_non_empty ''organization'' organization)) (\<lambda>org s.
       (Inr (sort_key tt_task_id (filter (\<lambda>t. tt_organization t = org) (fs_tasks (lt_state s)))), s))"

definition team_enqueue_task :: "team_io \<Rightarrow> string \<Rightarrow> task_id \<Rightarrow> worker_lease team_op" where
  "team_enqueue_task io organization tid =
     sbind (slift (validate_task_id_component tid)) (\<lambda>_.
     sbind (slift (normalize_non_empty ''organization'' organization)) (\<lambda>org s.
       if list_ex (\<lambda>lease. wl_task_id lease = tid) (fs_leases (lt_state s))
       then (Inl (already_queued tid), s)
       else
         (let lease = \<lparr>wl_task_id = tid, wl_organization = org, wl_state = LeasePending\<rparr>
          in sbind (update_state (\<lambda>st. st\<lparr>fs_leases := fs_leases st @ [lease]\<rparr>)) (\<lambda>_.
             sbind (persist io) (\<lambda>_.
               sreturn lease)) s)))"

definition team_lease_next :: "team_io \<Rightarrow> string \<Rightarrow> string \<Rightarrow> worker_lease option team_op" where
  "team_lease_next io organization worker_id =
     sbind (slift (normalize_non_empty ''organization'' organization)) (\<lambda>org.
     sbind (slift (normalize_non_empty ''worker_id'' worker_id)) (\<lambda>worker s.
       case find (leasable org) (fs_leases (lt_state s)) of
         None \<Rightarrow> (Inr None, s)
       | Some lease \<Rightarrow>
           sbind (update_state (\<lambda>st. st\<lparr>fs_leases :=
               update_first (leasable org) (\<lambda>l. l\<lparr>wl_state := Leased worker\<rparr>) (fs_leases st)\<rparr>)) (\<lambda>_.
           sbind (persist io) (\<lambda>_.
             sreturn (Some (lease\<lparr>wl_state := Leased worker\<rparr>)))) s))"

definition team_finish_lease ::
  "team_io \<Rightarrow> string \<Rightarrow> task_id \<Rightarrow> string \<Rightarrow> worker_lease_state \<Rightarrow> worker_lease team_op" where
  "team_finish_lease io organization tid worker_id next_state =
     sbind (slift (normalize_non_empty ''organization'' organization)) (\<lambda>org.
     sbind (slift (validate_task_id_component tid)) (\<lambda>_.
     sbind (slift (normalize_non_empty ''worker_id'' worker_id)) (\<lambda>worker s.
       let mine = (\<lambda>lease. wl_organization lease = org \<and> wl_task_id lease = tid)
       in case find mine (fs_leases (lt_state s)) of
            None \<Rightarrow> (Inl (not_queued tid), s)
          | Some lease \<Rightarrow>
              (case finish_error tid worker (wl_state lease) of
                 Some err \<Rightarrow> (Inl err, s)
               | None \<Rightarrow>
                   sbind (update_state (\<lambda>st. st\<lparr>fs_leases :=
                       update_first mine (\<lambda>l. l\<lparr>wl_state := next_state\<rparr>) (fs_leases st)\<rparr>)) (\<lambda>_.
                   sbind (persist io) (\<lambda>_.
                     sreturn (lease\<lparr>wl_state := next_state\<rparr>))) s))))"

definition team_complete_task :: "team_io \<Rightarrow> string \<Rightarrow> task_id \<Rightarrow> string \<Rightarrow> worker_lease team_op" where
  "team_complete_task io organization tid worker_id =
     team_finish_lease io organization tid worker_id LeaseCompleted"

definition team_fail_task ::
  "team_io \<Rightarrow> string \<Rightarrow> task_id \<Rightarrow> string \<Rightarrow> string \<Rightarrow> worker_lease team_op" where
  "team_fail_task io organization tid worker_id reason =
     sbind (slift (normalize_non_empty ''reason'' reason)) (\<lambda>r.
       team_finish_lease io organization tid worker_id (LeaseFailed r))"

definition team_write_artifact ::
  "team_io \<Rightarrow> string \<Rightarrow> task_id \<Rightarrow> path \<Rightarrow> string \<Rightarrow> team_artifact_record team_op" where
  "team_write_artifact io organization tid p bytes =
     sbind (slift (validate_task_id_component tid)) (\<lambda>_ s.
       if organization \<noteq> op_organization (lt_policy s)
       then (Inl (StateErr ''artifact organization does not match policy''), s)
       else case evaluate_artifact_storage_path (ti_canonicalize io (lt_tick s)) (lt_policy s) p of
              ArtifactDeny reason \<Rightarrow> (Inl (StateErr reason), s)
            | ArtifactAllow _ \<Rightarrow>
                (case ti_write io (lt_tick s) p of
                   Some err \<Rightarrow> (Inl err, s)
                 | None \<Rightarrow>
                     (let record = \<lparr>tar_organization = organization, tar_task_id = tid, tar_path = p,
                            tar_size_bytes = word_of_nat (length bytes),
                            tar_sha256 = ti_sha256_hex io bytes\<rparr>
                      in sbind (update_state (\<lambda>st. st\<lparr>fs_artifacts := fs_artifacts st @ [record]\<rparr>)) (\<lambda>_.
                         sbind (persist io) (\<lambda>_.
                           sreturn record))
                         (s\<lparr>lt_writes := lt_writes s @ [(p, bytes)]\<rparr>))))"

definition export_request :: "string \<Rightarrow> string \<Rightarrow> team_api_request" where
  "export_request org actor =
     \<lparr>rq_organization = org, rq_actor = actor, rq_method = ExportAudit, rq_resource = AuditExport\<rparr>"

text \<open>The common part of the three export operations: \<open>status\<close> is computed after the access check.\<close>

definition team_record_export ::
  "team_io \<Rightarrow> string \<Rightarrow> audit_export_sink_config \<Rightarrow> string \<Rightarrow> team_audit_export_status result \<Rightarrow>
   team_audit_export_record team_op" where
  "team_record_export io organization sink requested_by status =
     sbind (slift (normalize_non_empty ''organization'' organization)) (\<lambda>org.
     sbind (slift (normalize_non_empty ''requested_by'' requested_by)) (\<lambda>actor s.
       case evaluate_team_access (lt_policy s) (export_request org actor) of
         AccessDeny reason \<Rightarrow> (Inl (StateErr reason), s)
       | AccessAllow _ _ \<Rightarrow>
           sbind (slift status) (\<lambda>st.
             let record = \<lparr>tae_organization = org, tae_sink = sink, tae_requested_by = actor,
                   tae_status = st\<rparr>
             in sbind (update_state (\<lambda>fs. fs\<lparr>fs_audit_exports := fs_audit_exports fs @ [record]\<rparr>)) (\<lambda>_.
                sbind (persist io) (\<lambda>_.
                  sreturn record))) s))"

definition team_plan_audit_export ::
  "team_io \<Rightarrow> string \<Rightarrow> audit_export_sink_config \<Rightarrow> string \<Rightarrow> team_audit_export_record team_op" where
  "team_plan_audit_export io organization sink requested_by =
     team_record_export io organization sink requested_by (Inr Planned)"

definition team_complete_audit_export ::
  "team_io \<Rightarrow> string \<Rightarrow> audit_export_sink_config \<Rightarrow> string \<Rightarrow> path \<Rightarrow>
   team_audit_export_record team_op" where
  "team_complete_audit_export io organization sink requested_by artifact =
     team_record_export io organization sink requested_by
       (rbind (validate_completed_export_artifact artifact) (\<lambda>_. Inr (ExportCompleted artifact)))"

definition team_fail_audit_export ::
  "team_io \<Rightarrow> string \<Rightarrow> audit_export_sink_config \<Rightarrow> string \<Rightarrow> string \<Rightarrow>
   team_audit_export_record team_op" where
  "team_fail_audit_export io organization sink requested_by reason =
     team_record_export io organization sink requested_by
       (rbind (sanitize_export_failure_reason reason) (\<lambda>r. Inr (ExportFailed r)))"

section \<open>Evidence files\<close>

text \<open>
  A line of \<open>events.jsonl\<close> is the result of reading it; \<open>parse\<close> is serde's parser of an audit
  event.
\<close>

fun audit_event_task_id :: "audit_event \<Rightarrow> task_id" where
  "audit_event_task_id (TaskCreated tid _ _) = tid"
| "audit_event_task_id (TaskStatusChanged tid _ _) = tid"
| "audit_event_task_id (PolicyDecision tid _ _ _) = tid"
| "audit_event_task_id (ToolExecutionStarted tid _ _) = tid"
| "audit_event_task_id (ToolExecutionFinished tid _ _) = tid"
| "audit_event_task_id (BudgetUsageRecorded tid _ _) = tid"
| "audit_event_task_id (ApprovalRequested record) = ar_task_id record"
| "audit_event_task_id (ApprovalResolved record) = ar_task_id record"
| "audit_event_task_id (Log tid _) = tid"
| "audit_event_task_id (RunnerExit tid _ _) = tid"
| "audit_event_task_id (Artifact tid _ _ _) = tid"
| "audit_event_task_id (Error tid _ _) = tid"

fun read_events_from ::
  "(string \<Rightarrow> string + audit_event) \<Rightarrow> task_id \<Rightarrow> path \<Rightarrow> nat \<Rightarrow> (string + string) list \<Rightarrow>
   audit_event list result" where
  "read_events_from parse tid p n [] = Inr []"
| "read_events_from parse tid p n (Inl err # ls) =
     Inl (StateErr (''failed to read '' @ p @ '' line '' @ dec_digits n @ '': '' @ err))"
| "read_events_from parse tid p n (Inr line # ls) =
     (if trim line = [] then read_events_from parse tid p (n + 1) ls
      else case parse line of
             Inl err \<Rightarrow>
               Inl (StateErr (''failed to parse '' @ p @ '' line '' @ dec_digits n @ '': '' @ err))
           | Inr event \<Rightarrow>
               if audit_event_task_id event \<noteq> tid
               then Inl (StateErr (p @ '' line '' @ dec_digits n @ '' belongs to task '' @
                      audit_event_task_id event @ '' instead of '' @ tid))
               else rbind (read_events_from parse tid p (n + 1) ls) (\<lambda>events.
                      Inr (event # events)))"

definition read_events_file ::
  "(string \<Rightarrow> string + audit_event) \<Rightarrow> task_id \<Rightarrow> path \<Rightarrow> (string + string) list \<Rightarrow>
   audit_event list result" where
  "read_events_file parse tid p ls = read_events_from parse tid p 1 ls"

text \<open>The latest status and the warnings, with those found so far.\<close>

fun latest_status_from ::
  "(string \<Rightarrow> string + audit_event) \<Rightarrow> task_id \<Rightarrow> nat \<Rightarrow> (string + string) list \<Rightarrow>
   task_status option \<Rightarrow> string list \<Rightarrow> task_status option \<times> string list" where
  "latest_status_from parse tid n [] latest warnings = (latest, warnings)"
| "latest_status_from parse tid n (Inl err # ls) latest warnings =
     latest_status_from parse tid (n + 1) ls latest
       (warnings @ [''failed to read events.jsonl line '' @ dec_digits n @ '': '' @ err])"
| "latest_status_from parse tid n (Inr line # ls) latest warnings =
     (if trim line = [] then latest_status_from parse tid (n + 1) ls latest warnings
      else case parse line of
             Inr (TaskStatusChanged event_tid _ status) \<Rightarrow>
               if event_tid = tid
               then latest_status_from parse tid (n + 1) ls (Some status) warnings
               else latest_status_from parse tid (n + 1) ls latest
                      (warnings @ [''events.jsonl line '' @ dec_digits n @ '' belongs to task '' @ event_tid])
           | Inr _ \<Rightarrow> latest_status_from parse tid (n + 1) ls latest warnings
           | Inl err \<Rightarrow>
               latest_status_from parse tid (n + 1) ls latest
                 (warnings @ [''failed to parse events.jsonl line '' @ dec_digits n @ '': '' @ err]))"

text \<open>The file as it was opened: missing, unreadable, or its lines.\<close>

datatype opened_file = FileMissing | FileError string | FileLines "(string + string) list"

definition read_latest_task_status ::
  "(string \<Rightarrow> string + audit_event) \<Rightarrow> task_id \<Rightarrow> opened_file \<Rightarrow> string list \<Rightarrow>
   task_status option \<times> string list" where
  "read_latest_task_status parse tid file warnings =
     (case file of
        FileMissing \<Rightarrow> (None, warnings)
      | FileError err \<Rightarrow> (None, warnings @ [''failed to read events.jsonl: '' @ err])
      | FileLines ls \<Rightarrow> latest_status_from parse tid 1 ls None warnings)"

section \<open>The service\<close>

text \<open>A backend is a record of its operations on its own state.\<close>

record 'b team_backend =
  be_put_task :: "team_task_record \<Rightarrow> 'b \<Rightarrow> unit result \<times> 'b"
  be_get_task :: "string \<Rightarrow> task_id \<Rightarrow> 'b \<Rightarrow> team_task_record option result \<times> 'b"
  be_list_tasks :: "string \<Rightarrow> 'b \<Rightarrow> team_task_record list result \<times> 'b"
  be_enqueue_task :: "string \<Rightarrow> task_id \<Rightarrow> 'b \<Rightarrow> worker_lease result \<times> 'b"
  be_lease_next :: "string \<Rightarrow> string \<Rightarrow> 'b \<Rightarrow> worker_lease option result \<times> 'b"
  be_complete_task :: "string \<Rightarrow> task_id \<Rightarrow> string \<Rightarrow> 'b \<Rightarrow> worker_lease result \<times> 'b"
  be_fail_task :: "string \<Rightarrow> task_id \<Rightarrow> string \<Rightarrow> string \<Rightarrow> 'b \<Rightarrow> worker_lease result \<times> 'b"
  be_write_artifact ::
    "string \<Rightarrow> task_id \<Rightarrow> path \<Rightarrow> string \<Rightarrow> 'b \<Rightarrow> team_artifact_record result \<times> 'b"
  be_plan_audit_export ::
    "string \<Rightarrow> audit_export_sink_config \<Rightarrow> string \<Rightarrow> 'b \<Rightarrow> team_audit_export_record result \<times> 'b"
  be_complete_audit_export ::
    "string \<Rightarrow> audit_export_sink_config \<Rightarrow> string \<Rightarrow> path \<Rightarrow> 'b \<Rightarrow>
     team_audit_export_record result \<times> 'b"
  be_fail_audit_export ::
    "string \<Rightarrow> audit_export_sink_config \<Rightarrow> string \<Rightarrow> string \<Rightarrow> 'b \<Rightarrow>
     team_audit_export_record result \<times> 'b"

definition local_backend :: "team_io \<Rightarrow> team_store team_backend" where
  "local_backend io =
     \<lparr>be_put_task = team_put_task io, be_get_task = team_get_task,
      be_list_tasks = team_list_tasks, be_enqueue_task = team_enqueue_task io,
      be_lease_next = team_lease_next io, be_complete_task = team_complete_task io,
      be_fail_task = team_fail_task io, be_write_artifact = team_write_artifact io,
      be_plan_audit_export = team_plan_audit_export io,
      be_complete_audit_export = team_complete_audit_export io,
      be_fail_audit_export = team_fail_audit_export io\<rparr>"

definition ensure_access ::
  "organization_policy \<Rightarrow> string \<Rightarrow> team_api_method \<Rightarrow> team_api_resource \<Rightarrow> unit result" where
  "ensure_access policy actor m resource =
     (case evaluate_team_access policy \<lparr>rq_organization = op_organization policy,
             rq_actor = actor, rq_method = m, rq_resource = resource\<rparr> of
        AccessAllow _ _ \<Rightarrow> Inr ()
      | AccessDeny reason \<Rightarrow> Inl (StateErr reason))"

definition service_put_task ::
  "organization_policy \<Rightarrow> 'b team_backend \<Rightarrow> string \<Rightarrow> team_task_record \<Rightarrow> 'b \<Rightarrow> unit result \<times> 'b" where
  "service_put_task policy be actor record =
     sbind (slift (ensure_access policy actor EnqueueTask TaskList)) (\<lambda>_. be_put_task be record)"

definition service_list_tasks ::
  "organization_policy \<Rightarrow> 'b team_backend \<Rightarrow> string \<Rightarrow> 'b \<Rightarrow> team_task_record list result \<times> 'b" where
  "service_list_tasks policy be actor =
     sbind (slift (ensure_access policy actor Read TaskList)) (\<lambda>_.
       be_list_tasks be (op_organization policy))"

definition service_get_task ::
  "organization_policy \<Rightarrow> 'b team_backend \<Rightarrow> string \<Rightarrow> task_id \<Rightarrow> 'b \<Rightarrow>
   team_task_record option result \<times> 'b" where
  "service_get_task policy be actor tid =
     sbind (slift (ensure_access policy actor Read (TaskDetail tid))) (\<lambda>_.
       be_get_task be (op_organization policy) tid)"

definition service_enqueue_task ::
  "organization_policy \<Rightarrow> 'b team_backend \<Rightarrow> string \<Rightarrow> task_id \<Rightarrow> 'b \<Rightarrow> worker_lease result \<times> 'b" where
  "service_enqueue_task policy be actor tid =
     sbind (slift (ensure_access policy actor EnqueueTask TaskList)) (\<lambda>_.
       be_enqueue_task be (op_organization policy) tid)"

definition service_lease_next ::
  "organization_policy \<Rightarrow> 'b team_backend \<Rightarrow> string \<Rightarrow> string \<Rightarrow> 'b \<Rightarrow>
   worker_lease option result \<times> 'b" where
  "service_lease_next policy be actor worker_id =
     sbind (slift (ensure_access policy actor EnqueueTask TaskList)) (\<lambda>_.
       be_lease_next be (op_organization policy) worker_id)"

definition service_complete_task ::
  "organization_policy \<Rightarrow> 'b team_backend \<Rightarrow> string \<Rightarrow> task_id \<Rightarrow> string \<Rightarrow> 'b \<Rightarrow>
   worker_lease result \<times> 'b" where
  "service_complete_task policy be actor tid worker_id =
     sbind (slift (ensure_access policy actor EnqueueTask TaskList)) (\<lambda>_.
       be_complete_task be (op_organization policy) tid worker_id)"

definition service_fail_task ::
  "organization_policy \<Rightarrow> 'b team_backend \<Rightarrow> string \<Rightarrow> task_id \<Rightarrow> string \<Rightarrow> string \<Rightarrow> 'b \<Rightarrow>
   worker_lease result \<times> 'b" where
  "service_fail_task policy be actor tid worker_id reason =
     sbind (slift (ensure_access policy actor EnqueueTask TaskList)) (\<lambda>_.
       be_fail_task be (op_organization policy) tid worker_id reason)"

text \<open>\<open>fs\<close> is \<open>fs::canonicalize\<close> at the time of the call.\<close>

definition artifact_access :: "(path \<Rightarrow> canonical) \<Rightarrow> organization_policy \<Rightarrow> path \<Rightarrow> unit result" where
  "artifact_access fs policy p =
     (case evaluate_artifact_storage_path fs policy p of
        ArtifactAllow _ \<Rightarrow> Inr ()
      | ArtifactDeny reason \<Rightarrow> Inl (StateErr reason))"

definition service_write_artifact ::
  "(path \<Rightarrow> canonical) \<Rightarrow> organization_policy \<Rightarrow> 'b team_backend \<Rightarrow> string \<Rightarrow> task_id \<Rightarrow> path \<Rightarrow>
   string \<Rightarrow> 'b \<Rightarrow> team_artifact_record result \<times> 'b" where
  "service_write_artifact fs policy be actor tid p bytes =
     sbind (slift (ensure_access policy actor WriteArtifact (TaskArtifacts tid))) (\<lambda>_.
     sbind (slift (artifact_access fs policy p)) (\<lambda>_.
       be_write_artifact be (op_organization policy) tid p bytes))"

definition service_plan_audit_export ::
  "organization_policy \<Rightarrow> 'b team_backend \<Rightarrow> string \<Rightarrow> audit_export_sink_config \<Rightarrow> 'b \<Rightarrow>
   team_audit_export_record result \<times> 'b" where
  "service_plan_audit_export policy be actor sink =
     sbind (slift (ensure_access policy actor ExportAudit AuditExport)) (\<lambda>_.
       be_plan_audit_export be (op_organization policy) sink actor)"

definition audit_export_artifact_path ::
  "organization_policy \<Rightarrow> task_id \<Rightarrow> audit_export_sink_config \<Rightarrow> path result" where
  "audit_export_artifact_path policy tid sink =
     rbind (validate_task_id_component tid) (\<lambda>_.
     rbind (export_artifact_component (sk_destination_ref sink)) (\<lambda>sink_ref.
       case op_allowed_artifact_roots policy of
         [] \<Rightarrow> Inl (StateErr ''organization has no allowed artifact roots'')
       | root # _ \<Rightarrow>
           Inr (path_join (path_join (path_join root tid) ''audit-export'') (sink_ref @ ''.json''))))"

record team_audit_export_payload =
  tp_organization :: string
  tp_task_id :: task_id
  tp_sink :: audit_export_sink_config
  tp_event_count :: nat
  tp_events :: "audit_event list"

text \<open>
  The files that the export reads and serde: \<open>ei_events\<close> is the content of the events file of an
  evidence directory, or the text of the error of opening it.
\<close>

record export_io =
  ei_events :: "path \<Rightarrow> string + (string + string) list"
  ei_parse :: "string \<Rightarrow> string + audit_event"
  ei_serialize :: "team_audit_export_payload \<Rightarrow> string + string"
  ei_canonicalize :: "path \<Rightarrow> canonical"

definition export_events :: "export_io \<Rightarrow> task_id \<Rightarrow> path \<Rightarrow> audit_event list result" where
  "export_events ei tid evidence_dir =
     (let p = path_join evidence_dir ''events.jsonl''
      in case ei_events ei p of
           Inl err \<Rightarrow> Inl (StateErr err)
         | Inr ls \<Rightarrow> read_events_file (ei_parse ei) tid p ls)"

definition service_export_task_audit ::
  "export_io \<Rightarrow> organization_policy \<Rightarrow> 'b team_backend \<Rightarrow> string \<Rightarrow> task_id \<Rightarrow>
   audit_export_sink_config \<Rightarrow> 'b \<Rightarrow> team_audit_export_record result \<times> 'b" where
  "service_export_task_audit ei policy be actor tid sink =
     sbind (slift (ensure_access policy actor ExportAudit AuditExport)) (\<lambda>_.
     sbind (be_get_task be (op_organization policy) tid) (\<lambda>found.
       case found of
         None \<Rightarrow>
           be_fail_audit_export be (op_organization policy) sink actor
             (''task '' @ tid @ '' is not registered in team state'')
       | Some task \<Rightarrow>
           (case export_events ei tid (tt_evidence_dir task) of
              Inl err \<Rightarrow>
                be_fail_audit_export be (op_organization policy) sink actor (error_display err)
            | Inr events \<Rightarrow>
                (case ei_serialize ei \<lparr>tp_organization = op_organization policy, tp_task_id = tid,
                        tp_sink = sink, tp_event_count = length events, tp_events = events\<rparr> of
                   Inl err \<Rightarrow>
                     sfail (StateErr (''failed to serialize audit export payload: '' @ err))
                 | Inr bytes \<Rightarrow>
                     sbind (slift (audit_export_artifact_path policy tid sink)) (\<lambda>artifact_path.
                     sbind (slift (artifact_access (ei_canonicalize ei) policy artifact_path)) (\<lambda>_.
                     sbind (be_write_artifact be (op_organization policy) tid artifact_path bytes)
                       (\<lambda>artifact.
                       be_complete_audit_export be (op_organization policy) sink actor
                         (tar_path artifact))))))))"

end
