(* ===== verification/Lease_Queue.thy ===== *)
theory Lease_Queue
  imports Team_State
begin

text \<open>
  The contract of a worker queue as a locale, what it guarantees for every interleaving of
  worker requests, and its two implementations: the in-memory queue and the team store.
\<close>

section \<open>Requests and traces\<close>

datatype worker_op =
    Enqueue string task_id
  | LeaseNext string string
  | Complete string task_id string
  | Fail string task_id string string

type_synonym op_result = "worker_lease option result"

fun some_lease :: "worker_lease result \<times> 's \<Rightarrow> op_result \<times> 's" where
  "some_lease (Inl err, s) = (Inl err, s)"
| "some_lease (Inr l, s) = (Inr (Some l), s)"

definition run_ops ::
  "(worker_op \<Rightarrow> 's \<Rightarrow> op_result \<times> 's) \<Rightarrow> worker_op list \<Rightarrow> 's \<Rightarrow>
   (worker_op \<times> op_result) list \<times> 's" where
  "run_ops exec ops s =
     foldl (\<lambda>(trace, s) op. let (r, s') = exec op s in (trace @ [(op, r)], s')) ([], s) ops"

lemma run_ops_simps [simp]:
  "run_ops exec [] s = ([], s)"
  "run_ops exec (ops @ [op]) s =
     (let (trace, s1) = run_ops exec ops s; (r, s2) = exec op s1 in (trace @ [(op, r)], s2))"
  by (auto simp: run_ops_def split: prod.splits)

text \<open>A granted lease: which task, to which worker.\<close>

fun grant_of :: "worker_op \<times> op_result \<Rightarrow> (task_id \<times> string) option" where
  "grant_of (LeaseNext _ worker, Inr (Some l)) = Some (wl_task_id l, trim worker)"
| "grant_of _ = None"

text \<open>A lease that was completed or failed: which task, by which worker.\<close>

fun finish_of :: "worker_op \<times> op_result \<Rightarrow> (task_id \<times> string) option" where
  "finish_of (Complete _ tid worker, Inr _) = Some (tid, trim worker)"
| "finish_of (Fail _ tid worker _, Inr _) = Some (tid, trim worker)"
| "finish_of _ = None"

definition grants :: "(worker_op \<times> op_result) list \<Rightarrow> (task_id \<times> string) list" where
  "grants trace = List.map_filter grant_of trace"

definition finishes :: "(worker_op \<times> op_result) list \<Rightarrow> (task_id \<times> string) list" where
  "finishes trace = List.map_filter finish_of trace"

lemma grants_simps [simp]:
  "grants [] = []"
  "grants (trace @ [e]) = grants trace @ (case grant_of e of None \<Rightarrow> [] | Some g \<Rightarrow> [g])"
  by (auto simp: grants_def List.map_filter_def split: option.splits)

lemma finishes_simps [simp]:
  "finishes [] = []"
  "finishes (trace @ [e]) = finishes trace @ (case finish_of e of None \<Rightarrow> [] | Some f \<Rightarrow> [f])"
  by (auto simp: finishes_def List.map_filter_def split: option.splits)

text \<open>A queue is given by its four operations.\<close>

fun queue_exec ::
  "(string \<Rightarrow> task_id \<Rightarrow> 's \<Rightarrow> worker_lease result \<times> 's) \<Rightarrow>
   (string \<Rightarrow> string \<Rightarrow> 's \<Rightarrow> worker_lease option result \<times> 's) \<Rightarrow>
   (string \<Rightarrow> task_id \<Rightarrow> string \<Rightarrow> 's \<Rightarrow> worker_lease result \<times> 's) \<Rightarrow>
   (string \<Rightarrow> task_id \<Rightarrow> string \<Rightarrow> string \<Rightarrow> 's \<Rightarrow> worker_lease result \<times> 's) \<Rightarrow>
   worker_op \<Rightarrow> 's \<Rightarrow> op_result \<times> 's" where
  "queue_exec enq lease complete fail (Enqueue org tid) s = some_lease (enq org tid s)"
| "queue_exec enq lease complete fail (LeaseNext org worker) s = lease org worker s"
| "queue_exec enq lease complete fail (Complete org tid worker) s =
     some_lease (complete org tid worker s)"
| "queue_exec enq lease complete fail (Fail org tid worker reason) s =
     some_lease (fail org tid worker reason s)"

section \<open>The contract\<close>

text \<open>
  \<open>moved v v' tid st l\<close>: the lease of \<open>tid\<close> went from the state \<open>st\<close> to \<open>l\<close>, nothing else
  changed. \<open>changed\<close> is what an operation owes: its change on success; on an error nothing, or,
  in a queue that is not reliable, the change that was meant.
\<close>

type_synonym lease_view = "task_id \<Rightarrow> worker_lease option"

definition added :: "lease_view \<Rightarrow> lease_view \<Rightarrow> task_id \<Rightarrow> worker_lease \<Rightarrow> bool" where
  "added v v' tid l \<longleftrightarrow> v tid = None \<and> wl_state l = LeasePending \<and> v' = v(tid \<mapsto> l)"

definition moved ::
  "lease_view \<Rightarrow> lease_view \<Rightarrow> task_id \<Rightarrow> worker_lease_state \<Rightarrow> worker_lease \<Rightarrow> bool" where
  "moved v v' tid st l \<longleftrightarrow>
     (\<exists>l0. v tid = Some l0 \<and> wl_state l0 = st \<and> wl_organization l = wl_organization l0 \<and> v' = v(tid \<mapsto> l))"

definition granted :: "string \<Rightarrow> string \<Rightarrow> lease_view \<Rightarrow> lease_view \<Rightarrow> worker_lease \<Rightarrow> bool" where
  "granted org worker v v' l \<longleftrightarrow>
     moved v v' (wl_task_id l) LeasePending l \<and> wl_state l = Leased (trim worker)
     \<and> wl_organization l = trim org"

definition changed ::
  "bool \<Rightarrow> (lease_view \<Rightarrow> lease_view \<Rightarrow> worker_lease \<Rightarrow> bool) \<Rightarrow> lease_view \<Rightarrow> lease_view \<Rightarrow>
   worker_lease result \<Rightarrow> bool" where
  "changed reliable P v v' r =
     (case r of Inr l \<Rightarrow> P v v' l
      | Inl _ \<Rightarrow> v' = v \<or> \<not> reliable \<and> (\<exists>l. P v v' l))"

lemma changedI:
  "P v v' l \<Longrightarrow> r = Inr l \<or> \<not> reliable \<and> (\<exists>err. r = Inl err) \<Longrightarrow> changed reliable P v v' r"
  by (auto simp: changed_def)

text \<open>A list of bookings of one task is the one entry; it may be missing in an unreliable queue.\<close>

definition booked :: "bool \<Rightarrow> 'a list \<Rightarrow> 'a \<Rightarrow> bool" where
  "booked reliable xs e \<longleftrightarrow> xs = [e] \<or> \<not> reliable \<and> xs = []"

definition of_task :: "task_id \<Rightarrow> (task_id \<times> 'b) list \<Rightarrow> (task_id \<times> 'b) list" where
  "of_task tid gs = filter (\<lambda>g. fst g = tid) gs"

lemma of_task_simps [simp]:
  "of_task tid [] = []"
  "of_task tid (gs @ hs) = of_task tid gs @ of_task tid hs"
  "of_task tid [(t, w)] = (if t = tid then [(t, w)] else [])"
  by (auto simp: of_task_def)

definition account ::
  "bool \<Rightarrow> task_id \<Rightarrow> worker_lease option \<Rightarrow> (task_id \<times> string) list \<Rightarrow> (task_id \<times> string) list \<Rightarrow> bool"
where
  "account reliable tid entry gs fs =
     (case map_option wl_state entry of
        None \<Rightarrow> gs = [] \<and> fs = []
      | Some LeasePending \<Rightarrow> gs = [] \<and> fs = []
      | Some (Leased w) \<Rightarrow> booked reliable gs (tid, w) \<and> fs = []
      | _ \<Rightarrow> \<exists>w. booked reliable gs (tid, w) \<and> booked reliable fs (tid, w))"

lemma account_added:
  assumes "added v v' tid l" and "account reliable t (v t) gs fs"
  shows "account reliable t (v' t) gs fs"
  using assms by (auto simp: added_def account_def split: if_splits)

lemma account_granted:
  assumes "granted org worker v v' l" and "account reliable t (v t) gs fs"
    and "es = [(wl_task_id l, trim worker)] \<or> \<not> reliable \<and> es = []"
  shows "account reliable t (v' t) (gs @ (if wl_task_id l = t then es else [])) fs"
proof (cases "wl_task_id l = t")
  case True
  with assms show ?thesis by (auto simp: granted_def moved_def account_def booked_def)
next
  case False
  with assms(1) have "v' t = v t" by (auto simp: granted_def moved_def)
  with False assms(2) show ?thesis by simp
qed

lemma account_finished:
  assumes "moved v v' tid (Leased w) l" and "account reliable t (v t) gs fs"
    and "wl_state l = LeaseCompleted \<or> wl_state l = LeaseFailed reason"
    and "es = [(tid, w)] \<or> \<not> reliable \<and> es = []"
  shows "account reliable t (v' t) gs (fs @ (if tid = t then es else []))"
proof (cases "tid = t")
  case True
  with assms show ?thesis by (auto simp: moved_def account_def booked_def)
next
  case False
  with assms(1) have "v' t = v t" by (auto simp: moved_def)
  with False assms(2) show ?thesis by simp
qed

lemmas account_granted_lost = account_granted [where es = "[]", simplified]
lemmas account_granted_seen = account_granted [where es = "[(wl_task_id l, trim worker)]" and l = l
  and worker = worker for l worker, simplified]
lemmas account_finished_lost = account_finished [where es = "[]", simplified]
lemmas account_finished_seen = account_finished [where es = "[(tid, w)]" and tid = tid and w = w
  for tid w, simplified]

text \<open>
  What a worker queue promises for its trace: no task is granted twice and none is finished
  twice, and only the worker with the grant finishes it. In a reliable queue each finished task
  was granted in the trace.
\<close>

definition exclusive :: "bool \<Rightarrow> (worker_op \<times> op_result) list \<Rightarrow> bool" where
  "exclusive reliable tr \<longleftrightarrow>
     distinct (map fst (grants tr)) \<and> distinct (map fst (finishes tr))
     \<and> list_all (\<lambda>f. list_all (\<lambda>g. fst g = fst f \<longrightarrow> g = f) (grants tr)) (finishes tr)
     \<and> (reliable \<longrightarrow> list_all (\<lambda>f. f \<in> set (grants tr)) (finishes tr))"

lemma of_task_mem: "g \<in> set gs \<Longrightarrow> g \<in> set (of_task (fst g) gs)"
  by (simp add: of_task_def)

lemma distinct_of_task:
  "(\<And>tid. length (of_task tid gs) \<le> 1) \<Longrightarrow> distinct (map fst gs)"
proof (induction gs)
  case (Cons g gs)
  have "of_task (fst g) gs = []"
    using Cons.prems [of "fst g"] by (simp add: of_task_def)
  then have "fst g \<notin> fst ` set gs" by (auto simp: of_task_def filter_empty_conv)
  moreover have "length (of_task tid gs) \<le> 1" for tid
    using Cons.prems [of tid] by (auto simp: of_task_def split: if_splits)
  ultimately show ?case using Cons.IH by simp
qed simp

lemma account_lists:
  assumes "account reliable tid entry gs fs"
  shows "length gs \<le> 1" and "length fs \<le> 1"
    and "f \<in> set fs \<Longrightarrow> booked reliable gs f"
  using assms
  by (auto simp: account_def booked_def split: option.splits worker_lease_state.splits)

locale lease_queue =
  fixes enqueue :: "string \<Rightarrow> task_id \<Rightarrow> 's \<Rightarrow> worker_lease result \<times> 's"
    and lease_next :: "string \<Rightarrow> string \<Rightarrow> 's \<Rightarrow> worker_lease option result \<times> 's"
    and complete :: "string \<Rightarrow> task_id \<Rightarrow> string \<Rightarrow> 's \<Rightarrow> worker_lease result \<times> 's"
    and fail :: "string \<Rightarrow> task_id \<Rightarrow> string \<Rightarrow> string \<Rightarrow> 's \<Rightarrow> worker_lease result \<times> 's"
    and view :: "'s \<Rightarrow> lease_view"
    and ok :: "'s \<Rightarrow> bool"
    and reliable :: bool
  assumes enqueue_law: "ok s \<Longrightarrow> enqueue org tid s = (r, s') \<Longrightarrow>
      ok s' \<and> changed reliable (\<lambda>v v'. added v v' tid) (view s) (view s') r"
    and lease_law: "ok s \<Longrightarrow> lease_next org worker s = (o_r, s') \<Longrightarrow>
      ok s' \<and> (case o_r of
          Inr None \<Rightarrow> view s' = view s \<and> (\<forall>tid l. view s tid = Some l \<longrightarrow> \<not> leasable (trim org) l)
        | Inr (Some l) \<Rightarrow> changed reliable (granted org worker) (view s) (view s') (Inr l)
        | Inl err \<Rightarrow> changed reliable (granted org worker) (view s) (view s') (Inl err))"
    and complete_law: "ok s \<Longrightarrow> complete org tid worker s = (r, s') \<Longrightarrow>
      ok s' \<and> changed reliable (\<lambda>v v' l. moved v v' tid (Leased (trim worker)) l \<and> wl_state l = LeaseCompleted)
        (view s) (view s') r"
    and fail_law: "ok s \<Longrightarrow> fail org tid worker reason s = (r, s') \<Longrightarrow>
      ok s' \<and> changed reliable
        (\<lambda>v v' l. moved v v' tid (Leased (trim worker)) l \<and> wl_state l = LeaseFailed (trim reason))
        (view s) (view s') r"
begin

text \<open>What a trace owes to the state it ends in.\<close>

definition accounts :: "(worker_op \<times> op_result) list \<Rightarrow> 's \<Rightarrow> bool" where
  "accounts tr s \<longleftrightarrow> ok s \<and>
     (\<forall>tid. account reliable tid (view s tid) (of_task tid (grants tr)) (of_task tid (finishes tr)))"

lemma accounts_step:
  assumes acc: "accounts tr s"
    and ex: "queue_exec enqueue lease_next complete fail op s = (r, s')"
  shows "accounts (tr @ [(op, r)]) s'"
proof -
  from acc have o: "ok s"
    and a: "account reliable t (view s t) (of_task t (grants tr)) (of_task t (finishes tr))" for t
    by (auto simp: accounts_def)
  show ?thesis
  proof (cases op)
    case (Enqueue org tid)
    with ex obtain r0 where r0: "enqueue org tid s = (r0, s')" "r = fst (some_lease (r0, s'))"
      by (cases "enqueue org tid s"; cases "fst (enqueue org tid s)") auto
    from enqueue_law [OF o r0(1)] have "ok s'" "view s' = view s \<or> (\<exists>l. added (view s) (view s') tid l)"
      by (auto simp: changed_def split: sum.splits)
    with a show ?thesis
      by (auto simp: accounts_def Enqueue intro: account_added)
  next
    case (LeaseNext org worker)
    with ex have r0: "lease_next org worker s = (r, s')" by simp
    show ?thesis
    proof (cases r)
      case (Inl err)
      with lease_law [OF o r0] have "ok s'"
        "view s' = view s \<or> \<not> reliable \<and> (\<exists>l. granted org worker (view s) (view s') l)"
        by (auto simp: changed_def)
      with a show ?thesis
        using account_granted_lost [where v = "view s", OF _ a] by (auto simp: accounts_def LeaseNext Inl)
    next
      case (Inr x)
      with lease_law [OF o r0] a show ?thesis
        using account_granted_seen [where v = "view s", OF _ a]
        by (cases x) (auto simp: accounts_def LeaseNext changed_def split del: if_split)
    qed
  next
    case (Complete org tid worker)
    with ex obtain r0 where r0: "complete org tid worker s = (r0, s')" "r = fst (some_lease (r0, s'))"
      by (cases "complete org tid worker s"; cases "fst (complete org tid worker s)") auto
    from complete_law [OF o r0(1)] a show ?thesis
      using account_finished_seen [where v = "view s", OF _ a] account_finished_lost [where v = "view s", OF _ a]
      by (cases r0) (auto simp: accounts_def Complete r0 changed_def split del: if_split)
  next
    case (Fail org tid worker reason)
    with ex obtain r0 where r0: "fail org tid worker reason s = (r0, s')" "r = fst (some_lease (r0, s'))"
      by (cases "fail org tid worker reason s"; cases "fst (fail org tid worker reason s)") auto
    from fail_law [OF o r0(1)] a show ?thesis
      using account_finished_seen [where v = "view s", OF _ a] account_finished_lost [where v = "view s", OF _ a]
      by (cases r0) (auto simp: accounts_def Fail r0 changed_def split del: if_split)
  qed
qed

theorem accounts_run:
  assumes "ok s" and "view s = Map.empty"
    and "run_ops (queue_exec enqueue lease_next complete fail) ops s = (tr, s')"
  shows "accounts tr s'"
  using assms(3)
proof (induction ops arbitrary: tr s' rule: rev_induct)
  case Nil
  with assms(1,2) show ?case by (auto simp: accounts_def account_def)
next
  case (snoc op ops)
  obtain tr1 s1 where r1: "run_ops (queue_exec enqueue lease_next complete fail) ops s = (tr1, s1)"
    by fastforce
  with snoc.prems show ?case
    by (auto split: prod.splits intro: accounts_step [OF snoc.IH [OF r1]])
qed

theorem run_exclusive:
  assumes "ok s" and "view s = Map.empty"
  shows "exclusive reliable (fst (run_ops (queue_exec enqueue lease_next complete fail) ops s))"
proof -
  obtain tr s' where r: "run_ops (queue_exec enqueue lease_next complete fail) ops s = (tr, s')"
    by fastforce
  have a: "account reliable tid (view s' tid) (of_task tid (grants tr)) (of_task tid (finishes tr))"
    for tid using accounts_run [OF assms r] by (simp add: accounts_def)
  have b: "booked reliable (of_task (fst f) (grants tr)) f" if "f \<in> set (finishes tr)" for f
    using account_lists(3) [OF a of_task_mem [OF that]] .
  have "g = f" if "f \<in> set (finishes tr)" "g \<in> set (grants tr)" "fst g = fst f" for f g
    using b [OF that(1)] of_task_mem [OF that(2)] that(3) by (auto simp: booked_def)
  moreover have "f \<in> set (grants tr)" if "f \<in> set (finishes tr)" "reliable" for f
  proof -
    from b [OF that(1)] that(2) have "f \<in> set (of_task (fst f) (grants tr))" by (simp add: booked_def)
    then show ?thesis by (simp add: of_task_def)
  qed
  ultimately show ?thesis
    using distinct_of_task [OF account_lists(1) [OF a]] distinct_of_task [OF account_lists(2) [OF a]]
    by (auto simp: exclusive_def r list_all_iff)
qed

end

section \<open>The in-memory queue\<close>

definition queue_ok :: "worker_queue \<Rightarrow> bool" where
  "queue_ok q \<longleftrightarrow> bt_ok (wq_leases q) \<and> list_all (\<lambda>(k, l). k = wl_task_id l) (wq_leases q)"

definition queue_view :: "worker_queue \<Rightarrow> lease_view" where
  "queue_view q = bt_get (wq_leases q)"

lemma queue_ok_key: "queue_ok q \<Longrightarrow> queue_view q tid = Some l \<Longrightarrow> wl_task_id l = tid"
  by (auto simp: queue_ok_def queue_view_def list_all_iff bt.entries_iff [symmetric])

lemma queue_ok_put:
  assumes "queue_ok q" and "wl_task_id l = tid"
  shows "queue_ok (q\<lparr>wq_leases := bt_insert tid l (wq_leases q)\<rparr>)"
    and "queue_view (q\<lparr>wq_leases := bt_insert tid l (wq_leases q)\<rparr>) = (queue_view q)(tid \<mapsto> l)"
  using assms bt.insert_entries [of "wq_leases q" tid l]
  by (auto simp: queue_ok_def queue_view_def bt.ok_insert bt.get_insert list_all_iff fun_eq_iff
      split: if_splits)

lemma normalized: "normalize_non_empty f v = Inr w \<Longrightarrow> w = trim v"
  by (auto simp: normalize_non_empty_def Let_def split: if_splits)

lemma finish_error_None: "finish_error tid w st = None \<longleftrightarrow> st = Leased w"
  by (cases st) (auto simp: finish_error_def)

lemmas op_simps = sbind_def stry_def sfail_def sreturn_def slift_def

definition memory_exec :: "worker_op \<Rightarrow> worker_queue \<Rightarrow> op_result \<times> worker_queue" where
  "memory_exec =
     queue_exec queue_enqueue queue_lease_next (\<lambda>_. queue_complete) (\<lambda>_. queue_fail)"

lemma queue_finish_law:
  assumes "queue_ok q" and "queue_finish_leased tid worker st q = (r, q')"
  shows "queue_ok q' \<and> changed True
    (\<lambda>v v' l. moved v v' tid (Leased (trim worker)) l \<and> wl_state l = st) (queue_view q) (queue_view q') r"
  using assms
  by (auto simp: queue_finish_leased_def op_simps lock_queue_def changed_def moved_def
      finish_error_None Let_def queue_view_def [symmetric] queue_ok_put queue_ok_key
      split: sum.splits option.splits if_splits prod.splits dest!: normalized)

lemma leasableD: "leasable org l \<Longrightarrow> wl_organization l = org \<and> wl_state l = LeasePending"
  by (simp add: leasable_def)

lemma queue_find:
  assumes "queue_ok q"
  shows "find (\<lambda>(_, l). p l) (wq_leases q) = Some (tid, l) \<Longrightarrow>
      queue_view q tid = Some l \<and> p l \<and> wl_task_id l = tid"
    and "find (\<lambda>(_, l). p l) (wq_leases q) = None \<Longrightarrow> queue_view q tid = Some l \<Longrightarrow> \<not> p l"
  using assms
  by (auto simp: queue_ok_def queue_view_def list_all_iff bt.entries_iff [symmetric] find_None_iff_all
      dest: find_SomeD)

interpretation memory: lease_queue queue_enqueue queue_lease_next "\<lambda>_. queue_complete"
  "\<lambda>_. queue_fail" queue_view queue_ok True
proof (standard, goal_cases)
  case (1 s org tid r s')
  then show ?case
    by (auto simp: queue_enqueue_def op_simps lock_queue_def changed_def added_def Let_def
        queue_view_def [symmetric] queue_ok_put split: sum.splits option.splits if_splits prod.splits)
next
  case (2 s org worker o_r s')
  note found = queue_find [OF 2(1), of "leasable (trim org)"]
  from 2 show ?case
    by (auto simp: queue_lease_next_def op_simps lock_queue_def changed_def granted_def moved_def
      Let_def queue_ok_put leasableD split: sum.splits option.splits if_splits prod.splits
      dest!: normalized dest: found queue_find(2) [where p = "leasable (trim org)"])
next
  case (3 s org tid worker r s')
  then show ?case by (auto simp: queue_complete_def dest: queue_finish_law)
next
  case (4 s org tid worker reason r s')
  then show ?case
    by (auto simp: queue_fail_def op_simps changed_def split: sum.splits prod.splits
      dest!: normalized dest: queue_finish_law)
qed

section \<open>The file backed team store\<close>

definition team_ok :: "team_store \<Rightarrow> bool" where
  "team_ok s \<longleftrightarrow> distinct (map wl_task_id (fs_leases (lt_state s)))"

definition team_view :: "team_store \<Rightarrow> lease_view" where
  "team_view s tid = find (\<lambda>l. wl_task_id l = tid) (fs_leases (lt_state s))"

definition persist_reliable :: "team_io \<Rightarrow> bool" where
  "persist_reliable io \<longleftrightarrow> ti_persist io = (\<lambda>_. None)"

definition team_exec :: "team_io \<Rightarrow> worker_op \<Rightarrow> team_store \<Rightarrow> op_result \<times> team_store" where
  "team_exec io =
     queue_exec (team_enqueue_task io) (team_lease_next io) (team_complete_task io) (team_fail_task io)"

lemma find_update_first:
  assumes "distinct (map k xs)" and "find p xs = Some x" and "\<And>y. k (f y) = k y"
  shows "find (\<lambda>y. k y = t) (update_first p f xs) =
    (if t = k x then Some (f x) else find (\<lambda>y. k y = t) xs)"
  using assms(1,2)
proof (induction xs)
  case (Cons y ys)
  from Cons.prems have "x \<in> set ys" if "\<not> p y" using that by (auto dest: find_SomeD)
  with Cons show ?case by (auto simp: assms(3))
qed simp

lemma find_append: "find p (xs @ ys) = (case find p xs of None \<Rightarrow> find p ys | Some x \<Rightarrow> Some x)"
  by (induction xs) auto

text \<open>The state of the store after the write of a changed lease: the lease and the others.\<close>

lemma team_update:
  assumes "team_ok s" and "find p (fs_leases (lt_state s)) = Some l"
    and "lt_state s' = (lt_state s)\<lparr>fs_leases :=
      update_first p (\<lambda>l. l\<lparr>wl_state := st\<rparr>) (fs_leases (lt_state s))\<rparr>"
  shows "team_ok s'" and "team_view s' = (team_view s)(wl_task_id l \<mapsto> l\<lparr>wl_state := st\<rparr>)"
proof -
  show "team_ok s'" using assms(1,3) by (simp add: team_ok_def map_update_first)
  show "team_view s' = (team_view s)(wl_task_id l \<mapsto> l\<lparr>wl_state := st\<rparr>)"
    using assms by (auto simp: team_ok_def team_view_def fun_eq_iff find_update_first)
qed

lemma team_append:
  assumes "team_ok s" and "team_view s (wl_task_id l) = None"
    and "lt_state s' = (lt_state s)\<lparr>fs_leases := fs_leases (lt_state s) @ [l]\<rparr>"
  shows "team_ok s'" and "team_view s' = (team_view s)(wl_task_id l \<mapsto> l)"
proof -
  have new: "wl_task_id l \<notin> wl_task_id ` set (fs_leases (lt_state s))"
    using assms(2) by (auto simp: team_view_def find_None_iff_all)
  with assms(1,3) show "team_ok s'" by (simp add: team_ok_def)
  show "team_view s' = (team_view s)(wl_task_id l \<mapsto> l)"
    using assms by (auto simp: team_view_def fun_eq_iff find_append split: option.splits)
qed

lemma team_find:
  assumes "team_ok s" and "find p (fs_leases (lt_state s)) = Some l"
  shows "team_view s (wl_task_id l) = Some l" and "p l"
proof -
  from find_SomeD [OF assms(2)] have l: "l \<in> set (fs_leases (lt_state s))" "p l" by auto
  then show "p l" by simp
  have "find (\<lambda>y. wl_task_id y = wl_task_id l) xs = Some l"
    if "distinct (map wl_task_id xs)" "l \<in> set xs" for xs
    using that by (induction xs) force+
  with l(1) assms(1) show "team_view s (wl_task_id l) = Some l"
    by (simp add: team_view_def team_ok_def)
qed

lemma team_find_none:
  "find p (fs_leases (lt_state s)) = None \<Longrightarrow> team_view s tid = Some l \<Longrightarrow> \<not> p l"
  by (auto simp: team_view_def find_None_iff_all dest: find_SomeD)

lemma persist_state:
  assumes "persist io s = (r, s')"
  shows "lt_state s' = lt_state s" and "persist_reliable io \<Longrightarrow> r = Inr ()"
  using assms by (auto simp: persist_def persist_reliable_def split: option.splits)

text \<open>A write that persists and then returns \<open>x\<close>: the change happens, the error is persist's.\<close>

lemma team_write:
  assumes "sbind (update_state f) (\<lambda>_. sbind (persist io) (\<lambda>_. sreturn x)) s = (r, s')"
  shows "lt_state s' = f (lt_state s)" and "r = Inr x \<or> \<not> persist_reliable io \<and> (\<exists>err. r = Inl err)"
proof -
  obtain r0 where p: "persist io (s\<lparr>lt_state := f (lt_state s)\<rparr>) = (r0, s')"
    and r: "r = (case r0 of Inl err \<Rightarrow> Inl err | Inr _ \<Rightarrow> Inr x)"
    using assms by (cases "persist io (s\<lparr>lt_state := f (lt_state s)\<rparr>)")
      (auto simp: update_state_def op_simps split: sum.splits)
  from persist_state [OF p] r show "lt_state s' = f (lt_state s)"
    and "r = Inr x \<or> \<not> persist_reliable io \<and> (\<exists>err. r = Inl err)"
    by (auto split: sum.splits)
qed


lemma team_finish_law:
  assumes ok: "team_ok s" and run: "team_finish_lease io org tid worker st s = (r, s')"
  shows "team_ok s' \<and> changed (persist_reliable io)
    (\<lambda>v v' l. moved v v' tid (Leased (trim worker)) l \<and> wl_state l = st) (team_view s) (team_view s') r"
proof (cases "\<exists>o' w l. normalize_non_empty ''organization'' org = Inr o'
    \<and> validate_task_id_component tid = Inr () \<and> normalize_non_empty ''worker_id'' worker = Inr w
    \<and> find (\<lambda>l. wl_organization l = o' \<and> wl_task_id l = tid) (fs_leases (lt_state s)) = Some l
    \<and> finish_error tid w (wl_state l) = None")
  case False
  with run have "s' = s \<and> (\<exists>err. r = Inl err)"
    by (auto simp: team_finish_lease_def op_simps Let_def
        split: sum.splits option.splits prod.splits)
  with ok show ?thesis by (auto simp: changed_def)
next
  case True
  then obtain o' l where v: "normalize_non_empty ''organization'' org = Inr o'"
    "validate_task_id_component tid = Inr ()"
    "normalize_non_empty ''worker_id'' worker = Inr (trim worker)"
    "finish_error tid (trim worker) (wl_state l) = None"
    and f: "find (\<lambda>l. wl_organization l = o' \<and> wl_task_id l = tid) (fs_leases (lt_state s)) = Some l"
    using normalized by blast
  from run v f have "sbind (update_state (\<lambda>fs. fs\<lparr>fs_leases := update_first
      (\<lambda>l. wl_organization l = o' \<and> wl_task_id l = tid) (\<lambda>l. l\<lparr>wl_state := st\<rparr>) (fs_leases fs)\<rparr>))
      (\<lambda>_. sbind (persist io) (\<lambda>_. sreturn (l\<lparr>wl_state := st\<rparr>))) s = (r, s')"
    unfolding team_finish_lease_def
    by (simp add: sbind_def [of "slift _"] stry_def [of "slift _"] slift_def Let_def)
  note w = team_write [OF this]
  from team_update [OF ok f w(1)] team_find [OF ok f] w(2) v(4) show ?thesis
    by (auto simp: moved_def finish_error_None intro!: changedI [where l = "l\<lparr>wl_state := st\<rparr>"])
qed

interpretation team: lease_queue "team_enqueue_task io" "team_lease_next io" "team_complete_task io"
  "team_fail_task io" team_view team_ok "persist_reliable io" for io
proof (standard, goal_cases)
  case (1 s org tid r s')
  show ?case
  proof (cases "\<exists>o'. validate_task_id_component tid = Inr () \<and> normalize_non_empty ''organization'' org = Inr o'
      \<and> \<not> list_ex (\<lambda>l. wl_task_id l = tid) (fs_leases (lt_state s))")
    case False
    with 1 have "s' = s \<and> (\<exists>err. r = Inl err)"
      by (auto simp: team_enqueue_task_def op_simps split: sum.splits prod.splits)
    with 1 show ?thesis by (auto simp: changed_def)
  next
    case True
    then obtain o' where v: "validate_task_id_component tid = Inr ()"
      "normalize_non_empty ''organization'' org = Inr o'"
      and n: "\<not> list_ex (\<lambda>l. wl_task_id l = tid) (fs_leases (lt_state s))" by auto
    let ?l = "\<lparr>wl_task_id = tid, wl_organization = o', wl_state = LeasePending\<rparr>"
    from 1 v n have "sbind (update_state (\<lambda>fs. fs\<lparr>fs_leases := fs_leases fs @ [?l]\<rparr>))
        (\<lambda>_. sbind (persist io) (\<lambda>_. sreturn ?l)) s = (r, s')"
      unfolding team_enqueue_task_def
      by (simp add: sbind_def [of "slift _"] stry_def [of "slift _"] slift_def Let_def)
    note w = team_write [OF this]
    have none: "team_view s (wl_task_id ?l) = None"
      using n by (auto simp: team_view_def find_None_iff_all list_ex_iff)
    from team_append [OF 1(1) none w(1)] none w(2) show ?thesis
      by (auto simp: added_def intro: changedI [where l = ?l])
  qed
next
  case (2 s org worker o_r s')
  show ?case
  proof (cases "\<exists>o' w l. normalize_non_empty ''organization'' org = Inr o'
      \<and> normalize_non_empty ''worker_id'' worker = Inr w
      \<and> find (leasable o') (fs_leases (lt_state s)) = Some l")
    case False
    with 2 have "s' = s \<and> ((\<exists>err. o_r = Inl err) \<or>
        o_r = Inr None \<and> find (leasable (trim org)) (fs_leases (lt_state s)) = None)"
      by (auto simp: team_lease_next_def op_simps split: sum.splits option.splits prod.splits dest: normalized)
    with 2 show ?thesis by (auto simp: changed_def dest: team_find_none)
  next
    case True
    then obtain l where v: "normalize_non_empty ''organization'' org = Inr (trim org)"
      "normalize_non_empty ''worker_id'' worker = Inr (trim worker)"
      and f: "find (leasable (trim org)) (fs_leases (lt_state s)) = Some l"
      using normalized by blast
    from 2 v f have "sbind (update_state (\<lambda>fs. fs\<lparr>fs_leases := update_first (leasable (trim org))
        (\<lambda>l. l\<lparr>wl_state := Leased (trim worker)\<rparr>) (fs_leases fs)\<rparr>))
        (\<lambda>_. sbind (persist io) (\<lambda>_. sreturn (Some (l\<lparr>wl_state := Leased (trim worker)\<rparr>)))) s = (o_r, s')"
      unfolding team_lease_next_def
      by (simp add: sbind_def [of "slift _"] stry_def [of "slift _"] slift_def)
    note w = team_write [OF this]
    have g: "granted org worker (team_view s) (team_view s') (l\<lparr>wl_state := Leased (trim worker)\<rparr>)"
      using team_update(2) [OF 2(1) f w(1)] team_find [OF 2(1) f] leasableD
      by (auto simp: granted_def moved_def)
    with team_update(1) [OF 2(1) f w(1)] w(2) show ?thesis by (auto simp: changed_def)
  qed
next
  case (3 s org tid worker r s')
  then show ?case by (auto simp: team_complete_task_def dest: team_finish_law)
next
  case (4 s org tid worker reason r s')
  then show ?case
    by (auto simp: team_fail_task_def op_simps changed_def split: sum.splits prod.splits
      dest!: normalized dest: team_finish_law)
qed

section \<open>Properties\<close>

definition empty_queue :: worker_queue where
  "empty_queue = \<lparr>wq_leases = [], wq_poisoned = False\<rparr>"

text \<open>
  Whatever the workers and clients of the in-memory queue request in whatever order, no task
  is leased twice, none is completed or failed twice, and a task is finished only by the worker
  that it was leased to before.
\<close>

theorem memory_queue_exclusive:
  "exclusive True (fst (run_ops memory_exec ops empty_queue))"
proof -
  have "queue_ok empty_queue" "queue_view empty_queue = Map.empty"
    by (auto simp: empty_queue_def queue_ok_def queue_view_def bt_ok_def bt_get_def)
  then show ?thesis unfolding memory_exec_def by (rule memory.run_exclusive)
qed

text \<open>
  C27: The same holds for one process with the file backed team store: in every sequence of
  requests to a store without leases, no task is leased or finished twice and never by two
  workers, even when writes of the state file fail. When no write fails, each finished task was
  leased in the trace by the worker that finished it.
\<close>

theorem team_store_exclusive:
  assumes "fs_leases (lt_state s) = []"
  shows "exclusive (persist_reliable io) (fst (run_ops (team_exec io) ops s))"
proof -
  from assms have "team_ok s" "team_view s = Map.empty"
    by (auto simp: team_ok_def team_view_def)
  then show ?thesis unfolding team_exec_def by (rule team.run_exclusive)
qed

definition sample_policy :: organization_policy where
  "sample_policy = \<lparr>op_organization = ''acme'',
     op_grants = [\<lparr>rg_actor = ''operator'', rg_role = Operator\<rparr>, \<lparr>rg_actor = ''viewer'', rg_role = Viewer\<rparr>],
     op_require_approval_owner = True, op_allowed_artifact_roots = [''/srv/artifacts'']\<rparr>"

definition sample_io :: "(taskfence_error \<times> file_team_state option) option \<Rightarrow> team_io" where
  "sample_io failure = \<lparr>ti_persist = \<lambda>_. failure, ti_write = \<lambda>_ _. None,
     ti_canonicalize = \<lambda>_ p. CanonicalPath p, ti_sha256_hex = \<lambda>_. ''0''\<rparr>"

definition sample_store :: "worker_lease list \<Rightarrow> team_store" where
  "sample_store leases = \<lparr>lt_policy = sample_policy, lt_path = ''/srv/state.json'',
     lt_state = empty_team_state\<lparr>fs_leases := leases\<rparr>,
     lt_disk = Some (empty_team_state\<lparr>fs_leases := leases\<rparr>), lt_writes = [], lt_tick = 0\<rparr>"

definition pending_lease :: "task_id \<Rightarrow> worker_lease" where
  "pending_lease tid = \<lparr>wl_task_id = tid, wl_organization = ''acme'', wl_state = LeasePending\<rparr>"

theorem team_store_exclusive_witness:
  "exclusive (persist_reliable (sample_io None)) (fst (run_ops (team_exec (sample_io None))
     [Enqueue ''acme'' ''t'', LeaseNext ''acme'' ''w'', Complete ''acme'' ''t'' ''w''] (sample_store [])))"
  by (rule team_store_exclusive) (simp add: sample_store_def empty_team_state_def)

text \<open>A lease of a store: the writes are the update of the state and the persist.\<close>

lemma team_lease_next_run:
  assumes "normalize_non_empty ''organization'' org = Inr org'"
    and "normalize_non_empty ''worker_id'' worker = Inr w"
    and "find (leasable org') (fs_leases (lt_state s)) = Some l"
  shows "team_lease_next io org worker s =
    sbind (update_state (\<lambda>st. st\<lparr>fs_leases :=
        update_first (leasable org') (\<lambda>l. l\<lparr>wl_state := Leased w\<rparr>) (fs_leases st)\<rparr>))
      (\<lambda>_. sbind (persist io) (\<lambda>_. sreturn (Some (l\<lparr>wl_state := Leased w\<rparr>)))) s"
  using assms unfolding team_lease_next_def
  by (simp add: sbind_def [of "slift _"] stry_def [of "slift _"] slift_def)

text \<open>
  When the write of the state file fails, \<open>lease_next\<close> returns the error but leaves the lease
  granted in memory: the task stays leased to a worker that was told it got nothing, and no
  worker of this process is offered the task again.
\<close>

theorem failed_persist_keeps_lease:
  assumes "team_ok s" and "normalize_non_empty ''organization'' org = Inr org'"
    and "normalize_non_empty ''worker_id'' worker = Inr w"
    and "find (leasable org') (fs_leases (lt_state s)) = Some l"
    and "ti_persist io (lt_tick s) = Some (err, disk)"
  shows "fst (team_lease_next io org worker s) = Inl err
    \<and> team_view (snd (team_lease_next io org worker s)) (wl_task_id l) =
      Some (l\<lparr>wl_state := Leased w\<rparr>)"
proof
  note run = team_lease_next_run [OF assms(2-4), of io]
  show "fst (team_lease_next io org worker s) = Inl err"
    using assms(5) by (simp add: run op_simps update_state_def persist_def)
  obtain r s' where s': "team_lease_next io org worker s = (r, s')" by fastforce
  from team_update(2) [OF assms(1,4) team_write(1) [OF s' [unfolded run]]] s'
  show "team_view (snd (team_lease_next io org worker s)) (wl_task_id l) =
      Some (l\<lparr>wl_state := Leased w\<rparr>)" by simp
qed

definition disk_full :: "(taskfence_error \<times> file_team_state option) option" where
  "disk_full = Some (StateErr ''no space'', None)"

theorem failed_persist_keeps_lease_witness:
  "fst (team_lease_next (sample_io disk_full) ''acme'' ''w'' (sample_store [pending_lease ''t''])) =
     Inl (StateErr ''no space'')
   \<and> team_view (snd (team_lease_next (sample_io disk_full) ''acme'' ''w'' (sample_store [pending_lease ''t''])))
       (wl_task_id (pending_lease ''t'')) = Some ((pending_lease ''t'')\<lparr>wl_state := Leased ''w''\<rparr>)"
proof -
  note th = failed_persist_keeps_lease [of "sample_store [pending_lease ''t'']" "''acme''" "''acme''" "''w''" "''w''"
      "pending_lease ''t''" "sample_io disk_full" "StateErr ''no space''" None]
  show ?thesis
    by (rule th)
      (simp_all add: team_ok_def sample_store_def leasable_def pending_lease_def sample_io_def disk_full_def
        normalize_non_empty_def, code_simp+)
qed



end
