(* ===== verification/Team_Access.thy ===== *)
theory Team_Access
  imports Lease_Queue
begin

text \<open>
  Who may do what to team state: roles and approval resolution, the service in front of any
  backend, where artifacts are written, and what survives a restart of the file backed store.
\<close>

section \<open>Roles\<close>

definition actor_role :: "organization_policy \<Rightarrow> string \<Rightarrow> team_role option" where
  "actor_role policy actor =
     map_option rg_role (find (\<lambda>g. rg_actor g = actor) (op_grants policy))"

text \<open>The roles that can pass for a method.\<close>

fun method_roles :: "team_api_method \<Rightarrow> team_role list" where
  "method_roles Read = [Viewer, Approver, Operator, Auditor, Admin]"
| "method_roles ResolveApproval = [Approver, Operator, Admin]"
| "method_roles EnqueueTask = [Operator, Admin]"
| "method_roles WriteArtifact = [Operator, Admin]"
| "method_roles ExportAudit = [Auditor, Admin]"

lemma role_allows_method: "role_allows role m r \<Longrightarrow> role \<in> set (method_roles m)"
  by (cases role; cases m) (auto split: team_api_method.splits)

lemma access_allowed:
  "evaluate_team_access policy rq = AccessAllow role reason \<Longrightarrow>
   rq_organization rq = op_organization policy \<and> actor_role policy (rq_actor rq) = Some role
   \<and> method_matches_resource (rq_method rq) (rq_resource rq)
   \<and> role_allows role (rq_method rq) (rq_resource rq)"
  by (auto simp: evaluate_team_access_def actor_role_def Let_def split: if_splits option.splits)

text \<open>What the resolution of an approval needs.\<close>

definition may_resolve ::
  "organization_policy \<Rightarrow> team_api_request \<Rightarrow> approval_record \<Rightarrow> team_role \<Rightarrow> bool" where
  "may_resolve policy rq record role \<longleftrightarrow>
     rq_organization rq = op_organization policy \<and> actor_role policy (rq_actor rq) = Some role
     \<and> role \<in> set [Approver, Operator, Admin] \<and> rq_resource rq = ApprovalDetail (ar_id record)
     \<and> ar_decision record = None
     \<and> (\<not> op_require_approval_owner policy \<or> rq_actor rq = ar_actor record)"

text \<open>
  C29: An approval is resolved through the team API only by an actor whose first grant in the
  policy's own organization is approver, operator or admin, in a request for exactly that
  approval, while it is undecided, and, where the policy requires it, by its owner. Everybody
  else is denied, and every such request is allowed.
\<close>

theorem approval_resolution_allowed_iff:
  "(\<exists>role reason. evaluate_approval_resolution policy rq record = AccessAllow role reason) \<longleftrightarrow>
   rq_method rq = ResolveApproval \<and> (\<exists>role. may_resolve policy rq record role)"
proof
  assume "\<exists>role reason. evaluate_approval_resolution policy rq record = AccessAllow role reason"
  then obtain role reason where e: "evaluate_approval_resolution policy rq record = AccessAllow role reason"
    by blast
  then have a: "evaluate_team_access policy rq = AccessAllow role reason" "rq_method rq = ResolveApproval"
    and "rq_resource rq = ApprovalDetail (ar_id record)" "ar_decision record = None"
      "\<not> op_require_approval_owner policy \<or> rq_actor rq = ar_actor record"
    by (auto simp: evaluate_approval_resolution_def Let_def split: if_splits team_access_decision.splits)
  then show "rq_method rq = ResolveApproval \<and> (\<exists>role. may_resolve policy rq record role)"
    using access_allowed [OF a(1)] role_allows_method [of role ResolveApproval]
    by (auto simp: may_resolve_def)
next
  assume "rq_method rq = ResolveApproval \<and> (\<exists>role. may_resolve policy rq record role)"
  then obtain role where m: "rq_method rq = ResolveApproval" and r: "may_resolve policy rq record role"
    by blast
  have "role_allows role ResolveApproval (ApprovalDetail (ar_id record))"
    using r by (auto simp: may_resolve_def)
  with m r have "evaluate_team_access policy rq = AccessAllow role ''role permits resource action''"
    by (auto simp: may_resolve_def evaluate_team_access_def actor_role_def Let_def)
  with m r show "\<exists>role reason. evaluate_approval_resolution policy rq record = AccessAllow role reason"
    by (auto simp: may_resolve_def evaluate_approval_resolution_def)
qed

section \<open>The service\<close>

datatype service_request =
    PutTask team_task_record
  | ListTasks
  | GetTask task_id
  | EnqueueReq task_id
  | LeaseReq string
  | CompleteReq task_id string
  | FailReq task_id string string
  | WriteReq task_id path string
  | PlanExport audit_export_sink_config
  | ExportTask task_id audit_export_sink_config

fun request_method :: "service_request \<Rightarrow> team_api_method" where
  "request_method ListTasks = Read"
| "request_method (GetTask _) = Read"
| "request_method (WriteReq _ _ _) = WriteArtifact"
| "request_method (PlanExport _) = ExportAudit"
| "request_method (ExportTask _ _) = ExportAudit"
| "request_method _ = EnqueueTask"

definition forget :: "'a result \<times> 'b \<Rightarrow> unit result \<times> 'b" where
  "forget rb = (case fst rb of Inl err \<Rightarrow> Inl err | Inr _ \<Rightarrow> Inr (), snd rb)"

fun service_exec ::
  "export_io \<Rightarrow> organization_policy \<Rightarrow> 'b team_backend \<Rightarrow> string \<Rightarrow> service_request \<Rightarrow> 'b \<Rightarrow>
   unit result \<times> 'b" where
  "service_exec ei policy be actor (PutTask record) b = forget (service_put_task policy be actor record b)"
| "service_exec ei policy be actor ListTasks b = forget (service_list_tasks policy be actor b)"
| "service_exec ei policy be actor (GetTask tid) b = forget (service_get_task policy be actor tid b)"
| "service_exec ei policy be actor (EnqueueReq tid) b = forget (service_enqueue_task policy be actor tid b)"
| "service_exec ei policy be actor (LeaseReq w) b = forget (service_lease_next policy be actor w b)"
| "service_exec ei policy be actor (CompleteReq tid w) b =
     forget (service_complete_task policy be actor tid w b)"
| "service_exec ei policy be actor (FailReq tid w reason) b =
     forget (service_fail_task policy be actor tid w reason b)"
| "service_exec ei policy be actor (WriteReq tid p bytes) b =
     forget (service_write_artifact (ei_canonicalize ei) policy be actor tid p bytes b)"
| "service_exec ei policy be actor (PlanExport sink) b =
     forget (service_plan_audit_export policy be actor sink b)"
| "service_exec ei policy be actor (ExportTask tid sink) b =
     forget (service_export_task_audit ei policy be actor tid sink b)"

lemma ensure_access_ok:
  "ensure_access policy actor m r = Inr u \<Longrightarrow>
   \<exists>role. actor_role policy actor = Some role \<and> role \<in> set (method_roles m)"
  by (auto simp: ensure_access_def split: team_access_decision.splits
      dest!: access_allowed dest: role_allows_method)

text \<open>An operation guarded by a failed check does nothing.\<close>

lemma guarded_noop: "g = Inl err \<Longrightarrow> forget (sbind (slift g) f b) = (Inl err, b)"
  by (simp add: forget_def op_simps)

lemmas service_defs = service_put_task_def service_list_tasks_def service_get_task_def
  service_enqueue_task_def service_lease_next_def service_complete_task_def service_fail_task_def
  service_write_artifact_def service_plan_audit_export_def service_export_task_audit_def

lemma service_effect:
  assumes "service_exec ei policy be actor request b = (r, b')" and "is_ok r \<or> b' \<noteq> b"
  shows "\<exists>role. actor_role policy actor = Some role \<and> role \<in> set (method_roles (request_method request))"
proof -
  have "\<exists>res u. ensure_access policy actor (request_method request) res = Inr u"
  proof (rule ccontr)
    assume "\<not> ?thesis"
    then have "\<exists>err. ensure_access policy actor (request_method request) res = Inl err" for res
      by (cases "ensure_access policy actor (request_method request) res") auto
    then obtain err where "ensure_access policy actor (request_method request) res = Inl (err res)" for res
      by metis
    then have "service_exec ei policy be actor request b = (r, b') \<Longrightarrow> \<not> is_ok r \<and> b' = b"
      by (cases request) (auto simp: service_defs guarded_noop)
    with assms show False by simp
  qed
  then show ?thesis by (auto dest: ensure_access_ok)
qed

text \<open>
  C28: In front of every backend, a service request has an effect (it succeeds, or the state of the
  backend changes) only for an actor whose first grant is a role that its method allows: operator
  or admin to register, queue, lease, finish or write, auditor or admin to export, any role to
  read.
\<close>

theorem service_effect_needs_role:
  assumes "service_exec ei policy be actor request b = (r, b')" and "is_ok r \<or> b' \<noteq> b"
  shows "\<exists>role. actor_role policy actor = Some role \<and> role \<in> set (method_roles (request_method request))"
  using assms by (rule service_effect)

definition sample_export_io :: export_io where
  "sample_export_io = \<lparr>ei_events = \<lambda>_. Inr [], ei_parse = \<lambda>_. Inl ''bad'', ei_serialize = \<lambda>_. Inr ''[]'',
     ei_canonicalize = CanonicalPath\<rparr>"

theorem service_effect_needs_role_witness:
  "\<exists>role. actor_role sample_policy ''operator'' = Some role
     \<and> role \<in> set (method_roles (request_method (EnqueueReq ''t'')))"
proof (rule service_effect_needs_role)
  show "service_exec sample_export_io sample_policy (local_backend (sample_io None)) ''operator''
      (EnqueueReq ''t'') (sample_store []) =
    (Inr (), snd (service_exec sample_export_io sample_policy (local_backend (sample_io None)) ''operator''
      (EnqueueReq ''t'') (sample_store [])))"
    by (rule prod_eqI; code_simp)
qed simp

section \<open>Artifact paths\<close>

text \<open>
  Where the check finds the parent of a path to be: the place that the file system resolves it to
  lies in an allowed root that exists; or the parent cannot be resolved (a directory on the way to it
  may not exist yet) and the path as it is written is below such a root.
\<close>

definition in_root :: "path \<Rightarrow> path \<Rightarrow> path \<Rightarrow> bool" where
  "in_root configured root q \<longleftrightarrow> path_starts_with q root \<or> path_starts_with q configured"

definition resolves_in_root :: "(path \<Rightarrow> canonical) \<Rightarrow> path list \<Rightarrow> path \<Rightarrow> bool" where
  "resolves_in_root fs roots parent \<longleftrightarrow>
     (\<exists>configured \<in> set roots. \<exists>root q. fs configured = CanonicalPath root \<and> fs parent = CanonicalPath q
        \<and> in_root configured root q)"

definition unresolved_below_root :: "(path \<Rightarrow> canonical) \<Rightarrow> path list \<Rightarrow> path \<Rightarrow> bool" where
  "unresolved_below_root fs roots parent \<longleftrightarrow>
     (\<forall>q. fs parent \<noteq> CanonicalPath q)
     \<and> (\<exists>configured \<in> set roots. \<exists>root. fs configured = CanonicalPath root
          \<and> in_root configured root parent)"

lemma canonical_utf8_Inr: "canonical_utf8 fs p = Inr q \<longleftrightarrow> fs p = CanonicalPath q"
  by (auto simp: canonical_utf8_def split: canonical.splits)

lemma path_eq_starts: "path_eq q r \<Longrightarrow> path_starts_with q r"
  by (simp add: path_eq_def path_starts_with_def)

lemma artifact_root_allowed:
  "artifact_root_decision fs requested parent roots = ArtifactAllow root \<Longrightarrow>
   resolves_in_root fs roots parent \<or> unresolved_below_root fs roots parent"
proof (induction fs requested parent roots rule: artifact_root_decision.induct)
  case (2 fs requested parent configured roots)
  from 2(2) obtain u root' q where v: "validate_team_artifact_root configured = Inr u"
    and c: "canonical_utf8 fs configured = Inr root'"
    and p: "(case canonical_utf8 fs parent of Inr q \<Rightarrow> Inr q
      | Inl err \<Rightarrow> if path_starts_with requested configured \<or> path_starts_with requested root'
          then Inr parent else Inl err) = Inr q"
    and d: "(if path_eq q root' \<or> path_starts_with q root' \<or> path_eq q configured \<or> path_starts_with q configured
      then ArtifactAllow root' else artifact_root_decision fs requested parent roots) = ArtifactAllow root"
    by (simp split: sum.splits)
  have q: "fs parent = CanonicalPath q \<or> q = parent \<and> (\<forall>r. fs parent \<noteq> CanonicalPath r)"
    using p by (auto simp: canonical_utf8_def split: canonical.splits if_splits)
  show ?case
  proof (cases "in_root configured root' q")
    case True
    with q c show ?thesis
      by (auto simp: resolves_in_root_def unresolved_below_root_def canonical_utf8_Inr)
  next
    case False
    with d path_eq_starts have rest: "artifact_root_decision fs requested parent roots = ArtifactAllow root"
      by (auto simp: in_root_def split: if_splits)
    from False path_eq_starts 2(1) [OF v c p _ rest]
    have "resolves_in_root fs roots parent \<or> unresolved_below_root fs roots parent"
      by (auto simp: in_root_def)
    then show ?thesis by (auto simp: resolves_in_root_def unresolved_below_root_def)
  qed
qed simp

lemma artifact_path_allowed:
  "evaluate_artifact_storage_path fs policy p = ArtifactAllow root \<Longrightarrow>
   is_absolute p \<and> \<not> contains_parent_dir p \<and> (\<exists>parent. path_parent p = Some parent
     \<and> (resolves_in_root fs (op_allowed_artifact_roots policy) parent
        \<or> unresolved_below_root fs (op_allowed_artifact_roots policy) parent))"
  by (auto simp: evaluate_artifact_storage_path_def dest: artifact_root_allowed
      split: if_splits option.splits)



text \<open>
  A file system with a symbolic link \<open>/srv/artifacts/link\<close> to \<open>/etc\<close>: \<open>canonicalize\<close> fails on
  paths that do not exist.
\<close>

definition link_fs :: "path \<Rightarrow> canonical" where
  "link_fs p =
     (if p = ''/srv/artifacts'' then CanonicalPath ''/srv/artifacts''
      else if p = ''/srv/artifacts/link'' then CanonicalPath ''/etc''
      else CanonicalError ''No such file or directory (os error 2)'')"

text \<open>
  A symbolic link inside an artifact root defeats the check: a file directly in the link's
  target is denied, but a path with a new directory below the link is allowed, because its parent
  cannot be resolved and is compared as it is written. Creating it follows the link.
\<close>

theorem artifact_check_follows_links:
  "evaluate_artifact_storage_path link_fs sample_policy ''/srv/artifacts/link/new/file'' =
     ArtifactAllow ''/srv/artifacts''
   \<and> evaluate_artifact_storage_path link_fs sample_policy ''/srv/artifacts/link/file'' =
     ArtifactDeny ''artifact path is outside allowed organization roots''"
  by (rule conjI; code_simp)

section \<open>Audit exports\<close>

lemma task_id_component_safe: "validate_task_id_component tid = Inr u \<Longrightarrow> safe_component tid"
  by (auto simp: validate_task_id_component_def safe_component_def split: if_splits)

lemma export_byte_no_slash: "CHR ''/'' \<notin> set (export_byte c)"
proof -
  have "\<not> is_alnum CHR ''/''" by code_simp
  then show ?thesis by (auto simp: export_byte_def split: if_splits)
qed

lemma export_component_safe:
  assumes "export_artifact_component ref = Inr out"
  shows "safe_component (out @ ''.json'')"
proof -
  from assms have "CHR ''/'' \<notin> set out" "out \<noteq> []"
    by (auto simp: export_artifact_component_def Let_def export_byte_no_slash split: if_splits)
  then show ?thesis by (cases out) (auto simp: safe_component_def)
qed

text \<open>
  The export of a task's audit trail goes to a file of the directory \<open>audit-export\<close> in the
  directory of that task below the organization's first artifact root, whatever the task id and
  the sink's name are (so exports of different tasks never share a file).
\<close>

theorem export_path_in_task_directory:
  assumes "audit_export_artifact_path policy tid sink = Inr p" and "op_allowed_artifact_roots policy = root # roots"
    and "root \<noteq> []"
  shows "\<exists>name. components p = components root @ [Normal tid, Normal ''audit-export'', Normal name]"
proof -
  from assms(1,2) obtain out where t: "safe_component tid"
    and o: "export_artifact_component (sk_destination_ref sink) = Inr out"
    and p: "p = path_join (path_join (path_join root tid) ''audit-export'') (out @ ''.json'')"
    by (auto simp: audit_export_artifact_path_def rbind_Inr_iff dest: task_id_component_safe)
  have a: "safe_component ''audit-export''" by (simp add: safe_component_def)
  have n: "path_join root tid \<noteq> []" "path_join (path_join root tid) ''audit-export'' \<noteq> []"
    by (simp_all add: t a path_join_safe_nonempty)
  show ?thesis
    using components_join_safe [OF n(2) export_component_safe [OF o]]
      components_join_safe [OF n(1) a] components_join_safe [OF assms(3) t]
    by (auto simp: p)
qed

theorem export_path_in_task_directory_witness:
  "\<exists>name. components ''/srv/artifacts/t/audit-export/siem_main.json'' =
     components ''/srv/artifacts'' @ [Normal ''t'', Normal ''audit-export'', Normal name]"
proof (rule export_path_in_task_directory)
  show "audit_export_artifact_path sample_policy ''t''
      \<lparr>sk_kind = Siem, sk_destination_ref = ''siem/main'', sk_credential_env = ''TOKEN''\<rparr> =
    Inr ''/srv/artifacts/t/audit-export/siem_main.json''" by code_simp
qed (simp_all add: sample_policy_def)

text \<open>Sinks whose names differ only in a special character share a file.\<close>

lemma export_sinks_collide:
  "export_artifact_component ''siem/main'' = export_artifact_component ''siem_main''"
  by code_simp


section \<open>Tasks survive a restart\<close>

definition find_task :: "string \<Rightarrow> task_id \<Rightarrow> file_team_state \<Rightarrow> team_task_record option" where
  "find_task org tid st = find (\<lambda>t. tt_organization t = org \<and> tt_task_id t = tid) (fs_tasks st)"

lemma find_sort_key_tasks:
  "find (\<lambda>t. tt_organization t = org \<and> tt_task_id t = tid) (sort_key tt_task_id (ts :: team_task_record list)) =
   find (\<lambda>t. tt_organization t = org \<and> tt_task_id t = tid) ts"
proof -
  have "filter (\<lambda>t. tt_organization t = org \<and> tt_task_id t = tid) us =
      filter (\<lambda>t. tt_organization t = org) (filter (\<lambda>t. tt_task_id t = tid) us)" for us :: "team_task_record list"
    by (simp add: conj_commute)
  then show ?thesis by (simp only: find_filter_hd sort_key_stable)
qed

lemma find_filter_other:
  "(\<And>x. p x \<Longrightarrow> q x) \<Longrightarrow> find p (filter q xs) = find p xs"
  by (induction xs) auto

lemma put_task_state:
  assumes "team_put_task io record s = (Inr (), s')"
  shows "lt_disk s' = Some (lt_state s')"
    and "find_task org tid (lt_state s') =
      (if org = tt_organization record \<and> tid = tt_task_id record then Some record
       else find_task org tid (lt_state s))"
proof -
  from assms have v: "validate_team_task_record record = Inr ()"
    and o: "tt_organization record = op_organization (lt_policy s)"
    by (auto simp: team_put_task_def op_simps split: sum.splits if_splits)
  from assms have d: "lt_disk s' = Some (lt_state s')"
    and st: "lt_state s' = (lt_state s)\<lparr>fs_tasks := sort_key tt_task_id
      (filter (\<lambda>t. \<not> (tt_organization t = tt_organization record \<and> tt_task_id t = tt_task_id record))
        (fs_tasks (lt_state s)) @ [record])\<rparr>"
    by (auto simp: team_put_task_def op_simps v o update_state_def persist_def split: option.splits)
  show "lt_disk s' = Some (lt_state s')" by (rule d)
  show "find_task org tid (lt_state s') =
      (if org = tt_organization record \<and> tid = tt_task_id record then Some record
       else find_task org tid (lt_state s))"
  proof (cases "org = tt_organization record \<and> tid = tt_task_id record")
    case True
    then have "find (\<lambda>t. tt_organization t = org \<and> tt_task_id t = tid)
        (filter (\<lambda>t. \<not> (tt_organization t = tt_organization record \<and> tt_task_id t = tt_task_id record))
          (fs_tasks (lt_state s))) = None"
      by (auto simp: find_None_iff_all)
    with True show ?thesis by (simp add: find_task_def st find_sort_key_tasks find_append)
  next
    case False
    then have "find (\<lambda>t. tt_organization t = org \<and> tt_task_id t = tid)
        (filter (\<lambda>t. \<not> (tt_organization t = tt_organization record \<and> tt_task_id t = tt_task_id record))
          (fs_tasks (lt_state s))) = find_task org tid (lt_state s)"
      unfolding find_task_def by (intro find_filter_other) auto
    with False show ?thesis
      by (auto simp: find_task_def st find_sort_key_tasks find_append split: option.splits)
  qed
qed

text \<open>
  A task that was registered in the file backed store is found again, as it was registered,
  by a process that opens the state file afterwards; every other task of the file is unchanged.
\<close>

theorem put_task_survives_restart:
  assumes "team_put_task io record s = (Inr (), s')" and "lt_disk s' = Some disk"
    and "team_open policy p (Some (Inr disk)) = Inr s2" and "validate_task_id_component tid = Inr ()"
  shows "fst (team_get_task org tid s2) =
    Inr (if org = tt_organization record \<and> tid = tt_task_id record then Some record
         else find_task org tid (lt_state s))"
proof -
  from assms(2,3) put_task_state(1) [OF assms(1)] have "lt_state s2 = lt_state s'"
    by (auto simp: team_open_def rbind_Inr_iff)
  with put_task_state(2) [OF assms(1), of org tid] assms(4) show ?thesis
    by (simp add: team_get_task_def op_simps find_task_def)
qed

definition sample_task_record :: team_task_record where
  "sample_task_record = \<lparr>tt_organization = ''acme'', tt_task_id = ''t'', tt_status = Some Running,
     tt_goal = None, tt_evidence_dir = ''/srv/evidence/t''\<rparr>"

definition sample_disk :: file_team_state where
  "sample_disk = empty_team_state\<lparr>fs_tasks := [sample_task_record]\<rparr>"

theorem put_task_survives_restart_witness:
  "fst (team_get_task ''acme'' ''t'' ((sample_store [])\<lparr>lt_state := sample_disk, lt_disk := Some sample_disk\<rparr>)) =
     Inr (Some sample_task_record)"
proof -
  have "fst (team_get_task ''acme'' ''t'' ((sample_store [])\<lparr>lt_state := sample_disk, lt_disk := Some sample_disk\<rparr>)) =
    Inr (if ''acme'' = tt_organization sample_task_record \<and> ''t'' = tt_task_id sample_task_record
         then Some sample_task_record else find_task ''acme'' ''t'' (lt_state (sample_store [])))"
  proof (rule put_task_survives_restart)
    show "team_put_task (sample_io None) sample_task_record (sample_store []) =
        (Inr (), (sample_store [])\<lparr>lt_state := sample_disk, lt_disk := Some sample_disk, lt_tick := 1\<rparr>)"
      by code_simp
    show "team_open sample_policy ''/srv/state.json'' (Some (Inr sample_disk)) =
        Inr ((sample_store [])\<lparr>lt_state := sample_disk, lt_disk := Some sample_disk\<rparr>)"
      by code_simp
    show "validate_task_id_component ''t'' = Inr ()" by code_simp
  qed (simp add: sample_store_def)
  then show ?thesis by (simp add: sample_task_record_def)
qed

end
