(* ===== verification/Gateway_Names.thy ===== *)
theory Gateway_Names
  imports Core_Command Policy_Engine
begin

text \<open>
  Names in the tool gateway (\<open>crates/taskfence-gateway/src/lib.rs\<close>): normalisation of tool
  actions, tool keys and the registry, connector identities and policy templates, secret grants,
  references and environment names, and the classification of errors.
\<close>

section \<open>Normalisation\<close>

definition normalize_required_segment :: "string \<Rightarrow> string \<Rightarrow> string result" where
  "normalize_required_segment name value =
     (let normalized = to_lower (trim value)
      in if normalized = [] then Inl (Gateway (''tool action '' @ name @ '' must not be empty''))
         else Inr normalized)"

definition normalize_parameters :: "parameters \<Rightarrow> parameters result" where
  "normalize_parameters ps =
     normalize_keys (Gateway ''tool action parameter names must not be empty'') [] ps"

definition normalize_tool_action :: "tool_action \<Rightarrow> tool_action result" where
  "normalize_tool_action action =
     rbind (normalize_required_segment ''protocol'' (ta_protocol action)) (\<lambda>protocol.
     rbind (normalize_required_segment ''tool'' (ta_tool action)) (\<lambda>tool.
     rbind (normalize_required_segment ''operation'' (ta_operation action)) (\<lambda>operation.
     rbind (normalize_parameters (ta_parameters action)) (\<lambda>parameters.
       Inr \<lparr>ta_protocol = protocol, ta_tool = tool, ta_operation = operation,
            ta_parameters = parameters\<rparr>))))"

section \<open>Tool keys and the registry\<close>

text \<open>The derived \<open>Ord\<close> of \<open>ToolKey\<close> compares the fields in order.\<close>

datatype tool_key = ToolKey (tk_protocol: string) (tk_tool: string) (tk_operation: string)

instantiation tool_key :: linorder
begin

definition less_tool_key :: "tool_key \<Rightarrow> tool_key \<Rightarrow> bool" where
  "less_tool_key a b \<longleftrightarrow>
     tk_protocol a < tk_protocol b
     \<or> tk_protocol a = tk_protocol b \<and>
        (tk_tool a < tk_tool b \<or> tk_tool a = tk_tool b \<and> tk_operation a < tk_operation b)"

definition less_eq_tool_key :: "tool_key \<Rightarrow> tool_key \<Rightarrow> bool" where
  "less_eq_tool_key a b \<longleftrightarrow> a < b \<or> a = b"

instance
  by standard (auto simp: less_tool_key_def less_eq_tool_key_def not_less order.order_iff_strict
      intro: tool_key.expand)

end

definition tool_key_new :: "string \<Rightarrow> string \<Rightarrow> string \<Rightarrow> tool_key result" where
  "tool_key_new protocol tool operation =
     rbind (normalize_required_segment ''protocol'' protocol) (\<lambda>p.
     rbind (normalize_required_segment ''tool'' tool) (\<lambda>t.
     rbind (normalize_required_segment ''operation'' operation) (\<lambda>op.
       Inr (ToolKey p t op))))"

definition tool_key_from_action :: "tool_action \<Rightarrow> tool_key result" where
  "tool_key_from_action action =
     tool_key_new (ta_protocol action) (ta_tool action) (ta_operation action)"

definition tool_key_display :: "tool_key \<Rightarrow> string" where
  "tool_key_display k = tk_protocol k @ '' '' @ tk_tool k @ ''.'' @ tk_operation k"

text \<open>A \<open>BTreeSet\<close> of keys is a map to units.\<close>

type_synonym tool_registry = "(tool_key, unit) btree"

definition registry_new :: "tool_key list \<Rightarrow> tool_registry" where
  "registry_new tools = bt_of_list (map (\<lambda>k. (k, ())) tools)"

definition registry_contains :: "tool_registry \<Rightarrow> tool_action \<Rightarrow> bool result" where
  "registry_contains registry action =
     rbind (tool_key_from_action action) (\<lambda>key. Inr (bt_get registry key \<noteq> None))"

record mcp_tool_request =
  mcp_server :: string
  mcp_tool :: string
  mcp_arguments :: parameters

record http_tool_request =
  http_connector :: string
  http_operation :: string
  http_parameters :: parameters

definition mcp_to_tool_action :: "mcp_tool_request \<Rightarrow> tool_action result" where
  "mcp_to_tool_action request =
     normalize_tool_action
       \<lparr>ta_protocol = ''mcp'', ta_tool = mcp_server request, ta_operation = mcp_tool request,
        ta_parameters = mcp_arguments request\<rparr>"

definition http_to_tool_action :: "http_tool_request \<Rightarrow> tool_action result" where
  "http_to_tool_action request =
     normalize_tool_action
       \<lparr>ta_protocol = ''http'', ta_tool = http_connector request,
        ta_operation = http_operation request, ta_parameters = http_parameters request\<rparr>"

section \<open>Connectors\<close>

fun connector_kind :: "gateway_connector_config \<Rightarrow> string" where
  "connector_kind (LocalFixture _ _) = ''local_fixture''"
| "connector_kind (GitHubRest _ _) = ''github_rest''"
| "connector_kind (GitHubEnterpriseRest _ _) = ''github_enterprise_rest''"
| "connector_kind (GitLab _ _) = ''gitlab''"
| "connector_kind (Jira _ _) = ''jira''"
| "connector_kind (Feishu _ _) = ''feishu''"
| "connector_kind (WeCom _ _) = ''wecom''"
| "connector_kind (DingTalk _ _) = ''dingtalk''"
| "connector_kind (Gitee _ _) = ''gitee''"
| "connector_kind (Coding _ _) = ''coding''"
| "connector_kind (Database _ _) = ''database''"
| "connector_kind (InternalHttp _ _) = ''internal_http''"
| "connector_kind (SiemExport _ _) = ''siem_export''"
| "connector_kind (UnsupportedConnector _) = ''unsupported''"

fun connector_name :: "gateway_connector_config \<Rightarrow> string" where
  "connector_name (LocalFixture kind _) = kind"
| "connector_name (GitHubRest _ _) = ''github''"
| "connector_name (GitHubEnterpriseRest _ _) = ''github''"
| "connector_name (GitLab _ project) = project"
| "connector_name (Jira _ project_key) = project_key"
| "connector_name (Feishu _ app) = app"
| "connector_name (WeCom _ corp_id) = corp_id"
| "connector_name (DingTalk _ tenant) = tenant"
| "connector_name (Gitee _ repository) = repository"
| "connector_name (Coding _ project) = project"
| "connector_name (Database _ database_ref) = database_ref"
| "connector_name (InternalHttp _ service) = service"
| "connector_name (SiemExport _ sink) = sink"
| "connector_name (UnsupportedConnector kind) = kind"

definition connector_identity :: "gateway_connector_config \<Rightarrow> tool_adapter_identity" where
  "connector_identity connector =
     \<lparr>ai_kind = connector_kind connector, ai_name = connector_name connector\<rparr>"

record policy_template =
  ct_connector :: string
  ct_supported_operations :: "string list"
  ct_approval_required_operations :: "string list"
  ct_secret_scopes :: "string list"

definition template ::
  "string \<Rightarrow> string list \<Rightarrow> string list \<Rightarrow> string list \<Rightarrow> policy_template" where
  "template connector supported approval scopes =
     \<lparr>ct_connector = to_lower (trim connector), ct_supported_operations = supported,
      ct_approval_required_operations = approval, ct_secret_scopes = scopes\<rparr>"

definition github_operations :: "string list" where
  "github_operations =
     [''github.read_issue'', ''github.create_branch'', ''github.commit_file'', ''github.create_pr'',
      ''github.update_pr'', ''github.comment_issue'', ''github.comment_report'']"

definition connector_policy_template :: "string \<Rightarrow> policy_template option" where
  "connector_policy_template kind =
     (let k = to_lower (trim kind)
      in if k = ''github_rest'' \<or> k = ''github_enterprise_rest''
         then Some (template kind github_operations (tl github_operations) github_operations)
         else if k = ''gitlab''
         then Some (template ''gitlab''
                [''gitlab.read_issue'', ''gitlab.create_merge_request'', ''gitlab.comment_issue'']
                [''gitlab.create_merge_request'', ''gitlab.comment_issue'']
                [''gitlab.read_issue'', ''gitlab.create_merge_request'', ''gitlab.comment_issue''])
         else if k = ''jira''
         then Some (template ''jira''
                [''jira.read_issue'', ''jira.create_issue'', ''jira.comment_issue'']
                [''jira.create_issue'', ''jira.comment_issue'']
                [''jira.read_issue'', ''jira.create_issue'', ''jira.comment_issue''])
         else if k = ''feishu''
         then Some (template ''feishu'' [''feishu.send_message'', ''feishu.create_doc'']
                [''feishu.send_message'', ''feishu.create_doc'']
                [''feishu.send_message'', ''feishu.create_doc''])
         else if k = ''wecom''
         then Some (template ''wecom'' [''wecom.send_message''] [''wecom.send_message'']
                [''wecom.send_message''])
         else if k = ''dingtalk''
         then Some (template ''dingtalk'' [''dingtalk.send_message''] [''dingtalk.send_message'']
                [''dingtalk.send_message''])
         else if k = ''gitee''
         then Some (template ''gitee'' [''gitee.read_issue'', ''gitee.create_pr'', ''gitee.comment_issue'']
                [''gitee.create_pr'', ''gitee.comment_issue'']
                [''gitee.read_issue'', ''gitee.create_pr'', ''gitee.comment_issue''])
         else if k = ''coding''
         then Some (template ''coding''
                [''coding.read_issue'', ''coding.create_merge_request'', ''coding.comment_issue'']
                [''coding.create_merge_request'', ''coding.comment_issue'']
                [''coding.read_issue'', ''coding.create_merge_request'', ''coding.comment_issue''])
         else if k = ''database''
         then Some (template ''database'' [''database.read'', ''database.write''] [''database.write'']
                [''database.read'', ''database.write''])
         else if k = ''internal_http''
         then Some (template ''internal_http'' [''internal_http.call''] [''internal_http.call'']
                [''internal_http.call''])
         else if k = ''siem_export''
         then Some (template ''siem_export'' [''siem.export_events''] [''siem.export_events'']
                [''siem.export_events''])
         else None)"

definition connector_supports_operation ::
  "gateway_connector_config \<Rightarrow> string \<Rightarrow> string \<Rightarrow> bool" where
  "connector_supports_operation connector tool operation =
     (case connector_policy_template (connector_kind connector) of
        None \<Rightarrow> False
      | Some t \<Rightarrow> tool @ ''.'' @ operation \<in> set (ct_supported_operations t))"

definition connector_operation_supported :: "gateway_connector_config \<Rightarrow> tool_action \<Rightarrow> bool" where
  "connector_operation_supported connector action =
     connector_supports_operation connector (ta_tool action) (ta_operation action)"

fun github_rest_connector_parts :: "gateway_connector_config \<Rightarrow> (string \<times> string) option" where
  "github_rest_connector_parts (GitHubRest api_base repository) = Some (api_base, repository)"
| "github_rest_connector_parts (GitHubEnterpriseRest api_base repository) = Some (api_base, repository)"
| "github_rest_connector_parts _ = None"

section \<open>Secrets\<close>

record secret_reference =
  sref_name :: string
  sref_scope :: string
  sref_handle :: string

record gateway_secret_binding =
  sb_parameter :: string
  sb_reference :: secret_reference

definition as_redacted_value :: "secret_reference \<Rightarrow> redacted_value" where
  "as_redacted_value r = Redacted (''gateway secret reference for '' @ sref_name r)"

definition ensure_secret_grant :: "resolved_task \<Rightarrow> string \<Rightarrow> string \<Rightarrow> unit result" where
  "ensure_secret_grant task name scope =
     (if sc_expose_to_agent (rt_secrets task)
      then Inl (Gateway ''gateway secret references require secrets to stay out of the agent'')
      else if list_ex (\<lambda>g. sg_name g = name \<and> list_ex (\<lambda>allowed. allowed = scope) (sg_use_for g))
                (sc_available_to_gateway (rt_secrets task))
      then Inr ()
      else Inl (Gateway (''secret '' @ name @ '' is not available to gateway scope '' @ scope)))"

definition attach_secret_reference ::
  "tool_action \<Rightarrow> string \<Rightarrow> secret_reference \<Rightarrow> tool_action result" where
  "attach_secret_reference action parameter_name reference =
     rbind (normalize_tool_action action) (\<lambda>action.
       let parameter = trim parameter_name
       in if parameter = []
          then Inl (Gateway ''secret reference parameter name must not be empty'')
          else Inr (action\<lparr>ta_parameters :=
                 bt_insert parameter (as_redacted_value reference) (ta_parameters action)\<rparr>))"

definition env_name_byte :: "char \<Rightarrow> string" where
  "env_name_byte c =
     (if is_alnum c then [upper_char c]
      else if 128 \<le> byte c \<and> byte c < 192 then [] else ''_'')"

definition gateway_secret_env_name :: "string \<Rightarrow> string result" where
  "gateway_secret_env_name name =
     rbind (normalize_required_segment ''secret name'' name) (\<lambda>name.
       Inr (''TASKFENCE_GATEWAY_SECRET_'' @ concat (map env_name_byte name)))"

definition local_issue_reference :: "resolved_task \<Rightarrow> string \<Rightarrow> string \<Rightarrow> secret_reference result" where
  "local_issue_reference task name scope =
     Inr \<lparr>sref_name = name, sref_scope = scope,
          sref_handle = ''taskfence://gateway/'' @ rt_id task @ ''/'' @ name @ ''/'' @ scope\<rparr>"

text \<open>\<open>var\<close> is \<open>std::env::var\<close>: the value, or \<open>None\<close> when it is missing or not UTF-8.\<close>

definition env_issue_reference ::
  "(string \<Rightarrow> string option) \<Rightarrow> resolved_task \<Rightarrow> string \<Rightarrow> string \<Rightarrow> secret_reference result" where
  "env_issue_reference var task name scope =
     rbind (gateway_secret_env_name name) (\<lambda>env_name.
       let missing = Inl (Gateway (''gateway secret '' @ name @ '' for '' @ scope @
             '' is unavailable; set '' @ env_name @ '' for live connector execution''))
       in case var env_name of
            None \<Rightarrow> missing
          | Some value \<Rightarrow>
              if trim value = [] then missing
              else Inr \<lparr>sref_name = name, sref_scope = scope, sref_handle = value\<rparr>)"

section \<open>Errors\<close>

type_synonym 'a exec_result = "tool_execution_error + 'a"

abbreviation exec_error :: "tool_execution_error_kind \<Rightarrow> string \<Rightarrow> tool_execution_error" where
  "exec_error kind message \<equiv> \<lparr>te_kind = kind, te_message = message\<rparr>"

fun execution_error_kind :: "taskfence_error \<Rightarrow> tool_execution_error_kind" where
  "execution_error_kind (UnsupportedErr _) = UnsupportedProtocol"
| "execution_error_kind (Approval _) = ApprovalDeniedOrTimedOut"
| "execution_error_kind (Policy _) = PolicyDenied"
| "execution_error_kind (Gateway inner) =
     (if str_contains ''not registered'' inner then UnregisteredTool
      else if str_contains ''must not be empty'' inner \<or> str_contains ''parameter'' inner
      then InvalidParameters
      else if str_contains ''secret'' inner then SecretUnavailable
      else AdapterFailed)"
| "execution_error_kind _ = AdapterFailed"

definition tool_execution_error_from_taskfence :: "taskfence_error \<Rightarrow> tool_execution_error" where
  "tool_execution_error_from_taskfence err = exec_error (execution_error_kind err) (error_display err)"

definition live_secret_from_bindings ::
  "gateway_secret_binding list \<Rightarrow> string \<Rightarrow> string exec_result" where
  "live_secret_from_bindings secrets connector =
     (let found = (case find (\<lambda>b. sb_parameter b = ''authorization'' \<or> sb_parameter b = ''token'') secrets of
                     Some b \<Rightarrow> Some b
                   | None \<Rightarrow> (case secrets of [] \<Rightarrow> None | b # _ \<Rightarrow> Some b))
      in case found of
           None \<Rightarrow> Inl (exec_error SecretUnavailable
                     (connector @ '' connector requires a gateway-side secret''))
         | Some b \<Rightarrow>
             (let r = sb_reference b
              in if prefix ''taskfence://'' (sref_handle r) \<or> trim (sref_handle r) = []
                 then Inl (exec_error SecretUnavailable
                        (''gateway secret '' @ sref_name r @ '' for '' @ sref_scope r @
                         '' is not backed by a live credential''))
                 else Inr (trim (sref_handle r))))"

section \<open>Facts\<close>

text \<open>A parameter map in normal form: sorted, with trimmed names that are not empty.\<close>

definition normal_parameters :: "parameters \<Rightarrow> bool" where
  "normal_parameters ps \<longleftrightarrow> bt_ok ps \<and> list_all (\<lambda>(k, _). trim k = k \<and> k \<noteq> []) ps"

definition normal_action :: "tool_action \<Rightarrow> bool" where
  "normal_action a \<longleftrightarrow>
     list_all (\<lambda>s. norm_name s = s \<and> s \<noteq> []) [ta_protocol a, ta_tool a, ta_operation a]
     \<and> normal_parameters (ta_parameters a)"

lemma segment_Inr:
  "normalize_required_segment f v = Inr w \<longleftrightarrow> w = norm_name v \<and> w \<noteq> []"
  by (auto simp: normalize_required_segment_def norm_name_def Let_def)

lemma normal_parameters_insert:
  assumes "normal_parameters m" and "trim k = k" and "k \<noteq> []"
  shows "normal_parameters (bt_insert k v m)"
  using assms bt.insert_entries [of m k v]
  by (auto simp: normal_parameters_def bt.ok_insert list_all_iff split: if_splits)

lemma normalize_keys_normal:
  "normalize_keys err acc ps = Inr m \<Longrightarrow> normal_parameters acc \<Longrightarrow> normal_parameters m"
proof (induction err acc ps rule: normalize_keys.induct)
  case (2 err acc key v rest)
  then show ?case by (auto simp: normal_parameters_insert split: if_splits)
qed simp

lemma normalize_keys_same:
  "normal_parameters (acc @ ps) \<Longrightarrow> normalize_keys err acc ps = Inr (acc @ ps)"
proof (induction ps arbitrary: acc)
  case (Cons p ps)
  obtain k v where p: "p = (k, v)" by (cases p)
  from Cons.prems have k: "trim k = k" "k \<noteq> []" and "\<forall>k' \<in> fst ` set acc. k' < k"
    by (auto simp: normal_parameters_def bt_ok_def p sorted_wrt_append)
  then have "bt_insert k v acc = acc @ [(k, v)]" by (simp add: bt_insert_last)
  with Cons.IH [of "acc @ [(k, v)]"] Cons.prems k show ?case by (simp add: p)
qed simp

lemma normalize_tool_action_normal:
  "normalize_tool_action a = Inr b \<Longrightarrow> normal_action b"
  by (auto simp: normalize_tool_action_def rbind_Inr_iff segment_Inr normal_action_def
      normalize_parameters_def normal_parameters_def bt_ok_def
      dest: normalize_keys_normal)

lemma normalize_tool_action_fixed:
  "normal_action a \<Longrightarrow> normalize_tool_action a = Inr a"
  using normalize_keys_same [of "[]"]
  by (auto simp: normalize_tool_action_def rbind_Inr_iff segment_Inr normal_action_def
      normalize_parameters_def)

lemmas normalize_tool_action_idem =
  normalize_tool_action_fixed [OF normalize_tool_action_normal]

lemma normal_action_insert:
  "normal_action a \<Longrightarrow> trim k = k \<Longrightarrow> k \<noteq> [] \<Longrightarrow>
   normal_action (a\<lparr>ta_parameters := bt_insert k v (ta_parameters a)\<rparr>)"
  by (simp add: normal_action_def normal_parameters_insert)

lemma bt_get_of_units: "bt_get (bt_of_list (map (\<lambda>k. (k, ())) ks)) k \<noteq> None \<longleftrightarrow> k \<in> set ks"
proof -
  have "bt_ok m \<Longrightarrow>
    bt_get (foldl (\<lambda>m (k, v). bt_insert k v m) m (map (\<lambda>k. (k, ())) ks)) k \<noteq> None \<longleftrightarrow>
    bt_get m k \<noteq> None \<or> k \<in> set ks" for m
    by (induction ks arbitrary: m) (auto simp: bt.get_insert bt.ok_insert)
  from this [of "[]"] show ?thesis by (simp add: bt_of_list_def bt_get_def bt_ok_def)
qed

text \<open>The registry holds exactly the registered keys.\<close>

lemma registry_contains_iff:
  "registry_contains (registry_new ks) action = Inr True \<longleftrightarrow>
   (\<exists>k. tool_key_from_action action = Inr k \<and> k \<in> set ks)"
  using bt_get_of_units [of ks]
  by (auto simp: registry_contains_def registry_new_def rbind_Inr_iff)

lemma tool_key_of_normal:
  "normal_action a \<Longrightarrow>
   tool_key_from_action a = Inr (ToolKey (ta_protocol a) (ta_tool a) (ta_operation a))"
  by (auto simp: tool_key_from_action_def tool_key_new_def rbind_Inr_iff segment_Inr normal_action_def)

text \<open>Different secrets can share an environment variable.\<close>

lemma secret_env_names_collide:
  "gateway_secret_env_name ''db-prod'' = gateway_secret_env_name ''db.prod''"
  by code_simp

text \<open>
  A grant whose name or scope is not in lower case is never usable: the lookup is made with
  lower-case names.
\<close>

lemma mixed_case_grant_unusable:
  assumes "list_all (\<lambda>g. norm_name (sg_name g) \<noteq> sg_name g) (sc_available_to_gateway (rt_secrets task))"
    and "normalize_required_segment f1 name = Inr n" and "normalize_required_segment f2 scope = Inr sc"
  shows "\<not> is_ok (ensure_secret_grant task n sc)"
  using assms by (auto simp: ensure_secret_grant_def segment_Inr list_all_iff list_ex_iff)

end
