(* ===== verification/Gateway_Checks.thy ===== *)
theory Gateway_Checks
  imports Gateway_Names Redaction
begin

text \<open>
  The parameter checks of the tool gateway (\<open>crates/taskfence-gateway/src/lib.rs\<close>): typed and
  bounded parameters, Git refs, repository paths, connector identifiers, HTTP paths and methods,
  SQL statements, report and egress URLs. All limits are in bytes, as \<open>str::len\<close> is.
\<close>

section \<open>Plain parameters\<close>

abbreviation invalid :: "string \<Rightarrow> 'a exec_result" where
  "invalid message \<equiv> Inl (exec_error InvalidParameters message)"

abbreviation parameter_error :: "string \<Rightarrow> string \<Rightarrow> 'a exec_result" where
  "parameter_error key what \<equiv> invalid (''parameter '' @ key @ what)"

definition plain_required_parameter :: "tool_action \<Rightarrow> string \<Rightarrow> string exec_result" where
  "plain_required_parameter action key =
     (case bt_get (ta_parameters action) key of
        Some (Plain value) \<Rightarrow>
          if trim value \<noteq> [] then Inr (trim value) else parameter_error key '' must not be empty''
      | Some (Redacted _) \<Rightarrow> parameter_error key '' cannot be redacted''
      | None \<Rightarrow> invalid (''missing required parameter '' @ key))"

definition plain_optional_parameter :: "tool_action \<Rightarrow> string \<Rightarrow> string option" where
  "plain_optional_parameter action key =
     (case bt_get (ta_parameters action) key of
        Some (Plain value) \<Rightarrow> if trim value \<noteq> [] then Some (trim value) else None
      | _ \<Rightarrow> None)"

text \<open>\<open>parse::<u64>()\<close> and its like, with the text of \<open>ParseIntError\<close>; \<open>limit\<close> is the first value too large.\<close>

fun parse_unsigned_from :: "nat \<Rightarrow> nat \<Rightarrow> string \<Rightarrow> string + nat" where
  "parse_unsigned_from limit acc [] = Inr acc"
| "parse_unsigned_from limit acc (c # s) =
     (if \<not> is_digit c then Inl ''invalid digit found in string''
      else let n = 10 * acc + (byte c - 48)
           in if limit \<le> n then Inl ''number too large to fit in target type''
              else parse_unsigned_from limit n s)"

definition parse_unsigned :: "nat \<Rightarrow> string \<Rightarrow> string + nat" where
  "parse_unsigned limit s =
     (if s = [] then Inl ''cannot parse integer from empty string''
      else if s = ''+'' \<or> s = ''-'' then Inl ''invalid digit found in string''
      else parse_unsigned_from limit 0 (if hd s = CHR ''+'' then tl s else s))"

definition plain_u64_parameter :: "tool_action \<Rightarrow> string \<Rightarrow> u64 exec_result" where
  "plain_u64_parameter action key =
     rbind (plain_required_parameter action key) (\<lambda>value.
       case parse_unsigned (2 ^ 64) value of
         Inl err \<Rightarrow> parameter_error key ('' must be an integer: '' @ err)
       | Inr n \<Rightarrow> Inr (word_of_nat n))"

definition optional_u32_parameter :: "tool_action \<Rightarrow> string \<Rightarrow> u32 option exec_result" where
  "optional_u32_parameter action key =
     ropt (\<lambda>value. case parse_unsigned (2 ^ 32) value of
             Inl err \<Rightarrow> parameter_error key ('' must be an integer: '' @ err)
           | Inr n \<Rightarrow> Inr (word_of_nat n))
       (plain_optional_parameter action key)"

definition bounded_value :: "string \<Rightarrow> nat \<Rightarrow> string \<Rightarrow> string exec_result" where
  "bounded_value key max_bytes value =
     (if max_bytes < length value
      then parameter_error key ('' exceeds '' @ dec_digits max_bytes @ '' bytes'')
      else Inr value)"

definition bounded_plain_parameter :: "tool_action \<Rightarrow> string \<Rightarrow> nat \<Rightarrow> string exec_result" where
  "bounded_plain_parameter action key max_bytes =
     rbind (plain_required_parameter action key) (bounded_value key max_bytes)"

definition optional_bounded_plain_parameter ::
  "tool_action \<Rightarrow> string \<Rightarrow> nat \<Rightarrow> string option exec_result" where
  "optional_bounded_plain_parameter action key max_bytes =
     ropt (bounded_value key max_bytes) (plain_optional_parameter action key)"

section \<open>Identifiers\<close>

definition name_char :: "char \<Rightarrow> bool" where
  "name_char c \<longleftrightarrow> is_alnum c \<or> c \<in> set ''._-''"

definition validate_safe_git_ref :: "string \<Rightarrow> string \<Rightarrow> string exec_result" where
  "validate_safe_git_ref key value =
     (let value = trim value
      in if value = [] \<or> prefix ''/'' value \<or> suffix ''/'' value \<or> prefix ''-'' value
            \<or> str_contains ''..'' value \<or> CHR ''@'' \<in> set value \<or> CHR 0x5C \<in> set value
            \<or> has_whitespace value
            \<or> list_ex (\<lambda>seg. seg = [] \<or> seg = ''.'' \<or> seg = ''..'') (split_on CHR ''/'' value)
            \<or> \<not> list_all (\<lambda>c. name_char c \<or> c = CHR ''/'') value
         then parameter_error key '' must be a safe Git ref''
         else Inr value)"

definition safe_git_ref_parameter :: "tool_action \<Rightarrow> string \<Rightarrow> string exec_result" where
  "safe_git_ref_parameter action key =
     rbind (plain_required_parameter action key) (validate_safe_git_ref key)"

definition optional_safe_git_ref_parameter :: "tool_action \<Rightarrow> string \<Rightarrow> string option exec_result" where
  "optional_safe_git_ref_parameter action key =
     ropt (validate_safe_git_ref key) (plain_optional_parameter action key)"

definition safe_github_file_path_parameter :: "tool_action \<Rightarrow> string \<Rightarrow> string exec_result" where
  "safe_github_file_path_parameter action key =
     rbind (plain_required_parameter action key) (\<lambda>value.
       if prefix ''/'' value \<or> CHR 0x5C \<in> set value \<or> CHR 0x00 \<in> set value
          \<or> str_contains ''..'' value \<or> has_whitespace value
          \<or> list_ex (\<lambda>seg. seg = [] \<or> seg = ''.'' \<or> seg = ''..'' \<or> has_control seg) (split_on CHR ''/'' value)
          \<or> \<not> list_all (\<lambda>c. name_char c \<or> c = CHR ''/'') value
       then parameter_error key '' must be a safe repository-relative file path''
       else Inr value)"

definition is_hexdigit :: "char \<Rightarrow> bool" where
  "is_hexdigit c \<longleftrightarrow> is_digit c \<or> c \<in> set ''abcdefABCDEF''"

definition optional_safe_sha_parameter :: "tool_action \<Rightarrow> string \<Rightarrow> string option exec_result" where
  "optional_safe_sha_parameter action key =
     ropt (\<lambda>value. if length value < 7 \<or> 64 < length value \<or> \<not> list_all is_hexdigit value
             then parameter_error key '' must be a Git object sha'' else Inr value)
       (plain_optional_parameter action key)"

definition optional_pr_state_parameter :: "tool_action \<Rightarrow> string \<Rightarrow> string option exec_result" where
  "optional_pr_state_parameter action key =
     ropt (\<lambda>value. let normalized = to_lower value
             in if normalized \<in> set [''open'', ''closed''] then Inr normalized
                else parameter_error key '' must be open or closed'')
       (plain_optional_parameter action key)"

definition safe_connector_key_parameter :: "tool_action \<Rightarrow> string \<Rightarrow> string exec_result" where
  "safe_connector_key_parameter action key =
     rbind (plain_required_parameter action key) (\<lambda>value.
       if value = [] \<or> str_contains ''..'' value \<or> CHR ''/'' \<in> set value \<or> CHR 0x5C \<in> set value
          \<or> has_whitespace value \<or> \<not> list_all name_char value
       then parameter_error key '' must be a safe connector identifier''
       else Inr value)"

definition safe_http_path_parameter :: "tool_action \<Rightarrow> string \<Rightarrow> string exec_result" where
  "safe_http_path_parameter action key =
     rbind (plain_required_parameter action key) (\<lambda>untrimmed.
       let value = trim_char CHR ''/'' untrimmed
       in if value = [] \<or> str_contains ''..'' value \<or> CHR 0x5C \<in> set value \<or> CHR ''?'' \<in> set value
             \<or> CHR ''#'' \<in> set value \<or> has_whitespace value
             \<or> list_ex (\<lambda>seg. seg = [] \<or> \<not> list_all name_char seg) (split_on CHR ''/'' value)
          then parameter_error key '' must be a safe relative HTTP path''
          else Inr value)"

definition optional_http_method_parameter :: "tool_action \<Rightarrow> string \<Rightarrow> string option exec_result" where
  "optional_http_method_parameter action key =
     ropt (\<lambda>value. let m = map upper_char value
             in if m \<in> set [''GET'', ''POST'', ''PATCH''] then Inr m
                else parameter_error key '' must be GET, POST, or PATCH'')
       (plain_optional_parameter action key)"

section \<open>SQL statements\<close>

definition mutating_keywords :: "string list" where
  "mutating_keywords =
     ['' insert '', '' update '', '' delete '', '' drop '', '' alter '', '' create '', '' truncate '',
      '' grant '', '' revoke '', '' copy '']"

definition schema_prefixes :: "string list" where
  "schema_prefixes = [''drop '', ''alter '', ''truncate '', ''grant '', ''revoke '', ''copy '']"

definition validate_sql_statement :: "string \<Rightarrow> bool \<Rightarrow> unit exec_result" where
  "validate_sql_statement sql read_only =
     (let trimmed = trim sql; lower = to_lower trimmed
      in if trimmed = [] \<or> CHR 0x00 \<in> set trimmed \<or> str_contains ''--'' trimmed
            \<or> str_contains ''/*'' trimmed \<or> str_contains ''*/'' trimmed
            \<or> (if suffix '';'' trimmed then 1 else 0) < length (filter (\<lambda>c. c = CHR '';'') trimmed)
         then invalid ''database query must be one bounded statement without comments''
         else if read_only
         then if \<not> (prefix ''select '' lower \<or> prefix ''with '' lower)
              then invalid ''database.read supports only SELECT or WITH statements''
              else if list_ex (\<lambda>forbidden. str_contains forbidden lower) mutating_keywords
              then invalid ''database.read query contains a mutating keyword''
              else Inr ()
         else if list_ex (\<lambda>p. prefix p lower) schema_prefixes
         then invalid ''database.write does not allow schema or privilege operations''
         else Inr ())"

section \<open>URLs\<close>

definition secret_url_markers :: "string list" where
  "secret_url_markers =
     [''token='', ''password='', ''secret='', ''api_key='', ''authorization='', ''bearer%20'', ''bearer+'']"

definition secret_like_url :: "string \<Rightarrow> bool" where
  "secret_like_url url = list_ex (\<lambda>marker. str_contains marker (to_lower url)) secret_url_markers"

definition validate_report_url :: "string \<Rightarrow> unit exec_result" where
  "validate_report_url value =
     (let lower = to_lower value
      in if \<not> (prefix ''https://'' lower \<or> prefix ''http://'' lower) \<or> CHR ''@'' \<in> set value
            \<or> CHR ''#'' \<in> set value \<or> has_whitespace value \<or> secret_like_url value
         then invalid ''report_url must be a non-secret http(s) URL without userinfo, fragments, or whitespace''
         else Inr ())"

definition report_comment_body :: "tool_action \<Rightarrow> string exec_result" where
  "report_comment_body action =
     (let title = (case plain_optional_parameter action ''title'' of Some t \<Rightarrow> t | None \<Rightarrow> ''TaskFence report'');
          status = (case plain_optional_parameter action ''status'' of Some t \<Rightarrow> t | None \<Rightarrow> ''unknown'');
          nl = [CHR 0x0A, CHR 0x0A]
      in rbind (optional_bounded_plain_parameter action ''summary'' (16 * 1024)) (\<lambda>summary.
         let summary = (case summary of Some t \<Rightarrow> t | None \<Rightarrow> ''No summary provided.'');
             body = ''## '' @ gateway_redact_secret_like_text title @ nl @ ''Status: `'' @
               gateway_redact_secret_like_text status @ ''`'' @ nl @
               gateway_redact_secret_like_text summary
         in case plain_optional_parameter action ''report_url'' of
              None \<Rightarrow> Inr body
            | Some url \<Rightarrow>
                rbind (validate_report_url url) (\<lambda>_.
                  Inr (body @ nl @ ''Report: '' @ gateway_redact_secret_like_text url))))"

definition gateway_egress_tool_protocol :: string where "gateway_egress_tool_protocol = ''http''"
definition gateway_egress_tool_name :: string where "gateway_egress_tool_name = ''egress''"
definition gateway_egress_tool_operation :: string where "gateway_egress_tool_operation = ''fetch''"

definition is_gateway_egress_action :: "tool_action \<Rightarrow> bool" where
  "is_gateway_egress_action action \<longleftrightarrow>
     ta_protocol action = gateway_egress_tool_protocol \<and> ta_tool action = gateway_egress_tool_name
     \<and> ta_operation action = gateway_egress_tool_operation"

record egress_destination =
  ed_method :: string
  ed_url :: string
  ed_host :: string
  ed_port :: "u16 option"

definition egress_host_error :: "'a exec_result" where
  "egress_host_error = invalid ''gateway egress URL host is invalid''"

definition normalize_egress_host :: "string \<Rightarrow> string exec_result" where
  "normalize_egress_host text =
     (let host = to_lower (trim_end_char CHR ''.'' (trim text))
      in if host = [] \<or> CHR ''/'' \<in> set host \<or> CHR '':'' \<in> set host \<or> CHR ''*'' \<in> set host
            \<or> list_ex (\<lambda>label. label = []) (split_on CHR ''.'' host)
            \<or> \<not> list_all (\<lambda>c. is_alnum c \<or> c = CHR ''.'' \<or> c = CHR ''-'') host
         then egress_host_error
         else Inr host)"

text \<open>The path of an URL without scheme and authority: from the first \<open>/\<close> to the next \<open>?\<close>.\<close>

definition has_parent_url_path :: "string \<Rightarrow> bool" where
  "has_parent_url_path rest =
     (let path = takeWhile (\<lambda>c. c \<noteq> CHR ''?'') (dropWhile (\<lambda>c. c \<noteq> CHR ''/'') rest)
      in list_ex (\<lambda>seg. seg = ''..'' \<or> to_lower seg = ''%2e%2e'') (split_on CHR ''/'' path))"

definition parse_gateway_egress_url :: "string \<Rightarrow> string \<Rightarrow> egress_destination exec_result" where
  "parse_gateway_egress_url m url =
     (let trimmed = trim url
      in if \<not> prefix ''https://'' (to_lower trimmed)
         then invalid ''gateway egress URL must use https''
         else if has_whitespace trimmed \<or> CHR ''@'' \<in> set trimmed \<or> CHR ''#'' \<in> set trimmed
                 \<or> secret_like_url trimmed
         then invalid ''gateway egress URL must not contain userinfo, fragments, whitespace, or secret-like query material''
         else
           let without_scheme = drop 8 trimmed;
               ends = (\<lambda>c. c = CHR ''/'' \<or> c = CHR ''?'');
               authority = takeWhile (\<lambda>c. \<not> ends c) without_scheme;
               rest = dropWhile (\<lambda>c. \<not> ends c) without_scheme
           in if authority = [] \<or> prefix ''['' authority \<or> 1 < length (filter (\<lambda>c. c = CHR '':'') authority)
              then egress_host_error
              else
                rbind (case split_once CHR '':'' authority of
                    Some (host, port) \<Rightarrow>
                      (case parse_unsigned (2 ^ 16) port of
                         Inl err \<Rightarrow> invalid (''gateway egress URL port is invalid: '' @ err)
                       | Inr n \<Rightarrow> Inr (host, Some (word_of_nat n)))
                  | None \<Rightarrow> Inr (authority, None)) (\<lambda>(host, port).
                rbind (normalize_egress_host host) (\<lambda>host.
                  if has_parent_url_path rest
                  then invalid (''gateway egress URL path must not contain '' @ [CHR 0x27] @ ''..'' @ [CHR 0x27])
                  else Inr \<lparr>ed_method = m, ed_url = trimmed, ed_host = host, ed_port = port\<rparr>)))"

definition gateway_egress_destination :: "tool_action \<Rightarrow> egress_destination exec_result" where
  "gateway_egress_destination action =
     (let m = map upper_char (trim (case plain_optional_parameter action ''method'' of
            Some t \<Rightarrow> t | None \<Rightarrow> ''GET''))
      in if m \<notin> set [''GET'', ''HEAD'']
         then invalid ''gateway egress supports only GET and HEAD''
         else rbind (plain_required_parameter action ''url'') (parse_gateway_egress_url m))"

section \<open>What the checks guarantee\<close>

text \<open>
  A text that is safe in the path of an URL: letters, digits, dots, underscores, hyphens and
  slashes, and no two dots in a row, so it has neither a parent segment nor a query, a fragment,
  a percent escape or an authority.
\<close>

definition safe_path_text :: "string \<Rightarrow> bool" where
  "safe_path_text s \<longleftrightarrow> s \<noteq> [] \<and> list_all (\<lambda>c. name_char c \<or> c = CHR ''/'') s \<and> \<not> str_contains ''..'' s"

lemma name_char_plain: "name_char c \<Longrightarrow> c \<notin> set ''/?#%@:''" "name_char c \<Longrightarrow> c \<noteq> CHR 0x5C"
proof -
  have "list_all (\<lambda>c. \<not> name_char c) (CHR 0x5C # ''/?#%@:'')" by code_simp
  then show "name_char c \<Longrightarrow> c \<notin> set ''/?#%@:''" "name_char c \<Longrightarrow> c \<noteq> CHR 0x5C"
    by (auto simp: list_all_iff)
qed

lemma plain_required_nonempty: "plain_required_parameter a k = Inr v \<Longrightarrow> v \<noteq> []"
  by (auto simp: plain_required_parameter_def split: option.splits redacted_value.splits if_splits)

lemma safe_git_ref_safe: "validate_safe_git_ref k v = Inr r \<Longrightarrow> safe_path_text r"
  by (auto simp: validate_safe_git_ref_def safe_path_text_def Let_def split: if_splits)

lemma safe_git_ref_parameter_safe: "safe_git_ref_parameter a k = Inr r \<Longrightarrow> safe_path_text r"
  by (auto simp: safe_git_ref_parameter_def rbind_Inr_iff intro: safe_git_ref_safe)

lemma safe_file_path_safe: "safe_github_file_path_parameter a k = Inr r \<Longrightarrow> safe_path_text r"
  by (auto simp: safe_github_file_path_parameter_def rbind_Inr_iff safe_path_text_def
      dest: plain_required_nonempty split: if_splits)

lemma safe_connector_key_safe: "safe_connector_key_parameter a k = Inr r \<Longrightarrow> safe_path_text r"
  by (auto simp: safe_connector_key_parameter_def rbind_Inr_iff safe_path_text_def list_all_iff
      split: if_splits)

lemma set_split_on: "set s \<subseteq> insert d (\<Union>w \<in> set (split_on d s). set w)"
proof (induction s)
  case (Cons c s)
  then show ?case by (cases "split_on d s") (auto simp: split_on_ne split: if_splits)
qed simp

lemma safe_http_path_safe: "safe_http_path_parameter a k = Inr r \<Longrightarrow> safe_path_text r"
proof -
  assume "safe_http_path_parameter a k = Inr r"
  then have r: "r \<noteq> []" "\<not> str_contains ''..'' r"
    "\<forall>seg \<in> set (split_on CHR ''/'' r). list_all name_char seg"
    by (auto simp: safe_http_path_parameter_def rbind_Inr_iff Let_def list_ex_iff split: if_splits)
  with set_split_on [of r "CHR ''/''"] show "safe_path_text r"
    by (fastforce simp: safe_path_text_def list_all_iff)
qed

lemma bounded_plain_length: "bounded_plain_parameter a k n = Inr v \<Longrightarrow> length v \<le> n \<and> v \<noteq> []"
  by (auto simp: bounded_plain_parameter_def bounded_value_def rbind_Inr_iff
      dest: plain_required_nonempty split: if_splits)

lemma optional_bounded_length: "optional_bounded_plain_parameter a k n = Inr (Some v) \<Longrightarrow> length v \<le> n"
  by (cases "plain_optional_parameter a k")
    (auto simp: optional_bounded_plain_parameter_def bounded_value_def rbind_Inr_iff split: if_splits)

text \<open>Numbers: what is parsed is below the limit, and a printed number is read back.\<close>

lemma parse_unsigned_from_bound:
  "parse_unsigned_from limit acc s = Inr n \<Longrightarrow> acc < limit \<Longrightarrow> n < limit"
  by (induction limit acc s rule: parse_unsigned_from.induct) (auto simp: Let_def split: if_splits)

lemma parse_unsigned_bound: "parse_unsigned limit s = Inr n \<Longrightarrow> 0 < limit \<Longrightarrow> n < limit"
  by (auto simp: parse_unsigned_def split: if_splits dest: parse_unsigned_from_bound)

lemma parse_unsigned_from_append:
  "parse_unsigned_from limit acc (s @ t) =
   (case parse_unsigned_from limit acc s of Inl e \<Rightarrow> Inl e | Inr n \<Rightarrow> parse_unsigned_from limit n t)"
  by (induction limit acc s rule: parse_unsigned_from.induct) (auto simp: Let_def)

lemma parse_dec_digits: "n < limit \<Longrightarrow> parse_unsigned_from limit 0 (dec_digits n) = Inr n"
proof (induction n rule: dec_digits.induct)
  case (1 n)
  show ?case
  proof (cases "n < 10")
    case True
    with 1(2) digit_char [of n] show ?thesis by (subst dec_digits.simps) (simp add: Let_def)
  next
    case False
    have "n div 10 < limit" using 1(2) by (meson div_le_dividend le_less_trans)
    with 1(1) [OF False] 1(2) digit_char [of "n mod 10"] False show ?thesis
      by (subst dec_digits.simps) (simp add: parse_unsigned_from_append Let_def)
  qed
qed

lemma parse_unsigned_print: "n < limit \<Longrightarrow> parse_unsigned limit (dec_digits n) = Inr n"
proof -
  assume n: "n < limit"
  have "\<not> is_digit CHR ''+''" "\<not> is_digit CHR ''-''" by code_simp+
  with dec_digits_digits [of n] parse_dec_digits [OF n] show ?thesis
    by (cases "dec_digits n") (auto simp: parse_unsigned_def)
qed


section \<open>Egress URLs\<close>

text \<open>
  The authority of an \<open>https\<close> URL as the URL standard delimits it: everything after the scheme up
  to the first slash, backslash, question mark or hash.
\<close>

definition url_authority :: "string \<Rightarrow> string" where
  "url_authority url = takeWhile (\<lambda>c. c \<notin> set ''/?#'' \<and> c \<noteq> CHR 0x5C) (drop 8 url)"

definition host_char :: "char \<Rightarrow> bool" where
  "host_char c \<longleftrightarrow> is_alnum c \<or> c = CHR ''.'' \<or> c = CHR ''-''"

text \<open>\<open>names_host authority host port\<close>: the authority is the host, possibly in upper case and with
  trailing dots, with the port, if there is one, after a colon.\<close>

definition names_host :: "string \<Rightarrow> string \<Rightarrow> u16 option \<Rightarrow> bool" where
  "names_host authority host port \<longleftrightarrow>
     (case split_once CHR '':'' authority of
        None \<Rightarrow> port = None \<and> host = to_lower (trim_end_char CHR ''.'' authority)
      | Some (text, digits) \<Rightarrow> host = to_lower (trim_end_char CHR ''.'' text) \<and>
          (\<exists>n < 65536. parse_unsigned 65536 digits = Inr n \<and> port = Some (word_of_nat n)))"

lemma host_char_lower: "host_char (lower_char c) \<longleftrightarrow> host_char c"
proof -
  have bytes: "byte CHR ''.'' = 46" "byte CHR ''-'' = 45" by code_simp+
  have eq: "host_char d \<longleftrightarrow> is_alnum d \<or> byte d = 46 \<or> byte d = 45" for d
    unfolding host_char_def bytes [symmetric] of_char_eq_iff ..
  show ?thesis
    by (auto simp: eq byte_lower_char is_alnum_def is_digit_def is_upper_def is_lower_def)
qed

lemma trim_end_char_split: "\<exists>n. s = trim_end_char d s @ replicate n d"
proof -
  have "rev s = takeWhile (\<lambda>c. c = d) (rev s) @ dropWhile (\<lambda>c. c = d) (rev s)" by simp
  moreover have "takeWhile (\<lambda>c. c = d) (rev s) = replicate (length (takeWhile (\<lambda>c. c = d) (rev s))) d"
    by (rule replicate_length_same [symmetric]) (auto dest: set_takeWhileD)
  ultimately have "rev (rev s) = trim_end_char d s @ replicate (length (takeWhile (\<lambda>c. c = d) (rev s))) d"
    unfolding trim_end_char_def by (metis rev_append rev_replicate)
  then show ?thesis by auto
qed

lemma has_whitespace_head: "is_ws1 a \<Longrightarrow> has_whitespace (a # s)"
  by (cases "a # s" rule: has_whitespace.cases) auto

lemma has_whitespace_Cons: "has_whitespace s \<Longrightarrow> has_whitespace (a # s)"
  by (cases "a # s" rule: has_whitespace.cases) auto

lemma has_whitespace_append_left: "has_whitespace s \<Longrightarrow> has_whitespace (t @ s)"
  by (induction t) (auto intro: has_whitespace_Cons)

lemma has_whitespace_append_right: "has_whitespace s \<Longrightarrow> has_whitespace (s @ t)"
proof (induction s rule: has_whitespace.induct)
  case (2 a b)
  then show ?case by (cases t) (auto intro: has_whitespace_Cons has_whitespace_head)
next
  case (3 a)
  then show ?case by (cases "[a] @ t" rule: has_whitespace.cases) auto
qed auto

lemma whitespace_free_sublist:
  assumes "\<not> has_whitespace s" and "sublist t s"
  shows "\<not> has_whitespace t"
  using assms has_whitespace_append_left has_whitespace_append_right by (auto simp: sublist_def)

lemma whitespace_free_trim:
  assumes "\<not> has_whitespace s"
  shows "trim s = s"
proof -
  have start: "trim_start t = t" if "\<not> has_whitespace t" for t
    using that unfolding trim_start_def strip_ws_fixed
    by (cases t rule: has_whitespace.cases) auto
  have "strip_ws (\<lambda>b a. is_ws2 a b) (\<lambda>c b a. is_ws3 a b c) (rev s) = rev s"
  proof (cases "rev s" rule: has_whitespace.cases)
    case (1 c b a t)
    then have "s = rev t @ [a, b, c]" by (metis rev_rev_ident rev.simps(2) append.assoc append_Cons append_Nil)
    with assms have "\<not> has_whitespace [a, b, c]" by (metis has_whitespace_append_left)
    then show ?thesis by (auto simp: 1 strip_ws_fixed)
  next
    case (2 b a)
    then have "s = [a, b]" by (metis rev_rev_ident rev.simps append.simps)
    with assms show ?thesis by (auto simp: strip_ws_fixed)
  next
    case (3 a)
    then have "s = [a]" by (metis rev_singleton_conv)
    with assms show ?thesis by (auto simp: strip_ws_fixed)
  qed simp
  with start [OF assms] show ?thesis by (simp add: trim_def trim_end_def)
qed

lemma host_Inr:
  assumes "normalize_egress_host name = Inr host" and "\<not> has_whitespace name"
  shows "host = to_lower (trim_end_char CHR ''.'' name)" and "list_all host_char name" and "host \<noteq> []"
proof -
  from assms have h: "host = to_lower (trim_end_char CHR ''.'' name)" "host \<noteq> []"
    "list_all host_char host"
    by (auto simp: normalize_egress_host_def Let_def egress_host_error_def whitespace_free_trim
        host_char_def [abs_def] split: if_splits)
  then show "host = to_lower (trim_end_char CHR ''.'' name)" "host \<noteq> []" by auto
  from h(1,3) have "list_all host_char (trim_end_char CHR ''.'' name)"
    by (simp add: list_all_iff host_char_lower)
  with trim_end_char_split [of name "CHR ''.''"] show "list_all host_char name"
    by (auto simp: list_all_iff host_char_def) (metis UnE set_append set_replicate_conv_if singletonD empty_iff)
qed

lemma parse_unsigned_from_chars: "parse_unsigned_from limit acc s = Inr n \<Longrightarrow> list_all is_digit s"
  by (induction limit acc s rule: parse_unsigned_from.induct) (auto simp: Let_def split: if_splits)

lemma parse_unsigned_chars:
  "parse_unsigned limit s = Inr n \<Longrightarrow> list_all (\<lambda>c. is_digit c \<or> c = CHR ''+'') s"
  by (cases s) (auto simp: parse_unsigned_def simp del: parse_unsigned_from.simps split: if_splits
      dest!: parse_unsigned_from_chars elim: list.pred_mono_strong)

lemma takeWhile_stronger:
  "(\<And>x. Q x \<Longrightarrow> P x) \<Longrightarrow> list_all Q (takeWhile P xs) \<Longrightarrow> takeWhile Q xs = takeWhile P xs"
  by (induction xs) auto

definition authority_char :: "char \<Rightarrow> bool" where
  "authority_char c \<longleftrightarrow> host_char c \<or> c = CHR '':'' \<or> c = CHR ''+''"

lemma authority_char_plain: "authority_char c \<Longrightarrow> c \<notin> set ''/?#@'' \<and> c \<noteq> CHR 0x5C"
proof -
  have "list_all (\<lambda>c. \<not> authority_char c) (CHR 0x5C # ''/?#@'')" by code_simp
  then show "authority_char c \<Longrightarrow> c \<notin> set ''/?#@'' \<and> c \<noteq> CHR 0x5C" by (auto simp: list_all_iff)
qed

lemma split_once_no_sep: "split_once d s = Some (u, v) \<Longrightarrow> s = u @ d # v"
  by (induction s arbitrary: u) (auto split: if_splits)

text \<open>The parts of an accepted URL.\<close>

lemma parse_egress_parts:
  assumes "parse_gateway_egress_url m url = Inr d"
  shows "ed_method d = m" and "ed_url d = trim url" and "prefix ''https://'' (to_lower (trim url))"
    and "\<not> has_whitespace (trim url)" and "\<not> secret_like_url (trim url)" and "CHR ''@'' \<notin> set (trim url)"
    and "CHR ''#'' \<notin> set (trim url)"
    and "names_host (takeWhile (\<lambda>c. \<not> (c = CHR ''/'' \<or> c = CHR ''?'')) (drop 8 (trim url))) (ed_host d) (ed_port d)"
    and "list_all authority_char (takeWhile (\<lambda>c. \<not> (c = CHR ''/'' \<or> c = CHR ''?'')) (drop 8 (trim url)))"
    and "ed_host d \<noteq> []"
    and "\<not> has_parent_url_path (dropWhile (\<lambda>c. \<not> (c = CHR ''/'' \<or> c = CHR ''?'')) (drop 8 (trim url)))"
proof -
  let ?t = "trim url" and ?P = "\<lambda>c. \<not> (c = CHR ''/'' \<or> c = CHR ''?'')"
  let ?a = "takeWhile ?P (drop 8 ?t)"
  from assms show w: "\<not> has_whitespace ?t" and "prefix ''https://'' (to_lower ?t)" and "\<not> secret_like_url ?t"
    and "CHR ''@'' \<notin> set ?t" and "CHR ''#'' \<notin> set ?t"
    by (auto simp: parse_gateway_egress_url_def Let_def split: if_splits)
  from assms obtain name p where
    np: "(case split_once CHR '':'' ?a of
        Some (host, port) \<Rightarrow>
          (case parse_unsigned (2 ^ 16) port of
             Inl err \<Rightarrow> invalid (''gateway egress URL port is invalid: '' @ err)
           | Inr n \<Rightarrow> Inr (host, Some (word_of_nat n)))
      | None \<Rightarrow> Inr (?a, None)) = Inr (name, p)"
    and h: "normalize_egress_host name = Inr (ed_host d)" and p: "p = ed_port d"
    and m: "ed_method d = m" "ed_url d = ?t"
    and pp: "\<not> has_parent_url_path (dropWhile ?P (drop 8 ?t))"
    by (auto simp: parse_gateway_egress_url_def Let_def rbind_Inr_iff egress_host_error_def
        split: if_splits)
  from m show "ed_method d = m" "ed_url d = ?t" by auto
  from pp show "\<not> has_parent_url_path (dropWhile ?P (drop 8 ?t))" .
  have wa: "\<not> has_whitespace ?a"
    by (rule whitespace_free_sublist [OF w])
      (rule sublist_order.order.trans [OF _ suffix_imp_sublist [OF suffix_drop]],
        rule prefix_imp_sublist, rule takeWhile_is_prefix)
  have sub: "sublist name ?a"
    using np split_once_no_sep by (fastforce simp: sublist_def split: option.splits sum.splits prod.splits)
  note hf = host_Inr [OF h whitespace_free_sublist [OF wa sub]]
  from hf(3) show "ed_host d \<noteq> []" .
  show "names_host ?a (ed_host d) (ed_port d)"
    using np hf(1) p parse_unsigned_bound [of 65536]
    by (auto simp: names_host_def split: option.splits prod.splits sum.splits)
  show "list_all authority_char ?a"
  proof (cases "split_once CHR '':'' ?a")
    case None
    with np hf(2) show ?thesis by (auto simp: list_all_iff authority_char_def)
  next
    case (Some q)
    obtain u v where q: "q = (u, v)" by (cases q)
    with np Some have u: "u = name" "\<exists>n. parse_unsigned (2 ^ 16) v = Inr n"
      by (auto split: sum.splits)
    then have "list_all (\<lambda>c. is_digit c \<or> c = CHR ''+'') v" using parse_unsigned_chars by blast
    with hf(2) u(1) have "list_all authority_char (u @ CHR '':'' # v)"
      by (auto simp: list_all_iff authority_char_def host_char_def is_alnum_def)
    with split_once_no_sep [OF Some [unfolded q]] show ?thesis by simp
  qed
qed

text \<open>
  The gateway's egress policy judges the host that the URL names. An accepted egress URL uses
  https, its authority as the URL standard delimits it (with the backslash as a separator) is
  the host given to the policy, up to letter case and trailing dots, with the port given to the
  policy, and it has no user part, no fragment and no white space.
\<close>

theorem egress_url_names_host:
  assumes "parse_gateway_egress_url m url = Inr d"
  shows "ed_url d = trim url \<and> prefix ''https://'' (to_lower (ed_url d))
    \<and> names_host (url_authority (ed_url d)) (ed_host d) (ed_port d)
    \<and> CHR ''@'' \<notin> set (ed_url d) \<and> CHR ''#'' \<notin> set (ed_url d) \<and> \<not> has_whitespace (ed_url d)"
proof -
  note parts = parse_egress_parts [OF assms]
  have "list_all (\<lambda>c. c \<notin> set ''/?#'' \<and> c \<noteq> CHR 0x5C)
      (takeWhile (\<lambda>c. \<not> (c = CHR ''/'' \<or> c = CHR ''?'')) (drop 8 (trim url)))"
    by (rule list.pred_mono_strong [OF parts(9)]) (use authority_char_plain in auto)
  then have "url_authority (trim url) = takeWhile (\<lambda>c. \<not> (c = CHR ''/'' \<or> c = CHR ''?'')) (drop 8 (trim url))"
    unfolding url_authority_def by (intro takeWhile_stronger) auto
  note eq = this
  show ?thesis
    unfolding parts(2) eq by (intro conjI refl parts(3,4,6-8))
qed

theorem egress_url_names_host_witness:
  "names_host (url_authority ''https://API.Example.com./v1?q=1'') ''api.example.com'' None"
proof -
  have "parse_gateway_egress_url ''GET'' ''https://API.Example.com./v1?q=1'' =
      Inr \<lparr>ed_method = ''GET'', ed_url = ''https://API.Example.com./v1?q=1'',
        ed_host = ''api.example.com'', ed_port = None\<rparr>"
    by code_simp
  from egress_url_names_host [OF this] show ?thesis
    by (elim conjE) (simp only: egress_destination.select_convs)
qed


section \<open>What the checks miss\<close>

text \<open>
  The read-only check of \<open>database.read\<close> looks for mutating keywords between spaces only: a
  statement that deletes rows in a common table expression and a \<open>SELECT INTO\<close> that creates a
  table both pass it, and the Postgres client runs them outside a read-only transaction.
\<close>

theorem read_only_sql_can_write:
  "validate_sql_statement ''with gone as (delete from accounts returning *) select * from gone'' True = Inr ()
   \<and> validate_sql_statement ''select * into stolen from accounts'' True = Inr ()"
  by (intro conjI; code_simp)

text \<open>The check for parent segments knows two of the four spellings that URL parsers resolve.\<close>

lemma parent_segment_missed:
  "\<not> has_parent_url_path ''/public/.%2e/private''" "\<not> has_parent_url_path ''/public/%2e./private''"
  "has_parent_url_path ''/public/../private''" "has_parent_url_path ''/public/%2E%2e/private''"
  by code_simp+

text \<open>What the SQL check does guarantee: one statement, no comment, and a reading verb first.\<close>

lemma read_only_sql_shape:
  "validate_sql_statement sql True = Inr u \<Longrightarrow>
   (prefix ''select '' (to_lower (trim sql)) \<or> prefix ''with '' (to_lower (trim sql)))
   \<and> \<not> str_contains ''--'' (trim sql) \<and> \<not> str_contains ''/*'' (trim sql)
   \<and> length (filter (\<lambda>c. c = CHR '';'') (trim sql)) \<le> 1"
  by (auto simp: validate_sql_statement_def Let_def split: if_splits)

end
