(* ===== verification/Gateway_Executor.thy ===== *)
theory Gateway_Executor
  imports Gateway_Checks Orchestrator_Safety
begin

text \<open>
  The gateway mediator and executor (\<open>GatewayMediator\<close>, \<open>GatewayExecutor\<close> in
  \<open>crates/taskfence-gateway/src/lib.rs\<close>). The policy engine, the audit logger, the approval
  engine, the adapter and the secret broker are response functions that see the history of all
  calls, so that any stateful implementation is covered; the state is the log of the calls. The last
  four calls are made by the gateway commands around the executor: a status that is stored, a report,
  an answer to a connection and a response file.
\<close>

section \<open>Calls and environment\<close>

datatype gw_call =
    GAudit audit_event "unit result"
  | GEvaluate action "action_decision result"
  | GRequest action action_decision "approval_record result"
  | GWait approval_id "approval_record result"
  | GPlan tool_action "budget_usage list exec_result"
  | GIssue string string "secret_reference result"
  | GExecute tool_action "gateway_secret_binding list" "tool_result exec_result"
  | GStatus string task_status "unit result"
  | GReport "audit_event list" "path result"
  | GDeliver string "unit result"
  | GStore path "unit result"

record gw_env =
  ge_now :: "gw_call list \<Rightarrow> time"
  ge_audit :: "gw_call list \<Rightarrow> audit_event \<Rightarrow> unit result"
  ge_evaluate :: "gw_call list \<Rightarrow> resolved_task \<Rightarrow> action \<Rightarrow> action_decision result"
  ge_request ::
    "gw_call list \<Rightarrow> resolved_task \<Rightarrow> action \<Rightarrow> action_decision \<Rightarrow> approval_record result"
  ge_wait :: "gw_call list \<Rightarrow> approval_id \<Rightarrow> approval_record result"
  ge_plan ::
    "gw_call list \<Rightarrow> resolved_task \<Rightarrow> tool_action \<Rightarrow> tool_execution_context \<Rightarrow>
     budget_usage list exec_result"
  ge_issue :: "gw_call list \<Rightarrow> resolved_task \<Rightarrow> string \<Rightarrow> string \<Rightarrow> secret_reference result"
  ge_execute ::
    "gw_call list \<Rightarrow> resolved_task \<Rightarrow> tool_action \<Rightarrow> tool_execution_context \<Rightarrow>
     gateway_secret_binding list \<Rightarrow> tool_result exec_result"

text \<open>
  What is configured: whether there is an approval engine and a secret broker, the registry, the
  supported protocols, and the adapter's identity and secret references.
\<close>

record gateway =
  gx_approval :: bool
  gx_registry :: "tool_registry option"
  gx_protocols :: "string list"
  gx_broker :: bool
  gx_identity :: tool_adapter_identity
  gx_secret_refs :: "gateway_secret_reference_config list"

definition with_supported_protocols :: "string list \<Rightarrow> gateway \<Rightarrow> gateway" where
  "with_supported_protocols protocols gx =
     gx\<lparr>gx_protocols := filter (\<lambda>p. p \<noteq> []) (map (\<lambda>p. to_lower (trim p)) protocols)\<rparr>"

type_synonym ('e, 'a) gw = "gw_call list \<Rightarrow> ('e + 'a) \<times> gw_call list"

definition gcall :: "(gw_call list \<Rightarrow> 'e + 'a) \<Rightarrow> ('e + 'a \<Rightarrow> gw_call) \<Rightarrow> ('e, 'a) gw" where
  "gcall resp mk log = (let r = resp log in (r, log @ [mk r]))"

definition gw_record :: "gw_env \<Rightarrow> audit_event \<Rightarrow> (taskfence_error, unit) gw" where
  "gw_record env event = gcall (\<lambda>h. ge_audit env h event) (GAudit event)"

definition gw_record_now :: "gw_env \<Rightarrow> (time \<Rightarrow> audit_event) \<Rightarrow> (taskfence_error, unit) gw" where
  "gw_record_now env mk log = gw_record env (mk (ge_now env log)) log"

section \<open>The mediator\<close>

record gateway_mediation =
  gm_action :: tool_action
  gm_decision :: action_decision
  gm_approval :: "approval_record option"

definition request_tool_approval ::
  "gw_env \<Rightarrow> gateway \<Rightarrow> resolved_task \<Rightarrow> action \<Rightarrow> action_decision \<Rightarrow>
   (taskfence_error, approval_record) gw" where
  "request_tool_approval env gx task action decision =
     (if \<not> gx_approval gx then sfail (Approval ''gateway approval engine is not configured'')
      else
        sbind (gcall (\<lambda>h. ge_request env h task action decision) (GRequest action decision)) (\<lambda>requested.
        sbind (gw_record env (ApprovalRequested requested)) (\<lambda>_.
        sbind (gcall (\<lambda>h. ge_wait env h (ar_id requested)) (GWait (ar_id requested))) (\<lambda>resolved.
        sbind (gw_record env (ApprovalResolved resolved)) (\<lambda>_.
          if ar_decision resolved = Some Approved then sreturn resolved
          else sfail (Approval ''gateway tool approval denied or timed out''))))))"

text \<open>The policy decision on an action, audited.\<close>

definition audited_decision ::
  "gw_env \<Rightarrow> resolved_task \<Rightarrow> action \<Rightarrow> (taskfence_error, action_decision) gw" where
  "audited_decision env task action =
     sbind (gcall (\<lambda>h. ge_evaluate env h task action) (GEvaluate action)) (\<lambda>decision.
     sbind (gw_record_now env (\<lambda>t. PolicyDecision (rt_id task) t action decision)) (\<lambda>_.
       sreturn decision))"

definition refuse ::
  "gw_env \<Rightarrow> resolved_task \<Rightarrow> taskfence_error \<Rightarrow> string \<Rightarrow> (taskfence_error, 'a) gw" where
  "refuse env task err message =
     sbind (gw_record_now env (\<lambda>t. Error (rt_id task) t message)) (\<lambda>_. sfail err)"

definition check_protocol ::
  "gw_env \<Rightarrow> gateway \<Rightarrow> resolved_task \<Rightarrow> tool_action \<Rightarrow> (taskfence_error, unit) gw" where
  "check_protocol env gx task action =
     (if ta_protocol action \<in> set (gx_protocols gx) then sreturn ()
      else
        let message = ''gateway protocol '' @ [CHR 0x27] @ ta_protocol action @ [CHR 0x27] @ '' is not supported''
        in refuse env task (UnsupportedErr message) message)"

definition check_registry ::
  "gw_env \<Rightarrow> gateway \<Rightarrow> resolved_task \<Rightarrow> tool_action \<Rightarrow> (taskfence_error, unit) gw" where
  "check_registry env gx task action =
     (case gx_registry gx of
        None \<Rightarrow> sreturn ()
      | Some registry \<Rightarrow>
          sbind (slift (registry_contains registry action)) (\<lambda>known.
            if known then sreturn ()
            else
              sbind (slift (tool_key_from_action action)) (\<lambda>key.
                let message = ''gateway tool action is not registered: '' @ tool_key_display key
                in refuse env task (Gateway message) message)))"

definition mediate_tool_action ::
  "gw_env \<Rightarrow> gateway \<Rightarrow> resolved_task \<Rightarrow> tool_action \<Rightarrow> (taskfence_error, gateway_mediation) gw" where
  "mediate_tool_action env gx task action =
     sbind (slift (normalize_tool_action action)) (\<lambda>action.
     sbind (check_protocol env gx task action) (\<lambda>_.
     sbind (check_registry env gx task action) (\<lambda>_.
     sbind (audited_decision env task (ToolCall action)) (\<lambda>decision.
     sbind (if needs_approval decision \<and> gx_approval gx
            then sbind (request_tool_approval env gx task (ToolCall action) decision) (\<lambda>r.
                   sreturn (Some r))
            else sreturn None) (\<lambda>approval.
       sreturn \<lparr>gm_action = action, gm_decision = decision, gm_approval = approval\<rparr>)))))"

section \<open>The executor\<close>

definition record_finished ::
  "gw_env \<Rightarrow> resolved_task \<Rightarrow> tool_execution \<Rightarrow> (taskfence_error, tool_execution) gw" where
  "record_finished env task execution =
     sbind (gw_record_now env (\<lambda>t. ToolExecutionFinished (rt_id task) t execution)) (\<lambda>_.
       sreturn execution)"

definition gw_finish_error ::
  "gw_env \<Rightarrow> resolved_task \<Rightarrow> tool_request \<Rightarrow> tool_execution_error \<Rightarrow>
   (taskfence_error, tool_execution) gw" where
  "gw_finish_error env task request err =
     record_finished env task \<lparr>tx_request = request, tx_result = None, tx_error = Some err\<rparr>"

definition gx_request :: "gateway \<Rightarrow> tool_action \<Rightarrow> tool_request" where
  "gx_request gx action = \<lparr>tr_action = action, tr_adapter = Some (gx_identity gx)\<rparr>"

text \<open>The usages one by one; \<open>denial\<close> is the first denial so far.\<close>

fun record_budget_usages_from ::
  "gw_env \<Rightarrow> resolved_task \<Rightarrow> tool_execution_error option \<Rightarrow> budget_usage list \<Rightarrow>
   (taskfence_error, tool_execution_error option) gw" where
  "record_budget_usages_from env task denial [] = sreturn denial"
| "record_budget_usages_from env task denial (usage # usages) =
     (case budget_usage_normalized usage of
        Inl err \<Rightarrow> sreturn (Some (exec_error BudgetExceeded (error_display err)))
      | Inr usage \<Rightarrow>
          sbind (audited_decision env task (Budget (bu_kind usage) (bu_amount usage))) (\<lambda>decision.
          sbind (gw_record_now env (\<lambda>t. BudgetUsageRecorded (rt_id task) t
                   \<lparr>br_usage = usage, br_limit = budget_limit_for task (bu_kind usage),
                    br_decision = decision\<rparr>)) (\<lambda>_.
            record_budget_usages_from env task
              (case (denial, decision) of
                 (None, Deny _ reason) \<Rightarrow> Some (exec_error BudgetExceeded reason)
               | _ \<Rightarrow> denial) usages)))"

definition record_budget_usages ::
  "gw_env \<Rightarrow> resolved_task \<Rightarrow> budget_usage list \<Rightarrow> (taskfence_error, tool_execution_error option) gw" where
  "record_budget_usages env task usages = record_budget_usages_from env task None usages"

definition enforce_gateway_egress_policy ::
  "gw_env \<Rightarrow> gateway \<Rightarrow> resolved_task \<Rightarrow> tool_action \<Rightarrow>
   (taskfence_error, tool_execution_error option) gw" where
  "enforce_gateway_egress_policy env gx task action =
     (if \<not> is_gateway_egress_action action then sreturn None
      else case gateway_egress_destination action of
             Inl err \<Rightarrow> sreturn (Some err)
           | Inr destination \<Rightarrow>
               (let wrapped = Network (ed_host destination) (ed_port destination)
                in sbind (audited_decision env task wrapped) (\<lambda>decision.
                   case decision of
                     Allow _ _ \<Rightarrow> sreturn None
                   | Deny _ reason \<Rightarrow> sreturn (Some (exec_error PolicyDenied reason))
                   | RequireApproval _ _ _ _ \<Rightarrow>
                       if \<not> gx_approval gx
                       then sreturn (Some (exec_error ApprovalDeniedOrTimedOut
                              ''gateway egress approval engine is not configured''))
                       else stry (request_tool_approval env gx task wrapped decision)
                              (\<lambda>err. sreturn (Some (tool_execution_error_from_taskfence err)))
                              (\<lambda>_. sreturn None))))"

definition gateway_secret_reference ::
  "gw_env \<Rightarrow> resolved_task \<Rightarrow> string \<Rightarrow> string \<Rightarrow> (taskfence_error, secret_reference) gw" where
  "gateway_secret_reference env task name scope =
     sbind (slift (normalize_required_segment ''secret name'' name)) (\<lambda>name.
     sbind (slift (normalize_required_segment ''secret scope'' scope)) (\<lambda>scope.
     sbind (slift (ensure_secret_grant task name scope)) (\<lambda>_.
       gcall (\<lambda>h. ge_issue env h task name scope) (GIssue name scope))))"

fun attach_secrets ::
  "gw_env \<Rightarrow> resolved_task \<Rightarrow> tool_action \<Rightarrow> gateway_secret_binding list \<Rightarrow>
   gateway_secret_reference_config list \<Rightarrow>
   (taskfence_error, tool_action \<times> gateway_secret_binding list) gw" where
  "attach_secrets env task action bindings [] = sreturn (action, bindings)"
| "attach_secrets env task action bindings (ref # refs) =
     sbind (gateway_secret_reference env task (sr_name ref) (sr_scope ref)) (\<lambda>reference.
     sbind (slift (attach_secret_reference action (sr_parameter ref) reference)) (\<lambda>action.
       attach_secrets env task action
         (bindings @ [\<lparr>sb_parameter = sr_parameter ref, sb_reference = reference\<rparr>]) refs))"

definition attach_configured_secret_references ::
  "gw_env \<Rightarrow> gateway \<Rightarrow> resolved_task \<Rightarrow> tool_request \<Rightarrow>
   (tool_execution_error, tool_request \<times> gateway_secret_binding list) gw" where
  "attach_configured_secret_references env gx task request =
     (if gx_secret_refs gx = [] then sreturn (request, [])
      else if \<not> gx_broker gx
      then sfail (exec_error SecretUnavailable ''gateway secret reference broker is not configured'')
      else stry (attach_secrets env task (tr_action request) [] (gx_secret_refs gx))
             (\<lambda>err. sfail (tool_execution_error_from_taskfence err))
             (\<lambda>(action, bindings).
               sreturn (\<lparr>tr_action = action, tr_adapter = tr_adapter request\<rparr>, bindings)))"

text \<open>The stages of \<open>execute_tool_action\<close>, last first.\<close>

definition run_adapter ::
  "gw_env \<Rightarrow> resolved_task \<Rightarrow> tool_execution_context \<Rightarrow> tool_request \<Rightarrow>
   gateway_secret_binding list \<Rightarrow> (taskfence_error, tool_execution) gw" where
  "run_adapter env task context request bindings =
     sbind (gw_record_now env (\<lambda>t. ToolExecutionStarted (rt_id task) t request)) (\<lambda>_.
     sbind (stry (gcall (\<lambda>h. ge_execute env h task (tr_action request) context bindings)
                    (GExecute (tr_action request) bindings))
              (\<lambda>err. sreturn \<lparr>tx_request = request, tx_result = None, tx_error = Some err\<rparr>)
              (\<lambda>res. sbind (record_budget_usages env task (tres_usage res)) (\<lambda>budget_error.
                 sreturn \<lparr>tx_request = request, tx_result = Some res, tx_error = budget_error\<rparr>)))
       (record_finished env task))"

definition bind_secrets ::
  "gw_env \<Rightarrow> gateway \<Rightarrow> resolved_task \<Rightarrow> tool_execution_context \<Rightarrow> tool_request \<Rightarrow>
   (taskfence_error, tool_execution) gw" where
  "bind_secrets env gx task context request =
     stry (attach_configured_secret_references env gx task request)
       (gw_finish_error env task request)
       (\<lambda>(request, bindings). run_adapter env task context request bindings)"

definition check_egress ::
  "gw_env \<Rightarrow> gateway \<Rightarrow> resolved_task \<Rightarrow> tool_execution_context \<Rightarrow> tool_request \<Rightarrow>
   (taskfence_error, tool_execution) gw" where
  "check_egress env gx task context request =
     sbind (enforce_gateway_egress_policy env gx task (tr_action request)) (\<lambda>denial.
       case denial of
         Some err \<Rightarrow> gw_finish_error env task request err
       | None \<Rightarrow> bind_secrets env gx task context request)"

definition check_planned_budget ::
  "gw_env \<Rightarrow> gateway \<Rightarrow> resolved_task \<Rightarrow> tool_execution_context \<Rightarrow> tool_request \<Rightarrow>
   (taskfence_error, tool_execution) gw" where
  "check_planned_budget env gx task context request =
     stry (gcall (\<lambda>h. ge_plan env h task (tr_action request) context) (GPlan (tr_action request)))
       (gw_finish_error env task request)
       (\<lambda>usages. sbind (record_budget_usages env task usages) (\<lambda>denial.
          case denial of
            Some err \<Rightarrow> gw_finish_error env task request err
          | None \<Rightarrow> check_egress env gx task context request))"

definition execute_mediated ::
  "gw_env \<Rightarrow> gateway \<Rightarrow> resolved_task \<Rightarrow> tool_execution_context \<Rightarrow> gateway_mediation \<Rightarrow>
   (taskfence_error, tool_execution) gw" where
  "execute_mediated env gx task context mediation =
     (let request = gx_request gx (gm_action mediation)
      in case gm_decision mediation of
           Deny _ reason \<Rightarrow> gw_finish_error env task request (exec_error PolicyDenied reason)
         | RequireApproval _ _ _ _ \<Rightarrow>
             if gm_approval mediation = None
             then gw_finish_error env task request
                    (exec_error ApprovalDeniedOrTimedOut ''gateway approval engine is not configured'')
             else check_planned_budget env gx task context request
         | Allow _ _ \<Rightarrow> check_planned_budget env gx task context request)"

definition execute_tool_action ::
  "gw_env \<Rightarrow> gateway \<Rightarrow> resolved_task \<Rightarrow> tool_action \<Rightarrow> tool_execution_context \<Rightarrow>
   (taskfence_error, tool_execution) gw" where
  "execute_tool_action env gx task action context =
     stry (mediate_tool_action env gx task action)
       (\<lambda>err. gw_finish_error env task (gx_request gx action) (tool_execution_error_from_taskfence err))
       (execute_mediated env gx task context)"

definition mcp_execute ::
  "gw_env \<Rightarrow> gateway \<Rightarrow> resolved_task \<Rightarrow> mcp_tool_request \<Rightarrow> tool_execution_context \<Rightarrow>
   (taskfence_error, tool_execution) gw" where
  "mcp_execute env gx task request context =
     sbind (slift (mcp_to_tool_action request)) (\<lambda>action. execute_tool_action env gx task action context)"

definition http_execute ::
  "gw_env \<Rightarrow> gateway \<Rightarrow> resolved_task \<Rightarrow> http_tool_request \<Rightarrow> tool_execution_context \<Rightarrow>
   (taskfence_error, tool_execution) gw" where
  "http_execute env gx task request context =
     sbind (slift (http_to_tool_action request)) (\<lambda>action. execute_tool_action env gx task action context)"

end
