(* ===== verification/Gateway_Safety.thy ===== *)
theory Gateway_Safety
  imports Gateway_Executor
begin

text \<open>
  What the gateway executor guarantees in every environment: an adapter is called only with the
  tool registered, the decision, the budget, the egress destination and the secrets settled and
  logged, and every answer to the caller is the last event of the audit trail.
\<close>

section \<open>Stages that only append\<close>

text \<open>The locale says what a stage needs to append only calls of a kind.\<close>

locale gw_appending =
  fixes env :: gw_env and task :: resolved_task
    and p :: "gw_call \<Rightarrow> bool" and ok_event :: "audit_event \<Rightarrow> bool"
  assumes audit: "ok_event e \<Longrightarrow> p (GAudit e r)"
    and evaluate: "p (GEvaluate a (ge_evaluate env h task a))" and request: "p (GRequest a d' q)" and wait: "p (GWait i q)"
    and plan: "p (GPlan ta (ge_plan env h task ta ctx))" and issue: "p (GIssue n sc ref)"
    and ok_other: "(\<And>tid t req. e \<noteq> ToolExecutionStarted tid t req) \<Longrightarrow>
      (\<And>tid t ex. e \<noteq> ToolExecutionFinished tid t ex) \<Longrightarrow> ok_event e"
begin

lemma call: "(\<And>h. p (mk (resp h))) \<Longrightarrow> appends p (gcall resp mk)"
  by (auto simp: appends_def gcall_def Let_def)

lemma recording: "ok_event e \<Longrightarrow> appends p (gw_record env e)"
  unfolding gw_record_def by (rule call) (rule audit)

lemma record_now: "(\<And>t. ok_event (mk t)) \<Longrightarrow> appends p (gw_record_now env mk)"
  using recording by (auto simp: appends_def gw_record_now_def)

lemma approval: "appends p (request_tool_approval env gx task a d)"
  unfolding request_tool_approval_def
  by (auto intro!: append_rules call recording request wait ok_other)

lemma decision: "appends p (audited_decision env task a)"
  unfolding audited_decision_def by (intro append_rules call record_now evaluate ok_other) auto

lemma refused: "appends p (refuse env task err m)"
  unfolding refuse_def by (intro append_rules record_now ok_other) auto

lemma protocol: "appends p (check_protocol env gx task a)"
  unfolding check_protocol_def Let_def by (auto intro!: append_rules refused)

lemma registry: "appends p (check_registry env gx task a)"
  unfolding check_registry_def Let_def
  by (auto intro!: append_rules refused split: option.split)

lemma mediation: "appends p (mediate_tool_action env gx task a)"
  unfolding mediate_tool_action_def
  by (auto intro!: append_rules protocol registry decision approval)

lemma budgets_from: "appends p (record_budget_usages_from env task denial us)"
proof (induction us arbitrary: denial)
  case (Cons u us)
  then show ?case
    by (auto intro!: append_rules decision record_now ok_other split: sum.split)
qed (simp add: append_rules)

lemma budgets: "appends p (record_budget_usages env task us)"
  unfolding record_budget_usages_def by (rule budgets_from)

lemma egress: "appends p (enforce_gateway_egress_policy env gx task a)"
  unfolding enforce_gateway_egress_policy_def Let_def
  by (auto intro!: append_rules decision approval split: sum.split action_decision.split)

lemma secret: "appends p (gateway_secret_reference env task n sc)"
  unfolding gateway_secret_reference_def by (intro append_rules call issue)

lemma secrets: "appends p (attach_secrets env task a bs refs)"
  by (induction refs arbitrary: a bs) (auto intro!: append_rules secret)

lemma configured_secrets: "appends p (attach_configured_secret_references env gx task request)"
  unfolding attach_configured_secret_references_def
  by (auto intro!: append_rules secrets)

end

fun is_execute :: "gw_call \<Rightarrow> bool" where
  "is_execute (GExecute a bs r) = True"
| "is_execute c = False"

fun is_finished :: "audit_event \<Rightarrow> bool" where
  "is_finished (ToolExecutionFinished tid t ex) = True"
| "is_finished e = False"

fun records_finish :: "gw_call \<Rightarrow> bool" where
  "records_finish (GAudit e r) = is_finished e"
| "records_finish c = False"

interpretation quiet: gw_appending env task "\<lambda>c. \<not> is_execute c" "\<lambda>_. True"
  for env task
  by standard auto

interpretation unfinished: gw_appending env task "\<lambda>c. \<not> records_finish c" "\<lambda>e. \<not> is_finished e"
  for env task
proof (standard, goal_cases)
  case (7 e)
  then show ?case by (cases e) auto
qed auto

section \<open>Every answer is the last event of the trail\<close>

text \<open>The answer was recorded by the last call, and nothing was recorded as finished before.\<close>

definition answered :: "resolved_task \<Rightarrow> tool_execution \<Rightarrow> gw_call list \<Rightarrow> bool" where
  "answered task ex log \<longleftrightarrow>
     (case rev log of
        GAudit (ToolExecutionFinished tid t ex') (Inr _) # before \<Rightarrow>
          tid = rt_id task \<and> ex' = ex \<and> list_all (\<lambda>c. \<not> records_finish c) before
      | _ \<Rightarrow> False)"

definition open_log :: "gw_call list \<Rightarrow> bool" where
  "open_log log \<longleftrightarrow> list_all (\<lambda>c. \<not> records_finish c) log"

abbreviation answers ::
  "resolved_task \<Rightarrow> (taskfence_error, tool_execution) gw \<Rightarrow> bool" where
  "answers task m \<equiv> hoare open_log m (answered task) (\<lambda>_ _. True)"

lemma appends_open:
  "appends (\<lambda>c. \<not> records_finish c) m \<Longrightarrow> hoare open_log m (\<lambda>_. open_log) (\<lambda>_. open_log)"
proof -
  assume a: "appends (\<lambda>c. \<not> records_finish c) m"
  have "open_log (snd (m log))" if "open_log log" for log
  proof -
    from a obtain ext where "snd (m log) = log @ ext" "list_all (\<lambda>c. \<not> records_finish c) ext"
      unfolding appends_def by blast
    with that show ?thesis by (simp add: open_log_def)
  qed
  then show ?thesis by (auto simp: hoare_def wp_def split: prod.splits sum.splits) (metis snd_conv)+
qed

lemma answers_sbind:
  "appends (\<lambda>c. \<not> records_finish c) m \<Longrightarrow> (\<And>x. answers task (f x)) \<Longrightarrow> answers task (sbind m f)"
  by (rule hoare_sbind [where R = "\<lambda>_. open_log", OF hoare_conseq [OF appends_open]]) auto

lemma answers_stry:
  "appends (\<lambda>c. \<not> records_finish c) m \<Longrightarrow> (\<And>e. answers task (h e)) \<Longrightarrow> (\<And>x. answers task (f x)) \<Longrightarrow>
   answers task (stry m h f)"
  by (rule hoare_stry [OF appends_open])

lemma answers_record: "answers task (record_finished env task ex)"
  by (auto simp: record_finished_def hoare_def wp_def gw_record_now_def gw_record_def gcall_def
      answered_def open_log_def Let_def sbind_def stry_def sreturn_def sfail_def split: sum.splits)

lemma answers_error: "answers task (gw_finish_error env task request err)"
  unfolding gw_finish_error_def by (rule answers_record)

lemma answers_adapter: "answers task (run_adapter env task context request bindings)"
  unfolding run_adapter_def
  by (intro answers_sbind answers_record append_rules unfinished.record_now unfinished.budgets
      unfinished.call) auto

lemma answers_secrets: "answers task (bind_secrets env gx task context request)"
  unfolding bind_secrets_def
  by (intro answers_stry unfinished.configured_secrets answers_error) (auto intro: answers_adapter)

lemma answers_egress: "answers task (check_egress env gx task context request)"
  unfolding check_egress_def
  by (intro answers_sbind unfinished.egress)
    (auto intro: answers_error answers_secrets split: option.split)

lemma answers_budget: "answers task (check_planned_budget env gx task context request)"
  unfolding check_planned_budget_def
  by (intro answers_stry answers_sbind unfinished.call unfinished.budgets answers_error)
    (auto intro: answers_error answers_egress split: option.split)

lemma answers_mediated: "answers task (execute_mediated env gx task context mediation)"
  unfolding execute_mediated_def Let_def
  by (auto intro: answers_error answers_budget split: action_decision.split)

lemma answers_execute: "answers task (execute_tool_action env gx task action context)"
  unfolding execute_tool_action_def
  by (intro answers_stry unfinished.mediation answers_error answers_mediated)

text \<open>
  C11: When the gateway answers a tool request, the answer is evidence: the last call of the run
  recorded exactly this execution as finished in the audit trail, and nothing was recorded as
  finished before it. This holds for answers of every kind, results and refusals.
\<close>

theorem answer_is_audited:
  assumes "execute_tool_action env gx task action context [] = (Inr execution, log)"
  shows "answered task execution log"
proof -
  from hoareD(1) [OF answers_execute _ assms] show ?thesis by (simp add: open_log_def)
qed


text \<open>A gateway with one registered tool, under the built-in policy of the sample task.\<close>

definition sample_gateway :: gateway where
  "sample_gateway =
     \<lparr>gx_approval = False, gx_registry = Some (registry_new [ToolKey ''mcp'' ''github'' ''read_issue'']),
      gx_protocols = [''mcp''], gx_broker = False,
      gx_identity = \<lparr>ai_kind = ''fixture'', ai_name = ''local''\<rparr>, gx_secret_refs = []\<rparr>"

definition sample_gw_env :: gw_env where
  "sample_gw_env =
     \<lparr>ge_now = (\<lambda>h. int (length h)), ge_audit = (\<lambda>h e. Inr ()),
      ge_evaluate = (\<lambda>h task a. evaluate exact_glob task a),
      ge_request = (\<lambda>h task a d. Inl (Approval ''none'')), ge_wait = (\<lambda>h i. Inl (Approval ''none'')),
      ge_plan = (\<lambda>h task a ctx. Inr []), ge_issue = (\<lambda>h task n sc. Inl (Gateway ''none'')),
      ge_execute = (\<lambda>h task a ctx bs. Inr
        \<lparr>tres_summary = ''done'', tres_values = [], tres_artifacts = [], tres_usage = []\<rparr>)\<rparr>"

abbreviation sample_gw_run :: "string \<Rightarrow> (taskfence_error + tool_execution) \<times> gw_call list" where
  "sample_gw_run op \<equiv> execute_tool_action sample_gw_env sample_gateway sample_task (sample_tool op)
     \<lparr>tc_task_dir = None, tc_artifact_dir = None\<rparr> []"

theorem answer_is_audited_witness:
  "\<exists>execution log. sample_gw_run ''read_issue'' = (Inr execution, log) \<and> tx_error execution = None
     \<and> answered sample_task execution log"
proof -
  have "case fst (sample_gw_run ''read_issue'') of Inr ex \<Rightarrow> tx_error ex = None | Inl e \<Rightarrow> False"
    by code_simp
  then obtain ex where "fst (sample_gw_run ''read_issue'') = Inr ex" and ok: "tx_error ex = None"
    by (auto split: sum.splits)
  then obtain log where "sample_gw_run ''read_issue'' = (Inr ex, log)" by (metis prod.collapse)
  from this ok answer_is_audited [OF this] show ?thesis by blast
qed

lemma sample_calls_adapter:
  "list_ex is_execute (snd (sample_gw_run ''read_issue''))
   \<and> \<not> list_ex is_execute (snd (sample_gw_run ''create_pr''))
   \<and> \<not> list_ex is_execute (snd (sample_gw_run ''delete_repo''))"
  by code_simp

section \<open>What is known when the adapter is called\<close>

text \<open>
  An action is authorised by a log in which the policy decided it with an audited decision that
  allows it, or requires an approval that was requested for it and given.
\<close>

definition gw_authorised :: "resolved_task \<Rightarrow> action \<Rightarrow> gw_call list \<Rightarrow> bool" where
  "gw_authorised task a log \<longleftrightarrow>
     (\<exists>d t. GEvaluate a (Inr d) \<in> set log \<and> GAudit (PolicyDecision (rt_id task) t a d) (Inr ()) \<in> set log
        \<and> (is_allow d \<or> needs_approval d \<and>
           (\<exists>req res. GRequest a d (Inr req) \<in> set log \<and> GWait (ar_id req) (Inr res) \<in> set log
              \<and> ar_decision res = Some Approved)))"

text \<open>Each planned usage is valid, and the policy did not deny it.\<close>

definition budgets_granted :: "budget_usage list \<Rightarrow> gw_call list \<Rightarrow> bool" where
  "budgets_granted us log \<longleftrightarrow>
     list_all (\<lambda>u. case budget_usage_normalized u of
        Inl _ \<Rightarrow> False
      | Inr v \<Rightarrow> \<exists>d. GEvaluate (Budget (bu_kind v) (bu_amount v)) (Inr d) \<in> set log \<and> \<not> is_deny d) us"

text \<open>Each binding holds a reference that the broker issued for a granted secret and scope.\<close>

definition secrets_issued :: "resolved_task \<Rightarrow> gateway_secret_binding list \<Rightarrow> gw_call list \<Rightarrow> bool" where
  "secrets_issued task bs log \<longleftrightarrow>
     list_all (\<lambda>b. \<exists>name scope. GIssue name scope (Inr (sb_reference b)) \<in> set log
        \<and> ensure_secret_grant task name scope = Inr ()) bs"

text \<open>The action that the adapter sees: the parameters bound to secrets hold redacted values.\<close>

fun attached :: "tool_action \<Rightarrow> gateway_secret_binding list \<Rightarrow> tool_action" where
  "attached a [] = a"
| "attached a (b # bs) =
     attached (a\<lparr>ta_parameters :=
       bt_insert (trim (sb_parameter b)) (as_redacted_value (sb_reference b)) (ta_parameters a)\<rparr>) bs"

definition admitted :: "gateway \<Rightarrow> tool_action \<Rightarrow> bool" where
  "admitted gx a \<longleftrightarrow>
     normal_action a \<and> ta_protocol a \<in> set (gx_protocols gx) \<and>
     (case gx_registry gx of None \<Rightarrow> True | Some r \<Rightarrow> registry_contains r a = Inr True)"

definition egress_settled :: "resolved_task \<Rightarrow> tool_action \<Rightarrow> gw_call list \<Rightarrow> bool" where
  "egress_settled task a log \<longleftrightarrow>
     \<not> is_gateway_egress_action a \<or>
     (\<exists>d. gateway_egress_destination a = Inr d \<and> gw_authorised task (Network (ed_host d) (ed_port d)) log)"

definition started_last :: "resolved_task \<Rightarrow> tool_action \<Rightarrow> gw_call list \<Rightarrow> bool" where
  "started_last task a log \<longleftrightarrow>
     (case rev log of
        GAudit (ToolExecutionStarted tid t req) (Inr _) # _ \<Rightarrow> tid = rt_id task \<and> tr_action req = a
      | _ \<Rightarrow> False)"

fun execution_settled :: "gateway \<Rightarrow> resolved_task \<Rightarrow> gw_call list \<Rightarrow> gw_call \<Rightarrow> bool" where
  "execution_settled gx task pre (GExecute a bs r) =
     (\<exists>a0 us. a = attached a0 bs \<and> admitted gx a0 \<and> gw_authorised task (ToolCall a0) pre
        \<and> GPlan a0 (Inr us) \<in> set pre \<and> budgets_granted us pre \<and> egress_settled task a0 pre
        \<and> secrets_issued task bs pre \<and> started_last task a pre)"
| "execution_settled gx task pre c = True"

text \<open>A fact about the log that later calls keep.\<close>

named_theorems kept_rules \<open>facts that later calls keep\<close>

definition kept :: "('c list \<Rightarrow> bool) \<Rightarrow> bool" where
  "kept F \<longleftrightarrow> (\<forall>log ext. F log \<longrightarrow> F (log @ ext))"

lemma kept_const [kept_rules]: "kept (\<lambda>_. b)"
  by (simp add: kept_def)

lemma kept_conj [kept_rules]: "kept F \<Longrightarrow> kept G \<Longrightarrow> kept (\<lambda>l. F l \<and> G l)"
  by (simp add: kept_def)

lemma kept_disj [kept_rules]: "kept F \<Longrightarrow> kept G \<Longrightarrow> kept (\<lambda>l. F l \<or> G l)"
  by (auto simp: kept_def)

lemma kept_ex [kept_rules]: "(\<And>x. kept (F x)) \<Longrightarrow> kept (\<lambda>l. \<exists>x. F x l)"
  by (auto simp: kept_def)

lemma kept_mem [kept_rules]: "kept (\<lambda>l. c \<in> set l)"
  by (simp add: kept_def)

lemma kept_list_all [kept_rules]: "(\<And>x. kept (F x)) \<Longrightarrow> kept (\<lambda>l. list_all (\<lambda>x. F x l) xs)"
  by (auto simp: kept_def list_all_iff)

lemma kept_authorised [kept_rules]: "kept (gw_authorised task a)"
  unfolding gw_authorised_def [abs_def] by (intro kept_rules)

lemma kept_budgets [kept_rules]: "kept (budgets_granted us)"
proof -
  have "kept (\<lambda>log. case budget_usage_normalized u of
        Inl _ \<Rightarrow> False
      | Inr v \<Rightarrow> \<exists>d. GEvaluate (Budget (bu_kind v) (bu_amount v)) (Inr d) \<in> set log \<and> \<not> is_deny d)" for u
    by (cases "budget_usage_normalized u") (simp_all only: sum.case, (intro kept_rules)+)
  then show ?thesis unfolding budgets_granted_def [abs_def] by (intro kept_rules)
qed

lemma kept_secrets [kept_rules]: "kept (secrets_issued task bs)"
  unfolding secrets_issued_def [abs_def] by (intro kept_rules)

lemma kept_egress [kept_rules]: "kept (egress_settled task a)"
  unfolding egress_settled_def [abs_def] by (intro kept_rules)

text \<open>What a stage learns, added to what is known; \<open>learns m G\<close>: on success \<open>G\<close> holds.\<close>

definition known ::
  "(gw_call list \<Rightarrow> gw_call \<Rightarrow> bool) \<Rightarrow> (gw_call list \<Rightarrow> bool) \<Rightarrow> gw_call list \<Rightarrow> bool" where
  "known Q F log \<longleftrightarrow> each_call Q log \<and> F log"

definition learns :: "('e, 'a) gw \<Rightarrow> ('a \<Rightarrow> gw_call list \<Rightarrow> bool) \<Rightarrow> bool" where
  "learns m G \<longleftrightarrow> (\<forall>log x log'. m log = (Inr x, log') \<longrightarrow> G x log')"

abbreviation quiet_stage :: "('e, 'a) gw \<Rightarrow> bool" where
  "quiet_stage m \<equiv> appends (\<lambda>c. \<not> is_execute c) m"

lemma settled_quiet: "\<not> is_execute c \<Longrightarrow> execution_settled gx task pre c"
  by (cases c) auto

lemma learns_top: "learns m (\<lambda>_ _. True)"
  by (simp add: learns_def)

lemma learns_hoare: "learns m G \<longleftrightarrow> hoare (\<lambda>_. True) m G (\<lambda>_ _. True)"
  by (fastforce simp: learns_def hoare_def wp_def split: prod.splits sum.splits)

text \<open>
  The stages keep every property of calls that settled calls have, for any gateway that takes part.
\<close>

locale settling =
  fixes gx :: gateway and task :: resolved_task and Q :: "gw_call list \<Rightarrow> gw_call \<Rightarrow> bool"
  assumes settled_ok: "execution_settled gx task pre c \<Longrightarrow> Q pre c"
begin

lemma known_stage:
  assumes "quiet_stage m" and "kept F" and "learns m G"
  shows "hoare (known Q F) m (\<lambda>x. known Q (\<lambda>l. F l \<and> G x l)) (\<lambda>_. known Q F)"
proof -
  have "known Q F (snd (m log))" if "known Q F log" for log
  proof -
    from assms(1) obtain ext where "snd (m log) = log @ ext" "list_all (\<lambda>c. \<not> is_execute c) ext"
      unfolding appends_def by blast
    with that assms(2) each_call_append [of Q log] settled_ok [OF settled_quiet]
    show ?thesis unfolding known_def kept_def by metis
  qed
  with assms(3) show ?thesis
    unfolding hoare_def wp_def learns_def known_def
    by (auto split: prod.splits sum.splits) (metis snd_conv)+
qed

abbreviation settles :: "(gw_call list \<Rightarrow> bool) \<Rightarrow> ('e, 'a) gw \<Rightarrow> bool" where
  "settles F m \<equiv> hoare (known Q F) m (\<lambda>_. known Q (\<lambda>_. True)) (\<lambda>_. known Q (\<lambda>_. True))"

lemma known_weaken: "known Q F log \<Longrightarrow> (\<And>l. F l \<Longrightarrow> G l) \<Longrightarrow> known Q G log"
  by (simp add: known_def)

lemma settles_quiet: "quiet_stage m \<Longrightarrow> settles F m"
proof -
  assume "quiet_stage m"
  from known_stage [OF this kept_const learns_top, of True] show ?thesis
    by (rule hoare_conseq) (auto simp: known_def)
qed

lemma settles_stry:
  assumes "quiet_stage m" and "kept F" and "learns m G"
    and "\<And>e. settles F (h e)" and "\<And>x. settles (\<lambda>l. F l \<and> G x l) (f x)"
  shows "settles F (stry m h f)"
  by (rule hoare_stry [OF known_stage [OF assms(1-3)] assms(4,5)])

lemma settles_sbind:
  assumes "quiet_stage m" and "kept F" and "learns m G"
    and "\<And>x. settles (\<lambda>l. F l \<and> G x l) (f x)"
  shows "settles F (sbind m f)"
  unfolding sbind_def
  by (rule settles_stry [OF assms(1-3) settles_quiet assms(4)]) (rule append_rules)

end


section \<open>What the stages learn\<close>

lemma learns_sbind:
  assumes "learns m G" and "\<And>x. kept (G x)" and "\<And>x. quiet_stage (f x)" and "\<And>x. learns (f x) (H x)"
    and "\<And>x y l. G x l \<Longrightarrow> H x y l \<Longrightarrow> K y l"
  shows "learns (sbind m f) K"
  unfolding learns_def
proof (intro allI impI)
  fix log y log'
  assume "sbind m f log = (Inr y, log')"
  then obtain x l1 where m: "m log = (Inr x, l1)" and f: "f x l1 = (Inr y, log')"
    by (auto simp: sbind_def stry_def sfail_def split: prod.splits sum.splits)
  from assms(3) [of x] f obtain ext where "log' = l1 @ ext" unfolding appends_def by (metis snd_conv)
  moreover from assms(1) m have "G x l1" by (simp add: learns_def)
  ultimately have "G x log'" using assms(2) [of x] by (simp add: kept_def)
  moreover from assms(4) f have "H x y log'" by (simp add: learns_def)
  ultimately show "K y log'" by (rule assms(5))
qed

lemma learns_sreturn: "(\<And>l. G x l) \<Longrightarrow> learns (sreturn x) G"
  by (simp add: learns_def sreturn_def)

lemma learns_value: "learns (sreturn x) (\<lambda>y _. y = x)"
  by (rule learns_sreturn) simp

lemma learns_sfail: "learns (sfail e) G"
  by (simp add: learns_def sfail_def)

lemma learns_slift: "learns (slift r) (\<lambda>x _. r = Inr x)"
  by (simp add: learns_def slift_def)

lemma learns_gcall: "learns (gcall resp mk) (\<lambda>x l. mk (Inr x) \<in> set l)"
  by (auto simp: learns_def gcall_def Let_def)

lemma learns_record: "learns (gw_record env e) (\<lambda>_ l. GAudit e (Inr ()) \<in> set l)"
  unfolding gw_record_def using learns_gcall [of _ "GAudit e"] by (simp add: learns_def)

lemma learns_record_now: "learns (gw_record_now env mk) (\<lambda>_ l. \<exists>t. GAudit (mk t) (Inr ()) \<in> set l)"
  using learns_record by (fastforce simp: learns_def gw_record_now_def)

lemmas kept_mem_ex = kept_ex [OF kept_mem]

definition decided :: "resolved_task \<Rightarrow> action \<Rightarrow> action_decision \<Rightarrow> gw_call list \<Rightarrow> bool" where
  "decided task a d log \<longleftrightarrow>
     GEvaluate a (Inr d) \<in> set log \<and> (\<exists>t. GAudit (PolicyDecision (rt_id task) t a d) (Inr ()) \<in> set log)"

definition approved :: "action \<Rightarrow> action_decision \<Rightarrow> gw_call list \<Rightarrow> bool" where
  "approved a d log \<longleftrightarrow>
     (\<exists>req res. GRequest a d (Inr req) \<in> set log \<and> GWait (ar_id req) (Inr res) \<in> set log
        \<and> ar_decision res = Some Approved)"

lemma kept_decided [kept_rules]: "kept (decided task a d)"
  unfolding decided_def [abs_def] by (intro kept_rules)

lemma kept_approved [kept_rules]: "kept (approved a d)"
  unfolding approved_def [abs_def] by (intro kept_rules)

lemma authorised_iff:
  "gw_authorised task a log \<longleftrightarrow>
   (\<exists>d. decided task a d log \<and> (is_allow d \<or> needs_approval d \<and> approved a d log))"
  unfolding gw_authorised_def decided_def approved_def by blast

lemma learns_decision: "learns (audited_decision env task a) (\<lambda>d. decided task a d)"
  unfolding audited_decision_def
  by (rule learns_sbind [OF learns_gcall kept_mem _ learns_sbind
          [where K = "\<lambda>y l. y = d \<and> (\<exists>t. GAudit (PolicyDecision (rt_id task) t a d) (Inr ()) \<in> set l)" for d,
           OF learns_record_now kept_mem_ex _ learns_value]])
    (auto intro: append_rules quiet.record_now simp: decided_def)

lemma learns_approval: "learns (request_tool_approval env gx task a d) (\<lambda>_. approved a d)"
proof (cases "gx_approval gx")
  case True
  have last: "learns (sbind (gw_record env (ApprovalResolved res)) (\<lambda>_.
      if ar_decision res = Some Approved then sreturn res
      else sfail (Approval ''gateway tool approval denied or timed out'')))
    (\<lambda>_ _. ar_decision res = Some Approved)" for res
    by (rule learns_sbind [OF learns_record kept_mem])
      (auto intro: append_rules learns_sreturn learns_sfail)
  have wait: "learns (sbind (gw_record env (ApprovalRequested req)) (\<lambda>_.
      sbind (gcall (\<lambda>h. ge_wait env h (ar_id req)) (GWait (ar_id req))) (\<lambda>res.
      sbind (gw_record env (ApprovalResolved res)) (\<lambda>_.
        if ar_decision res = Some Approved then sreturn res
        else sfail (Approval ''gateway tool approval denied or timed out'')))))
    (\<lambda>_ l. \<exists>res. GWait (ar_id req) (Inr res) \<in> set l \<and> ar_decision res = Some Approved)" for req
    by (rule learns_sbind [OF learns_record kept_mem _ learns_sbind [OF learns_gcall kept_mem _ last]])
      (auto intro!: append_rules quiet.recording quiet.call)
  show ?thesis
    unfolding request_tool_approval_def
    using True
    by (simp, intro learns_sbind [OF learns_gcall kept_mem _ wait])
      (auto intro!: append_rules quiet.recording quiet.call simp: approved_def)
qed (simp add: request_tool_approval_def learns_sfail)

definition mediated :: "gateway \<Rightarrow> resolved_task \<Rightarrow> gateway_mediation \<Rightarrow> gw_call list \<Rightarrow> bool" where
  "mediated gx task m log \<longleftrightarrow>
     admitted gx (gm_action m) \<and> decided task (ToolCall (gm_action m)) (gm_decision m) log
     \<and> (gm_approval m = None \<or>
         needs_approval (gm_decision m) \<and> approved (ToolCall (gm_action m)) (gm_decision m) log)"

lemma kept_mediated [kept_rules]: "kept (mediated gx task m)"
  unfolding mediated_def [abs_def] by (intro kept_rules)

lemma learns_refuse: "learns (refuse env task err m) G"
  unfolding refuse_def
  by (rule learns_sbind [OF learns_record_now kept_mem_ex _ learns_sfail [where G = "\<lambda>_ _. False"]])
    (auto intro: append_rules)

lemma learns_protocol: "learns (check_protocol env gx task a) (\<lambda>_ _. ta_protocol a \<in> set (gx_protocols gx))"
  unfolding check_protocol_def Let_def by (auto intro: learns_sreturn learns_refuse)

lemma learns_registry:
  "learns (check_registry env gx task a)
     (\<lambda>_ _. case gx_registry gx of None \<Rightarrow> True | Some r \<Rightarrow> registry_contains r a = Inr True)"
proof (cases "gx_registry gx")
  case (Some r)
  have "learns (sbind (slift (tool_key_from_action a)) (\<lambda>key.
      let message = ''gateway tool action is not registered: '' @ tool_key_display key
      in refuse env task (Gateway message) message)) (\<lambda>_ _. False)"
    unfolding Let_def
    by (rule learns_sbind [OF learns_slift kept_const _ learns_refuse [where G = "\<lambda>_ _. False"]])
      (auto intro: quiet.refused)
  then have "learns (if known then sreturn () else sbind (slift (tool_key_from_action a)) (\<lambda>key.
      let message = ''gateway tool action is not registered: '' @ tool_key_display key
      in refuse env task (Gateway message) message)) (\<lambda>_ _. known)" for known
    by (cases known) (simp_all add: learns_sreturn)
  with Some show ?thesis
    unfolding check_registry_def
    by (simp, intro learns_sbind [OF learns_slift kept_const, where H = "\<lambda>known _ _. known"])
      (auto intro!: append_rules quiet.refused simp: Let_def)
qed (simp add: check_registry_def learns_sreturn)

lemma learns_registered:
  "learns m K \<Longrightarrow> quiet_stage m \<Longrightarrow> learns (sbind (check_registry env gx task b) (\<lambda>_. m)) (\<lambda>x l.
     (case gx_registry gx of None \<Rightarrow> True | Some r \<Rightarrow> registry_contains r b = Inr True) \<and> K x l)"
  by (rule learns_sbind [OF learns_registry kept_const]) simp_all

lemma learns_supported:
  "learns m K \<Longrightarrow> quiet_stage m \<Longrightarrow> learns (sbind (check_protocol env gx task b) (\<lambda>_. m)) (\<lambda>x l.
     ta_protocol b \<in> set (gx_protocols gx) \<and> K x l)"
  by (rule learns_sbind [OF learns_protocol kept_const]) simp_all

lemma learns_mediation: "learns (mediate_tool_action env gx task a) (mediated gx task)"
proof -
  have optional: "learns (if needs_approval d \<and> gx_approval gx
        then sbind (request_tool_approval env gx task a' d) (\<lambda>r. sreturn (Some r)) else sreturn None)
      (\<lambda>r l. r = None \<or> needs_approval d \<and> approved a' d l)" for a' d
    by (auto intro!: learns_sreturn learns_sbind [OF learns_approval kept_approved _
          learns_sreturn [where G = "\<lambda>_ _. True"]] append_rules)
  have decide: "learns (sbind (audited_decision env task (ToolCall b)) (\<lambda>d.
      sbind (if needs_approval d \<and> gx_approval gx
             then sbind (request_tool_approval env gx task (ToolCall b) d) (\<lambda>r. sreturn (Some r))
             else sreturn None) (\<lambda>ap.
        sreturn \<lparr>gm_action = b, gm_decision = d, gm_approval = ap\<rparr>)))
    (\<lambda>m l. gm_action m = b \<and> decided task (ToolCall b) (gm_decision m) l
       \<and> (gm_approval m = None \<or> needs_approval (gm_decision m)
           \<and> approved (ToolCall b) (gm_decision m) l))" for b
    by (rule learns_sbind [OF learns_decision kept_decided _ learns_sbind
          [where K = "\<lambda>m l. gm_action m = b \<and> gm_decision m = d \<and> (gm_approval m = None \<or>
             needs_approval d \<and> approved (ToolCall b) d l)" for d, OF optional _ _ learns_value]])
      (auto intro!: append_rules kept_rules quiet.approval)
  show ?thesis
    unfolding mediate_tool_action_def
    by (rule learns_sbind [OF learns_slift kept_const _ learns_supported [OF learns_registered [OF decide]]])
      (auto intro!: append_rules quiet.registry quiet.decision quiet.approval quiet.protocol
        simp: mediated_def admitted_def normalize_tool_action_normal)
qed

text \<open>The budget, egress and secret stages.\<close>

lemma learns_budgets_from:
  "learns (record_budget_usages_from env task denial us)
     (\<lambda>r l. r = None \<longrightarrow> denial = None \<and> budgets_granted us l)"
proof (induction us arbitrary: denial)
  case (Cons u us)
  show ?case
  proof (cases "budget_usage_normalized u")
    case (Inr v)
    have rest: "learns (sbind (gw_record_now env mk) (\<lambda>_. record_budget_usages_from env task dn us))
        (\<lambda>r l. r = None \<longrightarrow> dn = None \<and> budgets_granted us l)" for dn mk
      by (rule learns_sbind [OF learns_top kept_const _ Cons.IH]) (auto intro: quiet.budgets_from)
    from Inr show ?thesis
      by (simp, intro learns_sbind [OF learns_decision kept_decided _ rest])
        (auto intro!: append_rules quiet.record_now quiet.budgets_from
          simp: budgets_granted_def decided_def split: option.splits action_decision.splits)
  qed (auto intro: learns_sreturn)
qed (auto intro: learns_sreturn simp: budgets_granted_def)

lemma learns_budgets:
  "learns (record_budget_usages env task us) (\<lambda>r l. r = None \<longrightarrow> budgets_granted us l)"
  using learns_budgets_from [of env task None us] by (simp add: record_budget_usages_def)

lemma learns_egress:
  "learns (enforce_gateway_egress_policy env gx task a) (\<lambda>r l. r = None \<longrightarrow> egress_settled task a l)"
proof (cases "is_gateway_egress_action a")
  case True
  show ?thesis
  proof (cases "gateway_egress_destination a")
    case (Inr e)
    let ?w = "Network (ed_host e) (ed_port e)"
    have granted: "learns (stry (request_tool_approval env gx task ?w d)
        (\<lambda>err. sreturn (Some (tool_execution_error_from_taskfence err))) (\<lambda>_. sreturn None))
      (\<lambda>r l. r = None \<longrightarrow> approved ?w d l)" for d
      using learns_approval [of env gx task ?w d]
      by (fastforce simp: learns_def stry_def sreturn_def split: prod.splits sum.splits)
    have answer: "learns (case d of Allow x y \<Rightarrow> sreturn None
        | Deny x reason \<Rightarrow> sreturn (Some (exec_error PolicyDenied reason))
        | RequireApproval x y z w \<Rightarrow>
            if \<not> gx_approval gx
            then sreturn (Some (exec_error ApprovalDeniedOrTimedOut
                   ''gateway egress approval engine is not configured''))
            else stry (request_tool_approval env gx task ?w d)
                   (\<lambda>err. sreturn (Some (tool_execution_error_from_taskfence err)))
                   (\<lambda>_. sreturn None))
      (\<lambda>r l. r = None \<longrightarrow> is_allow d \<or> needs_approval d \<and> approved ?w d l)" for d
      using granted by (cases d) (auto intro: learns_sreturn)
    from True Inr show ?thesis
      unfolding enforce_gateway_egress_policy_def Let_def
      by (simp, intro learns_sbind [OF learns_decision kept_decided _ answer])
        (auto intro!: append_rules quiet.approval split: action_decision.split
          simp: egress_settled_def authorised_iff)
  qed (use True in \<open>auto simp: enforce_gateway_egress_policy_def intro: learns_sreturn\<close>)
qed (auto simp: enforce_gateway_egress_policy_def egress_settled_def intro: learns_sreturn)

lemma learns_secret:
  "learns (gateway_secret_reference env task n sc) (\<lambda>ref l.
     \<exists>name scope. GIssue name scope (Inr ref) \<in> set l \<and> ensure_secret_grant task name scope = Inr ())"
  unfolding gateway_secret_reference_def
  by (rule learns_sbind [OF learns_slift kept_const _ learns_sbind [OF learns_slift kept_const _
        learns_sbind [OF learns_slift kept_const _ learns_gcall]]])
    (auto intro!: append_rules quiet.call)

lemma attach_secret_reference_normal:
  assumes "normal_action a" and "attach_secret_reference a n ref = Inr a'"
  shows "normal_action a' \<and>
    a' = a\<lparr>ta_parameters := bt_insert (trim n) (as_redacted_value ref) (ta_parameters a)\<rparr>"
  using assms normal_action_insert [of a "trim n"]
  by (auto simp: attach_secret_reference_def Let_def normalize_tool_action_fixed split: if_splits)

lemma learns_secrets:
  "normal_action a \<Longrightarrow> learns (attach_secrets env task a bs refs) (\<lambda>x l.
     \<exists>new. snd x = bs @ new \<and> fst x = attached a new \<and> secrets_issued task new l)"
proof (induction refs arbitrary: a bs)
  case (Cons ref refs)
  let ?b = "\<lambda>reference. \<lparr>sb_parameter = sr_parameter ref, sb_reference = reference\<rparr>"
  have rest: "learns (sbind (slift (attach_secret_reference a (sr_parameter ref) reference)) (\<lambda>a'.
      attach_secrets env task a' (bs @ [?b reference]) refs)) (\<lambda>x l.
      \<exists>new. snd x = bs @ ?b reference # new \<and> fst x = attached a (?b reference # new)
        \<and> secrets_issued task new l)" for reference
  proof (cases "attach_secret_reference a (sr_parameter ref) reference")
    case (Inr a')
    note a' = attach_secret_reference_normal [OF Cons.prems this]
    then have "attached a (?b reference # new) = attached a' new" for new by simp
    with Cons.IH [OF conjunct1 [OF a'], of "bs @ [?b reference]"] Inr
    show ?thesis by (simp add: learns_def slift_def sbind_def stry_def del: attached.simps)
  qed (simp add: learns_def slift_def sbind_def stry_def sfail_def)
  show ?case
    unfolding attach_secrets.simps
    by (rule learns_sbind [OF learns_secret _ _ rest])
      ((auto intro!: append_rules kept_rules quiet.secrets simp: secrets_issued_def)[3], auto simp: secrets_issued_def)
qed (auto intro!: learns_sreturn simp: secrets_issued_def)

lemma learns_configured:
  assumes "normal_action (tr_action request)"
  shows "learns (attach_configured_secret_references env gx task request) (\<lambda>x l.
    tr_action (fst x) = attached (tr_action request) (snd x) \<and> secrets_issued task (snd x) l)"
  using learns_secrets [OF assms, of env task "[]" "gx_secret_refs gx"]
  unfolding attach_configured_secret_references_def
  by (auto simp: learns_def sreturn_def sfail_def stry_def secrets_issued_def
      split: prod.splits sum.splits)

section \<open>Nothing runs unless everything is settled\<close>

definition ready ::
  "gateway \<Rightarrow> resolved_task \<Rightarrow> tool_action \<Rightarrow> budget_usage list \<Rightarrow> gw_call list \<Rightarrow> bool" where
  "ready gx task a us log \<longleftrightarrow>
     admitted gx a \<and> gw_authorised task (ToolCall a) log \<and> GPlan a (Inr us) \<in> set log
     \<and> budgets_granted us log \<and> egress_settled task a log"

lemma kept_ready [kept_rules]: "kept (ready gx task a us)"
  unfolding ready_def [abs_def] by (intro kept_rules)

definition cleared ::
  "gateway \<Rightarrow> resolved_task \<Rightarrow> tool_action \<Rightarrow> gw_call list \<Rightarrow> bool" where
  "cleared gx task a log \<longleftrightarrow> admitted gx a \<and> gw_authorised task (ToolCall a) log"

lemma kept_cleared [kept_rules]: "kept (cleared gx task a)"
  unfolding cleared_def [abs_def] by (intro kept_rules)

context settling begin

lemma settles_adapter:
  assumes "tr_action request = attached a bs"
  shows "settles (\<lambda>l. ready gx task a us l \<and> secrets_issued task bs l)
    (run_adapter env task context request bs)"
proof -
  let ?F = "\<lambda>l. ready gx task a us l \<and> secrets_issued task bs l"
  let ?G = "\<lambda>l. ?F l \<and> started_last task (tr_action request) l"
  have start: "hoare (known Q ?F)
      (gw_record_now env (\<lambda>t. ToolExecutionStarted (rt_id task) t request))
      (\<lambda>_. known Q ?G) (\<lambda>_. known Q (\<lambda>_. True))"
  proof -
    have "learns (gw_record_now env (\<lambda>t. ToolExecutionStarted (rt_id task) t request))
        (\<lambda>_. started_last task (tr_action request))"
      by (auto simp: learns_def gw_record_now_def gw_record_def gcall_def started_last_def Let_def)
    from known_stage [where F = ?F, OF quiet.record_now _ this] show ?thesis
      by (rule hoare_conseq) (auto intro: kept_rules simp: known_def)
  qed
  have executed: "Q l (GExecute (tr_action request) bs r)" if "?G l" for l r
  proof (rule settled_ok)
    from that assms show "execution_settled gx task l (GExecute (tr_action request) bs r)"
      by (auto simp: ready_def)
  qed
  have run: "hoare (known Q ?G)
      (gcall (\<lambda>h. ge_execute env h task (tr_action request) context bs) (GExecute (tr_action request) bs))
      (\<lambda>_. known Q (\<lambda>_. True)) (\<lambda>_. known Q (\<lambda>_. True))"
    using executed
    by (auto simp: hoare_def wp_def gcall_def Let_def known_def each_call_snoc split: sum.splits)
  show ?thesis
    unfolding run_adapter_def
    by (rule hoare_sbind [OF start hoare_sbind [OF hoare_stry [OF run]]])
      (auto intro!: settles_quiet append_rules quiet.budgets quiet.record_now simp: record_finished_def)
qed


lemma settles_error: "settles F (gw_finish_error env task request err)"
  unfolding gw_finish_error_def record_finished_def
  by (intro settles_quiet append_rules quiet.record_now) simp_all

lemma settles_weaken:
  "settles G m \<Longrightarrow> (\<And>l. F l \<Longrightarrow> G l) \<Longrightarrow> settles F m"
  by (erule hoare_conseq) (auto simp: known_def)

lemma settles_secrets:
  assumes "normal_action (tr_action request)"
  shows "settles (ready gx task (tr_action request) us) (bind_secrets env gx task context request)"
  unfolding bind_secrets_def
proof (rule settles_stry [OF quiet.configured_secrets kept_ready learns_configured [OF assms] settles_error],
    clarify)
  fix request' bs
  show "settles (\<lambda>l. ready gx task (tr_action request) us l
      \<and> tr_action (fst (request', bs)) = attached (tr_action request) (snd (request', bs))
      \<and> secrets_issued task (snd (request', bs)) l) (run_adapter env task context request' bs)"
    using settles_adapter [of request' "tr_action request" bs us env "context"]
    by (cases "tr_action request' = attached (tr_action request) bs")
      (auto simp: hoare_def known_def)
qed

lemma settles_egress:
  assumes "normal_action (tr_action request)"
  shows "settles (\<lambda>l. (cleared gx task (tr_action request) l
      \<and> GPlan (tr_action request) (Inr us) \<in> set l) \<and> budgets_granted us l)
    (check_egress env gx task context request)"
  unfolding check_egress_def
proof (rule settles_sbind [OF quiet.egress _ learns_egress])
  fix denial
  show "settles (\<lambda>l. ((cleared gx task (tr_action request) l
      \<and> GPlan (tr_action request) (Inr us) \<in> set l) \<and> budgets_granted us l)
      \<and> (denial = None \<longrightarrow> egress_settled task (tr_action request) l))
    (case denial of Some err \<Rightarrow> gw_finish_error env task request err
      | None \<Rightarrow> bind_secrets env gx task context request)"
    by (cases denial) (auto intro!: settles_error settles_weaken [OF settles_secrets [OF assms, where us = us]]
        simp: ready_def cleared_def)
qed (intro kept_rules)

lemma settles_budget:
  assumes "normal_action (tr_action request)"
  shows "settles (cleared gx task (tr_action request)) (check_planned_budget env gx task context request)"
  unfolding check_planned_budget_def
proof (rule settles_stry [OF quiet.call kept_cleared learns_gcall settles_error],
    goal_cases plan usages)
  case (usages us)
  show ?case
  proof (rule settles_sbind [OF quiet.budgets _ learns_budgets])
    fix denial
    show "settles (\<lambda>l. (cleared gx task (tr_action request) l
        \<and> GPlan (tr_action request) (Inr us) \<in> set l) \<and> (denial = None \<longrightarrow> budgets_granted us l))
      (case denial of Some err \<Rightarrow> gw_finish_error env task request err
        | None \<Rightarrow> check_egress env gx task context request)"
      by (cases denial) (auto intro!: settles_error settles_weaken [OF settles_egress [OF assms, where us = us]])
  qed (intro kept_rules)
qed simp

lemma settles_mediated:
  "settles (mediated gx task mediation) (execute_mediated env gx task context mediation)"
proof (cases "normal_action (gm_action mediation)")
  case True
  then have checked: "settles (mediated gx task mediation)
      (check_planned_budget env gx task context (gx_request gx (gm_action mediation)))"
    if "is_allow (gm_decision mediation) \<or> gm_approval mediation \<noteq> None"
    by (intro settles_weaken [OF settles_budget])
      (use that in \<open>auto simp: gx_request_def mediated_def cleared_def authorised_iff\<close>)
  then show ?thesis
    unfolding execute_mediated_def Let_def
    by (cases "gm_decision mediation") (auto intro: settles_error)
qed (simp add: hoare_def known_def mediated_def admitted_def)

lemma settles_execute: "settles (\<lambda>_. True) (execute_tool_action env gx task action context)"
  unfolding execute_tool_action_def
  by (rule settles_stry [OF quiet.mediation kept_const learns_mediation settles_error])
    (use settles_mediated in \<open>simp\<close>)

lemma execute_keeps: "preserves (each_call Q) (execute_tool_action env gx task action context)"
  using settles_execute unfolding preserves_def hoare_def known_def by auto

end

interpretation exact: settling gx task "execution_settled gx task" for gx task
  by standard

text \<open>The same without saying for which gateway.\<close>

definition somehow_settled :: "resolved_task \<Rightarrow> gw_call list \<Rightarrow> gw_call \<Rightarrow> bool" where
  "somehow_settled task pre c \<longleftrightarrow> (\<exists>gx. execution_settled gx task pre c)"

interpretation somehow: settling gx task "somehow_settled task" for gx task
  by standard (auto simp: somehow_settled_def)

lemma each_execution_settled:
  "each_call (execution_settled gx task) (snd (execute_tool_action env gx task action context []))"
  by (rule preservesD [OF exact.execute_keeps _ prod.collapse [symmetric]]) simp

text \<open>
  C7: The gateway never calls an adapter before everything about the call is settled and logged.
  Whatever the policy engine, the approval engine, the secret broker and the adapter answer: at
  every adapter call, the action is normalised, of a supported protocol and registered; an audited
  policy decision allows it, or demanded an approval that was requested for it and given; the
  adapter's own plan was obtained and the policy denied none of its budget usages; the destination
  of an egress was decided like any network access; every secret that is bound was granted to
  the task and issued by the broker, and its parameter holds only the redacted reference; and the
  start of exactly this call is the last event of the audit trail.
\<close>

theorem adapter_call_settled:
  "each_call (execution_settled gx task) (snd (execute_tool_action env gx task action context []))"
  by (rule each_execution_settled)


section \<open>What the whole run logs\<close>

text \<open>A contract for the adapter call and the two tool events extends that of the other stages.\<close>

locale gw_logging = gw_appending +
  assumes start: "ok_event (ToolExecutionStarted tid t req)"
    and finish: "ok_event (ToolExecutionFinished tid t ex)"
    and execute: "p (GExecute a bs r)"
begin

lemma any_event: "ok_event e"
  using ok_other [of e] start finish by blast

lemma finished: "appends p (record_finished env task ex)"
  unfolding record_finished_def by (intro append_rules record_now finish)

lemma error: "appends p (gw_finish_error env task request err)"
  unfolding gw_finish_error_def by (rule finished)

lemma adapter: "appends p (run_adapter env task ctx request bs)"
  unfolding run_adapter_def by (intro append_rules record_now any_event call execute budgets finished)

lemma after_egress: "appends p (check_egress env gx task ctx request)"
  unfolding check_egress_def bind_secrets_def
  by (auto intro!: append_rules egress error configured_secrets adapter split: option.split)

lemma planned: "appends p (check_planned_budget env gx task ctx request)"
  unfolding check_planned_budget_def
  by (intro append_rules call plan error)
    (auto intro!: append_rules budgets error after_egress split: option.split)

lemma whole: "appends p (execute_tool_action env gx task action ctx)"
  unfolding execute_tool_action_def execute_mediated_def Let_def
  by (auto intro!: append_rules mediation error planned split: action_decision.split)

end

text \<open>Every decision and plan in the log is an answer of the environment for the task.\<close>

fun env_answer :: "gw_env \<Rightarrow> resolved_task \<Rightarrow> gw_call \<Rightarrow> bool" where
  "env_answer env task (GEvaluate a r) = (\<exists>h. r = ge_evaluate env h task a)"
| "env_answer env task (GPlan a r) = (\<exists>h ctx. r = ge_plan env h task a ctx)"
| "env_answer env task c = True"

interpretation honest: gw_logging env task "env_answer env task" "\<lambda>_. True" for env task
  by standard auto

lemma logged_answer:
  "c \<in> set (snd (execute_tool_action env gx task action ctx [])) \<Longrightarrow> env_answer env task c"
proof -
  from honest.whole [of env task gx action ctx] obtain ext
    where "snd (execute_tool_action env gx task action ctx []) = ext" "list_all (env_answer env task) ext"
    unfolding appends_def by (metis append_Nil)
  then show "c \<in> set (snd (execute_tool_action env gx task action ctx [])) \<Longrightarrow> ?thesis"
    by (auto simp: list_all_iff)
qed

lemma logged_decision:
  assumes "GEvaluate a (Inr d) \<in> set (snd (execute_tool_action env gx task action ctx []))"
  obtains h where "ge_evaluate env h task a = Inr d"
  using logged_answer [OF assms] that by (metis env_answer.simps(1))

lemma logged_plan:
  assumes "GPlan a (Inr us) \<in> set (snd (execute_tool_action env gx task action ctx []))"
  obtains h ctx' where "ge_plan env h task a ctx' = Inr us"
  using logged_answer [OF assms] that by (metis env_answer.simps(2))

section \<open>Under the built-in policy\<close>

text \<open>The policy permits an action: it allows it, or its required approval was given before.\<close>

definition permitted :: "glob_compiler \<Rightarrow> resolved_task \<Rightarrow> gw_call list \<Rightarrow> action \<Rightarrow> bool" where
  "permitted glob task pre a \<longleftrightarrow>
     (case evaluate glob task a of
        Inl err \<Rightarrow> False
      | Inr d \<Rightarrow> is_allow d \<or> needs_approval d \<and> approved a d pre)"

fun executed_under :: "glob_compiler \<Rightarrow> resolved_task \<Rightarrow> gw_call list \<Rightarrow> gw_call \<Rightarrow> bool" where
  "executed_under glob task pre (GExecute a bs r) =
     (\<exists>a0. a = attached a0 bs \<and> permitted glob task pre (ToolCall a0) \<and>
        (is_gateway_egress_action a0 \<longrightarrow>
           (\<exists>d. gateway_egress_destination a0 = Inr d \<and>
              permitted glob task pre (Network (ed_host d) (ed_port d)) \<and>
              (np_default (pm_network (rt_permissions task)) = NetAllow \<or>
               to_lower (ed_host d) \<in> set (np_allow_domains (pm_network (rt_permissions task)))))))"
| "executed_under glob task pre c = True"

lemma somehow_settledI: "execution_settled gx task pre c \<Longrightarrow> somehow_settled task pre c"
  by (auto simp: somehow_settled_def)

lemma permitted_network:
  "permitted glob task pre (Network h port) \<Longrightarrow>
   np_default (pm_network (rt_permissions task)) = NetAllow \<or>
   to_lower h \<in> set (np_allow_domains (pm_network (rt_permissions task)))"
  using builtin.network_allow_cases [of glob task h port]
  by (auto simp: permitted_def granting_not_deny simp del: evaluate.simps split: sum.splits)

lemma settled_obeys_policy:
  assumes "somehow_settled task pre c"
    and "\<And>a d. GEvaluate a (Inr d) \<in> set pre \<Longrightarrow> evaluate glob task a = Inr d"
  shows "executed_under glob task pre c"
proof (cases c)
  case (GExecute a bs r)
  with assms(1) obtain a0 where a: "a = attached a0 bs" and call: "gw_authorised task (ToolCall a0) pre"
    and egress: "egress_settled task a0 pre" by (auto simp: somehow_settled_def)
  have authorised: "permitted glob task pre b" if "gw_authorised task b pre" for b
    using that assms(2) unfolding gw_authorised_def approved_def permitted_def by fastforce
  from egress authorised permitted_network have "is_gateway_egress_action a0 \<longrightarrow>
      (\<exists>d. gateway_egress_destination a0 = Inr d \<and>
         permitted glob task pre (Network (ed_host d) (ed_port d)) \<and>
         (np_default (pm_network (rt_permissions task)) = NetAllow \<or>
          to_lower (ed_host d) \<in> set (np_allow_domains (pm_network (rt_permissions task)))))"
    unfolding egress_settled_def by blast
  with a authorised [OF call] show ?thesis unfolding GExecute executed_under.simps by blast
qed simp_all

text \<open>
  The task file rules what the gateway runs. When the gateway uses the built-in policy engine,
  it calls an adapter only with a tool action that the engine allows for the task, or whose
  required approval was given; and a gateway egress goes only to a destination whose host is on
  the task's allowlist (or the network is open by default) and that the engine permits, with the
  approval it demands.
\<close>

theorem policy_rules_what_gateway_runs:
  assumes "\<forall>h a. ge_evaluate env h task a = evaluate glob task a"
  shows "each_call (executed_under glob task) (snd (execute_tool_action env gx task action ctx []))"
    (is "each_call _ ?log")
proof (rule each_call_mono [OF each_execution_settled])
  fix pre c
  assume p: "prefix (pre @ [c]) ?log" and s: "execution_settled gx task pre c"
  have "evaluate glob task a = Inr d" if "GEvaluate a (Inr d) \<in> set pre" for a d
  proof -
    from that p have "GEvaluate a (Inr d) \<in> set ?log" by (auto simp: prefix_def)
    then show ?thesis using assms by (metis logged_decision)
  qed
  with somehow_settledI [OF s] show "executed_under glob task pre c" by (rule settled_obeys_policy)
qed

theorem policy_rules_what_gateway_runs_witness:
  "each_call (executed_under exact_glob sample_task) (snd (sample_gw_run ''read_issue''))"
  by (rule policy_rules_what_gateway_runs) (simp add: sample_gw_env_def)

end
