(* ===== verification/Gateway_GitHub.thy ===== *)
theory Gateway_GitHub
  imports Gateway_Safety
begin

text \<open>
  The GitHub connector (\<open>UreqGitHubClient\<close>, \<open>GitHubRestAdapter\<close> in
  \<open>crates/taskfence-gateway/src/lib.rs\<close>). The HTTP library answers through a response function
  that sees the history of the adapter's calls; base64 is a parameter.
\<close>

section \<open>What adapters do to the world\<close>

record web_request =
  wr_method :: string
  wr_url :: string
  wr_token :: string
  wr_body :: "json option"

text \<open>A reply of the HTTP library: the status and the body as JSON or the parse error, or its error.\<close>

datatype web_reply =
    WebOk u16 "string + json"
  | WebStatus u16 "string option"
  | WebTransport string

text \<open>HTTP requests, egress fetches, SQL texts, new directories and written files.\<close>

datatype adapter_call =
    AHttp web_request
  | AFetch string string
  | ASql string string
  | AMkdir path
  | AWrite path string

type_synonym 'a net = "adapter_call list \<Rightarrow> (tool_execution_error + 'a) \<times> adapter_call list"

type_synonym web = "adapter_call list \<Rightarrow> web_request \<Rightarrow> web_reply"

definition acall :: "(adapter_call list \<Rightarrow> 'a exec_result) \<Rightarrow> adapter_call \<Rightarrow> 'a net" where
  "acall resp c log = (resp log, log @ [c])"

lemma appends_acall [append_rules]: "p c \<Longrightarrow> appends p (acall resp c)"
  by (simp add: appends_def acall_def)

section \<open>JSON fields\<close>

text \<open>\<open>serde_json::Value::get\<close>, \<open>as_str\<close>, \<open>as_u64\<close>; \<open>json!\<close> builds sorted objects.\<close>

fun json_get :: "json \<Rightarrow> string \<Rightarrow> json option" where
  "json_get (JObject entries) key = bt_get entries key"
| "json_get _ key = None"

fun json_as_str :: "json \<Rightarrow> string option" where
  "json_as_str (JString s) = Some s"
| "json_as_str _ = None"

fun json_as_u64 :: "json \<Rightarrow> u64 option" where
  "json_as_u64 (JNumber s) =
     (if list_all is_digit s then map_option word_of_nat (parse_uint (2 ^ 64) s) else None)"
| "json_as_u64 _ = None"

definition json_object :: "(string \<times> json) list \<Rightarrow> json" where
  "json_object entries = JObject (bt_of_list entries)"

definition json_string_field :: "json \<Rightarrow> string \<Rightarrow> string" where
  "json_string_field value key =
     (case Option.bind (json_get value key) json_as_str of Some s \<Rightarrow> s | None \<Rightarrow> [])"

definition json_u64_field :: "json \<Rightarrow> string \<Rightarrow> u64 option" where
  "json_u64_field value key = Option.bind (json_get value key) json_as_u64"

definition u64_text :: "u64 \<Rightarrow> string" where
  "u64_text n = dec_digits (unat n)"

definition or_default :: "'a \<Rightarrow> 'a option \<Rightarrow> 'a" where
  "or_default d x = (case x of Some v \<Rightarrow> v | None \<Rightarrow> d)"

section \<open>The HTTP client\<close>

definition github_api_url :: "string \<Rightarrow> string \<Rightarrow> string" where
  "github_api_url api_base path =
     trim_end_char CHR ''/'' api_base @ ''/'' @ trim_start_char CHR ''/'' path"

fun github_reply :: "web_reply \<Rightarrow> json exec_result" where
  "github_reply (WebOk _ (Inr value)) = Inr value"
| "github_reply (WebOk _ (Inl err)) =
     Inl (exec_error AdapterFailed (''failed to parse GitHub response: '' @ err))"
| "github_reply (WebStatus status body) =
     Inl (exec_error AdapterFailed
       (''GitHub API returned HTTP '' @ dec_digits (unat status) @ '': '' @
        gateway_redact_secret_like_text
          (or_default ''unable to read GitHub error response'' body)))"
| "github_reply (WebTransport transport) =
     Inl (exec_error AdapterFailed (''GitHub API transport failed: '' @ transport))"

definition github_send :: "web \<Rightarrow> string \<Rightarrow> string \<Rightarrow> string \<Rightarrow> json option \<Rightarrow> json net" where
  "github_send web m url token body =
     (let request = \<lparr>wr_method = m, wr_url = url, wr_token = token, wr_body = body\<rparr>
      in acall (\<lambda>h. github_reply (web h request)) (AHttp request))"

definition github_get_json :: "web \<Rightarrow> string \<Rightarrow> string \<Rightarrow> json net" where
  "github_get_json web url token = github_send web ''GET'' url token None"

definition github_post_json :: "web \<Rightarrow> string \<Rightarrow> string \<Rightarrow> json \<Rightarrow> json net" where
  "github_post_json web url token body = github_send web ''POST'' url token (Some body)"

definition github_patch_json :: "web \<Rightarrow> string \<Rightarrow> string \<Rightarrow> json \<Rightarrow> json net" where
  "github_patch_json web url token body = github_send web ''PATCH'' url token (Some body)"

definition github_put_json :: "web \<Rightarrow> string \<Rightarrow> string \<Rightarrow> json \<Rightarrow> json net" where
  "github_put_json web url token body = github_send web ''PUT'' url token (Some body)"

record github_issue =
  gi_number :: u64
  gi_title :: string
  gi_state :: string
  gi_body :: string
  gi_html_url :: string

record github_pull_request_input =
  gpi_title :: string
  gpi_head :: string
  gpi_base :: string
  gpi_body :: string

record github_pull_request =
  gp_number :: u64
  gp_title :: string
  gp_state :: string
  gp_html_url :: string

record github_issue_comment =
  gc_id :: u64
  gc_body :: string
  gc_html_url :: string

record github_branch =
  gb_name :: string
  gb_sha :: string

record github_file_commit_input =
  gfi_path :: string
  gfi_message :: string
  gfi_content :: string
  gfi_branch :: string
  gfi_sha :: "string option"

record github_file_commit =
  gf_path :: string
  gf_sha :: string
  gf_html_url :: string

record github_pull_request_update_input =
  gui_number :: u64
  gui_title :: "string option"
  gui_body :: "string option"
  gui_state :: "string option"
  gui_base :: "string option"

definition ureq_read_issue ::
  "web \<Rightarrow> string \<Rightarrow> string \<Rightarrow> string \<Rightarrow> u64 \<Rightarrow> github_issue net" where
  "ureq_read_issue web api_base repository token number =
     sbind (github_get_json web
         (github_api_url api_base (''repos/'' @ repository @ ''/issues/'' @ u64_text number)) token) (\<lambda>value.
       sreturn \<lparr>gi_number = or_default number (json_u64_field value ''number''),
         gi_title = json_string_field value ''title'', gi_state = json_string_field value ''state'',
         gi_body = json_string_field value ''body'',
         gi_html_url = json_string_field value ''html_url''\<rparr>)"

definition ureq_create_pull_request ::
  "web \<Rightarrow> string \<Rightarrow> string \<Rightarrow> string \<Rightarrow> github_pull_request_input \<Rightarrow> github_pull_request net" where
  "ureq_create_pull_request web api_base repository token input =
     sbind (github_post_json web
         (github_api_url api_base (''repos/'' @ repository @ ''/pulls'')) token
         (json_object [(''title'', JString (gpi_title input)), (''head'', JString (gpi_head input)),
            (''base'', JString (gpi_base input)), (''body'', JString (gpi_body input))])) (\<lambda>value.
       sreturn \<lparr>gp_number = or_default 0 (json_u64_field value ''number''),
         gp_title = json_string_field value ''title'', gp_state = json_string_field value ''state'',
         gp_html_url = json_string_field value ''html_url''\<rparr>)"

definition ureq_create_issue_comment ::
  "web \<Rightarrow> string \<Rightarrow> string \<Rightarrow> string \<Rightarrow> u64 \<Rightarrow> string \<Rightarrow> github_issue_comment net" where
  "ureq_create_issue_comment web api_base repository token number body =
     sbind (github_post_json web
         (github_api_url api_base
            (''repos/'' @ repository @ ''/issues/'' @ u64_text number @ ''/comments'')) token
         (json_object [(''body'', JString body)])) (\<lambda>value.
       sreturn \<lparr>gc_id = or_default 0 (json_u64_field value ''id''),
         gc_body = json_string_field value ''body'',
         gc_html_url = json_string_field value ''html_url''\<rparr>)"

definition object_sha :: "json \<Rightarrow> string option" where
  "object_sha value =
     Option.bind (Option.bind (json_get value ''object'') (\<lambda>object. json_get object ''sha'')) json_as_str"

definition strip_prefix :: "string \<Rightarrow> string \<Rightarrow> string option" where
  "strip_prefix p s = (if prefix p s then Some (drop (length p) s) else None)"

definition ureq_create_branch ::
  "web \<Rightarrow> string \<Rightarrow> string \<Rightarrow> string \<Rightarrow> string \<Rightarrow> string \<Rightarrow> github_branch net" where
  "ureq_create_branch web api_base repository token branch from_ref =
     sbind (github_get_json web
         (github_api_url api_base (''repos/'' @ repository @ ''/git/ref/'' @ from_ref)) token) (\<lambda>from_value.
     case object_sha from_value of
       None \<Rightarrow> sfail (exec_error AdapterFailed
         (''GitHub ref '' @ from_ref @ '' did not include an object sha''))
     | Some sha \<Rightarrow>
         sbind (github_post_json web
             (github_api_url api_base (''repos/'' @ repository @ ''/git/refs'')) token
             (json_object [(''ref'', JString (''refs/heads/'' @ branch)), (''sha'', JString sha)])) (\<lambda>value.
           sreturn \<lparr>gb_name = or_default branch
               (strip_prefix ''refs/heads/'' (json_string_field value ''ref'')),
             gb_sha = or_default sha (object_sha value)\<rparr>))"

definition ureq_commit_file ::
  "web \<Rightarrow> (string \<Rightarrow> string) \<Rightarrow> string \<Rightarrow> string \<Rightarrow> string \<Rightarrow> github_file_commit_input \<Rightarrow>
   github_file_commit net" where
  "ureq_commit_file web base64 api_base repository token input =
     (let body = [(''message'', JString (gfi_message input)),
            (''content'', JString (base64 (gfi_content input))),
            (''branch'', JString (gfi_branch input))] @
            (case gfi_sha input of None \<Rightarrow> [] | Some sha \<Rightarrow> [(''sha'', JString sha)])
      in sbind (github_put_json web
             (github_api_url api_base (''repos/'' @ repository @ ''/contents/'' @ gfi_path input)) token
             (json_object body)) (\<lambda>value.
           let content = or_default JNull (json_get value ''content'')
           in sreturn \<lparr>gf_path = json_string_field content ''path'',
                gf_sha = json_string_field content ''sha'',
                gf_html_url = json_string_field content ''html_url''\<rparr>))"

definition optional_field :: "string \<Rightarrow> string option \<Rightarrow> (string \<times> json) list" where
  "optional_field key value = (case value of None \<Rightarrow> [] | Some text' \<Rightarrow> [(key, JString text')])"

definition ureq_update_pull_request ::
  "web \<Rightarrow> string \<Rightarrow> string \<Rightarrow> string \<Rightarrow> github_pull_request_update_input \<Rightarrow>
   github_pull_request net" where
  "ureq_update_pull_request web api_base repository token input =
     sbind (github_patch_json web
         (github_api_url api_base (''repos/'' @ repository @ ''/pulls/'' @ u64_text (gui_number input))) token
         (json_object (optional_field ''title'' (gui_title input) @
            optional_field ''body'' (gui_body input) @ optional_field ''state'' (gui_state input) @
            optional_field ''base'' (gui_base input)))) (\<lambda>value.
       sreturn \<lparr>gp_number = or_default (gui_number input) (json_u64_field value ''number''),
         gp_title = json_string_field value ''title'', gp_state = json_string_field value ''state'',
         gp_html_url = json_string_field value ''html_url''\<rparr>)"

section \<open>The adapter\<close>

text \<open>The trait \<open>GitHubApiClient\<close> and its implementation over HTTP.\<close>

record github_client =
  ghc_read_issue :: "string \<Rightarrow> string \<Rightarrow> string \<Rightarrow> u64 \<Rightarrow> github_issue net"
  ghc_create_pull_request ::
    "string \<Rightarrow> string \<Rightarrow> string \<Rightarrow> github_pull_request_input \<Rightarrow> github_pull_request net"
  ghc_create_issue_comment ::
    "string \<Rightarrow> string \<Rightarrow> string \<Rightarrow> u64 \<Rightarrow> string \<Rightarrow> github_issue_comment net"
  ghc_create_branch :: "string \<Rightarrow> string \<Rightarrow> string \<Rightarrow> string \<Rightarrow> string \<Rightarrow> github_branch net"
  ghc_commit_file ::
    "string \<Rightarrow> string \<Rightarrow> string \<Rightarrow> github_file_commit_input \<Rightarrow> github_file_commit net"
  ghc_update_pull_request ::
    "string \<Rightarrow> string \<Rightarrow> string \<Rightarrow> github_pull_request_update_input \<Rightarrow> github_pull_request net"

definition ureq_github_client :: "web \<Rightarrow> (string \<Rightarrow> string) \<Rightarrow> github_client" where
  "ureq_github_client web base64 =
     \<lparr>ghc_read_issue = ureq_read_issue web,
      ghc_create_pull_request = ureq_create_pull_request web,
      ghc_create_issue_comment = ureq_create_issue_comment web,
      ghc_create_branch = ureq_create_branch web,
      ghc_commit_file = ureq_commit_file web base64,
      ghc_update_pull_request = ureq_update_pull_request web\<rparr>"

definition plain_result :: "string \<Rightarrow> (string \<times> string) list \<Rightarrow> tool_result" where
  "plain_result summary values =
     \<lparr>tres_summary = summary, tres_values = bt_of_list (map (\<lambda>(k, v). (k, Plain v)) values),
      tres_artifacts = [], tres_usage = []\<rparr>"

definition unsupported_tool :: "string \<Rightarrow> 'a exec_result" where
  "unsupported_tool message = Inl (exec_error UnsupportedTool message)"

text \<open>One usage of a gateway call.\<close>

definition gateway_call_usage :: "string \<Rightarrow> string \<Rightarrow> parameters \<Rightarrow> budget_usage" where
  "gateway_call_usage provider operation metadata =
     \<lparr>bu_kind = ''gateway_calls'', bu_amount = 1, bu_provider = Some provider, bu_model = None,
      bu_operation = Some operation, bu_metadata = metadata\<rparr>"

definition github_planned_budget_usage ::
  "gateway_tool_config \<Rightarrow> tool_action \<Rightarrow> budget_usage list exec_result" where
  "github_planned_budget_usage tool action =
     (let connector = connector_kind (gt_connector tool)
      in if \<not> connector_supports_operation (gt_connector tool) (ta_tool action) (ta_operation action)
         then unsupported_tool (connector @ '' connector template does not support '' @
                ta_tool action @ ''.'' @ ta_operation action)
         else Inr [gateway_call_usage ''github'' (''github.'' @ ta_operation action)
                [(''connector'', Plain connector)]])"

definition github_run_read_issue ::
  "github_client \<Rightarrow> string \<Rightarrow> string \<Rightarrow> string \<Rightarrow> tool_action \<Rightarrow> tool_result net" where
  "github_run_read_issue client api_base repository token action =
     sbind (slift (plain_u64_parameter action ''number'')) (\<lambda>number.
     sbind (ghc_read_issue client api_base repository token number) (\<lambda>issue.
       sreturn (plain_result
         (''read GitHub issue #'' @ u64_text (gi_number issue) @ '' from '' @ repository)
         [(''repository'', repository), (''number'', u64_text (gi_number issue)),
          (''title'', gateway_redact_secret_like_text (gi_title issue)),
          (''state'', gateway_redact_secret_like_text (gi_state issue)),
          (''body'', gateway_redact_secret_like_text (gi_body issue)),
          (''html_url'', gateway_redact_secret_like_text (gi_html_url issue))])))"

definition github_run_create_pr ::
  "github_client \<Rightarrow> string \<Rightarrow> string \<Rightarrow> string \<Rightarrow> tool_action \<Rightarrow> tool_result net" where
  "github_run_create_pr client api_base repository token action =
     sbind (slift (bounded_plain_parameter action ''title'' 512)) (\<lambda>title.
     sbind (slift (safe_git_ref_parameter action ''head'')) (\<lambda>head.
     sbind (slift (safe_git_ref_parameter action ''base'')) (\<lambda>base.
     sbind (slift (optional_bounded_plain_parameter action ''body'' 65536)) (\<lambda>body.
     sbind (ghc_create_pull_request client api_base repository token
         \<lparr>gpi_title = title, gpi_head = head, gpi_base = base, gpi_body = or_default [] body\<rparr>) (\<lambda>pull.
       sreturn (plain_result
         (''created GitHub pull request #'' @ u64_text (gp_number pull) @ '' in '' @ repository)
         [(''repository'', repository), (''number'', u64_text (gp_number pull)),
          (''title'', gateway_redact_secret_like_text (gp_title pull)),
          (''html_url'', gateway_redact_secret_like_text (gp_html_url pull))]))))))"

definition github_run_comment_issue ::
  "github_client \<Rightarrow> string \<Rightarrow> string \<Rightarrow> string \<Rightarrow> tool_action \<Rightarrow> tool_result net" where
  "github_run_comment_issue client api_base repository token action =
     sbind (slift (plain_u64_parameter action ''number'')) (\<lambda>number.
     sbind (slift (bounded_plain_parameter action ''body'' 65536)) (\<lambda>body.
     sbind (ghc_create_issue_comment client api_base repository token number body) (\<lambda>comment.
       sreturn (plain_result
         (''created GitHub issue comment '' @ u64_text (gc_id comment) @ '' on '' @ repository @
          ''#'' @ u64_text number)
         [(''repository'', repository), (''number'', u64_text number),
          (''comment_id'', u64_text (gc_id comment)),
          (''body'', gateway_redact_secret_like_text (gc_body comment)),
          (''html_url'', gateway_redact_secret_like_text (gc_html_url comment))]))))"

definition github_run_create_branch ::
  "github_client \<Rightarrow> string \<Rightarrow> string \<Rightarrow> string \<Rightarrow> tool_action \<Rightarrow> tool_result net" where
  "github_run_create_branch client api_base repository token action =
     sbind (slift (safe_git_ref_parameter action ''branch'')) (\<lambda>branch.
     sbind (slift (safe_git_ref_parameter action ''from_ref'')) (\<lambda>from_ref.
     sbind (ghc_create_branch client api_base repository token branch from_ref) (\<lambda>result.
       sreturn (plain_result
         (''created GitHub branch '' @ gb_name result @ '' in '' @ repository)
         [(''repository'', repository), (''branch'', gb_name result),
          (''sha'', gateway_redact_secret_like_text (gb_sha result))]))))"

definition github_run_commit_file ::
  "github_client \<Rightarrow> string \<Rightarrow> string \<Rightarrow> string \<Rightarrow> tool_action \<Rightarrow> tool_result net" where
  "github_run_commit_file client api_base repository token action =
     sbind (slift (safe_github_file_path_parameter action ''path'')) (\<lambda>path.
     sbind (slift (bounded_plain_parameter action ''message'' 1024)) (\<lambda>message.
     sbind (slift (bounded_plain_parameter action ''content'' (256 * 1024))) (\<lambda>content.
     sbind (slift (safe_git_ref_parameter action ''branch'')) (\<lambda>branch.
     sbind (slift (optional_safe_sha_parameter action ''sha'')) (\<lambda>sha.
     sbind (ghc_commit_file client api_base repository token
         \<lparr>gfi_path = path, gfi_message = message, gfi_content = content, gfi_branch = branch,
          gfi_sha = sha\<rparr>) (\<lambda>commit.
       sreturn (plain_result (''committed file '' @ gf_path commit @ '' in '' @ repository)
         [(''repository'', repository), (''path'', gf_path commit),
          (''sha'', gateway_redact_secret_like_text (gf_sha commit)),
          (''html_url'', gateway_redact_secret_like_text (gf_html_url commit))])))))))"

definition github_run_update_pr ::
  "github_client \<Rightarrow> string \<Rightarrow> string \<Rightarrow> string \<Rightarrow> tool_action \<Rightarrow> tool_result net" where
  "github_run_update_pr client api_base repository token action =
     sbind (slift (plain_u64_parameter action ''number'')) (\<lambda>number.
     sbind (slift (optional_bounded_plain_parameter action ''title'' 512)) (\<lambda>title.
     sbind (slift (optional_bounded_plain_parameter action ''body'' 65536)) (\<lambda>body.
     sbind (slift (optional_pr_state_parameter action ''state'')) (\<lambda>state.
     sbind (slift (optional_safe_git_ref_parameter action ''base'')) (\<lambda>base.
       if title = None \<and> body = None \<and> state = None \<and> base = None
       then sfail (exec_error InvalidParameters ''github.update_pr requires at least one update field'')
       else
         sbind (ghc_update_pull_request client api_base repository token
             \<lparr>gui_number = number, gui_title = title, gui_body = body, gui_state = state,
              gui_base = base\<rparr>) (\<lambda>pull.
           sreturn (plain_result
             (''updated GitHub pull request #'' @ u64_text (gp_number pull) @ '' in '' @ repository)
             [(''repository'', repository), (''number'', u64_text (gp_number pull)),
              (''title'', gateway_redact_secret_like_text (gp_title pull)),
              (''state'', gateway_redact_secret_like_text (gp_state pull)),
              (''html_url'', gateway_redact_secret_like_text (gp_html_url pull))])))))))"

definition github_run_comment_report ::
  "github_client \<Rightarrow> string \<Rightarrow> string \<Rightarrow> string \<Rightarrow> tool_action \<Rightarrow> tool_result net" where
  "github_run_comment_report client api_base repository token action =
     sbind (slift (plain_u64_parameter action ''number'')) (\<lambda>number.
     sbind (slift (report_comment_body action)) (\<lambda>body.
     sbind (ghc_create_issue_comment client api_base repository token number body) (\<lambda>comment.
       sreturn (plain_result
         (''posted GitHub report comment '' @ u64_text (gc_id comment) @ '' on '' @ repository @
          '' PR #'' @ u64_text number)
         [(''repository'', repository), (''number'', u64_text number),
          (''comment_id'', u64_text (gc_id comment)),
          (''html_url'', gateway_redact_secret_like_text (gc_html_url comment))]))))"

definition github_operation ::
  "github_client \<Rightarrow> string \<Rightarrow> string \<Rightarrow> string \<Rightarrow> tool_action \<Rightarrow> tool_result net" where
  "github_operation client api_base repository token action =
     (let operation = ta_operation action
      in if operation = ''read_issue'' then github_run_read_issue client api_base repository token action
         else if operation = ''create_pr'' then github_run_create_pr client api_base repository token action
         else if operation = ''comment_issue''
         then github_run_comment_issue client api_base repository token action
         else if operation = ''create_branch''
         then github_run_create_branch client api_base repository token action
         else if operation = ''commit_file''
         then github_run_commit_file client api_base repository token action
         else if operation = ''update_pr'' then github_run_update_pr client api_base repository token action
         else if operation = ''comment_report''
         then github_run_comment_report client api_base repository token action
         else slift (unsupported_tool (''github_rest connector does not support github.'' @ operation)))"

definition tool_mismatch :: "gateway_tool_config \<Rightarrow> tool_action \<Rightarrow> bool" where
  "tool_mismatch tool action \<longleftrightarrow>
     gt_protocol tool \<noteq> ta_protocol action \<or> gt_tool tool \<noteq> ta_tool action
     \<or> gt_operation tool \<noteq> ta_operation action"

definition github_execute ::
  "github_client \<Rightarrow> gateway_tool_config \<Rightarrow> tool_action \<Rightarrow> gateway_secret_binding list \<Rightarrow>
   tool_result net" where
  "github_execute client tool action secrets =
     (if tool_mismatch tool action
      then slift (unsupported_tool (''github_rest adapter '' @ gt_tool tool @ ''.'' @ gt_operation tool @
             '' cannot execute '' @ ta_tool action @ ''.'' @ ta_operation action))
      else case github_rest_connector_parts (gt_connector tool) of
             None \<Rightarrow> slift (unsupported_tool ''gateway connector is not a bounded GitHub REST connector'')
           | Some (api_base, repository) \<Rightarrow>
               if ta_tool action \<noteq> ''github''
               then slift (unsupported_tool
                      (''github_rest connector does not support tool '' @ ta_tool action))
               else sbind (slift (live_secret_from_bindings secrets ''github_rest'')) (\<lambda>token.
                      github_operation client api_base repository token action))"


section \<open>Where the requests go\<close>

lemma str_contains_set: "str_contains p s \<Longrightarrow> set p \<subseteq> set s"
  by (auto simp: str_contains_sublist dest: set_mono_sublist)

lemma dots_append:
  "\<not> str_contains ''..'' a \<Longrightarrow> \<not> str_contains ''..'' b \<Longrightarrow> \<not> str_contains ''..'' (a @ CHR ''/'' # b)"
proof (induction a)
  case (Cons c a)
  then show ?case by (cases a) auto
qed simp

lemma safe_path_append:
  "safe_path_text a \<Longrightarrow> safe_path_text b \<Longrightarrow> safe_path_text (a @ CHR ''/'' # b)"
  by (simp add: safe_path_text_def dots_append)

lemma safe_number: "safe_path_text (u64_text n)"
proof -
  have "list_all name_char (u64_text n)"
    using dec_digits_digits [of "unat n"]
    by (auto simp: u64_text_def list_all_iff name_char_def is_alnum_def)
  moreover have "CHR ''.'' \<notin> set (u64_text n)"
    using dec_digits_digits [of "unat n"] by (auto simp: u64_text_def list_all_iff is_digit_def)
  ultimately show ?thesis
    using str_contains_set [of "''..''" "u64_text n"]
    by (auto simp: safe_path_text_def list_all_iff u64_text_def dec_digits.simps [of "unat n"])
qed

lemma safe_words:
  "safe_path_text ''issues''" "safe_path_text ''comments''" "safe_path_text ''pulls''"
  "safe_path_text ''git/ref''" "safe_path_text ''git/refs''" "safe_path_text ''contents''"
  by code_simp+

definition github_url_ok :: "string \<Rightarrow> string \<Rightarrow> string \<Rightarrow> bool" where
  "github_url_ok api_base repository url \<longleftrightarrow>
     (\<exists>rest. url = trim_end_char CHR ''/'' api_base @ ''/repos/'' @ repository @ ''/'' @ rest
        \<and> safe_path_text rest)"

lemma github_url_okI:
  "safe_path_text rest \<Longrightarrow> github_url_ok api repo (github_api_url api (''repos/'' @ repo @ CHR ''/'' # rest))"
  by (simp add: github_url_ok_def github_api_url_def trim_start_char_def)


definition github_call_ok ::
  "gateway_tool_config \<Rightarrow> tool_action \<Rightarrow> gateway_secret_binding list \<Rightarrow> adapter_call \<Rightarrow> bool" where
  "github_call_ok tool action secrets c \<longleftrightarrow>
     (case (c, github_rest_connector_parts (gt_connector tool)) of
        (AHttp r, Some (api_base, repository)) \<Rightarrow>
          github_url_ok api_base repository (wr_url r)
          \<and> live_secret_from_bindings secrets ''github_rest'' = Inr (wr_token r)
          \<and> \<not> tool_mismatch tool action
          \<and> (ta_operation action = ''read_issue'' \<longrightarrow> wr_method r = ''GET'' \<and> wr_body r = None)
      | _ \<Rightarrow> False)"

text \<open>A request of the HTTP client: where it goes, its token and whether it only reads.\<close>

fun stays :: "bool \<Rightarrow> string \<Rightarrow> string \<Rightarrow> string \<Rightarrow> adapter_call \<Rightarrow> bool" where
  "stays read_only api repo token (AHttp r) =
     (github_url_ok api repo (wr_url r) \<and> wr_token r = token
      \<and> (read_only \<longrightarrow> wr_method r = ''GET'' \<and> wr_body r = None))"
| "stays read_only api repo token _ = False"

lemmas send_defs = github_get_json_def github_post_json_def github_patch_json_def github_put_json_def
  github_send_def Let_def

lemma client_stays:
  "appends (stays True api repo token) (ureq_read_issue web api repo token n)"
  "appends (stays False api repo token) (ureq_create_pull_request web api repo token pri)"
  "appends (stays False api repo token) (ureq_create_issue_comment web api repo token n body)"
  "safe_path_text from_ref \<Longrightarrow>
   appends (stays False api repo token) (ureq_create_branch web api repo token branch from_ref)"
  "safe_path_text (gfi_path fi) \<Longrightarrow>
   appends (stays False api repo token) (ureq_commit_file web b64 api repo token fi)"
  "appends (stays False api repo token) (ureq_update_pull_request web api repo token ui)"
proof -
  note urls = github_url_okI [of "''issues/'' @ u64_text n" for n, simplified]
    github_url_okI [of "''issues/'' @ u64_text n @ ''/comments''" for n, simplified]
    github_url_okI [of "''pulls''", simplified]
    github_url_okI [of "''git/ref/'' @ from_ref", simplified]
    github_url_okI [of "''git/refs''", simplified]
    github_url_okI [of "''contents/'' @ p" for p, simplified]
    github_url_okI [of "''pulls/'' @ u64_text n" for n, simplified]
  have safe: "safe_path_text (''issues/'' @ u64_text n)"
    "safe_path_text (''issues/'' @ u64_text n @ ''/comments'')"
    "safe_path_text (''pulls/'' @ u64_text n)" for n
    using safe_path_append [OF safe_words(1) safe_number]
      safe_path_append [OF safe_words(1) safe_path_append [OF safe_number safe_words(2)]]
      safe_path_append [OF safe_words(3) safe_number] by simp_all
  show "appends (stays True api repo token) (ureq_read_issue web api repo token n)"
    unfolding ureq_read_issue_def send_defs
    by (intro append_rules) (use safe(1) urls in simp)
  show "appends (stays False api repo token) (ureq_create_pull_request web api repo token pri)"
    unfolding ureq_create_pull_request_def send_defs
    by (intro append_rules) (use safe_words(3) urls in simp)
  show "appends (stays False api repo token) (ureq_create_issue_comment web api repo token n body)"
    unfolding ureq_create_issue_comment_def send_defs
    by (intro append_rules) (use safe(2) urls in simp)
  show "appends (stays False api repo token) (ureq_create_branch web api repo token branch from_ref)"
    if "safe_path_text from_ref"
    unfolding ureq_create_branch_def send_defs
    using safe_path_append [OF safe_words(4) that] safe_words(5) urls
    by (auto intro!: append_rules split: option.split)
  show "appends (stays False api repo token) (ureq_commit_file web b64 api repo token fi)"
    if "safe_path_text (gfi_path fi)"
    unfolding ureq_commit_file_def send_defs
    using safe_path_append [OF safe_words(6) that] urls
    by (auto intro!: append_rules)
  show "appends (stays False api repo token) (ureq_update_pull_request web api repo token ui)"
    unfolding ureq_update_pull_request_def send_defs
    by (intro append_rules) (use safe(3) urls in simp)
qed


lemma operation_stays:
  "appends (stays (ta_operation action = ''read_issue'') api repo token)
     (github_operation (ureq_github_client web b64) api repo token action)"
  unfolding github_operation_def Let_def
    github_run_read_issue_def github_run_create_pr_def github_run_comment_issue_def
    github_run_create_branch_def github_run_commit_file_def github_run_update_pr_def
    github_run_comment_report_def ureq_github_client_def github_client.simps
  by (intro appends_if appends_lift append_rules client_stays)
    (auto intro!: append_rules client_stays dest: safe_git_ref_parameter_safe safe_file_path_safe)

lemma github_calls_ok:
  "list_all (github_call_ok tool action secrets)
     (snd (github_execute (ureq_github_client web b64) tool action secrets []))"
proof -
  have "appends (github_call_ok tool action secrets)
      (github_execute (ureq_github_client web b64) tool action secrets)"
    unfolding github_execute_def
  proof (intro appends_if append_rules)
    assume ok: "\<not> tool_mismatch tool action"
    show "appends (github_call_ok tool action secrets)
      (case github_rest_connector_parts (gt_connector tool) of
         None \<Rightarrow> slift (unsupported_tool ''gateway connector is not a bounded GitHub REST connector'')
       | Some (api_base, repository) \<Rightarrow>
           if ta_tool action \<noteq> ''github''
           then slift (unsupported_tool
                  (''github_rest connector does not support tool '' @ ta_tool action))
           else sbind (slift (live_secret_from_bindings secrets ''github_rest'')) (\<lambda>token.
                  github_operation (ureq_github_client web b64) api_base repository token action))"
    proof (cases "github_rest_connector_parts (gt_connector tool)")
      case (Some parts)
      obtain api repo where parts: "parts = (api, repo)" by (cases parts)
      have "appends (github_call_ok tool action secrets)
          (github_operation (ureq_github_client web b64) api repo token action)"
        if "live_secret_from_bindings secrets ''github_rest'' = Inr token" for token
      proof -
        have "stays (ta_operation action = ''read_issue'') api repo token c \<Longrightarrow>
            github_call_ok tool action secrets c" for c
          using Some parts that ok by (cases c) (auto simp: github_call_ok_def)
        with operation_stays [of action api repo token web b64] show ?thesis
          unfolding appends_def by (metis list.pred_mono_strong)
      qed
      with Some parts show ?thesis by (auto intro!: append_rules appends_lift)
    qed (simp add: append_rules)
  qed
  then show ?thesis unfolding appends_def by (metis append_Nil)
qed

text \<open>
  The GitHub connector cannot be made to leave its repository. Whatever the parameters of the
  action and whatever GitHub answers, every HTTP request of the adapter goes to the configured API
  base, below \<open>/repos/<repository>/\<close>, with a path of plain segments and without a parent segment,
  a query or a fragment, carries exactly the live secret that is bound for the call, and belongs
  to the configured tool; reading an issue sends only GET requests without a body.
\<close>

theorem github_calls_contained:
  "list_all (github_call_ok tool action secrets)
     (snd (github_execute (ureq_github_client web b64) tool action secrets []))"
  by (rule github_calls_ok)

section \<open>What the result shows\<close>

text \<open>
  Titles, states, bodies, hashes and links of a reply are redacted in the result; the name of a
  created branch and the path of a committed file are copied as the server sent them.
\<close>

lemma sbind_InrE:
  assumes "sbind m f s = (Inr y, s')"
  obtains x s1 where "m s = (Inr x, s1)" and "f x s1 = (Inr y, s')"
  using assms by (auto simp: sbind_def stry_def sfail_def split: prod.splits sum.splits)

lemma branch_name_not_redacted:
  assumes "github_run_create_branch client api repo token action log = (Inr res, log')"
  shows "\<exists>branch from_ref r l. ghc_create_branch client api repo token branch from_ref l = (Inr r, log')
    \<and> bt_get (tres_values res) ''branch'' = Some (Plain (gb_name r))"
  using assms unfolding github_run_create_branch_def
  by (elim sbind_InrE)
    (auto simp: slift_def sreturn_def plain_result_def bt_of_list_def bt_get_def; blast)

end
