(* ===== verification/Gateway_Connectors.thy ===== *)
theory Gateway_Connectors
  imports Gateway_GitHub
begin

text \<open>
  The other connectors of the gateway (\<open>crates/taskfence-gateway/src/lib.rs\<close>): the requests of the
  enterprise HTTP connectors, the database connector over Postgres, the egress fetch, the local
  fixture and the adapters that refuse. The HTTP library, the Postgres driver, the file system and
  the JSON text conversions are parameters.
\<close>

section \<open>Enterprise HTTP connectors\<close>

record enterprise_request =
  er_method :: string
  er_url :: string
  er_bearer_token :: string
  er_body :: json

record enterprise_response =
  es_status :: u16
  es_body :: json

definition path_encode :: "string \<Rightarrow> string" where
  "path_encode s = concat (map (\<lambda>c. if c = CHR ''/'' then ''%2F'' else [c]) s)"

definition jira_doc_text :: "string \<Rightarrow> json" where
  "jira_doc_text s =
     json_object [(''type'', JString ''doc''), (''version'', JNumber ''1''),
       (''content'', JArray [json_object [(''type'', JString ''paragraph''),
          (''content'', JArray [json_object [(''type'', JString ''text''),
             (''text'', JString (gateway_redact_secret_like_text s))]])]])]"

definition json_request :: "string \<Rightarrow> string \<Rightarrow> string \<Rightarrow> json \<Rightarrow> enterprise_request" where
  "json_request m url token body =
     \<lparr>er_method = m, er_url = url, er_bearer_token = token, er_body = body\<rparr>"

definition unsupported_connector_action :: "string \<Rightarrow> tool_action \<Rightarrow> 'a exec_result" where
  "unsupported_connector_action connector action =
     unsupported_tool (connector @ '' connector does not support '' @ ta_tool action @ ''.'' @
       ta_operation action)"

definition for_operation :: "tool_action \<Rightarrow> string \<Rightarrow> string \<Rightarrow> bool" where
  "for_operation action tool operation \<longleftrightarrow> ta_tool action = tool \<and> ta_operation action = operation"

definition gitlab_request ::
  "string \<Rightarrow> string \<Rightarrow> tool_action \<Rightarrow> string \<Rightarrow> enterprise_request exec_result" where
  "gitlab_request api_base project action token =
     (let base = api_base @ ''/projects/'' @ path_encode project
      in if for_operation action ''gitlab'' ''read_issue''
         then rbind (plain_u64_parameter action ''iid'') (\<lambda>iid.
                Inr (json_request ''GET'' (base @ ''/issues/'' @ u64_text iid) token JNull))
         else if for_operation action ''gitlab'' ''create_merge_request''
         then rbind (bounded_plain_parameter action ''title'' 512) (\<lambda>title.
              rbind (safe_git_ref_parameter action ''source_branch'') (\<lambda>source.
              rbind (safe_git_ref_parameter action ''target_branch'') (\<lambda>target.
              rbind (optional_bounded_plain_parameter action ''description'' 65536) (\<lambda>description.
                Inr (json_request ''POST'' (base @ ''/merge_requests'') token
                  (json_object [(''title'', JString title), (''source_branch'', JString source),
                     (''target_branch'', JString target),
                     (''description'', JString (or_default [] description))]))))))
         else if for_operation action ''gitlab'' ''comment_issue''
         then rbind (plain_u64_parameter action ''iid'') (\<lambda>iid.
              rbind (bounded_plain_parameter action ''body'' 65536) (\<lambda>body.
                Inr (json_request ''POST'' (base @ ''/issues/'' @ u64_text iid @ ''/notes'') token
                  (json_object [(''body'', JString body)]))))
         else unsupported_connector_action ''gitlab'' action)"

definition jira_request ::
  "string \<Rightarrow> string \<Rightarrow> tool_action \<Rightarrow> string \<Rightarrow> enterprise_request exec_result" where
  "jira_request api_base project_key action token =
     (if for_operation action ''jira'' ''read_issue''
      then rbind (safe_connector_key_parameter action ''issue_key'') (\<lambda>issue_key.
             Inr (json_request ''GET'' (api_base @ ''/issue/'' @ issue_key) token JNull))
      else if for_operation action ''jira'' ''create_issue''
      then rbind (bounded_plain_parameter action ''summary'' 512) (\<lambda>summary.
           rbind (optional_bounded_plain_parameter action ''description'' (16 * 1024)) (\<lambda>description.
           rbind (optional_bounded_plain_parameter action ''issue_type'' 64) (\<lambda>issue_type.
             Inr (json_request ''POST'' (api_base @ ''/issue'') token
               (json_object [(''fields'', json_object
                  [(''project'', json_object [(''key'', JString project_key)]),
                   (''summary'', JString summary),
                   (''description'', jira_doc_text (or_default [] description)),
                   (''issuetype'', json_object
                      [(''name'', JString (or_default ''Task'' issue_type))])])])))))
      else if for_operation action ''jira'' ''comment_issue''
      then rbind (safe_connector_key_parameter action ''issue_key'') (\<lambda>issue_key.
           rbind (bounded_plain_parameter action ''body'' (16 * 1024)) (\<lambda>body.
             Inr (json_request ''POST'' (api_base @ ''/issue/'' @ issue_key @ ''/comment'') token
               (json_object [(''body'', jira_doc_text body)]))))
      else unsupported_connector_action ''jira'' action)"

definition enterprise_message_request ::
  "string \<Rightarrow> string \<Rightarrow> string \<Rightarrow> string \<Rightarrow> tool_action \<Rightarrow> enterprise_request exec_result" where
  "enterprise_message_request api_base token tenant tool action =
     (if ta_operation action = ''send_message'' \<and> ta_tool action = tool
      then rbind (safe_connector_key_parameter action ''channel'') (\<lambda>channel.
           rbind (bounded_plain_parameter action ''text'' (16 * 1024)) (\<lambda>content.
             Inr (json_request ''POST'' (api_base @ ''/'' @ tool @ ''/messages'') token
               (json_object [(''tenant'', JString tenant), (''channel'', JString channel),
                  (''text'', JString content)]))))
      else if for_operation action ''feishu'' ''create_doc'' \<and> tool = ''feishu''
      then rbind (bounded_plain_parameter action ''title'' 512) (\<lambda>title.
           rbind (bounded_plain_parameter action ''content'' (128 * 1024)) (\<lambda>content.
             Inr (json_request ''POST'' (api_base @ ''/feishu/docs'') token
               (json_object [(''app'', JString tenant), (''title'', JString title),
                  (''content'', JString content)]))))
      else unsupported_connector_action tool action)"

definition gitee_request ::
  "string \<Rightarrow> string \<Rightarrow> tool_action \<Rightarrow> string \<Rightarrow> enterprise_request exec_result" where
  "gitee_request api_base repository action token =
     (let base = api_base @ ''/repos/'' @ repository
      in if for_operation action ''gitee'' ''read_issue''
         then rbind (plain_u64_parameter action ''number'') (\<lambda>number.
                Inr (json_request ''GET'' (base @ ''/issues/'' @ u64_text number) token JNull))
         else if for_operation action ''gitee'' ''create_pr''
         then rbind (bounded_plain_parameter action ''title'' 512) (\<lambda>title.
              rbind (safe_git_ref_parameter action ''head'') (\<lambda>head.
              rbind (safe_git_ref_parameter action ''base'') (\<lambda>base_ref.
              rbind (optional_bounded_plain_parameter action ''body'' 65536) (\<lambda>body.
                Inr (json_request ''POST'' (base @ ''/pulls'') token
                  (json_object [(''title'', JString title), (''head'', JString head),
                     (''base'', JString base_ref), (''body'', JString (or_default [] body))]))))))
         else if for_operation action ''gitee'' ''comment_issue''
         then rbind (plain_u64_parameter action ''number'') (\<lambda>number.
              rbind (bounded_plain_parameter action ''body'' 65536) (\<lambda>body.
                Inr (json_request ''POST'' (base @ ''/issues/'' @ u64_text number @ ''/comments'') token
                  (json_object [(''body'', JString body)]))))
         else unsupported_connector_action ''gitee'' action)"

definition coding_request ::
  "string \<Rightarrow> string \<Rightarrow> tool_action \<Rightarrow> string \<Rightarrow> enterprise_request exec_result" where
  "coding_request api_base project action token =
     (let base = api_base @ ''/projects/'' @ path_encode project
      in if for_operation action ''coding'' ''read_issue''
         then rbind (plain_u64_parameter action ''number'') (\<lambda>number.
                Inr (json_request ''GET'' (base @ ''/issues/'' @ u64_text number) token JNull))
         else if for_operation action ''coding'' ''create_merge_request''
         then rbind (bounded_plain_parameter action ''title'' 512) (\<lambda>title.
              rbind (safe_git_ref_parameter action ''source_branch'') (\<lambda>source.
              rbind (safe_git_ref_parameter action ''target_branch'') (\<lambda>target.
              rbind (optional_bounded_plain_parameter action ''description'' 65536) (\<lambda>description.
                Inr (json_request ''POST'' (base @ ''/merge_requests'') token
                  (json_object [(''title'', JString title), (''source_branch'', JString source),
                     (''target_branch'', JString target),
                     (''description'', JString (or_default [] description))]))))))
         else if for_operation action ''coding'' ''comment_issue''
         then rbind (plain_u64_parameter action ''number'') (\<lambda>number.
              rbind (bounded_plain_parameter action ''body'' 65536) (\<lambda>body.
                Inr (json_request ''POST'' (base @ ''/issues/'' @ u64_text number @ ''/comments'') token
                  (json_object [(''body'', JString body)]))))
         else unsupported_connector_action ''coding'' action)"

definition internal_http_request ::
  "string \<Rightarrow> string \<Rightarrow> tool_action \<Rightarrow> string \<Rightarrow> enterprise_request exec_result" where
  "internal_http_request api_base service action token =
     (if \<not> for_operation action ''internal_http'' ''call''
      then unsupported_connector_action ''internal_http'' action
      else
        rbind (safe_http_path_parameter action ''path'') (\<lambda>path.
        rbind (optional_http_method_parameter action ''method'') (\<lambda>m.
        rbind (optional_bounded_plain_parameter action ''body'' (64 * 1024)) (\<lambda>body.
          Inr (json_request (or_default ''POST'' m) (api_base @ ''/'' @ service @ ''/'' @ path) token
            (case body of Some b \<Rightarrow> json_object [(''body'', JString b)] | None \<Rightarrow> json_object []))))))"

definition siem_export_request ::
  "(string \<Rightarrow> string + json) \<Rightarrow> string \<Rightarrow> string \<Rightarrow> tool_action \<Rightarrow> string \<Rightarrow>
   enterprise_request exec_result" where
  "siem_export_request parse api_base sink action token =
     (if \<not> for_operation action ''siem'' ''export_events''
      then unsupported_connector_action ''siem_export'' action
      else
        rbind (bounded_plain_parameter action ''events_json'' (256 * 1024)) (\<lambda>events_json.
        case parse events_json of
          Inl err \<Rightarrow> Inl (exec_error InvalidParameters
            (''siem.export_events events_json must be valid JSON: '' @ err))
        | Inr events \<Rightarrow>
            rbind (bounded_plain_parameter action ''task_id'' 256) (\<lambda>task_id.
            rbind (optional_bounded_plain_parameter action ''summary'' (16 * 1024)) (\<lambda>summary.
              Inr (json_request ''POST'' (api_base @ ''/sinks/'' @ path_encode sink @ ''/events'') token
                (json_object [(''sink'', JString sink), (''task_id'', JString task_id),
                   (''events'', events), (''summary'', JString (or_default [] summary))]))))))"

fun enterprise_http_request ::
  "(string \<Rightarrow> string + json) \<Rightarrow> gateway_connector_config \<Rightarrow> tool_action \<Rightarrow> string \<Rightarrow>
   enterprise_request exec_result" where
  "enterprise_http_request parse (GitLab api_base project) action token =
     gitlab_request api_base project action token"
| "enterprise_http_request parse (Jira api_base project_key) action token =
     jira_request api_base project_key action token"
| "enterprise_http_request parse (Feishu api_base app) action token =
     enterprise_message_request api_base token app ''feishu'' action"
| "enterprise_http_request parse (WeCom api_base corp_id) action token =
     enterprise_message_request api_base token corp_id ''wecom'' action"
| "enterprise_http_request parse (DingTalk api_base tenant) action token =
     enterprise_message_request api_base token tenant ''dingtalk'' action"
| "enterprise_http_request parse (Gitee api_base repository) action token =
     gitee_request api_base repository action token"
| "enterprise_http_request parse (Coding api_base project) action token =
     coding_request api_base project action token"
| "enterprise_http_request parse (InternalHttp api_base service) action token =
     internal_http_request api_base service action token"
| "enterprise_http_request parse (SiemExport api_base sink) action token =
     siem_export_request parse api_base sink action token"
| "enterprise_http_request parse connector action token =
     unsupported_tool (connector_kind connector @ '' connector is not handled by the enterprise HTTP adapter'')"


definition first_some :: "'a option list \<Rightarrow> 'a option" where
  "first_some xs = (case filter (\<lambda>x. x \<noteq> None) xs of [] \<Rightarrow> None | x # _ \<Rightarrow> x)"

definition enterprise_http_result ::
  "(json \<Rightarrow> string) \<Rightarrow> gateway_connector_config \<Rightarrow> tool_action \<Rightarrow> enterprise_request \<Rightarrow>
   enterprise_response \<Rightarrow> tool_result exec_result" where
  "enterprise_http_result shown connector action request response =
     (let kind = connector_kind connector;
          resource_id = (case first_some (map (json_get (es_body response))
                           [''id'', ''iid'', ''key'', ''number'']) of
                           Some value \<Rightarrow> shown value | None \<Rightarrow> ''-'')
      in Inr (plain_result
           (''executed '' @ ta_tool action @ ''.'' @ ta_operation action @ '' through '' @ kind @ '' connector'')
           [(''connector'', kind), (''method'', er_method request),
            (''url'', gateway_redact_secret_like_text (er_url request)),
            (''status'', dec_digits (unat (es_status response))),
            (''resource_id'', gateway_redact_secret_like_text resource_id),
            (''response'', gateway_redact_secret_like_text (shown (es_body response)))]))"

text \<open>\<open>UreqEnterpriseHttpClient\<close>; a reply that is not JSON counts as \<open>null\<close>.\<close>

fun enterprise_reply :: "web_reply \<Rightarrow> enterprise_response exec_result" where
  "enterprise_reply (WebOk status body) =
     Inr \<lparr>es_status = status, es_body = (case body of Inr value \<Rightarrow> value | Inl err \<Rightarrow> JNull)\<rparr>"
| "enterprise_reply (WebStatus status body) =
     Inl (exec_error AdapterFailed
       (''enterprise connector returned HTTP '' @ dec_digits (unat status) @ '': '' @
        gateway_redact_secret_like_text
          (or_default ''unable to read enterprise connector error response'' body)))"
| "enterprise_reply (WebTransport transport) =
     Inl (exec_error AdapterFailed (''enterprise connector transport failed: '' @ transport))"

definition ureq_enterprise_execute :: "web \<Rightarrow> enterprise_request \<Rightarrow> enterprise_response net" where
  "ureq_enterprise_execute web request =
     (if er_method request \<notin> set [''GET'', ''POST'', ''PATCH'']
      then sfail (exec_error InvalidParameters
             (''enterprise HTTP method '' @ er_method request @ '' is not supported''))
      else
        let sent = \<lparr>wr_method = er_method request, wr_url = er_url request,
              wr_token = er_bearer_token request, wr_body = Some (er_body request)\<rparr>
        in acall (\<lambda>h. enterprise_reply (web h sent)) (AHttp sent))"

definition ensure_tool_matches_config :: "gateway_tool_config \<Rightarrow> tool_action \<Rightarrow> unit exec_result" where
  "ensure_tool_matches_config tool action =
     (if tool_mismatch tool action
      then unsupported_tool (connector_kind (gt_connector tool) @ '' adapter '' @ gt_tool tool @ ''.'' @
             gt_operation tool @ '' cannot execute '' @ ta_tool action @ ''.'' @ ta_operation action)
      else if \<not> connector_supports_operation (gt_connector tool) (ta_tool action) (ta_operation action)
      then unsupported_tool (connector_kind (gt_connector tool) @ '' connector template does not support '' @
             ta_tool action @ ''.'' @ ta_operation action)
      else Inr ())"

definition enterprise_planned_budget_usage ::
  "gateway_tool_config \<Rightarrow> tool_action \<Rightarrow> budget_usage list exec_result" where
  "enterprise_planned_budget_usage tool action =
     (let connector = connector_kind (gt_connector tool)
      in if \<not> connector_supports_operation (gt_connector tool) (ta_tool action) (ta_operation action)
         then unsupported_tool (connector @ '' connector template does not support '' @
                ta_tool action @ ''.'' @ ta_operation action)
         else Inr [gateway_call_usage connector (ta_tool action @ ''.'' @ ta_operation action)
                [(''connector'', Plain connector)]])"

definition enterprise_execute ::
  "(string \<Rightarrow> string + json) \<Rightarrow> (json \<Rightarrow> string) \<Rightarrow> (enterprise_request \<Rightarrow> enterprise_response net) \<Rightarrow>
   gateway_tool_config \<Rightarrow> tool_action \<Rightarrow> gateway_secret_binding list \<Rightarrow> tool_result net" where
  "enterprise_execute parse shown client tool action secrets =
     sbind (slift (ensure_tool_matches_config tool action)) (\<lambda>_.
     sbind (slift (live_secret_from_bindings secrets (ta_tool action))) (\<lambda>token.
     sbind (slift (enterprise_http_request parse (gt_connector tool) action token)) (\<lambda>request.
     sbind (client request) (\<lambda>response.
       if unat (es_status response) < 200 \<or> 300 \<le> unat (es_status response)
       then sfail (exec_error AdapterFailed
              (connector_kind (gt_connector tool) @ '' connector returned HTTP '' @
               dec_digits (unat (es_status response))))
       else slift (enterprise_http_result shown (gt_connector tool) action request response)))))"

section \<open>The database connector\<close>

record database_statement =
  dst_engine :: string
  dst_database_ref :: string
  dst_sql :: string
  dst_read_only :: bool
  dst_max_rows :: u32

record database_statement_result =
  dsr_rows_affected :: u64
  dsr_rows :: "(string, string) btree list"

text \<open>A column of a row: text, a 64-bit integer, a truth value or something that is not rendered.\<close>

datatype pg_value = PgText string | PgInt int | PgBool bool | PgOther

record pg_driver =
  pg_connect :: "adapter_call list \<Rightarrow> string \<Rightarrow> string + unit"
  pg_query :: "adapter_call list \<Rightarrow> string \<Rightarrow> string + (string \<times> pg_value) list list"
  pg_execute :: "adapter_call list \<Rightarrow> string \<Rightarrow> string + u64"

definition int_text :: "int \<Rightarrow> string" where
  "int_text i = (if i < 0 then CHR ''-'' # dec_digits (nat (- i)) else dec_digits (nat i))"

fun render_value :: "pg_value option \<Rightarrow> string" where
  "render_value (Some (PgText s)) = s"
| "render_value (Some (PgInt i)) = int_text i"
| "render_value (Some (PgBool b)) = (if b then ''true'' else ''false'')"
| "render_value _ = ''<unrendered>''"

definition render_row :: "(string \<times> pg_value) list \<Rightarrow> (string, string) btree" where
  "render_row row =
     bt_of_list (map (\<lambda>(name, _). (name, gateway_redact_secret_like_text (render_value (map_of row name)))) row)"

definition pg_fail :: "string \<Rightarrow> string \<Rightarrow> 'a exec_result" where
  "pg_fail what err = Inl (exec_error AdapterFailed (what @ err))"

definition postgres_execute ::
  "pg_driver \<Rightarrow> string \<Rightarrow> database_statement \<Rightarrow> database_statement_result net" where
  "postgres_execute pg credential statement =
     (if dst_engine statement \<noteq> ''postgres''
      then slift (unsupported_tool (''database engine '' @ dst_engine statement @ '' is not supported''))
      else (\<lambda>log. case pg_connect pg log credential of
          Inl err \<Rightarrow> (pg_fail ''failed to connect to Postgres database: '' err, log)
        | Inr _ \<Rightarrow>
            (if dst_read_only statement
             then acall (\<lambda>h. case pg_query pg h (dst_sql statement) of
                      Inl err \<Rightarrow> pg_fail ''Postgres read failed: '' err
                    | Inr rows \<Rightarrow>
                        (let values = map render_row (take (unat (dst_max_rows statement)) rows)
                         in Inr \<lparr>dsr_rows_affected = word_of_nat (length values), dsr_rows = values\<rparr>))
                    (ASql credential (dst_sql statement))
             else acall (\<lambda>h. case pg_execute pg h (dst_sql statement) of
                      Inl err \<Rightarrow> pg_fail ''Postgres write failed: '' err
                    | Inr n \<Rightarrow> Inr \<lparr>dsr_rows_affected = n, dsr_rows = []\<rparr>)
                    (ASql credential (dst_sql statement))) log))"

definition database_planned_budget_usage ::
  "gateway_tool_config \<Rightarrow> tool_action \<Rightarrow> budget_usage list exec_result" where
  "database_planned_budget_usage tool action =
     (if \<not> connector_supports_operation (gt_connector tool) (ta_tool action) (ta_operation action)
      then unsupported_tool (''database connector template does not support '' @ ta_tool action @ ''.'' @
             ta_operation action)
      else Inr [gateway_call_usage ''database'' (''database.'' @ ta_operation action)
             [(''connector'', Plain ''database'')]])"

definition database_statement_for ::
  "string \<Rightarrow> string \<Rightarrow> tool_action \<Rightarrow> bool \<Rightarrow> database_statement exec_result" where
  "database_statement_for engine database_ref action read_only =
     rbind (bounded_plain_parameter action ''query'' (32 * 1024)) (\<lambda>sql.
     rbind (validate_sql_statement sql read_only) (\<lambda>_.
     rbind (optional_u32_parameter action ''max_rows'') (\<lambda>max_rows.
       Inr \<lparr>dst_engine = engine, dst_database_ref = database_ref, dst_sql = sql,
         dst_read_only = read_only, dst_max_rows = min (or_default 100 max_rows) 1000\<rparr>)))"

definition database_execute ::
  "(json \<Rightarrow> string) \<Rightarrow> (string \<Rightarrow> database_statement \<Rightarrow> database_statement_result net) \<Rightarrow>
   gateway_tool_config \<Rightarrow> tool_action \<Rightarrow> gateway_secret_binding list \<Rightarrow> tool_result net" where
  "database_execute shown client tool action secrets =
     sbind (slift (ensure_tool_matches_config tool action)) (\<lambda>_.
       case gt_connector tool of
         Database engine database_ref \<Rightarrow>
           if ta_operation action \<notin> set [''read'', ''write'']
           then slift (unsupported_tool (''database connector does not support '' @ ta_operation action))
           else let read_only = ta_operation action = ''read''
             in sbind (slift (database_statement_for engine database_ref action read_only)) (\<lambda>statement.
                sbind (slift (live_secret_from_bindings secrets (ta_tool action))) (\<lambda>credential.
                sbind (client credential statement) (\<lambda>result.
                  sreturn (plain_result
                    (''executed database '' @ (if read_only then ''read'' else ''write'') @ '' against '' @
                     database_ref)
                    [(''database_ref'', database_ref), (''engine'', engine),
                     (''rows_affected'', u64_text (dsr_rows_affected result)),
                     (''rows'', gateway_redact_secret_like_text (shown (JArray
                        (map (\<lambda>row. JObject (map (\<lambda>(k, v). (k, JString v)) row)) (dsr_rows result)))))]))))
       | _ \<Rightarrow> slift (unsupported_tool ''gateway connector is not a database connector''))"


section \<open>The egress adapter\<close>

text \<open>Well-formed UTF-8, as \<open>String\<close> demands it.\<close>

definition cont_byte :: "nat \<Rightarrow> nat \<Rightarrow> char \<Rightarrow> bool" where
  "cont_byte lo hi c \<longleftrightarrow> lo \<le> byte c \<and> byte c \<le> hi"

fun utf8_ok :: "string \<Rightarrow> bool" where
  "utf8_ok [] = True"
| "utf8_ok (a # s) =
     (if byte a < 128 then utf8_ok s
      else if byte a < 0xC2 \<or> 0xF4 < byte a then False
      else if byte a < 0xE0
      then (case s of b # s \<Rightarrow> cont_byte 0x80 0xBF b \<and> utf8_ok s | _ \<Rightarrow> False)
      else if byte a < 0xF0
      then (case s of b # c # s \<Rightarrow>
              cont_byte (if byte a = 0xE0 then 0xA0 else 0x80) (if byte a = 0xED then 0x9F else 0xBF) b
              \<and> cont_byte 0x80 0xBF c \<and> utf8_ok s
            | _ \<Rightarrow> False)
      else (case s of b # c # d # s \<Rightarrow>
              cont_byte (if byte a = 0xF0 then 0x90 else 0x80) (if byte a = 0xF4 then 0x8F else 0xBF) b
              \<and> cont_byte 0x80 0xBF c \<and> cont_byte 0x80 0xBF d \<and> utf8_ok s
            | _ \<Rightarrow> False))"

record gateway_egress_response =
  ger_status :: u16
  ger_body :: string

text \<open>A reply to an egress fetch: the status with the bytes of the body, or an error.\<close>

datatype fetch_reply =
    FetchOk u16 "string + string"
  | FetchStatus u16 "string option"
  | FetchTransport string

fun egress_fetch_reply :: "string \<Rightarrow> fetch_reply \<Rightarrow> gateway_egress_response exec_result" where
  "egress_fetch_reply m (FetchOk status body) =
     (if m = ''HEAD'' then Inr \<lparr>ger_status = status, ger_body = []\<rparr>
      else case body of
             Inl err \<Rightarrow> Inl (exec_error AdapterFailed (''failed to read gateway egress response: '' @ err))
           | Inr bytes \<Rightarrow>
               let read = take (32 * 1024) bytes
               in if utf8_ok read then Inr \<lparr>ger_status = status, ger_body = read\<rparr>
                  else Inl (exec_error AdapterFailed (''failed to read gateway egress response: '' @
                         ''stream did not contain valid UTF-8'')))"
| "egress_fetch_reply m (FetchStatus status body) =
     Inl (exec_error AdapterFailed
       (''gateway egress returned HTTP '' @ dec_digits (unat status) @ '': '' @
        gateway_redact_secret_like_text (or_default ''unable to read egress error response'' body)))"
| "egress_fetch_reply m (FetchTransport transport) =
     Inl (exec_error AdapterFailed (''gateway egress transport failed: '' @ transport))"

definition ureq_egress_fetch ::
  "(adapter_call list \<Rightarrow> string \<Rightarrow> string \<Rightarrow> fetch_reply) \<Rightarrow> string \<Rightarrow> string \<Rightarrow>
   gateway_egress_response net" where
  "ureq_egress_fetch fetch m url =
     (if m \<notin> set [''GET'', ''HEAD'']
      then sfail (exec_error InvalidParameters ''gateway egress supports only GET and HEAD'')
      else acall (\<lambda>h. egress_fetch_reply m (fetch h m url)) (AFetch m url))"

definition egress_cannot_execute :: "tool_action \<Rightarrow> 'a exec_result" where
  "egress_cannot_execute action =
     unsupported_tool (''gateway egress adapter cannot execute '' @ ta_tool action @ ''.'' @
       ta_operation action)"

definition egress_identity :: tool_adapter_identity where
  "egress_identity = \<lparr>ai_kind = ''gateway_egress'', ai_name = ''local''\<rparr>"

definition egress_planned_budget_usage :: "tool_action \<Rightarrow> budget_usage list exec_result" where
  "egress_planned_budget_usage action =
     (if \<not> is_gateway_egress_action action then egress_cannot_execute action
      else Inr [gateway_call_usage ''gateway'' ''egress.fetch'' []])"

definition egress_execute ::
  "(string \<Rightarrow> string \<Rightarrow> gateway_egress_response net) \<Rightarrow> tool_action \<Rightarrow> tool_result net" where
  "egress_execute client action =
     (if \<not> is_gateway_egress_action action then slift (egress_cannot_execute action)
      else
        sbind (slift (gateway_egress_destination action)) (\<lambda>destination.
        sbind (client (ed_method destination) (ed_url destination)) (\<lambda>response.
          sreturn (plain_result
            (''fetched '' @ ed_host destination @ '' with HTTP status '' @
             dec_digits (unat (ger_status response)) @ '' through gateway egress'')
            [(''method'', ed_method destination), (''url'', ed_url destination),
             (''host'', ed_host destination), (''status'', dec_digits (unat (ger_status response))),
             (''body'', gateway_redact_secret_like_text (ger_body response))]))))"

section \<open>The refusing adapter\<close>

record unsupported_adapter =
  ua_identity :: tool_adapter_identity
  ua_secret_refs :: "gateway_secret_reference_config list"
  ua_contract_only :: bool
  ua_template_supports :: bool

definition unsupported_adapter_new :: "string \<Rightarrow> string \<Rightarrow> unsupported_adapter" where
  "unsupported_adapter_new kind name =
     \<lparr>ua_identity = \<lparr>ai_kind = kind, ai_name = name\<rparr>, ua_secret_refs = [],
      ua_contract_only = False, ua_template_supports = False\<rparr>"

definition for_contract_tool :: "gateway_tool_config \<Rightarrow> unsupported_adapter" where
  "for_contract_tool tool =
     \<lparr>ua_identity = connector_identity (gt_connector tool), ua_secret_refs = gt_secret_refs tool,
      ua_contract_only = True,
      ua_template_supports =
        connector_supports_operation (gt_connector tool) (gt_tool tool) (gt_operation tool)\<rparr>"

definition template_refusal :: "unsupported_adapter \<Rightarrow> tool_action \<Rightarrow> 'a exec_result" where
  "template_refusal adapter action =
     unsupported_tool (ai_kind (ua_identity adapter) @ '' connector template does not support '' @
       ta_tool action @ ''.'' @ ta_operation action)"

definition unsupported_execute :: "unsupported_adapter \<Rightarrow> tool_action \<Rightarrow> tool_result exec_result" where
  "unsupported_execute adapter action =
     (if ua_contract_only adapter
      then if \<not> ua_template_supports adapter then template_refusal adapter action
        else unsupported_tool (ai_kind (ua_identity adapter) @
               '' connector is contract-only; no live adapter is implemented for '' @
               ta_tool action @ ''.'' @ ta_operation action)
      else unsupported_tool (ai_name (ua_identity adapter) @ '' adapter does not support '' @
             ta_tool action @ ''.'' @ ta_operation action))"

definition unsupported_planned_budget_usage ::
  "unsupported_adapter \<Rightarrow> tool_action \<Rightarrow> budget_usage list exec_result" where
  "unsupported_planned_budget_usage adapter action =
     (if ua_contract_only adapter \<and> \<not> ua_template_supports adapter
      then template_refusal adapter action else Inr [])"

section \<open>The local fixture\<close>

text \<open>The files of the fixture; every operation can fail with the text of an I/O error.\<close>

record fixture_files =
  ff_read :: "path \<Rightarrow> string + string"
  ff_parse :: "string \<Rightarrow> string + json"
  ff_mkdir :: "adapter_call list \<Rightarrow> path \<Rightarrow> string + unit"
  ff_write :: "adapter_call list \<Rightarrow> path \<Rightarrow> string \<Rightarrow> string + unit"
  ff_pretty :: "json \<Rightarrow> string"

definition fixture_fail :: "string \<Rightarrow> path \<Rightarrow> string \<Rightarrow> 'a exec_result" where
  "fixture_fail what path err = Inl (exec_error AdapterFailed (what @ path @ '': '' @ err))"

definition read_fixture_json :: "fixture_files \<Rightarrow> path \<Rightarrow> json exec_result" where
  "read_fixture_json files path =
     (case ff_read files path of
        Inl err \<Rightarrow> fixture_fail ''failed to read fixture '' path err
      | Inr contents \<Rightarrow>
          (case ff_parse files contents of
             Inl err \<Rightarrow> fixture_fail ''failed to parse fixture '' path err
           | Inr value \<Rightarrow> Inr value))"

definition fixture_repository :: "json \<Rightarrow> string" where
  "fixture_repository fixture =
     gateway_redact_secret_like_text (or_default ''unknown/repository''
       (Option.bind (json_get fixture ''repository'') json_as_str))"

fun json_elements :: "json option \<Rightarrow> json list" where
  "json_elements (Some (JArray values)) = values"
| "json_elements _ = []"

definition execute_github_read_issue ::
  "fixture_files \<Rightarrow> path \<Rightarrow> tool_action \<Rightarrow> tool_result exec_result" where
  "execute_github_read_issue files path action =
     rbind (read_fixture_json files path) (\<lambda>fixture.
     rbind (plain_u64_parameter action ''number'') (\<lambda>number.
       case find (\<lambda>issue. json_u64_field issue ''number'' = Some number)
              (json_elements (json_get fixture ''issues'')) of
         None \<Rightarrow> invalid (''fixture issue number '' @ u64_text number @ '' was not found'')
       | Some issue \<Rightarrow>
           Inr (plain_result
             (''read fixture issue #'' @ u64_text number @ '' from '' @ fixture_repository fixture)
             [(''repository'', fixture_repository fixture), (''number'', u64_text number),
              (''title'', gateway_redact_secret_like_text (json_string_field issue ''title'')),
              (''state'', gateway_redact_secret_like_text (json_string_field issue ''state'')),
              (''body'', gateway_redact_secret_like_text (json_string_field issue ''body''))])))"

definition execute_github_create_pr ::
  "fixture_files \<Rightarrow> path \<Rightarrow> tool_action \<Rightarrow> tool_execution_context \<Rightarrow> tool_result net" where
  "execute_github_create_pr files path action context =
     sbind (slift (read_fixture_json files path)) (\<lambda>fixture.
     let repository = fixture_repository fixture;
         base = gateway_redact_secret_like_text (or_default
           (or_default ''main'' (Option.bind (json_get fixture ''default_branch'') json_as_str))
           (plain_optional_parameter action ''base''));
         head = gateway_redact_secret_like_text
           (or_default ''taskfence/local-fixture'' (plain_optional_parameter action ''head''))
     in
     sbind (slift (plain_required_parameter action ''title'')) (\<lambda>raw_title.
     let title = gateway_redact_secret_like_text raw_title;
         body = gateway_redact_secret_like_text
           (or_default [] (plain_optional_parameter action ''body''))
     in case tc_artifact_dir context of
          None \<Rightarrow> sfail (exec_error AdapterFailed
            ''local fixture create_pr requires an artifact directory'')
        | Some artifact_dir \<Rightarrow>
            sbind (acall (\<lambda>h. case ff_mkdir files h artifact_dir of
                Inl err \<Rightarrow> fixture_fail ''failed to create fixture artifact directory '' artifact_dir err
              | Inr _ \<Rightarrow> Inr ()) (AMkdir artifact_dir)) (\<lambda>_.
            let path = path_join artifact_dir ''github-pr-proposal.json'';
                bytes = ff_pretty files (json_object [(''fixture'', JBool True),
                  (''provider'', JString ''github''), (''repository'', JString repository),
                  (''title'', JString title), (''body'', JString body), (''base'', JString base),
                  (''head'', JString head)])
            in
            sbind (acall (\<lambda>h. case ff_write files h path bytes of
                Inl err \<Rightarrow> fixture_fail ''failed to write fixture PR proposal '' path err
              | Inr _ \<Rightarrow> Inr ()) (AWrite path bytes)) (\<lambda>_.
              sreturn ((plain_result (''wrote local GitHub PR proposal for '' @ repository)
                [(''repository'', repository), (''title'', title), (''base'', base), (''head'', head)])
                \<lparr>tres_artifacts := [path]\<rparr>)))))"

definition fixture_execute ::
  "fixture_files \<Rightarrow> gateway_tool_config \<Rightarrow> tool_action \<Rightarrow> tool_execution_context \<Rightarrow> tool_result net" where
  "fixture_execute files tool action context =
     (if tool_mismatch tool action
      then slift (unsupported_tool (''fixture adapter '' @ gt_tool tool @ ''.'' @ gt_operation tool @
             '' cannot execute '' @ ta_tool action @ ''.'' @ ta_operation action))
      else case gt_connector tool of
             LocalFixture kind path \<Rightarrow>
               if kind = ''github'' \<and> for_operation action ''github'' ''read_issue''
               then slift (execute_github_read_issue files path action)
               else if kind = ''github'' \<and> for_operation action ''github'' ''create_pr''
               then execute_github_create_pr files path action context
               else slift (unsupported_tool (''local fixture connector '' @ kind @
                      '' does not support '' @ ta_tool action @ ''.'' @ ta_operation action))
           | _ \<Rightarrow> slift (unsupported_tool ''gateway connector is not a local fixture''))"


section \<open>Where the enterprise connectors go\<close>

fun connector_scope :: "gateway_connector_config \<Rightarrow> string option" where
  "connector_scope (GitLab b project) = Some (b @ ''/projects/'' @ path_encode project)"
| "connector_scope (Jira b key) = Some (b @ ''/issue'')"
| "connector_scope (Feishu b app) = Some (b @ ''/feishu'')"
| "connector_scope (WeCom b corp) = Some (b @ ''/wecom'')"
| "connector_scope (DingTalk b tenant) = Some (b @ ''/dingtalk'')"
| "connector_scope (Gitee b repository) = Some (b @ ''/repos/'' @ repository)"
| "connector_scope (Coding b project) = Some (b @ ''/projects/'' @ path_encode project)"
| "connector_scope (InternalHttp b service) = Some (b @ ''/'' @ service)"
| "connector_scope (SiemExport b sink) = Some (b @ ''/sinks/'' @ path_encode sink @ ''/events'')"
| "connector_scope _ = None"

text \<open>The rest of a path below the scope of a connector.\<close>

definition below :: "string \<Rightarrow> bool" where
  "below rest \<longleftrightarrow> rest = [] \<or> (\<exists>t. rest = CHR ''/'' # t \<and> safe_path_text t)"

definition scoped_request ::
  "gateway_connector_config \<Rightarrow> tool_action \<Rightarrow> string \<Rightarrow> enterprise_request \<Rightarrow> bool" where
  "scoped_request connector action token request \<longleftrightarrow>
     (\<exists>scope rest. connector_scope connector = Some scope \<and> er_url request = scope @ rest \<and> below rest)
     \<and> er_method request \<in> set [''GET'', ''POST'', ''PATCH'']
     \<and> (ta_operation action = ''read_issue'' \<longrightarrow> er_method request = ''GET'' \<and> er_body request = JNull)
     \<and> er_bearer_token request = token"

lemma below_word: "safe_path_text w \<Longrightarrow> below (CHR ''/'' # w)"
  by (simp add: below_def)

lemma safe_more_words:
  "safe_path_text ''notes''" "safe_path_text ''merge_requests''" "safe_path_text ''messages''"
  "safe_path_text ''docs''" "safe_path_text ''comment''"
  by code_simp+

lemma below_paths:
  "below (''/issues/'' @ u64_text n)" "below (''/issues/'' @ u64_text n @ ''/notes'')"
  "below (''/issues/'' @ u64_text n @ ''/comments'')" "below ''/merge_requests''" "below ''/pulls''"
  "below ''/messages''" "below ''/docs''" "below []"
  "safe_path_text k \<Longrightarrow> below (CHR ''/'' # k)" "safe_path_text k \<Longrightarrow> below (CHR ''/'' # k @ ''/comment'')"
proof -
  note number = safe_number [of n]
  show "below (''/issues/'' @ u64_text n)" "below (''/issues/'' @ u64_text n @ ''/notes'')"
    "below (''/issues/'' @ u64_text n @ ''/comments'')"
    using below_word [OF safe_path_append [OF safe_words(1) number]]
      below_word [OF safe_path_append [OF safe_words(1) safe_path_append [OF number safe_more_words(1)]]]
      below_word [OF safe_path_append [OF safe_words(1) safe_path_append [OF number safe_words(2)]]]
    by simp_all
  show "below ''/merge_requests''" "below ''/pulls''" "below ''/messages''" "below ''/docs''" "below []"
    using below_word [OF safe_more_words(2)] below_word [OF safe_words(3)]
      below_word [OF safe_more_words(3)] below_word [OF safe_more_words(4)]
    by (simp_all add: below_def)
  show "below (CHR ''/'' # k)" "below (CHR ''/'' # k @ ''/comment'')" if "safe_path_text k"
    using below_word [OF that] below_word [OF safe_path_append [OF that safe_more_words(5)]] by simp_all
qed

lemma scopedI:
  assumes "connector_scope connector = Some scope" and "below rest"
    and "m \<in> set [''GET'', ''POST'', ''PATCH'']"
    and "ta_operation action = ''read_issue'' \<longrightarrow> m = ''GET'' \<and> body = JNull"
  shows "scoped_request connector action token (json_request m (scope @ rest) token body)"
  using assms by (auto simp: scoped_request_def json_request_def)

lemma http_method_known:
  "optional_http_method_parameter a k = Inr m \<Longrightarrow> or_default ''POST'' m \<in> set [''GET'', ''POST'', ''PATCH'']"
  by (cases "plain_optional_parameter a k")
    (auto simp: optional_http_method_parameter_def or_default_def Let_def rbind_Inr_iff split: if_splits)

lemma unsupported_connector_not_ok [simp]: "unsupported_connector_action c a \<noteq> Inr r"
  by (simp add: unsupported_connector_action_def unsupported_tool_def)

lemma message_request_scoped:
  assumes "enterprise_message_request b token tenant tool action = Inr request"
    and "connector_scope connector = Some (b @ ''/'' @ tool)"
  shows "scoped_request connector action token request"
  using assms scopedI [OF assms(2) below_paths(6), of "''POST''" action]
    scopedI [OF assms(2) below_paths(7), of "''POST''" action]
  by (auto simp: enterprise_message_request_def rbind_Inr_iff for_operation_def split: if_splits)


lemma gitlab_scoped:
  assumes "gitlab_request b p action token = Inr request"
  shows "scoped_request (GitLab b p) action token request"
proof -
  note scope = scopedI [where connector = "GitLab b p" and scope = "b @ ''/projects/'' @ path_encode p"]
  show ?thesis
    using assms scope [OF _ below_paths(1), of "''GET''" action]
      scope [OF _ below_paths(4), of "''POST''" action] scope [OF _ below_paths(2), of "''POST''" action]
    by (auto simp: gitlab_request_def Let_def rbind_Inr_iff for_operation_def split: if_splits)
qed

lemma coding_scoped:
  assumes "coding_request b p action token = Inr request"
  shows "scoped_request (Coding b p) action token request"
proof -
  note scope = scopedI [where connector = "Coding b p" and scope = "b @ ''/projects/'' @ path_encode p"]
  show ?thesis
    using assms scope [OF _ below_paths(1), of "''GET''" action]
      scope [OF _ below_paths(4), of "''POST''" action] scope [OF _ below_paths(3), of "''POST''" action]
    by (auto simp: coding_request_def Let_def rbind_Inr_iff for_operation_def split: if_splits)
qed

lemma gitee_scoped:
  assumes "gitee_request b p action token = Inr request"
  shows "scoped_request (Gitee b p) action token request"
proof -
  note scope = scopedI [where connector = "Gitee b p" and scope = "b @ ''/repos/'' @ p"]
  show ?thesis
    using assms scope [OF _ below_paths(1), of "''GET''" action]
      scope [OF _ below_paths(5), of "''POST''" action] scope [OF _ below_paths(3), of "''POST''" action]
    by (auto simp: gitee_request_def Let_def rbind_Inr_iff for_operation_def split: if_splits)
qed

lemma jira_scoped:
  assumes "jira_request b k action token = Inr request"
  shows "scoped_request (Jira b k) action token request"
proof -
  note scope = scopedI [where connector = "Jira b k" and scope = "b @ ''/issue''"]
  show ?thesis
    using assms scope [OF _ below_paths(8), of "''POST''" action]
      scope [OF _ below_paths(9) [OF safe_connector_key_safe], of action "''issue_key''" _ "''GET''" action]
      scope [OF _ below_paths(10) [OF safe_connector_key_safe], of action "''issue_key''" _ "''POST''" action]
    by (auto simp: jira_request_def Let_def rbind_Inr_iff for_operation_def split: if_splits)
qed

lemma internal_http_scoped:
  assumes "internal_http_request b s action token = Inr request"
  shows "scoped_request (InternalHttp b s) action token request"
proof -
  from assms obtain path m body where path: "safe_http_path_parameter action ''path'' = Inr path"
    and m: "optional_http_method_parameter action ''method'' = Inr m"
    and op: "ta_operation action = ''call''"
    and request: "request = json_request (or_default ''POST'' m) ((b @ ''/'' @ s) @ CHR ''/'' # path) token body"
    by (auto simp: internal_http_request_def rbind_Inr_iff for_operation_def split: if_splits)
  show ?thesis
    unfolding request
    by (rule scopedI [OF _ below_paths(9) [OF safe_http_path_safe [OF path]] http_method_known [OF m]])
      (simp_all add: op)
qed

lemma siem_scoped:
  assumes "siem_export_request parse b s action token = Inr request"
  shows "scoped_request (SiemExport b s) action token request"
proof -
  note scope = scopedI [where connector = "SiemExport b s"
      and scope = "b @ ''/sinks/'' @ path_encode s @ ''/events''", OF _ below_paths(8), of "''POST''" action]
  from assms have "\<exists>body. request = json_request ''POST'' (b @ ''/sinks/'' @ path_encode s @ ''/events'') token body"
    and "ta_operation action = ''export_events''"
    by (auto simp: siem_export_request_def rbind_def for_operation_def split: if_splits sum.splits)
  with scope show ?thesis by auto
qed

lemma enterprise_request_ok:
  assumes "enterprise_http_request parse connector action token = Inr request"
  shows "scoped_request connector action token request"
proof (cases connector)
  case (GitLab b p) with assms show ?thesis by (simp add: gitlab_scoped)
next
  case (Jira b k) with assms show ?thesis by (simp add: jira_scoped)
next
  case (Feishu b t) with assms show ?thesis by (simp add: message_request_scoped [of b token t "''feishu''"])
next
  case (WeCom b t) with assms show ?thesis by (simp add: message_request_scoped [of b token t "''wecom''"])
next
  case (DingTalk b t) with assms show ?thesis by (simp add: message_request_scoped [of b token t "''dingtalk''"])
next
  case (Gitee b r) with assms show ?thesis by (simp add: gitee_scoped)
next
  case (Coding b p) with assms show ?thesis by (simp add: coding_scoped)
next
  case (InternalHttp b s) with assms show ?thesis by (simp add: internal_http_scoped)
next
  case (SiemExport b s) with assms show ?thesis by (simp add: siem_scoped)
qed (use assms in \<open>simp_all add: unsupported_tool_def\<close>)

text \<open>
  An enterprise connector only talks to its own resource. Every request that is built for an
  action, whatever its parameters, goes to the connector's configured API base below the configured
  project, repository, service, sink or message endpoint; the rest of the path is empty or made of
  plain segments without a parent segment, a query or a fragment; the method is GET, POST or PATCH,
  reading an issue is a GET with an empty body, and the bearer token is the given one.
\<close>

theorem enterprise_request_scoped:
  assumes "enterprise_http_request parse connector action token = Inr request"
  shows "scoped_request connector action token request"
  using assms by (rule enterprise_request_ok)

theorem enterprise_request_scoped_witness:
  "scoped_request (Jira ''https://jira.example.com/rest/api/3'' ''APP'')
     \<lparr>ta_protocol = ''mcp'', ta_tool = ''jira'', ta_operation = ''read_issue'',
      ta_parameters = [(''issue_key'', Plain ''APP-7'')]\<rparr> ''t''
     (json_request ''GET'' ''https://jira.example.com/rest/api/3/issue/APP-7'' ''t'' JNull)"
  by (rule enterprise_request_scoped [where parse = Inl]) code_simp


section \<open>What reaches the database\<close>

text \<open>A statement that the adapter may run: bounded, checked, with the live credential.\<close>

definition checked_statement ::
  "tool_action \<Rightarrow> gateway_secret_binding list \<Rightarrow> adapter_call \<Rightarrow> bool" where
  "checked_statement action secrets c \<longleftrightarrow>
     (\<exists>credential sql. c = ASql credential sql \<and> length sql \<le> 32 * 1024
        \<and> validate_sql_statement sql (ta_operation action = ''read'') = Inr ()
        \<and> ta_operation action \<in> set [''read'', ''write'']
        \<and> live_secret_from_bindings secrets (ta_tool action) = Inr credential)"

lemma appends_postgres:
  "p (ASql credential (dst_sql statement)) \<Longrightarrow> appends p (postgres_execute pg credential statement)"
  unfolding postgres_execute_def appends_def
  by (auto simp: acall_def slift_def split: sum.splits)

lemma database_calls_ok:
  "list_all (checked_statement action secrets)
     (snd (database_execute shown (postgres_execute pg) tool action secrets []))"
proof -
  have "appends (checked_statement action secrets)
      (database_execute shown (postgres_execute pg) tool action secrets)"
  proof (cases "gt_connector tool")
    case (Database engine db)
    have ok: "checked_statement action secrets (ASql credential (dst_sql statement))"
      if "database_statement_for engine db action (ta_operation action = ''read'') = Inr statement"
        and "live_secret_from_bindings secrets (ta_tool action) = Inr credential"
        and "ta_operation action \<in> set [''read'', ''write'']" for statement credential
      using that
      by (auto simp: database_statement_for_def bounded_plain_parameter_def bounded_value_def
          checked_statement_def rbind_Inr_iff split: if_splits)
    show ?thesis
      unfolding database_execute_def Database gateway_connector_config.case Let_def
      by (intro appends_if appends_lift append_rules appends_postgres ok) auto
  qed (simp_all add: database_execute_def append_rules)
  then show ?thesis unfolding appends_def by (metis append_Nil)
qed

text \<open>
  The database connector runs only checked statements. Every SQL text that the adapter hands to
  Postgres has at most 32 KiB, passed the statement check for its operation, which is
  \<open>read\<close> or \<open>write\<close>, and runs with exactly the live credential that is bound for the call.
\<close>

theorem database_calls_checked:
  "list_all (checked_statement action secrets)
     (snd (database_execute shown (postgres_execute pg) tool action secrets []))"
  by (rule database_calls_ok)

section \<open>A response that the egress adapter rejects\<close>

lemma utf8_ok_ascii: "list_all (\<lambda>c. byte c < 128) a \<Longrightarrow> utf8_ok (a @ s) = utf8_ok s"
  by (induction a) auto

text \<open>
  The egress body is cut at 32 KiB before it is decoded, so a valid answer whose cut falls inside a
  character fails as invalid UTF-8, instead of being shortened.
\<close>

theorem egress_cut_inside_character:
  "utf8_ok (replicate 32767 CHR ''a'' @ [CHR 0xC3, CHR 0xA9])
   \<and> egress_fetch_reply ''GET'' (FetchOk status (Inr (replicate 32767 CHR ''a'' @ [CHR 0xC3, CHR 0xA9])))
     = Inl (exec_error AdapterFailed (''failed to read gateway egress response: '' @
         ''stream did not contain valid UTF-8''))"
proof -
  have ascii: "list_all (\<lambda>c. byte c < 128) (replicate 32767 CHR ''a'')"
    by (simp add: list_all_iff)
  have "take (32 * 1024) (replicate 32767 CHR ''a'' @ [CHR 0xC3, CHR 0xA9])
      = replicate 32767 CHR ''a'' @ [CHR 0xC3]"
    unfolding take_append length_replicate take_replicate by simp
  moreover have "utf8_ok [CHR 0xC3, CHR 0xA9]" and "\<not> utf8_ok [CHR 0xC3]"
    by (simp_all add: cont_byte_def)
  ultimately show ?thesis
    using utf8_ok_ascii [OF ascii] by simp
qed

end
