(* ===== verification/Gateway_Wiring.thy ===== *)
theory Gateway_Wiring
  imports Gateway_Connectors Approval_Engine
begin

text \<open>
  How the command line wires the gateway (\<open>crates/taskfence-cli/src/main.rs\<close>): parameters, the
  registry of the task file, the choice of the adapter, of the secret broker and of the approval
  engine. The contracts that the adapters share are locales.
\<close>

section \<open>Parameters, registry and approval\<close>

fun parse_gateway_params_from :: "parameters \<Rightarrow> string list \<Rightarrow> parameters result" where
  "parse_gateway_params_from parsed [] = Inr parsed"
| "parse_gateway_params_from parsed (param # params) =
     (case split_once CHR ''='' param of
        None \<Rightarrow> Inl (Config (''gateway parameter must be KEY=VALUE: '' @ param))
      | Some (key, value) \<Rightarrow>
          if trim key = [] then Inl (Config ''gateway parameter key must not be empty'')
          else parse_gateway_params_from (bt_insert (trim key) (Plain value) parsed) params)"

definition parse_gateway_params :: "string list \<Rightarrow> parameters result" where
  "parse_gateway_params params = parse_gateway_params_from [] params"

definition gateway_tool_registry :: "resolved_task \<Rightarrow> tool_registry result" where
  "gateway_tool_registry task =
     rbind (rmap_list (\<lambda>tool. tool_key_new (gt_protocol tool) (gt_tool tool) (gt_operation tool))
              (gw_tools (rt_gateway task)))
       (\<lambda>keys. Inr (registry_new keys))"

datatype gateway_approval_mode = GatewayFailClosed | GatewayApproved | GatewayExternal

text \<open>The engine of a mode: a local one, or \<open>None\<close> for the external engine of the workspace.\<close>

fun gateway_approval_engine :: "gateway_approval_mode \<Rightarrow> string \<Rightarrow> local_engine option" where
  "gateway_approval_engine GatewayFailClosed source_prefix =
     Some (engine_fail_closed\<lparr>le_actor := ''gateway'', le_source := Some (source_prefix @ ''-fail-closed'')\<rparr>)"
| "gateway_approval_engine GatewayApproved source_prefix =
     Some ((engine_preconfigured Approved)
       \<lparr>le_actor := ''gateway'', le_source := Some (source_prefix @ ''-approved'')\<rparr>)"
| "gateway_approval_engine GatewayExternal source_prefix = None"

section \<open>Adapters\<close>

text \<open>The trait \<open>ToolAdapter\<close> and what its implementations use.\<close>

record tool_adapter =
  tad_identity :: tool_adapter_identity
  tad_secret_refs :: "gateway_secret_reference_config list"
  tad_plan :: "tool_action \<Rightarrow> budget_usage list exec_result"
  tad_execute ::
    "tool_action \<Rightarrow> tool_execution_context \<Rightarrow> gateway_secret_binding list \<Rightarrow> tool_result net"

record adapter_env =
  ax_web :: web
  ax_fetch :: "adapter_call list \<Rightarrow> string \<Rightarrow> string \<Rightarrow> fetch_reply"
  ax_pg :: pg_driver
  ax_files :: fixture_files
  ax_base64 :: "string \<Rightarrow> string"
  ax_parse :: "string \<Rightarrow> string + json"
  ax_show :: "json \<Rightarrow> string"

definition egress_adapter :: "adapter_env \<Rightarrow> tool_adapter" where
  "egress_adapter x =
     \<lparr>tad_identity = egress_identity, tad_secret_refs = [], tad_plan = egress_planned_budget_usage,
      tad_execute = (\<lambda>action ctx secrets. egress_execute (ureq_egress_fetch (ax_fetch x)) action)\<rparr>"

definition fixture_adapter :: "adapter_env \<Rightarrow> gateway_tool_config \<Rightarrow> tool_adapter" where
  "fixture_adapter x tool =
     \<lparr>tad_identity = connector_identity (gt_connector tool), tad_secret_refs = gt_secret_refs tool,
      tad_plan = (\<lambda>action. Inr []),
      tad_execute = (\<lambda>action ctx secrets. fixture_execute (ax_files x) tool action ctx)\<rparr>"

definition github_adapter :: "adapter_env \<Rightarrow> gateway_tool_config \<Rightarrow> tool_adapter" where
  "github_adapter x tool =
     \<lparr>tad_identity = connector_identity (gt_connector tool), tad_secret_refs = gt_secret_refs tool,
      tad_plan = github_planned_budget_usage tool,
      tad_execute = (\<lambda>action ctx secrets.
        github_execute (ureq_github_client (ax_web x) (ax_base64 x)) tool action secrets)\<rparr>"

definition enterprise_adapter :: "adapter_env \<Rightarrow> gateway_tool_config \<Rightarrow> tool_adapter" where
  "enterprise_adapter x tool =
     \<lparr>tad_identity = connector_identity (gt_connector tool), tad_secret_refs = gt_secret_refs tool,
      tad_plan = enterprise_planned_budget_usage tool,
      tad_execute = (\<lambda>action ctx secrets.
        enterprise_execute (ax_parse x) (ax_show x) (ureq_enterprise_execute (ax_web x)) tool action secrets)\<rparr>"

definition database_adapter :: "adapter_env \<Rightarrow> gateway_tool_config \<Rightarrow> tool_adapter" where
  "database_adapter x tool =
     \<lparr>tad_identity = connector_identity (gt_connector tool), tad_secret_refs = gt_secret_refs tool,
      tad_plan = database_planned_budget_usage tool,
      tad_execute = (\<lambda>action ctx secrets.
        database_execute (ax_show x) (postgres_execute (ax_pg x)) tool action secrets)\<rparr>"

definition refusing_adapter :: "unsupported_adapter \<Rightarrow> tool_adapter" where
  "refusing_adapter u =
     \<lparr>tad_identity = ua_identity u, tad_secret_refs = ua_secret_refs u,
      tad_plan = unsupported_planned_budget_usage u,
      tad_execute = (\<lambda>action ctx secrets. slift (unsupported_execute u action))\<rparr>"

fun connector_adapter :: "adapter_env \<Rightarrow> gateway_tool_config \<Rightarrow> gateway_connector_config \<Rightarrow> tool_adapter" where
  "connector_adapter x tool (LocalFixture _ _) = fixture_adapter x tool"
| "connector_adapter x tool (GitHubRest _ _) = github_adapter x tool"
| "connector_adapter x tool (GitHubEnterpriseRest _ _) = github_adapter x tool"
| "connector_adapter x tool (Database _ _) = database_adapter x tool"
| "connector_adapter x tool (UnsupportedConnector kind) =
     refusing_adapter (unsupported_adapter_new ''unsupported'' kind)"
| "connector_adapter x tool _ = enterprise_adapter x tool"

definition configured_tool :: "resolved_task \<Rightarrow> tool_action \<Rightarrow> gateway_tool_config option" where
  "configured_tool task action = find (\<lambda>tool. \<not> tool_mismatch tool action) (gw_tools (rt_gateway task))"

definition gateway_adapter_for :: "adapter_env \<Rightarrow> resolved_task \<Rightarrow> tool_action \<Rightarrow> tool_adapter" where
  "gateway_adapter_for x task action =
     (if is_gateway_egress_action action then egress_adapter x
      else case configured_tool task action of
             Some tool \<Rightarrow> connector_adapter x tool (gt_connector tool)
           | None \<Rightarrow> refusing_adapter (unsupported_adapter_new ''unregistered'' ''unregistered''))"

fun live_connector :: "gateway_connector_config \<Rightarrow> bool" where
  "live_connector (LocalFixture _ _) = False"
| "live_connector (UnsupportedConnector _) = False"
| "live_connector _ = True"

definition gateway_secret_broker_for ::
  "(string \<Rightarrow> string option) \<Rightarrow> resolved_task \<Rightarrow> tool_action \<Rightarrow>
   resolved_task \<Rightarrow> string \<Rightarrow> string \<Rightarrow> secret_reference result" where
  "gateway_secret_broker_for var task action =
     (if list_ex (\<lambda>tool. \<not> tool_mismatch tool action \<and> live_connector (gt_connector tool))
           (gw_tools (rt_gateway task))
      then env_issue_reference var else local_issue_reference)"

text \<open>The executor that the command line builds: mediator, registry, protocols, adapter, broker.\<close>

definition gateway_for :: "resolved_task \<Rightarrow> tool_registry \<Rightarrow> tool_adapter \<Rightarrow> gateway" where
  "gateway_for task registry adapter =
     with_supported_protocols (map gt_protocol (gw_tools (rt_gateway task)))
       \<lparr>gx_approval = True, gx_registry = Some registry, gx_protocols = [], gx_broker = True,
        gx_identity = tad_identity adapter, gx_secret_refs = tad_secret_refs adapter\<rparr>"

section \<open>The contracts of the adapters\<close>

text \<open>A metered adapter plans exactly one gateway call when it accepts an action.\<close>

locale metered_adapter =
  fixes plan :: "tool_action \<Rightarrow> budget_usage list exec_result"
  assumes one_call: "plan a = Inr us \<Longrightarrow> \<exists>p op m. us = [gateway_call_usage p op m]"
begin

lemma granted_has_limit:
  assumes "plan a = Inr us" and "budgets_granted us log"
    and "\<And>b d. GEvaluate b (Inr d) \<in> set log \<Longrightarrow> evaluate glob task b = Inr d"
  shows "\<exists>l \<in> set (bp_allow (pm_budget (rt_permissions task))).
    bl_kind l = ''gateway_calls'' \<and> 1 \<le> bl_max_amount l"
proof -
  from one_call [OF assms(1)] obtain p op m where us: "us = [gateway_call_usage p op m]" by blast
  have norm: "trim ''gateway_calls'' = ''gateway_calls''" "to_lower ''gateway_calls'' = ''gateway_calls''"
    by code_simp+
  from assms(2) obtain d where "GEvaluate (Budget ''gateway_calls'' 1) (Inr d) \<in> set log" "\<not> is_deny d"
    unfolding us
    by (auto simp: budgets_granted_def budget_usage_normalized_def normalize_budget_usage_text_def
        gateway_call_usage_def norm lower_char_def is_upper_def Let_def rbind_Inr_iff
        split: sum.splits if_splits)
  from builtin.budget_not_denied_within [OF assms(3) [OF this(1)] this(2)] show ?thesis
    unfolding norm .
qed

end

text \<open>
  A live adapter also does nothing without a live credential: the references of the local broker
  are placeholders.
\<close>

definition placeholder :: "gateway_secret_binding \<Rightarrow> bool" where
  "placeholder b \<longleftrightarrow> prefix ''taskfence://'' (sref_handle (sb_reference b))"

locale live_adapter = metered_adapter +
  fixes execute :: "tool_action \<Rightarrow> gateway_secret_binding list \<Rightarrow> tool_result net"
  assumes needs_credential: "list_all placeholder bs \<Longrightarrow> \<exists>err. execute a bs log = (Inl err, log)"
begin

lemma no_credential_no_call: "list_all placeholder bs \<Longrightarrow> snd (execute a bs log) = log"
  using needs_credential by (metis snd_conv)

lemma unbound_fails: "\<exists>err. execute a [] log = (Inl err, log)"
  by (rule needs_credential) simp

end


lemma placeholder_not_live:
  "list_all placeholder bs \<Longrightarrow> \<exists>err. live_secret_from_bindings bs c = Inl err"
proof -
  assume all: "list_all placeholder bs"
  let ?found = "find (\<lambda>b. sb_parameter b = ''authorization'' \<or> sb_parameter b = ''token'') bs"
  show ?thesis
  proof (cases ?found)
    case None
    with all show ?thesis
      by (cases bs) (auto simp: live_secret_from_bindings_def placeholder_def Let_def split: if_splits)
  next
    case (Some b)
    with find_SomeD [OF Some] all have "placeholder b" by (auto simp: list_all_iff)
    with Some show ?thesis by (simp add: live_secret_from_bindings_def placeholder_def Let_def)
  qed
qed

lemma sbind_Inl: "m s = (Inl e, s') \<Longrightarrow> sbind m f s = (Inl e, s')"
  by (simp add: sbind_def stry_def sfail_def)

lemma slift_Inl: "slift (Inl e) s = (Inl e, s)"
  by (simp add: slift_def)

lemma github_needs_credential:
  assumes "list_all placeholder bs"
  shows "\<exists>err. github_execute client tool a bs log = (Inl err, log)"
  using placeholder_not_live [OF assms, of "''github_rest''"]
  by (auto simp: github_execute_def unsupported_tool_def slift_Inl sbind_Inl split: option.split)

lemma enterprise_needs_credential:
  assumes "list_all placeholder bs"
  shows "\<exists>err. enterprise_execute parse shown client tool a bs log = (Inl err, log)"
proof -
  from placeholder_not_live [OF assms, of "ta_tool a"] obtain e
    where "live_secret_from_bindings bs (ta_tool a) = Inl e" by blast
  then show ?thesis
    by (cases "ensure_tool_matches_config tool a")
      (simp_all add: enterprise_execute_def sbind_def stry_def slift_def sfail_def)
qed

lemma database_needs_credential:
  assumes "list_all placeholder bs"
  shows "\<exists>err. database_execute shown client tool a bs log = (Inl err, log)"
proof -
  from placeholder_not_live [OF assms, of "ta_tool a"] obtain e
    where "live_secret_from_bindings bs (ta_tool a) = Inl e" by blast
  then have "\<exists>err. (case gt_connector tool of
         Database engine database_ref \<Rightarrow>
           if ta_operation a \<notin> set [''read'', ''write'']
           then slift (unsupported_tool (''database connector does not support '' @ ta_operation a))
           else let read_only = ta_operation a = ''read''
             in sbind (slift (database_statement_for engine database_ref a read_only)) (\<lambda>statement.
                sbind (slift (live_secret_from_bindings bs (ta_tool a))) (\<lambda>credential. f database_ref engine read_only statement credential))
       | _ \<Rightarrow> slift (unsupported_tool ''gateway connector is not a database connector'')) log = (Inl err, log)" for f
    by (cases "gt_connector tool")
      (auto simp: slift_def unsupported_tool_def sbind_def stry_def sfail_def Let_def split: sum.splits)
  then show ?thesis
    unfolding database_execute_def
    by (cases "ensure_tool_matches_config tool a")
      (auto simp: sbind_def stry_def slift_def sfail_def)
qed

interpretation egress: metered_adapter egress_planned_budget_usage
  by standard (auto simp: egress_planned_budget_usage_def egress_cannot_execute_def unsupported_tool_def
      split: if_splits)

interpretation github: live_adapter "github_planned_budget_usage tool" "github_execute client tool"
  for tool client
  by standard (auto simp: github_planned_budget_usage_def unsupported_tool_def Let_def github_needs_credential
      split: if_splits)

interpretation enterprise: live_adapter "enterprise_planned_budget_usage tool"
    "enterprise_execute parse shown client tool" for tool parse shown client
  by standard (auto simp: enterprise_planned_budget_usage_def unsupported_tool_def Let_def
      enterprise_needs_credential split: if_splits)

interpretation database: live_adapter "database_planned_budget_usage tool"
    "database_execute shown client tool" for tool shown client
  by standard (auto simp: database_planned_budget_usage_def unsupported_tool_def Let_def
      database_needs_credential split: if_splits)


section \<open>What the wiring guarantees\<close>

text \<open>A call that costs: an egress fetch or a configured live connector.\<close>

definition costly :: "resolved_task \<Rightarrow> tool_action \<Rightarrow> bool" where
  "costly task action \<longleftrightarrow>
     is_gateway_egress_action action \<or>
     (case configured_tool task action of Some tool \<Rightarrow> live_connector (gt_connector tool) | None \<Rightarrow> False)"

lemma costly_adapter_metered:
  assumes "costly task action"
  shows "metered_adapter (tad_plan (gateway_adapter_for x task action))"
proof (cases "is_gateway_egress_action action")
  case True
  then show ?thesis
    by (simp add: gateway_adapter_for_def egress_adapter_def egress.metered_adapter_axioms)
next
  case False
  with assms obtain tool where tool: "configured_tool task action = Some tool"
    and live: "live_connector (gt_connector tool)" by (auto simp: costly_def split: option.splits)
  have "metered_adapter (tad_plan (connector_adapter x tool (gt_connector tool)))"
    using live
    by (cases "gt_connector tool")
      (simp_all add: github_adapter_def enterprise_adapter_def database_adapter_def
        github.metered_adapter_axioms enterprise.metered_adapter_axioms database.metered_adapter_axioms)
  with False tool show ?thesis by (simp add: gateway_adapter_for_def)
qed


lemma is_execute_cases: "is_execute c \<Longrightarrow> \<exists>a bs r. c = GExecute a bs r"
  by (cases c) auto

lemma executed_is_settled:
  assumes "GExecute a bs r \<in> set (snd (execute_tool_action env gx task action ctx []))"
    (is "_ \<in> set ?log")
  obtains pre where "set pre \<subseteq> set ?log" and "execution_settled gx task pre (GExecute a bs r)"
proof -
  obtain pre post where split: "?log = pre @ GExecute a bs r # post"
    using split_list [OF assms] by blast
  with each_execution_settled [of gx task env action ctx]
  have "execution_settled gx task pre (GExecute a bs r)"
    unfolding each_call_def by blast
  with that [of pre] split show thesis by (metis Un_upper1 set_append)
qed

text \<open>
  C13: A call that costs is metered by the task file. When the command line's adapter for an egress
  fetch or a live connector runs under the built-in policy engine, the adapter is called only if the
  task's budget permissions contain a limit for gateway calls that admits at least one call.
\<close>

theorem costly_call_is_metered:
  assumes "\<forall>h a. ge_evaluate env h task a = evaluate glob task a"
    and "\<forall>h a c. ge_plan env h task a c = tad_plan (gateway_adapter_for x task chosen) a"
    and "costly task chosen"
    and "GExecute a bs r \<in> set (snd (execute_tool_action env gx task action ctx []))"
  shows "\<exists>l \<in> set (bp_allow (pm_budget (rt_permissions task))).
    bl_kind l = ''gateway_calls'' \<and> 1 \<le> bl_max_amount l"
proof -
  obtain pre where pre: "set pre \<subseteq> set (snd (execute_tool_action env gx task action ctx []))"
    and settled: "execution_settled gx task pre (GExecute a bs r)"
    using executed_is_settled [OF assms(4)] .
  from settled obtain a0 us where plan: "GPlan a0 (Inr us) \<in> set pre" and granted: "budgets_granted us pre"
    by auto
  from plan pre obtain h c where "ge_plan env h task a0 c = Inr us"
    by (metis logged_plan subsetD)
  with assms(2) have "tad_plan (gateway_adapter_for x task chosen) a0 = Inr us" by simp
  note planned = this
  have "evaluate glob task b = Inr d" if "GEvaluate b (Inr d) \<in> set pre" for b d
  proof -
    from that pre have "GEvaluate b (Inr d) \<in> set (snd (execute_tool_action env gx task action ctx []))" by blast
    then obtain h where "ge_evaluate env h task b = Inr d" by (rule logged_decision)
    with assms(1) show ?thesis by simp
  qed
  from metered_adapter.granted_has_limit [OF costly_adapter_metered [OF assms(3)] planned granted this]
  show ?thesis .
qed

text \<open>A world in which nothing answers, and a task that registers an unsupported GitHub tool.\<close>

definition silent_world :: adapter_env where
  "silent_world =
     \<lparr>ax_web = (\<lambda>h r. WebTransport ''offline''), ax_fetch = (\<lambda>h m u. FetchTransport ''offline''),
      ax_pg = \<lparr>pg_connect = (\<lambda>h c. Inl ''offline''), pg_query = (\<lambda>h s. Inl ''offline''),
        pg_execute = (\<lambda>h s. Inl ''offline'')\<rparr>,
      ax_files = \<lparr>ff_read = (\<lambda>p. Inl ''missing''), ff_parse = (\<lambda>s. Inl ''syntax''),
        ff_mkdir = (\<lambda>h p. Inr ()), ff_write = (\<lambda>h p s. Inr ()), ff_pretty = (\<lambda>j. [])\<rparr>,
      ax_base64 = id, ax_parse = Inl, ax_show = (\<lambda>j. [])\<rparr>"

definition live_task :: resolved_task where
  "live_task = sample_task\<lparr>rt_gateway := \<lparr>gw_mode = gw_mode (rt_gateway sample_task),
     gw_egress_allow_domains = False,
     gw_tools = [\<lparr>gt_protocol = ''mcp'', gt_tool = ''github'', gt_operation = ''read_issue'',
       gt_connector = GitHubRest ''https://api.github.com'' ''acme/app'', gt_secret_refs = []\<rparr>]\<rparr>\<rparr>"

definition live_env :: gw_env where
  "live_env = sample_gw_env\<lparr>ge_plan := (\<lambda>h task a c.
     tad_plan (gateway_adapter_for silent_world live_task (sample_tool ''read_issue'')) a)\<rparr>"

theorem costly_call_is_metered_witness:
  "\<exists>l \<in> set (bp_allow (pm_budget (rt_permissions live_task))).
     bl_kind l = ''gateway_calls'' \<and> 1 \<le> bl_max_amount l"
proof -
  let ?ctx = "\<lparr>tc_task_dir = None, tc_artifact_dir = None\<rparr>"
  let ?log = "snd (execute_tool_action live_env sample_gateway live_task (sample_tool ''read_issue'') ?ctx [])"
  have "costly live_task (sample_tool ''read_issue'')" by code_simp
  moreover have "list_ex is_execute ?log" by code_simp
  then obtain c where "c \<in> set ?log" and "is_execute c" by (auto simp: list_ex_iff)
  then obtain a bs r where "GExecute a bs r \<in> set ?log" using is_execute_cases by blast
  ultimately show ?thesis
    by (intro costly_call_is_metered [where glob = exact_glob and env = live_env and x = silent_world])
      (simp_all add: live_env_def sample_gw_env_def)
qed


text \<open>
  Without a live credential nothing leaves the gateway. The adapter of a live connector fails and
  makes no call at all when every binding holds a placeholder, in particular when no secret is bound
  or when the references were issued by the local broker, which is the one the command line uses for
  every tool that is not live.
\<close>

theorem placeholder_makes_no_call:
  assumes "configured_tool task action = Some tool" and "live_connector (gt_connector tool)"
    and "\<not> is_gateway_egress_action action" and "list_all placeholder bs"
  shows "\<exists>err. tad_execute (gateway_adapter_for x task action) a ctx bs log = (Inl err, log)"
proof -
  have "\<exists>err. tad_execute (connector_adapter x tool (gt_connector tool)) a ctx bs log = (Inl err, log)"
    using assms(2)
    by (cases "gt_connector tool")
      (simp_all add: github_adapter_def enterprise_adapter_def database_adapter_def
        github.needs_credential [OF assms(4)] enterprise.needs_credential [OF assms(4)]
        database.needs_credential [OF assms(4)])
  with assms(1,3) show ?thesis by (simp add: gateway_adapter_for_def)
qed

lemma local_reference_placeholder:
  "local_issue_reference task n sc = Inr ref \<Longrightarrow> placeholder \<lparr>sb_parameter = p, sb_reference = ref\<rparr>"
  by (auto simp: local_issue_reference_def placeholder_def)

theorem placeholder_makes_no_call_witness:
  "\<exists>err. tad_execute (gateway_adapter_for silent_world live_task (sample_tool ''read_issue''))
     (sample_tool ''read_issue'') \<lparr>tc_task_dir = None, tc_artifact_dir = None\<rparr>
     [\<lparr>sb_parameter = ''token'', sb_reference =
        \<lparr>sref_name = ''github'', sref_scope = ''s'', sref_handle = ''taskfence://gateway-secret/t/github/s''\<rparr>\<rparr>]
     [] = (Inl err, [])"
  by (rule placeholder_makes_no_call [where tool = "hd (gw_tools (rt_gateway live_task))"]; code_simp)

end
