(* ===== verification/Gateway_Spool.thy ===== *)
theory Gateway_Spool
  imports Gateway_Executor Rust_Path
begin

text \<open>
  The file spool of the gateway (\<open>crates/taskfence-gateway/src/lib.rs\<close>): where requests and
  responses of a task lie, how a request file is checked and read and how a response file is
  written. The file system and the JSON texts are parameters.
\<close>

section \<open>Paths\<close>

record gateway_spool_paths =
  gsp_root :: path
  gsp_requests_dir :: path
  gsp_responses_dir :: path

definition validate_spool_component :: "string \<Rightarrow> string \<Rightarrow> unit result" where
  "validate_spool_component field v =
     (if v = [] \<or> v = ''.'' \<or> v = ''..'' \<or> CHR ''/'' \<in> set v \<or> CHR 0x5C \<in> set v \<or> has_control v
      then Inl (Gateway (field @ '' is not a safe gateway spool path component: '' @ debug_str v))
      else if \<not> list_all name_char v
      then Inl (Gateway (field @ '' may only contain ASCII letters, digits, '' @ [CHR 0x27] @ ''.'' @
             [CHR 0x27] @ '', '' @ [CHR 0x27] @ ''_'' @ [CHR 0x27] @ '' or '' @ [CHR 0x27] @ ''-'' @
             [CHR 0x27] @ '': '' @ debug_str v))
      else Inr ())"

definition reject_parent_component :: "string \<Rightarrow> path \<Rightarrow> unit result" where
  "reject_parent_component field p =
     (if contains_parent_dir p
      then Inl (Gateway (field @ '' must not contain '' @ [CHR 0x27] @ ''..'' @ [CHR 0x27] @ '': '' @ p))
      else Inr ())"

definition spool_paths_new :: "path \<Rightarrow> gateway_spool_paths result" where
  "spool_paths_new root =
     rbind (reject_parent_component ''gateway spool root'' root) (\<lambda>_.
       Inr \<lparr>gsp_root = root, gsp_requests_dir = path_join root ''requests'',
         gsp_responses_dir = path_join root ''responses''\<rparr>)"

definition spool_paths_for_task :: "resolved_task \<Rightarrow> gateway_spool_paths result" where
  "spool_paths_for_task task =
     rbind (validate_spool_component ''task id'' (rt_id task)) (\<lambda>_.
       spool_paths_new (path_join (path_join (path_join (path_join (rt_workspace_host_path task)
         ''.taskfence'') ''tasks'') (rt_id task)) ''gateway-spool''))"

definition spool_request_id :: string where "spool_request_id = ''gateway spool request id''"

definition spool_request_path :: "gateway_spool_paths \<Rightarrow> string \<Rightarrow> path result" where
  "spool_request_path paths request_id =
     rbind (validate_spool_component spool_request_id request_id) (\<lambda>_.
       Inr (path_join (gsp_requests_dir paths) (request_id @ ''.json'')))"

definition spool_response_path :: "gateway_spool_paths \<Rightarrow> string \<Rightarrow> path result" where
  "spool_response_path paths request_id =
     rbind (validate_spool_component spool_request_id request_id) (\<lambda>_.
       Inr (path_join (gsp_responses_dir paths) (request_id @ ''.json'')))"

section \<open>Requests and responses\<close>

record gateway_spool_request =
  gsr_request_id :: string
  gsr_action :: tool_action
  gsr_timeout_seconds :: "u64 option"
  gsr_cancel :: bool

definition spool_request_normalized :: "gateway_spool_request \<Rightarrow> gateway_spool_request result" where
  "spool_request_normalized r =
     rbind (validate_spool_component spool_request_id (gsr_request_id r)) (\<lambda>_.
     rbind (normalize_tool_action (gsr_action r)) (\<lambda>action.
       Inr (r\<lparr>gsr_action := action\<rparr>)))"

datatype gateway_spool_response_state =
    SpoolSucceeded | SpoolFailed | SpoolDenied | SpoolTimedOut | SpoolCancelled
  | SpoolMalformedRequest | SpoolUnsupportedAction

record gateway_spool_response =
  gsa_request_id :: string
  gsa_state :: gateway_spool_response_state
  gsa_execution :: "tool_execution option"
  gsa_error :: "tool_execution_error option"

fun spool_state_of :: "tool_execution_error_kind option \<Rightarrow> gateway_spool_response_state" where
  "spool_state_of None = SpoolSucceeded"
| "spool_state_of (Some PolicyDenied) = SpoolDenied"
| "spool_state_of (Some ApprovalDeniedOrTimedOut) = SpoolDenied"
| "spool_state_of (Some BudgetExceeded) = SpoolDenied"
| "spool_state_of (Some UnsupportedProtocol) = SpoolUnsupportedAction"
| "spool_state_of (Some UnsupportedTool) = SpoolUnsupportedAction"
| "spool_state_of _ = SpoolFailed"

definition spool_response_from_execution :: "string \<Rightarrow> tool_execution \<Rightarrow> gateway_spool_response" where
  "spool_response_from_execution request_id execution =
     \<lparr>gsa_request_id = request_id, gsa_state = spool_state_of (map_option te_kind (tx_error execution)),
      gsa_execution = Some execution, gsa_error = None\<rparr>"

definition spool_response_error ::
  "string \<Rightarrow> gateway_spool_response_state \<Rightarrow> tool_execution_error_kind \<Rightarrow> string \<Rightarrow>
   gateway_spool_response" where
  "spool_response_error request_id st kind message =
     \<lparr>gsa_request_id = request_id, gsa_state = st, gsa_execution = None,
      gsa_error = Some \<lparr>te_kind = kind, te_message = message\<rparr>\<rparr>"

section \<open>Files\<close>

text \<open>\<open>symlink_metadata\<close>: the kind of the file itself, links not followed; \<open>canonicalize\<close>.\<close>

datatype file_kind = LinkFile | RegularFile | OtherFile

datatype inspection = Found file_kind | NotFound | InspectError string

datatype canonical = CanonicalPath path | CanonicalError string | CanonicalNotUtf8 string

record spool_files =
  sf_inspect :: "path \<Rightarrow> inspection"
  sf_canonical :: "path \<Rightarrow> canonical"
  sf_read :: "path \<Rightarrow> string + string"
  sf_parse :: "string \<Rightarrow> string + gateway_spool_request"
  sf_mkdir :: "path \<Rightarrow> string + unit"
  sf_create :: "path \<Rightarrow> string + unit"
  sf_fill :: "path \<Rightarrow> string \<Rightarrow> string + unit"
  sf_pretty :: "gateway_spool_response \<Rightarrow> string + string"

definition spool_canonical_utf8 :: "spool_files \<Rightarrow> path \<Rightarrow> path result" where
  "spool_canonical_utf8 fs p =
     (case sf_canonical fs p of
        CanonicalPath q \<Rightarrow> Inr q
      | CanonicalError err \<Rightarrow>
          Inl (Gateway (''failed to canonicalize gateway spool path '' @ p @ '': '' @ err))
      | CanonicalNotUtf8 q \<Rightarrow> Inl (Gateway (''gateway spool path is not valid UTF-8: '' @ q)))"

definition require_json :: "string \<Rightarrow> path \<Rightarrow> unit result" where
  "require_json field p =
     (if extension p \<noteq> Some ''json'' then Inl (Gateway (field @ '' must be a .json file: '' @ p)) else Inr ())"

text \<open>The text of a missing file is that of the I/O error \<open>ENOENT\<close>.\<close>

definition inspect_error :: "string \<Rightarrow> path \<Rightarrow> string \<Rightarrow> 'a result" where
  "inspect_error field p err = Inl (Gateway (''failed to inspect '' @ field @ '' '' @ p @ '': '' @ err))"

definition no_such_file :: string where "no_such_file = ''No such file or directory (os error 2)''"

definition validate_existing_spool_file ::
  "spool_files \<Rightarrow> string \<Rightarrow> path \<Rightarrow> path \<Rightarrow> path result" where
  "validate_existing_spool_file fs field p allowed_dir =
     rbind (reject_parent_component field p) (\<lambda>_.
     rbind (reject_parent_component ''gateway spool allowed directory'' allowed_dir) (\<lambda>_.
     rbind (require_json field p) (\<lambda>_.
     rbind (case sf_inspect fs p of
              Found LinkFile \<Rightarrow> Inl (Gateway (field @ '' must not be a symlink: '' @ p))
            | Found OtherFile \<Rightarrow> Inl (Gateway (field @ '' must be a regular file: '' @ p))
            | Found RegularFile \<Rightarrow> Inr ()
            | NotFound \<Rightarrow> inspect_error field p no_such_file
            | InspectError err \<Rightarrow> inspect_error field p err) (\<lambda>_.
     rbind (spool_canonical_utf8 fs p) (\<lambda>canonical_path.
     rbind (spool_canonical_utf8 fs allowed_dir) (\<lambda>canonical_dir.
       if \<not> path_starts_with canonical_path canonical_dir
       then Inl (Gateway (field @ '' escapes gateway spool directory '' @ canonical_dir @ '': '' @
              canonical_path))
       else Inr canonical_path))))))"

definition validate_new_spool_file :: "spool_files \<Rightarrow> string \<Rightarrow> path \<Rightarrow> path \<Rightarrow> unit result" where
  "validate_new_spool_file fs field p allowed_dir =
     rbind (reject_parent_component field p) (\<lambda>_.
     rbind (reject_parent_component ''gateway spool allowed directory'' allowed_dir) (\<lambda>_.
     rbind (require_json field p) (\<lambda>_.
     rbind (spool_canonical_utf8 fs allowed_dir) (\<lambda>canonical_dir.
     rbind (case path_parent p of
              None \<Rightarrow> Inl (Gateway (field @ '' path has no parent directory: '' @ p))
            | Some parent \<Rightarrow> Inr parent) (\<lambda>parent.
     rbind (spool_canonical_utf8 fs parent) (\<lambda>canonical_parent.
       if \<not> path_eq canonical_parent canonical_dir
       then Inl (Gateway (field @ '' must be written directly under gateway spool directory '' @
              canonical_dir @ '': '' @ p))
       else case sf_inspect fs p of
              Found LinkFile \<Rightarrow> Inl (Gateway (field @ '' must not overwrite a symlink: '' @ p))
            | Found _ \<Rightarrow> Inl (Gateway (field @ '' already exists: '' @ p))
            | NotFound \<Rightarrow> Inr ()
            | InspectError err \<Rightarrow> inspect_error field p err))))))"

definition request_id_from_path :: "path \<Rightarrow> string result" where
  "request_id_from_path p =
     (case file_stem p of
        None \<Rightarrow> Inl (Gateway (''gateway spool request file has no stem: '' @ p))
      | Some stem \<Rightarrow> rbind (validate_spool_component spool_request_id stem) (\<lambda>_. Inr stem))"

definition read_gateway_spool_request ::
  "spool_files \<Rightarrow> gateway_spool_paths \<Rightarrow> path \<Rightarrow> gateway_spool_request result" where
  "read_gateway_spool_request fs paths request_path =
     rbind (validate_existing_spool_file fs ''gateway spool request'' request_path
              (gsp_requests_dir paths)) (\<lambda>request_path.
     rbind (request_id_from_path request_path) (\<lambda>request_id.
     rbind (case sf_read fs request_path of
              Inl err \<Rightarrow> Inl (Gateway (''failed to read gateway spool request '' @ request_path @ '': '' @ err))
            | Inr contents \<Rightarrow> Inr contents) (\<lambda>contents.
     rbind (case sf_parse fs contents of
              Inl err \<Rightarrow> Inl (Gateway (''malformed gateway spool request '' @ request_path @ '': '' @ err))
            | Inr request \<Rightarrow> Inr request) (\<lambda>request.
     rbind (spool_request_normalized request) (\<lambda>request.
       if gsr_request_id request \<noteq> request_id
       then Inl (Gateway (''gateway spool request id '' @ gsr_request_id request @
              '' does not match request file '' @ request_id @ ''.json''))
       else Inr request)))))"

text \<open>The file is created anew (\<open>create_new\<close>) and then filled.\<close>

definition write_spool_response_file :: "spool_files \<Rightarrow> path \<Rightarrow> string \<Rightarrow> unit result" where
  "write_spool_response_file fs p bytes =
     (case sf_create fs p of
        Inl err \<Rightarrow> Inl (Gateway (''failed to create gateway spool response '' @ p @ '': '' @ err))
      | Inr _ \<Rightarrow>
          (case sf_fill fs p bytes of
             Inl err \<Rightarrow> Inl (Gateway (''failed to write gateway spool response '' @ p @ '': '' @ err))
           | Inr _ \<Rightarrow> Inr ()))"

definition write_gateway_spool_response ::
  "spool_files \<Rightarrow> gateway_spool_paths \<Rightarrow> gateway_spool_response \<Rightarrow> path result" where
  "write_gateway_spool_response fs paths response =
     rbind (validate_spool_component spool_request_id (gsa_request_id response)) (\<lambda>_.
     rbind (case sf_mkdir fs (gsp_responses_dir paths) of
              Inl err \<Rightarrow> Inl (Gateway (''failed to create gateway spool response directory '' @
                gsp_responses_dir paths @ '': '' @ err))
            | Inr _ \<Rightarrow> Inr ()) (\<lambda>_.
     rbind (spool_response_path paths (gsa_request_id response)) (\<lambda>response_path.
     rbind (validate_new_spool_file fs ''gateway spool response'' response_path
              (gsp_responses_dir paths)) (\<lambda>_.
     rbind (case sf_pretty fs response of
              Inl err \<Rightarrow> Inl (Gateway (''failed to serialize gateway spool response: '' @ err))
            | Inr bytes \<Rightarrow> Inr bytes) (\<lambda>bytes.
     rbind (write_spool_response_file fs response_path bytes) (\<lambda>_.
       Inr response_path))))))"


section \<open>What the spool accepts and where it writes\<close>

lemma spool_component_safe: "validate_spool_component f v = Inr () \<Longrightarrow> safe_component v"
  by (auto simp: validate_spool_component_def safe_component_def split: if_splits)

lemma safe_component_json: "safe_component v \<Longrightarrow> safe_component (v @ ''.json'')"
  by (auto simp: safe_component_def)

text \<open>
  A spool request is accepted only from its own file. The file that is read is a regular file,
  not a link, its real path lies in the real requests directory, its name is the request's identifier
  with \<open>.json\<close>, which is a single safe path segment, and the action is in normal form.
\<close>

theorem spool_request_accepted:
  assumes "read_gateway_spool_request fs paths p = Inr request"
  shows "\<exists>q d. sf_inspect fs p = Found RegularFile
    \<and> sf_canonical fs p = CanonicalPath q \<and> sf_canonical fs (gsp_requests_dir paths) = CanonicalPath d
    \<and> path_starts_with q d \<and> file_stem q = Some (gsr_request_id request)
    \<and> safe_component (gsr_request_id request) \<and> normal_action (gsr_action request)"
proof -
  from assms obtain q contents raw where
    q: "validate_existing_spool_file fs ''gateway spool request'' p (gsp_requests_dir paths) = Inr q"
    and stem: "request_id_from_path q = Inr (gsr_request_id request)"
    and normal: "spool_request_normalized raw = Inr request"
    by (auto simp: read_gateway_spool_request_def rbind_Inr_iff split: if_splits sum.splits)
  from q have regular: "sf_inspect fs p = Found RegularFile" "sf_canonical fs p = CanonicalPath q"
    by (auto simp: validate_existing_spool_file_def rbind_Inr_iff spool_canonical_utf8_def inspect_error_def
        split: if_splits inspection.splits file_kind.splits canonical.splits)
  from q obtain d where dir: "sf_canonical fs (gsp_requests_dir paths) = CanonicalPath d" "path_starts_with q d"
    by (auto simp: validate_existing_spool_file_def rbind_Inr_iff spool_canonical_utf8_def
        split: if_splits canonical.splits)
  from stem have id: "file_stem q = Some (gsr_request_id request)" "safe_component (gsr_request_id request)"
    by (auto simp: request_id_from_path_def rbind_Inr_iff spool_component_safe split: option.splits)
  from normal have "normal_action (gsr_action request)"
    by (auto simp: spool_request_normalized_def rbind_Inr_iff dest: normalize_tool_action_normal)
  with regular dir id show ?thesis by blast
qed

text \<open>A spool whose file system answers the same for every path.\<close>

definition sample_spool :: "inspection \<Rightarrow> spool_files" where
  "sample_spool found =
     \<lparr>sf_inspect = (\<lambda>p. found), sf_canonical = CanonicalPath, sf_read = (\<lambda>p. Inr []),
      sf_parse = (\<lambda>s. Inr \<lparr>gsr_request_id = ''r1'', gsr_action = sample_tool ''read_issue'',
        gsr_timeout_seconds = None, gsr_cancel = False\<rparr>),
      sf_mkdir = (\<lambda>p. Inr ()), sf_create = (\<lambda>p. Inr ()), sf_fill = (\<lambda>p b. Inr ()),
      sf_pretty = (\<lambda>r. Inr [])\<rparr>"

definition sample_spool_paths :: gateway_spool_paths where
  "sample_spool_paths = \<lparr>gsp_root = ''/w/spool'', gsp_requests_dir = ''/w/spool/requests'',
     gsp_responses_dir = ''/w/spool/responses''\<rparr>"

theorem spool_request_accepted_witness:
  "\<exists>request. read_gateway_spool_request (sample_spool (Found RegularFile)) sample_spool_paths
      ''/w/spool/requests/r1.json'' = Inr request \<and> safe_component (gsr_request_id request)"
proof -
  have "case read_gateway_spool_request (sample_spool (Found RegularFile)) sample_spool_paths
      ''/w/spool/requests/r1.json'' of Inr r \<Rightarrow> True | Inl e \<Rightarrow> False"
    by code_simp
  then obtain request where "read_gateway_spool_request (sample_spool (Found RegularFile)) sample_spool_paths
      ''/w/spool/requests/r1.json'' = Inr request"
    by (auto split: sum.splits)
  from this spool_request_accepted [OF this] show ?thesis by blast
qed

lemma components_for_task:
  assumes "spool_paths_for_task task = Inr paths" and "rt_workspace_host_path task \<noteq> []"
  shows "components (gsp_responses_dir paths) = components (rt_workspace_host_path task) @
    map Normal [''.taskfence'', ''tasks'', rt_id task, ''gateway-spool'', ''responses'']"
    and "gsp_responses_dir paths \<noteq> []"
proof -
  have words: "safe_component ''.taskfence''" "safe_component ''tasks''" "safe_component ''gateway-spool''"
    "safe_component ''responses''" by code_simp+
  from assms(1) have task: "safe_component (rt_id task)"
    and dir: "gsp_responses_dir paths = path_join (path_join (path_join (path_join (path_join
      (rt_workspace_host_path task) ''.taskfence'') ''tasks'') (rt_id task)) ''gateway-spool'') ''responses''"
    by (auto simp: spool_paths_for_task_def spool_paths_new_def rbind_Inr_iff spool_component_safe)
  show "components (gsp_responses_dir paths) = components (rt_workspace_host_path task) @
      map Normal [''.taskfence'', ''tasks'', rt_id task, ''gateway-spool'', ''responses'']"
    using assms(2) words task
    by (simp add: dir components_join_safe path_join_safe_nonempty)
  show "gsp_responses_dir paths \<noteq> []"
    using words by (simp add: dir path_join_safe_nonempty)
qed

text \<open>
  A spool response never overwrites or escapes. When a response is written, the file is
  \<open><workspace>/.taskfence/tasks/<task>/gateway-spool/responses/<request>.json\<close>, with the task and
  the request as single segments, nothing existed there before, and the real path of its directory
  is that of the responses directory.
\<close>

theorem spool_response_in_place:
  assumes "spool_paths_for_task task = Inr paths" and "rt_workspace_host_path task \<noteq> []"
    and "write_gateway_spool_response fs paths response = Inr p"
  shows "components p = components (rt_workspace_host_path task) @
      map Normal [''.taskfence'', ''tasks'', rt_id task, ''gateway-spool'', ''responses'',
        gsa_request_id response @ ''.json'']
    \<and> sf_inspect fs p = NotFound \<and> sf_create fs p = Inr ()
    \<and> (\<exists>parent q r. path_parent p = Some parent \<and> sf_canonical fs parent = CanonicalPath q
         \<and> sf_canonical fs (gsp_responses_dir paths) = CanonicalPath r \<and> path_eq q r)"
proof -
  note dir = components_for_task [OF assms(1,2)]
  from assms(3) have id: "safe_component (gsa_request_id response)"
    and p: "p = path_join (gsp_responses_dir paths) (gsa_request_id response @ ''.json'')"
    and new: "validate_new_spool_file fs ''gateway spool response'' p (gsp_responses_dir paths) = Inr ()"
    and created: "sf_create fs p = Inr ()"
    by (auto simp: write_gateway_spool_response_def spool_response_path_def rbind_Inr_iff
        write_spool_response_file_def spool_component_safe split: sum.splits)
  from new have "sf_inspect fs p = NotFound"
    by (auto simp: validate_new_spool_file_def rbind_Inr_iff inspect_error_def
        split: if_splits inspection.splits file_kind.splits)
  moreover from new obtain parent q r where "path_parent p = Some parent"
    "sf_canonical fs parent = CanonicalPath q" "sf_canonical fs (gsp_responses_dir paths) = CanonicalPath r"
    "path_eq q r"
    by (auto simp: validate_new_spool_file_def rbind_Inr_iff spool_canonical_utf8_def
        split: if_splits canonical.splits option.splits)
  moreover have "components p = components (gsp_responses_dir paths) @ [Normal (gsa_request_id response @ ''.json'')]"
    unfolding p by (rule components_join_safe [OF dir(2) safe_component_json [OF id]])
  ultimately show ?thesis using dir(1) created by auto
qed

theorem spool_response_in_place_witness:
  "\<exists>paths p. spool_paths_for_task sample_task = Inr paths
     \<and> write_gateway_spool_response (sample_spool NotFound) paths
         (spool_response_error ''r1'' SpoolCancelled AdapterFailed ''cancelled'') = Inr p
     \<and> components p = components (rt_workspace_host_path sample_task) @
         map Normal [''.taskfence'', ''tasks'', ''t1'', ''gateway-spool'', ''responses'', ''r1.json'']"
proof -
  have "case spool_paths_for_task sample_task of Inl e \<Rightarrow> False
    | Inr paths \<Rightarrow> is_ok (write_gateway_spool_response (sample_spool NotFound) paths
         (spool_response_error ''r1'' SpoolCancelled AdapterFailed ''cancelled''))"
    by code_simp
  then obtain paths p where ok: "spool_paths_for_task sample_task = Inr paths"
    "write_gateway_spool_response (sample_spool NotFound) paths
       (spool_response_error ''r1'' SpoolCancelled AdapterFailed ''cancelled'') = Inr p"
    by (auto simp: is_ok_iff split: sum.splits)
  have "rt_workspace_host_path sample_task \<noteq> []" and "rt_id sample_task = ''t1''" by code_simp+
  with spool_response_in_place [OF ok(1) _ ok(2)] ok show ?thesis
    by (auto simp: spool_response_error_def)
qed

end
