(* ===== verification/Gateway_Commands.thy ===== *)
theory Gateway_Commands
  imports Gateway_Wiring Gateway_Spool Team_State
begin

text \<open>
  The gateway commands of the command line (\<open>crates/taskfence-cli/src/main.rs\<close>): \<open>gateway call\<close>,
  \<open>gateway listen\<close> and \<open>gateway spool process\<close>, from the loaded task to the final status. They run
  the executor with the built-in policy engine and the adapter, the secret broker and the registry
  of the task; the state store, the audit file, the report generator, the sockets and the spool
  directory answer through response functions.
\<close>

section \<open>The environment of a command\<close>

record command_env =
  ce_gw :: gw_env
  ce_glob :: glob_compiler
  ce_var :: "string \<Rightarrow> string option"
  ce_adapters :: adapter_env
  ce_adapter_log :: "gw_call list \<Rightarrow> adapter_call list"
  ce_create_task_dir :: "resolved_task \<Rightarrow> artifact_refs result"
  ce_write_task :: "resolved_task \<Rightarrow> unit result"
  ce_open_audit :: "path \<Rightarrow> unit result"
  ce_set_status :: "gw_call list \<Rightarrow> task_id \<Rightarrow> task_status \<Rightarrow> unit result"
  ce_report ::
    "gw_call list \<Rightarrow> resolved_task \<Rightarrow> artifact_refs \<Rightarrow> audit_event list \<Rightarrow> path result"
  ce_deliver :: "gw_call list \<Rightarrow> string \<Rightarrow> string + unit"
  ce_spool :: "gw_call list \<Rightarrow> spool_files"
  ce_parse_action :: "string \<Rightarrow> string + tool_action"
  ce_show_error :: "string \<Rightarrow> string"
  ce_show_execution :: "tool_execution \<Rightarrow> string + string"

text \<open>
  The executor's environment: the audit log, the approval engine and the clock are the command's,
  policy, adapter and broker are those that the command line chooses for the action.
\<close>

definition action_env :: "command_env \<Rightarrow> resolved_task \<Rightarrow> tool_action \<Rightarrow> gw_env" where
  "action_env ce task chosen =
     (let adapter = gateway_adapter_for (ce_adapters ce) task chosen
      in (ce_gw ce)
           \<lparr>ge_evaluate := (\<lambda>h t a. evaluate (ce_glob ce) t a),
            ge_plan := (\<lambda>h t a ctx. tad_plan adapter a),
            ge_issue := (\<lambda>h t n sc. gateway_secret_broker_for (ce_var ce) task chosen t n sc),
            ge_execute := (\<lambda>h t a ctx bs. fst (tad_execute adapter a ctx bs (ce_adapter_log ce h)))\<rparr>)"

definition execute_gateway_action ::
  "command_env \<Rightarrow> resolved_task \<Rightarrow> tool_registry \<Rightarrow> tool_action \<Rightarrow> tool_execution_context \<Rightarrow>
   (taskfence_error, tool_execution) gw" where
  "execute_gateway_action ce task registry action context =
     execute_tool_action (action_env ce task action)
       (gateway_for task registry (gateway_adapter_for (ce_adapters ce) task action)) task action context"

section \<open>Steps that the commands share\<close>

definition record_event_now :: "command_env \<Rightarrow> (time \<Rightarrow> audit_event) \<Rightarrow> (taskfence_error, unit) gw" where
  "record_event_now ce mk = gw_record_now (ce_gw ce) mk"

definition gateway_transition :: "command_env \<Rightarrow> resolved_task \<Rightarrow> task_status \<Rightarrow> (taskfence_error, unit) gw" where
  "gateway_transition ce task st =
     sbind (gcall (\<lambda>h. ce_set_status ce h (rt_id task) st) (GStatus (rt_id task) st)) (\<lambda>_.
       record_event_now ce (\<lambda>t. TaskStatusChanged (rt_id task) t st))"

fun record_gateway_artifacts_from ::
  "command_env \<Rightarrow> resolved_task \<Rightarrow> path list \<Rightarrow> (taskfence_error, unit) gw" where
  "record_gateway_artifacts_from ce task [] = sreturn ()"
| "record_gateway_artifacts_from ce task (p # ps) =
     sbind (record_event_now ce (\<lambda>t. Artifact (rt_id task) t ''gateway_fixture'' p)) (\<lambda>_.
       record_gateway_artifacts_from ce task ps)"

definition record_gateway_artifacts ::
  "command_env \<Rightarrow> resolved_task \<Rightarrow> tool_execution \<Rightarrow> (taskfence_error, unit) gw" where
  "record_gateway_artifacts ce task execution =
     record_gateway_artifacts_from ce task
       (case tx_result execution of None \<Rightarrow> [] | Some res \<Rightarrow> tres_artifacts res)"

fun error_status :: "tool_execution_error_kind option \<Rightarrow> task_status" where
  "error_status None = Succeeded"
| "error_status (Some PolicyDenied) = Denied"
| "error_status (Some ApprovalDeniedOrTimedOut) = Denied"
| "error_status (Some BudgetExceeded) = Denied"
| "error_status _ = Failed"

definition gateway_execution_status :: "tool_execution \<Rightarrow> task_status" where
  "gateway_execution_status execution = error_status (map_option te_kind (tx_error execution))"

fun spool_task_status :: "gateway_spool_response_state \<Rightarrow> task_status" where
  "spool_task_status SpoolSucceeded = Succeeded"
| "spool_task_status SpoolDenied = Denied"
| "spool_task_status SpoolTimedOut = TimedOut"
| "spool_task_status SpoolCancelled = Cancelled"
| "spool_task_status _ = Failed"

text \<open>What \<open>CollectingAuditLogger\<close> has collected: the events that the inner logger accepted.\<close>

fun accepted_event :: "gw_call \<Rightarrow> audit_event list" where
  "accepted_event (GAudit e (Inr _)) = [e]"
| "accepted_event c = []"

definition collected_events :: "gw_call list \<Rightarrow> audit_event list" where
  "collected_events log = concat (map accepted_event log)"

definition generate_gateway_report ::
  "command_env \<Rightarrow> resolved_task \<Rightarrow> artifact_refs \<Rightarrow> (taskfence_error, path) gw" where
  "generate_gateway_report ce task refs log =
     (let events = collected_events log
      in gcall (\<lambda>h. ce_report ce h task refs events) (GReport events) log)"

text \<open>The task directory, the resolved task and the audit file.\<close>

definition open_evidence :: "command_env \<Rightarrow> resolved_task \<Rightarrow> (taskfence_error, artifact_refs) gw" where
  "open_evidence ce task =
     sbind (slift (ce_create_task_dir ce task)) (\<lambda>refs.
     sbind (slift (ce_write_task ce task)) (\<lambda>_.
     sbind (slift (ce_open_audit ce (or_default (path_join (af_task_dir refs) ''events.jsonl'') (af_events refs)))) (\<lambda>_.
       sreturn refs)))"

definition task_created :: "command_env \<Rightarrow> resolved_task \<Rightarrow> (taskfence_error, unit) gw" where
  "task_created ce task =
     sbind (gateway_transition ce task Created) (\<lambda>_.
       record_event_now ce (\<lambda>t. TaskCreated (rt_id task) t (rt_goal task)))"

definition tool_context :: "artifact_refs \<Rightarrow> tool_execution_context" where
  "tool_context refs =
     \<lparr>tc_task_dir = Some (af_task_dir refs), tc_artifact_dir = Some (path_join (af_task_dir refs) ''artifacts'')\<rparr>"

fun status_debug :: "task_status \<Rightarrow> string" where
  "status_debug Created = ''Created''"
| "status_debug Validating = ''Validating''"
| "status_debug Preparing = ''Preparing''"
| "status_debug Running = ''Running''"
| "status_debug WaitingForApproval = ''WaitingForApproval''"
| "status_debug Stopping = ''Stopping''"
| "status_debug CollectingArtifacts = ''CollectingArtifacts''"
| "status_debug Reporting = ''Reporting''"
| "status_debug Succeeded = ''Succeeded''"
| "status_debug Failed = ''Failed''"
| "status_debug Denied = ''Denied''"
| "status_debug TimedOut = ''TimedOut''"
| "status_debug Cancelled = ''Cancelled''"

section \<open>One tool call\<close>

definition finish_report ::
  "command_env \<Rightarrow> resolved_task \<Rightarrow> artifact_refs \<Rightarrow> (taskfence_error, unit) gw" where
  "finish_report ce task refs =
     sbind (generate_gateway_report ce task refs) (\<lambda>report_path.
       record_event_now ce (\<lambda>t. Artifact (rt_id task) t ''report'' report_path))"

definition gateway_call_finish ::
  "command_env \<Rightarrow> resolved_task \<Rightarrow> artifact_refs \<Rightarrow> tool_execution \<Rightarrow> (taskfence_error, unit) gw" where
  "gateway_call_finish ce task refs execution =
     (let final = gateway_execution_status execution
      in sbind (gateway_transition ce task CollectingArtifacts) (\<lambda>_.
         sbind (record_gateway_artifacts ce task execution) (\<lambda>_.
         sbind (gateway_transition ce task Reporting) (\<lambda>_.
         sbind (gateway_transition ce task final) (\<lambda>_.
         sbind (finish_report ce task refs) (\<lambda>_.
           if final = Succeeded then sreturn ()
           else sfail (Gateway (''gateway call '' @ rt_id task @ '' finished with status '' @
                  status_debug final))))))))"

definition run_gateway_call ::
  "command_env \<Rightarrow> resolved_task \<Rightarrow> string \<Rightarrow> string \<Rightarrow> string \<Rightarrow> string list \<Rightarrow>
   (taskfence_error, unit) gw" where
  "run_gateway_call ce task protocol tool operation params =
     sbind (slift (parse_gateway_params params)) (\<lambda>parameters.
     sbind (slift (normalize_tool_action \<lparr>ta_protocol = protocol, ta_tool = tool,
              ta_operation = operation, ta_parameters = parameters\<rparr>)) (\<lambda>action.
     sbind (open_evidence ce task) (\<lambda>refs.
     sbind (task_created ce task) (\<lambda>_.
     sbind (gateway_transition ce task Validating) (\<lambda>_.
     sbind (slift (gateway_tool_registry task)) (\<lambda>registry.
     sbind (gateway_transition ce task Preparing) (\<lambda>_.
     sbind (gateway_transition ce task Running) (\<lambda>_.
     sbind (execute_gateway_action ce task registry action (tool_context refs)) (\<lambda>execution.
       gateway_call_finish ce task refs execution)))))))))"

section \<open>The listener\<close>

text \<open>\<open>read_line\<close> of the bytes that remain: the line with its end, or invalid UTF-8.\<close>

definition read_line :: "string \<Rightarrow> (string + string) \<times> string" where
  "read_line input =
     (let line = (case split_once CHR 0x0A input of None \<Rightarrow> input | Some (l, rest) \<Rightarrow> l @ [CHR 0x0A]);
          rest = drop (length line) input
      in (if utf8_ok line then Inr line else Inl ''stream did not contain valid UTF-8'', rest))"

definition ends_headers :: "string \<Rightarrow> bool" where
  "ends_headers line \<longleftrightarrow> line = [] \<or> line = [CHR 0x0D, CHR 0x0A] \<or> line = [CHR 0x0A]"

lemma read_line_shorter:
  "read_line input = (r, rest) \<Longrightarrow> input \<noteq> [] \<Longrightarrow> length rest < length input"
  by (auto simp: read_line_def Let_def split: option.splits dest: split_once_SomeD)

lemma read_line_empty: "read_line [] = (Inr [], [])"
  by (simp add: read_line_def)

definition listener_header_error :: "string \<Rightarrow> 'a result" where
  "listener_header_error err = Inl (Gateway (''failed to read gateway listener header: '' @ err))"

text \<open>The headers up to the empty line: the last \<open>Content-Length\<close> and what follows.\<close>

function read_content_length :: "nat option \<Rightarrow> string \<Rightarrow> (nat option \<times> string) result" where
  "read_content_length found input =
     (if input = [] then Inr (found, [])
      else case read_line input of
        (Inl err, rest) \<Rightarrow> listener_header_error err
      | (Inr line, rest) \<Rightarrow>
          if ends_headers line then Inr (found, rest)
          else case split_once CHR '':'' line of
                 None \<Rightarrow> read_content_length found rest
               | Some (name, v) \<Rightarrow>
                   if to_lower (trim name) \<noteq> ''content-length'' then read_content_length found rest
                   else case parse_unsigned (2 ^ 64) (trim v) of
                          Inl err \<Rightarrow> Inl (Gateway (''gateway listener content-length is invalid: '' @ err))
                        | Inr n \<Rightarrow> read_content_length (Some n) rest)"
  by pat_completeness auto
termination
  by (relation "measure (\<lambda>(found, input). length input)") (auto dest!: read_line_shorter [OF sym])

function drain_headers :: "string \<Rightarrow> unit result" where
  "drain_headers input =
     (if input = [] then Inr ()
      else case read_line input of
        (Inl err, rest) \<Rightarrow> listener_header_error err
      | (Inr line, rest) \<Rightarrow> if ends_headers line then Inr () else drain_headers rest)"
  by pat_completeness auto
termination
  by (relation "measure length") (auto dest!: read_line_shorter [OF sym])


definition read_gateway_listener_action ::
  "(string \<Rightarrow> string + tool_action) \<Rightarrow> string \<Rightarrow> tool_action result" where
  "read_gateway_listener_action parse input =
     (case read_line input of
        (Inl err, rest) \<Rightarrow> Inl (Gateway (''failed to read gateway listener request line: '' @ err))
      | (Inr request_line, rest) \<Rightarrow>
          (let parts = split_whitespace request_line
           in if length parts < 2 then Inl (Gateway ''gateway listener request line is malformed'')
              else if parts ! 0 \<noteq> ''POST'' \<or> parts ! 1 \<noteq> ''/tool''
              then rbind (drain_headers rest) (\<lambda>_.
                     Inl (Gateway ''gateway listener accepts only POST /tool''))
              else rbind (read_content_length None rest) (\<lambda>(content_length, rest).
                case content_length of
                  None \<Rightarrow> Inl (Gateway ''gateway listener request is missing content-length'')
                | Some n \<Rightarrow>
                    if 128 * 1024 < n then Inl (Gateway ''gateway listener request body is too large'')
                    else if length rest < n
                    then Inl (Gateway (''failed to read gateway listener body: '' @
                           ''failed to fill whole buffer''))
                    else case parse (take n rest) of
                           Inl err \<Rightarrow> Inl (Gateway (''malformed gateway listener tool action: '' @ err))
                         | Inr action \<Rightarrow> Inr action)))"

definition crlf :: string where "crlf = [CHR 0x0D, CHR 0x0A]"

definition http_response :: "string \<Rightarrow> string \<Rightarrow> string \<Rightarrow> string" where
  "http_response status content_type body =
     ''HTTP/1.1 '' @ status @ crlf @ ''Content-Type: '' @ content_type @ crlf @
     ''Content-Length: '' @ dec_digits (length body) @ crlf @ ''Connection: close'' @ crlf @ crlf @ body"

fun listener_http_status :: "task_status \<Rightarrow> string" where
  "listener_http_status Succeeded = ''200 OK''"
| "listener_http_status Denied = ''403 Forbidden''"
| "listener_http_status TimedOut = ''408 Request Timeout''"
| "listener_http_status Cancelled = ''409 Conflict''"
| "listener_http_status _ = ''502 Bad Gateway''"

definition json_content_type :: string where
  "json_content_type = ''application/json; charset=utf-8''"

definition deliver :: "command_env \<Rightarrow> string \<Rightarrow> (taskfence_error, unit) gw" where
  "deliver ce response =
     gcall (\<lambda>h. case ce_deliver ce h response of
         Inl err \<Rightarrow> Inl (Gateway (''failed to write gateway listener response: '' @ err))
       | Inr _ \<Rightarrow> Inr ()) (GDeliver response)"

text \<open>One connection, given the bytes that it sends.\<close>

definition handle_gateway_listener_stream ::
  "command_env \<Rightarrow> resolved_task \<Rightarrow> artifact_refs \<Rightarrow> string \<Rightarrow> (taskfence_error, unit) gw" where
  "handle_gateway_listener_stream ce task refs input =
     (case read_gateway_listener_action (ce_parse_action ce) input of
        Inl err \<Rightarrow>
          deliver ce (http_response ''400 Bad Request'' json_content_type (ce_show_error ce (error_display err)))
      | Inr action \<Rightarrow>
          sbind (slift (normalize_tool_action action)) (\<lambda>action.
          sbind (slift (gateway_tool_registry task)) (\<lambda>registry.
          sbind (execute_gateway_action ce task registry action (tool_context refs)) (\<lambda>execution.
          sbind (record_gateway_artifacts ce task execution) (\<lambda>_.
          sbind (gateway_transition ce task (gateway_execution_status execution)) (\<lambda>_.
            case ce_show_execution ce execution of
              Inl err \<Rightarrow> sfail (Gateway (''failed to serialize gateway listener response: '' @ err))
            | Inr body \<Rightarrow>
                deliver ce (http_response (listener_http_status (gateway_execution_status execution))
                  json_content_type body)))))))"

text \<open>
  The accept loop over the connections that arrive, each with its bytes or an accept error; the
  result is whether the loop ended, which it does only with \<open>once\<close>.
\<close>

fun listen_loop ::
  "command_env \<Rightarrow> resolved_task \<Rightarrow> artifact_refs \<Rightarrow> bool \<Rightarrow> (string + string) list \<Rightarrow>
   (taskfence_error, bool) gw" where
  "listen_loop ce task refs once [] = sreturn False"
| "listen_loop ce task refs once (Inl err # connections) =
     sfail (Gateway (''gateway listener connection failed: '' @ err))"
| "listen_loop ce task refs once (Inr input # connections) =
     sbind (handle_gateway_listener_stream ce task refs input) (\<lambda>_.
       if once then sreturn True else listen_loop ce task refs once connections)"

definition run_gateway_listener ::
  "command_env \<Rightarrow> resolved_task \<Rightarrow> bool \<Rightarrow> string + unit \<Rightarrow> (string + string) list \<Rightarrow>
   (taskfence_error, bool) gw" where
  "run_gateway_listener ce task once bound connections =
     (if gw_tools (rt_gateway task) = []
      then sfail (Gateway ''gateway listener requires configured gateway.tools'')
      else
        sbind (open_evidence ce task) (\<lambda>refs.
        sbind (task_created ce task) (\<lambda>_.
        sbind (gateway_transition ce task Running) (\<lambda>_.
        sbind (slift (case bound of
            Inl err \<Rightarrow> Inl (Gateway (''failed to bind local gateway listener: '' @ err))
          | Inr _ \<Rightarrow> Inr ())) (\<lambda>_.
        sbind (listen_loop ce task refs once connections) (\<lambda>ended.
          if \<not> ended then sreturn False
          else
            sbind (gateway_transition ce task Reporting) (\<lambda>_.
            sbind (finish_report ce task refs) (\<lambda>_.
            sbind (gateway_transition ce task Succeeded) (\<lambda>_.
              sreturn True))))))))) "

section \<open>The spool\<close>

definition store_response ::
  "command_env \<Rightarrow> gateway_spool_paths \<Rightarrow> gateway_spool_response \<Rightarrow> (taskfence_error, path) gw" where
  "store_response ce paths response log =
     (case write_gateway_spool_response (ce_spool ce log) paths response of
        Inl err \<Rightarrow> (Inl err, log)
      | Inr p \<Rightarrow> (Inr p, log @ [GStore p (Inr ())]))"

definition record_response_artifact :: "command_env \<Rightarrow> resolved_task \<Rightarrow> path \<Rightarrow> (taskfence_error, unit) gw" where
  "record_response_artifact ce task p =
     record_event_now ce (\<lambda>t. Artifact (rt_id task) t ''gateway_spool_response'' p)"

definition spool_finish ::
  "command_env \<Rightarrow> resolved_task \<Rightarrow> artifact_refs \<Rightarrow> gateway_spool_response \<Rightarrow> (taskfence_error, unit) gw" where
  "spool_finish ce task refs response =
     sbind (gateway_transition ce task Reporting) (\<lambda>_.
     sbind (gateway_transition ce task (spool_task_status (gsa_state response))) (\<lambda>_.
       finish_report ce task refs))"

definition finish_gateway_spool_error ::
  "command_env \<Rightarrow> resolved_task \<Rightarrow> artifact_refs \<Rightarrow> gateway_spool_paths \<Rightarrow> string \<Rightarrow>
   gateway_spool_response_state \<Rightarrow> tool_execution_error_kind \<Rightarrow> string \<Rightarrow> (taskfence_error, unit) gw" where
  "finish_gateway_spool_error ce task refs paths request_id st kind message =
     (let response = spool_response_error request_id st kind message
      in sbind (store_response ce paths response) (\<lambda>p.
         sbind (record_response_artifact ce task p) (\<lambda>_.
         sbind (spool_finish ce task refs response) (\<lambda>_.
           sfail (Gateway (''gateway spool request '' @ request_id @ '' finished with status '' @
             status_debug (spool_task_status st) @ '': '' @ message))))))"

definition spool_execute ::
  "command_env \<Rightarrow> resolved_task \<Rightarrow> artifact_refs \<Rightarrow> gateway_spool_paths \<Rightarrow> gateway_spool_request \<Rightarrow>
   (taskfence_error, unit) gw" where
  "spool_execute ce task refs paths request =
     sbind (slift (gateway_tool_registry task)) (\<lambda>registry.
     sbind (gateway_transition ce task Preparing) (\<lambda>_.
     sbind (gateway_transition ce task Running) (\<lambda>_.
     sbind (execute_gateway_action ce task registry (gsr_action request) (tool_context refs)) (\<lambda>execution.
     sbind (gateway_transition ce task CollectingArtifacts) (\<lambda>_.
     sbind (record_gateway_artifacts ce task execution) (\<lambda>_.
     let response = spool_response_from_execution (gsr_request_id request) execution;
         final = spool_task_status (gsa_state response)
     in sbind (store_response ce paths response) (\<lambda>p.
        sbind (record_response_artifact ce task p) (\<lambda>_.
        sbind (spool_finish ce task refs response) (\<lambda>_.
          if final = Succeeded then sreturn ()
          else sfail (Gateway (''gateway spool request '' @ gsr_request_id request @
                 '' finished with status '' @ status_debug final)))))))))))"

definition run_gateway_spool_process ::
  "command_env \<Rightarrow> resolved_task \<Rightarrow> path \<Rightarrow> (taskfence_error, unit) gw" where
  "run_gateway_spool_process ce task request_file =
     sbind (open_evidence ce task) (\<lambda>refs.
     sbind (slift (spool_paths_for_task task)) (\<lambda>paths.
     let request_id = (case request_id_from_path request_file of
           Inr request_id \<Rightarrow> request_id | Inl _ \<Rightarrow> ''malformed-request'')
     in
     sbind (task_created ce task) (\<lambda>_.
     sbind (gateway_transition ce task Validating) (\<lambda>_ log.
       (case read_gateway_spool_request (ce_spool ce log) paths request_file of
          Inl err \<Rightarrow>
            finish_gateway_spool_error ce task refs paths request_id SpoolMalformedRequest InvalidParameters
              (''gateway spool request was malformed: '' @ error_display err)
        | Inr request \<Rightarrow>
            if gsr_cancel request
            then finish_gateway_spool_error ce task refs paths (gsr_request_id request) SpoolCancelled
                   AdapterFailed ''gateway spool request was cancelled''
            else if gsr_timeout_seconds request = Some 0
            then finish_gateway_spool_error ce task refs paths (gsr_request_id request) SpoolTimedOut
                   AdapterFailed ''gateway spool request timed out before execution''
            else spool_execute ce task refs paths request) log))))"


section \<open>What the commands keep\<close>

lemma appends_preserves: "appends p m \<Longrightarrow> preserves (list_all p) m"
  using appendsD [of p m]
  by (auto simp: preserves_def hoare_def wp_def split: prod.splits sum.splits) (metis snd_conv)+

lemma preserves_pointwise:
  "(\<And>s. preserves J (m s)) \<Longrightarrow> preserves J (\<lambda>s. m s s)"
  by (simp add: preserves_def hoare_def wp_def)

text \<open>
  The contract of an invariant of the call log: it survives the calls that the commands make
  themselves. With a report of the collected events and the executor, every command keeps it.
\<close>

fun outside_call :: "gw_call \<Rightarrow> bool" where
  "outside_call (GAudit e r) = (\<not> is_finished e)"
| "outside_call (GStatus i s r) = True"
| "outside_call (GDeliver s r) = True"
| "outside_call (GStore p r) = True"
| "outside_call c = False"

locale own_calls =
  fixes ce :: command_env and task :: resolved_task and J :: "gw_call list \<Rightarrow> bool"
  assumes outside: "J log \<Longrightarrow> outside_call c \<Longrightarrow> J (log @ [c])"
begin

lemma call: "(\<And>r. outside_call (mk r)) \<Longrightarrow> preserves J (gcall resp mk)"
  by (auto simp: preserves_def hoare_def wp_def gcall_def Let_def outside split: sum.splits)

lemma record_now: "(\<And>t. \<not> is_finished (mk t)) \<Longrightarrow> preserves J (record_event_now ce mk)"
proof -
  assume "\<And>t. \<not> is_finished (mk t)"
  then have "preserves J (gw_record env (mk t))" for env t
    unfolding gw_record_def by (intro call) simp
  then show ?thesis
    by (auto simp: preserves_def hoare_def wp_def record_event_now_def gw_record_now_def)
qed

lemma transition: "preserves J (gateway_transition ce task st)"
  unfolding gateway_transition_def by (intro hoare_rules call record_now) simp_all

lemma artifacts_from: "preserves J (record_gateway_artifacts_from ce task ps)"
  by (induction ps) (auto intro!: hoare_rules record_now)

lemma artifacts: "preserves J (record_gateway_artifacts ce task execution)"
  unfolding record_gateway_artifacts_def by (rule artifacts_from)

lemma evidence: "preserves J (open_evidence ce task)"
  unfolding open_evidence_def by (intro hoare_rules)

lemma created: "preserves J (task_created ce task)"
  unfolding task_created_def by (intro hoare_rules transition record_now) simp

lemma delivers: "preserves J (deliver ce response)"
  unfolding deliver_def by (rule call) simp

lemma store: "preserves J (store_response ce paths response)"
  by (auto simp: preserves_def hoare_def wp_def store_response_def outside split: sum.splits)

end

locale command_invariant = own_calls +
  assumes report: "J log \<Longrightarrow> J (log @ [GReport (collected_events log) r])"
    and execute: "preserves J (execute_gateway_action ce task registry action ctx)"
begin

lemma generate: "preserves J (generate_gateway_report ce task refs)"
  by (auto simp: preserves_def hoare_def wp_def generate_gateway_report_def gcall_def Let_def report
      split: sum.splits)

lemma finish: "preserves J (finish_report ce task refs)"
  unfolding finish_report_def by (intro hoare_rules generate record_now) simp

lemma call_finish: "preserves J (gateway_call_finish ce task refs execution)"
  unfolding gateway_call_finish_def Let_def
  by (auto intro!: hoare_rules transition artifacts finish)

lemma call_command: "preserves J (run_gateway_call ce task protocol tool operation params)"
  unfolding run_gateway_call_def
  by (intro hoare_rules evidence created transition execute call_finish)

lemma connection: "preserves J (handle_gateway_listener_stream ce task refs input)"
  unfolding handle_gateway_listener_stream_def
  by (auto intro!: hoare_rules delivers transition artifacts execute split: sum.split)

lemma connections: "preserves J (listen_loop ce task refs once cs)"
proof (induction cs)
  case (Cons c cs)
  then show ?case by (cases c) (auto intro!: hoare_rules connection)
qed (simp add: hoare_rules)

lemma listen_command: "preserves J (run_gateway_listener ce task once bound cs)"
  unfolding run_gateway_listener_def
  by (auto intro!: hoare_rules evidence created transition connections finish)

lemma spool_end: "preserves J (spool_finish ce task refs response)"
  unfolding spool_finish_def by (intro hoare_rules transition finish)

lemma spool_error:
  "preserves J (finish_gateway_spool_error ce task refs paths i st kind message)"
  unfolding finish_gateway_spool_error_def Let_def record_response_artifact_def
  by (intro hoare_rules store record_now spool_end) simp

lemma spool_run: "preserves J (spool_execute ce task refs paths request)"
  unfolding spool_execute_def Let_def record_response_artifact_def
  by (auto intro!: hoare_rules transition execute artifacts store record_now spool_end)

lemma spool_command: "preserves J (run_gateway_spool_process ce task request_file)"
  unfolding run_gateway_spool_process_def Let_def
proof (intro hoare_rules evidence created transition)
  fix refs paths
  show "preserves J (\<lambda>log. (case read_gateway_spool_request (ce_spool ce log) paths request_file of
          Inl err \<Rightarrow> finish_gateway_spool_error ce task refs paths
            (case request_id_from_path request_file of Inr i \<Rightarrow> i | Inl _ \<Rightarrow> ''malformed-request'')
            SpoolMalformedRequest InvalidParameters
            (''gateway spool request was malformed: '' @ error_display err)
        | Inr request \<Rightarrow>
            if gsr_cancel request
            then finish_gateway_spool_error ce task refs paths (gsr_request_id request) SpoolCancelled
                   AdapterFailed ''gateway spool request was cancelled''
            else if gsr_timeout_seconds request = Some 0
            then finish_gateway_spool_error ce task refs paths (gsr_request_id request) SpoolTimedOut
                   AdapterFailed ''gateway spool request timed out before execution''
            else spool_execute ce task refs paths request) log)"
    by (rule preserves_pointwise) (auto intro: spool_error spool_run split: sum.split)
qed

end


text \<open>What the built-in policy decided, and that each call of an adapter was settled.\<close>

fun policy_answer :: "glob_compiler \<Rightarrow> resolved_task \<Rightarrow> gw_call \<Rightarrow> bool" where
  "policy_answer glob task (GEvaluate a r) = (r = evaluate glob task a)"
| "policy_answer glob task c = True"

definition ruled :: "glob_compiler \<Rightarrow> resolved_task \<Rightarrow> gw_call list \<Rightarrow> bool" where
  "ruled glob task log \<longleftrightarrow> each_call (somehow_settled task) log \<and> list_all (policy_answer glob task) log"

lemma outside_settled: "outside_call c \<Longrightarrow> somehow_settled task pre c \<and> policy_answer glob task c"
  by (cases c) (auto simp: somehow_settled_def)

lemma report_settled: "somehow_settled task pre (GReport evs r)"
  by (simp add: somehow_settled_def)

lemma env_answer_policy:
  "env_answer (action_env ce task action) task c \<Longrightarrow> policy_answer (ce_glob ce) task c"
  by (cases c) (auto simp: action_env_def Let_def simp del: evaluate.simps)

lemma execute_ruled: "preserves (ruled (ce_glob ce) task) (execute_gateway_action ce task registry action ctx)"
proof -
  let ?m = "execute_gateway_action ce task registry action ctx"
  have settled: "preserves (each_call (somehow_settled task)) ?m"
    unfolding execute_gateway_action_def by (rule somehow.execute_keeps)
  have "appends (policy_answer (ce_glob ce) task) ?m"
    unfolding execute_gateway_action_def by (rule appends_mono [OF honest.whole env_answer_policy])
  then have "preserves (list_all (policy_answer (ce_glob ce) task)) ?m"
    by (rule appends_preserves)
  from preserves_conj [OF settled this] show ?thesis by (simp add: ruled_def [abs_def])
qed

interpretation ruled: command_invariant ce task "ruled (ce_glob ce) task" for ce task
  by standard (auto simp: ruled_def outside_settled report_settled execute_ruled)

lemma ruled_executed: "ruled glob task log \<Longrightarrow> each_call (executed_under glob task) log"
  unfolding ruled_def
proof (elim conjE, erule each_call_mono)
  fix pre c
  assume answers: "list_all (policy_answer glob task) log" and "prefix (pre @ [c]) log"
    and settled: "somehow_settled task pre c"
  then have "set pre \<subseteq> set log" by (auto simp: prefix_def)
  then have "evaluate glob task a = Inr d" if "GEvaluate a (Inr d) \<in> set pre" for a d
    using that answers by (fastforce simp: list_all_iff simp del: evaluate.simps)
  with settled show "executed_under glob task pre c" by (rule settled_obeys_policy)
qed

lemma preserves_ruled:
  "preserves (ruled glob task) m \<Longrightarrow> each_call (executed_under glob task) (snd (m []))"
  using preservesD [of "ruled glob task" m "[]", OF _ _ prod.collapse [symmetric]]
  by (auto intro: ruled_executed simp: ruled_def)



section \<open>Reports and statuses\<close>

text \<open>Calls that the executor never makes itself.\<close>

fun command_call :: "gw_call \<Rightarrow> bool" where
  "command_call (GStatus i s r) = True"
| "command_call (GReport evs r) = True"
| "command_call (GDeliver s r) = True"
| "command_call (GStore p r) = True"
| "command_call c = False"

interpretation executor: gw_logging env task "\<lambda>c. \<not> command_call c" "\<lambda>_. True" for env task
  by standard auto

lemma executor_calls: "appends (\<lambda>c. \<not> command_call c) (execute_gateway_action ce task registry action ctx)"
  unfolding execute_gateway_action_def by (rule executor.whole)

fun reported :: "gw_call list \<Rightarrow> gw_call \<Rightarrow> bool" where
  "reported pre (GReport events r) = (events = collected_events pre)"
| "reported pre c = True"

lemma outside_reported: "outside_call c \<or> \<not> command_call c \<Longrightarrow> reported pre c"
  by (cases c) auto

lemma execute_reported: "preserves (each_call reported) (execute_gateway_action ce task registry action ctx)"
proof -
  have "each_call reported (snd (execute_gateway_action ce task registry action ctx log))"
    if "each_call reported log" for log
  proof -
    from executor_calls [of ce task registry action ctx] obtain ext
      where "snd (execute_gateway_action ce task registry action ctx log) = log @ ext"
        and "list_all (\<lambda>c. \<not> command_call c) ext" unfolding appends_def by blast
    with each_call_append [OF that, of "\<lambda>c. \<not> command_call c"] outside_reported show ?thesis by simp
  qed
  then show ?thesis
    by (auto simp: preserves_def hoare_def wp_def split: prod.splits sum.splits) (metis snd_conv)+
qed

interpretation reporting: command_invariant ce task "each_call reported" for ce task
  by standard (auto simp: outside_reported execute_reported)

lemma gateway_reports_fit:
  "each_call reported (snd (run_gateway_call ce task protocol tool operation params []))"
  "each_call reported (snd (run_gateway_listener ce task once bound connections []))"
  "each_call reported (snd (run_gateway_spool_process ce task request_file []))"
  by (rule preservesD [OF _ _ prod.collapse [symmetric]],
      rule reporting.call_command reporting.listen_command reporting.spool_command, simp)+

text \<open>The statuses that were stored.\<close>

fun stored_status :: "gw_call \<Rightarrow> task_status list" where
  "stored_status (GStatus i s (Inr _)) = [s]"
| "stored_status c = []"

definition stored :: "gw_call list \<Rightarrow> task_status list" where
  "stored log = concat (map stored_status log)"

lemma stored_append [simp]: "stored (log @ log') = stored log @ stored log'"
  by (simp add: stored_def)

lemma stored_Nil [simp]: "stored [] = []"
  by (simp add: stored_def)

fun is_status :: "gw_call \<Rightarrow> bool" where
  "is_status (GStatus i s r) = True"
| "is_status c = False"

lemma stored_none: "list_all (\<lambda>c. \<not> is_status c) ext \<Longrightarrow> stored ext = []"
proof (induction ext)
  case (Cons c ext)
  then show ?case by (cases c) (auto simp: stored_def)
qed simp

lemma stored_same:
  "appends (\<lambda>c. \<not> is_status c) m \<Longrightarrow> m log = (r, log') \<Longrightarrow> stored log' = stored log"
  unfolding appends_def using stored_none by (metis append_Nil2 snd_conv stored_append)

lemma executor_stores_none: "appends (\<lambda>c. \<not> is_status c) (execute_gateway_action ce task registry action ctx)"
proof (rule appends_mono [OF executor_calls])
  show "\<not> command_call c \<Longrightarrow> \<not> is_status c" for c by (cases c) auto
qed

lemma record_stores_none: "appends (\<lambda>c. \<not> is_status c) (record_event_now ce mk)"
  by (simp add: record_event_now_def appends_def gw_record_now_def gw_record_def gcall_def Let_def)

lemma artifacts_store_none: "appends (\<lambda>c. \<not> is_status c) (record_gateway_artifacts ce task execution)"
proof -
  have "appends (\<lambda>c. \<not> is_status c) (record_gateway_artifacts_from ce task ps)" for ps
    by (induction ps) (auto intro!: append_rules record_stores_none)
  then show ?thesis unfolding record_gateway_artifacts_def .
qed

lemma report_stores_none: "appends (\<lambda>c. \<not> is_status c) (finish_report ce task refs)"
proof -
  have "appends (\<lambda>c. \<not> is_status c) (generate_gateway_report ce task refs)"
    by (simp add: appends_def generate_gateway_report_def gcall_def Let_def)
  then show ?thesis unfolding finish_report_def by (intro append_rules record_stores_none)
qed

lemma transition_stores:
  assumes "gateway_transition ce task st log = (Inr u, log')"
  shows "stored log' = stored log @ [st]"
  using assms unfolding gateway_transition_def
  by (elim sbind_InrE)
    (auto dest!: stored_same [OF record_stores_none] simp: gcall_def Let_def stored_def)

lemma created_stores:
  assumes "task_created ce task log = (Inr u, log')"
  shows "stored log' = stored log @ [Created]"
  using assms unfolding task_created_def
  by (elim sbind_InrE) (auto dest!: stored_same [OF record_stores_none] dest: transition_stores)

lemma evidence_log: "snd (open_evidence ce task log) = log"
  by (auto simp: open_evidence_def sbind_def stry_def slift_def sreturn_def sfail_def split: sum.splits)

interpretation unanswered: own_calls ce task open_log for ce task
proof (standard)
  show "open_log (log @ [c])" if "open_log log" "outside_call c" for log c
    using that by (cases c) (auto simp: open_log_def)
qed

lemma execution_status_succeeded: "gateway_execution_status ex = Succeeded \<longleftrightarrow> tx_error ex = None"
proof -
  have "error_status k = Succeeded \<longleftrightarrow> k = None" for k by (cases k rule: error_status.cases) auto
  then show ?thesis by (simp add: gateway_execution_status_def)
qed


lemma slift_InrD: "slift r s = (Inr x, s') \<Longrightarrow> r = Inr x \<and> s' = s"
  by (simp add: slift_def)

text \<open>The last calls generated a report and recorded it.\<close>

definition gw_generated :: "gw_call list \<Rightarrow> path \<Rightarrow> bool" where
  "gw_generated log p \<longleftrightarrow>
     (case rev log of
        GAudit (Artifact tid t kind q) (Inr _) # GReport events (Inr r) # _ \<Rightarrow>
          kind = ''report'' \<and> q = p \<and> r = p
      | _ \<Rightarrow> False)"

lemma finish_extends: "appends (\<lambda>_. True) (gateway_call_finish ce task refs execution)"
proof -
  have call: "appends (\<lambda>_. True) (gcall resp mk)" for resp :: "gw_call list \<Rightarrow> 'e + 'a" and mk
    by (simp add: appends_def gcall_def Let_def)
  have transition: "appends (\<lambda>_. True) (gateway_transition ce task st)" for st
    unfolding gateway_transition_def
    by (intro append_rules call appends_mono [OF record_stores_none]) simp
  show ?thesis
    unfolding gateway_call_finish_def Let_def
    by (intro append_rules transition appends_if appends_mono [OF artifacts_store_none]
        appends_mono [OF report_stores_none]) simp_all
qed

text \<open>What a successful end of \<open>gateway call\<close> stored and generated.\<close>

lemma call_finish_earned:
  assumes "gateway_call_finish ce task refs execution l0 = (Inr (), log)"
  shows "tx_error execution = None \<and> stored log = stored l0 @ [CollectingArtifacts, Reporting, Succeeded]
    \<and> (\<exists>p. gw_generated log p)"
  using assms unfolding gateway_call_finish_def Let_def
proof (elim sbind_InrE)
  fix u1 l1 u2 l2 u3 l3 u4 l4 u5 l5
  assume s: "gateway_transition ce task CollectingArtifacts l0 = (Inr u1, l1)"
    "record_gateway_artifacts ce task execution l1 = (Inr u2, l2)"
    "gateway_transition ce task Reporting l2 = (Inr u3, l3)"
    "gateway_transition ce task (gateway_execution_status execution) l3 = (Inr u4, l4)"
    "finish_report ce task refs l4 = (Inr u5, l5)"
    and last: "(if gateway_execution_status execution = Succeeded then sreturn ()
        else sfail (Gateway (''gateway call '' @ rt_id task @ '' finished with status '' @
               status_debug (gateway_execution_status execution)))) l5 = (Inr (), log)"
  from last have ok: "gateway_execution_status execution = Succeeded" and log: "log = l5"
    by (auto simp: sreturn_def sfail_def split: if_splits)
  note stores = transition_stores [OF s(1)] stored_same [OF artifacts_store_none s(2)]
    transition_stores [OF s(3)] transition_stores [OF s(4)] stored_same [OF report_stores_none s(5)]
  have "\<exists>p. gw_generated l5 p"
    using s(5) by (auto simp: finish_report_def generate_gateway_report_def gcall_def Let_def
        record_event_now_def gw_record_now_def gw_record_def gw_generated_def elim!: sbind_InrE)
  with stores ok log show ?thesis by (simp add: execution_status_succeeded)
qed

lemma call_start:
  assumes "open_evidence ce task [] = (Inr refs, l0)" and "task_created ce task l0 = (Inr u1, l1)"
    and "gateway_transition ce task Validating l1 = (Inr u2, l2)"
    and "gateway_transition ce task Preparing l2 = (Inr u3, l3)"
    and "gateway_transition ce task Running l3 = (Inr u4, l4)"
  shows "stored l4 = [Created, Validating, Preparing, Running] \<and> open_log l4"
proof -
  from evidence_log [of ce task "[]"] assms(1) have [simp]: "l0 = []" by simp
  have "open_log l0" by (simp add: open_log_def)
  from preservesD [OF unanswered.created this assms(2)] have "open_log l1" .
  from preservesD [OF unanswered.transition this assms(3)] have "open_log l2" .
  from preservesD [OF unanswered.transition this assms(4)] have "open_log l3" .
  from preservesD [OF unanswered.transition this assms(5)] have "open_log l4" .
  with created_stores [OF assms(2)] transition_stores [OF assms(3)] transition_stores [OF assms(4)]
    transition_stores [OF assms(5)] show ?thesis by simp
qed

text \<open>
  C12: A successful \<open>gateway call\<close> is earned. It returns without an error only when the gateway
  answered the call without an error and this answer was recorded as finished in the audit log, every
  status from \<open>Created\<close> to \<open>Succeeded\<close> was stored in the order of the status machine and no other,
  and a report was generated and recorded by the last call.
\<close>

theorem gateway_call_success_earned:
  assumes "run_gateway_call ce task protocol tool operation params [] = (Inr (), log)"
  shows "(\<exists>execution pre. prefix pre log \<and> answered task execution pre \<and> tx_error execution = None)
    \<and> stored log = [Created, Validating, Preparing, Running, CollectingArtifacts, Reporting, Succeeded]
    \<and> (\<exists>p. gw_generated log p)"
  using assms unfolding run_gateway_call_def
proof (elim sbind_InrE, goal_cases)
  case (1 ps l1 action l2 refs l3 u1 l4 u2 l5 registry l6 u3 l7 u4 l8 execution l9)
  then have "l1 = []" "l2 = []" "l6 = l5" by (auto dest: slift_InrD)
  with 1 have start: "stored l8 = [Created, Validating, Preparing, Running]" "open_log l8"
    using call_start [of ce task refs l3 u1 l4 u2 l5 u3 l7 u4 l8] by auto
  from 1 have run: "execute_gateway_action ce task registry action (tool_context refs) l8 = (Inr execution, l9)"
    and finish: "gateway_call_finish ce task refs execution l9 = (Inr (), log)" by auto
  from hoareD(1) [OF answers_execute start(2) run [unfolded execute_gateway_action_def]]
  have "answered task execution l9" .
  moreover have "prefix l9 log"
    using finish_extends [of ce task refs execution] finish
    by (auto simp: appends_def) (metis prefixI snd_conv)
  ultimately show ?case
    using call_finish_earned [OF finish] start(1) stored_same [OF executor_stores_none run] by auto
qed


text \<open>A command whose tool is a local fixture with one issue.\<close>

definition fixture_task :: resolved_task where
  "fixture_task = sample_task\<lparr>rt_gateway := \<lparr>gw_mode = gw_mode (rt_gateway sample_task),
     gw_egress_allow_domains = False,
     gw_tools = [\<lparr>gt_protocol = ''mcp'', gt_tool = ''github'', gt_operation = ''create_pr'',
       gt_connector = LocalFixture ''github'' ''/w/repo.json'', gt_secret_refs = []\<rparr>]\<rparr>\<rparr>"

definition fixture_world :: adapter_env where
  "fixture_world = silent_world\<lparr>ax_files := (ax_files silent_world)
     \<lparr>ff_read := (\<lambda>p. Inr []),
      ff_parse := (\<lambda>s. Inr (JObject [(''repository'', JString ''r'')]))\<rparr>\<rparr>"

definition approving_env :: gw_env where
  "approving_env =
     (let rec = (\<lambda>a d. \<lparr>ar_id = ''a1'', ar_task_id = ''t'', ar_actor = ''u'', ar_source = None,
        ar_requested_at = 0, ar_resolved_at = None, ar_action = a, ar_policy_decision = d, ar_decision = None\<rparr>)
      in sample_gw_env
        \<lparr>ge_request := (\<lambda>h task a d. Inr (rec a d)),
         ge_wait := (\<lambda>h i. Inr ((rec (ToolCall (sample_tool ''create_pr'')) (Allow None ''''))
           \<lparr>ar_decision := Some Approved\<rparr>))\<rparr>)"

definition sample_command :: command_env where
  "sample_command =
     \<lparr>ce_gw = approving_env, ce_glob = exact_glob, ce_var = (\<lambda>n. None), ce_adapters = fixture_world,
      ce_adapter_log = (\<lambda>h. []),
      ce_create_task_dir = (\<lambda>task. Inr \<lparr>af_task_dir = ''/w/t'', af_resolved_task = None,
        af_events = None, af_stdout = None, af_stderr = None, af_diff = None, af_report = None,
        af_gateway_spool = None\<rparr>),
      ce_write_task = (\<lambda>task. Inr ()), ce_open_audit = (\<lambda>p. Inr ()), ce_set_status = (\<lambda>h i s. Inr ()),
      ce_report = (\<lambda>h task refs evs. Inr ''/w/t/report.md''), ce_deliver = (\<lambda>h s. Inr ()),
      ce_spool = (\<lambda>h. sample_spool (Found RegularFile)),
      ce_parse_action = (\<lambda>s. Inr (sample_tool s)), ce_show_error = (\<lambda>s. s),
      ce_show_execution = (\<lambda>ex. Inr [])\<rparr>"

abbreviation sample_gateway_call :: "(taskfence_error + unit) \<times> gw_call list" where
  "sample_gateway_call \<equiv>
     run_gateway_call sample_command fixture_task ''mcp'' ''github'' ''create_pr'' [''title=t'', ''base=b'', ''head=h''] []"

theorem gateway_call_success_earned_witness:
  "\<exists>log. sample_gateway_call = (Inr (), log) \<and> last (stored log) = Succeeded"
proof -
  have "fst sample_gateway_call = Inr ()" by code_simp
  then obtain log where "sample_gateway_call = (Inr (), log)" by (metis prod.collapse)
  from this gateway_call_success_earned [OF this] show ?thesis by simp
qed

end
