(* ===== verification/Gateway_Listener.thy ===== *)
theory Gateway_Listener
  imports Gateway_Commands
begin

text \<open>
  What \<open>gateway listen\<close> accepts from a connection, how one connection can end it, and what it stores.
\<close>

section \<open>What a listener accepts\<close>

lemma read_line_split:
  "read_line input = (r, rest) \<Longrightarrow> \<exists>line. input = line @ rest \<and> (\<forall>l. r = Inr l \<longrightarrow> l = line)"
  by (auto simp: read_line_def Let_def split: option.splits if_splits dest!: split_once_SomeD)

lemma suffix_read_line: "read_line input = (r, rest) \<Longrightarrow> suffix rest input"
  using read_line_split [of input r rest] by (auto simp: suffix_def)

lemma read_content_length_step:
  assumes "read_content_length found input = Inr x" and "input \<noteq> []"
  obtains tail where "suffix tail input" and "length tail < length input"
    and "x = (found, tail) \<or> (\<exists>f. read_content_length f tail = Inr x)"
proof -
  obtain r tail where line: "read_line input = (r, tail)" by (metis surj_pair)
  have "x = (found, tail) \<or> (\<exists>f. read_content_length f tail = Inr x)"
    using assms line unfolding read_content_length.simps [of found input]
    by (auto simp: listener_header_error_def split: sum.splits if_splits option.splits)
  with that [of tail] suffix_read_line [OF line] read_line_shorter [OF line assms(2)] show thesis by blast
qed

lemma read_content_length_suffix:
  "read_content_length found input = Inr (c, rest) \<Longrightarrow> suffix rest input"
proof (induction input arbitrary: found rule: length_induct)
  case (1 input)
  show ?case
  proof (cases "input = []")
    case False
    from read_content_length_step [OF 1(2) False] obtain tail where "suffix tail input"
      and "length tail < length input" "(c, rest) = (found, tail) \<or> (\<exists>f. read_content_length f tail = Inr (c, rest))"
      by metis
    with 1(1) show ?thesis by (metis prod.inject suffix_order.trans)
  qed (use 1(2) in simp)
qed

text \<open>A request without a body.\<close>

definition sample_request :: string where
  "sample_request = ''POST /tool'' @ [CHR 0x0A] @ ''content-length:0'' @ [CHR 0x0A, CHR 0x0A]"

lemma sample_request_read:
  "read_gateway_listener_action parse sample_request =
     (case parse [] of
        Inl err \<Rightarrow> Inl (Gateway (''malformed gateway listener tool action: '' @ err))
      | Inr action \<Rightarrow> Inr action)"
proof -
  have first: "read_line sample_request =
      (Inr (''POST /tool'' @ [CHR 0x0A]), ''content-length:0'' @ [CHR 0x0A, CHR 0x0A])" by code_simp
  have second: "read_line (''content-length:0'' @ [CHR 0x0A, CHR 0x0A]) =
      (Inr (''content-length:0'' @ [CHR 0x0A]), [CHR 0x0A])" by code_simp
  have third: "read_line [CHR 0x0A] = (Inr [CHR 0x0A], [])" by code_simp
  have parts: "split_whitespace (''POST /tool'' @ [CHR 0x0A]) = [''POST'', ''/tool'']" by code_simp
  have header: "split_once CHR '':'' (''content-length:0'' @ [CHR 0x0A]) =
      Some (''content-length'', ''0'' @ [CHR 0x0A])" by code_simp
  have name: "to_lower (trim ''content-length'') = ''content-length''" by code_simp
  have v: "trim (''0'' @ [CHR 0x0A]) = ''0''" by code_simp
  have n: "parse_unsigned 18446744073709551616 ''0'' = Inr 0" by (simp add: parse_unsigned_def is_digit_def)
  have rest: "read_content_length (Some 0) [CHR 0x0A] = Inr (Some 0, [])"
    by (subst read_content_length.simps) (simp add: third ends_headers_def)
  have "read_content_length None (''content-length:0'' @ [CHR 0x0A, CHR 0x0A]) = Inr (Some 0, [])"
    by (subst read_content_length.simps) (simp only: second header, simp add: ends_headers_def name [simplified] v [simplified] n rest del: read_content_length.simps)
  then show ?thesis
    by (simp only: read_gateway_listener_action_def first, simp add: parts [simplified])
qed

text \<open>
  The listener reads one bounded request. It takes an action from a connection only if the first
  line is a \<open>POST /tool\<close> request and the action is parsed from a contiguous part of what the
  connection sent after it, of at most 128 KiB.
\<close>

theorem listener_request_bounded:
  assumes "read_gateway_listener_action parse input = Inr action"
  shows "\<exists>line headers body rest. input = line @ headers @ body @ rest
    \<and> take 2 (split_whitespace line) = [''POST'', ''/tool'']
    \<and> length body \<le> 128 * 1024 \<and> parse body = Inr action"
proof -
  obtain r tail where line: "read_line input = (r, tail)" by (metis surj_pair)
  from assms line obtain l where l: "r = Inr l" "2 \<le> length (split_whitespace l)"
    "split_whitespace l ! 0 = ''POST''" "split_whitespace l ! 1 = ''/tool''"
    and content: "rbind (read_content_length None tail) (\<lambda>(content_length, rest).
        case content_length of
          None \<Rightarrow> Inl (Gateway ''gateway listener request is missing content-length'')
        | Some n \<Rightarrow>
            if 128 * 1024 < n then Inl (Gateway ''gateway listener request body is too large'')
            else if length rest < n
            then Inl (Gateway (''failed to read gateway listener body: '' @ ''failed to fill whole buffer''))
            else case parse (take n rest) of
                   Inl err \<Rightarrow> Inl (Gateway (''malformed gateway listener tool action: '' @ err))
                 | Inr action \<Rightarrow> Inr action) = Inr action"
    by (cases r) (auto simp: read_gateway_listener_action_def Let_def rbind_Inr_iff split: if_splits)
  from content obtain c body where content: "read_content_length None tail = Inr (c, body)"
    and body: "(case c of
          None \<Rightarrow> Inl (Gateway ''gateway listener request is missing content-length'')
        | Some n \<Rightarrow>
            if 128 * 1024 < n then Inl (Gateway ''gateway listener request body is too large'')
            else if length body < n
            then Inl (Gateway (''failed to read gateway listener body: '' @ ''failed to fill whole buffer''))
            else case parse (take n body) of
                   Inl err \<Rightarrow> Inl (Gateway (''malformed gateway listener tool action: '' @ err))
                 | Inr action \<Rightarrow> Inr action) = Inr action"
    by (elim rbind_InrE) auto
  from body obtain n where n: "n \<le> 128 * 1024" "n \<le> length body" and parse: "parse (take n body) = Inr action"
    by (cases c) (auto simp: not_less split: if_splits sum.splits)
  from read_line_split [OF line] l(1) have input: "input = l @ tail" by auto
  from read_content_length_suffix [OF content] obtain hs where "tail = hs @ body" by (auto simp: suffix_def)
  with input have "input = l @ hs @ take n body @ drop n body" by simp
  moreover have "take 2 (split_whitespace l) = [''POST'', ''/tool'']"
    using l(2-4) by (cases "split_whitespace l" rule: remdups_adj.cases) auto
  moreover have "length (take n body) \<le> 128 * 1024" using n by simp
  ultimately show ?thesis using parse by blast
qed

theorem listener_request_bounded_witness:
  "\<exists>line headers body rest. sample_request = line @ headers @ body @ rest \<and> length body \<le> 128 * 1024"
proof -
  have "read_gateway_listener_action (\<lambda>s. Inr (sample_tool ''read_issue'')) sample_request =
      Inr (sample_tool ''read_issue'')" by (simp add: sample_request_read)
  from listener_request_bounded [OF this] show ?thesis by blast
qed

text \<open>
  One malformed tool action ends the listener. When a connection sends an action with an empty
  protocol, tool or operation, the listener returns the error at once: the connection gets no answer,
  the later connections are not served, and there is no event, no final status and no report.
\<close>

theorem listener_ends_on_malformed_action:
  assumes "read_gateway_listener_action (ce_parse_action ce) input = Inr action"
    and "normalize_tool_action action = Inl err"
  shows "listen_loop ce task refs once (Inr input # connections) log = (Inl err, log)"
  using assms by (simp add: handle_gateway_listener_stream_def sbind_def stry_def slift_def sfail_def)

theorem listener_ends_on_malformed_action_witness:
  "\<forall>refs log. \<exists>err. listen_loop (sample_command\<lparr>ce_parse_action := (\<lambda>s. Inr (sample_tool []))\<rparr>) fixture_task refs False
     [Inr sample_request, Inr sample_request] log = (Inl err, log)"
proof (intro allI)
  fix refs log
  have "\<not> is_ok (normalize_tool_action (sample_tool []))" by code_simp
  then obtain err where "normalize_tool_action (sample_tool []) = Inl err"
    by (cases "normalize_tool_action (sample_tool [])") auto
  then have "listen_loop (sample_command\<lparr>ce_parse_action := (\<lambda>s. Inr (sample_tool []))\<rparr>) fixture_task refs False
     [Inr sample_request, Inr sample_request] log = (Inl err, log)"
    by (intro listener_ends_on_malformed_action [where action = "sample_tool []"])
      (simp_all add: sample_request_read)
  then show "\<exists>err. listen_loop (sample_command\<lparr>ce_parse_action := (\<lambda>s. Inr (sample_tool []))\<rparr>) fixture_task refs False
     [Inr sample_request, Inr sample_request] log = (Inl err, log)" ..
qed

lemma error_status_range: "error_status k \<in> {Succeeded, Denied, Failed}"
  by (cases k rule: error_status.cases) auto

lemma delivers_no_status: "deliver ce response log = (r, log') \<Longrightarrow> stored log' = stored log"
  by (auto simp: deliver_def gcall_def Let_def stored_def)

lemma connection_status:
  assumes "handle_gateway_listener_stream ce task refs input log = (Inr u, log')"
  shows "\<exists>sts. stored log' = stored log @ sts \<and> set sts \<subseteq> {Succeeded, Denied, Failed}"
proof (cases "read_gateway_listener_action (ce_parse_action ce) input")
  case (Inl err)
  with assms show ?thesis
    by (intro exI [of _ "[]"]) (auto simp: handle_gateway_listener_stream_def dest: delivers_no_status)
next
  case (Inr action)
  with assms [unfolded handle_gateway_listener_stream_def] show ?thesis
  proof (simp only: sum.case, elim sbind_InrE, goal_cases)
    case (1 a l1 registry l2 execution l3 v1 l4 v2 l5)
    then have "l2 = log" "stored log' = stored l5"
      and steps: "execute_gateway_action ce task registry a (tool_context refs) l2 = (Inr execution, l3)"
        "record_gateway_artifacts ce task execution l3 = (Inr v1, l4)"
        "gateway_transition ce task (gateway_execution_status execution) l4 = (Inr v2, l5)"
      by (auto simp: sfail_def split: sum.splits dest: delivers_no_status slift_InrD)
    then show ?case
      using stored_same [OF executor_stores_none steps(1)] stored_same [OF artifacts_store_none steps(2)]
        transition_stores [OF steps(3)] error_status_range
      by (auto simp: gateway_execution_status_def)
  qed
qed

lemma loop_statuses:
  assumes "listen_loop ce task refs once cs log = (Inr u, log')"
  shows "\<exists>sts. stored log' = stored log @ sts \<and> set sts \<subseteq> {Succeeded, Denied, Failed}"
  using assms
proof (induction cs arbitrary: log u log')
  case (Cons c cs)
  then obtain input where c: "c = Inr input" by (cases c) (auto simp: sfail_def)
  with Cons.prems obtain v mid where h: "handle_gateway_listener_stream ce task refs input log = (Inr v, mid)"
    and rest: "(if once then sreturn True else listen_loop ce task refs once cs) mid = (Inr u, log')"
    by (auto elim!: sbind_InrE)
  from connection_status [OF h] obtain s where "stored mid = stored log @ s" "set s \<subseteq> {Succeeded, Denied, Failed}"
    by blast
  moreover from rest have "\<exists>sts. stored log' = stored mid @ sts \<and> set sts \<subseteq> {Succeeded, Denied, Failed}"
    by (cases once) (auto simp: sreturn_def intro: Cons.IH)
  ultimately show ?case by fastforce
qed (auto simp: sreturn_def)

text \<open>
  The listener reports success whatever it refused. When \<open>gateway listen\<close> ends without an error,
  the stored statuses are \<open>Created\<close> and \<open>Running\<close>, then a terminal status for each request that it
  executed, then \<open>Reporting\<close> and \<open>Succeeded\<close>: the task leaves a terminal status again, and its last
  status does not show that a request was denied or failed.
\<close>

theorem listener_ends_succeeded:
  assumes "run_gateway_listener ce task once bound connections [] = (Inr True, log)"
  shows "\<exists>sts. stored log = [Created, Running] @ sts @ [Reporting, Succeeded]
    \<and> set sts \<subseteq> {Succeeded, Denied, Failed}"
proof (cases "gw_tools (rt_gateway task) = []")
  case False
  with assms [unfolded run_gateway_listener_def] show ?thesis
  proof (simp only: if_False, elim sbind_InrE, goal_cases)
    case (1 refs l1 v1 l2 v2 l3 v3 l4 ended l5)
    then have steps: "open_evidence ce task [] = (Inr refs, l1)" "task_created ce task l1 = (Inr v1, l2)"
      "gateway_transition ce task Running l2 = (Inr v2, l3)" "l4 = l3"
      "listen_loop ce task refs once connections l4 = (Inr ended, l5)"
      by (auto dest: slift_InrD)
    have "ended" using 1 by (auto simp: sreturn_def split: if_splits)
    with 1 obtain w1 k1 w2 k2 w3 where ends: "gateway_transition ce task Reporting l5 = (Inr w1, k1)"
      "finish_report ce task refs k1 = (Inr w2, k2)" "gateway_transition ce task Succeeded k2 = (Inr w3, log)"
      by (auto elim!: sbind_InrE simp: sreturn_def)
    from steps(1) evidence_log [of ce task "[]"] have "l1 = []" by simp
    with created_stores [OF steps(2)] transition_stores [OF steps(3)] steps(4)
      transition_stores [OF ends(1)] stored_same [OF report_stores_none ends(2)] transition_stores [OF ends(3)]
      loop_statuses [OF steps(5)]
    show ?case by auto
  qed
qed (use assms in \<open>simp add: run_gateway_listener_def sfail_def\<close>)

theorem listener_ends_succeeded_witness:
  "\<exists>log. run_gateway_listener sample_command fixture_task True (Inr ()) [Inr []] [] = (Inr True, log)
     \<and> last (stored log) = Succeeded"
proof -
  have "fst (run_gateway_listener sample_command fixture_task True (Inr ()) [Inr []] []) = Inr True"
    by code_simp
  then obtain log where "run_gateway_listener sample_command fixture_task True (Inr ()) [Inr []] [] = (Inr True, log)"
    by (metis prod.collapse)
  from this listener_ends_succeeded [OF this] show ?thesis by auto
qed

end
