(* ===== verification/Config.thy ===== *)
theory Config
  imports Core_Types Rust_Path
begin

text \<open>
  Task files (\<open>crates/taskfence-config/src/lib.rs\<close>): what the YAML reader delivers, the checks,
  and the resolved task. The YAML reader, the current directory and the file system are parameters;
  the reader delivers the raw records with the defaults that their attributes name.
\<close>

section \<open>Raw task files\<close>

datatype canonicalized =
    CanonOk path | CanonNotUtf8 string | CanonNotFound string | CanonFailed string

record raw_agent =
  rwa_kind :: string
  rwa_command :: string
  rwa_args :: "string list"

datatype raw_ssh_network_policy = RawUncontrolledAllow

record raw_ssh_sandbox =
  rws_host :: string
  rws_user :: "string option"
  rws_port :: "u16 option"
  rws_workspace :: "path option"
  rws_identity_file :: "path option"
  rws_known_hosts_file :: "path option"
  rws_isolated_workspace :: bool
  rws_isolated_secrets :: bool
  rws_terminates_remote_processes :: bool
  rws_enforces_resource_limits :: bool
  rws_network_policy :: "raw_ssh_network_policy option"

record raw_sandbox =
  rwb_kind :: "string option"
  rwb_image :: "string option"
  rwb_ssh :: "raw_ssh_sandbox option"
  rwb_limits :: limit_config

record raw_path_permissions =
  rwpp_read :: "path list"
  rwpp_write :: "path list"

record raw_network_permissions =
  rwn_default :: "string option"
  rwn_allow_domains :: "string list"

record raw_budget_limit =
  rwl_kind :: string
  rwl_max_amount :: u64

record raw_budget_permissions =
  rwbp_allow :: "raw_budget_limit list"

record raw_permissions =
  rwp_paths :: raw_path_permissions
  rwp_commands :: command_permissions
  rwp_network :: raw_network_permissions
  rwp_env :: env_permissions
  rwp_tools :: tool_permissions
  rwp_budget :: raw_budget_permissions

record raw_secrets =
  rwse_expose_to_agent :: bool
  rwse_available_to_gateway :: "secret_grant list"

record raw_approval =
  rwap_require_for :: "string list"
  rwap_timeout_minutes :: "u64 option"

datatype raw_gateway_connector =
    RawLocalFixture string path
  | RawGitHubRest string string
  | RawGitHubEnterpriseRest string string
  | RawGitLab string string
  | RawJira string string
  | RawFeishu string string
  | RawWeCom string string
  | RawDingTalk string string
  | RawGitee string string
  | RawCoding string string
  | RawDatabase string string
  | RawInternalHttp string string
  | RawSiemExport string string
  | RawUnsupported string

record raw_gateway_secret_reference =
  rwr_name :: string
  rwr_parameter :: string
  rwr_scope :: string

record raw_gateway_tool =
  rwt_protocol :: string
  rwt_tool :: string
  rwt_operation :: string
  rwt_connector :: raw_gateway_connector
  rwt_secret_refs :: "raw_gateway_secret_reference list"

record raw_gateway_egress =
  rwe_allow_domains :: bool

record raw_gateway =
  rwg_mode :: "string option"
  rwg_egress :: raw_gateway_egress
  rwg_tools :: "raw_gateway_tool list"

record raw_report =
  rwrep_format :: "string option"

record raw_audit =
  rwau_report :: raw_report
  rwau_capture :: capture_config

record raw_task =
  rw_id :: "string option"
  rw_goal :: string
  rw_workspace :: path
  rw_agent :: raw_agent
  rw_sandbox :: raw_sandbox
  rw_permissions :: raw_permissions
  rw_secrets :: raw_secrets
  rw_approval :: raw_approval
  rw_gateway :: raw_gateway
  rw_audit :: raw_audit

definition default_agent_type :: string where
  "default_agent_type = ''generic''"

definition default_github_api_base :: string where
  "default_github_api_base = ''https://api.github.com''"

type_synonym file_system = "path \<Rightarrow> canonicalized"

definition config_error :: "string \<Rightarrow> 'a result" where
  "config_error message = Inl (Config message)"

definition require :: "bool \<Rightarrow> string \<Rightarrow> unit result" where
  "require b message = (if b then Inr () else config_error message)"

section \<open>Names and values\<close>

definition escapes_with_parent :: "path \<Rightarrow> bool" where
  "escapes_with_parent p \<longleftrightarrow> contains_parent_dir p"

definition normalize_ssh_segment :: "string \<Rightarrow> string \<Rightarrow> string result" where
  "normalize_ssh_segment field v =
     (let v = trim v
      in if v = [] \<or> CHR 0x00 \<in> set v \<or> CHR ''@'' \<in> set v \<or> has_control v
         then config_error (field @ '' must be a non-empty SSH segment without control characters or '' @
                [CHR 0x27] @ ''@'' @ [CHR 0x27])
         else Inr v)"

definition reject_absolute_path_escape :: "string \<Rightarrow> path \<Rightarrow> unit result" where
  "reject_absolute_path_escape field p =
     require (is_absolute p \<and> \<not> escapes_with_parent p \<and> CHR 0x00 \<notin> set p)
       (field @ '' must be an absolute path without '' @ [CHR 0x27] @ ''..'' @ [CHR 0x27] @ '' or NUL'')"

definition validate_domain :: "string \<Rightarrow> string result" where
  "validate_domain d =
     (let d = to_lower (trim_end_char CHR ''.'' (trim d))
      in if d = [] \<or> CHR ''/'' \<in> set d \<or> CHR '':'' \<in> set d \<or> CHR ''*'' \<in> set d
            \<or> [] \<in> set (split_on CHR ''.'' d)
         then config_error (''invalid network allow domain: '' @ d)
         else Inr d)"

definition normalize_budget_kind :: "string \<Rightarrow> string result" where
  "normalize_budget_kind kind =
     (let v = to_lower (trim kind)
      in if v = [] then config_error ''permissions.budget.allow kind must not be empty'' else Inr v)"

definition normalize_gateway_segment :: "string \<Rightarrow> string \<Rightarrow> string result" where
  "normalize_gateway_segment field v =
     (let v = to_lower (trim v)
      in if v = [] then config_error (field @ '' must not be empty'') else Inr v)"

definition normalize_gateway_parameter :: "string \<Rightarrow> string \<Rightarrow> string result" where
  "normalize_gateway_parameter field v =
     (let v = trim v in if v = [] then config_error (field @ '' must not be empty'') else Inr v)"

fun trim_start_matches :: "string \<Rightarrow> string \<Rightarrow> string" where
  "trim_start_matches [] s = s"
| "trim_start_matches (p # ps) [] = []"
| "trim_start_matches (p # ps) (c # s) =
     (if prefix (p # ps) (c # s) then trim_start_matches (p # ps) (drop (length ps) s) else c # s)"

definition normalize_gateway_api_base :: "string \<Rightarrow> string result" where
  "normalize_gateway_api_base v =
     (let v = trim_end_char CHR ''/'' (trim v)
      in if v = [] then config_error ''gateway.tools.connector.api_base must not be empty''
         else if \<not> prefix ''https://'' v
         then config_error (''gateway.tools.connector.api_base must use https: '' @ v)
         else let rest = trim_start_matches ''https://'' v
              in if rest = [] \<or> CHR ''@'' \<in> set rest \<or> CHR ''?'' \<in> set rest \<or> CHR ''#'' \<in> set rest
                    \<or> has_whitespace rest
                 then config_error (''gateway.tools.connector.api_base is not a safe HTTPS base URL: '' @ v)
                 else Inr v)"

definition github_path_char :: "char \<Rightarrow> bool" where
  "github_path_char c \<longleftrightarrow> is_alnum c \<or> c = CHR ''.'' \<or> c = CHR ''_'' \<or> c = CHR ''-''"

definition is_safe_github_path_segment :: "string \<Rightarrow> bool" where
  "is_safe_github_path_segment v \<longleftrightarrow> \<not> str_contains ''..'' v \<and> list_all github_path_char v"

definition normalize_github_repository :: "string \<Rightarrow> string result" where
  "normalize_github_repository v =
     (let v = trim v
      in case split_once CHR ''/'' v of
           None \<Rightarrow> config_error ''gateway.tools.connector.repository must be owner/repo''
         | Some (owner, repo) \<Rightarrow>
             if owner = [] \<or> repo = [] \<or> CHR ''/'' \<in> set repo
                \<or> \<not> is_safe_github_path_segment owner \<or> \<not> is_safe_github_path_segment repo
             then config_error (''gateway.tools.connector.repository must be a safe owner/repo value: '' @ v)
             else Inr (owner @ ''/'' @ repo))"

definition normalize_connector_token :: "string \<Rightarrow> string \<Rightarrow> string result" where
  "normalize_connector_token field v =
     (let v = trim v
      in if v = [] \<or> str_contains ''..'' v \<or> \<not> list_all github_path_char v
         then config_error (field @ '' must contain only ASCII letters, digits, '' @ [CHR 0x27] @ ''.'' @
                [CHR 0x27] @ '', '' @ [CHR 0x27] @ ''_'' @ [CHR 0x27] @ '' or '' @ [CHR 0x27] @ ''-'' @ [CHR 0x27])
         else Inr v)"

definition normalize_connector_path :: "string \<Rightarrow> string \<Rightarrow> string result" where
  "normalize_connector_path field v =
     (let v = trim_char CHR ''/'' (trim v)
      in if v = [] \<or> str_contains ''..'' v
            \<or> \<not> list_all (\<lambda>segment. is_ok (normalize_connector_token field segment)) (split_on CHR ''/'' v)
         then config_error (field @ '' must be a safe slash-separated connector path'')
         else Inr v)"

definition credential_markers :: "string list" where
  "credential_markers =
     [''password='', ''token='', ''secret='', ''api_key='', ''authorization='', ''bearer '']"

definition dsn_schemes :: "string list" where
  "dsn_schemes = [''postgres://'', ''postgresql://'', ''mysql://'', ''sqlserver://'']"

definition normalize_connector_reference :: "string \<Rightarrow> string \<Rightarrow> string result" where
  "normalize_connector_reference field v =
     (let v = trim v; low = to_lower v
      in if v = [] \<or> has_whitespace v \<or> CHR ''@'' \<in> set v \<or> CHR ''?'' \<in> set v \<or> CHR ''#'' \<in> set v
            \<or> list_ex (\<lambda>m. str_contains m low) credential_markers
            \<or> list_ex (\<lambda>m. prefix m low) dsn_schemes
         then config_error (field @ '' must be a non-secret reference, not an inline credential or DSN'')
         else Inr v)"

section \<open>Paths\<close>

definition resolve_relative_path :: "path \<Rightarrow> path \<Rightarrow> path" where
  "resolve_relative_path base_dir p = (if is_absolute p then p else path_join base_dir p)"

definition resolve_existing_workspace :: "file_system \<Rightarrow> path \<Rightarrow> path \<Rightarrow> path result" where
  "resolve_existing_workspace canon base_dir workspace =
     (let resolved = resolve_relative_path base_dir workspace
      in case canon resolved of
           CanonOk p \<Rightarrow> Inr p
         | CanonNotUtf8 shown \<Rightarrow> config_error (''workspace path is not valid UTF-8: '' @ shown)
         | CanonNotFound err \<Rightarrow> config_error (''failed to resolve workspace '' @ resolved @ '': '' @ err)
         | CanonFailed err \<Rightarrow> config_error (''failed to resolve workspace '' @ resolved @ '': '' @ err))"

definition validate_allowed_path :: "file_system \<Rightarrow> path \<Rightarrow> path \<Rightarrow> path result" where
  "validate_allowed_path canon workspace p =
     (case canon p of
        CanonOk q \<Rightarrow> Inr q
      | CanonNotUtf8 shown \<Rightarrow> config_error (''configured path is not valid UTF-8: '' @ shown)
      | CanonNotFound err \<Rightarrow>
          if path_starts_with p workspace then Inr p
          else config_error (''path must stay inside workspace '' @ workspace @ '': '' @ p)
      | CanonFailed err \<Rightarrow> config_error (''failed to resolve configured path '' @ p @ '': '' @ err))"

definition resolve_path :: "file_system \<Rightarrow> path \<Rightarrow> path \<Rightarrow> path \<Rightarrow> path result" where
  "resolve_path canon base_dir workspace p =
     (if escapes_with_parent p
      then config_error (''path must not contain '' @ [CHR 0x27] @ ''..'' @ [CHR 0x27] @ '': '' @ p)
      else rbind (validate_allowed_path canon workspace (resolve_relative_path base_dir p)) (\<lambda>validated.
             if \<not> path_starts_with validated workspace
             then config_error (''path must stay inside workspace '' @ workspace @ '': '' @ validated)
             else Inr validated))"

definition resolve_paths :: "file_system \<Rightarrow> path \<Rightarrow> path \<Rightarrow> path list \<Rightarrow> path list result" where
  "resolve_paths canon base_dir workspace paths = rmap_list (resolve_path canon base_dir workspace) paths"

definition make_absolute :: "canonicalized \<Rightarrow> path \<Rightarrow> path result" where
  "make_absolute cwd p =
     (if is_absolute p then Inr p
      else case cwd of
             CanonOk dir \<Rightarrow> Inr (path_join dir p)
           | CanonNotUtf8 shown \<Rightarrow> config_error (''current directory is not valid UTF-8: '' @ shown)
           | CanonNotFound err \<Rightarrow> config_error (''failed to read current directory: '' @ err)
           | CanonFailed err \<Rightarrow> config_error (''failed to read current directory: '' @ err))"

section \<open>Resolution\<close>

fun agent_kind_of :: "string \<Rightarrow> agent_kind" where
  "agent_kind_of k = (if k = ''generic'' then Generic else Specialized k)"

definition resolve_agent :: "raw_agent \<Rightarrow> agent_config result" where
  "resolve_agent raw =
     (if trim (rwa_command raw) = [] then config_error ''agent.command must not be empty''
      else Inr \<lparr>ag_kind = agent_kind_of (rwa_kind raw), ag_command = rwa_command raw, ag_args = rwa_args raw\<rparr>)"

definition check_path :: "string \<Rightarrow> path option \<Rightarrow> unit result" where
  "check_path field p = (case p of None \<Rightarrow> Inr () | Some p \<Rightarrow> reject_absolute_path_escape field p)"

definition resolve_ssh :: "raw_ssh_sandbox \<Rightarrow> ssh_sandbox_config result" where
  "resolve_ssh raw =
     rbind (normalize_ssh_segment ''sandbox.ssh.host'' (rws_host raw)) (\<lambda>host.
     rbind (ropt (normalize_ssh_segment ''sandbox.ssh.user'') (rws_user raw)) (\<lambda>user.
     rbind (require (rws_port raw \<noteq> Some 0) ''sandbox.ssh.port must be positive'') (\<lambda>_.
     rbind (check_path ''sandbox.ssh.workspace'' (rws_workspace raw)) (\<lambda>_.
     rbind (check_path ''sandbox.ssh.identity_file'' (rws_identity_file raw)) (\<lambda>_.
     rbind (check_path ''sandbox.ssh.known_hosts_file'' (rws_known_hosts_file raw)) (\<lambda>_.
       Inr \<lparr>ssh_host = host, ssh_user = user, ssh_port = rws_port raw,
            ssh_workspace = rws_workspace raw, ssh_identity_file = rws_identity_file raw,
            ssh_known_hosts_file = rws_known_hosts_file raw,
            ssh_isolated_workspace = rws_isolated_workspace raw,
            ssh_isolated_secrets = rws_isolated_secrets raw,
            ssh_terminates_remote_processes = rws_terminates_remote_processes raw,
            ssh_enforces_resource_limits = rws_enforces_resource_limits raw,
            ssh_network_policy = map_option (\<lambda>_. UncontrolledAllow) (rws_network_policy raw)\<rparr>))))))"

definition sandbox_kind_of :: "string \<Rightarrow> sandbox_kind" where
  "sandbox_kind_of k =
     (if k = ''docker'' then Docker
      else if k = ''remote_ssh'' then RemoteSsh
      else if k = ''kubernetes_job'' then KubernetesJob
      else if k = ''microvm'' then MicroVm
      else if k = ''managed_cloud'' then ManagedCloud
      else UnsupportedSandbox k)"

definition resolve_sandbox :: "raw_sandbox \<Rightarrow> sandbox_config result" where
  "resolve_sandbox raw =
     (case rwb_kind raw of
        None \<Rightarrow> config_error ''sandbox.type is required''
      | Some k \<Rightarrow>
          (let kind = sandbox_kind_of k
           in if lim_timeout_minutes (rwb_limits raw) = Some 0
              then config_error ''sandbox.limits.timeout_minutes must be positive''
              else rbind (case rwb_ssh raw of
                       Some ssh \<Rightarrow>
                         if kind = RemoteSsh then rbind (resolve_ssh ssh) (\<lambda>c. Inr (Some c))
                         else config_error ''sandbox.ssh is only supported when sandbox.type is remote_ssh''
                     | None \<Rightarrow>
                         if kind = RemoteSsh
                         then config_error ''sandbox.ssh is required for remote_ssh tasks''
                         else Inr None) (\<lambda>ssh.
                     Inr \<lparr>sb_kind = kind, sb_image = rwb_image raw, sb_ssh = ssh, sb_limits = rwb_limits raw\<rparr>)))"

definition resolve_path_permissions ::
  "file_system \<Rightarrow> path \<Rightarrow> path \<Rightarrow> raw_path_permissions \<Rightarrow> path_permissions result" where
  "resolve_path_permissions canon base_dir workspace raw =
     rbind (resolve_paths canon base_dir workspace (rwpp_read raw)) (\<lambda>reads.
     rbind (resolve_paths canon base_dir workspace (rwpp_write raw)) (\<lambda>writes.
       Inr \<lparr>pp_read = reads, pp_write = writes\<rparr>))"

definition network_default_of :: "string option \<Rightarrow> network_default result" where
  "network_default_of d =
     (if d = Some ''allow'' then Inr NetAllow
      else if d = Some ''disabled'' then Inr NetDisabled
      else if d = Some ''deny'' then Inr NetDeny
      else case d of
             None \<Rightarrow> Inr NetDeny
           | Some other \<Rightarrow>
               config_error (''permissions.network.default must be allow, deny, or disabled, got '' @ other))"

definition resolve_network :: "raw_network_permissions \<Rightarrow> network_permissions result" where
  "resolve_network raw =
     rbind (network_default_of (rwn_default raw)) (\<lambda>d.
     rbind (rmap_list validate_domain (rwn_allow_domains raw)) (\<lambda>domains.
       Inr \<lparr>np_default = d, np_allow_domains = domains\<rparr>))"

definition resolve_budget_limit :: "raw_budget_limit \<Rightarrow> budget_limit result" where
  "resolve_budget_limit raw =
     rbind (normalize_budget_kind (rwl_kind raw)) (\<lambda>kind.
       if rwl_max_amount raw = 0
       then config_error ''permissions.budget.allow max_amount must be positive''
       else Inr \<lparr>bl_kind = kind, bl_max_amount = rwl_max_amount raw\<rparr>)"

definition resolve_budget :: "raw_budget_permissions \<Rightarrow> budget_permissions result" where
  "resolve_budget raw =
     rbind (rmap_list resolve_budget_limit (rwbp_allow raw)) (\<lambda>limits. Inr \<lparr>bp_allow = limits\<rparr>)"

definition resolve_permissions ::
  "file_system \<Rightarrow> path \<Rightarrow> path \<Rightarrow> raw_permissions \<Rightarrow> permission_config result" where
  "resolve_permissions canon base_dir workspace raw =
     rbind (resolve_path_permissions canon base_dir workspace (rwp_paths raw)) (\<lambda>paths.
     rbind (resolve_network (rwp_network raw)) (\<lambda>network.
     rbind (resolve_budget (rwp_budget raw)) (\<lambda>budget.
       Inr \<lparr>pm_paths = paths, pm_commands = rwp_commands raw, pm_network = network,
            pm_env = rwp_env raw, pm_tools = rwp_tools raw, pm_budget = budget\<rparr>)))"

definition resolve_secrets :: "raw_secrets \<Rightarrow> secret_config" where
  "resolve_secrets raw =
     \<lparr>sc_expose_to_agent = rwse_expose_to_agent raw,
      sc_available_to_gateway = rwse_available_to_gateway raw\<rparr>"

definition resolve_approval :: "raw_approval \<Rightarrow> approval_config result" where
  "resolve_approval raw =
     (if rwap_timeout_minutes raw = Some 0 then config_error ''approval.timeout_minutes must be positive''
      else Inr \<lparr>ac_require_for = rwap_require_for raw,
                ac_timeout_minutes =
                  (case rwap_timeout_minutes raw of None \<Rightarrow> Some 60 | Some n \<Rightarrow> Some n)\<rparr>)"

definition resolve_fixture ::
  "file_system \<Rightarrow> path \<Rightarrow> path \<Rightarrow> string \<Rightarrow> path \<Rightarrow> gateway_connector_config result" where
  "resolve_fixture canon base_dir workspace kind p =
     rbind (normalize_gateway_segment ''gateway.tools.connector.kind'' kind) (\<lambda>kind.
       if trim p = [] then config_error ''gateway.tools.connector.path must not be empty''
       else if escapes_with_parent p
       then config_error (''gateway fixture path must not contain '' @ [CHR 0x27] @ ''..'' @ [CHR 0x27] @
              '': '' @ p)
       else case canon (resolve_relative_path base_dir p) of
              CanonNotFound err \<Rightarrow> config_error (''failed to resolve gateway fixture '' @ p @ '': '' @ err)
            | CanonFailed err \<Rightarrow> config_error (''failed to resolve gateway fixture '' @ p @ '': '' @ err)
            | CanonNotUtf8 shown \<Rightarrow> config_error (''gateway fixture path is not valid UTF-8: '' @ shown)
            | CanonOk q \<Rightarrow>
                if \<not> path_starts_with q workspace
                then config_error (''gateway fixture path must stay inside workspace '' @ workspace @ '': '' @ q)
                else Inr (LocalFixture kind q))"

definition with_base ::
  "string \<Rightarrow> (string \<Rightarrow> string \<Rightarrow> gateway_connector_config) \<Rightarrow> string result \<Rightarrow>
   gateway_connector_config result" where
  "with_base api_base mk name =
     rbind (normalize_gateway_api_base api_base) (\<lambda>b. rbind name (\<lambda>n. Inr (mk b n)))"

fun resolve_connector ::
  "file_system \<Rightarrow> path \<Rightarrow> path \<Rightarrow> raw_gateway_connector \<Rightarrow> gateway_connector_config result" where
  "resolve_connector canon base_dir workspace (RawLocalFixture kind p) =
     resolve_fixture canon base_dir workspace kind p"
| "resolve_connector canon base_dir workspace (RawGitHubRest b r) =
     with_base b GitHubRest (normalize_github_repository r)"
| "resolve_connector canon base_dir workspace (RawGitHubEnterpriseRest b r) =
     with_base b GitHubEnterpriseRest (normalize_github_repository r)"
| "resolve_connector canon base_dir workspace (RawGitLab b p) =
     with_base b GitLab (normalize_connector_path ''gateway.tools.connector.project'' p)"
| "resolve_connector canon base_dir workspace (RawJira b k) =
     with_base b Jira (normalize_connector_token ''gateway.tools.connector.project_key'' k)"
| "resolve_connector canon base_dir workspace (RawFeishu b a) =
     with_base b Feishu (normalize_connector_token ''gateway.tools.connector.app'' a)"
| "resolve_connector canon base_dir workspace (RawWeCom b c) =
     with_base b WeCom (normalize_connector_token ''gateway.tools.connector.corp_id'' c)"
| "resolve_connector canon base_dir workspace (RawDingTalk b t) =
     with_base b DingTalk (normalize_connector_token ''gateway.tools.connector.tenant'' t)"
| "resolve_connector canon base_dir workspace (RawGitee b r) =
     with_base b Gitee (normalize_connector_path ''gateway.tools.connector.repository'' r)"
| "resolve_connector canon base_dir workspace (RawCoding b p) =
     with_base b Coding (normalize_connector_path ''gateway.tools.connector.project'' p)"
| "resolve_connector canon base_dir workspace (RawDatabase e r) =
     rbind (normalize_connector_token ''gateway.tools.connector.engine'' e) (\<lambda>e.
     rbind (normalize_connector_reference ''gateway.tools.connector.database_ref'' r) (\<lambda>r.
       Inr (Database (to_lower e) r)))"
| "resolve_connector canon base_dir workspace (RawInternalHttp b s) =
     with_base b InternalHttp (normalize_connector_token ''gateway.tools.connector.service'' s)"
| "resolve_connector canon base_dir workspace (RawSiemExport b s) =
     with_base b SiemExport (normalize_connector_reference ''gateway.tools.connector.sink'' s)"
| "resolve_connector canon base_dir workspace (RawUnsupported kind) =
     rbind (normalize_gateway_segment ''gateway.tools.connector.kind'' kind) (\<lambda>k.
       Inr (UnsupportedConnector k))"

definition resolve_secret_reference ::
  "raw_gateway_secret_reference \<Rightarrow> gateway_secret_reference_config result" where
  "resolve_secret_reference raw =
     rbind (normalize_gateway_segment ''gateway.tools.secret_refs.name'' (rwr_name raw)) (\<lambda>name.
     rbind (normalize_gateway_parameter ''gateway.tools.secret_refs.parameter'' (rwr_parameter raw)) (\<lambda>parameter.
     rbind (normalize_gateway_segment ''gateway.tools.secret_refs.scope'' (rwr_scope raw)) (\<lambda>scope.
       Inr \<lparr>sr_name = name, sr_parameter = parameter, sr_scope = scope\<rparr>)))"

definition resolve_tool ::
  "file_system \<Rightarrow> path \<Rightarrow> path \<Rightarrow> raw_gateway_tool \<Rightarrow> gateway_tool_config result" where
  "resolve_tool canon base_dir workspace raw =
     rbind (normalize_gateway_segment ''gateway.tools.protocol'' (rwt_protocol raw)) (\<lambda>protocol.
     rbind (normalize_gateway_segment ''gateway.tools.tool'' (rwt_tool raw)) (\<lambda>tool.
     rbind (normalize_gateway_segment ''gateway.tools.operation'' (rwt_operation raw)) (\<lambda>operation.
     rbind (resolve_connector canon base_dir workspace (rwt_connector raw)) (\<lambda>connector.
     rbind (rmap_list resolve_secret_reference (rwt_secret_refs raw)) (\<lambda>refs.
       Inr \<lparr>gt_protocol = protocol, gt_tool = tool, gt_operation = operation, gt_connector = connector,
            gt_secret_refs = refs\<rparr>)))))"

definition gateway_mode_of :: "string option \<Rightarrow> gateway_mode result" where
  "gateway_mode_of m =
     (if m = Some ''spool_only'' \<or> m = None then Inr SpoolOnly
      else if m = Some ''local_listener'' then Inr LocalListener
      else config_error (''gateway.mode must be spool_only or local_listener, got '' @ the m))"

definition resolve_gateway :: "file_system \<Rightarrow> path \<Rightarrow> path \<Rightarrow> raw_gateway \<Rightarrow> gateway_config result" where
  "resolve_gateway canon base_dir workspace raw =
     rbind (gateway_mode_of (rwg_mode raw)) (\<lambda>mode.
       if rwe_allow_domains (rwg_egress raw) \<and> mode \<noteq> LocalListener
       then config_error ''gateway.egress.allow_domains requires gateway.mode: local_listener''
       else rbind (rmap_list (resolve_tool canon base_dir workspace) (rwg_tools raw)) (\<lambda>tools.
              Inr \<lparr>gw_mode = mode, gw_egress_allow_domains = rwe_allow_domains (rwg_egress raw),
                   gw_tools = tools\<rparr>))"

definition resolve_audit :: "raw_audit \<Rightarrow> audit_config result" where
  "resolve_audit raw =
     rbind (case rwrep_format (rwau_report raw) of
              None \<Rightarrow> Inr Markdown
            | Some f \<Rightarrow>
                if f = ''html'' then Inr Html
                else if f = ''markdown'' then Inr Markdown
                else config_error (''audit.report.format must be markdown or html, got '' @ f)) (\<lambda>format.
       Inr \<lparr>au_report_format = format, au_capture = rwau_capture raw\<rparr>)"

text \<open>\<open>uuid\<close> is the text of the \<open>Uuid::now_v7()\<close> that \<open>TaskId::new\<close> appends when the file has no id.\<close>

definition task_id_new :: "string \<Rightarrow> string \<Rightarrow> task_id" where
  "task_id_new uuid p = p @ ''-'' @ uuid"

definition resolve_task :: "string \<Rightarrow> file_system \<Rightarrow> path \<Rightarrow> raw_task \<Rightarrow> resolved_task result" where
  "resolve_task uuid canon task_file raw =
     (let base_dir = (case path_parent task_file of None \<Rightarrow> ''.'' | Some dir \<Rightarrow> dir)
      in
      rbind (require (trim (rw_goal raw) \<noteq> []) ''goal must not be empty'') (\<lambda>_.
      rbind (require (\<not> escapes_with_parent (rw_workspace raw))
               (''workspace must not contain '' @ [CHR 0x27] @ ''..'' @ [CHR 0x27])) (\<lambda>_.
      rbind (resolve_existing_workspace canon base_dir (rw_workspace raw)) (\<lambda>workspace.
      rbind (resolve_permissions canon base_dir workspace (rw_permissions raw)) (\<lambda>permissions.
      rbind (require (\<not> rwse_expose_to_agent (rw_secrets raw))
               ''secrets.expose_to_agent=true is not allowed without an explicit high-risk override'') (\<lambda>_.
      rbind (resolve_gateway canon base_dir workspace (rw_gateway raw)) (\<lambda>gateway.
      rbind (resolve_agent (rw_agent raw)) (\<lambda>agent.
      rbind (resolve_sandbox (rw_sandbox raw)) (\<lambda>sandbox.
      rbind (resolve_approval (rw_approval raw)) (\<lambda>approval.
      rbind (resolve_audit (rw_audit raw)) (\<lambda>audit.
        Inr \<lparr>rt_id = (case rw_id raw of None \<Rightarrow> task_id_new uuid ''task'' | Some i \<Rightarrow> i),
             rt_task_file = task_file, rt_goal = rw_goal raw, rt_workspace_host_path = workspace,
             rt_workspace_container_path = ''/workspace'', rt_agent = agent, rt_sandbox = sandbox,
             rt_permissions = permissions, rt_secrets = resolve_secrets (rw_secrets raw),
             rt_approval = approval, rt_gateway = gateway, rt_audit = audit\<rparr>)))))))))))"

text \<open>\<open>parse_task_file\<close> and \<open>load_task_file\<close>, over a YAML reader and a file reader.\<close>

definition parse_task_file ::
  "string \<Rightarrow> (string \<Rightarrow> string + raw_task) \<Rightarrow> file_system \<Rightarrow> canonicalized \<Rightarrow> path \<Rightarrow> string \<Rightarrow>
   resolved_task result" where
  "parse_task_file uuid yaml canon cwd task_file contents =
     rbind (make_absolute cwd task_file) (\<lambda>task_file.
       case yaml contents of
         Inl err \<Rightarrow> config_error (''invalid task yaml: '' @ err)
       | Inr raw \<Rightarrow> resolve_task uuid canon task_file raw)"

definition load_task_file ::
  "string \<Rightarrow> (path \<Rightarrow> string + string) \<Rightarrow> (string \<Rightarrow> string + raw_task) \<Rightarrow> file_system \<Rightarrow> canonicalized \<Rightarrow>
   path \<Rightarrow> resolved_task result" where
  "load_task_file uuid read yaml canon cwd task_file =
     (case read task_file of
        Inl err \<Rightarrow> config_error (''failed to read '' @ task_file @ '': '' @ err)
      | Inr contents \<Rightarrow> parse_task_file uuid yaml canon cwd task_file contents)"

section \<open>A task file that loads\<close>

definition sample_raw_task :: raw_task where
  "sample_raw_task =
     \<lparr>rw_id = None, rw_goal = ''Fix'', rw_workspace = ''repo'',
      rw_agent = \<lparr>rwa_kind = default_agent_type, rwa_command = ''codex'', rwa_args = []\<rparr>,
      rw_sandbox = \<lparr>rwb_kind = Some ''docker'', rwb_image = None, rwb_ssh = None,
        rwb_limits = \<lparr>lim_timeout_minutes = None, lim_cpu = None, lim_memory = None, lim_disk = None\<rparr>\<rparr>,
      rw_permissions = \<lparr>rwp_paths = \<lparr>rwpp_read = [''repo''], rwpp_write = []\<rparr>,
        rwp_commands = \<lparr>cp_allow = [], cp_approval_required = [], cp_deny = []\<rparr>,
        rwp_network = \<lparr>rwn_default = None, rwn_allow_domains = ['' Api.GitHub.com. '']\<rparr>,
        rwp_env = \<lparr>ep_allow = []\<rparr>,
        rwp_tools = \<lparr>tp_allow = [], tp_approval_required = [], tp_deny = []\<rparr>,
        rwp_budget = \<lparr>rwbp_allow = [\<lparr>rwl_kind = '' Tokens '', rwl_max_amount = 1000\<rparr>]\<rparr>\<rparr>,
      rw_secrets = \<lparr>rwse_expose_to_agent = False, rwse_available_to_gateway = []\<rparr>,
      rw_approval = \<lparr>rwap_require_for = [], rwap_timeout_minutes = None\<rparr>,
      rw_gateway = \<lparr>rwg_mode = None, rwg_egress = \<lparr>rwe_allow_domains = False\<rparr>,
        rwg_tools = [\<lparr>rwt_protocol = ''MCP'', rwt_tool = ''github'', rwt_operation = ''read_issue'',
          rwt_connector = RawGitHubRest default_github_api_base ''acme/app'', rwt_secret_refs = []\<rparr>]\<rparr>,
      rw_audit = \<lparr>rwau_report = \<lparr>rwrep_format = None\<rparr>, rwau_capture = default_capture_config\<rparr>\<rparr>"

definition sample_uuid :: string where
  "sample_uuid = ''0190c0de-7abc-7def-8123-456789abcdef''"

abbreviation sample_load :: "resolved_task result" where
  "sample_load \<equiv> load_task_file sample_uuid (\<lambda>p. Inr []) (\<lambda>s. Inr sample_raw_task)
     (\<lambda>p. if p = ''/w/repo'' then CanonOk ''/w/repo'' else CanonNotFound ''none'') (CanonOk ''/w'') ''task.yaml''"

lemma sample_loads: "is_ok sample_load"
  by code_simp

end
