(* ===== verification/Config_Safety.thy ===== *)
theory Config_Safety
  imports Config Policy_Engine Gateway_Wiring
begin

text \<open>
  What a resolved task file guarantees to the policy engine and the gateway.
\<close>

section \<open>Well-formed tasks\<close>

definition normal_name :: "string \<Rightarrow> bool" where
  "normal_name s \<longleftrightarrow> s \<noteq> [] \<and> norm_name s = s"

definition domain_ok :: "string \<Rightarrow> bool" where
  "domain_ok d \<longleftrightarrow> d \<noteq> [] \<and> to_lower d = d \<and> CHR ''/'' \<notin> set d \<and> CHR '':'' \<notin> set d
     \<and> CHR ''*'' \<notin> set d \<and> [] \<notin> set (split_on CHR ''.'' d)"

definition limit_ok :: "budget_limit \<Rightarrow> bool" where
  "limit_ok l \<longleftrightarrow> normal_name (bl_kind l) \<and> bl_max_amount l \<noteq> 0"

definition api_base_ok :: "string \<Rightarrow> bool" where
  "api_base_ok b \<longleftrightarrow> prefix ''https://'' b \<and> b \<noteq> ''https://'' \<and> last b \<noteq> CHR ''/''
     \<and> CHR ''@'' \<notin> set b \<and> CHR ''?'' \<notin> set b \<and> CHR ''#'' \<notin> set b \<and> \<not> has_whitespace b"

definition token_ok :: "string \<Rightarrow> bool" where
  "token_ok s \<longleftrightarrow> s \<noteq> [] \<and> \<not> str_contains ''..'' s \<and> list_all github_path_char s"

definition connector_path_ok :: "string \<Rightarrow> bool" where
  "connector_path_ok s \<longleftrightarrow> s \<noteq> [] \<and> \<not> str_contains ''..'' s \<and> list_all (\<lambda>segment. token_ok (trim segment)) (split_on CHR ''/'' s)"

definition repository_ok :: "string \<Rightarrow> bool" where
  "repository_ok r \<longleftrightarrow>
     (case split_once CHR ''/'' r of None \<Rightarrow> False | Some (owner, repo) \<Rightarrow> token_ok owner \<and> token_ok repo)"

definition reference_ok :: "string \<Rightarrow> bool" where
  "reference_ok r \<longleftrightarrow> r \<noteq> [] \<and> \<not> has_whitespace r \<and> CHR ''@'' \<notin> set r \<and> CHR ''?'' \<notin> set r
     \<and> CHR ''#'' \<notin> set r \<and> list_all (\<lambda>m. \<not> str_contains m (to_lower r)) credential_markers
     \<and> list_all (\<lambda>m. \<not> prefix m (to_lower r)) dsn_schemes"

fun connector_ok :: "path \<Rightarrow> gateway_connector_config \<Rightarrow> bool" where
  "connector_ok ws (LocalFixture kind p) = (normal_name kind \<and> path_starts_with p ws)"
| "connector_ok ws (GitHubRest b r) = (api_base_ok b \<and> repository_ok r)"
| "connector_ok ws (GitHubEnterpriseRest b r) = (api_base_ok b \<and> repository_ok r)"
| "connector_ok ws (GitLab b p) = (api_base_ok b \<and> connector_path_ok p)"
| "connector_ok ws (Jira b k) = (api_base_ok b \<and> token_ok k)"
| "connector_ok ws (Feishu b a) = (api_base_ok b \<and> token_ok a)"
| "connector_ok ws (WeCom b c) = (api_base_ok b \<and> token_ok c)"
| "connector_ok ws (DingTalk b t) = (api_base_ok b \<and> token_ok t)"
| "connector_ok ws (Gitee b r) = (api_base_ok b \<and> connector_path_ok r)"
| "connector_ok ws (Coding b p) = (api_base_ok b \<and> connector_path_ok p)"
| "connector_ok ws (Database e r) = (token_ok e \<and> to_lower e = e \<and> reference_ok r)"
| "connector_ok ws (InternalHttp b s) = (api_base_ok b \<and> token_ok s)"
| "connector_ok ws (SiemExport b s) = (api_base_ok b \<and> reference_ok s)"
| "connector_ok ws (UnsupportedConnector k) = normal_name k"

definition secret_reference_ok :: "gateway_secret_reference_config \<Rightarrow> bool" where
  "secret_reference_ok r \<longleftrightarrow> normal_name (sr_name r) \<and> normal_name (sr_scope r)
     \<and> sr_parameter r \<noteq> [] \<and> trim (sr_parameter r) = sr_parameter r"

definition tool_ok :: "path \<Rightarrow> gateway_tool_config \<Rightarrow> bool" where
  "tool_ok ws tool \<longleftrightarrow> normal_name (gt_protocol tool) \<and> normal_name (gt_tool tool)
     \<and> normal_name (gt_operation tool) \<and> connector_ok ws (gt_connector tool)
     \<and> list_all secret_reference_ok (gt_secret_refs tool)"

definition ssh_ok :: "ssh_sandbox_config \<Rightarrow> bool" where
  "ssh_ok c \<longleftrightarrow> ssh_host c \<noteq> [] \<and> CHR ''@'' \<notin> set (ssh_host c) \<and> \<not> has_control (ssh_host c)
     \<and> ssh_port c \<noteq> Some 0
     \<and> list_all (\<lambda>f. case f of None \<Rightarrow> True | Some p \<Rightarrow> is_absolute p \<and> \<not> contains_parent_dir p)
         [ssh_workspace c, ssh_identity_file c, ssh_known_hosts_file c]"

definition sandbox_ok :: "sandbox_config \<Rightarrow> bool" where
  "sandbox_ok sb \<longleftrightarrow> lim_timeout_minutes (sb_limits sb) \<noteq> Some 0
     \<and> (case sb_ssh sb of None \<Rightarrow> sb_kind sb \<noteq> RemoteSsh | Some c \<Rightarrow> sb_kind sb = RemoteSsh \<and> ssh_ok c)"

definition task_ok :: "resolved_task \<Rightarrow> bool" where
  "task_ok task \<longleftrightarrow>
     trim (rt_goal task) \<noteq> [] \<and> trim (ag_command (rt_agent task)) \<noteq> []
     \<and> \<not> sc_expose_to_agent (rt_secrets task)
     \<and> list_all (\<lambda>p. path_starts_with p (rt_workspace_host_path task))
         (pp_read (pm_paths (rt_permissions task)) @ pp_write (pm_paths (rt_permissions task)))
     \<and> list_all domain_ok (np_allow_domains (pm_network (rt_permissions task)))
     \<and> list_all limit_ok (bp_allow (pm_budget (rt_permissions task)))
     \<and> sandbox_ok (rt_sandbox task)
     \<and> (\<exists>n. ac_timeout_minutes (rt_approval task) = Some n \<and> n \<noteq> 0)
     \<and> (gw_egress_allow_domains (rt_gateway task) \<longrightarrow> gw_mode (rt_gateway task) = LocalListener)
     \<and> list_all (tool_ok (rt_workspace_host_path task)) (gw_tools (rt_gateway task))"

section \<open>The checks establish it\<close>

named_theorems config_facts \<open>what a successful check says of its result\<close>

lemmas config_defs = config_error_def require_def Let_def

lemma require_Inr: "require b m = Inr u \<longleftrightarrow> b"
  by (simp add: require_def config_error_def)

lemma config_error_not_Inr [simp]: "config_error m \<noteq> Inr x"
  by (simp add: config_error_def)

lemma segment_ok [config_facts]: "normalize_gateway_segment f v = Inr w \<Longrightarrow> normal_name w"
  by (auto simp: normalize_gateway_segment_def Let_def normal_name_def norm_name_def split: if_splits)

lemma parameter_ok [config_facts]: "normalize_gateway_parameter f v = Inr w \<Longrightarrow> w \<noteq> [] \<and> trim w = w"
  by (auto simp: normalize_gateway_parameter_def Let_def split: if_splits)

lemma domain_ok_validated [config_facts]: "validate_domain v = Inr d \<Longrightarrow> domain_ok d"
  by (auto simp: validate_domain_def Let_def domain_ok_def split: if_splits)

lemma limit_ok_resolved [config_facts]: "resolve_budget_limit raw = Inr l \<Longrightarrow> limit_ok l"
  by (auto simp: resolve_budget_limit_def normalize_budget_kind_def Let_def rbind_Inr_iff limit_ok_def
      normal_name_def norm_name_def split: if_splits)

lemma token_ok_normalized [config_facts]: "normalize_connector_token f v = Inr w \<Longrightarrow> token_ok w"
  by (auto simp: normalize_connector_token_def Let_def token_ok_def split: if_splits)

lemma reference_ok_normalized [config_facts]: "normalize_connector_reference f v = Inr w \<Longrightarrow> reference_ok w"
  by (auto simp: normalize_connector_reference_def Let_def reference_ok_def list_all_iff list_ex_iff split: if_splits)

lemma split_once_join: "d \<notin> set s \<Longrightarrow> split_once d (s @ d # t) = Some (s, t)"
  by (induction s) auto

lemma repository_ok_normalized [config_facts]:
  assumes "normalize_github_repository v = Inr r"
  shows "repository_ok r"
proof -
  from assms obtain a b where r: "r = a @ CHR ''/'' # b" and ok: "token_ok a" "token_ok b"
    by (auto simp: normalize_github_repository_def Let_def token_ok_def is_safe_github_path_segment_def
        split: if_splits option.splits)
  from ok have "CHR ''/'' \<notin> set a"
    by (auto simp: token_ok_def list_all_iff github_path_char_def is_alnum_def str_defs)
  with r ok show ?thesis by (simp add: repository_ok_def split_once_join)
qed

lemma connector_path_ok_normalized [config_facts]:
  assumes "normalize_connector_path f v = Inr w"
  shows "connector_path_ok w"
proof -
  have "token_ok (trim s)" if "is_ok (normalize_connector_token f s)" for s
    using that by (auto simp: is_ok_iff normalize_connector_token_def Let_def token_ok_def split: if_splits)
  with assms show ?thesis
    by (auto simp: normalize_connector_path_def Let_def connector_path_ok_def list_all_iff split: if_splits)
qed

lemma trim_start_matches_split: "\<exists>k. s = concat (replicate k p) @ trim_start_matches p s"
proof (induction p s rule: trim_start_matches.induct)
  case (3 p ps c s)
  show ?case
  proof (cases "prefix (p # ps) (c # s)")
    case True
    then obtain t where t: "c # s = (p # ps) @ t" by (auto simp: prefix_def)
    with 3 [OF True] obtain k where "t = concat (replicate k (p # ps)) @ trim_start_matches (p # ps) t" by auto
    with t True have "c # s = concat (replicate (Suc k) (p # ps)) @ trim_start_matches (p # ps) (c # s)" by auto
    then show ?thesis by blast
  next
    case False
    then have "trim_start_matches (p # ps) (c # s) = c # s" by (simp only: trim_start_matches.simps if_False)
    then show ?thesis by (intro exI [of _ 0]) simp
  qed
qed (auto intro: exI [of _ 0])

lemma has_whitespace_skip:
  "\<not> is_ws1 a \<Longrightarrow> a \<notin> set [CHR 0xC2, CHR 0xE1, CHR 0xE2, CHR 0xE3] \<Longrightarrow> has_whitespace (a # s) = has_whitespace s"
  by (cases "a # s" rule: has_whitespace.cases) (auto simp: is_ws2_def is_ws3_def)

lemma whitespace_after_scheme: "has_whitespace (concat (replicate k ''https://'') @ r) = has_whitespace r"
proof (induction k)
  case (Suc k)
  have skip: "has_whitespace (c # t) = has_whitespace t" if "c \<in> set ''https://''" for c t
    using that by (intro has_whitespace_skip) (auto simp: is_ws1_def)
  have "has_whitespace (''https://'' @ t) = has_whitespace t" for t
    by (simp add: skip del: has_whitespace.simps)
  with Suc show ?case by (simp only: replicate_Suc concat.simps append_assoc)
qed simp

lemma last_trim_end_char: "trim_end_char d s \<noteq> [] \<Longrightarrow> last (trim_end_char d s) \<noteq> d"
  using hd_dropWhile [of "\<lambda>c. c = d" "rev s"] by (auto simp: trim_end_char_def last_rev)

lemma api_base_ok_normalized [config_facts]:
  assumes "normalize_gateway_api_base v = Inr b"
  shows "api_base_ok b"
proof -
  let ?rest = "trim_start_matches ''https://'' b"
  from assms have b: "b = trim_end_char CHR ''/'' (trim v)" "b \<noteq> []" "prefix ''https://'' b"
    and rest: "CHR ''@'' \<notin> set ?rest" "CHR ''?'' \<notin> set ?rest" "CHR ''#'' \<notin> set ?rest" "\<not> has_whitespace ?rest"
    by (auto simp: normalize_gateway_api_base_def Let_def split: if_splits)
  obtain k where k: "b = concat (replicate k ''https://'') @ ?rest"
    using trim_start_matches_split by blast
  then have "\<not> has_whitespace b" using rest(4) whitespace_after_scheme by metis
  moreover have "set b \<subseteq> set ''https://'' \<union> set ?rest" by (subst k) auto
  then have "CHR ''@'' \<notin> set b" "CHR ''?'' \<notin> set b" "CHR ''#'' \<notin> set b" using rest(1-3) by auto
  moreover have "last b \<noteq> CHR ''/''" using last_trim_end_char b(1,2) by metis
  ultimately show ?thesis using b(3) by (auto simp: api_base_ok_def)
qed

lemma dots_lower: "str_contains ''..'' (to_lower t) = str_contains ''..'' t"
proof (induction t)
  case (Cons c t)
  have dot: "lower_char x = CHR ''.'' \<longleftrightarrow> x = CHR ''.''" for x
    by (auto simp: lower_char_eq_iff is_upper_def)
  have "prefix ''..'' (to_lower (c # t)) = prefix ''..'' (c # t)"
    by (cases t) (use dot in \<open>auto simp: eq_commute [of "CHR ''.''"]\<close>)
  with Cons show ?case by simp
qed simp

lemma connector_ok_resolved [config_facts]:
  assumes "resolve_connector canon base ws raw = Inr c"
  shows "connector_ok ws c"
proof (cases raw)
  case (RawLocalFixture kind p)
  with assms show ?thesis
    by (auto simp: resolve_fixture_def rbind_Inr_iff split: if_splits canonicalized.splits intro: config_facts)
next
  case (RawDatabase e r)
  have lower: "token_ok (to_lower t)" if "token_ok t" for t
  proof -
    have "github_path_char (lower_char c)" if "github_path_char c" for c
    proof (cases "is_upper c")
      case True
      then have "byte (lower_char c) = byte c + 32" by (auto simp: lower_char_def is_upper_def)
      with True show ?thesis by (auto simp: github_path_char_def is_alnum_def is_upper_def is_lower_def)
    qed (use that in \<open>simp add: lower_char_def\<close>)
    moreover have "str_contains ''..'' (to_lower t) = str_contains ''..'' t"
      by (rule dots_lower)
    ultimately show ?thesis using that by (auto simp: token_ok_def list_all_iff)
  qed
  from assms RawDatabase show ?thesis
    by (auto simp: rbind_Inr_iff lower token_ok_normalized reference_ok_normalized)
qed (use assms in \<open>auto simp: with_base_def rbind_Inr_iff intro: config_facts\<close>)

lemma rmap_list_list_all: "rmap_list f xs = Inr ys \<Longrightarrow> (\<And>x y. f x = Inr y \<Longrightarrow> P y) \<Longrightarrow> list_all P ys"
  using rmap_list_all [of f xs ys P] by (simp add: list_all_iff)

lemma secret_reference_resolved: "resolve_secret_reference x = Inr r \<Longrightarrow> secret_reference_ok r"
  by (auto simp: resolve_secret_reference_def rbind_Inr_iff secret_reference_ok_def
      dest: parameter_ok intro: config_facts)

lemma tool_ok_resolved:
  assumes "resolve_tool canon base ws raw = Inr tool"
  shows "tool_ok ws tool"
proof -
  from assms obtain protocol name operation connector refs
    where parts: "normalize_gateway_segment ''gateway.tools.protocol'' (rwt_protocol raw) = Inr protocol"
      "normalize_gateway_segment ''gateway.tools.tool'' (rwt_tool raw) = Inr name"
      "normalize_gateway_segment ''gateway.tools.operation'' (rwt_operation raw) = Inr operation"
      "resolve_connector canon base ws (rwt_connector raw) = Inr connector"
      "rmap_list resolve_secret_reference (rwt_secret_refs raw) = Inr refs"
    and tool: "tool = \<lparr>gt_protocol = protocol, gt_tool = name, gt_operation = operation,
      gt_connector = connector, gt_secret_refs = refs\<rparr>"
    unfolding resolve_tool_def by (elim rbind_InrE) simp
  show ?thesis
    unfolding tool tool_ok_def
    using parts(1-3) [THEN segment_ok] connector_ok_resolved [OF parts(4)]
      rmap_list_list_all [OF parts(5) secret_reference_resolved] by simp
qed

lemma resolve_path_inside: "resolve_path canon base ws p = Inr q \<Longrightarrow> path_starts_with q ws"
  unfolding resolve_path_def by (auto elim!: rbind_InrE split: if_splits)

lemma resolved_paths_inside:
  "resolve_paths canon base ws ps = Inr qs \<Longrightarrow> list_all (\<lambda>q. path_starts_with q ws) qs"
  unfolding resolve_paths_def by (erule rmap_list_list_all) (rule resolve_path_inside)

lemma permissions_resolved:
  assumes "resolve_permissions canon base ws raw = Inr pm"
  shows "list_all (\<lambda>p. path_starts_with p ws) (pp_read (pm_paths pm) @ pp_write (pm_paths pm))
    \<and> list_all domain_ok (np_allow_domains (pm_network pm)) \<and> list_all limit_ok (bp_allow (pm_budget pm))"
proof -
  from assms obtain rd wr d ds ls where "resolve_paths canon base ws (rwpp_read (rwp_paths raw)) = Inr rd"
    "resolve_paths canon base ws (rwpp_write (rwp_paths raw)) = Inr wr"
    "rmap_list validate_domain (rwn_allow_domains (rwp_network raw)) = Inr ds"
    "rmap_list resolve_budget_limit (rwbp_allow (rwp_budget raw)) = Inr ls"
    and "pm_paths pm = \<lparr>pp_read = rd, pp_write = wr\<rparr>"
    "pm_network pm = \<lparr>np_default = d, np_allow_domains = ds\<rparr>" "pm_budget pm = \<lparr>bp_allow = ls\<rparr>"
    unfolding resolve_permissions_def resolve_path_permissions_def resolve_network_def resolve_budget_def
    by (elim rbind_InrE) auto
  then show ?thesis
    using resolved_paths_inside rmap_list_list_all [of validate_domain _ ds domain_ok]
      rmap_list_list_all [of resolve_budget_limit _ ls limit_ok] domain_ok_validated limit_ok_resolved
    by simp
qed

lemma checked_path: "check_path f p = Inr u \<Longrightarrow>
    (case p of None \<Rightarrow> True | Some q \<Rightarrow> is_absolute q \<and> \<not> contains_parent_dir q)"
  by (auto simp: check_path_def reject_absolute_path_escape_def escapes_with_parent_def require_Inr
      split: option.splits)

lemma ssh_segment: "normalize_ssh_segment f v = Inr w \<Longrightarrow> w \<noteq> [] \<and> CHR ''@'' \<notin> set w \<and> \<not> has_control w"
  by (auto simp: normalize_ssh_segment_def Let_def split: if_splits)

lemma ssh_resolved: "resolve_ssh raw = Inr c \<Longrightarrow> ssh_ok c"
  unfolding resolve_ssh_def
  by (elim rbind_InrE) (drule ssh_segment, (drule checked_path)+, auto simp: ssh_ok_def require_Inr)

lemma sandbox_resolved: "resolve_sandbox raw = Inr sb \<Longrightarrow> sandbox_ok sb"
  by (auto simp: resolve_sandbox_def rbind_Inr_iff sandbox_ok_def Let_def ssh_resolved
      split: if_splits option.splits)

lemma approval_resolved: "resolve_approval raw = Inr c \<Longrightarrow> \<exists>n. ac_timeout_minutes c = Some n \<and> n \<noteq> 0"
  by (auto simp: resolve_approval_def split: if_splits option.splits)

lemma gateway_resolved:
  assumes "resolve_gateway canon base ws raw = Inr g"
  shows "(gw_egress_allow_domains g \<longrightarrow> gw_mode g = LocalListener) \<and> list_all (tool_ok ws) (gw_tools g)"
  using assms rmap_list_list_all [OF _ tool_ok_resolved]
  by (auto simp: resolve_gateway_def rbind_Inr_iff split: if_splits)

lemma resolve_task_parts:
  assumes "resolve_task uuid canon tf raw = Inr task"
  obtains base where "resolve_permissions canon base (rt_workspace_host_path task) (rw_permissions raw) =
      Inr (rt_permissions task)"
    and "resolve_gateway canon base (rt_workspace_host_path task) (rw_gateway raw) = Inr (rt_gateway task)"
    and "resolve_existing_workspace canon base (rw_workspace raw) = Inr (rt_workspace_host_path task)"
    and "resolve_agent (rw_agent raw) = Inr (rt_agent task)"
    and "resolve_sandbox (rw_sandbox raw) = Inr (rt_sandbox task)"
    and "resolve_approval (rw_approval raw) = Inr (rt_approval task)"
    and "rt_secrets task = resolve_secrets (rw_secrets raw)" and "\<not> rwse_expose_to_agent (rw_secrets raw)"
    and "trim (rt_goal task) \<noteq> []"
  using assms by (auto simp: resolve_task_def Let_def rbind_Inr_iff require_Inr split: option.splits)

text \<open>What a loaded task takes over from its file as it stands.\<close>

definition as_written :: "string \<Rightarrow> raw_task \<Rightarrow> resolved_task \<Rightarrow> bool" where
  "as_written uuid raw task \<longleftrightarrow>
     rt_id task = (case rw_id raw of Some i \<Rightarrow> i | None \<Rightarrow> ''task-'' @ uuid)
     \<and> rt_goal task = rw_goal raw \<and> ag_command (rt_agent task) = rwa_command (rw_agent raw)
     \<and> ag_args (rt_agent task) = rwa_args (rw_agent raw)"

lemma resolve_task_as_written:
  assumes "resolve_task uuid canon tf raw = Inr task"
  shows "as_written uuid raw task"
proof -
  from resolve_task_parts [OF assms] have a: "resolve_agent (rw_agent raw) = Inr (rt_agent task)" by metis
  have agent: "ag_command (rt_agent task) = rwa_command (rw_agent raw)
      \<and> ag_args (rt_agent task) = rwa_args (rw_agent raw)"
    using a [symmetric] by (auto simp: resolve_agent_def config_error_def split: if_splits)
  from assms have "rt_id task = (case rw_id raw of None \<Rightarrow> task_id_new uuid ''task'' | Some i \<Rightarrow> i)"
    "rt_goal task = rw_goal raw"
    by (auto simp: resolve_task_def Let_def rbind_Inr_iff)
  with agent show ?thesis by (cases "rw_id raw") (simp_all add: as_written_def task_id_new_def)
qed

lemma loaded_task_ok:
  assumes "load_task_file uuid read yaml canon cwd task_file = Inr task"
  shows "task_ok task"
proof -
  from assms obtain contents where "parse_task_file uuid yaml canon cwd task_file contents = Inr task"
    by (auto simp: load_task_file_def split: sum.splits)
  then obtain tf raw where "resolve_task uuid canon tf raw = Inr task"
    by (cases "yaml contents") (auto simp: parse_task_file_def rbind_Inr_iff)
  then obtain base where parts: "resolve_permissions canon base (rt_workspace_host_path task) (rw_permissions raw) =
      Inr (rt_permissions task)"
    "resolve_gateway canon base (rt_workspace_host_path task) (rw_gateway raw) = Inr (rt_gateway task)"
    "resolve_agent (rw_agent raw) = Inr (rt_agent task)" "resolve_sandbox (rw_sandbox raw) = Inr (rt_sandbox task)"
    "resolve_approval (rw_approval raw) = Inr (rt_approval task)"
    "rt_secrets task = resolve_secrets (rw_secrets raw)" "\<not> rwse_expose_to_agent (rw_secrets raw)"
    "trim (rt_goal task) \<noteq> []"
    by (rule resolve_task_parts)
  moreover from parts(3) have "trim (ag_command (rt_agent task)) \<noteq> []"
    unfolding resolve_agent_def by (metis agent_config.select_convs(2) config_error_not_Inr sum.inject(2))
  ultimately show ?thesis
    using permissions_resolved [OF parts(1)] gateway_resolved [OF parts(2)] sandbox_resolved [OF parts(4)]
      approval_resolved [OF parts(5)]
    by (simp add: task_ok_def resolve_secrets_def)
qed

text \<open>
  C8: A task file that loads is well formed. Whatever the file contains and the file system answers,
  a task that \<open>load_task_file\<close> returns has the id of the file, or \<open>task-\<close> with a fresh UUID when the
  file has none, and its goal, agent command and arguments as written; it has a goal and an agent
  command, exposes no secret to the agent, reads and writes only below its workspace (as far as the
  paths exist), has only valid lower-case domains, positive limits of
  normalised kinds and a positive approval timeout, uses SSH exactly when it is configured with safe
  values, opens egress only for the local listener, and every gateway tool has normalised names and a
  connector whose API base is an HTTPS URL without user, query and fragment and whose names are safe.
\<close>

theorem loaded_task_well_formed:
  assumes "load_task_file uuid read yaml canon cwd task_file = Inr task"
  shows "task_ok task \<and>
    (\<exists>contents raw. read task_file = Inr contents \<and> yaml contents = Inr raw \<and> as_written uuid raw task)"
proof -
  from assms obtain contents where c: "read task_file = Inr contents"
    "parse_task_file uuid yaml canon cwd task_file contents = Inr task"
    by (auto simp: load_task_file_def split: sum.splits)
  then obtain tf raw where "yaml contents = Inr raw" "resolve_task uuid canon tf raw = Inr task"
    by (cases "yaml contents") (auto simp: parse_task_file_def rbind_Inr_iff)
  with c(1) show ?thesis using loaded_task_ok [OF assms] resolve_task_as_written by blast
qed

theorem loaded_task_well_formed_witness:
  "\<exists>task. sample_load = Inr task \<and> task_ok task \<and> rt_id task = ''task-'' @ sample_uuid"
proof -
  obtain task where t: "sample_load = Inr task" using sample_loads unfolding is_ok_iff by blast
  from t loaded_task_well_formed [OF t] show ?thesis
    by (auto simp: as_written_def sample_raw_task_def)
qed

end
