(* ===== verification/Config_Gateway.thy ===== *)
theory Config_Gateway
  imports Config_Safety
begin

text \<open>
  What a loaded task file means to the policy engine and the gateway: listed domains are reachable,
  configured tools are registered, connectors stay below their HTTPS API base.
\<close>

section \<open>Tools of a loaded task\<close>

lemma loaded_tool_ok:
  assumes "task_ok task" and "tool \<in> set (gw_tools (rt_gateway task))"
  shows "tool_ok (rt_workspace_host_path task) tool"
  using assms by (auto simp: task_ok_def list_all_iff)

lemma normal_segment: "normal_name s \<Longrightarrow> normalize_required_segment f s = Inr s"
  by (simp add: segment_Inr normal_name_def)

lemma tool_key_resolved:
  "tool_ok ws tool \<Longrightarrow> tool_key_new (gt_protocol tool) (gt_tool tool) (gt_operation tool) =
     Inr (ToolKey (gt_protocol tool) (gt_tool tool) (gt_operation tool))"
  by (simp add: tool_key_new_def tool_ok_def normal_segment)

lemma rmap_list_total: "(\<And>x. x \<in> set xs \<Longrightarrow> f x = Inr (g x)) \<Longrightarrow> rmap_list f xs = Inr (map g xs)"
  by (induction xs) auto

lemma loaded_registry:
  assumes "task_ok task"
  shows "gateway_tool_registry task = Inr (registry_new
    (map (\<lambda>t. ToolKey (gt_protocol t) (gt_tool t) (gt_operation t)) (gw_tools (rt_gateway task))))"
  unfolding gateway_tool_registry_def
  using rmap_list_total [of "gw_tools (rt_gateway task)"
      "\<lambda>t. tool_key_new (gt_protocol t) (gt_tool t) (gt_operation t)"
      "\<lambda>t. ToolKey (gt_protocol t) (gt_tool t) (gt_operation t)"]
    tool_key_resolved [OF loaded_tool_ok [OF assms]]
  by simp

text \<open>
  Every tool of a task file that loads can be called under its name in any spelling. The registry of
  the task always builds; and when an action's protocol, tool and operation are those of a configured
  tool up to surrounding white space and ASCII case, the normalised action is registered, its
  protocol is supported, and the command line finds a configured tool of exactly that name for it.
\<close>

theorem loaded_tool_reachable:
  assumes "load_task_file uuid read yaml canon cwd task_file = Inr task"
    and "tool \<in> set (gw_tools (rt_gateway task))"
    and "norm_name (ta_protocol a) = gt_protocol tool" and "norm_name (ta_tool a) = gt_tool tool"
    and "norm_name (ta_operation a) = gt_operation tool"
    and "normalize_tool_action a = Inr action"
  shows "\<exists>registry found. gateway_tool_registry task = Inr registry
    \<and> registry_contains registry action = Inr True
    \<and> ta_protocol action \<in> set (gx_protocols (gateway_for task registry adapter))
    \<and> configured_tool task action = Some found \<and> gt_protocol found = gt_protocol tool
    \<and> gt_tool found = gt_tool tool \<and> gt_operation found = gt_operation tool"
proof -
  note ok = loaded_task_ok [OF assms(1)]
  note tool = loaded_tool_ok [OF ok assms(2)]
  from assms(3-6) have same: "ta_protocol action = gt_protocol tool" "ta_tool action = gt_tool tool"
    "ta_operation action = gt_operation tool"
    by (auto simp: normalize_tool_action_def rbind_Inr_iff segment_Inr)
  have normal: "normal_action action" by (rule normalize_tool_action_normal [OF assms(6)])
  have match: "\<not> tool_mismatch tool action" by (simp add: tool_mismatch_def same)
  then obtain found where found: "configured_tool task action = Some found"
    using assms(2) by (cases "configured_tool task action") (auto simp: configured_tool_def find_None_iff)
  from find_SomeD [OF found [unfolded configured_tool_def]]
  have "gt_protocol found = gt_protocol tool" "gt_tool found = gt_tool tool" "gt_operation found = gt_operation tool"
    by (auto simp: tool_mismatch_def same)
  moreover have "registry_contains (registry_new (map (\<lambda>t. ToolKey (gt_protocol t) (gt_tool t) (gt_operation t))
      (gw_tools (rt_gateway task)))) action = Inr True"
    using assms(2) by (auto simp: registry_contains_iff tool_key_of_normal [OF normal] same)
  moreover have "ta_protocol action \<in> set (gx_protocols (gateway_for task registry adapter))" for registry
  proof -
    from tool have "gt_protocol tool \<noteq> []" "to_lower (trim (gt_protocol tool)) = gt_protocol tool"
      by (auto simp: tool_ok_def normal_name_def norm_name_def)
    with assms(2) show ?thesis
      by (auto simp: gateway_for_def with_supported_protocols_def same image_iff intro!: bexI [of _ tool])
  qed
  ultimately show ?thesis using loaded_registry [OF ok] found by blast
qed

theorem loaded_tool_reachable_witness:
  "\<exists>task registry action. sample_load = Inr task \<and> gateway_tool_registry task = Inr registry
     \<and> registry_contains registry action = Inr True \<and> ta_tool action = ''github''"
proof -
  obtain task where t: "sample_load = Inr task" using sample_loads unfolding is_ok_iff by blast
  let ?a = "\<lparr>ta_protocol = '' mcp'', ta_tool = ''GitHub'', ta_operation = ''read_issue'', ta_parameters = []\<rparr>"
  let ?tool = "\<lparr>gt_protocol = ''mcp'', gt_tool = ''github'', gt_operation = ''read_issue'',
    gt_connector = GitHubRest default_github_api_base ''acme/app'', gt_secret_refs = []\<rparr>"
  let ?n = "\<lparr>ta_protocol = ''mcp'', ta_tool = ''github'', ta_operation = ''read_issue'', ta_parameters = []\<rparr>"
  have tools: "map_sum id (\<lambda>t. gw_tools (rt_gateway t)) sample_load = Inr [?tool]" by code_simp
  have tool: "?tool \<in> set (gw_tools (rt_gateway task))" using tools unfolding t by simp
  have names: "norm_name '' mcp'' = ''mcp''" "norm_name ''GitHub'' = ''github''"
    "norm_name ''read_issue'' = ''read_issue''" and n: "normalize_tool_action ?a = Inr ?n" by code_simp+
  from loaded_tool_reachable [OF t tool _ _ _ n, of "refusing_adapter (unsupported_adapter_new [] [])"] names
  obtain registry where "gateway_tool_registry task = Inr registry" "registry_contains registry ?n = Inr True"
    by auto
  with t show ?thesis by (intro exI [of _ task] exI [of _ registry] exI [of _ ?n]) simp
qed

section \<open>The network rules of a loaded task\<close>

text \<open>A host as a task file spells it: surrounding white space, final dots and ASCII case do not count.\<close>

definition domain_key :: "string \<Rightarrow> string" where
  "domain_key d = to_lower (trim_end_char CHR ''.'' (trim d))"

lemma domain_key_validated: "validate_domain d = Inr k \<Longrightarrow> k = domain_key d"
  by (auto simp: validate_domain_def domain_key_def Let_def split: if_splits)

lemma network_resolved:
  assumes "resolve_network raw = Inr np"
  shows "np_allow_domains np = map domain_key (rwn_allow_domains raw)"
proof -
  from assms have "rmap_list validate_domain (rwn_allow_domains raw) = Inr (np_allow_domains np)"
    by (auto simp: resolve_network_def elim!: rbind_InrE)
  then have "list_all2 (\<lambda>x y. validate_domain x = Inr y) (rwn_allow_domains raw) (np_allow_domains np)"
    by (simp add: rmap_list_Inr_iff)
  then have "list_all2 (\<lambda>x y. y = domain_key x) (rwn_allow_domains raw) (np_allow_domains np)"
    by (rule list.rel_mono_strong) (rule domain_key_validated)
  then show ?thesis by (induction rule: list_all2_induct) auto
qed

lemma permissions_network:
  "resolve_permissions canon base ws raw = Inr pm \<Longrightarrow> resolve_network (rwp_network raw) = Inr (pm_network pm)"
  unfolding resolve_permissions_def by (elim rbind_InrE) auto

lemma network_default:
  "resolve_network raw = Inr np \<Longrightarrow> network_default_of (rwn_default raw) = Inr (np_default np)"
  unfolding resolve_network_def by (elim rbind_InrE) auto

text \<open>
  C9: The policy engine decides network access exactly as the task file says. For a task that resolves,
  a host is allowed iff the file's default is \<open>allow\<close>, or the default is \<open>deny\<close> or missing and the
  host is, up to ASCII case, one of the listed domains; every other host is denied, and so is every
  host when the default is \<open>disabled\<close>.
\<close>

theorem network_as_the_file_says:
  assumes "resolve_task uuid canon task_file raw = Inr task"
  shows "\<exists>d. evaluate glob task (Network host port) = Inr d
    \<and> (is_allow d \<longleftrightarrow>
         (let n = rwp_network (rw_permissions raw) in
          rwn_default n = Some ''allow''
          \<or> (rwn_default n = None \<or> rwn_default n = Some ''deny'')
             \<and> to_lower host \<in> domain_key ` set (rwn_allow_domains n)))
    \<and> (is_allow d \<or> is_deny d)"
proof -
  let ?np = "pm_network (rt_permissions task)"
  obtain base where "resolve_permissions canon base (rt_workspace_host_path task) (rw_permissions raw) =
      Inr (rt_permissions task)"
    using resolve_task_parts [OF assms] by metis
  then have network: "resolve_network (rwp_network (rw_permissions raw)) = Inr ?np"
    by (rule permissions_network)
  from network_default [OF this] show ?thesis
    using network_resolved [OF network]
    by (auto simp: network_default_of_def Let_def
        split: if_splits option.splits network_default.splits)
qed

theorem network_as_the_file_says_witness:
  "\<exists>task d. sample_load = Inr task \<and> evaluate exact_glob task (Network ''API.github.com'' None) = Inr d \<and> is_allow d"
proof -
  let ?canon = "\<lambda>p. if p = ''/w/repo'' then CanonOk ''/w/repo'' else CanonNotFound ''none''"
  have "sample_load = resolve_task sample_uuid ?canon ''/w/task.yaml'' sample_raw_task" by code_simp
  with sample_loads obtain task where t: "sample_load = Inr task"
    and r: "resolve_task sample_uuid ?canon ''/w/task.yaml'' sample_raw_task = Inr task"
    unfolding is_ok_iff by metis
  have "domain_key '' Api.GitHub.com. '' = ''api.github.com''" "to_lower ''API.github.com'' = ''api.github.com''"
    by code_simp+
  moreover have "rwn_default (rwp_network (rw_permissions sample_raw_task)) = None"
    "rwn_allow_domains (rwp_network (rw_permissions sample_raw_task)) = ['' Api.GitHub.com. '']"
    by (simp_all add: sample_raw_task_def)
  ultimately obtain d where "evaluate exact_glob task (Network ''API.github.com'' None) = Inr d" "is_allow d"
    using network_as_the_file_says [OF r, of exact_glob "''API.github.com''" None]
    by (simp del: evaluate.simps) blast
  with t show ?thesis by blast
qed

lemma connector_path_keeps_spaces:
  "resolve_connector canon base ws (RawGitee ''https://gitee.com/api/v5'' ''acme/ app'')
     = Inr (Gitee ''https://gitee.com/api/v5'' ''acme/ app'')"
  by code_simp

section \<open>Where the connectors of a loaded task go\<close>

fun connector_base :: "gateway_connector_config \<Rightarrow> string option" where
  "connector_base (LocalFixture _ _) = None"
| "connector_base (Database _ _) = None"
| "connector_base (UnsupportedConnector _) = None"
| "connector_base (GitHubRest b _) = Some b"
| "connector_base (GitHubEnterpriseRest b _) = Some b"
| "connector_base (GitLab b _) = Some b"
| "connector_base (Jira b _) = Some b"
| "connector_base (Feishu b _) = Some b"
| "connector_base (WeCom b _) = Some b"
| "connector_base (DingTalk b _) = Some b"
| "connector_base (Gitee b _) = Some b"
| "connector_base (Coding b _) = Some b"
| "connector_base (InternalHttp b _) = Some b"
| "connector_base (SiemExport b _) = Some b"

text \<open>
  A call of an adapter that the task file accounts for: a request to the API base of a configured tool,
  with a credential that was bound; a fetch over HTTPS; anything else is not a request.
\<close>

fun accounted :: "resolved_task \<Rightarrow> adapter_call \<Rightarrow> bool" where
  "accounted task (AHttp r) =
     (\<exists>tool \<in> set (gw_tools (rt_gateway task)). \<exists>b. connector_base (gt_connector tool) = Some b
        \<and> api_base_ok b \<and> prefix (b @ ''/'') (wr_url r))"
| "accounted task (AFetch m u) = prefix ''https://'' (to_lower u)"
| "accounted task c = True"

lemma api_base_no_slash: "api_base_ok b \<Longrightarrow> trim_end_char CHR ''/'' b = b"
  by (cases b rule: rev_cases) (auto simp: api_base_ok_def trim_end_char_def)

lemma connector_base_ok: "connector_ok ws c \<Longrightarrow> connector_base c = Some b \<Longrightarrow> api_base_ok b"
  by (cases c) auto

lemma github_parts_base: "github_rest_connector_parts c = Some (b, r) \<Longrightarrow> connector_base c = Some b"
  by (cases c) auto

lemma github_accounted:
  assumes "task_ok task" and "tool \<in> set (gw_tools (rt_gateway task))"
  shows "list_all (accounted task) (snd (github_execute (ureq_github_client web b64) tool action secrets []))"
proof (rule list.pred_mono_strong [OF github_calls_ok])
  fix c
  assume "github_call_ok tool action secrets c"
  then obtain r b repo rest where c: "c = AHttp r" and parts: "github_rest_connector_parts (gt_connector tool) = Some (b, repo)"
    and url: "wr_url r = trim_end_char CHR ''/'' b @ ''/repos/'' @ repo @ ''/'' @ rest"
    by (auto simp: github_call_ok_def github_url_ok_def split: adapter_call.splits option.splits)
  note base = github_parts_base [OF parts]
  have ok: "api_base_ok b"
    using loaded_tool_ok [OF assms] base by (auto simp: tool_ok_def intro: connector_base_ok)
  with url have "prefix (b @ ''/'') (wr_url r)" by (simp add: api_base_no_slash)
  with base ok assms(2) show "accounted task c" unfolding c by auto
qed

lemma scope_base: "connector_scope c = Some sc \<Longrightarrow> \<exists>b t. connector_base c = Some b \<and> sc = b @ ''/'' @ t"
  by (cases c) auto

lemma enterprise_accounted:
  assumes "task_ok task" and "tool \<in> set (gw_tools (rt_gateway task))"
  shows "appends (accounted task) (enterprise_execute parse shown (ureq_enterprise_execute web) tool action secrets)"
proof -
  have send: "appends (accounted task) (ureq_enterprise_execute web request)"
    if built: "enterprise_http_request parse (gt_connector tool) action token = Inr request" for request token
  proof -
    from enterprise_request_ok [OF built] obtain sc rest where "connector_scope (gt_connector tool) = Some sc"
      and url: "er_url request = sc @ rest" by (auto simp: scoped_request_def)
    with scope_base obtain b t where base: "connector_base (gt_connector tool) = Some b" and "sc = b @ ''/'' @ t"
      by blast
    with url have "prefix (b @ ''/'') (er_url request)" by simp
    moreover have "api_base_ok b"
      using loaded_tool_ok [OF assms] base by (auto simp: tool_ok_def intro: connector_base_ok)
    ultimately show ?thesis
      unfolding ureq_enterprise_execute_def Let_def using assms(2) base
      by (intro appends_if append_rules appends_acall) auto
  qed
  show ?thesis
    unfolding enterprise_execute_def
    by (intro appends_lift append_rules appends_if send) auto
qed

lemma database_accounted:
  "list_all (accounted task) (snd (database_execute shown (postgres_execute pg) tool action secrets []))"
  by (rule list.pred_mono_strong [OF database_calls_ok]) (auto simp: checked_statement_def)

lemma egress_accounted: "appends (accounted task) (egress_execute (ureq_egress_fetch fetch) action)"
proof -
  have "prefix ''https://'' (to_lower (ed_url d))" if "gateway_egress_destination action = Inr d" for d
  proof -
    from that obtain m url where "parse_gateway_egress_url m url = Inr d"
      by (auto simp: gateway_egress_destination_def Let_def elim!: rbind_InrE split: if_splits)
    from parse_egress_parts(2,3) [OF this] show ?thesis by simp
  qed
  then show ?thesis
    unfolding egress_execute_def ureq_egress_fetch_def
    by (intro appends_if appends_lift append_rules) auto
qed

lemma fixture_accounted: "appends (accounted task) (fixture_execute files tool action ctx)"
proof -
  have "appends (accounted task) (execute_github_create_pr files p action ctx)" for p
    unfolding execute_github_create_pr_def Let_def
    by (auto intro!: append_rules split: option.split)
  then show ?thesis
    unfolding fixture_execute_def
    by (auto intro!: append_rules split: gateway_connector_config.split)
qed

lemma appends_logged: "appends p m \<Longrightarrow> list_all p (snd (m []))"
  using appendsD [of p m "[]"] by simp

lemma connector_accounted:
  assumes "task_ok task" and "tool \<in> set (gw_tools (rt_gateway task))"
  shows "list_all (accounted task)
    (snd (tad_execute (connector_adapter x tool (gt_connector tool)) a ctx bs []))"
proof (cases "gt_connector tool")
  case (LocalFixture kind p)
  then show ?thesis by (simp add: fixture_adapter_def appends_logged [OF fixture_accounted])
next
  case (UnsupportedConnector kind)
  then show ?thesis by (simp add: refusing_adapter_def slift_def)
qed (use assms in \<open>simp_all add: github_adapter_def enterprise_adapter_def database_adapter_def
      github_accounted database_accounted appends_logged [OF enterprise_accounted]\<close>)



section \<open>Paths that do not exist yet\<close>

text \<open>
  The containment check of the path permissions does not follow links for paths that do not exist.
  When the file system has no such file, a path below the workspace is accepted as written: also one
  below a link whose target, here the canonical path of its directory, lies outside the workspace.
\<close>

theorem missing_path_not_resolved:
  assumes "is_absolute p" and "\<not> escapes_with_parent p" and "path_starts_with p ws"
    and "canon p = CanonNotFound err" and "path_parent p = Some link"
    and "canon link = CanonOk outside" and "\<not> path_starts_with outside ws"
  shows "resolve_path canon base ws p = Inr p"
  using assms by (simp add: resolve_path_def validate_allowed_path_def resolve_relative_path_def)

text \<open>A file system with the workspace \<open>/repo\<close> and the link \<open>/repo/out\<close> to \<open>/etc\<close>.\<close>

definition linked_files :: file_system where
  "linked_files p =
     (if p = ''/repo'' \<or> p = ''/repo/'' then CanonOk ''/repo''
      else if p = ''/repo/out'' then CanonOk ''/etc''
      else CanonNotFound ''no such file'')"

theorem missing_path_not_resolved_witness:
  "resolve_path linked_files ''/'' ''/repo'' ''/repo/out/cron.d'' = Inr ''/repo/out/cron.d''
   \<and> linked_files ''/repo/out'' = CanonOk ''/etc''"
proof
  show "resolve_path linked_files ''/'' ''/repo'' ''/repo/out/cron.d'' = Inr ''/repo/out/cron.d''"
    by (rule missing_path_not_resolved [where err = "''no such file''" and link = "''/repo/out''" and outside = "''/etc''"];
        code_simp)
qed code_simp


end
