(* ===== verification/Evidence_Store.thy ===== *)
theory Evidence_Store
  imports Team_State
begin

text \<open>
  The local evidence store (\<open>LocalTaskEvidenceStore\<close> of \<open>crates/taskfence-state/src/lib.rs\<close>):
  summaries, reviews, comparisons, replay and migration plans and the artifact manifest of the
  directories under \<open>.taskfence/tasks\<close>. The file system and serde are the answers of one
  record of functions; nothing relates two answers, so another process may change the
  directory between any two calls. The index file is the only file that the store writes; it
  is the state of \<open>refresh_index\<close> and \<open>read_index\<close>.
\<close>

section \<open>Evidence records\<close>

record task_log_file =
  lf_stream :: log_stream
  lf_path :: path
  lf_contents :: string

record task_logs =
  tl_task_dir :: path
  tl_entries :: "task_log_file list"

record task_report =
  tre_path :: path
  tre_contents :: string

record task_diff =
  td_path :: path
  td_contents :: string

record task_events =
  tev_task_dir :: path
  tev_path :: path
  tev_events :: "audit_event list"

record task_inputs =
  ti_task_dir :: path
  ti_path :: path
  ti_task :: resolved_task
  ti_contents :: string

datatype task_artifact_kind = EvidenceFile | ArtifactFile

record task_artifact_file =
  taf_kind :: task_artifact_kind
  taf_relative_path :: path
  taf_path :: path
  taf_size_bytes :: u64

record task_artifacts =
  tas_task_dir :: path
  tas_files :: "task_artifact_file list"

datatype local_state_index_source = StructuredEvidence

record local_state_task_record =
  lr_task_id :: task_id
  lr_status :: "task_status option"
  lr_goal :: "string option"
  lr_task_dir :: path
  lr_resolved_task_path :: "path option"
  lr_events_path :: "path option"
  lr_report_path :: "path option"
  lr_diff_path :: "path option"
  lr_stdout_path :: "path option"
  lr_stderr_path :: "path option"
  lr_artifact_count :: nat
  lr_warnings :: "string list"

record local_state_index =
  li_workspace :: path
  li_source :: local_state_index_source
  li_tasks :: "local_state_task_record list"
  li_warnings :: "string list"

datatype local_artifact_route_kind = RouteEvidence | RouteArtifact

record local_artifact_route =
  lar_task_id :: task_id
  lar_kind :: local_artifact_route_kind
  lar_relative_path :: path
  lar_path :: path
  lar_size_bytes :: u64

record task_summary =
  ts_task_id :: task_id
  ts_task_dir :: path
  ts_status :: "task_status option"
  ts_goal :: "string option"
  ts_has_report :: bool
  ts_has_diff :: bool
  ts_has_stdout :: bool
  ts_has_stderr :: bool
  ts_warnings :: "string list"

record local_review_index =
  lri_workspace :: path
  lri_tasks :: "task_summary list"

record local_task_comparison =
  cmp_left :: task_summary
  cmp_right :: task_summary
  cmp_differing_fields :: "string list"

record replay_plan =
  rp_task_id :: task_id
  rp_source_task_file :: "path option"
  rp_resolved_task_path :: "path option"
  rp_event_log_path :: "path option"
  rp_artifact_dir :: path
  rp_last_status :: "task_status option"
  rp_can_replay :: bool
  rp_deterministic :: bool
  rp_blockers :: "string list"
  rp_limitations :: "string list"

record local_task_review =
  lv_summary :: task_summary
  lv_inputs :: "task_inputs option"
  lv_artifacts :: "task_artifacts option"
  lv_events :: "task_events option"
  lv_logs :: "task_logs option"
  lv_diff :: "task_diff option"
  lv_report :: "task_report option"
  lv_replay :: replay_plan
  lv_warnings :: "string list"

record local_to_team_migration_plan =
  mg_workspace :: path
  mg_organization :: string
  mg_tasks :: "task_id list"
  mg_approval_records_source :: path
  mg_artifact_roots :: "path list"
  mg_warnings :: "string list"

section \<open>The file system\<close>

text \<open>
  What \<open>fs::metadata\<close> and \<open>fs::symlink_metadata\<close> answer (the first never answers
  \<open>IsLink\<close> for an existing target), and the directory entries of \<open>fs::read_dir\<close>: each may fail, has a type
  that may fail to be read, and a name that may not be UTF-8 (\<open>Inl\<close> its debug text).
\<close>

datatype stat = IsDir | IsFile u64 | IsLink | IsSpecial

datatype stat_answer = Stat stat | StatMissing | StatFailed string

datatype read_answer = ReadMissing | ReadFailed string | ReadText string

record dir_entry =
  de_type :: "string + stat"
  de_name :: "string + string"

record evidence_files =
  ev_metadata :: "path \<Rightarrow> stat_answer"
  ev_symlink_metadata :: "path \<Rightarrow> stat_answer"
  ev_read :: "path \<Rightarrow> read_answer"
  ev_open :: "path \<Rightarrow> opened_file"
  ev_read_dir :: "path \<Rightarrow> string + (string + dir_entry) list"
  ev_canonical :: "path \<Rightarrow> canonical"
  ev_parse_task :: "string \<Rightarrow> string + resolved_task"
  ev_parse_event :: "string \<Rightarrow> string + audit_event"
  ev_missing :: string

definition is_file :: "evidence_files \<Rightarrow> path \<Rightarrow> bool" where
  "is_file ev p = (case ev_metadata ev p of Stat (IsFile _) \<Rightarrow> True | _ \<Rightarrow> False)"

text \<open>\<open>read_to_string(..).map_err(..)\<close>: every failure with its text.\<close>

definition read_or :: "evidence_files \<Rightarrow> path \<Rightarrow> string \<Rightarrow> string result" where
  "read_or ev p message =
     (case ev_read ev p of
        ReadText contents \<Rightarrow> Inr contents
      | ReadMissing \<Rightarrow> Inl (StateErr (message @ '': '' @ ev_missing ev))
      | ReadFailed err \<Rightarrow> Inl (StateErr (message @ '': '' @ err)))"

section \<open>Task directories and summaries\<close>

definition tasks_dir :: "path \<Rightarrow> path" where
  "tasks_dir workspace = path_join (path_join workspace ''.taskfence'') ''tasks''"

definition store_task_dir :: "path \<Rightarrow> task_id \<Rightarrow> path result" where
  "store_task_dir workspace tid =
     rbind (validate_task_id_component tid) (\<lambda>_. Inr (path_join (tasks_dir workspace) tid))"

definition ensure_task_dir :: "evidence_files \<Rightarrow> task_id \<Rightarrow> path \<Rightarrow> unit result" where
  "ensure_task_dir ev tid dir =
     (case ev_metadata ev dir of
        Stat IsDir \<Rightarrow> Inr ()
      | Stat _ \<Rightarrow>
          Inl (StateErr (''task evidence path is not a directory for task '' @ tid @ '': '' @ dir))
      | StatMissing \<Rightarrow>
          Inl (StateErr (''task evidence directory not found for task '' @ tid @ '': '' @ dir))
      | StatFailed err \<Rightarrow>
          Inl (StateErr (''failed to access task evidence directory for task '' @ tid @ '' at '' @
            dir @ '': '' @ err)))"

definition existing_task_dir :: "evidence_files \<Rightarrow> path \<Rightarrow> task_id \<Rightarrow> path result" where
  "existing_task_dir ev workspace tid =
     rbind (store_task_dir workspace tid) (\<lambda>dir.
     rbind (ensure_task_dir ev tid dir) (\<lambda>_. Inr dir))"

definition read_task_goal ::
  "evidence_files \<Rightarrow> task_id \<Rightarrow> path \<Rightarrow> string list \<Rightarrow> string option \<times> string list" where
  "read_task_goal ev tid dir warnings =
     (case ev_read ev (path_join dir ''task.resolved.json'') of
        ReadMissing \<Rightarrow> (None, warnings)
      | ReadFailed err \<Rightarrow> (None, warnings @ [''failed to read task.resolved.json: '' @ err])
      | ReadText contents \<Rightarrow>
          (case ev_parse_task ev contents of
             Inr task \<Rightarrow>
               (Some (rt_goal task),
                if rt_id task \<noteq> tid
                then warnings @ [''task.resolved.json task id '' @ rt_id task @
                       '' does not match directory '' @ tid]
                else warnings)
           | Inl err \<Rightarrow> (None, warnings @ [''failed to parse task.resolved.json: '' @ err])))"

definition read_status ::
  "evidence_files \<Rightarrow> task_id \<Rightarrow> path \<Rightarrow> string list \<Rightarrow> task_status option \<times> string list" where
  "read_status ev tid dir warnings =
     read_latest_task_status (ev_parse_event ev) tid (ev_open ev (path_join dir ''events.jsonl''))
       warnings"

definition summarize_task :: "evidence_files \<Rightarrow> task_id \<Rightarrow> path \<Rightarrow> task_summary" where
  "summarize_task ev tid dir =
     (let (goal, goal_warnings) = read_task_goal ev tid dir [];
          (status, warnings) = read_status ev tid dir goal_warnings
      in \<lparr>ts_task_id = tid, ts_task_dir = dir, ts_status = status, ts_goal = goal,
          ts_has_report = is_file ev (path_join dir ''report.md''),
          ts_has_diff = is_file ev (path_join dir ''diff.patch''),
          ts_has_stdout = is_file ev (path_join dir ''stdout.log''),
          ts_has_stderr = is_file ev (path_join dir ''stderr.log''),
          ts_warnings = warnings\<rparr>)"

definition read_task_summary :: "evidence_files \<Rightarrow> path \<Rightarrow> task_id \<Rightarrow> task_summary result" where
  "read_task_summary ev workspace tid =
     rbind (existing_task_dir ev workspace tid) (\<lambda>dir. Inr (summarize_task ev tid dir))"

text \<open>
  One entry of \<open>list_tasks\<close>: skipped unless it is a directory itself; the path of an entry with
  a UTF-8 name below a UTF-8 directory is UTF-8, so its conversion cannot fail.
\<close>

definition evidence_entry :: "evidence_files \<Rightarrow> path \<Rightarrow> string + dir_entry \<Rightarrow> task_summary option result" where
  "evidence_entry ev dir entry =
     (case entry of
        Inl err \<Rightarrow>
          Inl (StateErr (''failed to read task evidence entry under '' @ dir @ '': '' @ err))
      | Inr e \<Rightarrow>
          (case de_type e of
             Inl err \<Rightarrow>
               Inl (StateErr (''failed to inspect task evidence entry under '' @ dir @ '': '' @ err))
           | Inr IsDir \<Rightarrow>
               (case de_name e of
                  Inl shown \<Rightarrow>
                    Inl (StateErr (''task evidence directory name is not valid UTF-8: '' @ shown))
                | Inr tid \<Rightarrow>
                    rbind (validate_task_id_component tid) (\<lambda>_.
                      Inr (Some (summarize_task ev tid (path_join dir tid)))))
           | Inr _ \<Rightarrow> Inr None))"

definition somes :: "'a option list \<Rightarrow> 'a list" where
  "somes xs = concat (map (\<lambda>x. case x of None \<Rightarrow> [] | Some y \<Rightarrow> [y]) xs)"

definition list_tasks :: "evidence_files \<Rightarrow> path \<Rightarrow> task_summary list result" where
  "list_tasks ev workspace =
     (let dir = tasks_dir workspace
      in case ev_metadata ev dir of
           StatMissing \<Rightarrow> Inr []
         | StatFailed err \<Rightarrow>
             Inl (StateErr (''failed to access task evidence root '' @ dir @ '': '' @ err))
         | Stat IsDir \<Rightarrow>
             (case ev_read_dir ev dir of
                Inl err \<Rightarrow>
                  Inl (StateErr (''failed to read task evidence root '' @ dir @ '': '' @ err))
              | Inr entries \<Rightarrow>
                  rbind (rmap_list (evidence_entry ev dir) entries) (\<lambda>found.
                    Inr (sort_key ts_task_id (somes found))))
         | Stat _ \<Rightarrow> Inl (StateErr (''task evidence root is not a directory: '' @ dir)))"

definition review_index :: "evidence_files \<Rightarrow> path \<Rightarrow> local_review_index result" where
  "review_index ev workspace =
     rbind (list_tasks ev workspace) (\<lambda>tasks.
       Inr \<lparr>lri_workspace = workspace, lri_tasks = tasks\<rparr>)"

definition artifact_flags_for_summary :: "task_summary \<Rightarrow> string" where
  "artifact_flags_for_summary t =
     (let flags = (if ts_has_report t then [''report''] else []) @
                  (if ts_has_diff t then [''diff''] else []) @
                  (if ts_has_stdout t then [''stdout''] else []) @
                  (if ts_has_stderr t then [''stderr''] else [])
      in if flags = [] then ''-'' else str_join '','' flags)"

definition compare_tasks ::
  "evidence_files \<Rightarrow> path \<Rightarrow> task_id \<Rightarrow> task_id \<Rightarrow> local_task_comparison result" where
  "compare_tasks ev workspace left_id right_id =
     rbind (read_task_summary ev workspace left_id) (\<lambda>left.
     rbind (read_task_summary ev workspace right_id) (\<lambda>right.
       Inr \<lparr>cmp_left = left, cmp_right = right,
            cmp_differing_fields =
              (if ts_status left \<noteq> ts_status right then [''status''] else []) @
              (if ts_goal left \<noteq> ts_goal right then [''goal''] else []) @
              (if artifact_flags_for_summary left \<noteq> artifact_flags_for_summary right
               then [''artifacts''] else []) @
              (if length (ts_warnings left) \<noteq> length (ts_warnings right)
               then [''warnings''] else [])\<rparr>))"


section \<open>Reading the evidence of a task\<close>

definition read_inputs :: "evidence_files \<Rightarrow> path \<Rightarrow> task_id \<Rightarrow> task_inputs result" where
  "read_inputs ev workspace tid =
     rbind (existing_task_dir ev workspace tid) (\<lambda>dir.
     let p = path_join dir ''task.resolved.json''
     in rbind (read_or ev p (''resolved task input not found for task '' @ tid @ '' at '' @ p))
          (\<lambda>contents.
        case ev_parse_task ev contents of
          Inl err \<Rightarrow>
            Inl (StateErr (''failed to parse resolved task input for task '' @ tid @ '' at '' @ p @
              '': '' @ err))
        | Inr task \<Rightarrow>
            if rt_id task \<noteq> tid
            then Inl (StateErr (''task.resolved.json task id '' @ rt_id task @
                   '' does not match requested '' @ tid))
            else Inr \<lparr>ti_task_dir = dir, ti_path = p, ti_task = task, ti_contents = contents\<rparr>))"

definition read_events :: "evidence_files \<Rightarrow> path \<Rightarrow> task_id \<Rightarrow> task_events result" where
  "read_events ev workspace tid =
     rbind (existing_task_dir ev workspace tid) (\<lambda>dir.
     let p = path_join dir ''events.jsonl'';
         missing = (\<lambda>err. Inl (StateErr (''events artifact not found for task '' @ tid @ '' at '' @ p @
                      '': '' @ err)))
     in case ev_open ev p of
          FileMissing \<Rightarrow> missing (ev_missing ev)
        | FileError err \<Rightarrow> missing err
        | FileLines ls \<Rightarrow>
            rbind (read_events_file (ev_parse_event ev) tid p ls) (\<lambda>events.
              Inr \<lparr>tev_task_dir = dir, tev_path = p, tev_events = events\<rparr>))"

definition read_optional_log ::
  "evidence_files \<Rightarrow> path \<Rightarrow> log_stream \<Rightarrow> string \<Rightarrow> task_log_file list result" where
  "read_optional_log ev dir stream name =
     (let p = path_join dir name
      in case ev_read ev p of
           ReadText contents \<Rightarrow> Inr [\<lparr>lf_stream = stream, lf_path = p, lf_contents = contents\<rparr>]
         | ReadMissing \<Rightarrow> Inr []
         | ReadFailed err \<Rightarrow> Inl (StateErr (''failed to read task log '' @ p @ '': '' @ err)))"

definition read_logs :: "evidence_files \<Rightarrow> path \<Rightarrow> task_id \<Rightarrow> task_logs result" where
  "read_logs ev workspace tid =
     rbind (existing_task_dir ev workspace tid) (\<lambda>dir.
     rbind (read_optional_log ev dir Stdout ''stdout.log'') (\<lambda>out.
     rbind (read_optional_log ev dir Stderr ''stderr.log'') (\<lambda>err.
       if out @ err = []
       then Inl (StateErr (''no captured stdout or stderr logs found for task '' @ tid @ '' under '' @ dir))
       else Inr \<lparr>tl_task_dir = dir, tl_entries = out @ err\<rparr>)))"

definition read_report :: "evidence_files \<Rightarrow> path \<Rightarrow> task_id \<Rightarrow> task_report result" where
  "read_report ev workspace tid =
     rbind (existing_task_dir ev workspace tid) (\<lambda>dir.
     let p = path_join dir ''report.md''
     in rbind (read_or ev p (''report not found for task '' @ tid @ '' at '' @ p)) (\<lambda>contents.
          Inr \<lparr>tre_path = p, tre_contents = contents\<rparr>))"

definition read_diff :: "evidence_files \<Rightarrow> path \<Rightarrow> task_id \<Rightarrow> task_diff result" where
  "read_diff ev workspace tid =
     rbind (existing_task_dir ev workspace tid) (\<lambda>dir.
     let p = path_join dir ''diff.patch''
     in rbind (read_or ev p (''diff artifact not found for task '' @ tid @ '' at '' @ p)) (\<lambda>contents.
          Inr \<lparr>td_path = p, td_contents = contents\<rparr>))"

section \<open>The artifact manifest\<close>

definition push_regular_file ::
  "evidence_files \<Rightarrow> task_artifact_kind \<Rightarrow> path \<Rightarrow> path \<Rightarrow> task_artifact_file list result" where
  "push_regular_file ev kind relative_path p =
     (case ev_symlink_metadata ev p of
        Stat IsLink \<Rightarrow>
          Inl (StateErr (''task artifact must be a regular non-symlink file: '' @ p))
      | Stat (IsFile len) \<Rightarrow>
          Inr [\<lparr>taf_kind = kind, taf_relative_path = relative_path, taf_path = p,
                taf_size_bytes = len\<rparr>]
      | Stat _ \<Rightarrow> Inr []
      | StatMissing \<Rightarrow> Inr []
      | StatFailed err \<Rightarrow> Inl (StateErr (''failed to inspect task artifact '' @ p @ '': '' @ err)))"

definition validate_artifact_file_name :: "string \<Rightarrow> unit result" where
  "validate_artifact_file_name v =
     (if v = [] \<or> v = ''.'' \<or> v = ''..'' \<or> CHR ''/'' \<in> set v \<or> CHR 0x5C \<in> set v \<or> has_control v
      then Inl (StateErr (''artifact file name is not a safe path component: '' @ debug_str v))
      else Inr ())"

definition artifact_entry ::
  "evidence_files \<Rightarrow> path \<Rightarrow> string + dir_entry \<Rightarrow> task_artifact_file list result" where
  "artifact_entry ev dir entry =
     (case entry of
        Inl err \<Rightarrow>
          Inl (StateErr (''failed to read task artifact entry under '' @ dir @ '': '' @ err))
      | Inr e \<Rightarrow>
          (case de_name e of
             Inl shown \<Rightarrow>
               Inl (StateErr (''task artifact file name is not valid UTF-8: '' @ shown))
           | Inr name \<Rightarrow>
               rbind (validate_artifact_file_name name) (\<lambda>_.
                 push_regular_file ev ArtifactFile (path_join ''artifacts'' name)
                   (path_join dir name))))"

definition read_artifact_dir_files :: "evidence_files \<Rightarrow> path \<Rightarrow> task_artifact_file list result" where
  "read_artifact_dir_files ev dir =
     (case ev_read_dir ev dir of
        Inl err \<Rightarrow>
          Inl (StateErr (''failed to read task artifact directory '' @ dir @ '': '' @ err))
      | Inr entries \<Rightarrow>
          rbind (rmap_list (artifact_entry ev dir) entries) (\<lambda>found. Inr (concat found)))"

definition evidence_file_names :: "string list" where
  "evidence_file_names =
     [''task.resolved.json'', ''events.jsonl'', ''stdout.log'', ''stderr.log'', ''diff.patch'',
      ''report.md'']"

fun kind_label :: "task_artifact_kind \<Rightarrow> string" where
  "kind_label EvidenceFile = ''evidence''"
| "kind_label ArtifactFile = ''artifact''"

definition artifact_sort_key :: "task_artifact_file \<Rightarrow> path_component list \<times> string" where
  "artifact_sort_key f = (components (taf_relative_path f), kind_label (taf_kind f))"

definition read_artifacts :: "evidence_files \<Rightarrow> path \<Rightarrow> task_id \<Rightarrow> task_artifacts result" where
  "read_artifacts ev workspace tid =
     rbind (existing_task_dir ev workspace tid) (\<lambda>dir.
     rbind (rmap_list (\<lambda>name. push_regular_file ev EvidenceFile name (path_join dir name))
              evidence_file_names) (\<lambda>evidence.
     rbind (let artifacts_dir = path_join dir ''artifacts''
            in case ev_symlink_metadata ev artifacts_dir of
                 Stat IsDir \<Rightarrow> read_artifact_dir_files ev artifacts_dir
               | Stat _ \<Rightarrow>
                   Inl (StateErr (''task artifact path is not a directory: '' @ artifacts_dir))
               | StatMissing \<Rightarrow> Inr []
               | StatFailed err \<Rightarrow>
                   Inl (StateErr (''failed to access task artifact directory '' @ artifacts_dir @
                     '': '' @ err))) (\<lambda>artifacts.
       Inr \<lparr>tas_task_dir = dir,
            tas_files = sort_key artifact_sort_key (concat evidence @ artifacts)\<rparr>)))"

section \<open>Artifact routes\<close>

text \<open>A component that may stand in a relative artifact path.\<close>

fun routable :: "path_component \<Rightarrow> bool" where
  "routable (Normal v) \<longleftrightarrow> v \<noteq> [] \<and> v \<noteq> ''.'' \<and> v \<noteq> ''..'' \<and> \<not> has_control v"
| "routable _ \<longleftrightarrow> False"

definition reject_parent_path :: "string \<Rightarrow> path \<Rightarrow> unit result" where
  "reject_parent_path field p =
     (if p = [] \<or> is_absolute p \<or> contains_parent_dir p \<or> \<not> list_all routable (components p)
      then Inl (StateErr (field @ '' must be a safe relative artifact path: '' @ p))
      else Inr ())"

definition validate_existing_artifact_route ::
  "evidence_files \<Rightarrow> path \<Rightarrow> task_artifact_file \<Rightarrow> unit result" where
  "validate_existing_artifact_route ev dir f =
     rbind (reject_parent_path ''artifact route'' (taf_relative_path f)) (\<lambda>_.
     rbind (canonical_utf8 (ev_canonical ev) dir) (\<lambda>canonical_dir.
     rbind (canonical_utf8 (ev_canonical ev) (taf_path f)) (\<lambda>canonical_file.
       if \<not> path_starts_with canonical_file canonical_dir
       then Inl (StateErr (''artifact route '' @ taf_relative_path f @
              '' escapes task evidence directory '' @ canonical_dir))
       else
         let not_regular = Inl (StateErr (
               ''artifact route must resolve to a regular non-symlink file: '' @ taf_path f));
             inspect = (\<lambda>err. Inl (StateErr (
               ''failed to inspect artifact route '' @ taf_path f @ '': '' @ err)))
         in case ev_symlink_metadata ev (taf_path f) of
              Stat (IsFile _) \<Rightarrow> Inr ()
            | Stat _ \<Rightarrow> not_regular
            | StatMissing \<Rightarrow> inspect (ev_missing ev)
            | StatFailed err \<Rightarrow> inspect err)))"

fun route_kind :: "task_artifact_kind \<Rightarrow> local_artifact_route_kind" where
  "route_kind EvidenceFile = RouteEvidence"
| "route_kind ArtifactFile = RouteArtifact"

definition artifact_route ::
  "evidence_files \<Rightarrow> path \<Rightarrow> task_id \<Rightarrow> path \<Rightarrow> local_artifact_route result" where
  "artifact_route ev workspace tid relative_path =
     rbind (reject_parent_path ''artifact route'' relative_path) (\<lambda>_.
     rbind (read_artifacts ev workspace tid) (\<lambda>artifacts.
       case find (\<lambda>f. path_eq (taf_relative_path f) relative_path) (tas_files artifacts) of
         None \<Rightarrow>
           Inl (StateErr (''artifact route '' @ relative_path @ '' was not found for task '' @ tid))
       | Some f \<Rightarrow>
           rbind (validate_existing_artifact_route ev (tas_task_dir artifacts) f) (\<lambda>_.
             Inr \<lparr>lar_task_id = tid, lar_kind = route_kind (taf_kind f),
                  lar_relative_path = taf_relative_path f, lar_path = taf_path f,
                  lar_size_bytes = taf_size_bytes f\<rparr>)))"

section \<open>The local index\<close>

definition evidence_path :: "task_artifact_file list \<Rightarrow> string \<Rightarrow> path option" where
  "evidence_path fs name =
     map_option taf_path
       (find (\<lambda>f. taf_kind f = EvidenceFile \<and> taf_relative_path f = name) fs)"

definition local_state_task_record_of ::
  "evidence_files \<Rightarrow> path \<Rightarrow> task_summary \<Rightarrow> local_state_task_record result" where
  "local_state_task_record_of ev workspace s =
     rbind (read_artifacts ev workspace (ts_task_id s)) (\<lambda>artifacts.
       let path_for = evidence_path (tas_files artifacts)
       in Inr \<lparr>lr_task_id = ts_task_id s, lr_status = ts_status s, lr_goal = ts_goal s,
               lr_task_dir = ts_task_dir s,
               lr_resolved_task_path = path_for ''task.resolved.json'',
               lr_events_path = path_for ''events.jsonl'',
               lr_report_path = path_for ''report.md'',
               lr_diff_path = path_for ''diff.patch'',
               lr_stdout_path = path_for ''stdout.log'',
               lr_stderr_path = path_for ''stderr.log'',
               lr_artifact_count =
                 length (filter (\<lambda>f. taf_kind f = ArtifactFile) (tas_files artifacts)),
               lr_warnings = ts_warnings s\<rparr>)"

fun index_records ::
  "(task_summary \<Rightarrow> local_state_task_record result) \<Rightarrow> task_summary list \<Rightarrow>
   local_state_task_record list \<times> string list" where
  "index_records f [] = ([], [])"
| "index_records f (s # ss) =
     (let (records, warnings) = index_records f ss
      in case f s of
           Inr r \<Rightarrow> (r # records, warnings)
         | Inl err \<Rightarrow>
             (records, (''task '' @ ts_task_id s @ '' index record unavailable: '' @
                error_display err) # warnings))"

definition build_index :: "evidence_files \<Rightarrow> path \<Rightarrow> local_state_index result" where
  "build_index ev workspace =
     rbind (list_tasks ev workspace) (\<lambda>summaries.
       let (records, warnings) = index_records (local_state_task_record_of ev workspace) summaries
       in Inr \<lparr>li_workspace = workspace, li_source = StructuredEvidence, li_tasks = records,
               li_warnings = warnings\<rparr>)"

definition local_index_path :: "path \<Rightarrow> path" where
  "local_index_path workspace =
     path_join (path_join (path_join workspace ''.taskfence'') ''state'') ''local-index.json''"

text \<open>
  The state is what reading the index file gives. A failed write leaves what the file system
  says; serde's printer and parser of an index are parameters.
\<close>

type_synonym index_file = "string + string"

record index_io =
  ix_mkdir :: "path \<Rightarrow> string + unit"
  ix_pretty :: "local_state_index \<Rightarrow> string + string"
  ix_parse :: "string \<Rightarrow> string + local_state_index"
  ix_write :: "path \<Rightarrow> string \<Rightarrow> (string \<times> index_file) option"

definition ix_make_parent :: "index_io \<Rightarrow> path \<Rightarrow> unit result" where
  "ix_make_parent ix p =
     (case path_parent p of
        None \<Rightarrow> Inr ()
      | Some parent \<Rightarrow>
          (case ix_mkdir ix parent of
             Inl err \<Rightarrow>
               Inl (StateErr (''failed to create local state index directory '' @ parent @ '': '' @ err))
           | Inr _ \<Rightarrow> Inr ()))"

definition refresh_index ::
  "evidence_files \<Rightarrow> index_io \<Rightarrow> path \<Rightarrow> index_file \<Rightarrow> local_state_index result \<times> index_file" where
  "refresh_index ev ix workspace file =
     (let p = local_index_path workspace
      in case rbind (build_index ev workspace) (\<lambda>index.
              rbind (ix_make_parent ix p) (\<lambda>_.
                case ix_pretty ix index of
                  Inl err \<Rightarrow> Inl (StateErr (''failed to serialize local state index: '' @ err))
                | Inr bytes \<Rightarrow> Inr (index, bytes))) of
           Inl err \<Rightarrow> (Inl err, file)
         | Inr (index, bytes) \<Rightarrow>
             (case ix_write ix p bytes of
                None \<Rightarrow> (Inr index, Inr bytes)
              | Some (err, left) \<Rightarrow>
                  (Inl (StateErr (''failed to write local state index '' @ p @ '': '' @ err)), left)))"

definition read_index :: "index_io \<Rightarrow> path \<Rightarrow> index_file \<Rightarrow> local_state_index result" where
  "read_index ix workspace file =
     (let p = local_index_path workspace
      in case file of
           Inl err \<Rightarrow> Inl (StateErr (''local state index not found at '' @ p @ '': '' @ err))
         | Inr contents \<Rightarrow>
             (case ix_parse ix contents of
                Inl err \<Rightarrow>
                  Inl (StateErr (''failed to parse local state index '' @ p @ '': '' @ err))
              | Inr index \<Rightarrow> Inr index))"

section \<open>Reviews, replay and migration\<close>

record 'a optional_evidence =
  oe_value :: "'a option"
  oe_warning :: "string option"

definition optional_evidence_of :: "string \<Rightarrow> 'a result \<Rightarrow> 'a optional_evidence" where
  "optional_evidence_of label r =
     (case r of
        Inr v \<Rightarrow> \<lparr>oe_value = Some v, oe_warning = None\<rparr>
      | Inl err \<Rightarrow> \<lparr>oe_value = None, oe_warning = Some (label @ '': '' @ error_display err)\<rparr>)"

definition push_optional_warning :: "'a optional_evidence \<Rightarrow> string list" where
  "push_optional_warning e = (case oe_warning e of None \<Rightarrow> [] | Some w \<Rightarrow> [w])"

definition inputs_evidence ::
  "evidence_files \<Rightarrow> path \<Rightarrow> task_id \<Rightarrow> task_inputs optional_evidence" where
  "inputs_evidence ev workspace tid =
     optional_evidence_of ''resolved task input'' (read_inputs ev workspace tid)"

definition events_evidence ::
  "evidence_files \<Rightarrow> path \<Rightarrow> task_id \<Rightarrow> task_events optional_evidence" where
  "events_evidence ev workspace tid =
     optional_evidence_of ''event log'' (read_events ev workspace tid)"

definition input_limitations :: "resolved_task \<Rightarrow> string list" where
  "input_limitations task =
     (if gw_tools (rt_gateway task) \<noteq> []
      then [''gateway calls require fresh mediation, policy, approval, and secret checks''] else []) @
     (if np_default (pm_network (rt_permissions task)) \<noteq> NetDisabled
      then [''network outcomes may differ between replay attempts''] else []) @
     (if ac_require_for (rt_approval task) \<noteq> []
         \<or> cp_approval_required (pm_commands (rt_permissions task)) \<noteq> []
         \<or> tp_approval_required (pm_tools (rt_permissions task)) \<noteq> []
      then [''approval decisions must be replayed from captured policy context or re-requested'']
      else []) @
     (if sb_image (rt_sandbox task) \<noteq> None
      then [''runner image availability and contents are external to the replay input''] else [])"

definition replay_plan_of :: "evidence_files \<Rightarrow> path \<Rightarrow> task_id \<Rightarrow> replay_plan result" where
  "replay_plan_of ev workspace tid =
     rbind (existing_task_dir ev workspace tid) (\<lambda>dir.
     let inputs = inputs_evidence ev workspace tid;
         events = events_evidence ev workspace tid;
         blockers = (case oe_value inputs of
             Some _ \<Rightarrow> []
           | None \<Rightarrow> [case oe_warning inputs of
               Some w \<Rightarrow> w | None \<Rightarrow> ''resolved task input is unavailable'']);
         event_limits = (case oe_value events of
             Some _ \<Rightarrow> []
           | None \<Rightarrow> [case oe_warning events of Some w \<Rightarrow> w | None \<Rightarrow> ''event log is unavailable'']);
         input_limits = (case oe_value inputs of
             Some i \<Rightarrow> input_limitations (ti_task i)
           | None \<Rightarrow> []);
         limits = event_limits @ input_limits
     in Inr \<lparr>rp_task_id = tid,
             rp_source_task_file = map_option (rt_task_file \<circ> ti_task) (oe_value inputs),
             rp_resolved_task_path = map_option ti_path (oe_value inputs),
             rp_event_log_path = map_option tev_path (oe_value events),
             rp_artifact_dir = dir,
             rp_last_status = fst (read_status ev tid dir []),
             rp_can_replay = (blockers = []),
             rp_deterministic = False,
             rp_blockers = blockers,
             rp_limitations =
               (if limits = []
                then [''file-backed replay can reuse resolved inputs but does not guarantee identical external state'']
                else limits)\<rparr>)"

definition read_task_review :: "evidence_files \<Rightarrow> path \<Rightarrow> task_id \<Rightarrow> local_task_review result" where
  "read_task_review ev workspace tid =
     rbind (read_task_summary ev workspace tid) (\<lambda>summary.
     let inputs = inputs_evidence ev workspace tid;
         artifacts = optional_evidence_of ''artifact manifest'' (read_artifacts ev workspace tid);
         events = events_evidence ev workspace tid;
         logs = optional_evidence_of ''captured logs'' (read_logs ev workspace tid);
         diff = optional_evidence_of ''diff artifact'' (read_diff ev workspace tid);
         report = optional_evidence_of ''report'' (read_report ev workspace tid)
     in rbind (replay_plan_of ev workspace tid) (\<lambda>replay.
          Inr \<lparr>lv_summary = summary, lv_inputs = oe_value inputs, lv_artifacts = oe_value artifacts,
               lv_events = oe_value events, lv_logs = oe_value logs, lv_diff = oe_value diff,
               lv_report = oe_value report, lv_replay = replay,
               lv_warnings = ts_warnings summary @ push_optional_warning inputs @
                 push_optional_warning artifacts @ push_optional_warning events @
                 push_optional_warning logs @ push_optional_warning diff @
                 push_optional_warning report\<rparr>))"

definition structured_state :: "evidence_files \<Rightarrow> task_summary \<Rightarrow> bool" where
  "structured_state ev t \<longleftrightarrow>
     is_file ev (path_join (ts_task_dir t) ''task.resolved.json'')
     \<or> is_file ev (path_join (ts_task_dir t) ''events.jsonl'')"

definition migration_warnings :: "evidence_files \<Rightarrow> task_summary \<Rightarrow> string list" where
  "migration_warnings ev t =
     (if structured_state ev t then []
      else [''task '' @ ts_task_id t @
            '' has no structured task input or event log; rendered reports are ignored'']) @
     (if ts_warnings t = [] then []
      else [''task '' @ ts_task_id t @ '' has '' @ dec_digits (length (ts_warnings t)) @
            '' evidence warning(s); migrate structured files only''])"

definition migration_plan ::
  "evidence_files \<Rightarrow> path \<Rightarrow> string \<Rightarrow> local_to_team_migration_plan result" where
  "migration_plan ev workspace organization =
     rbind (normalize_non_empty ''organization'' organization) (\<lambda>org.
     rbind (review_index ev workspace) (\<lambda>index.
       let migrated = filter (structured_state ev) (lri_tasks index)
       in Inr \<lparr>mg_workspace = workspace, mg_organization = org,
               mg_tasks = map ts_task_id migrated,
               mg_approval_records_source = path_join (path_join workspace ''.taskfence'') ''approvals'',
               mg_artifact_roots = map ts_task_dir migrated,
               mg_warnings = concat (map (migration_warnings ev) (lri_tasks index)) @
                 [''rendered Markdown reports are migration artifacts, not source-of-truth state'']\<rparr>))"

end
