(* ===== verification/Evidence_Safety.thy ===== *)
theory Evidence_Safety
  imports Evidence_Store Policy_Engine "HOL-Library.Multiset"
begin

text \<open>
  What the evidence store promises: artifact routes stay inside the directory of their task,
  the listing is sorted and well formed, the status of a summary is the last status of the
  event log, a replay plan is offered exactly for a readable resolved task of that id, an index
  that was written is read back, and a symbolic link is never listed.
\<close>

section \<open>Directories\<close>

lemma safe_names:
  "safe_component ''.taskfence''" "safe_component ''tasks''" "safe_component ''artifacts''"
  "list_all safe_component evidence_file_names" "\<not> list_ex has_control evidence_file_names"
  by code_simp+

lemma path_join_nonempty: "p \<noteq> [] \<Longrightarrow> path_join base p \<noteq> []"
  by (simp add: path_join_def)

lemma tasks_dir_nonempty: "tasks_dir workspace \<noteq> []"
  by (simp add: tasks_dir_def path_join_nonempty)

lemma task_id_safe: "validate_task_id_component tid = Inr u \<Longrightarrow> safe_component tid"
  by (auto simp: validate_task_id_component_def safe_component_def split: if_splits)

lemma existing_task_dir_Inr:
  "existing_task_dir ev workspace tid = Inr dir \<longleftrightarrow>
     validate_task_id_component tid = Inr () \<and> dir = path_join (tasks_dir workspace) tid
     \<and> ev_metadata ev dir = Stat IsDir"
  by (auto simp: existing_task_dir_def store_task_dir_def ensure_task_dir_def rbind_Inr_iff
      split: stat_answer.splits stat.splits)

lemma existing_task_dir_components:
  assumes "existing_task_dir ev workspace tid = Inr dir"
  shows "components dir = components (tasks_dir workspace) @ [Normal tid]" "dir \<noteq> []"
  using assms task_id_safe [of tid] tasks_dir_nonempty
  by (auto simp: existing_task_dir_Inr components_join_safe path_join_safe_nonempty)

section \<open>The artifact manifest\<close>

text \<open>A file of the manifest of the task directory \<open>dir\<close>.\<close>

definition manifest_file :: "evidence_files \<Rightarrow> path \<Rightarrow> task_artifact_file \<Rightarrow> bool" where
  "manifest_file ev dir f \<longleftrightarrow>
     (case taf_kind f of
        EvidenceFile \<Rightarrow>
          taf_relative_path f \<in> set evidence_file_names
          \<and> components (taf_path f) = components dir @ [Normal (taf_relative_path f)]
      | ArtifactFile \<Rightarrow>
          (\<exists>name. safe_component name \<and> \<not> has_control name
             \<and> taf_relative_path f = ''artifacts/'' @ name
             \<and> components (taf_path f) = components dir @ [Normal ''artifacts'', Normal name]))
     \<and> ev_symlink_metadata ev (taf_path f) = Stat (IsFile (taf_size_bytes f))"

lemma push_regular_fileD:
  "push_regular_file ev kind rel p = Inr fs \<Longrightarrow> f \<in> set fs \<Longrightarrow>
   taf_kind f = kind \<and> taf_relative_path f = rel \<and> taf_path f = p
   \<and> ev_symlink_metadata ev p = Stat (IsFile (taf_size_bytes f))"
  by (auto simp: push_regular_file_def split: stat_answer.splits stat.splits)

lemma artifact_name_safe:
  "validate_artifact_file_name v = Inr u \<Longrightarrow> safe_component v \<and> \<not> has_control v"
  by (auto simp: validate_artifact_file_name_def safe_component_def split: if_splits)

lemma path_join_artifacts: "safe_component v \<Longrightarrow> path_join ''artifacts'' v = ''artifacts/'' @ v"
  by (cases v) (auto simp: path_join_def is_absolute_def safe_component_def)

lemma artifact_entry_manifest:
  assumes "dir \<noteq> []" and "artifact_entry ev (path_join dir ''artifacts'') entry = Inr fs" and "f \<in> set fs"
  shows "manifest_file ev dir f"
proof -
  from assms(2) obtain e name where "entry = Inr e" and v: "validate_artifact_file_name name = Inr ()"
    and p: "push_regular_file ev ArtifactFile (path_join ''artifacts'' name)
              (path_join (path_join dir ''artifacts'') name) = Inr fs"
    by (auto simp: artifact_entry_def rbind_Inr_iff split: sum.splits)
  from artifact_name_safe [OF v] push_regular_fileD [OF p assms(3)] assms(1) safe_names(3)
  show ?thesis
    by (auto simp: manifest_file_def path_join_artifacts components_join_safe path_join_safe_nonempty)
qed

lemma read_artifacts_manifest:
  assumes "read_artifacts ev workspace tid = Inr a"
  shows "existing_task_dir ev workspace tid = Inr (tas_task_dir a)"
    and "f \<in> set (tas_files a) \<Longrightarrow> manifest_file ev (tas_task_dir a) f"
    and "sorted (map artifact_sort_key (tas_files a))"
proof -
  from assms obtain dir evidence artifacts where d: "existing_task_dir ev workspace tid = Inr dir"
    and e: "rmap_list (\<lambda>name. push_regular_file ev EvidenceFile name (path_join dir name))
              evidence_file_names = Inr evidence"
    and a: "(let artifacts_dir = path_join dir ''artifacts''
            in case ev_symlink_metadata ev artifacts_dir of
                 Stat IsDir \<Rightarrow> read_artifact_dir_files ev artifacts_dir
               | Stat _ \<Rightarrow>
                   Inl (StateErr (''task artifact path is not a directory: '' @ artifacts_dir))
               | StatMissing \<Rightarrow> Inr []
               | StatFailed err \<Rightarrow>
                   Inl (StateErr (''failed to access task artifact directory '' @ artifacts_dir @
                     '': '' @ err))) = Inr artifacts"
    and r: "a = \<lparr>tas_task_dir = dir, tas_files = sort_key artifact_sort_key (concat evidence @ artifacts)\<rparr>"
    unfolding read_artifacts_def by (elim rbind_InrE) auto
  from d r show "existing_task_dir ev workspace tid = Inr (tas_task_dir a)" by simp
  from r show "sorted (map artifact_sort_key (tas_files a))" by simp
  have dir: "dir \<noteq> []" using existing_task_dir_components [OF d] by simp
  have "manifest_file ev dir f" if "f \<in> set (concat evidence)" for f
  proof -
    from that obtain fs where fs: "fs \<in> set evidence" "f \<in> set fs" by auto
    then obtain name where n: "name \<in> set evidence_file_names"
      "push_regular_file ev EvidenceFile name (path_join dir name) = Inr fs"
      using rmap_list_source [OF e] by blast
    with safe_names(4) have "safe_component name" by (auto simp: list_all_iff)
    with push_regular_fileD [OF n(2) fs(2)] n(1) dir show ?thesis
      by (simp add: manifest_file_def components_join_safe)
  qed
  moreover have "manifest_file ev dir f" if "f \<in> set artifacts" for f
  proof -
    from a that obtain entries found where
      "rmap_list (artifact_entry ev (path_join dir ''artifacts'')) entries = Inr found"
      "artifacts = concat found"
      by (auto simp: Let_def read_artifact_dir_files_def rbind_Inr_iff
          split: stat_answer.splits stat.splits sum.splits)
    with that obtain entry fs where "artifact_entry ev (path_join dir ''artifacts'') entry = Inr fs"
      "f \<in> set fs"
      by (auto dest: rmap_list_source)
    then show ?thesis by (rule artifact_entry_manifest [OF dir])
  qed
  ultimately show "f \<in> set (tas_files a) \<Longrightarrow> manifest_file ev (tas_task_dir a) f"
    using r by auto
qed

section \<open>Artifact routes\<close>

text \<open>What the manifest of a task may name: the evidence files, and the files of \<open>artifacts/\<close>.\<close>

definition manifest_path :: "path \<Rightarrow> bool" where
  "manifest_path p \<longleftrightarrow>
     p \<in> {''task.resolved.json'', ''events.jsonl'', ''report.md'', ''diff.patch'', ''stdout.log'', ''stderr.log''}
     \<or> (\<exists>name. p = ''artifacts/'' @ name \<and> name \<noteq> [] \<and> name \<noteq> ''.'' \<and> name \<noteq> ''..'' \<and> CHR ''/'' \<notin> set name)"

definition route_inside :: "evidence_files \<Rightarrow> path \<Rightarrow> local_artifact_route \<Rightarrow> bool" where
  "route_inside ev dir r \<longleftrightarrow>
     manifest_path (lar_relative_path r)
     \<and> list_all routable (components (lar_relative_path r))
     \<and> components (lar_path r) = components dir @ components (lar_relative_path r)
     \<and> ev_symlink_metadata ev (lar_path r) = Stat (IsFile (lar_size_bytes r))
     \<and> (\<exists>d p. ev_canonical ev dir = CanonicalPath d \<and> ev_canonical ev (lar_path r) = CanonicalPath p
           \<and> path_starts_with p d)"

text \<open>The route is that of a file which the manifest of the task lists.\<close>

definition in_manifest :: "evidence_files \<Rightarrow> path \<Rightarrow> task_id \<Rightarrow> local_artifact_route \<Rightarrow> bool" where
  "in_manifest ev workspace tid r \<longleftrightarrow>
     (\<exists>a. read_artifacts ev workspace tid = Inr a
        \<and> (lar_relative_path r, lar_path r, lar_size_bytes r)
            \<in> (\<lambda>f. (taf_relative_path f, taf_path f, taf_size_bytes f)) ` set (tas_files a))"

lemma manifest_file_path: "manifest_file ev dir f \<Longrightarrow> manifest_path (taf_relative_path f)"
  by (auto simp: manifest_file_def manifest_path_def evidence_file_names_def safe_component_def
      split: task_artifact_kind.splits)

lemma single_component: "safe_component s \<Longrightarrow> components s = [Normal s]"
  by (cases s)
    (auto simp: components_def is_absolute_def safe_component_def split_on_single segment_component_def)

lemma manifest_components:
  assumes "manifest_file ev dir f"
  shows "components (taf_path f) = components dir @ components (taf_relative_path f)"
proof (cases "taf_kind f")
  case EvidenceFile
  with assms safe_names(4) have "safe_component (taf_relative_path f)"
    by (auto simp: manifest_file_def list_all_iff)
  with EvidenceFile assms show ?thesis by (simp add: manifest_file_def single_component)
next
  case ArtifactFile
  with assms obtain name where n: "safe_component name" "taf_relative_path f = ''artifacts/'' @ name"
    "components (taf_path f) = components dir @ [Normal ''artifacts'', Normal name]"
    by (auto simp: manifest_file_def)
  have "components (taf_relative_path f) = [Normal ''artifacts'', Normal name]"
    using components_join_safe [of "''artifacts''" name] n safe_names(3)
    by (simp add: path_join_artifacts single_component)
  with n show ?thesis by simp
qed

lemma reject_parent_path_Inr: "reject_parent_path field p = Inr u \<Longrightarrow> list_all routable (components p)"
  by (auto simp: reject_parent_path_def split: if_splits)

lemma existing_route_canonical:
  assumes "validate_existing_artifact_route ev dir f = Inr u"
  shows "\<exists>d p. ev_canonical ev dir = CanonicalPath d \<and> ev_canonical ev (taf_path f) = CanonicalPath p
           \<and> path_starts_with p d"
proof -
  from assms obtain d p where "canonical_utf8 (ev_canonical ev) dir = Inr d"
    "canonical_utf8 (ev_canonical ev) (taf_path f) = Inr p" "path_starts_with p d"
    unfolding validate_existing_artifact_route_def by (elim rbind_InrE) (auto split: if_splits)
  then show ?thesis by (auto simp: canonical_utf8_def split: canonical.splits)
qed

lemma route_contained:
  assumes "artifact_route ev workspace tid relative_path = Inr r"
  shows "lar_task_id r = tid \<and> path_eq (lar_relative_path r) relative_path
    \<and> in_manifest ev workspace tid r
    \<and> (\<exists>dir. components dir = components (tasks_dir workspace) @ [Normal tid] \<and> route_inside ev dir r)"
proof -
  from assms obtain a f where rel: "reject_parent_path ''artifact route'' relative_path = Inr ()"
    and a: "read_artifacts ev workspace tid = Inr a"
    and f: "find (\<lambda>f. path_eq (taf_relative_path f) relative_path) (tas_files a) = Some f"
    and v: "validate_existing_artifact_route ev (tas_task_dir a) f = Inr ()"
    and r: "r = \<lparr>lar_task_id = tid, lar_kind = route_kind (taf_kind f),
                  lar_relative_path = taf_relative_path f, lar_path = taf_path f,
                  lar_size_bytes = taf_size_bytes f\<rparr>"
    unfolding artifact_route_def by (elim rbind_InrE) (auto split: option.splits elim: rbind_InrE)
  from find_SomeD [OF f] have mem: "f \<in> set (tas_files a)" and eq: "path_eq (taf_relative_path f) relative_path"
    by auto
  note m = read_artifacts_manifest(2) [OF a mem]
  have "route_inside ev (tas_task_dir a) r"
    using manifest_components [OF m] m manifest_file_path [OF m] existing_route_canonical [OF v] reject_parent_path_Inr [OF rel] eq
    by (simp add: route_inside_def r manifest_file_def path_eq_def)
  moreover have "in_manifest ev workspace tid r"
    unfolding in_manifest_def using a mem by (auto simp: r intro!: image_eqI [of _ _ f])
  ultimately show ?thesis
    using existing_task_dir_components(1) [OF read_artifacts_manifest(1) [OF a]] eq r by auto
qed

text \<open>
  A link to an artifact never leaves its task. A route is only made for a file of the task's
  manifest, by a path without parent directories, root or control characters; at that time the file
  it names is the regular file, not a symbolic link, that the joined path of the task's own directory and the relative path denotes,
  it has the length that was reported, and its canonical path lies below the canonical task
  directory, which belongs to the asked task under the workspace's evidence root.
\<close>

theorem artifact_route_contained:
  assumes "artifact_route ev workspace tid relative_path = Inr r"
  shows "lar_task_id r = tid \<and> path_eq (lar_relative_path r) relative_path
    \<and> in_manifest ev workspace tid r
    \<and> (\<exists>dir. components dir = components (tasks_dir workspace) @ [Normal tid] \<and> route_inside ev dir r)"
  using assms by (rule route_contained)


section \<open>The status of a task\<close>

text \<open>The reference definition: the last status change of the task in its events.\<close>

fun status_of_event :: "audit_event \<Rightarrow> task_status option" where
  "status_of_event (TaskStatusChanged _ _ status) = Some status"
| "status_of_event _ = None"

definition last_status :: "audit_event list \<Rightarrow> task_status option" where
  "last_status events =
     (case somes (map status_of_event events) of [] \<Rightarrow> None | changes \<Rightarrow> Some (last changes))"

lemma somes_simps [simp]:
  "somes [] = []" "somes (None # xs) = somes xs" "somes (Some x # xs) = x # somes xs"
  by (simp_all add: somes_def)

definition newer :: "task_status option \<Rightarrow> audit_event list \<Rightarrow> task_status option" where
  "newer latest events = (case last_status events of None \<Rightarrow> latest | s \<Rightarrow> s)"

lemma newer_simps [simp]:
  "newer latest [] = latest"
  "newer latest (e # events) =
     newer (case status_of_event e of None \<Rightarrow> latest | s \<Rightarrow> s) events"
  "newer None events = last_status events"
  by (auto simp: newer_def last_status_def split: option.splits list.splits)

lemma latest_status_of_events:
  "read_events_from parse tid p n ls = Inr events \<Longrightarrow>
   latest_status_from parse tid m ls latest warnings =
     (newer latest events, warnings)"
proof (induction parse tid p n ls arbitrary: m latest events rule: read_events_from.induct)
  case (3 parse tid p n line ls)
  show ?case
  proof (cases "trim line = []")
    case True
    with 3 show ?thesis by simp
  next
    case False
    with "3.prems" obtain e rest where e: "parse line = Inr e" "audit_event_task_id e = tid"
      "read_events_from parse tid p (n + 1) ls = Inr rest" "events = e # rest"
      by (auto simp: rbind_Inr_iff split: sum.splits if_splits)
    note ih = "3.IH"(2) [OF False e(1) _ e(3)]
    from e(1,2,4) False ih show ?thesis by (cases e) auto
  qed
qed auto

lemma read_status_of_events:
  assumes "read_events ev workspace tid = Inr evs" and "existing_task_dir ev workspace tid = Inr dir"
  shows "read_status ev tid dir warnings = (last_status (tev_events evs), warnings)"
  using assms
  by (auto simp: read_events_def read_status_def read_latest_task_status_def read_events_file_def
      rbind_Inr_iff latest_status_of_events Let_def split: opened_file.splits)

lemma read_events_own:
  "read_events_from parse tid p n ls = Inr events \<Longrightarrow> list_all (\<lambda>e. audit_event_task_id e = tid) events"
  by (induction parse tid p n ls arbitrary: events rule: read_events_from.induct)
    (auto simp: rbind_Inr_iff split: sum.splits if_splits)

lemma replay_plan_fields:
  assumes "replay_plan_of ev workspace tid = Inr plan" and "existing_task_dir ev workspace tid = Inr dir"
  shows "rp_last_status plan = fst (read_status ev tid dir [])"
    and "rp_blockers plan = push_optional_warning (inputs_evidence ev workspace tid)"
    and "rp_can_replay plan \<longleftrightarrow> rp_blockers plan = []"
    and "rp_source_task_file plan = map_option (rt_task_file \<circ> ti_task) (oe_value (inputs_evidence ev workspace tid))"
    and "rp_resolved_task_path plan = map_option ti_path (oe_value (inputs_evidence ev workspace tid))"
    and "rp_limitations plan \<noteq> []" and "\<not> rp_deterministic plan" and "rp_task_id plan = tid"
proof -
  have plan: "plan = projr (replay_plan_of ev workspace tid)" using assms(1) by simp
  show "rp_last_status plan = fst (read_status ev tid dir [])"
    "rp_blockers plan = push_optional_warning (inputs_evidence ev workspace tid)"
    "rp_can_replay plan \<longleftrightarrow> rp_blockers plan = []"
    "rp_source_task_file plan = map_option (rt_task_file \<circ> ti_task) (oe_value (inputs_evidence ev workspace tid))"
    "rp_resolved_task_path plan = map_option ti_path (oe_value (inputs_evidence ev workspace tid))"
    "rp_limitations plan \<noteq> []" "\<not> rp_deterministic plan" "rp_task_id plan = tid"
    by (simp_all add: plan replay_plan_of_def assms(2) Let_def push_optional_warning_def
        inputs_evidence_def optional_evidence_of_def split: sum.split)
qed

text \<open>
  C32: Two readers of the event log agree. When the log of a task is readable as a whole, the
  summary and the replay plan, which read it a second time with a scan that skips what it does
  not understand, show exactly the status of the last status change among the events of that
  log, and the summary of the log adds no warning.
\<close>

theorem status_is_last_event:
  assumes "read_events ev workspace tid = Inr evs" and "read_task_review ev workspace tid = Inr review"
  shows "ts_status (lv_summary review) = last_status (tev_events evs)
    \<and> rp_last_status (lv_replay review) = last_status (tev_events evs)
    \<and> list_all (\<lambda>e. audit_event_task_id e = tid) (tev_events evs)"
proof -
  from assms(2) obtain dir where dir: "existing_task_dir ev workspace tid = Inr dir"
    and summary: "lv_summary review = summarize_task ev tid dir"
    and replay: "replay_plan_of ev workspace tid = Inr (lv_replay review)"
    unfolding read_task_review_def read_task_summary_def Let_def by (elim rbind_InrE) auto
  from read_status_of_events [OF assms(1) dir] summary
  have "ts_status (lv_summary review) = last_status (tev_events evs)"
    by (simp add: summarize_task_def split: prod.splits)
  moreover from replay dir read_status_of_events [OF assms(1) dir]
  have "rp_last_status (lv_replay review) = last_status (tev_events evs)"
    by (simp add: replay_plan_fields(1))
  moreover from assms(1) have "list_all (\<lambda>e. audit_event_task_id e = tid) (tev_events evs)"
    unfolding read_events_def read_events_file_def Let_def
    by (elim rbind_InrE) (auto split: opened_file.split_asm elim!: rbind_InrE dest: read_events_own)
  ultimately show ?thesis by simp
qed


section \<open>Replay\<close>

lemma read_inputs_task: "read_inputs ev workspace tid = Inr i \<Longrightarrow> rt_id (ti_task i) = tid"
  unfolding read_inputs_def Let_def by (elim rbind_InrE) (auto split: sum.splits if_splits)

text \<open>
  A replay is offered exactly when the resolved task can be read back: the plan says that the
  task can be replayed if and only if its resolved input exists, parses and carries the asked
  task id, otherwise it says why not. A plan never claims to be deterministic and always names a
  limitation.
\<close>

theorem replay_needs_resolved_task:
  assumes "replay_plan_of ev workspace tid = Inr plan"
  shows "(case read_inputs ev workspace tid of
        Inr i \<Rightarrow> rp_can_replay plan \<and> rp_blockers plan = [] \<and> rt_id (ti_task i) = tid
          \<and> rp_source_task_file plan = Some (rt_task_file (ti_task i))
          \<and> rp_resolved_task_path plan = Some (ti_path i)
      | Inl err \<Rightarrow> \<not> rp_can_replay plan \<and> rp_source_task_file plan = None
          \<and> rp_blockers plan = [''resolved task input: '' @ error_display err])
    \<and> \<not> rp_deterministic plan \<and> rp_limitations plan \<noteq> []"
proof -
  from assms obtain dir where dir: "existing_task_dir ev workspace tid = Inr dir"
    unfolding replay_plan_of_def by (elim rbind_InrE)
  from replay_plan_fields [OF assms dir] show ?thesis
    by (auto simp: inputs_evidence_def optional_evidence_of_def push_optional_warning_def
        read_inputs_task split: sum.split)
qed

section \<open>Listing\<close>

text \<open>The directories that the listing reports, in the order of the file system.\<close>

definition listed_names :: "(string + dir_entry) list \<Rightarrow> string list" where
  "listed_names entries =
     somes (map (\<lambda>entry. case entry of
         Inr e \<Rightarrow> (case (de_type e, de_name e) of (Inr IsDir, Inr name) \<Rightarrow> Some name | _ \<Rightarrow> None)
       | Inl _ \<Rightarrow> None) entries)"

lemma evidence_entry_Inr:
  "evidence_entry ev dir entry = Inr found \<longleftrightarrow>
     (\<exists>e t. entry = Inr e \<and> de_type e = Inr t \<and>
        (if t = IsDir
         then \<exists>name. de_name e = Inr name \<and> validate_task_id_component name = Inr ()
                \<and> found = Some (summarize_task ev name (path_join dir name))
         else found = None))"
  by (auto simp: evidence_entry_def rbind_Inr_iff split: sum.splits stat.splits)

lemma list_entries:
  "rmap_list (evidence_entry ev dir) entries = Inr found \<Longrightarrow>
   somes found = map (\<lambda>name. summarize_task ev name (path_join dir name)) (listed_names entries)
   \<and> list_all (\<lambda>name. validate_task_id_component name = Inr ()) (listed_names entries)"
proof (induction entries arbitrary: found)
  case Nil
  then show ?case by (simp add: listed_names_def)
next
  case (Cons entry entries)
  from Cons.prems obtain x xs where x: "evidence_entry ev dir entry = Inr x"
    "rmap_list (evidence_entry ev dir) entries = Inr xs" "found = x # xs"
    by (auto simp: rbind_Inr_iff)
  from Cons.IH [OF x(2)] x(1,3) show ?case
    by (auto simp: evidence_entry_Inr listed_names_def split: if_splits stat.splits)
qed

lemma summary_id [simp]: "ts_task_id (summarize_task ev tid dir) = tid"
  by (simp add: summarize_task_def split: prod.split)

text \<open>
  The listing is complete and in order. When the evidence root can be listed, the tasks shown
  are exactly its subdirectories, each once and with the summary that reading the task alone
  gives, sorted by task id, and every id is a safe path component; one directory whose name is
  not such a component makes the whole listing fail.
\<close>

theorem listing_complete_and_sorted:
  assumes "ev_metadata ev (tasks_dir workspace) = Stat IsDir"
    and "ev_read_dir ev (tasks_dir workspace) = Inr entries"
    and "list_tasks ev workspace = Inr summaries"
  shows "sorted (map ts_task_id summaries)
    \<and> mset (map ts_task_id summaries) = mset (listed_names entries)
    \<and> (\<forall>s \<in> set summaries. safe_component (ts_task_id s)
         \<and> s = summarize_task ev (ts_task_id s) (path_join (tasks_dir workspace) (ts_task_id s)))"
proof -
  from assms obtain found where f: "rmap_list (evidence_entry ev (tasks_dir workspace)) entries = Inr found"
    "summaries = sort_key ts_task_id (somes found)"
    by (auto simp: list_tasks_def rbind_Inr_iff)
  note found = list_entries [OF f(1)]
  from found f(2) have "mset (map ts_task_id summaries) = mset (listed_names entries)"
    by (simp add: multiset.map_comp comp_def)
  with found f(2) show ?thesis by (auto simp: list_all_iff dest: task_id_safe)
qed

section \<open>The index\<close>

text \<open>
  The index survives: when serde reads back what it wrote, an index that was refreshed without
  an error is returned by the next read, and it is the index of the evidence.
\<close>

theorem index_read_back:
  assumes "\<forall>index bytes. ix_pretty ix index = Inr bytes \<longrightarrow> ix_parse ix bytes = Inr index"
    and "refresh_index ev ix workspace file = (Inr index, file')"
  shows "read_index ix workspace file' = Inr index \<and> build_index ev workspace = Inr index"
proof -
  from assms(2) obtain bytes where "build_index ev workspace = Inr index"
    "ix_pretty ix index = Inr bytes" "file' = Inr bytes"
    unfolding refresh_index_def Let_def
    by (auto simp: rbind_Inr_iff split: sum.split_asm option.split_asm) (metis old.sum.exhaust)
  with assms(1) show ?thesis by (simp add: read_index_def Let_def)
qed

lemma refresh_fails_early:
  "build_index ev workspace = Inl err \<Longrightarrow> refresh_index ev ix workspace file = (Inl err, file)"
  by (simp add: refresh_index_def Let_def)

section \<open>A sample evidence directory\<close>

text \<open>
  A workspace with one task that has a resolved task, two events, a report that is missing and
  one artifact beside a directory.
\<close>

definition sample_evidence :: evidence_files where
  "sample_evidence =
     (let root = ''/w/.taskfence/tasks''; dir = root @ ''/task-1'';
          stat = (\<lambda>p. if p \<in> {root, dir, dir @ ''/artifacts'', dir @ ''/artifacts/d''} then Stat IsDir
                      else if p \<in> {dir @ ''/task.resolved.json'', dir @ ''/events.jsonl'',
                                    dir @ ''/artifacts/a''} then Stat (IsFile 7)
                      else StatMissing)
      in \<lparr>ev_metadata = stat, ev_symlink_metadata = stat,
          ev_read = (\<lambda>p. if p = dir @ ''/task.resolved.json'' then ReadText ''T'' else ReadMissing),
          ev_open = (\<lambda>p. if p = dir @ ''/events.jsonl'' then FileLines [Inr ''c'', Inr '''', Inr ''s'']
                         else FileMissing),
          ev_read_dir = (\<lambda>p. if p = root then Inr [Inr \<lparr>de_type = Inr IsDir, de_name = Inr ''task-1''\<rparr>]
                             else Inr [Inr \<lparr>de_type = Inr (IsFile 7), de_name = Inr ''a''\<rparr>,
                                       Inr \<lparr>de_type = Inr IsDir, de_name = Inr ''d''\<rparr>]),
          ev_canonical = CanonicalPath,
          ev_parse_task = (\<lambda>_. Inr (sample_task\<lparr>rt_id := ''task-1''\<rparr>)),
          ev_parse_event = (\<lambda>l. if l = ''c'' then Inr (TaskStatusChanged ''task-1'' 1 Created)
                                else Inr (TaskStatusChanged ''task-1'' 2 Running)),
          ev_missing = ''missing''\<rparr>)"

definition sample_index_io :: "local_state_index \<Rightarrow> index_io" where
  "sample_index_io index = \<lparr>ix_mkdir = (\<lambda>_. Inr ()),
     ix_pretty = (\<lambda>i. if i = index then Inr ''I'' else Inl ''unexpected''),
     ix_parse = (\<lambda>_. Inr index), ix_write = (\<lambda>_ _. None)\<rparr>"

theorem artifact_route_contained_witness:
  "\<exists>r. artifact_route sample_evidence ''/w'' ''task-1'' ''artifacts/a'' = Inr r \<and> lar_task_id r = ''task-1''"
proof -
  have "is_ok (artifact_route sample_evidence ''/w'' ''task-1'' ''artifacts/a'')" by code_simp
  then obtain r where r: "artifact_route sample_evidence ''/w'' ''task-1'' ''artifacts/a'' = Inr r"
    unfolding is_ok_iff by blast
  with artifact_route_contained [OF r] show ?thesis by auto
qed

theorem status_is_last_event_witness:
  "\<exists>review. read_task_review sample_evidence ''/w'' ''task-1'' = Inr review
     \<and> ts_status (lv_summary review) = Some Running"
proof -
  have "is_ok (read_task_review sample_evidence ''/w'' ''task-1'')" by code_simp
  then obtain review where v: "read_task_review sample_evidence ''/w'' ''task-1'' = Inr review"
    unfolding is_ok_iff by blast
  have "is_ok (read_events sample_evidence ''/w'' ''task-1'')" by code_simp
  then obtain evs where e: "read_events sample_evidence ''/w'' ''task-1'' = Inr evs"
    unfolding is_ok_iff by blast
  have "map_sum id (\<lambda>evs. last_status (tev_events evs)) (read_events sample_evidence ''/w'' ''task-1'') =
    Inr (Some Running)" by code_simp
  with e have "last_status (tev_events evs) = Some Running" by simp
  with status_is_last_event [OF e v] v show ?thesis by auto
qed

theorem replay_needs_resolved_task_witness:
  "\<exists>plan. replay_plan_of sample_evidence ''/w'' ''task-1'' = Inr plan \<and> rp_can_replay plan"
proof -
  have "is_ok (replay_plan_of sample_evidence ''/w'' ''task-1'')" by code_simp
  then obtain plan where p: "replay_plan_of sample_evidence ''/w'' ''task-1'' = Inr plan"
    unfolding is_ok_iff by blast
  have "is_ok (read_inputs sample_evidence ''/w'' ''task-1'')" by code_simp
  then obtain i where "read_inputs sample_evidence ''/w'' ''task-1'' = Inr i"
    unfolding is_ok_iff by blast
  with replay_needs_resolved_task [OF p] p show ?thesis by auto
qed

theorem listing_complete_and_sorted_witness:
  "\<exists>summaries. list_tasks sample_evidence ''/w'' = Inr summaries
     \<and> mset (map ts_task_id summaries) = {#''task-1''#}"
proof -
  have "is_ok (list_tasks sample_evidence ''/w'')" by code_simp
  then obtain summaries where l: "list_tasks sample_evidence ''/w'' = Inr summaries"
    unfolding is_ok_iff by blast
  have d: "ev_metadata sample_evidence (tasks_dir ''/w'') = Stat IsDir" by code_simp
  have r: "ev_read_dir sample_evidence (tasks_dir ''/w'') =
    Inr [Inr \<lparr>de_type = Inr IsDir, de_name = Inr ''task-1''\<rparr>]" by code_simp
  from listing_complete_and_sorted [OF d r l] l show ?thesis
    by (auto simp: listed_names_def)
qed

theorem index_read_back_witness:
  "\<exists>index file. build_index sample_evidence ''/w'' = Inr index
     \<and> read_index (sample_index_io index) ''/w'' file = Inr index"
proof -
  have "is_ok (build_index sample_evidence ''/w'')" by code_simp
  then obtain index where i: "build_index sample_evidence ''/w'' = Inr index"
    unfolding is_ok_iff by blast
  have "refresh_index sample_evidence (sample_index_io index) ''/w'' (Inl ''none'') = (Inr index, Inr ''I'')"
    by (simp add: refresh_index_def i sample_index_io_def Let_def ix_make_parent_def split: option.split)
  moreover have "\<forall>j bytes. ix_pretty (sample_index_io index) j = Inr bytes \<longrightarrow>
      ix_parse (sample_index_io index) bytes = Inr j"
    by (simp add: sample_index_io_def)
  ultimately show ?thesis using index_read_back i by blast
qed

end
