(* ===== verification/Runner_Plan.thy ===== *)
theory Runner_Plan
  imports Gateway_Checks
begin

text \<open>
  The runners (\<open>crates/taskfence-runner/src/lib.rs\<close>), first part: capability reports, the
  Docker run plan with its mounts, environment and network, and the command lines of the Docker
  and the SSH runner.
\<close>

section \<open>Runner kinds and capabilities\<close>

datatype runner_kind =
    KDocker | KRemoteSsh | KKubernetesJob | KMicroVm | KManagedCloud | KUnsupported string

fun from_sandbox :: "sandbox_kind \<Rightarrow> runner_kind" where
  "from_sandbox Docker = KDocker"
| "from_sandbox RemoteSsh = KRemoteSsh"
| "from_sandbox KubernetesJob = KKubernetesJob"
| "from_sandbox MicroVm = KMicroVm"
| "from_sandbox ManagedCloud = KManagedCloud"
| "from_sandbox (UnsupportedSandbox k) = KUnsupported k"

fun runner_label :: "runner_kind \<Rightarrow> string" where
  "runner_label KDocker = ''docker''"
| "runner_label KRemoteSsh = ''remote_ssh''"
| "runner_label KKubernetesJob = ''kubernetes_job''"
| "runner_label KMicroVm = ''microvm''"
| "runner_label KManagedCloud = ''managed_cloud''"
| "runner_label (KUnsupported k) = k"

record runner_capability_report =
  rc_kind :: runner_kind
  rc_available :: bool
  rc_can_isolate_filesystem :: bool
  rc_can_isolate_secrets :: bool
  rc_can_disable_network :: bool
  rc_can_enforce_default_deny_network :: bool
  rc_can_enforce_domain_allowlist :: bool
  rc_can_enforce_limits :: bool
  rc_can_capture_output :: bool
  rc_can_return_artifacts :: bool
  rc_missing :: "string list"

definition gateway_egress_tool_configured :: "resolved_task \<Rightarrow> bool" where
  "gateway_egress_tool_configured task \<longleftrightarrow>
     list_ex (\<lambda>tool. gt_protocol tool = gateway_egress_tool_protocol
        \<and> gt_tool tool = gateway_egress_tool_name \<and> gt_operation tool = gateway_egress_tool_operation)
       (gw_tools (rt_gateway task))"

definition docker_gateway_egress_enabled :: "resolved_task \<Rightarrow> bool" where
  "docker_gateway_egress_enabled task \<longleftrightarrow>
     gw_mode (rt_gateway task) = LocalListener \<and> gw_egress_allow_domains (rt_gateway task)
     \<and> np_allow_domains (pm_network (rt_permissions task)) \<noteq> []
     \<and> gateway_egress_tool_configured task"

definition docker_gateway_spool_required :: "resolved_task \<Rightarrow> bool" where
  "docker_gateway_spool_required task \<longleftrightarrow>
     gw_tools (rt_gateway task) \<noteq> [] \<or> docker_gateway_egress_enabled task"

definition allowlist_message :: string where
  "allowlist_message =
     ''local Docker cannot enforce domain allowlists without gateway.mode=local_listener, gateway.egress.allow_domains=true, and a registered http egress.fetch tool''"

definition docker_capability :: "resolved_task \<Rightarrow> runner_capability_report" where
  "docker_capability task =
     \<lparr>rc_kind = KDocker, rc_available = True, rc_can_isolate_filesystem = True,
      rc_can_isolate_secrets = True, rc_can_disable_network = True,
      rc_can_enforce_default_deny_network = True,
      rc_can_enforce_domain_allowlist = docker_gateway_egress_enabled task,
      rc_can_enforce_limits = True, rc_can_capture_output = True, rc_can_return_artifacts = True,
      rc_missing =
        (if np_allow_domains (pm_network (rt_permissions task)) \<noteq> []
            \<and> \<not> docker_gateway_egress_enabled task
         then [allowlist_message] else [])\<rparr>"

definition unavailable_capability :: "runner_kind \<Rightarrow> string list \<Rightarrow> runner_capability_report" where
  "unavailable_capability kind missing =
     \<lparr>rc_kind = kind, rc_available = False, rc_can_isolate_filesystem = False,
      rc_can_isolate_secrets = False, rc_can_disable_network = False,
      rc_can_enforce_default_deny_network = False, rc_can_enforce_domain_allowlist = False,
      rc_can_enforce_limits = False, rc_can_capture_output = False,
      rc_can_return_artifacts = False, rc_missing = missing\<rparr>"

definition ssh_limits_are_supported :: "resolved_task \<Rightarrow> ssh_sandbox_config \<Rightarrow> bool" where
  "ssh_limits_are_supported task ssh \<longleftrightarrow>
     (let limits = sb_limits (rt_sandbox task);
          requested = lim_cpu limits \<noteq> None \<or> lim_memory limits \<noteq> None \<or> lim_disk limits \<noteq> None
      in (\<not> requested \<or> ssh_enforces_resource_limits ssh)
         \<and> (lim_timeout_minutes limits = None \<or> ssh_terminates_remote_processes ssh))"

definition ssh_isolates_filesystem :: "ssh_sandbox_config \<Rightarrow> bool" where
  "ssh_isolates_filesystem ssh \<longleftrightarrow> ssh_isolated_workspace ssh \<and> ssh_workspace ssh \<noteq> None"

definition missing_when :: "bool \<Rightarrow> string \<Rightarrow> string list" where
  "missing_when b message = (if b then [message] else [])"

definition ssh_missing :: "resolved_task \<Rightarrow> ssh_sandbox_config \<Rightarrow> string list" where
  "ssh_missing task ssh =
     missing_when (\<not> ssh_isolates_filesystem ssh)
       ''remote SSH requires sandbox.ssh.workspace and isolated_workspace=true'' @
     missing_when (\<not> ssh_isolated_secrets ssh) ''remote SSH requires isolated_secrets=true'' @
     missing_when (ssh_identity_file ssh = None) ''remote SSH requires sandbox.ssh.identity_file'' @
     missing_when (ssh_known_hosts_file ssh = None)
       ''remote SSH requires sandbox.ssh.known_hosts_file'' @
     missing_when (\<not> ssh_limits_are_supported task ssh)
       ''remote SSH can enforce timeout only unless enforces_resource_limits=true'' @
     missing_when (\<not> ssh_terminates_remote_processes ssh)
       ''remote SSH requires terminates_remote_processes=true for timeout and cancellation'' @
     (case np_default (pm_network (rt_permissions task)) of
        NetAllow \<Rightarrow>
          missing_when (ssh_network_policy ssh \<noteq> Some UncontrolledAllow)
            ''remote SSH default allow requires sandbox.ssh.network_policy=uncontrolled_allow''
      | NetDisabled \<Rightarrow> [''remote SSH cannot disable remote network access'']
      | NetDeny \<Rightarrow> [''remote SSH cannot enforce default-deny remote network access'']) @
     missing_when (np_allow_domains (pm_network (rt_permissions task)) \<noteq> [])
       ''remote SSH cannot enforce domain allowlists'' @
     missing_when (ep_allow (pm_env (rt_permissions task)) \<noteq> [])
       ''remote SSH does not expose host environment allowlists'' @
     missing_when (sc_expose_to_agent (rt_secrets task))
       ''remote SSH does not expose raw secrets to agents'' @
     missing_when (gw_mode (rt_gateway task) \<noteq> SpoolOnly \<or> gw_tools (rt_gateway task) \<noteq> [])
       ''remote SSH does not mount the local gateway spool or listener boundary'' @
     missing_when (cap_file_diff (au_capture (rt_audit task)))
       ''remote SSH artifact return is limited to stdout/stderr/local reports; set audit.capture.file_diff=false''"

definition remote_ssh_capability :: "resolved_task \<Rightarrow> runner_capability_report" where
  "remote_ssh_capability task =
     (case sb_ssh (rt_sandbox task) of
        None \<Rightarrow> unavailable_capability KRemoteSsh [''sandbox.ssh is required for remote_ssh tasks'']
      | Some ssh \<Rightarrow>
          \<lparr>rc_kind = KRemoteSsh, rc_available = (ssh_missing task ssh = []),
           rc_can_isolate_filesystem = ssh_isolates_filesystem ssh,
           rc_can_isolate_secrets = ssh_isolated_secrets ssh, rc_can_disable_network = False,
           rc_can_enforce_default_deny_network = False, rc_can_enforce_domain_allowlist = False,
           rc_can_enforce_limits = ssh_limits_are_supported task ssh,
           rc_can_capture_output = True,
           rc_can_return_artifacts = (\<not> cap_file_diff (au_capture (rt_audit task))),
           rc_missing = ssh_missing task ssh\<rparr>)"

definition is_sufficient_for_task :: "runner_capability_report \<Rightarrow> resolved_task \<Rightarrow> bool" where
  "is_sufficient_for_task r task \<longleftrightarrow>
     rc_available r \<and> rc_can_isolate_filesystem r \<and> rc_can_isolate_secrets r
     \<and> rc_can_capture_output r \<and> rc_can_return_artifacts r \<and> rc_can_enforce_limits r
     \<and> (case np_default (pm_network (rt_permissions task)) of
          NetDisabled \<Rightarrow> rc_can_disable_network r
        | NetDeny \<Rightarrow> rc_can_enforce_default_deny_network r
        | NetAllow \<Rightarrow> True)
     \<and> (np_allow_domains (pm_network (rt_permissions task)) = [] \<or> rc_can_enforce_domain_allowlist r)"

definition ensure_sufficient_for_task :: "runner_capability_report \<Rightarrow> resolved_task \<Rightarrow> unit result" where
  "ensure_sufficient_for_task r task =
     (if is_sufficient_for_task r task then Inr ()
      else Inl (Runner (runner_label (rc_kind r) @
             '' runner is unavailable or cannot provide required controls: '' @
             (if rc_missing r = [] then ''required isolation or network controls''
              else str_join '', '' (rc_missing r)))))"

fun unsupported_runner_missing_controls :: "runner_kind \<Rightarrow> string list" where
  "unsupported_runner_missing_controls KRemoteSsh =
     [''remote SSH isolation contract'', ''remote filesystem mount policy enforcement'',
      ''remote secret isolation'', ''remote network control enforcement'',
      ''remote limit enforcement'']"
| "unsupported_runner_missing_controls KKubernetesJob =
     [''Kubernetes job namespace/pod security contract'', ''Kubernetes network policy enforcement'',
      ''Kubernetes secret isolation'', ''Kubernetes artifact collection contract'']"
| "unsupported_runner_missing_controls KMicroVm =
     [''microVM image contract'', ''microVM filesystem sharing policy'',
      ''microVM network policy enforcement'', ''microVM lifecycle and artifact collection'']"
| "unsupported_runner_missing_controls KManagedCloud =
     [''managed cloud runner provider contract'', ''managed cloud credential boundary'',
      ''managed cloud network policy enforcement'', ''managed cloud artifact collection contract'']"
| "unsupported_runner_missing_controls (KUnsupported k) = [''unsupported sandbox type '' @ k]"
| "unsupported_runner_missing_controls KDocker = []"

definition unsupported_capability :: "runner_kind \<Rightarrow> runner_capability_report" where
  "unsupported_capability kind = unavailable_capability kind (unsupported_runner_missing_controls kind)"

definition not_implemented :: "string \<Rightarrow> 'a result" where
  "not_implemented label = Inl (Runner (label @ '' runner execution is not implemented''))"

definition unsupported_prepare :: "runner_kind \<Rightarrow> resolved_task \<Rightarrow> prepared_run result" where
  "unsupported_prepare kind task =
     rbind (ensure_sufficient_for_task (unsupported_capability kind) task) (\<lambda>_.
       not_implemented (runner_label kind))"

definition unsupported_start ::
  "runner_kind \<Rightarrow> prepared_run \<Rightarrow> agent_invocation \<Rightarrow> running_task result" where
  "unsupported_start kind prepared invocation = not_implemented (runner_label kind)"

definition unsupported_stop :: "runner_kind \<Rightarrow> running_task \<Rightarrow> unit result" where
  "unsupported_stop kind running = not_implemented (runner_label kind)"

definition unsupported_collect_exit :: "runner_kind \<Rightarrow> running_task \<Rightarrow> run_output result" where
  "unsupported_collect_exit kind running = not_implemented (runner_label kind)"

definition runner_capability :: "resolved_task \<Rightarrow> runner_capability_report" where
  "runner_capability task =
     (case from_sandbox (sb_kind (rt_sandbox task)) of
        KDocker \<Rightarrow> docker_capability task
      | KRemoteSsh \<Rightarrow> remote_ssh_capability task
      | kind \<Rightarrow> unsupported_capability kind)"

definition ensure_capable :: "resolved_task \<Rightarrow> unit result" where
  "ensure_capable task = ensure_sufficient_for_task (runner_capability task) task"

section \<open>Contracts of the runner families that are not implemented\<close>

datatype runner_expansion_status = RunnerLive | RunnerContractOnly | RunnerUnsupported

record runner_backend_contract =
  rbc_kind :: runner_kind
  rbc_status :: runner_expansion_status
  rbc_required_guarantees :: "string list"
  rbc_integration_verification :: "string list"

definition expansion_contracts :: "runner_backend_contract list" where
  "expansion_contracts =
     [\<lparr>rbc_kind = KKubernetesJob, rbc_status = RunnerContractOnly,
       rbc_required_guarantees =
         [''namespace and service account isolation'', ''pod security and volume containment'',
          ''secret projection boundary'', ''default-deny network policy plus explicit egress rules'',
          ''stdout/stderr log collection'', ''timeout and cancellation cleanup'',
          ''artifact collection without host path escape''],
       rbc_integration_verification =
         [''Kubernetes cluster with namespace/network-policy support'',
          ''job timeout and cancellation test'', ''artifact collection containment test'']\<rparr>,
      \<lparr>rbc_kind = KMicroVm, rbc_status = RunnerContractOnly,
       rbc_required_guarantees =
         [''image provenance and boot contract'', ''filesystem sharing policy'',
          ''secret injection boundary'', ''default-deny network enforcement'',
          ''CPU, memory, disk, and timeout limits'',
          ''teardown after success, failure, timeout, or cancellation'',
          ''artifact extraction with integrity metadata''],
       rbc_integration_verification =
         [''microVM runtime host'', ''network isolation test'',
          ''teardown and artifact integrity test'']\<rparr>,
      \<lparr>rbc_kind = KManagedCloud, rbc_status = RunnerContractOnly,
       rbc_required_guarantees =
         [''provider identity and credential boundary'', ''isolated workspace and secret storage'',
          ''network policy mapping'', ''resource limit mapping'',
          ''remote log streaming and task cancellation'',
          ''artifact return with integrity metadata'',
          ''provider-side cleanup and failure evidence''],
       rbc_integration_verification =
         [''managed provider sandbox account'', ''credential isolation test'',
          ''cleanup and artifact return test'']\<rparr>]"

definition contract_for_kind :: "runner_kind \<Rightarrow> runner_backend_contract option" where
  "contract_for_kind kind = find (\<lambda>c. rbc_kind c = kind) expansion_contracts"

section \<open>The Docker run plan\<close>

text \<open>
  A \<open>BTreeSet\<close> of paths is a list that is sorted by components; inserting a path that
  equals a member keeps the member.
\<close>

definition path_set_insert :: "path \<Rightarrow> path list \<Rightarrow> path list" where
  "path_set_insert p ps = (if list_ex (path_eq p) ps then ps else insort_key components p ps)"

definition path_set_of :: "path list \<Rightarrow> path list" where
  "path_set_of ps = foldl (\<lambda>s p. path_set_insert p s) [] ps"

record docker_runner =
  dr_host_env :: "(string, string) btree"
  dr_host_home :: "path option"
  dr_docker_command :: string

definition docker_runner_new :: "(string, string) btree \<Rightarrow> docker_runner" where
  "docker_runner_new env =
     \<lparr>dr_host_env = env,
      dr_host_home = (case bt_get env ''HOME'' of
          Some home \<Rightarrow> if trim home = [] then None else Some home
        | None \<Rightarrow> None),
      dr_docker_command = ''docker''\<rparr>"

definition ensure_docker_task :: "resolved_task \<Rightarrow> unit result" where
  "ensure_docker_task task =
     (case sb_kind (rt_sandbox task) of
        Docker \<Rightarrow> Inr ()
      | UnsupportedSandbox k \<Rightarrow>
          Inl (UnsupportedErr (''DockerRunner cannot run unsupported sandbox type '' @ k))
      | k \<Rightarrow> Inl (UnsupportedErr (''DockerRunner cannot run '' @ sandbox_label k @ '' sandbox tasks'')))"

definition validate_workspace_path :: "path \<Rightarrow> unit result" where
  "validate_workspace_path p =
     (if \<not> is_absolute p then Inl (Runner (''workspace host path must be absolute: '' @ p))
      else if contains_parent_dir p
      then Inl (Runner (''workspace host path must not contain '' @ [CHR 0x27] @ ''..'' @ [CHR 0x27] @ '': '' @ p))
      else Inr ())"

definition is_docker_socket_path :: "path \<Rightarrow> bool" where
  "is_docker_socket_path p \<longleftrightarrow>
     to_lower p = ''/var/run/docker.sock'' \<or> to_lower p = ''/run/docker.sock''
     \<or> suffix ''/docker.sock'' (to_lower p)"

definition validate_mount_host_path :: "path \<Rightarrow> unit result" where
  "validate_mount_host_path p =
     (if \<not> is_absolute p then Inl (Runner (''mount path must be absolute: '' @ p))
      else if contains_parent_dir p
      then Inl (Runner (''mount path must not contain '' @ [CHR 0x27] @ ''..'' @ [CHR 0x27] @ '': '' @ p))
      else if is_docker_socket_path p
      then Inl (Runner (''mount path would expose the host Docker socket: '' @ p))
      else Inr ())"

definition exposes_host_home :: "docker_runner \<Rightarrow> path \<Rightarrow> bool" where
  "exposes_host_home dr p \<longleftrightarrow>
     (case dr_host_home dr of
        None \<Rightarrow> False
      | Some home \<Rightarrow> path_eq p home \<or> path_starts_with home p)"

definition exposes_ssh_auth_socket :: "docker_runner \<Rightarrow> path \<Rightarrow> bool" where
  "exposes_ssh_auth_socket dr p \<longleftrightarrow>
     (case bt_get (dr_host_env dr) ''SSH_AUTH_SOCK'' of
        None \<Rightarrow> False
      | Some socket \<Rightarrow> path_eq p socket \<or> path_starts_with socket p \<or> path_starts_with p socket)"

definition validate_mount_path :: "docker_runner \<Rightarrow> resolved_task \<Rightarrow> path \<Rightarrow> unit result" where
  "validate_mount_path dr task p =
     rbind (validate_mount_host_path p) (\<lambda>_.
       if exposes_host_home dr p
       then Inl (Runner (''mount path would expose the host home directory: '' @ p))
       else if exposes_ssh_auth_socket dr p
       then Inl (Runner (''mount path would expose the host SSH agent socket: '' @ p))
       else if \<not> path_starts_with p (rt_workspace_host_path task)
       then Inl (Runner (''mount path is outside the task workspace: '' @ p))
       else Inr ())"

definition mixed_mode_overlap :: "path \<Rightarrow> path \<Rightarrow> unit result" where
  "mixed_mode_overlap r w =
     (if path_eq r w then Inr ()
      else if path_starts_with r w \<or> path_starts_with w r
      then Inl (Runner (''ambiguous read-only/read-write mount overlap: '' @ r @ '' and '' @ w))
      else Inr ())"

definition reject_mixed_mode_overlaps :: "path list \<Rightarrow> path list \<Rightarrow> unit result" where
  "reject_mixed_mode_overlaps reads writes =
     rbind (rmap_list (\<lambda>r. rmap_list (mixed_mode_overlap r) writes) reads) (\<lambda>_. Inr ())"

definition covers_spool :: "path \<Rightarrow> path \<Rightarrow> bool" where
  "covers_spool spool p \<longleftrightarrow> path_eq p spool \<or> path_starts_with spool p \<or> path_starts_with p spool"

definition reject_permission_mounts_cover_gateway_spool ::
  "path list \<Rightarrow> path list \<Rightarrow> path \<Rightarrow> unit result" where
  "reject_permission_mounts_cover_gateway_spool reads writes spool =
     (if list_ex (covers_spool spool) (reads @ writes)
      then Inl (Runner (''gateway spool must be exposed only through its dedicated mount: '' @ spool))
      else Inr ())"

text \<open>
  \<open>strip_prefix\<close> of two absolute paths: the text behind the components of the base, without
  separators and dots at its ends.
\<close>

fun drop_components :: "nat \<Rightarrow> string list \<Rightarrow> string list" where
  "drop_components n [] = []"
| "drop_components n (s # ss) =
     (if s = [] \<or> s = ''.'' then drop_components n ss
      else case n of 0 \<Rightarrow> s # ss | Suc k \<Rightarrow> drop_components k ss)"

definition strip_path_prefix :: "path \<Rightarrow> path \<Rightarrow> path option" where
  "strip_path_prefix p base =
     (if path_starts_with p base
      then Some (str_join ''/''
        (rev (dropWhile (\<lambda>s. s = [] \<or> s = ''.'')
          (rev (drop_components (length (filter (\<lambda>c. c \<noteq> RootDir) (components base)))
             (split_on CHR ''/'' p))))))
      else None)"

definition container_path_for :: "resolved_task \<Rightarrow> path \<Rightarrow> path result" where
  "container_path_for task p =
     (if path_eq p (rt_workspace_host_path task) then Inr (rt_workspace_container_path task)
      else case strip_path_prefix p (rt_workspace_host_path task) of
             None \<Rightarrow> Inl (Runner (''mount path is outside the task workspace: '' @ p))
           | Some relative \<Rightarrow> Inr (path_join (rt_workspace_container_path task) relative))"

definition gateway_spool_host_path :: "resolved_task \<Rightarrow> path result" where
  "gateway_spool_host_path task =
     (let tid = rt_id task
      in if tid = [] \<or> tid = ''.'' \<or> tid = ''..'' \<or> CHR ''/'' \<in> set tid \<or> CHR 0x5C \<in> set tid
            \<or> has_control tid
         then Inl (Runner (''task id is not a safe gateway spool path component: '' @ debug_str tid))
         else Inr (path_join (path_join (path_join (path_join (rt_workspace_host_path task)
                ''.taskfence'') ''tasks'') tid) ''gateway-spool''))"

definition gateway_spool_container_path :: path where
  "gateway_spool_container_path = ''/taskfence/gateway-spool''"

definition mount_of :: "resolved_task \<Rightarrow> mount_mode \<Rightarrow> path \<Rightarrow> mount_plan result" where
  "mount_of task mode p =
     rbind (container_path_for task p) (\<lambda>target.
       Inr \<lparr>mp_host_path = p, mp_container_path = target, mp_mode = mode\<rparr>)"

definition mount_sort_key :: "mount_plan \<Rightarrow> path_component list \<times> path_component list" where
  "mount_sort_key m = (components (mp_container_path m), components (mp_host_path m))"

definition spool_mount ::
  "docker_runner \<Rightarrow> resolved_task \<Rightarrow> path list \<Rightarrow> path list \<Rightarrow> path option result" where
  "spool_mount dr task reads writes =
     (if docker_gateway_spool_required task
      then rbind (gateway_spool_host_path task) (\<lambda>spool.
           rbind (validate_mount_path dr task spool) (\<lambda>_.
           rbind (reject_permission_mounts_cover_gateway_spool reads writes spool) (\<lambda>_.
             Inr (Some spool))))
      else Inr None)"

definition build_mount_plan :: "docker_runner \<Rightarrow> resolved_task \<Rightarrow> mount_plan list result" where
  "build_mount_plan dr task =
     (let paths = pm_paths (rt_permissions task)
      in rbind (validate_workspace_path (rt_workspace_host_path task)) (\<lambda>_.
         rbind (rmap_list (validate_mount_path dr task) (pp_read paths)) (\<lambda>_.
         rbind (rmap_list (validate_mount_path dr task) (pp_write paths)) (\<lambda>_.
         let reads = path_set_of (pp_read paths); writes = path_set_of (pp_write paths)
         in rbind (reject_mixed_mode_overlaps reads writes) (\<lambda>_.
            rbind (spool_mount dr task reads writes) (\<lambda>spool.
            rbind (rmap_list (mount_of task ReadOnly)
                     (filter (\<lambda>r. \<not> list_ex (path_eq r) writes) reads)) (\<lambda>read_mounts.
            rbind (rmap_list (mount_of task ReadWrite) writes) (\<lambda>write_mounts.
              Inr (sort_key mount_sort_key (read_mounts @ write_mounts @
                (case spool of
                   None \<Rightarrow> []
                 | Some p \<Rightarrow> [\<lparr>mp_host_path = p,
                      mp_container_path = gateway_spool_container_path, mp_mode = ReadWrite\<rparr>])))))))))))"

definition validate_env_name :: "string \<Rightarrow> unit result" where
  "validate_env_name name =
     (if name = [] \<or> CHR ''='' \<in> set name \<or> CHR 0x00 \<in> set name
      then Inl (Runner (''invalid environment variable name: '' @ debug_str name)) else Inr ())"

definition reject_sensitive_env_name :: "string \<Rightarrow> unit result" where
  "reject_sensitive_env_name name =
     (if name \<in> {''HOME'', ''SSH_AUTH_SOCK'', ''DOCKER_HOST''}
      then Inl (Runner (''environment variable '' @ name @ '' is not allowed in the Docker runner plan''))
      else Inr ())"

definition validate_env_value :: "string \<Rightarrow> string \<Rightarrow> unit result" where
  "validate_env_value name v =
     (if CHR 0x00 \<in> set v
      then Inl (Runner (''environment variable '' @ name @ '' must not contain NUL''))
      else if str_contains ''docker.sock'' v \<or> prefix ''unix://'' v
      then Inl (Runner (''environment variable '' @ name @ '' would expose a host socket''))
      else Inr ())"

fun host_env_plan ::
  "(string, string) btree \<Rightarrow> string list \<Rightarrow> (string, string) btree \<Rightarrow> (string, string) btree result" where
  "host_env_plan host [] env = Inr env"
| "host_env_plan host (name # names) env =
     rbind (validate_env_name name) (\<lambda>_.
     rbind (reject_sensitive_env_name name) (\<lambda>_.
       case bt_get host name of
         None \<Rightarrow> host_env_plan host names env
       | Some v \<Rightarrow>
           rbind (validate_env_value name v) (\<lambda>_.
             host_env_plan host names (bt_insert name v env))))"

definition spool_env_name :: string where "spool_env_name = ''TASKFENCE_GATEWAY_SPOOL''"
definition mode_env_name :: string where "mode_env_name = ''TASKFENCE_GATEWAY_MODE''"
definition egress_env_name :: string where
  "egress_env_name = ''TASKFENCE_GATEWAY_EGRESS_ALLOW_DOMAINS''"

definition build_env_plan :: "docker_runner \<Rightarrow> resolved_task \<Rightarrow> (string, string) btree result" where
  "build_env_plan dr task =
     rbind (host_env_plan (dr_host_env dr) (ep_allow (pm_env (rt_permissions task))) []) (\<lambda>env.
     let env1 = (if docker_gateway_spool_required task
                 then bt_insert spool_env_name gateway_spool_container_path env else env)
     in Inr (case gw_mode (rt_gateway task) of
               SpoolOnly \<Rightarrow> env1
             | LocalListener \<Rightarrow>
                 let env2 = bt_insert mode_env_name ''local_listener'' env1
                 in if docker_gateway_egress_enabled task
                    then bt_insert egress_env_name
                           (str_join '','' (np_allow_domains (pm_network (rt_permissions task)))) env2
                    else env2))"

datatype docker_network_mode = NetNone | NetBridge

definition build_network_plan :: "resolved_task \<Rightarrow> docker_network_mode result" where
  "build_network_plan task =
     (let network = pm_network (rt_permissions task)
      in if np_allow_domains network \<noteq> []
         then if \<not> docker_gateway_egress_enabled task then Inl (Runner allowlist_message)
              else Inr NetNone
         else case np_default network of NetAllow \<Rightarrow> Inr NetBridge | _ \<Rightarrow> Inr NetNone)"

definition build_prepared_gateway :: "resolved_task \<Rightarrow> prepared_gateway" where
  "build_prepared_gateway task =
     \<lparr>pg_mode = gw_mode (rt_gateway task),
      pg_spool_container_path =
        (if docker_gateway_spool_required task then Some gateway_spool_container_path else None),
      pg_egress =
        (if docker_gateway_egress_enabled task
         then Some (np_allow_domains (pm_network (rt_permissions task))) else None)\<rparr>"

record docker_run_plan =
  dp_prepared :: prepared_run
  dp_network :: docker_network_mode

definition docker_build_run_plan :: "docker_runner \<Rightarrow> resolved_task \<Rightarrow> docker_run_plan result" where
  "docker_build_run_plan dr task =
     rbind (ensure_docker_task task) (\<lambda>_.
     rbind (build_mount_plan dr task) (\<lambda>mounts.
     rbind (build_env_plan dr task) (\<lambda>env.
     rbind (build_network_plan task) (\<lambda>network.
       Inr \<lparr>dp_prepared =
              \<lparr>pr_task_id = rt_id task, pr_runner_kind = Docker, pr_image = sb_image (rt_sandbox task),
               pr_mounts = mounts, pr_env = env, pr_network = pm_network (rt_permissions task),
               pr_gateway = build_prepared_gateway task, pr_limits = sb_limits (rt_sandbox task),
               pr_ssh = None\<rparr>,
            dp_network = network\<rparr>))))"

definition docker_prepare :: "docker_runner \<Rightarrow> resolved_task \<Rightarrow> prepared_run result" where
  "docker_prepare dr task = rbind (docker_build_run_plan dr task) (\<lambda>plan. Inr (dp_prepared plan))"

section \<open>Docker command lines\<close>

definition has_nul :: "string \<Rightarrow> bool" where
  "has_nul s \<longleftrightarrow> CHR 0x00 \<in> set s"

definition reject_docker_arg :: "string \<Rightarrow> string \<Rightarrow> unit result" where
  "reject_docker_arg field v =
     (if has_nul v then Inl (Runner (field @ '' must not contain NUL'')) else Inr ())"

definition reject_docker_mount_path :: "string \<Rightarrow> path \<Rightarrow> unit result" where
  "reject_docker_mount_path field p =
     rbind (reject_docker_arg field p) (\<lambda>_.
       if CHR '','' \<in> set p
       then Inl (Runner (field @ '' must not contain '' @ [CHR 0x27] @ '','' @ [CHR 0x27] @
              '' for Docker --mount syntax: '' @ p))
       else Inr ())"

definition docker_network_arg :: "prepared_run \<Rightarrow> string result" where
  "docker_network_arg prepared =
     (if np_allow_domains (pr_network prepared) \<noteq> []
      then if pg_egress (pr_gateway prepared) \<noteq> None then Inr ''none''
           else Inl (Runner ''local Docker cannot enforce domain allowlists without a prepared gateway egress plan'')
      else case np_default (pr_network prepared) of NetAllow \<Rightarrow> Inr ''bridge'' | _ \<Rightarrow> Inr ''none'')"

definition docker_mount_arg :: "mount_plan \<Rightarrow> string result" where
  "docker_mount_arg m =
     rbind (reject_docker_mount_path ''mount source'' (mp_host_path m)) (\<lambda>_.
     rbind (reject_docker_mount_path ''mount target'' (mp_container_path m)) (\<lambda>_.
       Inr (''type=bind,source='' @ mp_host_path m @ '',target='' @ mp_container_path m @
            (if mp_mode m = ReadOnly then '',readonly'' else []))))"

text \<open>
  Characters are bytes: of a character of several bytes the first one is replaced and the
  continuation bytes vanish.
\<close>

definition container_char :: "char \<Rightarrow> string" where
  "container_char c =
     (if is_alnum c \<or> c \<in> set ''_-.'' then [c]
      else if 128 \<le> byte c \<and> byte c < 192 then [] else ''-'')"

definition docker_container_name :: "task_id \<Rightarrow> string" where
  "docker_container_name tid = take 120 (''taskfence-'' @ concat (map container_char tid))"

definition env_arg :: "string \<times> string \<Rightarrow> string list result" where
  "env_arg nv =
     rbind (reject_docker_arg ''environment variable name'' (fst nv)) (\<lambda>_.
     rbind (reject_docker_arg ''environment variable value'' (snd nv)) (\<lambda>_.
       Inr [''--env'', fst nv @ ''='' @ snd nv]))"

definition limit_arg :: "string \<Rightarrow> string \<Rightarrow> string \<Rightarrow> string option \<Rightarrow> string list result" where
  "limit_arg field flag shown v =
     (case v of
        None \<Rightarrow> Inr []
      | Some v \<Rightarrow> rbind (reject_docker_arg field v) (\<lambda>_. Inr [flag, shown @ v]))"

definition build_docker_run_args ::
  "string \<Rightarrow> prepared_run \<Rightarrow> agent_invocation \<Rightarrow> string list result" where
  "build_docker_run_args runner_ref prepared invocation =
     (case pr_image prepared of
        None \<Rightarrow> Inl (Runner ''sandbox.image is required for Docker execution'')
      | Some img \<Rightarrow>
          rbind (reject_docker_arg ''sandbox.image'' img) (\<lambda>_.
          rbind (reject_docker_arg ''agent executable'' (in_executable invocation)) (\<lambda>_.
          rbind (rmap_list (reject_docker_arg ''agent argument'') (in_args invocation)) (\<lambda>_.
          rbind (docker_network_arg prepared) (\<lambda>network.
          rbind (rmap_list (\<lambda>m. rbind (docker_mount_arg m) (\<lambda>a. Inr [''--mount'', a]))
                   (pr_mounts prepared)) (\<lambda>mounts.
          rbind (rmap_list env_arg (pr_env prepared)) (\<lambda>env.
          rbind (limit_arg ''memory limit'' ''--memory'' [] (lim_memory (pr_limits prepared))) (\<lambda>memory.
          rbind (limit_arg ''disk limit'' ''--storage-opt'' ''size='' (lim_disk (pr_limits prepared))) (\<lambda>disk.
            Inr ([''run'', ''--rm'', ''--pull=never'', ''--name'', runner_ref, ''--workdir'',
                  in_working_dir invocation, ''--network'', network] @
                 concat mounts @ concat env @
                 (case lim_cpu (pr_limits prepared) of
                    None \<Rightarrow> [] | Some cpu \<Rightarrow> [''--cpus'', dec_digits (unat cpu)]) @
                 memory @ disk @ [img, in_executable invocation] @ in_args invocation))))))))))"

end
