(* ===== verification/Runner_Exec.thy ===== *)
theory Runner_Exec
  imports Runner_Plan
begin

text \<open>
  The runners, second part: the SSH run plan and command line, the execution of a command with a
  timeout, and the \<open>Runner\<close> operations of the Docker, SSH, unsupported, expanded and fake runners.

  The state holds the two completion stores (\<open>None\<close> is a poisoned mutex) and the log of the
  processes that were started; a world answers for the operating system and may depend on that
  log. \<open>wait_child\<close> is the polling loop as a partial function: \<open>None\<close> is a loop that never
  ends. The calls that block (the wait for a killed child, the output of \<open>docker rm\<close>, the end of a
  pipe that descendants of the child may hold open) may never answer, and then the command never
  ends. The addition of a duration to an \<open>Instant\<close> panics when the seconds leave \<open>i64\<close>.
\<close>

section \<open>The SSH run plan\<close>

definition ensure_remote_ssh_task :: "resolved_task \<Rightarrow> unit result" where
  "ensure_remote_ssh_task task =
     (if sb_kind (rt_sandbox task) = RemoteSsh then Inr ()
      else Inl (UnsupportedErr (''RemoteSshRunner cannot run '' @ sandbox_label (sb_kind (rt_sandbox task)) @
             '' sandbox tasks'')))"

definition required :: "string \<Rightarrow> 'a option \<Rightarrow> 'a result" where
  "required message v = (case v of None \<Rightarrow> Inl (Runner message) | Some x \<Rightarrow> Inr x)"

definition default_prepared_gateway :: prepared_gateway where
  "default_prepared_gateway =
     \<lparr>pg_mode = SpoolOnly, pg_spool_container_path = None, pg_egress = None\<rparr>"

definition ssh_prepare :: "resolved_task \<Rightarrow> prepared_run result" where
  "ssh_prepare task =
     rbind (ensure_remote_ssh_task task) (\<lambda>_.
     rbind (ensure_sufficient_for_task (remote_ssh_capability task) task) (\<lambda>_.
     rbind (required ''sandbox.ssh is required'' (sb_ssh (rt_sandbox task))) (\<lambda>ssh.
     rbind (required ''sandbox.ssh.workspace is required'' (ssh_workspace ssh)) (\<lambda>workspace.
     rbind (required ''sandbox.ssh.identity_file is required'' (ssh_identity_file ssh)) (\<lambda>identity.
       Inr \<lparr>pr_task_id = rt_id task, pr_runner_kind = RemoteSsh, pr_image = None, pr_mounts = [],
            pr_env = [], pr_network = pm_network (rt_permissions task),
            pr_gateway = default_prepared_gateway, pr_limits = sb_limits (rt_sandbox task),
            pr_ssh = Some \<lparr>ps_host = ssh_host ssh, ps_user = ssh_user ssh, ps_port = ssh_port ssh,
              ps_workspace = workspace, ps_identity_file = identity,
              ps_known_hosts_file = ssh_known_hosts_file ssh\<rparr>\<rparr>)))))"

definition reject_ssh_segment :: "string \<Rightarrow> string \<Rightarrow> unit result" where
  "reject_ssh_segment field v =
     (if v = [] \<or> CHR ''@'' \<in> set v \<or> has_nul v \<or> has_control v
      then Inl (Runner (field @ '' must be a non-empty SSH segment without control characters or '' @
             [CHR 0x27] @ ''@'' @ [CHR 0x27]))
      else Inr ())"

definition reject_ssh_arg :: "string \<Rightarrow> string \<Rightarrow> unit result" where
  "reject_ssh_arg field v =
     (if has_nul v \<or> CHR 0x0D \<in> set v \<or> CHR 0x0A \<in> set v
      then Inl (Runner (field @ '' must not contain NUL or newlines'')) else Inr ())"

definition reject_ssh_path :: "string \<Rightarrow> path \<Rightarrow> unit result" where
  "reject_ssh_path field p =
     rbind (reject_ssh_arg field p) (\<lambda>_.
       if \<not> is_absolute p \<or> contains_parent_dir p
       then Inl (Runner (field @ '' must be an absolute path without '' @ [CHR 0x27] @ ''..'' @
              [CHR 0x27] @ '': '' @ p))
       else Inr ())"

definition quote_char :: "char \<Rightarrow> string" where
  "quote_char c = (if c = CHR 0x27 then [CHR 0x27, CHR 0x5C, CHR 0x27, CHR 0x27] else [c])"

definition shell_quote :: "string \<Rightarrow> string result" where
  "shell_quote v =
     rbind (reject_ssh_arg ''remote shell argument'' v) (\<lambda>_.
       Inr (CHR 0x27 # concat (map quote_char v) @ [CHR 0x27]))"

definition remote_command :: "prepared_ssh_run \<Rightarrow> agent_invocation \<Rightarrow> string result" where
  "remote_command ssh invocation =
     rbind (shell_quote (in_executable invocation)) (\<lambda>executable.
     rbind (rmap_list shell_quote (in_args invocation)) (\<lambda>args.
     rbind (shell_quote (ps_workspace ssh)) (\<lambda>workspace.
       Inr (''cd '' @ workspace @ '' && exec '' @ str_join '' '' (executable # args)))))"

definition ssh_target :: "prepared_ssh_run \<Rightarrow> string" where
  "ssh_target ssh =
     (case ps_user ssh of Some user \<Rightarrow> user @ ''@'' @ ps_host ssh | None \<Rightarrow> ps_host ssh)"

definition build_ssh_args :: "prepared_run \<Rightarrow> agent_invocation \<Rightarrow> string list result" where
  "build_ssh_args prepared invocation =
     (case pr_ssh prepared of
        None \<Rightarrow> Inl (Runner ''prepared SSH plan is missing'')
      | Some ssh \<Rightarrow>
          rbind (reject_ssh_segment ''sandbox.ssh.host'' (ps_host ssh)) (\<lambda>_.
          rbind (ropt (reject_ssh_segment ''sandbox.ssh.user'') (ps_user ssh)) (\<lambda>_.
          rbind (reject_ssh_path ''sandbox.ssh.workspace'' (ps_workspace ssh)) (\<lambda>_.
          rbind (reject_ssh_path ''sandbox.ssh.identity_file'' (ps_identity_file ssh)) (\<lambda>_.
          rbind (ropt (reject_ssh_path ''sandbox.ssh.known_hosts_file'') (ps_known_hosts_file ssh)) (\<lambda>_.
          rbind (reject_ssh_arg ''agent executable'' (in_executable invocation)) (\<lambda>_.
          rbind (reject_ssh_path ''agent working directory'' (in_working_dir invocation)) (\<lambda>_.
          rbind (rmap_list (reject_ssh_arg ''agent argument'') (in_args invocation)) (\<lambda>_.
            if pr_env prepared \<noteq> [] \<or> in_env invocation \<noteq> []
            then Inl (Runner ''remote SSH runner does not forward environment variables'')
            else rbind (remote_command ssh invocation) (\<lambda>command.
              Inr ([''-o'', ''BatchMode=yes'', ''-o'', ''ForwardAgent=no'', ''-o'',
                    ''PermitLocalCommand=no'', ''-o'', ''IdentitiesOnly=yes'', ''-o'',
                    ''StrictHostKeyChecking=yes'', ''-i'', ps_identity_file ssh] @
                   (case ps_known_hosts_file ssh of
                      None \<Rightarrow> [] | Some f \<Rightarrow> [''-o'', ''UserKnownHostsFile='' @ f]) @
                   (case ps_port ssh of None \<Rightarrow> [] | Some port \<Rightarrow> [''-p'', dec_digits (unat port)]) @
                   [''--'', ssh_target ssh, command])))))))))))"

definition remote_ssh_runner_ref :: "task_id \<Rightarrow> string" where
  "remote_ssh_runner_ref tid = ''remote-ssh:'' @ docker_container_name tid"

section \<open>Processes\<close>

record child_status =
  cs_code :: "int option"
  cs_signal :: "nat option"

text \<open>
  A started child: the answers of \<open>try_wait\<close> and the clock (nanoseconds) at each poll, of
  \<open>kill\<close> and of the blocking \<open>wait\<close> (\<open>None\<close> never answers), and how its readers end. A reader
  ends at the end of its pipe, which every process that inherited the pipe can delay.
\<close>

datatype reader_end = ReaderBlocked | ReaderPanicked | ReaderGot string

record child =
  ch_poll :: "nat \<Rightarrow> string + child_status option"
  ch_clock :: "nat \<Rightarrow> int"
  ch_started :: int
  ch_kill :: "string + unit"
  ch_wait :: "(string + child_status) option"
  ch_stdout :: reader_end
  ch_stderr :: reader_end

datatype spawn_answer = SpawnMissing | SpawnFailed string | Spawned child

text \<open>
  The end of \<open>Command::output\<close>, which waits for the process and its pipes. After \<open>OutputFailed\<close> the
  process may have been created, and it is logged.
\<close>

datatype output_answer = OutputDone | OutputMissing | OutputFailed string | OutputNever

datatype process = Process (process_executable: string) (process_args: "string list")

record world =
  wd_spawn :: "process list \<Rightarrow> string \<Rightarrow> string list \<Rightarrow> spawn_answer"
  wd_output :: "process list \<Rightarrow> string \<Rightarrow> string list \<Rightarrow> output_answer"

type_synonym completed = "(string, run_output) btree option"

record runner_state =
  rst_docker :: completed
  rst_ssh :: completed
  rst_started :: "process list"

definition initial_runner_state :: runner_state where
  "initial_runner_state = \<lparr>rst_docker = Some [], rst_ssh = Some [], rst_started = []\<rparr>"

definition started :: "string \<Rightarrow> string list \<Rightarrow> runner_state \<Rightarrow> runner_state" where
  "started executable args s = s\<lparr>rst_started := rst_started s @ [Process executable args]\<rparr>"

text \<open>A call may return, panic, or never end.\<close>

datatype 'a run_end = Returned 'a | Panics | Never_ends

fun run_bind :: "'a result run_end \<Rightarrow> ('a \<Rightarrow> 'b result run_end) \<Rightarrow> 'b result run_end" where
  "run_bind (Returned (Inr x)) f = f x"
| "run_bind (Returned (Inl err)) f = Returned (Inl err)"
| "run_bind Panics f = Panics"
| "run_bind Never_ends f = Never_ends"

record process_messages =
  msg_unavailable :: string
  msg_start :: string
  msg_wait :: string
  msg_kill :: string
  msg_stdout :: string
  msg_stderr :: string

datatype wait_end = WaitFailed string | Exited child_status | Expired

partial_function (option) wait_child :: "child \<Rightarrow> int option \<Rightarrow> nat \<Rightarrow> wait_end option" where
  [code]: "wait_child c deadline n =
     (case ch_poll c n of
        Inl err \<Rightarrow> Some (WaitFailed err)
      | Inr (Some status) \<Rightarrow> Some (Exited status)
      | Inr None \<Rightarrow>
          if (case deadline of None \<Rightarrow> False | Some d \<Rightarrow> d \<le> ch_clock c n) then Some Expired
          else wait_child c deadline (n + 1))"

definition minutes_to_seconds :: "u64 \<Rightarrow> u64" where
  "minutes_to_seconds m = (if unat m * 60 < 2 ^ 64 then m * 60 else - 1)"

definition instant_add :: "int \<Rightarrow> u64 \<Rightarrow> int option" where
  "instant_add now secs =
     (let t = now + uint secs * 1000000000
      in if t < 2 ^ 63 * 1000000000 then Some t else None)"

definition join_reader :: "reader_end \<Rightarrow> string \<Rightarrow> string result run_end" where
  "join_reader r stream =
     (case r of
        ReaderBlocked \<Rightarrow> Never_ends
      | ReaderPanicked \<Rightarrow> Returned (Inl (Runner (stream @ '' reader panicked'')))
      | ReaderGot t \<Rightarrow> Returned (Inr t))"

definition exit_status_of :: "bool \<Rightarrow> child_status \<Rightarrow> exit_status" where
  "exit_status_of timed_out status =
     (if timed_out then \<lparr>ex_code = None, ex_timed_out = True, ex_signal = Some ''timeout''\<rparr>
      else \<lparr>ex_code = cs_code status, ex_timed_out = False,
            ex_signal = map_option dec_digits (cs_signal status)\<rparr>)"

definition collect_output ::
  "process_messages \<Rightarrow> child \<Rightarrow> bool \<Rightarrow> child_status \<Rightarrow> run_output result run_end" where
  "collect_output msg c timed_out status =
     run_bind (join_reader (ch_stdout c) (msg_stdout msg)) (\<lambda>out.
     run_bind (join_reader (ch_stderr c) (msg_stderr msg)) (\<lambda>err.
       Returned (Inr \<lparr>ro_exit_status = exit_status_of timed_out status, ro_stdout = out,
                      ro_stderr = err\<rparr>)))"

text \<open>The cleanup \<open>docker rm -f\<close>: its result is ignored, its end is awaited.\<close>

definition run_cleanup ::
  "world \<Rightarrow> (string \<times> string) option \<Rightarrow> runner_state \<Rightarrow> unit result run_end \<times> runner_state" where
  "run_cleanup w cleanup s =
     (case cleanup of
        None \<Rightarrow> (Returned (Inr ()), s)
      | Some (docker_command, runner_ref) \<Rightarrow>
          (let args = [''rm'', ''-f'', runner_ref]
           in case wd_output w (rst_started s) docker_command args of
                OutputMissing \<Rightarrow> (Returned (Inr ()), s)
              | OutputNever \<Rightarrow> (Never_ends, started docker_command args s)
              | _ \<Rightarrow> (Returned (Inr ()), started docker_command args s)))"

definition kill_and_wait ::
  "world \<Rightarrow> process_messages \<Rightarrow> child \<Rightarrow> (string \<times> string) option \<Rightarrow> runner_state \<Rightarrow>
   run_output result run_end \<times> runner_state" where
  "kill_and_wait w msg c cleanup s =
     (case ch_kill c of
        Inl err \<Rightarrow> (Returned (Inl (Runner (''failed to kill '' @ msg_kill msg @ '': '' @ err))), s)
      | Inr _ \<Rightarrow>
          (let (e, s1) = run_cleanup w cleanup s
           in (run_bind e (\<lambda>_.
                 case ch_wait c of
                   None \<Rightarrow> Never_ends
                 | Some (Inl err) \<Rightarrow>
                     Returned (Inl (Runner (''failed to wait for killed '' @ msg_wait msg @ '': '' @ err)))
                 | Some (Inr status) \<Rightarrow> collect_output msg c True status), s1)))"

definition run_command_with_timeout ::
  "world \<Rightarrow> string \<Rightarrow> string list \<Rightarrow> u64 option \<Rightarrow> process_messages \<Rightarrow> (string \<times> string) option \<Rightarrow>
   runner_state \<Rightarrow> run_output result run_end \<times> runner_state" where
  "run_command_with_timeout w executable args timeout msg cleanup s =
     (case wd_spawn w (rst_started s) executable args of
        SpawnMissing \<Rightarrow> (Returned (Inl (Runner (msg_unavailable msg))), s)
      | SpawnFailed err \<Rightarrow>
          (Returned (Inl (Runner (''failed to start '' @ msg_start msg @ '': '' @ err))), s)
      | Spawned c \<Rightarrow>
          let s1 = started executable args s
          in case (case timeout of
                     None \<Rightarrow> Some None
                   | Some secs \<Rightarrow> map_option Some (instant_add (ch_started c) secs)) of
               None \<Rightarrow> (Panics, s1)
             | Some deadline \<Rightarrow>
                 (case wait_child c deadline 0 of
                    None \<Rightarrow> (Never_ends, s1)
                  | Some (WaitFailed err) \<Rightarrow>
                      (Returned (Inl (Runner (''failed to wait for '' @ msg_wait msg @ '': '' @ err))), s1)
                  | Some (Exited status) \<Rightarrow> (collect_output msg c False status, s1)
                  | Some Expired \<Rightarrow> kill_and_wait w msg c cleanup s1))"

definition docker_messages :: process_messages where
  "docker_messages =
     \<lparr>msg_unavailable = ''docker executable is unavailable'', msg_start = ''docker'',
      msg_wait = ''docker'', msg_kill = ''docker'', msg_stdout = ''docker stdout'',
      msg_stderr = ''docker stderr''\<rparr>"

definition ssh_messages :: process_messages where
  "ssh_messages =
     \<lparr>msg_unavailable = ''ssh executable is unavailable'', msg_start = ''ssh'',
      msg_wait = ''ssh'', msg_kill = ''ssh'', msg_stdout = ''ssh stdout'', msg_stderr = ''ssh stderr''\<rparr>"

definition run_docker_command ::
  "world \<Rightarrow> string \<Rightarrow> string \<Rightarrow> string list \<Rightarrow> u64 option \<Rightarrow> runner_state \<Rightarrow>
   run_output result run_end \<times> runner_state" where
  "run_docker_command w docker_command runner_ref args timeout s =
     run_command_with_timeout w docker_command args timeout docker_messages
       (Some (docker_command, runner_ref)) s"

section \<open>The Docker runner\<close>

definition completion_poisoned :: "string \<Rightarrow> 'a result" where
  "completion_poisoned runner = Inl (Runner (runner @ '' runner completion store is poisoned''))"

definition docker_start ::
  "world \<Rightarrow> docker_runner \<Rightarrow> prepared_run \<Rightarrow> agent_invocation \<Rightarrow> runner_state \<Rightarrow>
   running_task result run_end \<times> runner_state" where
  "docker_start w dr prepared invocation s =
     (let runner_ref = docker_container_name (pr_task_id prepared)
      in case build_docker_run_args runner_ref prepared invocation of
           Inl err \<Rightarrow> (Returned (Inl err), s)
         | Inr args \<Rightarrow>
             (case run_docker_command w (dr_docker_command dr) runner_ref args
                     (map_option minutes_to_seconds (lim_timeout_minutes (pr_limits prepared))) s of
                (Panics, s1) \<Rightarrow> (Panics, s1)
              | (Never_ends, s1) \<Rightarrow> (Never_ends, s1)
              | (Returned (Inl err), s1) \<Rightarrow> (Returned (Inl err), s1)
              | (Returned (Inr output), s1) \<Rightarrow>
                  (case rst_docker s1 of
                     None \<Rightarrow> (Returned (completion_poisoned ''Docker''), s1)
                   | Some store \<Rightarrow>
                       (Returned (Inr \<lparr>rn_task_id = pr_task_id prepared, rn_runner_ref = runner_ref\<rparr>),
                        s1\<lparr>rst_docker := Some (bt_insert runner_ref output store)\<rparr>))))"

definition docker_stop ::
  "world \<Rightarrow> docker_runner \<Rightarrow> running_task \<Rightarrow> runner_state \<Rightarrow> unit result run_end \<times> runner_state" where
  "docker_stop w dr running s =
     (let args = [''rm'', ''-f'', rn_runner_ref running]
      in case wd_output w (rst_started s) (dr_docker_command dr) args of
           OutputDone \<Rightarrow> (Returned (Inr ()), started (dr_docker_command dr) args s)
         | OutputNever \<Rightarrow> (Never_ends, started (dr_docker_command dr) args s)
         | OutputMissing \<Rightarrow> (Returned (Inl (Runner ''docker executable is unavailable'')), s)
         | OutputFailed err \<Rightarrow>
             (Returned (Inl (Runner (''failed to stop Docker container '' @ rn_runner_ref running @ '': '' @ err))),
              started (dr_docker_command dr) args s))"

definition take_completed ::
  "string \<Rightarrow> string \<Rightarrow> completed \<Rightarrow> run_output result \<times> completed" where
  "take_completed runner key completed =
     (case completed of
        None \<Rightarrow> (completion_poisoned runner, None)
      | Some store \<Rightarrow>
          (case bt_get store key of
             None \<Rightarrow> (Inl (Runner (''no completed '' @ runner @ '' run was found for '' @ key)), Some store)
           | Some output \<Rightarrow> (Inr output, Some (filter (\<lambda>kv. fst kv \<noteq> key) store))))"

definition docker_collect_exit :: "running_task \<Rightarrow> runner_state \<Rightarrow> run_output result \<times> runner_state" where
  "docker_collect_exit running s =
     (let (r, completed) = take_completed ''Docker'' (rn_runner_ref running) (rst_docker s)
      in (r, s\<lparr>rst_docker := completed\<rparr>))"

section \<open>The SSH runner\<close>

definition ssh_start ::
  "world \<Rightarrow> string \<Rightarrow> prepared_run \<Rightarrow> agent_invocation \<Rightarrow> runner_state \<Rightarrow>
   running_task result run_end \<times> runner_state" where
  "ssh_start w ssh_command prepared invocation s =
     (if pr_runner_kind prepared \<noteq> RemoteSsh
      then (Returned (Inl (Runner (''RemoteSshRunner cannot run '' @ sandbox_label (pr_runner_kind prepared) @
              '' sandbox tasks''))), s)
      else
        let runner_ref = remote_ssh_runner_ref (pr_task_id prepared)
        in case build_ssh_args prepared invocation of
             Inl err \<Rightarrow> (Returned (Inl err), s)
           | Inr args \<Rightarrow>
               (case run_command_with_timeout w ssh_command args
                       (map_option minutes_to_seconds (lim_timeout_minutes (pr_limits prepared)))
                       ssh_messages None s of
                  (Panics, s1) \<Rightarrow> (Panics, s1)
                | (Never_ends, s1) \<Rightarrow> (Never_ends, s1)
                | (Returned (Inl err), s1) \<Rightarrow> (Returned (Inl err), s1)
                | (Returned (Inr output), s1) \<Rightarrow>
                    (case rst_ssh s1 of
                       None \<Rightarrow> (Returned (completion_poisoned ''remote SSH''), s1)
                     | Some store \<Rightarrow>
                         (Returned (Inr \<lparr>rn_task_id = pr_task_id prepared, rn_runner_ref = runner_ref\<rparr>),
                          s1\<lparr>rst_ssh := Some (bt_insert runner_ref output store)\<rparr>))))"

definition ssh_stop :: "running_task \<Rightarrow> runner_state \<Rightarrow> unit result run_end \<times> runner_state" where
  "ssh_stop running s = (Returned (Inr ()), s)"

definition ssh_collect_exit :: "running_task \<Rightarrow> runner_state \<Rightarrow> run_output result \<times> runner_state" where
  "ssh_collect_exit running s =
     (let (r, completed) = take_completed ''remote SSH'' (rn_runner_ref running) (rst_ssh s)
      in (r, s\<lparr>rst_ssh := completed\<rparr>))"

section \<open>The expanded runner\<close>

definition expanded_prepare :: "docker_runner \<Rightarrow> resolved_task \<Rightarrow> prepared_run result" where
  "expanded_prepare dr task =
     rbind (ensure_capable task) (\<lambda>_.
       case sb_kind (rt_sandbox task) of
         Docker \<Rightarrow> docker_prepare dr task
       | RemoteSsh \<Rightarrow> ssh_prepare task
       | k \<Rightarrow> unsupported_prepare (from_sandbox k) task)"

definition expanded_start ::
  "world \<Rightarrow> docker_runner \<Rightarrow> string \<Rightarrow> prepared_run \<Rightarrow> agent_invocation \<Rightarrow> runner_state \<Rightarrow>
   running_task result run_end \<times> runner_state" where
  "expanded_start w dr ssh_command prepared invocation s =
     (case pr_runner_kind prepared of
        Docker \<Rightarrow> docker_start w dr prepared invocation s
      | RemoteSsh \<Rightarrow> ssh_start w ssh_command prepared invocation s
      | k \<Rightarrow> (Returned (not_implemented (sandbox_label k)), s))"

definition is_ssh_ref :: "running_task \<Rightarrow> bool" where
  "is_ssh_ref running \<longleftrightarrow> prefix ''remote-ssh:'' (rn_runner_ref running)"

definition expanded_stop ::
  "world \<Rightarrow> docker_runner \<Rightarrow> running_task \<Rightarrow> runner_state \<Rightarrow> unit result run_end \<times> runner_state" where
  "expanded_stop w dr running s =
     (if is_ssh_ref running then ssh_stop running s else docker_stop w dr running s)"

definition expanded_collect_exit :: "running_task \<Rightarrow> runner_state \<Rightarrow> run_output result \<times> runner_state" where
  "expanded_collect_exit running s =
     (if is_ssh_ref running then ssh_collect_exit running s else docker_collect_exit running s)"

section \<open>The fake runner\<close>

record fake_runner =
  fr_exit_status :: exit_status
  fr_prepare_error :: "string option"
  fr_start_error :: "string option"
  fr_collect_error :: "string option"

text \<open>What the fake runner recorded; \<open>None\<close> is a poisoned mutex.\<close>

record fake_runner_state =
  fk_prepared_runs :: "prepared_run list"
  fk_invocations :: "agent_invocation list"
  fk_stopped_tasks :: "running_task list"

definition fake_with_exit_status :: "exit_status \<Rightarrow> fake_runner" where
  "fake_with_exit_status status =
     \<lparr>fr_exit_status = status, fr_prepare_error = None, fr_start_error = None, fr_collect_error = None\<rparr>"

definition fake_succeeding :: fake_runner where
  "fake_succeeding = fake_with_exit_status \<lparr>ex_code = Some 0, ex_timed_out = False, ex_signal = None\<rparr>"

definition fake_failing :: "int \<Rightarrow> fake_runner" where
  "fake_failing code = fake_with_exit_status \<lparr>ex_code = Some code, ex_timed_out = False, ex_signal = None\<rparr>"

definition fake_timed_out :: fake_runner where
  "fake_timed_out =
     fake_with_exit_status \<lparr>ex_code = None, ex_timed_out = True, ex_signal = Some ''timeout''\<rparr>"

definition fake_prepare :: "fake_runner \<Rightarrow> resolved_task \<Rightarrow> prepared_run result" where
  "fake_prepare fr task =
     (case fr_prepare_error fr of
        Some message \<Rightarrow> Inl (Runner message)
      | None \<Rightarrow> Inr \<lparr>pr_task_id = rt_id task, pr_runner_kind = sb_kind (rt_sandbox task),
           pr_image = sb_image (rt_sandbox task), pr_mounts = [], pr_env = [],
           pr_network = pm_network (rt_permissions task), pr_gateway = build_prepared_gateway task,
           pr_limits = sb_limits (rt_sandbox task), pr_ssh = None\<rparr>)"

definition fake_poisoned :: "'a result" where
  "fake_poisoned = Inl (Runner ''fake runner state lock poisoned'')"

definition fake_start ::
  "fake_runner \<Rightarrow> prepared_run \<Rightarrow> agent_invocation \<Rightarrow> fake_runner_state option \<Rightarrow>
   running_task result \<times> fake_runner_state option" where
  "fake_start fr prepared invocation st =
     (case fr_start_error fr of
        Some message \<Rightarrow> (Inl (Runner message), st)
      | None \<Rightarrow>
          (case st of
             None \<Rightarrow> (fake_poisoned, None)
           | Some s \<Rightarrow>
               (Inr \<lparr>rn_task_id = pr_task_id prepared, rn_runner_ref = ''fake-runner:'' @ pr_task_id prepared\<rparr>,
                Some (s\<lparr>fk_prepared_runs := fk_prepared_runs s @ [prepared],
                        fk_invocations := fk_invocations s @ [invocation]\<rparr>))))"

definition fake_stop ::
  "running_task \<Rightarrow> fake_runner_state option \<Rightarrow> unit result \<times> fake_runner_state option" where
  "fake_stop running st =
     (case st of
        None \<Rightarrow> (fake_poisoned, None)
      | Some s \<Rightarrow> (Inr (), Some (s\<lparr>fk_stopped_tasks := fk_stopped_tasks s @ [running]\<rparr>)))"

definition fake_collect_exit :: "fake_runner \<Rightarrow> running_task \<Rightarrow> run_output result" where
  "fake_collect_exit fr running =
     (case fr_collect_error fr of
        Some message \<Rightarrow> Inl (Runner message)
      | None \<Rightarrow> Inr \<lparr>ro_exit_status = fr_exit_status fr, ro_stdout = [], ro_stderr = []\<rparr>)"

end
