(* ===== verification/Agent_Profiles.thy ===== *)
theory Agent_Profiles
  imports Core_Types
begin

text \<open>
  The agent adapters (\<open>crates/taskfence-agent/src/lib.rs\<close>): the generic invocation, the
  profiles of known coding agents, their invocation and their policy template.
\<close>

definition normalize_agent_kind :: "string \<Rightarrow> string" where
  "normalize_agent_kind kind = to_lower (trim kind)"

definition agent_reject_nul :: "string \<Rightarrow> string \<Rightarrow> unit result" where
  "agent_reject_nul field v =
     (if CHR 0x00 \<in> set v then Inl (Config (field @ '' must not contain NUL'')) else Inr ())"

definition validate_executable :: "string \<Rightarrow> string \<Rightarrow> unit result" where
  "validate_executable field v =
     (if has_whitespace v
      then Inl (Config (field @ '' must be an executable; put arguments in agent.args''))
      else agent_reject_nul field v)"

datatype specialized_agent_profile = CodexCli | ClaudeCode | GeminiCli | OpenHands

definition profile_parse :: "string \<Rightarrow> specialized_agent_profile option" where
  "profile_parse kind =
     (let k = normalize_agent_kind kind
      in if k \<in> {''codex'', ''codex_cli'', ''codex-cli''} then Some CodexCli
         else if k \<in> {''claude_code'', ''claude-code'', ''claude''} then Some ClaudeCode
         else if k \<in> {''gemini'', ''gemini_cli'', ''gemini-cli''} then Some GeminiCli
         else if k \<in> {''openhands'', ''open_hands'', ''open-hands''} then Some OpenHands
         else None)"

fun profile_label :: "specialized_agent_profile \<Rightarrow> string" where
  "profile_label CodexCli = ''codex_cli''"
| "profile_label ClaudeCode = ''claude_code''"
| "profile_label GeminiCli = ''gemini_cli''"
| "profile_label OpenHands = ''openhands''"

fun profile_default_command :: "specialized_agent_profile \<Rightarrow> string" where
  "profile_default_command CodexCli = ''codex''"
| "profile_default_command ClaudeCode = ''claude''"
| "profile_default_command GeminiCli = ''gemini''"
| "profile_default_command OpenHands = ''openhands''"

fun prompt_env_name :: "specialized_agent_profile \<Rightarrow> string" where
  "prompt_env_name CodexCli = ''TASKFENCE_CODEX_PROMPT''"
| "prompt_env_name ClaudeCode = ''TASKFENCE_CLAUDE_CODE_PROMPT''"
| "prompt_env_name GeminiCli = ''TASKFENCE_GEMINI_PROMPT''"
| "prompt_env_name OpenHands = ''TASKFENCE_OPENHANDS_PROMPT''"

definition build_generic_invocation :: "resolved_task \<Rightarrow> agent_invocation result" where
  "build_generic_invocation task =
     (case ag_kind (rt_agent task) of
        Specialized kind \<Rightarrow>
          Inl (UnsupportedErr (''generic adapter cannot run specialized agent type '' @ kind))
      | Generic \<Rightarrow>
          (let executable = trim (ag_command (rt_agent task))
           in if executable = [] then Inl (Config ''agent.command must not be empty'')
              else rbind (validate_executable ''agent.command'' executable) (\<lambda>_.
                   rbind (rmap_list (agent_reject_nul ''agent.args'') (ag_args (rt_agent task))) (\<lambda>_.
                     Inr \<lparr>in_executable = executable, in_args = ag_args (rt_agent task), in_env = [],
                          in_working_dir = rt_workspace_container_path task\<rparr>))))"

definition profile_env :: "specialized_agent_profile \<Rightarrow> resolved_task \<Rightarrow> (string, string) btree" where
  "profile_env profile task =
     (let env = bt_insert ''TASKFENCE_WORKSPACE'' (rt_workspace_container_path task)
                  (bt_insert (prompt_env_name profile) (rt_goal task)
                     (bt_insert ''TASKFENCE_AGENT_PROFILE'' (profile_label profile) []))
      in if gw_tools (rt_gateway task) \<noteq> []
         then bt_insert ''TASKFENCE_GATEWAY_MODE'' ''configured'' env else env)"

definition build_specialized_invocation :: "resolved_task \<Rightarrow> agent_invocation result" where
  "build_specialized_invocation task =
     (case ag_kind (rt_agent task) of
        Generic \<Rightarrow> build_generic_invocation task
      | Specialized kind \<Rightarrow>
          (case profile_parse kind of
             None \<Rightarrow>
               Inl (UnsupportedErr (''specialized agent type '' @ kind @
                 '' is not supported; use generic or one of codex_cli, claude_code, gemini_cli, openhands''))
           | Some profile \<Rightarrow>
               (let command = trim (ag_command (rt_agent task));
                    executable = (if command = [] then profile_default_command profile else command)
                in rbind (validate_executable ''agent.command'' executable) (\<lambda>_.
                   rbind (rmap_list (agent_reject_nul ''agent.args'') (ag_args (rt_agent task))) (\<lambda>_.
                     Inr \<lparr>in_executable = executable, in_args = ag_args (rt_agent task),
                          in_env = profile_env profile task,
                          in_working_dir = rt_workspace_container_path task\<rparr>)))))"

record coding_agent_policy_template =
  ct_agent_type :: string
  ct_command_allow :: "string list"
  ct_command_approval_required :: "string list"
  ct_command_deny :: "string list"
  ct_adapter_env :: "string list"
  ct_network_default :: network_default
  ct_notes :: "string list"

definition coding_agent_policy_template_of :: "string \<Rightarrow> coding_agent_policy_template option" where
  "coding_agent_policy_template_of kind =
     map_option (\<lambda>profile.
       \<lparr>ct_agent_type = profile_label profile,
        ct_command_allow = [profile_default_command profile],
        ct_command_approval_required = [],
        ct_command_deny = [''sudo *'', ''docker *'', ''ssh *''],
        ct_adapter_env = [''TASKFENCE_AGENT_PROFILE'', prompt_env_name profile,
          ''TASKFENCE_WORKSPACE'', ''TASKFENCE_GATEWAY_MODE''],
        ct_network_default = NetDisabled,
        ct_notes =
          [''template is guidance for explicit task permissions and is not applied automatically'',
           ''adapter_env entries are generated inside the runner and do not permit host env passthrough'',
           ''add gateway tool permissions explicitly when the agent needs mediated external actions'']\<rparr>)
       (profile_parse kind)"

section \<open>Facts\<close>

lemma invocation_generic:
  "build_generic_invocation task = Inr i \<Longrightarrow>
   ag_kind (rt_agent task) = Generic \<and> in_executable i = trim (ag_command (rt_agent task))
   \<and> in_executable i \<noteq> [] \<and> \<not> has_whitespace (in_executable i) \<and> CHR 0x00 \<notin> set (in_executable i)
   \<and> in_args i = ag_args (rt_agent task) \<and> in_env i = []
   \<and> in_working_dir i = rt_workspace_container_path task"
  by (auto simp: build_generic_invocation_def validate_executable_def agent_reject_nul_def Let_def
      rbind_Inr_iff split: agent_kind.splits if_splits)

text \<open>A profile is found under its own label.\<close>

lemma profile_label_parse: "profile_parse (profile_label p) = Some p"
proof -
  have "list_all (\<lambda>p. profile_parse (profile_label p) = Some p) [CodexCli, ClaudeCode, GeminiCli, OpenHands]"
    by code_simp
  then show ?thesis by (cases p) simp_all
qed

end
