(* ===== verification/Runner_Safety.thy ===== *)
theory Runner_Safety
  imports Runner_Exec Agent_Profiles Policy_Engine
begin

text \<open>
  What the runners promise: the mounts, the environment and the network of a Docker run, the
  quoting of the remote command, the processes that a start can create, the end of a run with a
  timeout, and the completion store.
\<close>

section \<open>Path sets\<close>

lemma list_ex_iff_set: "list_ex P xs \<longleftrightarrow> (\<exists>x \<in> set xs. P x)"
  by (simp add: list_ex_iff)

lemma path_eq_sym: "path_eq p q \<longleftrightarrow> path_eq q p"
  by (auto simp: path_eq_def)

lemma set_path_set_insert:
  "set (path_set_insert p ps) = (if list_ex (path_eq p) ps then set ps else insert p (set ps))"
  by (simp add: path_set_insert_def set_insort_key)

lemma path_set_of_snoc: "path_set_of (ps @ [p]) = path_set_insert p (path_set_of ps)"
  by (simp add: path_set_of_def)

lemma path_set_of_subset: "set (path_set_of ps) \<subseteq> set ps"
  by (induction ps rule: rev_induct)
    (auto simp: path_set_of_snoc set_path_set_insert path_set_of_def split: if_splits)

lemma path_set_of_covers: "p \<in> set ps \<Longrightarrow> \<exists>q \<in> set (path_set_of ps). path_eq p q"
proof (induction ps rule: rev_induct)
  case Nil
  then show ?case by simp
next
  case (snoc r ps)
  then show ?case
    by (cases "p = r") (auto simp: path_set_of_snoc set_path_set_insert list_ex_iff path_eq_def)
qed

section \<open>Mounts\<close>

text \<open>A host path that may be mounted into a container of the task.\<close>

definition mountable :: "docker_runner \<Rightarrow> resolved_task \<Rightarrow> path \<Rightarrow> bool" where
  "mountable dr task p \<longleftrightarrow>
     is_absolute p \<and> \<not> contains_parent_dir p \<and> path_starts_with p (rt_workspace_host_path task)
     \<and> \<not> is_docker_socket_path p \<and> \<not> exposes_host_home dr p \<and> \<not> exposes_ssh_auth_socket dr p"

lemma validate_mount_path_Inr: "validate_mount_path dr task p = Inr u \<longleftrightarrow> mountable dr task p"
  by (auto simp: validate_mount_path_def validate_mount_host_path_def mountable_def)

lemma rmap_list_checked:
  "rmap_list f xs = Inr us \<Longrightarrow> x \<in> set xs \<Longrightarrow> \<exists>u. f x = Inr u"
  by (induction xs arbitrary: us) (auto simp: rbind_Inr_iff)

lemma no_mixed_overlap:
  assumes "reject_mixed_mode_overlaps reads writes = Inr u" and "r \<in> set reads" and "w \<in> set writes"
    and "\<not> path_eq r w"
  shows "\<not> path_starts_with r w \<and> \<not> path_starts_with w r"
proof -
  from assms(1) obtain us where "rmap_list (\<lambda>r. rmap_list (mixed_mode_overlap r) writes) reads = Inr us"
    unfolding reject_mixed_mode_overlaps_def by (elim rbind_InrE)
  from rmap_list_checked [OF this assms(2)] rmap_list_checked [OF _ assms(3)]
  obtain v where "mixed_mode_overlap r w = Inr v" by blast
  with assms(4) show ?thesis by (auto simp: mixed_mode_overlap_def split: if_splits)
qed

text \<open>The three kinds of mounts of a task.\<close>

definition read_mount :: "resolved_task \<Rightarrow> mount_plan \<Rightarrow> bool" where
  "read_mount task m \<longleftrightarrow>
     mp_mode m = ReadOnly \<and> mp_host_path m \<in> set (pp_read (pm_paths (rt_permissions task)))
     \<and> (\<forall>w \<in> set (pp_write (pm_paths (rt_permissions task))).
          \<not> path_starts_with (mp_host_path m) w \<and> \<not> path_starts_with w (mp_host_path m))"

definition write_mount :: "resolved_task \<Rightarrow> mount_plan \<Rightarrow> bool" where
  "write_mount task m \<longleftrightarrow>
     mp_mode m = ReadWrite \<and> mp_host_path m \<in> set (pp_write (pm_paths (rt_permissions task)))"

definition spool_mount_of :: "resolved_task \<Rightarrow> mount_plan \<Rightarrow> bool" where
  "spool_mount_of task m \<longleftrightarrow>
     mp_mode m = ReadWrite \<and> docker_gateway_spool_required task
     \<and> gateway_spool_host_path task = Inr (mp_host_path m)
     \<and> mp_container_path m = gateway_spool_container_path
     \<and> (\<forall>p \<in> set (pp_read (pm_paths (rt_permissions task))) \<union> set (pp_write (pm_paths (rt_permissions task))).
          \<not> path_starts_with (mp_host_path m) p \<and> \<not> path_starts_with p (mp_host_path m))"

lemma mount_ofD:
  "mount_of task mode p = Inr m \<Longrightarrow> mp_host_path m = p \<and> mp_mode m = mode \<and> container_path_for task p = Inr (mp_container_path m)"
  unfolding mount_of_def by (elim rbind_InrE) auto

lemma starts_with_eq: "path_eq p q \<Longrightarrow> path_starts_with p r = path_starts_with q r"
  "path_eq p q \<Longrightarrow> path_starts_with r p = path_starts_with r q"
  by (simp_all add: path_eq_def path_starts_with_def)

lemma path_eq_starts_with: "path_eq p q \<Longrightarrow> path_starts_with p q"
  by (simp add: path_eq_def path_starts_with_def)

definition mount_allowed :: "docker_runner \<Rightarrow> resolved_task \<Rightarrow> mount_plan \<Rightarrow> bool" where
  "mount_allowed dr task m \<longleftrightarrow>
     mountable dr task (mp_host_path m)
     \<and> (read_mount task m \<or> write_mount task m \<or> spool_mount_of task m)"

lemma build_mount_plan_allowed:
  assumes "build_mount_plan dr task = Inr ms" and "m \<in> set ms"
  shows "mount_allowed dr task m"
proof -
  let ?r = "pp_read (pm_paths (rt_permissions task))"
  let ?w = "pp_write (pm_paths (rt_permissions task))"
  let ?rs = "path_set_of ?r" and ?ws = "path_set_of ?w"
  from assms(1) obtain us vs spool rms wms where
    r: "rmap_list (validate_mount_path dr task) ?r = Inr us"
    and w: "rmap_list (validate_mount_path dr task) ?w = Inr vs"
    and o: "reject_mixed_mode_overlaps ?rs ?ws = Inr ()"
    and s: "spool_mount dr task ?rs ?ws = Inr spool"
    and rm: "rmap_list (mount_of task ReadOnly) (filter (\<lambda>r. \<not> list_ex (path_eq r) ?ws) ?rs) = Inr rms"
    and wm: "rmap_list (mount_of task ReadWrite) ?ws = Inr wms"
    and ms: "set ms = set rms \<union> set wms \<union> (case spool of None \<Rightarrow> {}
        | Some p \<Rightarrow> {\<lparr>mp_host_path = p, mp_container_path = gateway_spool_container_path, mp_mode = ReadWrite\<rparr>})"
    unfolding build_mount_plan_def Let_def by (elim rbind_InrE) (auto split: option.splits)
  have reads: "mountable dr task p" if "p \<in> set ?r" for p
    using rmap_list_checked [OF r that] by (auto simp: validate_mount_path_Inr)
  have writes: "mountable dr task p" if "p \<in> set ?w" for p
    using rmap_list_checked [OF w that] by (auto simp: validate_mount_path_Inr)
  from assms(2) ms consider "m \<in> set rms" | "m \<in> set wms"
    | p where "spool = Some p"
      "m = \<lparr>mp_host_path = p, mp_container_path = gateway_spool_container_path, mp_mode = ReadWrite\<rparr>"
    by (auto split: option.splits)
  then show ?thesis
  proof cases
    case 1
    from rmap_list_source [OF rm this] obtain p where p: "p \<in> set ?rs" "\<not> list_ex (path_eq p) ?ws"
      "mount_of task ReadOnly p = Inr m" by auto
    have "\<not> path_starts_with p v \<and> \<not> path_starts_with v p" if v: "v \<in> set ?w" for v
    proof -
      from path_set_of_covers [OF v] obtain q where q: "q \<in> set ?ws" "path_eq v q" by blast
      with p(2) have "\<not> path_eq p q" by (auto simp: list_ex_iff)
      with no_mixed_overlap [OF o p(1) q(1)] q(2) show ?thesis by (simp add: starts_with_eq)
    qed
    with p mount_ofD [OF p(3)] path_set_of_subset [of ?r] reads show ?thesis
      by (auto simp: mount_allowed_def read_mount_def)
  next
    case 2
    from rmap_list_source [OF wm this] obtain p where "p \<in> set ?ws" "mount_of task ReadWrite p = Inr m"
      by blast
    with mount_ofD path_set_of_subset [of ?w] writes show ?thesis
      by (auto simp: mount_allowed_def write_mount_def)
  next
    case (3 p)
    with s have sp: "docker_gateway_spool_required task" "gateway_spool_host_path task = Inr p"
      "mountable dr task p" "reject_permission_mounts_cover_gateway_spool ?rs ?ws p = Inr ()"
      by (auto simp: spool_mount_def rbind_Inr_iff validate_mount_path_Inr split: if_splits)
    have "\<not> path_starts_with p v \<and> \<not> path_starts_with v p" if "v \<in> set ?r \<union> set ?w" for v
    proof -
      from that path_set_of_covers obtain q where q: "q \<in> set ?rs \<union> set ?ws" "path_eq v q"
        by (metis Un_iff)
      with sp(4) have "\<not> covers_spool p q"
        by (auto simp: reject_permission_mounts_cover_gateway_spool_def list_ex_iff split: if_splits)
      with q(2) show ?thesis by (simp add: covers_spool_def starts_with_eq)
    qed
    with sp 3 show ?thesis by (auto simp: mount_allowed_def spool_mount_of_def)
  qed
qed

section \<open>Environment and network\<close>

lemma set_bt_insert_subset: "set (bt_insert k v m) \<subseteq> insert (k, v) (set m)"
  by (induction k v m rule: bt_insert.induct) auto

text \<open>A variable that a task's container may get.\<close>

definition env_allowed :: "docker_runner \<Rightarrow> resolved_task \<Rightarrow> string \<times> string \<Rightarrow> bool" where
  "env_allowed dr task nv \<longleftrightarrow>
     (fst nv \<in> set (ep_allow (pm_env (rt_permissions task)))
       \<and> bt_get (dr_host_env dr) (fst nv) = Some (snd nv)
       \<and> fst nv \<notin> {''HOME'', ''SSH_AUTH_SOCK'', ''DOCKER_HOST''}
       \<and> CHR ''='' \<notin> set (fst nv)
       \<and> \<not> str_contains ''docker.sock'' (snd nv) \<and> \<not> prefix ''unix://'' (snd nv))
     \<or> nv = (spool_env_name, gateway_spool_container_path)
     \<or> nv = (mode_env_name, ''local_listener'')
     \<or> nv = (egress_env_name, str_join '','' (np_allow_domains (pm_network (rt_permissions task))))"

lemma host_env_plan_entries:
  "host_env_plan host names env = Inr env' \<Longrightarrow> nv \<in> set env' \<Longrightarrow>
   nv \<in> set env \<or> fst nv \<in> set names \<and> bt_get host (fst nv) = Some (snd nv)
     \<and> fst nv \<notin> {''HOME'', ''SSH_AUTH_SOCK'', ''DOCKER_HOST''} \<and> CHR ''='' \<notin> set (fst nv)
     \<and> \<not> str_contains ''docker.sock'' (snd nv) \<and> \<not> prefix ''unix://'' (snd nv)"
proof (induction host names env rule: host_env_plan.induct)
  case (2 host name names env)
  then obtain u v where n: "validate_env_name name = Inr u" "reject_sensitive_env_name name = Inr v"
    by (auto simp: rbind_Inr_iff)
  show ?case
  proof (cases "bt_get host name")
    case None
    with 2 n show ?thesis by auto
  next
    case (Some x)
    with "2.prems" n obtain y where y: "validate_env_value name x = Inr y"
      "host_env_plan host names (bt_insert name x env) = Inr env'" by (auto simp: rbind_Inr_iff)
    with "2.IH"(2) [OF Some y(2)] "2.prems"(2) set_bt_insert_subset [of name x env] n Some
    show ?thesis
      by (auto simp: validate_env_name_def reject_sensitive_env_name_def validate_env_value_def
          split: if_splits)
  qed
qed simp

lemma build_env_plan_allowed:
  assumes "build_env_plan dr task = Inr env" and "nv \<in> set env"
  shows "env_allowed dr task nv"
proof -
  from assms(1) obtain host where host: "host_env_plan (dr_host_env dr)
      (ep_allow (pm_env (rt_permissions task))) [] = Inr host"
    and env: "set env \<subseteq> set host \<union> {(spool_env_name, gateway_spool_container_path),
        (mode_env_name, ''local_listener''),
        (egress_env_name, str_join '','' (np_allow_domains (pm_network (rt_permissions task))))}"
    unfolding build_env_plan_def Let_def
    by (elim rbind_InrE)
      (auto split: gateway_mode.splits if_splits dest!: set_bt_insert_subset [THEN subsetD])
  from env assms(2) host_env_plan_entries [OF host, of nv] show ?thesis
    by (auto simp: env_allowed_def)
qed

section \<open>The Docker command line\<close>

text \<open>
  What the comma separated argument of \<open>--mount\<close> says: exactly the two paths and the mode of the
  mount.
\<close>

definition mount_reads_as :: "string \<Rightarrow> mount_plan \<Rightarrow> bool" where
  "mount_reads_as a m \<longleftrightarrow>
     split_on CHR '','' a =
       [''type=bind'', ''source='' @ mp_host_path m, ''target='' @ mp_container_path m] @
       (if mp_mode m = ReadOnly then [''readonly''] else [])"

lemma split_fields:
  "d \<notin> set w \<Longrightarrow> split_on d (w @ d # t) = w # split_on d t"
  by (simp add: split_on_append_sep split_on_single)

lemma docker_mount_arg_reads:
  assumes "docker_mount_arg m = Inr a"
  shows "mount_reads_as a m"
proof -
  from assms have c: "CHR '','' \<notin> set (mp_host_path m)" "CHR '','' \<notin> set (mp_container_path m)"
    and a: "a = ''type=bind'' @ CHR '','' # (''source='' @ mp_host_path m) @ CHR '','' #
      (''target='' @ mp_container_path m) @ (if mp_mode m = ReadOnly then CHR '','' # ''readonly'' else [])"
    by (auto simp: docker_mount_arg_def rbind_Inr_iff reject_docker_mount_path_def split: if_splits)
  have s: "CHR '','' \<notin> set ''type=bind''" "CHR '','' \<notin> set (''source='' @ mp_host_path m)"
    "CHR '','' \<notin> set (''target='' @ mp_container_path m)" "CHR '','' \<notin> set ''readonly''"
    using c by auto
  have "split_on CHR '','' a = ''type=bind'' # (''source='' @ mp_host_path m) #
      split_on CHR '','' ((''target='' @ mp_container_path m) @
        (if mp_mode m = ReadOnly then CHR '','' # ''readonly'' else []))"
    unfolding a by (rule trans [OF split_fields [OF s(1)]], rule arg_cong, rule split_fields [OF s(2)])
  with s(3,4) split_fields [OF s(3)] split_on_single [OF s(3)] split_on_single [OF s(4)] show ?thesis
    by (auto simp: mount_reads_as_def simp del: append_Cons append.simps)
qed

definition limit_flags :: "limit_config \<Rightarrow> string list" where
  "limit_flags limits =
     (case lim_cpu limits of None \<Rightarrow> [] | Some cpu \<Rightarrow> [''--cpus'', dec_digits (unat cpu)]) @
     (case lim_memory limits of None \<Rightarrow> [] | Some m \<Rightarrow> [''--memory'', m]) @
     (case lim_disk limits of None \<Rightarrow> [] | Some d \<Rightarrow> [''--storage-opt'', ''size='' @ d])"

text \<open>
  A Docker command line for the task: its options up to the image, the network, the mounts, the
  variables and the limits, then the image and the agent's command.
\<close>

definition confined_docker_run ::
  "docker_runner \<Rightarrow> resolved_task \<Rightarrow> agent_invocation \<Rightarrow> string list \<Rightarrow> bool" where
  "confined_docker_run dr task invocation args \<longleftrightarrow>
     (\<exists>network mounts margs env img.
        args = [''run'', ''--rm'', ''--pull=never'', ''--name'', docker_container_name (rt_id task),
            ''--workdir'', in_working_dir invocation, ''--network'', network] @
          concat (map (\<lambda>a. [''--mount'', a]) margs) @
          concat (map (\<lambda>nv. [''--env'', fst nv @ ''='' @ snd nv]) env) @
          limit_flags (sb_limits (rt_sandbox task)) @ img # in_executable invocation # in_args invocation
        \<and> sb_image (rt_sandbox task) = Some img
        \<and> (network = ''none'' \<or> network = ''bridge''
             \<and> np_default (pm_network (rt_permissions task)) = NetAllow
             \<and> np_allow_domains (pm_network (rt_permissions task)) = [])
        \<and> list_all2 mount_reads_as margs mounts \<and> list_all (mount_allowed dr task) mounts
        \<and> list_all (env_allowed dr task) env)"

lemma mount_args:
  "rmap_list (\<lambda>m. rbind (docker_mount_arg m) (\<lambda>a. Inr [''--mount'', a])) ms = Inr xss \<Longrightarrow>
   \<exists>margs. xss = map (\<lambda>a. [''--mount'', a]) margs \<and> list_all2 mount_reads_as margs ms"
proof (induction ms arbitrary: xss)
  case Nil
  then show ?case by simp
next
  case (Cons m ms)
  then obtain a yss where a: "docker_mount_arg m = Inr a" "xss = [''--mount'', a] # yss"
    "rmap_list (\<lambda>m. rbind (docker_mount_arg m) (\<lambda>a. Inr [''--mount'', a])) ms = Inr yss"
    by (auto simp: rbind_Inr_iff)
  with Cons.IH [OF a(3)] docker_mount_arg_reads [OF a(1)] obtain margs where
    "yss = map (\<lambda>a. [''--mount'', a]) margs" "list_all2 mount_reads_as (a # margs) (m # ms)" by auto
  with a(2) show ?case by (intro exI [of _ "a # margs"]) simp
qed

lemma env_args: "rmap_list env_arg env = Inr xss \<Longrightarrow> xss = map (\<lambda>nv. [''--env'', fst nv @ ''='' @ snd nv]) env"
  by (induction env arbitrary: xss) (auto simp: rbind_Inr_iff env_arg_def)

lemma docker_prepareD:
  assumes "docker_prepare dr task = Inr p"
  shows "pr_image p = sb_image (rt_sandbox task)" "pr_network p = pm_network (rt_permissions task)"
    "pr_limits p = sb_limits (rt_sandbox task)" "pr_task_id p = rt_id task" "pr_runner_kind p = Docker"
    "list_all (mount_allowed dr task) (pr_mounts p)" "list_all (env_allowed dr task) (pr_env p)"
    "sb_kind (rt_sandbox task) = Docker"
proof -
  from assms obtain mounts env network where k: "ensure_docker_task task = Inr ()"
    and m: "build_mount_plan dr task = Inr mounts" and e: "build_env_plan dr task = Inr env"
    and p: "p = \<lparr>pr_task_id = rt_id task, pr_runner_kind = Docker, pr_image = sb_image (rt_sandbox task),
       pr_mounts = mounts, pr_env = env, pr_network = pm_network (rt_permissions task),
       pr_gateway = build_prepared_gateway task, pr_limits = sb_limits (rt_sandbox task), pr_ssh = None\<rparr>"
    unfolding docker_prepare_def docker_build_run_plan_def by (elim rbind_InrE) auto
  show "pr_image p = sb_image (rt_sandbox task)" "pr_network p = pm_network (rt_permissions task)"
    "pr_limits p = sb_limits (rt_sandbox task)" "pr_task_id p = rt_id task" "pr_runner_kind p = Docker"
    by (simp_all add: p)
  show "list_all (mount_allowed dr task) (pr_mounts p)" "list_all (env_allowed dr task) (pr_env p)"
    using build_mount_plan_allowed [OF m] build_env_plan_allowed [OF e] by (simp_all add: p list_all_iff)
  show "sb_kind (rt_sandbox task) = Docker"
    using k by (simp add: ensure_docker_task_def split: sandbox_kind.splits)
qed

lemma docker_network_argD:
  "docker_network_arg p = Inr network \<Longrightarrow>
   network = ''none'' \<or> network = ''bridge'' \<and> np_default (pr_network p) = NetAllow
     \<and> np_allow_domains (pr_network p) = []"
  by (auto simp: docker_network_arg_def split: if_splits network_default.splits)

lemma limit_args:
  "limit_arg f1 ''--memory'' [] (lim_memory l) = Inr m \<Longrightarrow>
   limit_arg f2 ''--storage-opt'' ''size='' (lim_disk l) = Inr d \<Longrightarrow>
   (case lim_cpu l of None \<Rightarrow> [] | Some cpu \<Rightarrow> [''--cpus'', dec_digits (unat cpu)]) @ m @ d = limit_flags l"
  by (auto simp: limit_arg_def limit_flags_def rbind_Inr_iff split: option.splits)

lemma docker_args_confined:
  assumes "docker_prepare dr task = Inr p"
    and "build_docker_run_args (docker_container_name (pr_task_id p)) p invocation = Inr args"
  shows "confined_docker_run dr task invocation args"
proof -
  note p = docker_prepareD [OF assms(1)]
  from assms(2) obtain img where img: "pr_image p = Some img"
    by (cases "pr_image p") (simp_all add: build_docker_run_args_def)
  from assms(2) obtain network mounts env memory disk where n: "docker_network_arg p = Inr network"
    and m: "rmap_list (\<lambda>m. rbind (docker_mount_arg m) (\<lambda>a. Inr [''--mount'', a])) (pr_mounts p) = Inr mounts"
    and e: "rmap_list env_arg (pr_env p) = Inr env"
    and l: "limit_arg ''memory limit'' ''--memory'' [] (lim_memory (pr_limits p)) = Inr memory"
      "limit_arg ''disk limit'' ''--storage-opt'' ''size='' (lim_disk (pr_limits p)) = Inr disk"
    and args: "args = [''run'', ''--rm'', ''--pull=never'', ''--name'', docker_container_name (pr_task_id p),
        ''--workdir'', in_working_dir invocation, ''--network'', network] @ concat mounts @ concat env @
        (case lim_cpu (pr_limits p) of None \<Rightarrow> [] | Some cpu \<Rightarrow> [''--cpus'', dec_digits (unat cpu)]) @
        memory @ disk @ [img, in_executable invocation] @ in_args invocation"
    unfolding build_docker_run_args_def img option.case 
    apply (elim rbind_InrE)
    apply (drule sum.inject(2) [THEN iffD1])
    apply (rule that, assumption+, erule sym)
    done
  from mount_args [OF m] obtain margs where margs: "mounts = map (\<lambda>a. [''--mount'', a]) margs"
    "list_all2 mount_reads_as margs (pr_mounts p)" by blast
  have "args = [''run'', ''--rm'', ''--pull=never'', ''--name'', docker_container_name (rt_id task),
      ''--workdir'', in_working_dir invocation, ''--network'', network] @
    concat (map (\<lambda>a. [''--mount'', a]) margs) @
    concat (map (\<lambda>nv. [''--env'', fst nv @ ''='' @ snd nv]) (pr_env p)) @
    limit_flags (sb_limits (rt_sandbox task)) @ img # in_executable invocation # in_args invocation"
    unfolding p(3) [symmetric] limit_args [OF l, symmetric]
    by (simp add: args margs(1) env_args [OF e] p(4))
  with docker_network_argD [OF n] img margs(2) p show ?thesis
    unfolding confined_docker_run_def
    apply (intro exI conjI)
    apply assumption
    apply simp_all
    done
qed

section \<open>The remote command\<close>

text \<open>
  A reader for the part of the POSIX shell language that the remote command may use: words of
  plain characters, single quoted text and escaped characters, and the operator \<open>&&\<close>. Any other
  character with a meaning to the shell is outside the fragment (\<open>None\<close>). The word that is being
  read is the first argument, the second says whether a single quote is open.
\<close>

datatype sh_token = Word string | AndIf

definition sh_special :: string where
  "sh_special = ''|;<>()$`\"#*?[]~=%!{}&'' @ [CHR 0x0A]"

definition sh_flush :: "string option \<Rightarrow> sh_token list" where
  "sh_flush cur = (case cur of None \<Rightarrow> [] | Some w \<Rightarrow> [Word w])"

definition sh_extend :: "string option \<Rightarrow> char \<Rightarrow> string option" where
  "sh_extend cur c = Some ((case cur of None \<Rightarrow> [] | Some w \<Rightarrow> w) @ [c])"

fun sh_read :: "string option \<Rightarrow> bool \<Rightarrow> string \<Rightarrow> sh_token list option" where
  "sh_read cur True [] = None"
| "sh_read cur True (c # cs) =
     (if c = CHR 0x27 then sh_read cur False cs else sh_read (sh_extend cur c) True cs)"
| "sh_read cur False [] = Some (sh_flush cur)"
| "sh_read cur False [c] =
     (if c = CHR 0x27 \<or> c = CHR 0x5C \<or> c \<in> set sh_special then None
      else if c = CHR '' '' then Some (sh_flush cur) else Some (sh_flush (sh_extend cur c)))"
| "sh_read cur False (c # d # cs) =
     (if c = CHR 0x27
      then sh_read (Some (case cur of None \<Rightarrow> [] | Some w \<Rightarrow> w)) True (d # cs)
      else if c = CHR 0x5C then sh_read (sh_extend cur d) False cs
      else if c = CHR '' '' then map_option (\<lambda>ts. sh_flush cur @ ts) (sh_read None False (d # cs))
      else if c = CHR ''&'' \<and> d = CHR ''&''
      then map_option (\<lambda>ts. sh_flush cur @ AndIf # ts) (sh_read None False cs)
      else if c \<in> set sh_special then None
      else sh_read (sh_extend cur c) False (d # cs))"

text \<open>A quoted value is read back as one word.\<close>

lemma sh_read_quoted:
  "sh_read (Some w) True (concat (map quote_char v) @ CHR 0x27 # rest) = sh_read (Some (w @ v)) False rest"
proof (induction v arbitrary: w)
  case Nil
  then show ?case by simp
next
  case (Cons c v)
  have step: "sh_read (Some w) True (quote_char c @ t) = sh_read (Some (w @ [c])) True t" if "t \<noteq> []" for t
    using that by (cases t) (auto simp: quote_char_def sh_extend_def)
  have "concat (map quote_char v) @ CHR 0x27 # rest \<noteq> []" by simp
  from step [OF this] Cons.IH [of "w @ [c]"] show ?case by simp
qed

lemma sh_read_shell_quote:
  assumes "shell_quote v = Inr q"
  shows "sh_read None False (q @ rest) = sh_read (Some v) False rest"
proof -
  from assms have q: "q = CHR 0x27 # concat (map quote_char v) @ [CHR 0x27]"
    unfolding shell_quote_def by (elim rbind_InrE) simp
  obtain d cs where t: "concat (map quote_char v) @ CHR 0x27 # rest = d # cs"
    by (cases "concat (map quote_char v) @ CHR 0x27 # rest") auto
  then have "sh_read None False (q @ rest) = sh_read (Some []) True (d # cs)" by (simp add: q)
  also have "\<dots> = sh_read (Some v) False rest"
    using sh_read_quoted [of "[]" v rest] t by simp
  finally show ?thesis .
qed

lemma shell_quote_start: "shell_quote v = Inr q \<Longrightarrow> \<exists>t. q = CHR 0x27 # t"
  unfolding shell_quote_def by (elim rbind_InrE) auto

lemma sh_read_words:
  "list_all2 (\<lambda>v q. shell_quote v = Inr q) (v # vs) (q # qs) \<Longrightarrow>
   sh_read None False (str_join '' '' (q # qs)) = Some (map Word (v # vs))"
proof (induction vs arbitrary: v q qs)
  case Nil
  then have "shell_quote v = Inr q" "qs = []" by auto
  with sh_read_shell_quote [of v q "[]"] show ?case by (simp add: sh_flush_def)
next
  case (Cons u vs)
  then obtain p ps where p: "qs = p # ps" "shell_quote v = Inr q"
    "list_all2 (\<lambda>v q. shell_quote v = Inr q) (u # vs) (p # ps)"
    by (auto simp: list_all2_Cons1)
  from p(3) have "shell_quote u = Inr p" by simp
  from shell_quote_start [OF this] obtain d t where d: "str_join '' '' (p # ps) = d # t"
    by (cases "str_join '' '' (p # ps)"; cases ps) auto
  have "sh_read None False (str_join '' '' (q # qs)) = sh_read None False (q @ CHR '' '' # d # t)"
    using p(1) d by simp
  also have "\<dots> = sh_read (Some v) False (CHR '' '' # d # t)" by (rule sh_read_shell_quote [OF p(2)])
  finally show ?case using Cons.IH [OF p(3)] d by (simp add: sh_flush_def)
qed

lemma remote_command_reads:
  assumes "remote_command ssh invocation = Inr command"
  shows "sh_read None False command =
    Some ([Word ''cd'', Word (ps_workspace ssh), AndIf, Word ''exec'', Word (in_executable invocation)] @
      map Word (in_args invocation))"
proof -
  from assms obtain e as w where e: "shell_quote (in_executable invocation) = Inr e"
    and as: "rmap_list shell_quote (in_args invocation) = Inr as"
    and w: "shell_quote (ps_workspace ssh) = Inr w"
    and c: "command = ''cd '' @ w @ '' && exec '' @ str_join '' '' (e # as)"
    unfolding remote_command_def by (elim rbind_InrE) auto
  from e as have l: "list_all2 (\<lambda>v q. shell_quote v = Inr q) (in_executable invocation # in_args invocation) (e # as)"
    by (simp add: rmap_list_Inr_iff)
  obtain t where t: "str_join '' '' (e # as) = CHR 0x27 # t"
    using shell_quote_start [OF e] by (cases as) auto
  have exec: "sh_read None False ('' exec '' @ str_join '' '' (e # as)) =
      Some (Word ''exec'' # map Word (in_executable invocation # in_args invocation))"
    using sh_read_words [OF l] unfolding t by (simp add: sh_extend_def sh_flush_def sh_special_def)
  obtain u where u: "w = CHR 0x27 # u" using shell_quote_start [OF w] by blast
  have cd: "sh_read None False (''cd '' @ w @ r) =
      map_option (\<lambda>ts. Word ''cd'' # ts) (sh_read None False (w @ r))" for r
  proof -
    have "(@) [Word ''cd''] = (#) (Word ''cd'')" by (rule ext) simp
    then show ?thesis unfolding u by (simp add: sh_extend_def sh_flush_def sh_special_def)
  qed
  have "sh_read (Some (ps_workspace ssh)) False ('' && exec '' @ str_join '' '' (e # as)) =
      map_option (\<lambda>ts. Word (ps_workspace ssh) # AndIf # ts)
        (sh_read None False ('' exec '' @ str_join '' '' (e # as)))"
    by (simp add: sh_flush_def option.map_comp comp_def)
  with exec cd sh_read_shell_quote [OF w] show ?thesis by (simp add: c)
qed

section \<open>What a start can create\<close>

text \<open>
  An SSH command line for the task: the sandbox declares an isolated workspace, isolated secrets
  and the termination of remote processes, the task accepts an uncontrolled network and asks for
  nothing that SSH cannot give; the options are fixed, everything behind \<open>--\<close> is the target and one
  command that the remote shell reads as a change into the workspace and the agent's command.
\<close>

definition confined_ssh_run :: "resolved_task \<Rightarrow> agent_invocation \<Rightarrow> string list \<Rightarrow> bool" where
  "confined_ssh_run task invocation args \<longleftrightarrow>
     (\<exists>ssh workspace identity options user command.
        sb_ssh (rt_sandbox task) = Some ssh \<and> ssh_workspace ssh = Some workspace
        \<and> ssh_identity_file ssh = Some identity \<and> ssh_known_hosts_file ssh \<noteq> None
        \<and> ssh_isolated_workspace ssh \<and> ssh_isolated_secrets ssh \<and> ssh_terminates_remote_processes ssh
        \<and> np_default (pm_network (rt_permissions task)) = NetAllow
        \<and> ssh_network_policy ssh = Some UncontrolledAllow
        \<and> np_allow_domains (pm_network (rt_permissions task)) = []
        \<and> ep_allow (pm_env (rt_permissions task)) = [] \<and> \<not> sc_expose_to_agent (rt_secrets task)
        \<and> in_env invocation = []
        \<and> args = [''-o'', ''BatchMode=yes'', ''-o'', ''ForwardAgent=no'', ''-o'', ''PermitLocalCommand=no'',
             ''-o'', ''IdentitiesOnly=yes'', ''-o'', ''StrictHostKeyChecking=yes'', ''-i'', identity] @
             options @ [''--'', user @ ssh_host ssh, command]
        \<and> ''--'' \<notin> set options
        \<and> sh_read None False command =
            Some ([Word ''cd'', Word workspace, AndIf, Word ''exec'', Word (in_executable invocation)] @
              map Word (in_args invocation)))"

lemma missing_when_Nil [simp]: "missing_when b m = [] \<longleftrightarrow> \<not> b"
  by (simp add: missing_when_def)

lemma ssh_prepareD:
  assumes "ssh_prepare task = Inr p"
  obtains ssh workspace identity where "sb_ssh (rt_sandbox task) = Some ssh"
    "ssh_workspace ssh = Some workspace" "ssh_identity_file ssh = Some identity"
    "ssh_missing task ssh = []" "pr_env p = []" "pr_task_id p = rt_id task" "pr_runner_kind p = RemoteSsh"
    "pr_ssh p = Some \<lparr>ps_host = ssh_host ssh, ps_user = ssh_user ssh, ps_port = ssh_port ssh,
       ps_workspace = workspace, ps_identity_file = identity, ps_known_hosts_file = ssh_known_hosts_file ssh\<rparr>"
proof -
  from assms obtain ssh workspace identity where
    c: "ensure_sufficient_for_task (remote_ssh_capability task) task = Inr ()"
    and s: "sb_ssh (rt_sandbox task) = Some ssh" and w: "ssh_workspace ssh = Some workspace"
    and i: "ssh_identity_file ssh = Some identity"
    and p: "p = \<lparr>pr_task_id = rt_id task, pr_runner_kind = RemoteSsh, pr_image = None, pr_mounts = [],
            pr_env = [], pr_network = pm_network (rt_permissions task),
            pr_gateway = default_prepared_gateway, pr_limits = sb_limits (rt_sandbox task),
            pr_ssh = Some \<lparr>ps_host = ssh_host ssh, ps_user = ssh_user ssh, ps_port = ssh_port ssh,
              ps_workspace = workspace, ps_identity_file = identity,
              ps_known_hosts_file = ssh_known_hosts_file ssh\<rparr>\<rparr>"
    unfolding ssh_prepare_def by (elim rbind_InrE) (auto simp: required_def split: option.splits)
  from c s have "ssh_missing task ssh = []"
    by (simp add: ensure_sufficient_for_task_def is_sufficient_for_task_def remote_ssh_capability_def
        split: if_splits)
  with s w i p show ?thesis by (intro that) simp_all
qed

lemma build_ssh_argsD:
  assumes "build_ssh_args p invocation = Inr args" and "pr_ssh p = Some ssh"
  shows "in_env invocation = [] \<and> (\<exists>command. remote_command ssh invocation = Inr command \<and>
     args = [''-o'', ''BatchMode=yes'', ''-o'', ''ForwardAgent=no'', ''-o'', ''PermitLocalCommand=no'', ''-o'',
        ''IdentitiesOnly=yes'', ''-o'', ''StrictHostKeyChecking=yes'', ''-i'', ps_identity_file ssh] @
       ((case ps_known_hosts_file ssh of None \<Rightarrow> [] | Some f \<Rightarrow> [''-o'', ''UserKnownHostsFile='' @ f]) @
        (case ps_port ssh of None \<Rightarrow> [] | Some port \<Rightarrow> [''-p'', dec_digits (unat port)])) @
       [''--'', ssh_target ssh, command])"
  using assms(1) unfolding build_ssh_args_def assms(2) option.case
  by (elim rbind_InrE) (simp split: if_splits, elim rbind_InrE, simp)

lemma dec_digits_no_minus: "CHR ''-'' \<notin> set (dec_digits n)"
  using dec_digits_char [of "CHR ''-''" n] by (auto simp: is_digit_def)

lemma ssh_args_confined:
  assumes "ssh_prepare task = Inr p" and "build_ssh_args p invocation = Inr args"
  shows "confined_ssh_run task invocation args"
proof -
  from assms(1) obtain ssh workspace identity where s: "sb_ssh (rt_sandbox task) = Some ssh"
    "ssh_workspace ssh = Some workspace" "ssh_identity_file ssh = Some identity"
    "ssh_missing task ssh = []"
    "pr_ssh p = Some \<lparr>ps_host = ssh_host ssh, ps_user = ssh_user ssh, ps_port = ssh_port ssh,
       ps_workspace = workspace, ps_identity_file = identity, ps_known_hosts_file = ssh_known_hosts_file ssh\<rparr>"
    by (rule ssh_prepareD)
  let ?run = "\<lparr>ps_host = ssh_host ssh, ps_user = ssh_user ssh, ps_port = ssh_port ssh,
       ps_workspace = workspace, ps_identity_file = identity, ps_known_hosts_file = ssh_known_hosts_file ssh\<rparr>"
  let ?options = "(case ssh_known_hosts_file ssh of None \<Rightarrow> [] | Some f \<Rightarrow> [''-o'', ''UserKnownHostsFile='' @ f]) @
        (case ssh_port ssh of None \<Rightarrow> [] | Some port \<Rightarrow> [''-p'', dec_digits (unat port)])"
  from build_ssh_argsD [OF assms(2) s(5)] obtain command where c: "remote_command ?run invocation = Inr command"
    "in_env invocation = []"
    and a: "args = [''-o'', ''BatchMode=yes'', ''-o'', ''ForwardAgent=no'', ''-o'', ''PermitLocalCommand=no'', ''-o'',
        ''IdentitiesOnly=yes'', ''-o'', ''StrictHostKeyChecking=yes'', ''-i'', identity] @ ?options @
       [''--'', ssh_target ?run, command]" by auto
  have t: "\<exists>user. ssh_target ?run = user @ ssh_host ssh"
    by (auto simp: ssh_target_def split: option.splits)
  then obtain user where user: "ssh_target ?run = user @ ssh_host ssh" by blast
  have dig: "dec_digits n \<noteq> ''--''" for n
    using dec_digits_no_minus [of n] by auto
  then have opts: "''--'' \<notin> set ?options" by (auto split: option.splits dest: sym)
  have missing: "ssh_isolated_workspace ssh" "ssh_isolated_secrets ssh" "ssh_known_hosts_file ssh \<noteq> None"
    "ssh_terminates_remote_processes ssh" "np_default (pm_network (rt_permissions task)) = NetAllow"
    "ssh_network_policy ssh = Some UncontrolledAllow"
    "np_allow_domains (pm_network (rt_permissions task)) = []"
    "ep_allow (pm_env (rt_permissions task)) = []" "\<not> sc_expose_to_agent (rt_secrets task)"
    using s(4) by (auto simp: ssh_missing_def ssh_isolates_filesystem_def split: network_default.splits)
  from remote_command_reads [OF c(1)] have r: "sh_read None False command =
      Some ([Word ''cd'', Word workspace, AndIf, Word ''exec'', Word (in_executable invocation)] @
        map Word (in_args invocation))" by simp
  show ?thesis
    unfolding confined_ssh_run_def
    apply (rule exI [of _ ssh], rule exI [of _ workspace], rule exI [of _ identity],
        rule exI [of _ ?options], rule exI [of _ user], rule exI [of _ command])
    using s missing c(2) opts r a user
    apply (simp only: simp_thms)
    done
qed

definition cleanup_of :: "(string \<times> string) option \<Rightarrow> process set" where
  "cleanup_of cleanup =
     (case cleanup of None \<Rightarrow> {} | Some (command, runner_ref) \<Rightarrow> {Process command [''rm'', ''-f'', runner_ref]})"

definition starts_only :: "process set \<Rightarrow> runner_state \<Rightarrow> runner_state \<Rightarrow> bool" where
  "starts_only P s s' \<longleftrightarrow> (\<exists>new. rst_started s' = rst_started s @ new \<and> set new \<subseteq> P)"

lemma starts_only_refl [simp]: "starts_only P s s"
  by (auto simp: starts_only_def)

lemma starts_only_started: "Process e a \<in> P \<Longrightarrow> starts_only P s (started e a s)"
  by (simp add: starts_only_def started_def)

lemma starts_only_trans: "starts_only P s s' \<Longrightarrow> starts_only P s' s'' \<Longrightarrow> starts_only P s s''"
  by (fastforce simp: starts_only_def)

lemma starts_only_log: "rst_started s'' = rst_started s' \<Longrightarrow> starts_only P s s' \<Longrightarrow> starts_only P s s''"
  by (simp add: starts_only_def)

lemma run_cleanup_starts:
  "cleanup_of cleanup \<subseteq> P \<Longrightarrow> starts_only P s (snd (run_cleanup w cleanup s))"
  by (auto simp: run_cleanup_def cleanup_of_def Let_def split: output_answer.split option.splits
      intro: starts_only_started)

lemma kill_and_wait_starts:
  "cleanup_of cleanup \<subseteq> P \<Longrightarrow> starts_only P s (snd (kill_and_wait w msg c cleanup s))"
  using run_cleanup_starts [of cleanup P s w]
  by (auto simp: kill_and_wait_def case_prod_beta split: sum.split)

lemma kill_and_wait_stores:
  "rst_docker (snd (kill_and_wait w msg c cleanup s)) = rst_docker s
   \<and> rst_ssh (snd (kill_and_wait w msg c cleanup s)) = rst_ssh s"
  by (auto simp: kill_and_wait_def run_cleanup_def Let_def started_def case_prod_beta
      split: sum.split option.split output_answer.split)

lemma run_command_starts:
  assumes "Process executable args \<in> P" and "cleanup_of cleanup \<subseteq> P"
  shows "starts_only P s (snd (run_command_with_timeout w executable args timeout msg cleanup s))"
  using starts_only_started [OF assms(1), of s]
    starts_only_trans [OF starts_only_started [OF assms(1), of s]
      kill_and_wait_starts [OF assms(2), of "started executable args s" w msg]]
  by (auto simp: run_command_with_timeout_def Let_def case_prod_beta split: spawn_answer.split option.split
      wait_end.split)

lemma run_command_stores:
  "rst_docker (snd (run_command_with_timeout w executable args timeout msg cleanup s)) = rst_docker s
   \<and> rst_ssh (snd (run_command_with_timeout w executable args timeout msg cleanup s)) = rst_ssh s"
  using kill_and_wait_stores [of w msg _ cleanup "started executable args s"]
  by (auto simp: run_command_with_timeout_def Let_def started_def case_prod_beta
      split: spawn_answer.split option.split wait_end.split)

text \<open>A process that the runner may create for the task.\<close>

definition sanctioned ::
  "docker_runner \<Rightarrow> string \<Rightarrow> resolved_task \<Rightarrow> agent_invocation \<Rightarrow> process \<Rightarrow> bool" where
  "sanctioned dr ssh_command task invocation proc \<longleftrightarrow>
     (sb_kind (rt_sandbox task) = Docker \<and> process_executable proc = dr_docker_command dr
       \<and> (confined_docker_run dr task invocation (process_args proc)
          \<or> process_args proc = [''rm'', ''-f'', docker_container_name (rt_id task)]))
     \<or> (sb_kind (rt_sandbox task) = RemoteSsh \<and> process_executable proc = ssh_command
       \<and> confined_ssh_run task invocation (process_args proc))"

lemma docker_start_starts:
  assumes "docker_prepare dr task = Inr p"
  shows "starts_only {proc. sanctioned dr ssh_command task invocation proc} s
    (snd (docker_start w dr p invocation s))"
proof (cases "build_docker_run_args (docker_container_name (pr_task_id p)) p invocation")
  case (Inl err)
  then show ?thesis by (simp add: docker_start_def)
next
  case (Inr args)
  note p = docker_prepareD [OF assms]
  let ?run = "run_docker_command w (dr_docker_command dr) (docker_container_name (pr_task_id p)) args
      (map_option minutes_to_seconds (lim_timeout_minutes (pr_limits p))) s"
  have "starts_only {proc. sanctioned dr ssh_command task invocation proc} s (snd ?run)"
    unfolding run_docker_command_def
    by (rule run_command_starts)
      (use docker_args_confined [OF assms Inr] p in \<open>auto simp: sanctioned_def cleanup_of_def\<close>)
  with Inr show ?thesis
    by (cases ?run) (auto simp: docker_start_def Let_def starts_only_def split: run_end.split sum.split option.split)
qed

lemma ssh_start_starts:
  assumes "ssh_prepare task = Inr p"
  shows "starts_only {proc. sanctioned dr ssh_command task invocation proc} s
    (snd (ssh_start w ssh_command p invocation s))"
proof (cases "build_ssh_args p invocation")
  case (Inl err)
  then show ?thesis by (simp add: ssh_start_def Let_def)
next
  case (Inr args)
  from assms have k: "sb_kind (rt_sandbox task) = RemoteSsh"
    by (auto simp: ssh_prepare_def ensure_remote_ssh_task_def rbind_Inr_iff split: if_splits)
  let ?run = "run_command_with_timeout w ssh_command args
      (map_option minutes_to_seconds (lim_timeout_minutes (pr_limits p))) ssh_messages None s"
  have "starts_only {proc. sanctioned dr ssh_command task invocation proc} s (snd ?run)"
    by (rule run_command_starts)
      (use ssh_args_confined [OF assms Inr] k in \<open>auto simp: sanctioned_def cleanup_of_def\<close>)
  with Inr show ?thesis
    by (cases ?run) (auto simp: ssh_start_def Let_def starts_only_def split: run_end.split sum.split option.split)
qed

lemma expanded_prepareD:
  assumes "expanded_prepare dr task = Inr p"
  shows "docker_prepare dr task = Inr p \<and> pr_runner_kind p = Docker
    \<or> ssh_prepare task = Inr p \<and> pr_runner_kind p = RemoteSsh"
proof -
  from assms have "case sb_kind (rt_sandbox task) of
         Docker \<Rightarrow> docker_prepare dr task = Inr p
       | RemoteSsh \<Rightarrow> ssh_prepare task = Inr p
       | k \<Rightarrow> False"
    unfolding expanded_prepare_def
    by (elim rbind_InrE)
      (auto simp: unsupported_prepare_def not_implemented_def rbind_Inr_iff split: sandbox_kind.splits)
  then show ?thesis
    by (auto simp: docker_prepareD(5) elim: ssh_prepareD split: sandbox_kind.splits)
qed

lemma starts_confined:
  assumes "expanded_prepare dr task = Inr p"
  shows "\<exists>new. rst_started (snd (expanded_start w dr ssh_command p invocation s)) = rst_started s @ new
    \<and> list_all (sanctioned dr ssh_command task invocation) new"
proof -
  from expanded_prepareD [OF assms]
  have "starts_only {proc. sanctioned dr ssh_command task invocation proc} s
    (snd (expanded_start w dr ssh_command p invocation s))"
    using docker_start_starts ssh_start_starts by (auto simp: expanded_start_def)
  then show ?thesis by (auto simp: starts_only_def list_all_iff)
qed

text \<open>
  C4: Nothing runs outside its sandbox. Whatever the operating system answers, starting a run
  that was prepared for a task creates no process but: \<open>docker run\<close> with \<open>--rm\<close>, \<open>--pull=never\<close>,
  no network unless the task allows all of it, only mounts of workspace paths of the task that expose neither
  the home directory nor the Docker or SSH agent socket, read-only ones read-only and never
  overlapping a writable one, only allowlisted variables, the task's limits, image and the agent's
  command; the removal of that container; or, for a task that accepts SSH's lack of network
  control, \<open>ssh\<close> with fixed options and a command that the remote shell reads as exactly the
  agent's words in the task's workspace. For every other sandbox kind nothing is started.
\<close>

theorem runner_starts_confined:
  assumes "expanded_prepare dr task = Inr p"
  shows "\<exists>new. rst_started (snd (expanded_start w dr ssh_command p invocation s)) = rst_started s @ new
    \<and> list_all (sanctioned dr ssh_command task invocation) new"
  using assms by (rule starts_confined)

end
