(* ===== verification/Runner_Outcome.thy ===== *)
theory Runner_Outcome
  imports Runner_Safety
begin

text \<open>
  When a run ends and what it returns, the completion store, the capability gate, and the
  behaviours of the runners that the sandbox does not cover.
\<close>

section \<open>Timeouts\<close>

lemma wait_child_ends:
  assumes "d \<le> ch_clock c n" and "m \<le> n"
  shows "\<exists>e. wait_child c (Some d) m = Some e"
  using assms(2)
proof (induction "n - m" arbitrary: m)
  case 0
  with assms(1) show ?case
    by (subst wait_child.simps) (auto split: sum.splits option.splits)
next
  case (Suc k)
  then have "\<exists>e. wait_child c (Some d) (m + 1) = Some e" by simp
  then show ?case by (subst wait_child.simps) (auto split: sum.splits option.splits)
qed

text \<open>How the loop ends: by the first failed poll, exit or expired deadline.\<close>

lemma wait_child_first:
  "wait_child c deadline m = Some e \<Longrightarrow>
   \<exists>n \<ge> m. (\<forall>k. m \<le> k \<and> k < n \<longrightarrow> ch_poll c k = Inr None
        \<and> (case deadline of None \<Rightarrow> True | Some d \<Rightarrow> ch_clock c k < d))
     \<and> (case e of WaitFailed err \<Rightarrow> ch_poll c n = Inl err
        | Exited status \<Rightarrow> ch_poll c n = Inr (Some status)
        | Expired \<Rightarrow> ch_poll c n = Inr None \<and> (\<exists>d. deadline = Some d \<and> d \<le> ch_clock c n))"
proof (induction c deadline m e rule: wait_child.raw_induct [rotated, consumes 1, case_names step])
  case (step rec c deadline m e)
  show ?case
  proof (cases "ch_poll c m")
    case (Inl err)
    with step(2) show ?thesis by (intro exI [of _ m]) auto
  next
    case (Inr polled)
    show ?thesis
    proof (cases polled)
      case (Some status)
      with Inr step(2) show ?thesis by (intro exI [of _ m]) auto
    next
      case None
      show ?thesis
      proof (cases "case deadline of None \<Rightarrow> False | Some d \<Rightarrow> d \<le> ch_clock c m")
        case True
        with Inr None step(2) show ?thesis
          by (intro exI [of _ m]) (auto split: option.splits)
      next
        case False
        with Inr None step(2) have "rec c deadline (m + 1) = Some e" by simp
        from step(1) [OF this] obtain n where n: "n \<ge> m + 1"
          "\<forall>k. m + 1 \<le> k \<and> k < n \<longrightarrow> ch_poll c k = Inr None
             \<and> (case deadline of None \<Rightarrow> True | Some d \<Rightarrow> ch_clock c k < d)"
          "case e of WaitFailed err \<Rightarrow> ch_poll c n = Inl err
             | Exited status \<Rightarrow> ch_poll c n = Inr (Some status)
             | Expired \<Rightarrow> ch_poll c n = Inr None \<and> (\<exists>d. deadline = Some d \<and> d \<le> ch_clock c n)"
          by blast
        have "ch_poll c k = Inr None \<and> (case deadline of None \<Rightarrow> True | Some d \<Rightarrow> ch_clock c k < d)"
          if "m \<le> k" "k < n" for k
        proof (cases "k = m")
          case True
          with Inr None False show ?thesis by (auto split: option.splits)
        next
          case False
          with that n(2) show ?thesis by simp
        qed
        with n(1,3) show ?thesis by (intro exI [of _ n]) auto
      qed
    qed
  qed
qed

text \<open>The child reported its exit before the deadline; the deadline passed before any exit.\<close>

definition exit_seen :: "child \<Rightarrow> int \<Rightarrow> int option \<Rightarrow> bool" where
  "exit_seen c d code \<longleftrightarrow>
     (\<exists>k status. ch_poll c k = Inr (Some status) \<and> code = cs_code status
        \<and> (\<forall>j < k. ch_poll c j = Inr None \<and> ch_clock c j < d))"

definition deadline_seen :: "child \<Rightarrow> int \<Rightarrow> bool" where
  "deadline_seen c d \<longleftrightarrow> (\<exists>k. d \<le> ch_clock c k \<and> (\<forall>j \<le> k. ch_poll c j = Inr None))"

text \<open>
  The calls that may never answer: the end of one of the two pipes, and after a deadline the cleanup
  and the wait for the killed child.
\<close>

definition pipe_blocks :: "child \<Rightarrow> bool" where
  "pipe_blocks c \<longleftrightarrow> ch_stdout c = ReaderBlocked \<or> ch_stderr c = ReaderBlocked"

definition cleanup_blocks :: "world \<Rightarrow> (string \<times> string) option \<Rightarrow> process list \<Rightarrow> bool" where
  "cleanup_blocks w cleanup procs \<longleftrightarrow>
     (\<exists>command runner_ref. cleanup = Some (command, runner_ref)
        \<and> wd_output w procs command [''rm'', ''-f'', runner_ref] = OutputNever)"

lemma collect_output_ends:
  "collect_output msg c b status = Never_ends \<Longrightarrow> pipe_blocks c"
  "collect_output msg c b status \<noteq> Panics"
  "collect_output msg c b status = Returned (Inr out) \<Longrightarrow> ro_exit_status out = exit_status_of b status"
  by (auto simp: collect_output_def join_reader_def pipe_blocks_def split: reader_end.splits)

lemma kill_and_wait_ends:
  "case fst (kill_and_wait w msg c cleanup s) of
     Never_ends \<Rightarrow> is_ok (ch_kill c) \<and> (cleanup_blocks w cleanup (rst_started s) \<or> ch_wait c = None \<or> pipe_blocks c)
   | Panics \<Rightarrow> False
   | Returned r \<Rightarrow> (\<forall>out. r = Inr out \<longrightarrow> (\<exists>status. ro_exit_status out = exit_status_of True status))"
proof (cases "is_ok (ch_kill c)")
  case False
  then show ?thesis by (auto simp: kill_and_wait_def is_ok_iff split: sum.split)
next
  case True
  have "fst (run_cleanup w cleanup s) = Returned (Inr ())
      \<or> fst (run_cleanup w cleanup s) = Never_ends \<and> cleanup_blocks w cleanup (rst_started s)"
    by (auto simp: run_cleanup_def cleanup_blocks_def Let_def split: option.split output_answer.split)
  with True show ?thesis
    by (auto dest!: collect_output_ends(1,3) simp: collect_output_ends(2) kill_and_wait_def is_ok_iff case_prod_beta split: sum.split option.split run_end.splits)
qed


text \<open>
  A descendant that outlives the kill defeats the timeout: while it keeps the pipe open, a command
  whose deadline passed and whose child is dead does not return.
\<close>

lemma orphan_defeats_timeout:
  assumes "wd_spawn w (rst_started s) executable args = Spawned c"
    and "instant_add (ch_started c) secs = Some d"
    and "ch_poll c 0 = Inr None" and "d \<le> ch_clock c 0" and "ch_kill c = Inr ()"
    and "ch_wait c = Some (Inr status)" and "ch_stdout c = ReaderBlocked"
  shows "fst (run_command_with_timeout w executable args (Some secs) msg None s) = Never_ends"
proof -
  have "wait_child c (Some d) 0 = Some Expired" using assms(3,4) by (subst wait_child.simps) simp
  with assms show ?thesis
    by (simp add: run_command_with_timeout_def Let_def kill_and_wait_def run_cleanup_def
        collect_output_def join_reader_def)
qed

lemma long_timeout_seconds: "2 ^ 63 \<le> unat m * 60 \<Longrightarrow> 2 ^ 63 \<le> uint (minutes_to_seconds m)"
proof (cases "unat m * 60 < 2 ^ 64")
  case True
  assume a: "2 ^ 63 \<le> unat m * 60"
  have "unat (m * 60) = unat m * 60"
    using True by (simp add: unat_word_ariths unat_of_nat take_bit_nat_eq_self)
  with True a have "2 ^ 63 \<le> unat (minutes_to_seconds m)" by (simp add: minutes_to_seconds_def)
  then show ?thesis by (metis int_eq_iff_numeral of_nat_le_iff of_nat_numeral of_nat_power uint_nat)
next
  case False
  then show ?thesis by (simp add: minutes_to_seconds_def unsigned_minus_1_eq_mask mask_eq_exp_minus_1)
qed

text \<open>
  A very long timeout is not a long timeout: from 153722867280912931 minutes on, starting a
  Docker run panics when the deadline is computed, after the container was started, so nothing
  collects, times out or removes it. The configuration accepts every positive timeout.
\<close>

theorem huge_timeout_panics:
  assumes "build_docker_run_args (docker_container_name (pr_task_id p)) p invocation = Inr args"
    and "wd_spawn w (rst_started s) (dr_docker_command dr) args = Spawned c" and "0 \<le> ch_started c"
    and "lim_timeout_minutes (pr_limits p) = Some m" and "153722867280912931 \<le> m"
  shows "docker_start w dr p invocation s = (Panics, started (dr_docker_command dr) args s)"
proof -
  from assms(5) have "153722867280912931 \<le> unat m"
    by (simp add: word_le_nat_alt)
  then have "2 ^ 63 \<le> unat m * 60" by simp
  from long_timeout_seconds [OF this] assms(3)
  have "instant_add (ch_started c) (minutes_to_seconds m) = None"
    by (simp add: instant_add_def Let_def)
  with assms show ?thesis
    by (simp add: docker_start_def run_docker_command_def run_command_with_timeout_def Let_def)
qed

section \<open>The completion store\<close>

lemma bt_get_insert_same: "bt_get (bt_insert k v m) k = Some v"
  by (induction k v m rule: bt_insert.induct) (auto simp: bt_get_def)

lemma bt_get_filter: "bt_get (filter (\<lambda>kv. fst kv \<noteq> k) m) k = None"
  by (auto simp: bt_get_def map_of_eq_None_iff)

lemma take_completed_once:
  "take_completed runner key (Some (bt_insert key done_output store)) = (r, rest) \<Longrightarrow>
   r = Inr done_output \<and> (\<exists>err. take_completed runner key rest = (Inl err, rest))"
  by (auto simp: take_completed_def bt_get_insert_same bt_get_filter)

lemma docker_start_returned:
  assumes "docker_start w dr p invocation s = (Returned (Inr running), s')"
  obtains done_output store where "rn_runner_ref running = docker_container_name (pr_task_id p)"
    "rn_task_id running = pr_task_id p"
    "rst_docker s' = Some (bt_insert (rn_runner_ref running) done_output store)"
  using assms
  by (auto simp: docker_start_def Let_def completion_poisoned_def split: sum.splits run_end.splits option.splits prod.splits)

lemma ssh_start_returned:
  assumes "ssh_start w command p invocation s = (Returned (Inr running), s')"
  obtains done_output store where "rn_runner_ref running = remote_ssh_runner_ref (pr_task_id p)"
    "rn_task_id running = pr_task_id p"
    "rst_ssh s' = Some (bt_insert (rn_runner_ref running) done_output store)"
  using assms
  by (auto simp: ssh_start_def Let_def completion_poisoned_def split: sum.splits run_end.splits option.splits prod.splits if_splits)

lemma docker_ref_not_ssh: "\<not> prefix ''remote-ssh:'' (docker_container_name tid)"
  by (simp add: docker_container_name_def take_Cons')

text \<open>
  The output of a run is collected once. When a start succeeds, the next collection for the
  running task that it returned gives the output of that run, of the runner that ran it, and a
  second collection fails.
\<close>

theorem output_collected_once:
  assumes "expanded_start w dr ssh_command p invocation s = (Returned (Inr running), s1)"
    and "expanded_collect_exit running s1 = (r, s2)"
  shows "rn_task_id running = pr_task_id p \<and> (\<exists>done_output. r = Inr done_output)
    \<and> (\<exists>err s3. expanded_collect_exit running s2 = (Inl err, s3))"
proof -
  from assms(1) consider (docker) "docker_start w dr p invocation s = (Returned (Inr running), s1)"
    | (ssh) "ssh_start w ssh_command p invocation s = (Returned (Inr running), s1)"
    by (auto simp: expanded_start_def not_implemented_def split: sandbox_kind.splits)
  then show ?thesis
  proof cases
    case docker
    then obtain done_output store where d: "rn_runner_ref running = docker_container_name (pr_task_id p)"
      "rn_task_id running = pr_task_id p"
      "rst_docker s1 = Some (bt_insert (rn_runner_ref running) done_output store)"
      by (rule docker_start_returned)
    have n: "\<not> is_ssh_ref running" by (simp add: is_ssh_ref_def d(1) docker_ref_not_ssh)
    from assms(2) n obtain rest where t: "take_completed ''Docker'' (rn_runner_ref running) (rst_docker s1) = (r, rest)"
      "s2 = s1\<lparr>rst_docker := rest\<rparr>"
      by (auto simp: expanded_collect_exit_def docker_collect_exit_def split: prod.splits)
    from take_completed_once [OF t(1) [unfolded d(3)]] t(2) n d(2) show ?thesis
      by (auto simp: expanded_collect_exit_def docker_collect_exit_def)
  next
    case ssh
    then obtain done_output store where d: "rn_runner_ref running = remote_ssh_runner_ref (pr_task_id p)"
      "rn_task_id running = pr_task_id p"
      "rst_ssh s1 = Some (bt_insert (rn_runner_ref running) done_output store)"
      by (rule ssh_start_returned)
    have n: "is_ssh_ref running" by (simp add: is_ssh_ref_def d(1) remote_ssh_runner_ref_def)
    from assms(2) n obtain rest where t: "take_completed ''remote SSH'' (rn_runner_ref running) (rst_ssh s1) = (r, rest)"
      "s2 = s1\<lparr>rst_ssh := rest\<rparr>"
      by (auto simp: expanded_collect_exit_def ssh_collect_exit_def split: prod.splits)
    from take_completed_once [OF t(1) [unfolded d(3)]] t(2) n d(2) show ?thesis
      by (auto simp: expanded_collect_exit_def ssh_collect_exit_def)
  qed
qed

text \<open>Two task ids may share a container name, and then a completion.\<close>

lemma container_names_collide: "docker_container_name ''a b'' = docker_container_name ''a-b''"
  by code_simp

text \<open>A sandbox kind that has only a contract is never prepared, whatever the task asks for.\<close>

lemma contract_only_never_prepared:
  assumes "contract_for_kind (from_sandbox (sb_kind (rt_sandbox task))) = Some contract"
  shows "\<exists>err. expanded_prepare dr task = Inl err"
proof -
  from assms have "sb_kind (rt_sandbox task) \<notin> {Docker, RemoteSsh}"
    by (auto simp: contract_for_kind_def expansion_contracts_def)
  then show ?thesis
    by (cases "expanded_prepare dr task")
      (auto dest!: expanded_prepareD docker_prepareD(8) simp: ssh_prepare_def ensure_remote_ssh_task_def)
qed

section \<open>The environment of a coding agent\<close>

text \<open>The variables that the adapter of a coding agent sets: the prompt is the goal of the task.\<close>

lemma profile_env_prompt:
  "profile_env profile task \<noteq> [] \<and> bt_get (profile_env profile task) (prompt_env_name profile) = Some (rt_goal task)"
  by (cases profile) (auto simp: profile_env_def Let_def bt_get_def less_list_code)

lemma ssh_rejects_environment:
  assumes "in_env invocation \<noteq> []"
  shows "\<exists>err. build_ssh_args p invocation = Inl err"
proof (cases "build_ssh_args p invocation")
  case (Inr args)
  then obtain ssh where "pr_ssh p = Some ssh"
    by (cases "pr_ssh p") (simp_all add: build_ssh_args_def)
  from build_ssh_argsD [OF Inr this] assms show ?thesis by blast
qed blast

text \<open>
  The prompt of a coding agent never reaches it. The adapter of a known coding agent puts the
  goal of the task into its prompt variable, but the Docker command line is the same whatever the
  invocation's environment is, and the SSH runner refuses an invocation with an environment.
\<close>

theorem agent_prompt_dropped:
  assumes "ag_kind (rt_agent task) = Specialized kind" and "build_specialized_invocation task = Inr i"
  shows "(\<exists>profile. profile_parse kind = Some profile
        \<and> bt_get (in_env i) (prompt_env_name profile) = Some (rt_goal task))
    \<and> build_docker_run_args runner_ref p i = build_docker_run_args runner_ref p (i\<lparr>in_env := []\<rparr>)
    \<and> (\<exists>err. build_ssh_args p i = Inl err)"
proof -
  from assms obtain profile where p: "profile_parse kind = Some profile" "in_env i = profile_env profile task"
    by (auto simp: build_specialized_invocation_def Let_def rbind_Inr_iff split: option.splits)
  have "build_docker_run_args runner_ref p i = build_docker_run_args runner_ref p (i\<lparr>in_env := []\<rparr>)"
    by (cases "pr_image p") (simp_all add: build_docker_run_args_def)
  with p profile_env_prompt [of profile task] ssh_rejects_environment [of i p] show ?thesis by auto
qed

section \<open>What the sandbox does not cover\<close>

text \<open>
  The evidence of a task lies in its workspace. A task that may write the whole workspace and
  has no gateway tool gets a writable mount of the directory with its own event log, resolved
  task and reports.
\<close>

definition open_workspace_task :: resolved_task where
  "open_workspace_task = sample_task\<lparr>rt_permissions := sample_permissions
     \<lparr>pm_paths := \<lparr>pp_read = [], pp_write = [''/tmp/repo'']\<rparr>,
      pm_network := \<lparr>np_default = NetDeny, np_allow_domains = []\<rparr>\<rparr>\<rparr>"

definition plain_docker :: docker_runner where
  "plain_docker = \<lparr>dr_host_env = [(''CI'', ''1''), (''HOME'', ''/home/u'')], dr_host_home = Some ''/home/u'',
     dr_docker_command = ''docker''\<rparr>"

lemma evidence_mounted_writable:
  "build_mount_plan plain_docker open_workspace_task =
     Inr [\<lparr>mp_host_path = ''/tmp/repo'', mp_container_path = ''/workspace'', mp_mode = ReadWrite\<rparr>]
   \<and> path_starts_with ''/tmp/repo/.taskfence/tasks/t1/events.jsonl'' ''/tmp/repo''"
  by code_simp

text \<open>A directory that holds the Docker socket is not recognised: only the socket itself is.\<close>

lemma docker_socket_directory_mountable:
  "mountable plain_docker (open_workspace_task\<lparr>rt_workspace_host_path := ''/var/run''\<rparr>) ''/var/run''
   \<and> path_starts_with ''/var/run/docker.sock'' ''/var/run''"
  by code_simp

text \<open>
  The image is passed without a separator behind the options: an image that starts with a minus
  is an option for Docker, and the agent's executable is taken as the image.
\<close>

lemma image_taken_as_option:
  "rbind (docker_prepare plain_docker (open_workspace_task
       \<lparr>rt_sandbox := (rt_sandbox sample_task)\<lparr>sb_image := Some ''--privileged''\<rparr>\<rparr>)) (\<lambda>p.
     rbind (build_docker_run_args ''c'' p \<lparr>in_executable = ''alpine'', in_args = [''sh''], in_env = [],
        in_working_dir = ''/workspace''\<rparr>) (\<lambda>args. Inr (drop 9 args))) =
   Inr [''--mount'', ''type=bind,source=/tmp/repo,target=/workspace'', ''--env'', ''CI=1'',
        ''--privileged'', ''alpine'', ''sh'']"
  by code_simp

section \<open>Witnesses\<close>

text \<open>A child that exits at its second poll, and a world that starts it.\<close>

definition sample_child :: child where
  "sample_child = \<lparr>ch_poll = (\<lambda>n. if n = 0 then Inr None else Inr (Some \<lparr>cs_code = Some 0, cs_signal = None\<rparr>)),
     ch_clock = (\<lambda>n. int n), ch_started = 0, ch_kill = Inr (), ch_wait = Some (Inl ''gone''),
     ch_stdout = ReaderGot ''ok'', ch_stderr = ReaderGot ''''\<rparr>"

definition sample_world :: world where
  "sample_world = \<lparr>wd_spawn = (\<lambda>_ _ _. Spawned sample_child), wd_output = (\<lambda>_ _ _. OutputDone)\<rparr>"

definition sample_invocation :: agent_invocation where
  "sample_invocation = \<lparr>in_executable = ''npm'', in_args = [''test''], in_env = [], in_working_dir = ''/workspace''\<rparr>"

definition sample_run :: "running_task result run_end \<times> runner_state" where
  "sample_run = (case expanded_prepare plain_docker open_workspace_task of
     Inr p \<Rightarrow> expanded_start sample_world plain_docker ''ssh'' p sample_invocation initial_runner_state
   | Inl e \<Rightarrow> (Returned (Inl e), initial_runner_state))"

lemma sample_prepared:
  "expanded_prepare plain_docker open_workspace_task = Inr
     \<lparr>pr_task_id = ''t1'', pr_runner_kind = Docker, pr_image = Some ''img'',
      pr_mounts = [\<lparr>mp_host_path = ''/tmp/repo'', mp_container_path = ''/workspace'', mp_mode = ReadWrite\<rparr>],
      pr_env = [(''CI'', ''1'')], pr_network = \<lparr>np_default = NetDeny, np_allow_domains = []\<rparr>,
      pr_gateway = default_prepared_gateway,
      pr_limits = \<lparr>lim_timeout_minutes = None, lim_cpu = None, lim_memory = None, lim_disk = None\<rparr>,
      pr_ssh = None\<rparr>"
  by code_simp

lemma sample_args:
  "build_docker_run_args ''taskfence-t1'' (projr (expanded_prepare plain_docker open_workspace_task)) sample_invocation =
     Inr [''run'', ''--rm'', ''--pull=never'', ''--name'', ''taskfence-t1'', ''--workdir'', ''/workspace'',
       ''--network'', ''none'', ''--mount'', ''type=bind,source=/tmp/repo,target=/workspace'',
       ''--env'', ''CI=1'', ''img'', ''npm'', ''test'']"
  unfolding sample_prepared by code_simp

theorem runner_starts_confined_witness:
  "\<exists>new p. expanded_prepare plain_docker open_workspace_task = Inr p
    \<and> rst_started (snd (expanded_start sample_world plain_docker ''ssh'' p sample_invocation initial_runner_state)) = new
    \<and> list_all (sanctioned plain_docker ''ssh'' open_workspace_task sample_invocation) new"
  using runner_starts_confined [OF sample_prepared, of sample_world "''ssh''" sample_invocation initial_runner_state]
    sample_prepared
  by (simp add: initial_runner_state_def)

text \<open>A child that never exits by itself and is killed at the deadline of one second.\<close>

definition stubborn_child :: child where
  "stubborn_child = sample_child\<lparr>ch_poll := (\<lambda>n. Inr None), ch_clock := (\<lambda>n. int n * 600000000),
     ch_wait := Some (Inr \<lparr>cs_code = None, cs_signal = Some 9\<rparr>)\<rparr>"

definition stubborn_world :: world where
  "stubborn_world = sample_world\<lparr>wd_spawn := (\<lambda>_ _ _. Spawned stubborn_child)\<rparr>"


theorem huge_timeout_panics_witness:
  "\<exists>p args. docker_start sample_world plain_docker p sample_invocation initial_runner_state =
     (Panics, started ''docker'' args initial_runner_state) \<and> lim_timeout_minutes (pr_limits p) = Some (- 1)"
proof -
  let ?p = "(projr (expanded_prepare plain_docker open_workspace_task))
    \<lparr>pr_limits := \<lparr>lim_timeout_minutes = Some (- 1), lim_cpu = None, lim_memory = None, lim_disk = None\<rparr>\<rparr>"
  have "is_ok (build_docker_run_args ''taskfence-t1'' ?p sample_invocation)"
    unfolding sample_prepared by code_simp
  moreover have "docker_container_name (pr_task_id ?p) = ''taskfence-t1''"
    unfolding sample_prepared by code_simp
  ultimately obtain args where a: "build_docker_run_args (docker_container_name (pr_task_id ?p)) ?p sample_invocation = Inr args"
    unfolding is_ok_iff by metis
  have w: "wd_spawn sample_world (rst_started initial_runner_state) (dr_docker_command plain_docker) args = Spawned sample_child"
    by (simp add: sample_world_def)
  have m: "(153722867280912931 :: u64) \<le> - 1"
    by (simp add: word_le_nat_alt unsigned_minus_1_eq_mask mask_eq_exp_minus_1)
  from huge_timeout_panics [OF a w _ _ m] show ?thesis
    by (intro exI [of _ ?p] exI [of _ args]) (simp add: sample_child_def plain_docker_def)
qed

theorem output_collected_once_witness:
  "\<exists>running s1 s2 r. sample_run = (Returned (Inr running), s1)
     \<and> expanded_collect_exit running s1 = (r, s2) \<and> is_ok r
     \<and> \<not> is_ok (fst (expanded_collect_exit running s2))"
proof -
  have "(case sample_run of (Returned (Inr _), _) \<Rightarrow> True | _ \<Rightarrow> False)"
    unfolding sample_run_def sample_prepared by code_simp
  then obtain running s1 where s: "sample_run = (Returned (Inr running), s1)"
    by (auto split: prod.splits run_end.splits sum.splits)
  then have e: "expanded_start sample_world plain_docker ''ssh''
      (projr (expanded_prepare plain_docker open_workspace_task)) sample_invocation initial_runner_state =
      (Returned (Inr running), s1)"
    by (simp add: sample_run_def sample_prepared)
  obtain r s2 where c: "expanded_collect_exit running s1 = (r, s2)" by fastforce
  from output_collected_once [OF e c] s c show ?thesis
    by (intro exI [of _ running] exI [of _ s1] exI [of _ s2] exI [of _ r]) (auto simp: is_ok_iff)
qed

theorem agent_prompt_dropped_witness:
  "\<exists>i. build_specialized_invocation (sample_task\<lparr>rt_agent := \<lparr>ag_kind = Specialized ''codex'', ag_command = [],
        ag_args = []\<rparr>\<rparr>) = Inr i
     \<and> bt_get (in_env i) ''TASKFENCE_CODEX_PROMPT'' = Some ''test''
     \<and> (\<exists>err. build_ssh_args (projr (expanded_prepare plain_docker open_workspace_task)) i = Inl err)"
proof -
  let ?task = "sample_task\<lparr>rt_agent := \<lparr>ag_kind = Specialized ''codex'', ag_command = [], ag_args = []\<rparr>\<rparr>"
  have "is_ok (build_specialized_invocation ?task)" by code_simp
  then obtain i where i: "build_specialized_invocation ?task = Inr i" unfolding is_ok_iff by blast
  have k: "ag_kind (rt_agent ?task) = Specialized ''codex''" by simp
  have "profile_parse ''codex'' = Some CodexCli" by code_simp
  with agent_prompt_dropped [OF k i, of "''c''" "projr (expanded_prepare plain_docker open_workspace_task)"] i
  show ?thesis by (auto simp: sample_task_def task_with_def)
qed

end
