(* ===== verification/Runner_Orchestrator.thy ===== *)
theory Runner_Orchestrator
  imports Runner_Outcome Orchestrator_Life
begin

text \<open>
  The orchestrator with the expanded runner and the agent adapters behind its interfaces: what
  reaches the container is the prepared run of the task and the task's own agent command, after
  the authorisation of exactly that command.
\<close>

section \<open>A start uses what was prepared and built for the task\<close>

fun start_of_task :: "orch_env \<Rightarrow> resolved_task \<Rightarrow> call list \<Rightarrow> call \<Rightarrow> bool" where
  "start_of_task env task pre (CStart prepared invocation r) \<longleftrightarrow>
     (\<exists>h. oe_prepare env h task = Inr prepared) \<and> (\<exists>h. oe_build_invocation env h task = Inr invocation)"
| "start_of_task env task pre c \<longleftrightarrow> True"

definition task_inv :: "orch_env \<Rightarrow> resolved_task \<Rightarrow> orch_state \<Rightarrow> bool" where
  "task_inv env task s \<longleftrightarrow> each_call (start_of_task env task) (os_log s)"

lemma plain_start_of_task: "plain_call c \<Longrightarrow> start_of_task env task pre c"
  by (cases c) auto

interpretation own_task: orch_invariant "task_inv env task" env "\<lambda>_. True" task for env task
proof (standard, goal_cases)
  case (1 e)
  show ?case by (rule preserves_record_event) (auto simp: task_inv_def split: sum.splits)
next
  case (3 c s)
  then show ?case by (simp add: task_inv_def plain_start_of_task)
qed (auto simp: task_inv_def preserves_def hoare_def wp_def perform_def Let_def split: sum.splits)

lemma approved_task_inv:
  assumes "\<exists>h. oe_build_invocation env h task = Inr invocation"
  shows "preserves (task_inv env task) (run_approved env task artifacts invocation)"
proof -
  let ?J = "task_inv env task"
  have start: "preserves ?J (perform (\<lambda>h. oe_start env h prepared invocation) (CStart prepared invocation))"
    if "\<exists>h. oe_prepare env h task = Inr prepared" for prepared
    using that assms by (auto simp: preserves_def hoare_def wp_def perform_def Let_def task_inv_def split: sum.splits)
  have collect: "preserves ?J (perform (\<lambda>h. oe_collect_exit env h running) (CCollectExit running))" for running
    by (auto simp: preserves_def hoare_def wp_def perform_def Let_def task_inv_def split: sum.splits)
  have rest: "preserves ?J
     (sbind (transition env (rt_id task) Running) (\<lambda>_.
      stry (perform (\<lambda>h. oe_start env h prepared invocation) (CStart prepared invocation))
       (\<lambda>err. run_failed env task artifacts err)
       (\<lambda>running.
          stry (perform (\<lambda>h. oe_collect_exit env h running) (CCollectExit running))
            (\<lambda>err. stry (perform (\<lambda>h. oe_stop env h running) (CStop running))
                      (\<lambda>_. run_failed env task artifacts err)
                      (\<lambda>_. run_failed env task artifacts err))
            (\<lambda>out. run_finished env task artifacts baseline out))))"
    if "\<exists>h. oe_prepare env h task = Inr prepared" for prepared baseline
    by (intro hoare_rules own_task.trans own_task.step own_task.failed own_task.finished collect
        start that) simp_all
  show ?thesis
    unfolding run_approved_def
  proof (rule preserves_sbind)
    show "preserves ?J (perform (\<lambda>h. oe_capture_baseline env h task) CCaptureBaseline)"
      by (rule own_task.step) simp
  next
    fix baseline
    have prep: "preserves ?J (perform (\<lambda>h. oe_prepare env h task) CPrepare)" by (rule own_task.step) simp
    show "preserves ?J (sbind (perform (\<lambda>h. oe_prepare env h task) CPrepare) (\<lambda>prepared.
       sbind (transition env (rt_id task) Running) (\<lambda>_.
       stry (perform (\<lambda>h. oe_start env h prepared invocation) (CStart prepared invocation))
         (\<lambda>err. run_failed env task artifacts err)
         (\<lambda>running.
            stry (perform (\<lambda>h. oe_collect_exit env h running) (CCollectExit running))
              (\<lambda>err. stry (perform (\<lambda>h. oe_stop env h running) (CStop running))
                        (\<lambda>_. run_failed env task artifacts err)
                        (\<lambda>_. run_failed env task artifacts err))
              (\<lambda>out. run_finished env task artifacts baseline out)))))"
      unfolding preserves_def
      by (rule hoare_sbind [OF perform_answer [OF prep]], rule hoare_pure, rule preserves_hoare, rule rest)
  qed
qed

lemma run_task_inv: "preserves (task_inv env task) (run env task)"
proof -
  let ?J = "task_inv env task"
  have build: "preserves ?J (perform (\<lambda>h. oe_build_invocation env h task) CBuildInvocation)"
    by (rule own_task.step) simp
  have rest: "preserves ?J
     (let command_action = command_action_from_invocation invocation in
     sbind (transition env (rt_id task) Preparing) (\<lambda>_.
     sbind (perform (\<lambda>h. oe_create_task_dir env h task) CCreateTaskDir) (\<lambda>artifacts.
     sbind (perform (\<lambda>h. oe_write_resolved_task env h task) CWriteResolvedTask) (\<lambda>_.
     stry (evaluate_or_request_approval env task (Command command_action))
       (\<lambda>err. finish_pre_run_failure env task artifacts err)
       (\<lambda>_. run_approved env task artifacts invocation)))))"
    if "\<exists>h. oe_build_invocation env h task = Inr invocation" for invocation
    unfolding Let_def
    by (intro hoare_rules own_task.trans own_task.step own_task.approval_gate own_task.pre_run_failure
        approved_task_inv that) simp_all
  have inner: "preserves ?J (sbind (perform (\<lambda>h. oe_build_invocation env h task) CBuildInvocation) (\<lambda>invocation.
     let command_action = command_action_from_invocation invocation in
     sbind (transition env (rt_id task) Preparing) (\<lambda>_.
     sbind (perform (\<lambda>h. oe_create_task_dir env h task) CCreateTaskDir) (\<lambda>artifacts.
     sbind (perform (\<lambda>h. oe_write_resolved_task env h task) CWriteResolvedTask) (\<lambda>_.
     stry (evaluate_or_request_approval env task (Command command_action))
       (\<lambda>err. finish_pre_run_failure env task artifacts err)
       (\<lambda>_. run_approved env task artifacts invocation))))))"
    unfolding preserves_def
    by (rule hoare_sbind [OF perform_answer [OF build]], rule hoare_pure, rule preserves_hoare, rule rest)
  show ?thesis
    unfolding run_def
    by (rule preserves_sbind, rule own_task.trans, rule preserves_sbind, rule own_task.now, simp,
        rule preserves_sbind, rule own_task.trans, rule inner)
qed

lemma starts_of_task: "each_call (start_of_task env task) (os_log (snd (run env task initial_state)))"
  using preservesD [OF run_task_inv [of env task], of initial_state]
  by (cases "run env task initial_state") (simp add: task_inv_def initial_state_def)

section \<open>End to end\<close>

definition sandboxed_start :: "docker_runner \<Rightarrow> resolved_task \<Rightarrow> call list \<Rightarrow> call \<Rightarrow> bool" where
  "sandboxed_start dr task pre c \<longleftrightarrow>
     (case c of
        CStart prepared invocation r \<Rightarrow>
          authorised (Command (command_action_from_invocation invocation)) pre
          \<and> in_executable invocation = trim (ag_command (rt_agent task))
          \<and> in_args invocation = ag_args (rt_agent task)
          \<and> (\<forall>w ssh_command s. \<exists>new.
               rst_started (snd (expanded_start w dr ssh_command prepared invocation s)) = rst_started s @ new
               \<and> list_all (sanctioned dr ssh_command task invocation) new)
      | _ \<Rightarrow> True)"

text \<open>
  C2: What is authorised is what runs, and it runs in the sandbox. When the orchestrator uses the
  generic agent adapter and prepares with the expanded runner, every start in its log passes on the
  executable and arguments of the task file, comes after the authorisation of exactly
  that command, and creates, whatever the operating system answers, only the confined processes of the
  task.
\<close>

theorem authorised_command_runs_sandboxed:
  assumes "\<forall>h. oe_prepare env h task = expanded_prepare dr task"
    and "\<forall>h. oe_build_invocation env h task = build_generic_invocation task"
  shows "each_call (sandboxed_start dr task) (os_log (snd (run env task initial_state)))"
proof -
  have both: "each_call (\<lambda>pre c. start_authorised pre c \<and> start_of_task env task pre c)
      (os_log (snd (run env task initial_state)))"
    using start_requires_authorised [of env task] starts_of_task [of env task]
    unfolding each_call_def by blast
  show ?thesis
  proof (rule each_call_mono [OF both])
    fix pre c
    assume "start_authorised pre c \<and> start_of_task env task pre c"
    then show "sandboxed_start dr task pre c"
      using assms starts_confined invocation_generic
      by (cases c) (auto simp: sandboxed_start_def)
  qed
qed

text \<open>A run whose command needs an approval, gets it and is started.\<close>

definition sandboxed_env :: orch_env where
  "sandboxed_env = (sample_env Approved exit_zero)
     \<lparr>oe_prepare := (\<lambda>_. expanded_prepare plain_docker),
      oe_build_invocation := (\<lambda>_. build_generic_invocation)\<rparr>"

definition asking_task :: resolved_task where
  "asking_task = open_workspace_task\<lparr>rt_permissions := (rt_permissions open_workspace_task)
     \<lparr>pm_commands := \<lparr>cp_allow = [], cp_approval_required = [''codex''], cp_deny = []\<rparr>\<rparr>\<rparr>"

fun starts_successfully :: "call \<Rightarrow> bool" where
  "starts_successfully (CStart _ _ (Inr _)) = True"
| "starts_successfully _ = False"

lemma asking_answers:
  "is_ok (expanded_prepare plain_docker asking_task)"
  "build_generic_invocation asking_task = Inr \<lparr>in_executable = ''codex'', in_args = [], in_env = [],
     in_working_dir = ''/workspace''\<rparr>"
  "map_sum id needs_approval (evaluate exact_glob asking_task (Command (command_action_from_invocation
     \<lparr>in_executable = ''codex'', in_args = [], in_env = [], in_working_dir = ''/workspace''\<rparr>))) = Inr True"
  by code_simp+

lemma asking_starts:
  "list_ex starts_successfully (os_log (snd (run sandboxed_env asking_task initial_state)))"
proof -
  obtain p where p: "expanded_prepare plain_docker asking_task = Inr p"
    using asking_answers(1) unfolding is_ok_iff by blast
  obtain k r m l where d: "evaluate exact_glob asking_task (Command (command_action_from_invocation
     \<lparr>in_executable = ''codex'', in_args = [], in_env = [], in_working_dir = ''/workspace''\<rparr>)) =
     Inr (RequireApproval k r m l)"
    using asking_answers(3)
    by (cases "evaluate exact_glob asking_task (Command (command_action_from_invocation
       \<lparr>in_executable = ''codex'', in_args = [], in_env = [], in_working_dir = ''/workspace''\<rparr>))")
      (auto simp del: evaluate.simps elim!: needs_approval.elims)
  have [simp]: "au_capture (rt_audit asking_task) = default_capture_config" "rt_id asking_task = ''t1''"
    by (simp_all add: asking_task_def open_workspace_task_def)
  show ?thesis
    by (simp add: run_eval sandboxed_env_def p asking_answers(2) d initial_state_def sample_record_def
        exit_zero_def final_status_of_def default_capture_config_def del: evaluate.simps)
qed

theorem authorised_command_runs_sandboxed_witness:
  "each_call (sandboxed_start plain_docker asking_task)
     (os_log (snd (run sandboxed_env asking_task initial_state)))
   \<and> list_ex starts_successfully (os_log (snd (run sandboxed_env asking_task initial_state)))"
  using authorised_command_runs_sandboxed [of sandboxed_env asking_task plain_docker] asking_starts
  by (simp add: sandboxed_env_def)

end
