(* ===== verification/Artifact_Store.thy ===== *)
theory Artifact_Store
  imports Redaction Rust_Path
begin

text \<open>
  The artifact store (\<open>crates/taskfence-artifacts/src/lib.rs\<close>): the layout of a task directory,
  atomic writes, the Git baseline and the collected diff. The state is the content of the files;
  the outcome of each file operation, the answers of \<open>git\<close> (with its output as lossy text), the
  process id and the clock are parameters.
\<close>

section \<open>Texts\<close>

text \<open>
  \<open>str::lines\<close>: a line feed, with a carriage return before it, ends a line; a final line feed does
  not begin another one.
\<close>

definition drop_cr :: "string \<Rightarrow> string" where
  "drop_cr s = (if s \<noteq> [] \<and> last s = CHR 0x0D then butlast s else s)"

definition str_lines :: "string \<Rightarrow> string list" where
  "str_lines s =
     (let ps = split_on CHR 0x0A s
      in map drop_cr (butlast ps) @ (if last ps = [] then [] else [last ps]))"

definition nl :: string where "nl = [CHR 0x0A]"

definition max_text_bytes :: nat where "max_text_bytes = 262144"

definition trim_large :: "string \<Rightarrow> string" where
  "trim_large s =
     (if length s \<le> max_text_bytes then s
      else take (char_boundary_before s max_text_bytes) s @ ''[taskfence truncated]'')"

definition indent_lines :: "string \<Rightarrow> string" where
  "indent_lines s = concat (map (\<lambda>l. ''  '' @ l @ nl) (str_lines s))"

definition append_block_or_none :: "string \<Rightarrow> string" where
  "append_block_or_none block =
     (let b = trim_large block
      in if trim b = [] then ''  none'' @ nl else indent_lines b)"

definition taskfence_line :: "task_id \<Rightarrow> string \<Rightarrow> bool" where
  "taskfence_line tid line \<longleftrightarrow>
     (let t = trim_start line; root = ''.taskfence/''; fragment = ''.taskfence/tasks/'' @ tid @ ''/''
      in suffix root t \<or> str_contains root t \<or> suffix fragment t \<or> str_contains fragment t)"

definition filter_taskfence_status :: "resolved_task \<Rightarrow> string \<Rightarrow> string" where
  "filter_taskfence_status task status =
     str_join nl (filter (\<lambda>l. \<not> taskfence_line (rt_id task) l) (str_lines status))"

section \<open>The layout of a task directory\<close>

record artifact_store =
  as_root :: "path option"

definition in_workspace :: artifact_store where
  "in_workspace = \<lparr>as_root = None\<rparr>"

definition artifact_task_id_component :: "string \<Rightarrow> unit result" where
  "artifact_task_id_component v =
     (if v = [] \<or> v = ''.'' \<or> v = ''..'' \<or> CHR ''/'' \<in> set v \<or> CHR 0x5C \<in> set v \<or> has_control v
      then Inl (ArtifactErr (''task id is not a safe artifact path component: '' @ debug_str v))
      else Inr ())"

definition root_for :: "artifact_store \<Rightarrow> resolved_task \<Rightarrow> path" where
  "root_for st task =
     (case as_root st of
        Some root \<Rightarrow> root | None \<Rightarrow> path_join (rt_workspace_host_path task) ''.taskfence'')"

definition artifact_task_dir :: "artifact_store \<Rightarrow> resolved_task \<Rightarrow> path result" where
  "artifact_task_dir st task =
     rbind (artifact_task_id_component (rt_id task)) (\<lambda>_.
       Inr (path_join (path_join (root_for st task) ''tasks'') (rt_id task)))"

definition artifact_refs_of :: "artifact_store \<Rightarrow> resolved_task \<Rightarrow> artifact_refs result" where
  "artifact_refs_of st task =
     rbind (artifact_task_dir st task) (\<lambda>dir.
       Inr \<lparr>af_task_dir = dir,
            af_resolved_task = Some (path_join dir ''task.resolved.json''),
            af_events = Some (path_join dir ''events.jsonl''),
            af_stdout = Some (path_join dir ''stdout.log''),
            af_stderr = Some (path_join dir ''stderr.log''),
            af_diff = Some (path_join dir ''diff.patch''),
            af_report = Some (path_join dir ''report.md''),
            af_gateway_spool = Some (path_join dir ''gateway-spool'')\<rparr>)"

section \<open>Writes\<close>

text \<open>
  What the file system answers; a failed write of the content leaves a prefix of it. \<open>io_now\<close> is
  the clock in nanoseconds since the epoch, or the text of the error of a clock before it.
\<close>

record artifact_io =
  io_create_dir_all :: "path \<Rightarrow> string + unit"
  io_create :: "path \<Rightarrow> string + unit"
  io_write_all :: "path \<Rightarrow> string \<Rightarrow> (string \<times> nat) + unit"
  io_sync_all :: "path \<Rightarrow> string + unit"
  io_rename :: "path \<Rightarrow> path \<Rightarrow> string + unit"
  io_make_executable :: "path \<Rightarrow> string + unit"
  io_is_dir :: "path \<Rightarrow> string + bool"
  io_pid :: nat
  io_now :: "string + nat"

type_synonym files = "path \<Rightarrow> string option"

type_synonym 'a stored = "files \<Rightarrow> 'a result \<times> files"

definition artifact_io_error :: "string + 'a \<Rightarrow> 'a result" where
  "artifact_io_error r = (case r of Inl err \<Rightarrow> Inl (ArtifactErr err) | Inr x \<Rightarrow> Inr x)"

definition path_with_extension :: "path \<Rightarrow> string \<Rightarrow> path" where
  "path_with_extension p ext =
     (case (path_parent p, file_stem p) of
        (Some parent, Some stem) \<Rightarrow> path_join parent (stem @ ''.'' @ ext)
      | _ \<Rightarrow> p)"

definition tmp_path_of :: "artifact_io \<Rightarrow> path \<Rightarrow> path result" where
  "tmp_path_of io p =
     rbind (artifact_io_error (io_now io)) (\<lambda>nanos.
       Inr (path_with_extension p (''tmp.'' @ dec_digits (io_pid io) @ ''.'' @ dec_digits nanos)))"

definition write_tmp :: "artifact_io \<Rightarrow> path \<Rightarrow> string \<Rightarrow> unit stored" where
  "write_tmp io tmp bytes fs =
     (case io_create io tmp of
        Inl err \<Rightarrow> (Inl (ArtifactErr err), fs)
      | Inr _ \<Rightarrow>
          (case io_write_all io tmp bytes of
             Inl (err, n) \<Rightarrow> (Inl (ArtifactErr err), fs(tmp \<mapsto> take n bytes))
           | Inr _ \<Rightarrow> (artifact_io_error (io_sync_all io tmp), fs(tmp \<mapsto> bytes))))"

definition rename_file :: "artifact_io \<Rightarrow> path \<Rightarrow> path \<Rightarrow> unit stored" where
  "rename_file io tmp p fs =
     (case io_rename io tmp p of
        Inl err \<Rightarrow> (Inl (ArtifactErr err), fs)
      | Inr _ \<Rightarrow> (Inr (), (fs(p := fs tmp))(tmp := None)))"

definition create_parent :: "artifact_io \<Rightarrow> path \<Rightarrow> unit result" where
  "create_parent io p =
     (case path_parent p of
        None \<Rightarrow> Inr ()
      | Some parent \<Rightarrow> artifact_io_error (io_create_dir_all io parent))"

definition atomic_write :: "artifact_io \<Rightarrow> path \<Rightarrow> string \<Rightarrow> unit stored" where
  "atomic_write io p bytes =
     sbind (slift (create_parent io p)) (\<lambda>_.
     sbind (slift (tmp_path_of io p)) (\<lambda>tmp.
     sbind (write_tmp io tmp bytes) (\<lambda>_.
       rename_file io tmp p)))"

definition wrapper_text :: string where
  "wrapper_text =
     ''#!/bin/sh'' @ nl @
     ''set -eu'' @ nl @
     ''if [ \"$#\" -ne 1 ]; then'' @ nl @
     ''  echo \"usage: taskfence-gateway-submit REQUEST_JSON\" >&2'' @ nl @
     ''  exit 64'' @ nl @
     ''fi'' @ nl @
     ''request_id=\"$(date +%s)-$$\"'' @ nl @
     ''request_path=\"/taskfence/gateway-spool/requests/$request_id.json\"'' @ nl @
     ''response_path=\"/taskfence/gateway-spool/responses/$request_id.json\"'' @ nl @
     ''printf '' @ [CHR 0x27] @ ''%s'' @ [CHR 0x5C] @ ''n'' @ [CHR 0x27] @ '' \"$1\" > \"$request_path\"'' @ nl @
     ''echo \"$response_path\"'' @ nl"

definition write_gateway_wrapper :: "artifact_io \<Rightarrow> path \<Rightarrow> unit stored" where
  "write_gateway_wrapper io spool =
     (let wrapper_path = path_join spool ''taskfence-gateway-submit''
      in sbind (atomic_write io wrapper_path wrapper_text) (\<lambda>_.
           slift (artifact_io_error (io_make_executable io wrapper_path))))"

definition create_task_dir :: "artifact_store \<Rightarrow> artifact_io \<Rightarrow> resolved_task \<Rightarrow> artifact_refs stored" where
  "create_task_dir st io task =
     sbind (slift (artifact_refs_of st task)) (\<lambda>refs.
     sbind (slift (artifact_io_error (io_create_dir_all io (path_join (af_task_dir refs) ''artifacts'')))) (\<lambda>_.
     sbind (case af_gateway_spool refs of
              None \<Rightarrow> sreturn ()
            | Some spool \<Rightarrow>
                sbind (slift (artifact_io_error (io_create_dir_all io (path_join spool ''requests'')))) (\<lambda>_.
                sbind (slift (artifact_io_error (io_create_dir_all io (path_join spool ''responses'')))) (\<lambda>_.
                  write_gateway_wrapper io spool))) (\<lambda>_.
       sreturn refs)))"

definition write_resolved_task ::
  "artifact_store \<Rightarrow> artifact_io \<Rightarrow> (resolved_task \<Rightarrow> string + string) \<Rightarrow> resolved_task \<Rightarrow> path stored" where
  "write_resolved_task st io serialize task =
     sbind (slift (artifact_task_dir st task)) (\<lambda>dir.
     let p = path_join dir ''task.resolved.json''
     in sbind (slift (case serialize task of
                 Inl err \<Rightarrow> Inl (ArtifactErr (''failed to serialize task: '' @ err))
               | Inr bytes \<Rightarrow> Inr bytes)) (\<lambda>bytes.
        sbind (atomic_write io p bytes) (\<lambda>_.
          sreturn p)))"

definition stream_file :: "log_stream \<Rightarrow> string" where
  "stream_file stream = (case stream of Stdout \<Rightarrow> ''stdout.log'' | Stderr \<Rightarrow> ''stderr.log'')"

definition write_log ::
  "artifact_store \<Rightarrow> artifact_io \<Rightarrow> resolved_task \<Rightarrow> log_stream \<Rightarrow> string \<Rightarrow> path stored" where
  "write_log st io task stream contents =
     sbind (slift (artifact_task_dir st task)) (\<lambda>dir.
     let p = path_join dir (stream_file stream)
     in sbind (atomic_write io p contents) (\<lambda>_. sreturn p))"

section \<open>Git\<close>

text \<open>
  The answer to the \<open>n\<close>-th \<open>git -C workspace args\<close> of an operation: success with the standard
  output, failure with the standard error, or an error of starting it.
\<close>

datatype git_answer = GitOk string | GitFailed string | GitMissing | GitNotStarted string

type_synonym git = "nat \<Rightarrow> path \<Rightarrow> string list \<Rightarrow> git_answer"

datatype git_repo_state = Inside | RepoNotGit | RepoUnavailable | RepoError string

datatype git_probe = Clean | Dirty string | NotGit | GitUnavailable | ProbeError string

datatype git_run_error = Unavailable | GitRunFailed string

definition is_git_repo :: "git \<Rightarrow> nat \<Rightarrow> path \<Rightarrow> git_repo_state" where
  "is_git_repo git n workspace =
     (case git n workspace [''rev-parse'', ''--is-inside-work-tree''] of
        GitOk _ \<Rightarrow> Inside
      | GitFailed err \<Rightarrow>
          if str_contains ''not a git repository'' err then RepoNotGit else RepoError (trim_large err)
      | GitMissing \<Rightarrow> RepoUnavailable
      | GitNotStarted err \<Rightarrow> RepoError err)"

definition run_git_raw :: "git \<Rightarrow> nat \<Rightarrow> path \<Rightarrow> string list \<Rightarrow> git_run_error + string" where
  "run_git_raw git n workspace args =
     (case git n workspace args of
        GitOk out \<Rightarrow> Inr out
      | GitFailed err \<Rightarrow> Inl (GitRunFailed (trim_large err))
      | GitMissing \<Rightarrow> Inl Unavailable
      | GitNotStarted err \<Rightarrow> Inl (GitRunFailed err))"

definition run_git_status :: "git \<Rightarrow> nat \<Rightarrow> path \<Rightarrow> git_run_error + string" where
  "run_git_status git n workspace =
     run_git_raw git n workspace [''status'', ''--porcelain=v1'', ''--untracked-files=all'']"

definition run_git :: "git \<Rightarrow> nat \<Rightarrow> path \<Rightarrow> string list \<Rightarrow> string result" where
  "run_git git n workspace args =
     (case run_git_raw git n workspace args of
        Inr out \<Rightarrow> Inr out
      | Inl Unavailable \<Rightarrow> Inl (ArtifactErr ''git executable is unavailable'')
      | Inl (GitRunFailed message) \<Rightarrow> Inl (ArtifactErr message))"

definition git_status :: "git \<Rightarrow> nat \<Rightarrow> resolved_task \<Rightarrow> path \<Rightarrow> git_probe" where
  "git_status git n task workspace =
     (case is_git_repo git n workspace of
        RepoNotGit \<Rightarrow> NotGit
      | RepoUnavailable \<Rightarrow> GitUnavailable
      | RepoError message \<Rightarrow> ProbeError message
      | Inside \<Rightarrow>
          (case run_git_status git (n + 1) workspace of
             Inr status \<Rightarrow>
               (let filtered = filter_taskfence_status task status
                in if trim filtered = [] then Clean else Dirty filtered)
           | Inl Unavailable \<Rightarrow> GitUnavailable
           | Inl (GitRunFailed message) \<Rightarrow> ProbeError message))"

definition ensure_workspace_dir :: "artifact_io \<Rightarrow> path \<Rightarrow> unit result" where
  "ensure_workspace_dir io p =
     (case io_is_dir io p of
        Inr True \<Rightarrow> Inr ()
      | Inr False \<Rightarrow> Inl (ArtifactErr (''workspace is not a directory: '' @ p))
      | Inl err \<Rightarrow> Inl (ArtifactErr (''failed to access workspace '' @ p @ '': '' @ err)))"

definition capture_baseline ::
  "artifact_io \<Rightarrow> git \<Rightarrow> resolved_task \<Rightarrow> workspace_baseline result" where
  "capture_baseline io git task =
     rbind (ensure_workspace_dir io (rt_workspace_host_path task)) (\<lambda>_.
       case git_status git 0 task (rt_workspace_host_path task) of
         Clean \<Rightarrow> Inr \<lparr>wb_dirty_before_run = False, wb_summary = ''git status clean at baseline''\<rparr>
       | Dirty status \<Rightarrow>
           Inr \<lparr>wb_dirty_before_run = True, wb_summary = ''dirty before run:'' @ nl @ trim_large status\<rparr>
       | NotGit \<Rightarrow>
           Inr \<lparr>wb_dirty_before_run = True, wb_summary =
             ''workspace is not a git repository; baseline cannot prove cleanliness''\<rparr>
       | GitUnavailable \<Rightarrow>
           Inr \<lparr>wb_dirty_before_run = True, wb_summary =
             ''git executable is unavailable; baseline cannot prove cleanliness''\<rparr>
       | ProbeError message \<Rightarrow> Inl (ArtifactErr message))"

section \<open>The diff\<close>

definition show_bool :: "bool \<Rightarrow> string" where
  "show_bool b = (if b then ''true'' else ''false'')"

definition diff_header :: "workspace_baseline \<Rightarrow> string" where
  "diff_header baseline =
     ''TaskFence diff metadata'' @ nl @
     ''dirty_before_run: '' @ show_bool (wb_dirty_before_run baseline) @ nl @
     ''baseline_summary:'' @ nl @ indent_lines (wb_summary baseline) @
     (if wb_dirty_before_run baseline
      then ''warning: workspace was dirty before the task; final diffs are not attributed exclusively to the agent'' @ nl
      else [])"

definition unavailable_text :: "string \<Rightarrow> string" where
  "unavailable_text reason = nl @ ''diff_status: unavailable; '' @ reason @ nl"

definition final_status_text :: "string \<Rightarrow> string" where
  "final_status_text status =
     nl @ ''final_status:'' @ nl @
     (if trim status = [] then ''  clean'' @ nl else indent_lines (trim_large status))"

definition diff_body :: "git \<Rightarrow> resolved_task \<Rightarrow> path \<Rightarrow> string \<Rightarrow> string result" where
  "diff_body git task workspace status =
     rbind (run_git git 3 workspace [''diff'', ''--binary'', ''--no-ext-diff'']) (\<lambda>unstaged.
     rbind (run_git git 4 workspace [''diff'', ''--cached'', ''--binary'', ''--no-ext-diff'']) (\<lambda>staged.
     rbind (run_git git 5 workspace [''ls-files'', ''--others'', ''--exclude-standard'']) (\<lambda>untracked.
       Inr (final_status_text status @
            nl @ ''unstaged_diff:'' @ nl @ append_block_or_none unstaged @
            nl @ ''staged_diff:'' @ nl @ append_block_or_none staged @
            nl @ ''untracked_files:'' @ nl @
            append_block_or_none (filter_taskfence_status task untracked)))))"

definition diff_contents :: "git \<Rightarrow> resolved_task \<Rightarrow> workspace_baseline \<Rightarrow> string result" where
  "diff_contents git task baseline =
     (let workspace = rt_workspace_host_path task
      in rbind (case is_git_repo git 0 workspace of
           Inside \<Rightarrow>
             (case git_status git 1 task workspace of
                Clean \<Rightarrow> diff_body git task workspace []
              | Dirty status \<Rightarrow> diff_body git task workspace status
              | NotGit \<Rightarrow> Inr (unavailable_text ''workspace is no longer a git repository'')
              | GitUnavailable \<Rightarrow> Inr (unavailable_text ''git executable is unavailable'')
              | ProbeError message \<Rightarrow> Inl (ArtifactErr message))
         | RepoNotGit \<Rightarrow> Inr (unavailable_text ''workspace is not a git repository'')
         | RepoUnavailable \<Rightarrow> Inr (unavailable_text ''git executable is unavailable'')
         | RepoError message \<Rightarrow> Inl (ArtifactErr message)) (\<lambda>body.
           Inr (diff_header baseline @ body)))"

definition collect_diff ::
  "artifact_store \<Rightarrow> artifact_io \<Rightarrow> git \<Rightarrow> resolved_task \<Rightarrow> workspace_baseline \<Rightarrow> path option stored" where
  "collect_diff st io git task baseline =
     sbind (slift (ensure_workspace_dir io (rt_workspace_host_path task))) (\<lambda>_.
     sbind (slift (artifact_task_dir st task)) (\<lambda>dir.
     let diff_path = path_join dir ''diff.patch''
     in sbind (slift (diff_contents git task baseline)) (\<lambda>contents.
        sbind (atomic_write io diff_path contents) (\<lambda>_.
          sreturn (Some diff_path)))))"

end
