(* ===== verification/Artifact_Safety.thy ===== *)
theory Artifact_Safety
  imports Artifact_Store Evidence_Safety Runner_Plan Gateway_Spool
begin

text \<open>
  Properties of the artifact store: an evidence file is replaced whole or not at all, a clean
  baseline rests on what Git said, the resolved task is where the evidence store, the runner and
  the gateway look for it, and the bound on collected text.
\<close>

section \<open>Atomic writes\<close>

lemma dec_digits_ends: "dec_digits n \<noteq> [] \<and> is_digit (last (dec_digits n))"
  using dec_digits_digits [of n] dec_digits_char [OF last_in_set] by auto

lemma last_path_join: "p \<noteq> [] \<Longrightarrow> last (path_join base p) = last p"
  by (auto simp: path_join_def)

lemma tmp_path_ends_in_digit:
  assumes "tmp_path_of io p = Inr tmp" and "file_stem p \<noteq> None" and "path_parent p \<noteq> None"
  shows "is_digit (last tmp)"
  using assms dec_digits_ends
  by (auto simp: tmp_path_of_def path_with_extension_def last_path_join elim!: rbind_InrE)

text \<open>
  The files after a write: on success the path has the new content and the temporary file is gone; on
  an error nothing changed, or the temporary file is left with a part of the content.
\<close>

definition replaced_whole :: "path \<Rightarrow> string \<Rightarrow> path result \<Rightarrow> files \<Rightarrow> unit result \<times> files \<Rightarrow> bool" where
  "replaced_whole p bytes tmp fs r \<longleftrightarrow>
     (case r of
        (Inr _, fs') \<Rightarrow> (\<exists>t. tmp = Inr t \<and> t \<noteq> p \<and> fs' = fs(p \<mapsto> bytes, t := None))
      | (Inl _, fs') \<Rightarrow> fs' = fs \<or> (\<exists>t n. tmp = Inr t \<and> t \<noteq> p \<and> fs' = fs(t \<mapsto> take n bytes)))"

lemma write_tmp_files:
  assumes "write_tmp io tmp bytes fs = (r, fs')"
  shows "fs' = fs \<or> (\<exists>n. fs' = fs(tmp \<mapsto> take n bytes))" and "r = Inr u \<Longrightarrow> fs' = fs(tmp \<mapsto> bytes)"
proof -
  have all: "\<exists>n. fs(tmp \<mapsto> bytes) = fs(tmp \<mapsto> take n bytes)" by (rule exI [of _ "length bytes"]) simp
  have "fs' = fs \<or> (\<exists>n. fs' = fs(tmp \<mapsto> take n bytes)) \<or> fs' = fs(tmp \<mapsto> bytes)"
    using assms by (auto simp: write_tmp_def split: sum.splits prod.splits)
  show "fs' = fs \<or> (\<exists>n. fs' = fs(tmp \<mapsto> take n bytes))"
    using \<open>fs' = fs \<or> _ \<or> _\<close> all by metis
  show "r = Inr u \<Longrightarrow> fs' = fs(tmp \<mapsto> bytes)"
    using assms by (auto simp: write_tmp_def split: sum.splits prod.splits)
qed

lemma atomic_write_whole:
  assumes "file_stem p \<noteq> None" and "path_parent p \<noteq> None" and "\<not> is_digit (last p)"
  shows "replaced_whole p bytes (tmp_path_of io p) fs (atomic_write io p bytes fs)"
proof (cases "rbind (create_parent io p) (\<lambda>_. tmp_path_of io p)")
  case (Inl e)
  then show ?thesis
    by (auto simp: replaced_whole_def atomic_write_def sbind_def stry_def slift_def sfail_def rbind_def
        split: sum.splits)
next
  case (Inr tmp)
  then obtain u where parent: "create_parent io p = Inr u" and tmp: "tmp_path_of io p = Inr tmp"
    by (auto simp: rbind_Inr_iff)
  with tmp_path_ends_in_digit [OF tmp assms(1, 2)] assms(3) have t: "tmp \<noteq> p" by auto
  obtain r fs1 where w: "write_tmp io tmp bytes fs = (r, fs1)" by fastforce
  note files = write_tmp_files [OF w]
  show ?thesis
  proof (cases r)
    case (Inl e)
    with parent tmp w files(1) t show ?thesis
      by (simp add: replaced_whole_def atomic_write_def sbind_def stry_def slift_def sfail_def)
  next
    case (Inr v)
    note fs1 = files(2) [OF Inr]
    show ?thesis
    proof (cases "io_rename io tmp p")
      case (Inl e)
      with parent tmp w Inr t files(1) \<open>r = Inr v\<close> show ?thesis
        by (simp add: replaced_whole_def atomic_write_def sbind_def stry_def slift_def sfail_def rename_file_def)
    next
      case renamed: (Inr x)
      have "(fs1(p := fs1 tmp))(tmp := None) = fs(p \<mapsto> bytes, tmp := None)"
        using t by (auto simp: fs1 fun_eq_iff)
      with parent tmp w \<open>r = Inr v\<close> renamed t show ?thesis
        by (simp add: replaced_whole_def atomic_write_def sbind_def stry_def slift_def rename_file_def)
    qed
  qed
qed


section \<open>The baseline\<close>

definition visible :: "char \<Rightarrow> bool" where
  "visible c \<longleftrightarrow> 33 \<le> byte c \<and> byte c \<le> 126"

lemma strip_ws_keeps_visible:
  assumes "\<And>a b. p2 a b \<Longrightarrow> \<not> visible a \<and> \<not> visible b"
    and "\<And>a b c. p3 a b c \<Longrightarrow> \<not> visible a \<and> \<not> visible b \<and> \<not> visible c"
    and "visible c" and "c \<in> set s"
  shows "c \<in> set (strip_ws p2 p3 s)"
proof -
  have ws1: "\<not> visible a" if "is_ws1 a" for a
    using that by (auto simp: visible_def is_ws1_def)
  show ?thesis
    using assms by (induction p2 p3 s rule: strip_ws.induct) (auto dest: ws1)
qed

lemma ws_bytes_invisible:
  "is_ws2 a b \<Longrightarrow> \<not> visible a \<and> \<not> visible b"
  "is_ws3 a b c \<Longrightarrow> \<not> visible a \<and> \<not> visible b \<and> \<not> visible c"
  by (auto simp: is_ws2_def is_ws3_def visible_def)

lemma trim_keeps_visible:
  assumes "visible c" and "c \<in> set s"
  shows "c \<in> set (trim s)"
proof -
  have "c \<in> set (trim_start s)"
    unfolding trim_start_def using strip_ws_keeps_visible [OF ws_bytes_invisible assms] .
  then have "c \<in> set (rev (trim_start s))" by simp
  with assms(1) show ?thesis
    unfolding trim_def trim_end_def set_rev
    by (intro strip_ws_keeps_visible) (auto dest: ws_bytes_invisible)
qed

lemma str_join_set: "w \<in> set ws \<Longrightarrow> set w \<subseteq> set (str_join sep ws)"
  by (induction sep ws rule: str_join.induct) auto

lemma strip_ws_split: "\<exists>u. s = u @ strip_ws p2 p3 s"
proof (induction p2 p3 s rule: strip_ws.induct)
  case (1 p2 p3 a b c s)
  then show ?case
    by (simp only: strip_ws.simps split: if_split) (metis append_Cons append_Nil)
qed (auto simp: append_eq_Cons_conv Cons_eq_append_conv)

text \<open>A filtered line contains the text \<open>.taskfence/\<close>; nothing says that it stands for a directory.\<close>

lemma taskfence_line_contains:
  assumes "taskfence_line tid l"
  shows "str_contains ''.taskfence/'' l"
proof -
  let ?root = "''.taskfence/''"
  obtain u where u: "l = u @ trim_start l"
    using strip_ws_split [of l is_ws2 is_ws3] by (auto simp: trim_start_def)
  have root: "sublist ?root (''.taskfence/tasks/'' @ tid @ ''/'')"
    unfolding sublist_def by (rule exI [of _ "[]"], rule exI [of _ "''tasks/'' @ tid @ ''/''"]) simp
  from assms have "sublist ?root (trim_start l) \<or> sublist (''.taskfence/tasks/'' @ tid @ ''/'') (trim_start l)"
    unfolding taskfence_line_def Let_def str_contains_sublist by (blast dest: suffix_imp_sublist)
  with sublist_order.order_trans [OF root] have "sublist ?root (trim_start l)" by blast
  then have "sublist ?root (u @ trim_start l)" by (metis sublist_append_leftI sublist_order.order_trans)
  with u show ?thesis unfolding str_contains_sublist by metis
qed

definition shows_text :: "string \<Rightarrow> bool" where
  "shows_text line \<longleftrightarrow> list_ex visible line"

lemma blank_filter_taskfence_only:
  assumes "trim (filter_taskfence_status task status) = []"
  shows "list_all (\<lambda>l. \<not> shows_text l \<or> taskfence_line (rt_id task) l) (str_lines status)"
proof (rule ccontr)
  assume "\<not> ?thesis"
  then obtain l c where l: "l \<in> set (str_lines status)" "\<not> taskfence_line (rt_id task) l"
    and c: "c \<in> set l" "visible c"
    by (auto simp: list_all_iff shows_text_def list_ex_iff)
  from l have "set l \<subseteq> set (filter_taskfence_status task status)"
    unfolding filter_taskfence_status_def by (intro str_join_set) simp
  with c trim_keeps_visible [of c] assms show False by fastforce
qed

lemma blank_filter_mentions:
  assumes "trim (filter_taskfence_status task status) = []"
  shows "list_all (\<lambda>l. \<not> shows_text l \<or> str_contains ''.taskfence/'' l) (str_lines status)"
  using blank_filter_taskfence_only [OF assms] taskfence_line_contains
  by (auto simp: list_all_iff)

text \<open>What Git said when a baseline is reported clean.\<close>

definition clean_answers :: "git \<Rightarrow> resolved_task \<Rightarrow> bool" where
  "clean_answers git task \<longleftrightarrow>
     (case git 0 (rt_workspace_host_path task) [''rev-parse'', ''--is-inside-work-tree''] of
        GitOk _ \<Rightarrow>
          (case git 1 (rt_workspace_host_path task)
                  [''status'', ''--porcelain=v1'', ''--untracked-files=all''] of
             GitOk status \<Rightarrow>
               list_all (\<lambda>l. \<not> shows_text l \<or> str_contains ''.taskfence/'' l) (str_lines status)
           | _ \<Rightarrow> False)
      | _ \<Rightarrow> False)"

lemma git_status_Clean:
  assumes "git_status git 0 task (rt_workspace_host_path task) = Clean"
  shows "clean_answers git task"
  using assms blank_filter_mentions
  by (auto simp: git_status_def is_git_repo_def run_git_status_def run_git_raw_def clean_answers_def
      Let_def split: git_answer.splits if_splits)


text \<open>
  The filter looks for \<open>.taskfence/\<close> anywhere in the line, so it also drops a user's directory
  whose name ends in \<open>.taskfence\<close>: an untracked file there leaves the baseline clean and is
  missing from the list of untracked files.
\<close>

lemma user_directory_filtered:
  "filter_taskfence_status task (''?? src/my.taskfence/run.sh'' @ nl) = []"
  by (simp add: filter_taskfence_status_def str_lines_def nl_def taskfence_line_def trim_start_def
      is_ws1_def is_ws2_def is_ws3_def drop_cr_def)

section \<open>Where the evidence is\<close>

text \<open>
  The store in the workspace, the evidence store, the runner and the gateway compute the paths of a
  task on their own; they agree, and the gateway only refuses more task ids.
\<close>

lemma in_workspace_dir:
  "artifact_task_dir in_workspace task = Inr dir \<Longrightarrow>
   store_task_dir (rt_workspace_host_path task) (rt_id task) = Inr dir"
  by (auto simp: artifact_task_dir_def store_task_dir_def artifact_task_id_component_def
      validate_task_id_component_def tasks_dir_def root_for_def in_workspace_def elim!: rbind_InrE
      split: if_splits)

text \<open>
  The gateway spool that the artifact store creates for a task is the directory that the
  runner mounts into the container; the gateway either serves that same directory or refuses the
  task id. The evidence store reads the task directory that the artifact store writes.
\<close>

theorem task_layout_agrees:
  assumes "artifact_refs_of in_workspace task = Inr refs"
  shows "store_task_dir (rt_workspace_host_path task) (rt_id task) = Inr (af_task_dir refs) \<and>
    af_gateway_spool refs = Some (path_join (af_task_dir refs) ''gateway-spool'') \<and>
    gateway_spool_host_path task = Inr (path_join (af_task_dir refs) ''gateway-spool'') \<and>
    (case spool_paths_for_task task of
       Inr paths \<Rightarrow> gsp_root paths = path_join (af_task_dir refs) ''gateway-spool''
     | Inl _ \<Rightarrow> True)"
  using assms in_workspace_dir [of task]
  by (auto simp: artifact_refs_of_def artifact_task_dir_def artifact_task_id_component_def
      gateway_spool_host_path_def spool_paths_for_task_def spool_paths_new_def root_for_def
      in_workspace_def Let_def elim!: rbind_InrE split: if_splits sum.splits)

lemma components_join_name:
  assumes "safe_component s"
  shows "components (path_join d s) = components d @ [Normal s]"
proof (cases "d = []")
  case True
  from assms have "path_join d s = s" "CHR ''/'' \<notin> set s" "s \<noteq> []" "s \<noteq> ''.''" "s \<noteq> ''..''"
    using True by (auto simp: path_join_def safe_component_def)
  then show ?thesis
    using True by (cases s)
      (auto simp: components_def is_absolute_def split_on_single segment_component_def)
next
  case False
  with assms show ?thesis by (simp add: components_join_safe)
qed

lemma join_name_writable:
  assumes "safe_component s" and "\<not> is_digit (last s)"
  shows "file_stem (path_join d s) \<noteq> None" and "path_parent (path_join d s) \<noteq> None"
    and "\<not> is_digit (last (path_join d s))"
  using assms
  by (auto simp: file_stem_def file_name_def path_parent_def components_join_name last_path_join
      safe_component_def)

lemma resolved_name: "safe_component ''task.resolved.json'' \<and> \<not> is_digit (last ''task.resolved.json'')"
  by (simp add: safe_component_def is_digit_def)

lemma write_resolved_taskD:
  assumes "write_resolved_task st io serialize task fs = (Inr p, fs')"
  obtains dir bytes where "artifact_task_dir st task = Inr dir"
    and "p = path_join dir ''task.resolved.json''" and "serialize task = Inr bytes"
    and "fs' p = Some bytes"
proof -
  from assms obtain dir bytes where d: "artifact_task_dir st task = Inr dir"
      "serialize task = Inr bytes" "p = path_join dir ''task.resolved.json''"
      and w: "atomic_write io p bytes fs = (Inr (), fs')"
    by (auto simp: write_resolved_task_def sbind_def stry_def slift_def sfail_def sreturn_def Let_def
        split: prod.splits sum.splits)
  have "fs' p = Some bytes"
    using atomic_write_whole [of p bytes io fs] join_name_writable [of "''task.resolved.json''" dir]
      resolved_name w
    by (auto simp: replaced_whole_def d(3) is_ok_iff)
  with d that show ?thesis by blast
qed

text \<open>
  The resolved task round-trips through the evidence directory: after the artifact store has
  written it into the workspace, the evidence store, reading those files, answers with the same
  task at the same path, provided the task directory exists and serde reads back what it wrote.
\<close>

theorem resolved_task_read_back:
  assumes "write_resolved_task in_workspace io serialize task fs = (Inr p, fs')"
    and "\<And>dir. store_task_dir (rt_workspace_host_path task) (rt_id task) = Inr dir \<Longrightarrow>
           ev_metadata ev dir = Stat IsDir"
    and "\<And>bytes. fs' p = Some bytes \<Longrightarrow> ev_read ev p = ReadText bytes"
    and "\<And>bytes. serialize task = Inr bytes \<Longrightarrow> ev_parse_task ev bytes = Inr task"
  shows "\<exists>i. read_inputs ev (rt_workspace_host_path task) (rt_id task) = Inr i \<and>
    ti_task i = task \<and> ti_path i = p"
proof -
  from assms(1) obtain dir bytes where w: "artifact_task_dir in_workspace task = Inr dir"
      "p = path_join dir ''task.resolved.json''" "serialize task = Inr bytes" "fs' p = Some bytes"
    by (rule write_resolved_taskD)
  note dir = in_workspace_dir [OF w(1)]
  show ?thesis
    using assms(2) [OF dir] assms(3) [OF w(4)] assms(4) [OF w(3)] w(2)
    by (simp add: read_inputs_def existing_task_dir_def dir ensure_task_dir_def rbind_def read_or_def
        Let_def)
qed

section \<open>Bounds\<close>

lemma trim_large_bound: "length (trim_large s) \<le> max_text_bytes + 21"
  using char_boundary_before_le [of s max_text_bytes] by (simp add: trim_large_def)

section \<open>Witnesses\<close>

definition sample_io :: artifact_io where
  "sample_io = \<lparr>io_create_dir_all = (\<lambda>_. Inr ()), io_create = (\<lambda>_. Inr ()),
     io_write_all = (\<lambda>_ _. Inr ()), io_sync_all = (\<lambda>_. Inr ()), io_rename = (\<lambda>_ _. Inr ()),
     io_make_executable = (\<lambda>_. Inr ()), io_is_dir = (\<lambda>_. Inr True), io_pid = 7, io_now = Inr 42\<rparr>"

definition sample_files :: files where
  "sample_files = (\<lambda>p. if p = ''/w/stdout.log'' then Some ''old'' else None)"


definition sample_git :: git where
  "sample_git n workspace args =
     (if n = 0 then GitOk ''true'' else GitOk (''?? .taskfence/tasks/t1/stdout.log'' @ nl))"


theorem task_layout_agrees_witness:
  "gateway_spool_host_path sample_task = Inr ''/tmp/repo/.taskfence/tasks/t1/gateway-spool''"
proof -
  have "is_ok (artifact_refs_of in_workspace sample_task)" by code_simp
  then obtain refs where r: "artifact_refs_of in_workspace sample_task = Inr refs"
    unfolding is_ok_iff by blast
  have "store_task_dir (rt_workspace_host_path sample_task) (rt_id sample_task) =
      Inr ''/tmp/repo/.taskfence/tasks/t1''"
    by code_simp
  with task_layout_agrees [OF r] have "af_task_dir refs = ''/tmp/repo/.taskfence/tasks/t1''" by simp
  with task_layout_agrees [OF r] show ?thesis by (simp add: path_join_def is_absolute_def)
qed

theorem resolved_task_read_back_witness:
  "\<exists>i. read_inputs
     (sample_evidence\<lparr>ev_metadata := \<lambda>_. Stat IsDir,
        ev_read := \<lambda>p. (case snd (write_resolved_task in_workspace sample_io (\<lambda>_. Inr ''T'')
                          sample_task sample_files) p of
                         Some t \<Rightarrow> ReadText t | None \<Rightarrow> ReadMissing),
        ev_parse_task := \<lambda>_. Inr sample_task\<rparr>) (rt_workspace_host_path sample_task) (rt_id sample_task) =
     Inr i \<and> ti_task i = sample_task"
proof -
  let ?w = "write_resolved_task in_workspace sample_io (\<lambda>_. Inr ''T'') sample_task sample_files"
  let ?ev = "sample_evidence\<lparr>ev_metadata := \<lambda>_. Stat IsDir,
    ev_read := \<lambda>p. (case snd ?w p of Some t \<Rightarrow> ReadText t | None \<Rightarrow> ReadMissing),
    ev_parse_task := \<lambda>_. Inr sample_task\<rparr>"
  have "is_ok (fst ?w)" by code_simp
  then obtain p where "?w = (Inr p, snd ?w)"
    unfolding is_ok_iff by (metis prod.collapse)
  from resolved_task_read_back [OF this, where ev = ?ev] show ?thesis by fastforce
qed

end
