(* ===== verification/Report_Render.thy ===== *)
theory Report_Render
  imports Artifact_Store
begin

text \<open>
  The report generator (\<open>crates/taskfence-report/src/lib.rs\<close>): what it collects from the audit
  events, the escaping of values and the two Markdown documents. The text of a point in time is a
  parameter (\<open>Display\<close> of \<open>time::OffsetDateTime\<close>), as is the answer to reading the diff file.
\<close>

section \<open>Escaping\<close>

definition replace_char :: "char \<Rightarrow> string \<Rightarrow> string \<Rightarrow> string" where
  "replace_char c r s = concat (map (\<lambda>d. if d = c then r else [d]) s)"

definition md_text :: "string \<Rightarrow> string" where
  "md_text v =
     replace_char CHR ''>'' ''&gt;''
       (replace_char CHR ''<'' ''&lt;'' (report_redact_secret_like_text v))"

definition md_inline :: "string \<Rightarrow> string" where
  "md_inline v = [CHR 0x60] @ replace_char CHR 0x60 [CHR 0x5C, CHR 0x60] (md_text v) @ [CHR 0x60]"

definition inline_path :: "path \<Rightarrow> string" where
  "inline_path p = md_inline p"

definition table_cell :: "string \<Rightarrow> string" where
  "table_cell v =
     replace_char CHR 0x0A ''<br>'' (replace_char CHR ''|'' [CHR 0x5C, CHR ''|''] (md_text v))"

definition table_row :: "nat \<Rightarrow> string list \<Rightarrow> string" where
  "table_row n row =
     ''|'' @ concat (map (\<lambda>i. '' '' @ table_cell (if i < length row then row ! i else []) @ '' |'') [0..<n])
       @ nl"

definition table_head :: "string list \<Rightarrow> string" where
  "table_head headers =
     ''|'' @ concat (map (\<lambda>h. '' '' @ h @ '' |'') headers) @ nl @
     ''|'' @ concat (map (\<lambda>_. '' --- |'') headers) @ nl"

definition push_table_or_none :: "string list list \<Rightarrow> string list \<Rightarrow> string" where
  "push_table_or_none rows headers =
     (if rows = [] then ''None recorded.'' @ nl @ nl
      else table_head headers @ concat (map (table_row (length headers)) rows) @ nl)"

section \<open>Texts of the events\<close>

fun format_status :: "task_status \<Rightarrow> string" where
  "format_status Created = ''Created''"
| "format_status Validating = ''Validating''"
| "format_status Preparing = ''Preparing''"
| "format_status Running = ''Running''"
| "format_status WaitingForApproval = ''WaitingForApproval''"
| "format_status Stopping = ''Stopping''"
| "format_status CollectingArtifacts = ''CollectingArtifacts''"
| "format_status Reporting = ''Reporting''"
| "format_status Succeeded = ''Succeeded''"
| "format_status Failed = ''Failed''"
| "format_status Denied = ''Denied''"
| "format_status TimedOut = ''TimedOut''"
| "format_status Cancelled = ''Cancelled''"

fun agent_kind_debug :: "agent_kind \<Rightarrow> string" where
  "agent_kind_debug Generic = ''Generic''"
| "agent_kind_debug (Specialized k) = ''Specialized('' @ debug_str k @ '')''"

fun sandbox_debug :: "sandbox_kind \<Rightarrow> string" where
  "sandbox_debug Docker = ''Docker''"
| "sandbox_debug RemoteSsh = ''RemoteSsh''"
| "sandbox_debug KubernetesJob = ''KubernetesJob''"
| "sandbox_debug MicroVm = ''MicroVm''"
| "sandbox_debug ManagedCloud = ''ManagedCloud''"
| "sandbox_debug (UnsupportedSandbox k) = ''Unsupported('' @ debug_str k @ '')''"

fun network_debug :: "network_default \<Rightarrow> string" where
  "network_debug NetAllow = ''Allow''"
| "network_debug NetDeny = ''Deny''"
| "network_debug NetDisabled = ''Disabled''"

fun error_kind_debug :: "tool_execution_error_kind \<Rightarrow> string" where
  "error_kind_debug UnsupportedProtocol = ''UnsupportedProtocol''"
| "error_kind_debug UnsupportedTool = ''UnsupportedTool''"
| "error_kind_debug UnregisteredTool = ''UnregisteredTool''"
| "error_kind_debug InvalidParameters = ''InvalidParameters''"
| "error_kind_debug PolicyDenied = ''PolicyDenied''"
| "error_kind_debug ApprovalDeniedOrTimedOut = ''ApprovalDeniedOrTimedOut''"
| "error_kind_debug BudgetExceeded = ''BudgetExceeded''"
| "error_kind_debug AdapterFailed = ''AdapterFailed''"
| "error_kind_debug SecretUnavailable = ''SecretUnavailable''"

fun format_approval_decision :: "approval_decision \<Rightarrow> string" where
  "format_approval_decision Approved = ''approved''"
| "format_approval_decision ADenied = ''denied''"
| "format_approval_decision ATimedOut = ''timed out''"

definition code_text :: "int \<Rightarrow> string" where
  "code_text i = (if i < 0 then CHR ''-'' # dec_digits (nat (- i)) else dec_digits (nat i))"

definition format_exit_status :: "exit_status \<Rightarrow> string" where
  "format_exit_status status =
     (if ex_timed_out status then ''timed out''
      else case (ex_code status, ex_signal status) of
        (Some code, Some signal) \<Rightarrow> ''code '' @ code_text code @ '', signal '' @ signal
      | (Some code, None) \<Rightarrow> ''code '' @ code_text code
      | (None, Some signal) \<Rightarrow> ''signal '' @ signal
      | (None, None) \<Rightarrow> ''unknown'')"

fun decision_parts :: "action_decision \<Rightarrow> string \<times> string" where
  "decision_parts (Allow m reason) = (''allow'', reason)"
| "decision_parts (RequireApproval k m reason l) = (''approval required'', reason)"
| "decision_parts (Deny m reason) = (''deny'', reason)"

definition tool_action_summary :: "tool_action \<Rightarrow> string" where
  "tool_action_summary t = ta_protocol t @ '' '' @ ta_tool t @ ''.'' @ ta_operation t"

definition adapter_summary :: "tool_adapter_identity \<Rightarrow> string" where
  "adapter_summary a = ai_kind a @ '':'' @ ai_name a"

fun report_action_summary :: "action \<Rightarrow> string" where
  "report_action_summary (FileRead p) = ''file read '' @ p"
| "report_action_summary (FileWrite p) = ''file write '' @ p"
| "report_action_summary (Command c) = ''command '' @ ca_raw c"
| "report_action_summary (Network host port) =
     (case port of Some p \<Rightarrow> ''network '' @ host @ '':'' @ dec_digits (unat p)
      | None \<Rightarrow> ''network '' @ host)"
| "report_action_summary (EnvExpose name) = ''env expose '' @ name"
| "report_action_summary (SecretAccess name scope) = ''secret access '' @ name @ '' for '' @ scope"
| "report_action_summary (ToolCall t) = ''tool call '' @ tool_action_summary t"
| "report_action_summary (Budget kind amount) = ''budget '' @ kind @ '' '' @ dec_digits (unat amount)"

section \<open>What the report collects\<close>

record report_data =
  rd_final_status :: "task_status option"
  rd_exit_status :: "exit_status option"
  rd_allowed :: nat
  rd_approval_required :: nat
  rd_denied :: nat
  rd_timeline :: "(string \<times> string) list"
  rd_commands :: "string list list"
  rd_tool_calls :: "string list list"
  rd_tool_executions :: "string list list"
  rd_budget_usage :: "string list list"
  rd_approvals :: "string list list"
  rd_denied_actions :: "string list"
  rd_network :: "string list list"
  rd_artifacts :: "(string \<times> path) list"
  rd_errors :: "string list"

definition empty_report_data :: report_data where
  "empty_report_data =
     \<lparr>rd_final_status = None, rd_exit_status = None, rd_allowed = 0, rd_approval_required = 0,
      rd_denied = 0, rd_timeline = [], rd_commands = [], rd_tool_calls = [],
      rd_tool_executions = [], rd_budget_usage = [], rd_approvals = [], rd_denied_actions = [],
      rd_network = [], rd_artifacts = [], rd_errors = []\<rparr>"

definition push_timeline :: "string \<Rightarrow> string \<Rightarrow> report_data \<Rightarrow> report_data" where
  "push_timeline at what d = d\<lparr>rd_timeline := rd_timeline d @ [(at, what)]\<rparr>"

definition or_dash :: "string option \<Rightarrow> string" where
  "or_dash v = (case v of Some s \<Rightarrow> s | None \<Rightarrow> ''-'')"

fun tally :: "action \<Rightarrow> action_decision \<Rightarrow> report_data \<Rightarrow> report_data" where
  "tally a (Allow m r) d = d\<lparr>rd_allowed := rd_allowed d + 1\<rparr>"
| "tally a (RequireApproval k m r l) d = d\<lparr>rd_approval_required := rd_approval_required d + 1\<rparr>"
| "tally a (Deny m r) d =
     d\<lparr>rd_denied := rd_denied d + 1,
       rd_denied_actions := rd_denied_actions d @ [report_action_summary a @ '' denied: '' @ r]\<rparr>"

fun push_decision :: "action \<Rightarrow> string \<Rightarrow> string \<Rightarrow> report_data \<Rightarrow> report_data" where
  "push_decision (Command c) label reason d =
     d\<lparr>rd_commands := rd_commands d @ [[ca_raw c, label, reason]]\<rparr>"
| "push_decision (ToolCall t) label reason d =
     d\<lparr>rd_tool_calls := rd_tool_calls d @
        [[ta_protocol t @ '':'' @ ta_tool t, ta_operation t, label]]\<rparr>"
| "push_decision (Network host port) label reason d =
     d\<lparr>rd_network := rd_network d @
        [[host, or_dash (map_option (\<lambda>p. dec_digits (unat p)) port), label]]\<rparr>"
| "push_decision _ label reason d = d"

fun execution_outcome :: "tool_result option \<Rightarrow> tool_execution_error option \<Rightarrow> string \<times> string" where
  "execution_outcome (Some r) None = (''succeeded'', tres_summary r)"
| "execution_outcome None (Some e) =
     (''failed'', error_kind_debug (te_kind e) @ '': '' @ te_message e)"
| "execution_outcome (Some r) (Some e) =
     (''failed'', error_kind_debug (te_kind e) @ '': '' @ te_message e @ ''; partial result: '' @
        tres_summary r)"
| "execution_outcome None None = (''unknown'', ''no result or error recorded'')"

fun stream_label :: "log_stream \<Rightarrow> string" where
  "stream_label Stdout = ''stdout''"
| "stream_label Stderr = ''stderr''"

fun report_event :: "(time \<Rightarrow> string) \<Rightarrow> audit_event \<Rightarrow> report_data \<Rightarrow> report_data" where
  "report_event clock (TaskCreated _ at goal) d =
     push_timeline (clock at) (''task created: '' @ md_text goal) d"
| "report_event clock (TaskStatusChanged _ at status) d =
     push_timeline (clock at) (''status changed to '' @ format_status status)
       (d\<lparr>rd_final_status := Some status\<rparr>)"
| "report_event clock (PolicyDecision _ at a decision) d =
     (let (label, reason) = decision_parts decision
      in push_decision a label reason
           (push_timeline (clock at)
              (''policy decision '' @ label @ '': '' @ report_action_summary a) (tally a decision d)))"
| "report_event clock (ToolExecutionStarted _ at req) d =
     (let s = tool_action_summary (tr_action req);
          d' = push_timeline (clock at) (''tool execution started: '' @ s) d
      in d'\<lparr>rd_tool_executions := rd_tool_executions d' @
            [[s, or_dash (map_option adapter_summary (tr_adapter req)), ''started'', ''-'']]\<rparr>)"
| "report_event clock (ToolExecutionFinished _ at x) d =
     (let s = tool_action_summary (tr_action (tx_request x));
          (outcome, summary) = execution_outcome (tx_result x) (tx_error x);
          d' = push_timeline (clock at) (''tool execution '' @ outcome @ '': '' @ s) d
      in d'\<lparr>rd_tool_executions := rd_tool_executions d' @
            [[s, or_dash (map_option adapter_summary (tr_adapter (tx_request x))), outcome, summary]]\<rparr>)"
| "report_event clock (BudgetUsageRecorded _ at r) d =
     (let (label, reason) = decision_parts (br_decision r);
          u = br_usage r;
          d' = push_timeline (clock at) (''budget usage '' @ label @ '': '' @ bu_kind u @ '' amount '' @
                 dec_digits (unat (bu_amount u))) d
      in d'\<lparr>rd_budget_usage := rd_budget_usage d' @
            [[bu_kind u, dec_digits (unat (bu_amount u)),
              or_dash (map_option (\<lambda>l. dec_digits (unat (bl_max_amount l))) (br_limit r)),
              or_dash (bu_provider u), or_dash (bu_model u), or_dash (bu_operation u),
              label @ '': '' @ reason]]\<rparr>)"
| "report_event clock (ApprovalRequested r) d =
     d\<lparr>rd_approvals := rd_approvals d @ [[ar_id r, ar_actor r, ''requested'']]\<rparr>"
| "report_event clock (ApprovalResolved r) d =
     d\<lparr>rd_approvals := rd_approvals d @
        [[ar_id r, ar_actor r,
          case ar_decision r of Some v \<Rightarrow> format_approval_decision v | None \<Rightarrow> ''unresolved'']]\<rparr>"
| "report_event clock (Log _ chunk) d =
     push_timeline (clock (lc_timestamp chunk))
       (stream_label (lc_stream chunk) @ '' log chunk captured ('' @
        dec_digits (length (lc_text chunk)) @ '' bytes)'') d"
| "report_event clock (RunnerExit _ at status) d =
     push_timeline (clock at) (''runner exit '' @ format_exit_status status)
       (d\<lparr>rd_exit_status := Some status\<rparr>)"
| "report_event clock (Artifact _ at kind p) d =
     push_timeline (clock at) (''artifact recorded: '' @ kind)
       (d\<lparr>rd_artifacts := rd_artifacts d @ [(kind, p)]\<rparr>)"
| "report_event clock (Error _ at message) d =
     push_timeline (clock at) (''error recorded: '' @ md_text message)
       (d\<lparr>rd_errors := rd_errors d @ [message]\<rparr>)"

definition report_data_of :: "(time \<Rightarrow> string) \<Rightarrow> audit_event list \<Rightarrow> report_data" where
  "report_data_of clock events = fold (report_event clock) events empty_report_data"

section \<open>Parts of the documents\<close>

definition artifact_rows :: "artifact_refs \<Rightarrow> (string \<times> path) list \<Rightarrow> string list list" where
  "artifact_rows refs recorded =
     [[''task_dir'', af_task_dir refs]] @
     concat (map (\<lambda>(kind, p). case p of None \<Rightarrow> [] | Some q \<Rightarrow> [[kind, q]])
       [(''resolved_task'', af_resolved_task refs), (''events'', af_events refs),
        (''stdout'', af_stdout refs), (''stderr'', af_stderr refs), (''diff'', af_diff refs),
        (''report'', af_report refs), (''gateway_spool'', af_gateway_spool refs)]) @
     map (\<lambda>(kind, p). [''recorded:'' @ kind, p]) recorded"

definition residual_risks :: "audit_event list \<Rightarrow> artifact_refs \<Rightarrow> report_data \<Rightarrow> string list" where
  "residual_risks events refs d =
     (if events = [] then [''No audit events were provided to the report generator.''] else []) @
     (if af_diff refs = None
      then [''No diff artifact was available, so file-change evidence is incomplete.''] else []) @
     map (\<lambda>e. ''Task recorded an error: '' @ e) (rd_errors d)"

definition diff_metadata_notes :: "string option \<Rightarrow> string list" where
  "diff_metadata_notes contents =
     (case contents of
        None \<Rightarrow> []
      | Some s \<Rightarrow>
          filter (\<lambda>l. prefix ''dirty_before_run:'' l \<or> prefix ''warning:'' l \<or> prefix ''diff_status:'' l)
            (take 40 (str_lines s)))"

definition bullet :: "string \<Rightarrow> string" where
  "bullet s = ''- '' @ s @ nl"

definition denied_section :: "report_data \<Rightarrow> string" where
  "denied_section d =
     (if rd_denied_actions d = [] then ''None recorded.'' @ nl @ nl
      else concat (map (\<lambda>x. bullet (md_text x)) (rd_denied_actions d)) @ nl)"

definition risks_section :: "string list \<Rightarrow> string" where
  "risks_section risks =
     (if risks = [] then ''No residual risks were identified from structured evidence.'' @ nl
      else concat (map (\<lambda>r. bullet (md_text r)) risks))"

definition timeline_section :: "report_data \<Rightarrow> string" where
  "timeline_section d =
     (if rd_timeline d = [] then ''No timeline events recorded.'' @ nl @ nl
      else ''| Time | Event |'' @ nl @ ''| --- | --- |'' @ nl @
        concat (map (\<lambda>(at, what). ''| '' @ table_cell at @ '' | '' @ table_cell what @ '' |'' @ nl)
          (rd_timeline d)) @ nl)"

definition changes_section :: "(path \<Rightarrow> string option) \<Rightarrow> artifact_refs \<Rightarrow> string" where
  "changes_section read refs =
     (case af_diff refs of
        None \<Rightarrow> ''No diff artifact was supplied.'' @ nl @ nl
      | Some p \<Rightarrow>
          bullet (''Diff artifact: '' @ inline_path p) @
          concat (map (\<lambda>n. bullet (md_text n)) (diff_metadata_notes (read p))) @ nl)"

definition heading :: "string \<Rightarrow> string" where
  "heading s = ''## '' @ s @ nl @ nl"

definition budget_headers :: "string list" where
  "budget_headers =
     [''Kind'', ''Amount'', ''Limit'', ''Provider'', ''Model'', ''Operation'', ''Decision'']"

definition summary_part :: "report_data \<Rightarrow> resolved_task \<Rightarrow> nat \<Rightarrow> string" where
  "summary_part d task count =
     ''# TaskFence Report: '' @ md_inline (rt_id task) @ nl @ nl @
     heading ''Summary'' @
     bullet (''Task ID: '' @ md_inline (rt_id task)) @
     bullet (''Goal: '' @ md_text (rt_goal task)) @
     bullet (''Final status: '' @
       (case rd_final_status d of Some s \<Rightarrow> format_status s | None \<Rightarrow> ''Unknown'')) @
     bullet (''Runner exit: '' @
       (case rd_exit_status d of Some s \<Rightarrow> format_exit_status s | None \<Rightarrow> ''Not recorded'')) @
     bullet (''Audit events: '' @ dec_digits count) @ nl"

definition task_part :: "resolved_task \<Rightarrow> string" where
  "task_part task =
     heading ''Task Input'' @
     bullet (''Task file: '' @ inline_path (rt_task_file task)) @
     bullet (''Workspace: '' @ inline_path (rt_workspace_host_path task)) @
     bullet (''Container workspace: '' @ inline_path (rt_workspace_container_path task)) @ nl @
     heading ''Agent and Model'' @
     bullet (''Agent kind: '' @ md_inline (agent_kind_debug (ag_kind (rt_agent task)))) @
     bullet (''Command: '' @ md_inline (ag_command (rt_agent task))) @
     bullet (''Args: '' @ md_inline (str_join '' '' (ag_args (rt_agent task)))) @ nl"

definition policy_part :: "report_data \<Rightarrow> string" where
  "policy_part d =
     heading ''Policy Summary'' @
     bullet (''Allowed decisions: '' @ dec_digits (rd_allowed d)) @
     bullet (''Approval-required decisions: '' @ dec_digits (rd_approval_required d)) @
     bullet (''Denied decisions: '' @ dec_digits (rd_denied d)) @ nl @
     heading ''Budget Usage'' @ push_table_or_none (rd_budget_usage d) budget_headers"

definition sandbox_part :: "resolved_task \<Rightarrow> string" where
  "sandbox_part task =
     heading ''Sandbox Summary'' @
     bullet (''Sandbox kind: '' @ md_inline (sandbox_debug (sb_kind (rt_sandbox task)))) @
     bullet (''Image: '' @
       (case sb_image (rt_sandbox task) of Some i \<Rightarrow> md_inline i | None \<Rightarrow> ''Not configured'')) @
     bullet (''Network default: '' @
       md_inline (network_debug (np_default (pm_network (rt_permissions task))))) @ nl"

definition evidence_part :: "(path \<Rightarrow> string option) \<Rightarrow> artifact_refs \<Rightarrow> report_data \<Rightarrow> string" where
  "evidence_part read refs d =
     heading ''Timeline'' @ timeline_section d @
     heading ''Commands'' @ push_table_or_none (rd_commands d) [''Command'', ''Decision'', ''Reason''] @
     heading ''Tool Calls'' @ push_table_or_none (rd_tool_calls d) [''Tool'', ''Operation'', ''Decision''] @
     heading ''Tool Executions'' @
     push_table_or_none (rd_tool_executions d) [''Tool'', ''Adapter'', ''Outcome'', ''Summary''] @
     heading ''Approvals'' @ push_table_or_none (rd_approvals d) [''Approval ID'', ''Actor'', ''Decision''] @
     heading ''Denied Actions'' @ denied_section d @
     heading ''Network Destinations'' @ push_table_or_none (rd_network d) [''Host'', ''Port'', ''Decision''] @
     heading ''File Changes'' @ changes_section read refs"

definition render_markdown ::
  "(time \<Rightarrow> string) \<Rightarrow> (path \<Rightarrow> string option) \<Rightarrow> resolved_task \<Rightarrow> artifact_refs \<Rightarrow>
   audit_event list \<Rightarrow> string" where
  "render_markdown clock read task refs events =
     (let d = report_data_of clock events
      in summary_part d task (length events) @ task_part task @ policy_part d @ sandbox_part task @
         evidence_part read refs d @
         heading ''Test Results'' @ ''No structured test results recorded.'' @ nl @ nl @
         heading ''Artifacts'' @
         push_table_or_none (artifact_rows refs (rd_artifacts d)) [''Kind'', ''Path''] @
         heading ''Residual Risks'' @ risks_section (residual_risks events refs d))"

section \<open>The compliance document\<close>

definition scope_part :: "resolved_task \<Rightarrow> artifact_refs \<Rightarrow> nat \<Rightarrow> string" where
  "scope_part task refs count =
     ''# TaskFence Compliance Evidence: '' @ md_inline (rt_id task) @ nl @ nl @
     heading ''Scope'' @
     bullet (''Task ID: '' @ md_inline (rt_id task)) @
     bullet (''Goal: '' @ md_text (rt_goal task)) @
     bullet (''Workspace: '' @ inline_path (rt_workspace_host_path task)) @
     bullet (''Event source: '' @
       (case af_events refs of Some p \<Rightarrow> inline_path p | None \<Rightarrow> ''Not recorded'')) @
     bullet (''Structured events: '' @ dec_digits count) @ nl"

definition control_part :: "report_data \<Rightarrow> string" where
  "control_part d =
     heading ''Control Summary'' @
     bullet (''Allowed policy decisions: '' @ dec_digits (rd_allowed d)) @
     bullet (''Approval-required policy decisions: '' @ dec_digits (rd_approval_required d)) @
     bullet (''Denied policy decisions: '' @ dec_digits (rd_denied d)) @
     bullet (''Approval records: '' @ dec_digits (length (rd_approvals d))) @
     bullet (''Tool execution records: '' @ dec_digits (length (rd_tool_executions d))) @
     bullet (''Budget records: '' @ dec_digits (length (rd_budget_usage d))) @ nl"

definition render_compliance_markdown ::
  "(time \<Rightarrow> string) \<Rightarrow> resolved_task \<Rightarrow> artifact_refs \<Rightarrow> audit_event list \<Rightarrow> string" where
  "render_compliance_markdown clock task refs events =
     (let d = report_data_of clock events
      in scope_part task refs (length events) @ control_part d @
         heading ''Policy Decisions'' @
         push_table_or_none (rd_commands d) [''Command'', ''Decision'', ''Reason''] @
         push_table_or_none (rd_tool_calls d) [''Tool'', ''Operation'', ''Decision''] @
         push_table_or_none (rd_network d) [''Host'', ''Port'', ''Decision''] @
         heading ''Approval Evidence'' @
         push_table_or_none (rd_approvals d) [''Approval ID'', ''Actor'', ''Decision''] @
         heading ''Gateway Evidence'' @
         push_table_or_none (rd_tool_executions d) [''Tool'', ''Adapter'', ''Outcome'', ''Summary''] @
         heading ''Budget Evidence'' @ push_table_or_none (rd_budget_usage d) budget_headers @
         heading ''Denied Actions'' @ denied_section d @
         heading ''Evidence Artifacts'' @
         push_table_or_none (artifact_rows refs (rd_artifacts d)) [''Kind'', ''Path''] @
         heading ''Residual Risks'' @ risks_section (residual_risks events refs d))"

section \<open>Writing a report\<close>

definition report_error :: "string \<Rightarrow> string + 'a \<Rightarrow> 'a result" where
  "report_error what r = (case r of Inl err \<Rightarrow> Inl (Report (what @ err)) | Inr x \<Rightarrow> Inr x)"

definition report_parent :: "artifact_io \<Rightarrow> path \<Rightarrow> unit result" where
  "report_parent io p =
     (case path_parent p of
        None \<Rightarrow> Inr ()
      | Some parent \<Rightarrow>
          report_error ''failed to create report dir: '' (io_create_dir_all io parent))"

definition report_tmp_path :: "artifact_io \<Rightarrow> path \<Rightarrow> path result" where
  "report_tmp_path io p =
     rbind (report_error [] (io_now io)) (\<lambda>nanos.
       Inr (path_with_extension p (''tmp.'' @ dec_digits (io_pid io) @ ''.'' @ dec_digits nanos)))"

definition write_report_tmp :: "artifact_io \<Rightarrow> path \<Rightarrow> string \<Rightarrow> unit stored" where
  "write_report_tmp io tmp bytes fs =
     (case io_create io tmp of
        Inl err \<Rightarrow> (Inl (Report (''failed to create report: '' @ err)), fs)
      | Inr _ \<Rightarrow>
          (case io_write_all io tmp bytes of
             Inl (err, n) \<Rightarrow>
               (Inl (Report (''failed to write report: '' @ err)), fs(tmp \<mapsto> take n bytes))
           | Inr _ \<Rightarrow>
               (report_error ''failed to sync report: '' (io_sync_all io tmp), fs(tmp \<mapsto> bytes))))"

definition publish_report :: "artifact_io \<Rightarrow> path \<Rightarrow> path \<Rightarrow> unit stored" where
  "publish_report io tmp p fs =
     (case io_rename io tmp p of
        Inl err \<Rightarrow> (Inl (Report (''failed to publish report: '' @ err)), fs)
      | Inr _ \<Rightarrow> (Inr (), (fs(p := fs tmp))(tmp := None)))"

definition report_atomic_write :: "artifact_io \<Rightarrow> path \<Rightarrow> string \<Rightarrow> unit stored" where
  "report_atomic_write io p bytes =
     sbind (slift (report_parent io p)) (\<lambda>_.
     sbind (slift (report_tmp_path io p)) (\<lambda>tmp.
     sbind (write_report_tmp io tmp bytes) (\<lambda>_.
       publish_report io tmp p)))"

text \<open>The generator reads the diff before it writes, in the files it is given.\<close>

definition generate_markdown ::
  "artifact_io \<Rightarrow> (time \<Rightarrow> string) \<Rightarrow> resolved_task \<Rightarrow> artifact_refs \<Rightarrow> audit_event list \<Rightarrow> path stored" where
  "generate_markdown io clock task refs events fs =
     (if au_report_format (rt_audit task) \<noteq> Markdown
      then (Inl (Report ''MarkdownReportGenerator only supports markdown reports''), fs)
      else
        (let p = (case af_report refs of Some q \<Rightarrow> q | None \<Rightarrow> path_join (af_task_dir refs) ''report.md'')
         in sbind (report_atomic_write io p (render_markdown clock fs task refs events)) (\<lambda>_. sreturn p)
              fs))"

definition generate_compliance ::
  "artifact_io \<Rightarrow> (time \<Rightarrow> string) \<Rightarrow> resolved_task \<Rightarrow> artifact_refs \<Rightarrow> audit_event list \<Rightarrow>
   path \<Rightarrow> path stored" where
  "generate_compliance io clock task refs events out =
     sbind (report_atomic_write io out (render_compliance_markdown clock task refs events)) (\<lambda>_.
       sreturn out)"

end
