(* ===== verification/Report_Safety.thy ===== *)
theory Report_Safety
  imports Report_Render Orchestrator_Life
begin

text \<open>
  Properties of the report generator: the tables keep their shape for every recorded value, no
  value reaches a report as HTML, and the counts agree with the events.
\<close>

named_theorems inert_intros \<open>texts without HTML\<close>

section \<open>Replacement\<close>

lemma replace_char_simps [simp]:
  "replace_char c r [] = []"
  "replace_char c r (d # s) = (if d = c then r else [d]) @ replace_char c r s"
  by (simp_all add: replace_char_def)

lemma set_replace_char: "set (replace_char c r s) \<subseteq> set r \<union> (set s - {c})"
  by (induction s) auto

section \<open>Tables\<close>

text \<open>
  The reference reader of a row: cells end at a \<open>|\<close> that no backslash precedes.
\<close>

fun push_char :: "string \<Rightarrow> string list \<Rightarrow> string list" where
  "push_char cs [] = [cs]"
| "push_char cs (w # ws) = (cs @ w) # ws"

fun read_cells :: "string \<Rightarrow> string list" where
  "read_cells [] = [[]]"
| "read_cells [c] = (if c = CHR ''|'' then [[], []] else [[c]])"
| "read_cells (c # d # s) =
     (if c = CHR 0x5C \<and> d = CHR ''|'' then push_char [c, d] (read_cells s)
      else if c = CHR ''|'' then [] # read_cells (d # s)
      else push_char [c] (read_cells (d # s)))"

text \<open>Texts in which a backslash precedes every \<open>|\<close>.\<close>

fun escaped :: "string \<Rightarrow> bool" where
  "escaped [] = True"
| "escaped [c] = (c \<noteq> CHR ''|'')"
| "escaped (c # d # s) =
     (if c = CHR 0x5C \<and> d = CHR ''|'' then escaped s else c \<noteq> CHR ''|'' \<and> escaped (d # s))"

lemma push_char_append [simp]: "push_char u (push_char v ws) = push_char (u @ v) ws"
  by (cases ws) auto

lemma push_char_ne [simp]: "push_char u ws \<noteq> []"
  by (cases ws) auto

lemma read_cells_ne [simp]: "read_cells s \<noteq> []"
  by (cases s rule: read_cells.cases) auto

lemma read_cells_plain:
  "c \<noteq> CHR ''|'' \<Longrightarrow> c \<noteq> CHR 0x5C \<Longrightarrow> read_cells (c # s) = push_char [c] (read_cells s)"
  by (cases s) auto

lemma read_cells_pipe: "read_cells (CHR ''|'' # s) = [] # read_cells s"
  by (cases s) auto

lemma read_cells_escaped:
  "escaped v \<Longrightarrow> read_cells (v @ CHR '' '' # s) = push_char (v @ '' '') (read_cells s)"
proof (induction v rule: escaped.induct)
  case 1
  then show ?case by (simp add: read_cells_plain)
next
  case (2 c)
  then show ?case by (simp add: read_cells_plain)
next
  case (3 c d v)
  then show ?case by (auto split: if_splits)
qed

lemma escaped_Cons: "c \<noteq> CHR ''|'' \<Longrightarrow> escaped s \<Longrightarrow> s = [] \<or> hd s \<noteq> CHR ''|'' \<Longrightarrow> escaped (c # s)"
  by (cases s) auto

lemma escaped_replace_pipe: "escaped (replace_char CHR ''|'' [CHR 0x5C, CHR ''|''] v)"
proof (induction v)
  case Nil
  then show ?case by simp
next
  case (Cons c v)
  obtain s where s: "s = replace_char CHR ''|'' [CHR 0x5C, CHR ''|''] v" by simp
  have "s = [] \<or> hd s \<noteq> CHR ''|''"
    unfolding s by (cases v) auto
  with Cons s escaped_Cons [of c s] show ?case by auto
qed

lemma escaped_append_plain:
  "escaped u \<Longrightarrow> escaped v \<Longrightarrow> v = [] \<or> hd v \<noteq> CHR ''|'' \<Longrightarrow> escaped (u @ v)"
  by (induction u rule: escaped.induct) (auto simp: escaped_Cons split: if_splits)

lemma replace_newline_hd:
  "s \<noteq> [] \<Longrightarrow> hd s \<noteq> CHR ''|'' \<Longrightarrow> hd (replace_char CHR 0x0A ''<br>'' s) \<noteq> CHR ''|''"
  by (cases s) auto

lemma escaped_replace_newline: "escaped s \<Longrightarrow> escaped (replace_char CHR 0x0A ''<br>'' s)"
proof (induction s rule: escaped.induct)
  case (3 c d s)
  show ?case
  proof (cases "c = CHR 0x5C \<and> d = CHR ''|''")
    case True
    with 3 show ?thesis by simp
  next
    case False
    with 3(3) have esc: "c \<noteq> CHR ''|''" "escaped (d # s)" by auto
    then have hd: "d \<noteq> CHR ''|''" by (cases s) (auto split: if_splits)
    have "escaped (replace_char CHR 0x0A ''<br>'' (d # s))"
      using 3(2) [OF False] esc by simp
    moreover have "escaped (if c = CHR 0x0A then ''<br>'' else [c])" using esc by auto
    ultimately show ?thesis
      using replace_newline_hd [of "d # s"] hd unfolding replace_char_simps(2) [of _ _ c]
      by (intro escaped_append_plain) auto
  qed
qed auto

lemma escaped_table_cell: "escaped (table_cell v)"
  unfolding table_cell_def by (intro escaped_replace_newline escaped_replace_pipe)

lemma table_cell_no_newline: "CHR 0x0A \<notin> set (table_cell v)"
  using set_replace_char [of "CHR 0x0A" "''<br>''"] by (fastforce simp: table_cell_def)

lemma read_table_row_part:
  "read_cells (concat (map (\<lambda>v. '' '' @ table_cell v @ '' |'') vs)) =
   map (\<lambda>v. '' '' @ table_cell v @ '' '') vs @ [[]]"
proof (induction vs)
  case Nil
  then show ?case by simp
next
  case (Cons v vs)
  then show ?case
    by (simp add: read_cells_plain read_cells_escaped escaped_table_cell read_cells_pipe)
qed

definition cell_at :: "string list \<Rightarrow> nat \<Rightarrow> string" where
  "cell_at row i = (if i < length row then row ! i else [])"

definition row_line :: "nat \<Rightarrow> string list \<Rightarrow> string" where
  "row_line n row =
     ''|'' @ concat (map (\<lambda>v. '' '' @ table_cell v @ '' |'') (map (cell_at row) [0..<n]))"

lemma table_row_line: "table_row n row = row_line n row @ nl"
  by (simp add: table_row_def row_line_def cell_at_def comp_def)

lemma row_line_no_newline: "CHR 0x0A \<notin> set (row_line n row)"
  using table_cell_no_newline by (auto simp: row_line_def)

lemma read_row_line:
  "read_cells (row_line n row) =
   [] # map (\<lambda>i. '' '' @ table_cell (cell_at row i) @ '' '') [0..<n] @ [[]]"
  using read_table_row_part [of "map (cell_at row) [0..<n]"]
  by (simp add: row_line_def read_cells_pipe comp_def)

lemma split_rows:
  "split_on CHR 0x0A (concat (map (table_row n) rows) @ nl) = map (row_line n) rows @ [[], []]"
proof (induction rows)
  case Nil
  then show ?case by (simp add: nl_def)
next
  case (Cons row rows)
  then show ?case
    by (simp add: table_row_line nl_def split_on_append_sep split_on_single row_line_no_newline)
qed

lemma head_lines:
  assumes "\<And>h. h \<in> set headers \<Longrightarrow> CHR 0x0A \<notin> set h"
  shows "split_on CHR 0x0A (table_head headers @ s) =
    (''|'' @ concat (map (\<lambda>h. '' '' @ h @ '' |'') headers)) #
    (''|'' @ concat (map (\<lambda>_. '' --- |'') headers)) # split_on CHR 0x0A s"
proof -
  have "CHR 0x0A \<notin> set (''|'' @ concat (map (\<lambda>h. '' '' @ h @ '' |'') headers))"
    "CHR 0x0A \<notin> set (''|'' @ concat (map (\<lambda>_. '' --- |'') headers))"
    using assms by (auto dest!: assms)
  then show ?thesis
    unfolding table_head_def nl_def append_assoc append_Cons append_Nil
    by (simp add: split_on_append_sep split_on_single)
qed

text \<open>The line ends of Markdown: a line feed, a carriage return, or both.\<close>

fun md_lines :: "string \<Rightarrow> string list" where
  "md_lines [] = [[]]"
| "md_lines [c] = (if c = CHR 0x0A \<or> c = CHR 0x0D then [[], []] else [[c]])"
| "md_lines (c # d # s) =
     (if c = CHR 0x0D \<and> d = CHR 0x0A then [] # md_lines s
      else if c = CHR 0x0A \<or> c = CHR 0x0D then [] # md_lines (d # s)
      else push_char [c] (md_lines (d # s)))"

lemma split_on_push:
  "c \<noteq> x \<Longrightarrow> split_on x (c # s) = push_char [c] (split_on x s)"
  by (cases "split_on x s") auto

lemma split_on_sep: "split_on x (x # s) = [] # split_on x s"
  by simp

lemma md_lines_plain: "CHR 0x0D \<notin> set s \<Longrightarrow> md_lines s = split_on CHR 0x0A s"
proof (induction s rule: md_lines.induct)
  case (3 c d s)
  then show ?case by (auto simp: split_on_push split_on_sep simp del: split_on.simps(2))
qed auto

lemma replace_char_return: "CHR 0x0D \<notin> set r \<Longrightarrow> CHR 0x0D \<notin> set s \<Longrightarrow> CHR 0x0D \<notin> set (replace_char c r s)"
  using set_replace_char [of c r s] by blast

lemma token_prefix_chars: "set (redact_token_prefix p s) \<subseteq> set s \<union> set redaction_marker"
proof (induction p s rule: redact_token_prefix.induct)
  case (2 p ps s)
  show ?case
  proof (cases "str_find (p # ps) s")
    case None
    then show ?thesis by (simp add: redact_token_prefix.simps)
  next
    case (Some i)
    from 2 [OF Some] Some show ?thesis
      by (auto simp: redact_token_prefix.simps dest!: in_set_takeD set_dropWhileD dest: in_set_dropD)
  qed
qed simp

lemma marker_value_chars: "set (redact_after_marker_case_insensitive m s) \<subseteq> set s \<union> set redaction_marker"
proof (induction m s rule: redact_after_marker_case_insensitive.induct)
  case (2 m ms s)
  show ?case
  proof (cases "str_find (m # ms) (to_lower s)")
    case None
    then show ?thesis by (simp add: redact_after_marker_case_insensitive.simps)
  next
    case (Some i)
    let ?r = "drop (i + length (m # ms)) s"
    have "set (after_value ?r) \<subseteq> set s"
      using set_mono_suffix [OF suffix_after_value [of ?r]] set_drop_subset [of "i + length (m # ms)" s] by blast
    with 2 [OF Some] Some show ?thesis
      by (auto simp: redact_after_marker_case_insensitive.simps dest!: in_set_takeD)
  qed
qed simp

lemma fold_chars:
  assumes "\<And>p s. set (f p s) \<subseteq> set s \<union> A"
  shows "set (fold f ps s) \<subseteq> set s \<union> A"
  using assms by (induction ps arbitrary: s) fastforce+

lemma redacted_chars: "set (redact_secret_like_text s) \<subseteq> set s \<union> set redaction_marker"
  using fold_chars [of redact_token_prefix, OF token_prefix_chars, of token_prefixes s]
    fold_chars [of redact_after_marker_case_insensitive, OF marker_value_chars, of value_markers "fold redact_token_prefix token_prefixes s"]
  by (auto simp: redact_secret_like_text_def)

lemma stripped_chars: "set (report_redact_secret_like_text s) \<subseteq> set s \<union> insert CHR '' '' (set redaction_marker)"
proof -
  have "set (strip_terminal_controls s) \<subseteq> insert CHR '' '' (set s)"
    by (induction s rule: strip_terminal_controls.induct) auto
  with redacted_chars [of "strip_terminal_controls s"] show ?thesis
    by (auto simp: report_redact_secret_like_text_def)
qed

lemma table_cell_return: "CHR 0x0D \<notin> set v \<Longrightarrow> CHR 0x0D \<notin> set (table_cell v)"
  using stripped_chars [of v] unfolding table_cell_def md_text_def
  by (intro replace_char_return) (auto simp: redaction_marker_def)

lemma table_return:
  assumes "\<forall>h \<in> set headers. CHR 0x0D \<notin> set h" and "\<forall>row \<in> set rows. \<forall>v \<in> set row. CHR 0x0D \<notin> set v"
  shows "CHR 0x0D \<notin> set (push_table_or_none rows headers)"
proof -
  have "CHR 0x0D \<notin> set (cell_at row i)" if "row \<in> set rows" for row i
    using assms(2) that by (auto simp: cell_at_def)
  then have "CHR 0x0D \<notin> set (table_row n row)" if "row \<in> set rows" for n row
    using that table_cell_return by (auto simp: table_row_line row_line_def nl_def)
  with assms(1) show ?thesis
    by (auto simp: push_table_or_none_def table_head_def nl_def)
qed


text \<open>
  A carriage return is not replaced, though Markdown ends a line at it, and the list items of a
  report keep every line break of their value.
\<close>

lemma carriage_return_kept: "table_cell (''a'' @ [CHR 0x0D] @ ''b'') = ''a'' @ [CHR 0x0D] @ ''b''"
  by code_simp

lemma carriage_return_ends_row:
  "length (split_on CHR 0x0A (push_table_or_none [[''a'' @ [CHR 0x0D] @ ''b'']] [''X''])) = 5"
  "length (md_lines (push_table_or_none [[''a'' @ [CHR 0x0D] @ ''b'']] [''X''])) = 6"
  by code_simp+

lemma goal_keeps_line_breaks:
  "md_text (''done'' @ nl @ nl @ ''## Denied Actions'' @ nl @ nl @ ''None recorded.'') =
   ''done'' @ nl @ nl @ ''## Denied Actions'' @ nl @ nl @ ''None recorded.''"
  by code_simp

section \<open>No HTML\<close>

text \<open>Texts whose only tags are the line breaks that the renderer itself writes.\<close>

fun html_inert :: "string \<Rightarrow> bool" where
  "html_inert [] = True"
| "html_inert (c # s) = ((c = CHR ''<'' \<longrightarrow> prefix ''br>'' s) \<and> html_inert s)"

lemma html_inert_append [simp]: "html_inert a \<Longrightarrow> html_inert (a @ b) = html_inert b"
  by (induction a) auto

lemma html_inert_plain: "CHR ''<'' \<notin> set s \<Longrightarrow> html_inert s"
  by (induction s) auto

lemma html_inert_concat: "(\<And>s. s \<in> set ss \<Longrightarrow> html_inert s) \<Longrightarrow> html_inert (concat ss)"
  by (induction ss) auto

lemma html_inert_concat_append [simp]:
  "\<forall>s \<in> set ss. html_inert s \<Longrightarrow> html_inert (concat ss @ b) = html_inert b"
  by (simp add: html_inert_concat)

lemma md_text_plain: "CHR ''<'' \<notin> set (md_text v)"
  using set_replace_char [of "CHR ''>''" "''&gt;''"] set_replace_char [of "CHR ''<''" "''&lt;''"]
  by (fastforce simp: md_text_def)

lemma inert_md_text [simp]: "html_inert (md_text v)"
  by (rule html_inert_plain [OF md_text_plain])

lemma inert_md_inline [simp]: "html_inert (md_inline v)" "html_inert (inline_path v)"
proof -
  have "CHR ''<'' \<notin> set (md_inline v)"
    using set_replace_char [of "CHR 0x60" "[CHR 0x5C, CHR 0x60]" "md_text v"] md_text_plain [of v]
    by (auto simp: md_inline_def)
  then show "html_inert (md_inline v)" "html_inert (inline_path v)"
    by (simp_all add: inline_path_def html_inert_plain)
qed

lemma inert_breaks: "CHR ''<'' \<notin> set s \<Longrightarrow> html_inert (replace_char CHR 0x0A ''<br>'' s)"
  by (induction s) auto

lemma inert_table_cell [simp]: "html_inert (table_cell v)"
  using set_replace_char [of "CHR ''|''" "[CHR 0x5C, CHR ''|'']" "md_text v"] md_text_plain [of v]
  unfolding table_cell_def by (intro inert_breaks) auto

lemma inert_nl [simp]: "html_inert nl"
  by (simp add: nl_def)

lemma inert_digits [simp]: "html_inert (dec_digits n)"
  using dec_digits_char [of "CHR ''<''" n] by (intro html_inert_plain) (auto simp: is_digit_def)

lemma inert_row [simp]: "html_inert (table_row n row)"
  unfolding table_row_def by (simp add: html_inert_concat)

lemma inert_table [simp]:
  "\<forall>h \<in> set headers. html_inert h \<Longrightarrow> html_inert (push_table_or_none rows headers)"
proof -
  assume h: "\<forall>h \<in> set headers. html_inert h"
  have "html_inert (concat (map (\<lambda>h. '' '' @ h @ '' |'') headers))"
    using h by (auto intro!: html_inert_concat)
  moreover have "html_inert (concat (map (\<lambda>_. '' --- |'') headers))"
    by (auto intro!: html_inert_concat)
  moreover have "html_inert (concat (map (table_row (length headers)) rows))"
    by (auto intro!: html_inert_concat)
  ultimately show ?thesis by (simp add: push_table_or_none_def table_head_def)
qed

lemma inert_bullet [simp]: "html_inert (bullet s) = html_inert (s @ nl)"
  by (simp add: bullet_def)

lemma inert_debug [simp]:
  "html_inert (format_status st)"
  by (cases st) auto

lemma inert_sections [simp]:
  "html_inert (denied_section d)" "html_inert (risks_section risks)"
  "html_inert (changes_section read refs)"
  by (auto simp: denied_section_def risks_section_def timeline_section_def changes_section_def
      intro!: html_inert_concat split: option.split)

lemma inert_timeline [simp]: "html_inert (timeline_section d)"
  unfolding timeline_section_def case_prod_beta by simp

text \<open>The one value that is printed as it is: the signal of the last runner exit.\<close>

definition plain_exit :: "exit_status option \<Rightarrow> bool" where
  "plain_exit st =
     (case st of Some x \<Rightarrow> (case ex_signal x of Some s \<Rightarrow> html_inert s | None \<Rightarrow> True) | None \<Rightarrow> True)"

lemma inert_exit: "plain_exit (Some x) \<Longrightarrow> html_inert (format_exit_status x)"
  by (auto simp: plain_exit_def format_exit_status_def code_text_def split: option.splits)

lemma inert_summary: "plain_exit (rd_exit_status d) \<Longrightarrow> html_inert (summary_part d task n)"
  by (cases "rd_exit_status d"; cases "rd_final_status d")
    (simp_all add: summary_part_def heading_def inert_exit)

lemma inert_parts [simp]:
  "html_inert (task_part task)" "html_inert (policy_part d)" "html_inert (sandbox_part task)"
  by (simp_all add: task_part_def policy_part_def sandbox_part_def heading_def budget_headers_def
      split: option.split)

lemma inert_evidence [simp]: "html_inert (evidence_part read refs d)"
  by (simp add: evidence_part_def heading_def)

lemma inert_compliance [simp]: "html_inert (scope_part task refs n)" "html_inert (control_part d)"
  by (simp_all add: scope_part_def control_part_def heading_def split: option.split)

text \<open>
  C37: Nothing that a task, an agent or a gateway puts into the evidence becomes HTML in a report:
  every \<open><\<close> of the compliance document, and of the Markdown report when the signal of the runner
  exit has none of its own, is the start of a \<open><br>\<close> that the renderer wrote.
\<close>

theorem reports_carry_no_html:
  assumes "plain_exit (rd_exit_status (report_data_of clock events))"
  shows "html_inert (render_markdown clock read task refs events) \<and>
    html_inert (render_compliance_markdown clock task refs events)"
  using inert_summary [OF assms]
  by (simp add: render_markdown_def render_compliance_markdown_def Let_def heading_def
      budget_headers_def)

section \<open>The counts\<close>

fun decision_of :: "audit_event \<Rightarrow> (action \<times> action_decision) list" where
  "decision_of (PolicyDecision _ _ a d) = [(a, d)]"
| "decision_of _ = []"

fun status_of :: "audit_event \<Rightarrow> task_status list" where
  "status_of (TaskStatusChanged _ _ s) = [s]"
| "status_of _ = []"

fun error_of :: "audit_event \<Rightarrow> string list" where
  "error_of (Error _ _ m) = [m]"
| "error_of _ = []"

text \<open>What the timeline says of an event: nothing of approvals, which have a table of their own.\<close>

fun timeline_of :: "(time \<Rightarrow> string) \<Rightarrow> audit_event \<Rightarrow> (string \<times> string) list" where
  "timeline_of clock (TaskCreated _ at goal) = [(clock at, ''task created: '' @ md_text goal)]"
| "timeline_of clock (TaskStatusChanged _ at st) = [(clock at, ''status changed to '' @ format_status st)]"
| "timeline_of clock (PolicyDecision _ at a d) =
     [(clock at, ''policy decision '' @
        (if is_allow d then ''allow'' else if is_deny d then ''deny'' else ''approval required'') @ '': '' @
        report_action_summary a)]"
| "timeline_of clock (ToolExecutionStarted _ at req) =
     [(clock at, ''tool execution started: '' @ tool_action_summary (tr_action req))]"
| "timeline_of clock (ToolExecutionFinished _ at x) =
     [(clock at, ''tool execution '' @
        (if tx_error x \<noteq> None then ''failed'' else if tx_result x \<noteq> None then ''succeeded'' else ''unknown'') @
        '': '' @ tool_action_summary (tr_action (tx_request x)))]"
| "timeline_of clock (BudgetUsageRecorded _ at r) =
     [(clock at, ''budget usage '' @
        (if is_allow (br_decision r) then ''allow'' else if is_deny (br_decision r) then ''deny''
         else ''approval required'') @
        '': '' @ bu_kind (br_usage r) @ '' amount '' @ dec_digits (unat (bu_amount (br_usage r))))]"
| "timeline_of clock (ApprovalRequested _) = []"
| "timeline_of clock (ApprovalResolved _) = []"
| "timeline_of clock (Log _ chunk) =
     [(clock (lc_timestamp chunk), stream_label (lc_stream chunk) @ '' log chunk captured ('' @
        dec_digits (length (lc_text chunk)) @ '' bytes)'')]"
| "timeline_of clock (RunnerExit _ at st) = [(clock at, ''runner exit '' @ format_exit_status st)]"
| "timeline_of clock (Artifact _ at kind _) = [(clock at, ''artifact recorded: '' @ kind)]"
| "timeline_of clock (Error _ at m) = [(clock at, ''error recorded: '' @ md_text m)]"

definition collected :: "('b \<Rightarrow> 'a list) \<Rightarrow> 'b list \<Rightarrow> 'a list" where
  "collected f es = concat (map f es)"

lemma collected_snoc [simp]: "collected f (es @ [e]) = collected f es @ f e" "collected f [] = []"
  by (simp_all add: collected_def)

definition last_of :: "'a list \<Rightarrow> 'a option" where
  "last_of xs = (if xs = [] then None else Some (last xs))"

lemma last_of_snoc [simp]: "last_of (xs @ [x]) = Some x" "last_of [] = None"
  by (simp_all add: last_of_def)

lemma report_data_snoc [simp]:
  "report_data_of clock (es @ [e]) = report_event clock e (report_data_of clock es)"
  "report_data_of clock [] = empty_report_data"
  by (simp_all add: report_data_of_def)

lemmas push_defs = push_timeline_def Let_def

lemma push_decision_fields [simp]:
  "rd_allowed (push_decision a l r d) = rd_allowed d"
  "rd_approval_required (push_decision a l r d) = rd_approval_required d"
  "rd_denied (push_decision a l r d) = rd_denied d"
  "rd_denied_actions (push_decision a l r d) = rd_denied_actions d"
  "rd_final_status (push_decision a l r d) = rd_final_status d"
  "rd_errors (push_decision a l r d) = rd_errors d"
  "rd_timeline (push_decision a l r d) = rd_timeline d"
  by (cases a; simp)+

lemma tally_fields [simp]:
  "rd_final_status (tally a v d) = rd_final_status d"
  "rd_errors (tally a v d) = rd_errors d"
  "rd_timeline (tally a v d) = rd_timeline d"
  by (cases v; simp)+

lemma tally_counts [simp]:
  "rd_allowed (tally a v d) = rd_allowed d + (if is_allow v then 1 else 0)"
  "rd_approval_required (tally a v d) = rd_approval_required d + (if needs_approval v then 1 else 0)"
  "rd_denied (tally a v d) = rd_denied d + (if is_deny v then 1 else 0)"
  "rd_denied_actions (tally a v d) = rd_denied_actions d @
     (if is_deny v then [report_action_summary a @ '' denied: '' @ snd (decision_parts v)] else [])"
  by (cases v; simp)+

definition denial_line :: "action \<times> action_decision \<Rightarrow> string" where
  "denial_line x = report_action_summary (fst x) @ '' denied: '' @ snd (decision_parts (snd x))"

definition counts_agree :: "(time \<Rightarrow> string) \<Rightarrow> report_data \<Rightarrow> audit_event list \<Rightarrow> bool" where
  "counts_agree clock d events \<longleftrightarrow>
     rd_allowed d = length (filter (is_allow \<circ> snd) (collected decision_of events)) \<and>
     rd_approval_required d = length (filter (needs_approval \<circ> snd) (collected decision_of events)) \<and>
     rd_denied d = length (filter (is_deny \<circ> snd) (collected decision_of events)) \<and>
     rd_denied_actions d =
       map denial_line (filter (is_deny \<circ> snd) (collected decision_of events)) \<and>
     rd_final_status d = last_of (collected status_of events) \<and>
     rd_errors d = collected error_of events \<and>
     rd_timeline d = collected (timeline_of clock) events"

lemma decision_labels:
  "fst (decision_parts v) = (if is_allow v then ''allow'' else if is_deny v then ''deny'' else ''approval required'')"
  by (cases v) simp_all

lemma execution_labels:
  "fst (execution_outcome r e) =
     (if e \<noteq> None then ''failed'' else if r \<noteq> None then ''succeeded'' else ''unknown'')"
  by (cases r; cases e) simp_all

lemma counts_agree_step:
  "counts_agree clock d es \<Longrightarrow> counts_agree clock (report_event clock e d) (es @ [e])"
  by (cases e)
    (simp_all add: counts_agree_def push_defs denial_line_def case_prod_beta decision_labels execution_labels
      del: collected_def)

lemma counts_agree_all: "counts_agree clock (report_data_of clock events) events"
proof (induction events rule: rev_induct)
  case Nil
  then show ?case by (simp add: counts_agree_def empty_report_data_def)
next
  case (snoc e es)
  then show ?case by (simp add: counts_agree_step)
qed

text \<open>What a document has to say, computed from the events alone.\<close>

definition decisions_with :: "(action_decision \<Rightarrow> bool) \<Rightarrow> audit_event list \<Rightarrow> (action \<times> action_decision) list" where
  "decisions_with p events = filter (p \<circ> snd) (collected decision_of events)"

definition count_of :: "(action_decision \<Rightarrow> bool) \<Rightarrow> audit_event list \<Rightarrow> string" where
  "count_of p events = dec_digits (length (decisions_with p events))"

definition final_line :: "audit_event list \<Rightarrow> string" where
  "final_line events = ''- Final status: '' @
     (case last_of (collected status_of events) of Some st \<Rightarrow> format_status st | None \<Rightarrow> ''Unknown'') @ nl"

definition policy_lines :: "audit_event list \<Rightarrow> string" where
  "policy_lines events =
     ''## Policy Summary'' @ nl @ nl @
     ''- Allowed decisions: '' @ count_of is_allow events @ nl @
     ''- Approval-required decisions: '' @ count_of needs_approval events @ nl @
     ''- Denied decisions: '' @ count_of is_deny events @ nl"

definition control_lines :: "audit_event list \<Rightarrow> string" where
  "control_lines events =
     ''## Control Summary'' @ nl @ nl @
     ''- Allowed policy decisions: '' @ count_of is_allow events @ nl @
     ''- Approval-required policy decisions: '' @ count_of needs_approval events @ nl @
     ''- Denied policy decisions: '' @ count_of is_deny events @ nl"

definition timeline_lines :: "(time \<Rightarrow> string) \<Rightarrow> audit_event list \<Rightarrow> string" where
  "timeline_lines clock events =
     ''## Timeline'' @ nl @ nl @
     (let entries = collected (timeline_of clock) events
      in if entries = [] then ''No timeline events recorded.'' @ nl
         else ''| Time | Event |'' @ nl @ ''| --- | --- |'' @ nl @
           concat (map (\<lambda>(at, what). ''| '' @ table_cell at @ '' | '' @ table_cell what @ '' |'' @ nl) entries))"

definition denied_lines :: "audit_event list \<Rightarrow> string" where
  "denied_lines events =
     ''## Denied Actions'' @ nl @ nl @
     (let denials = decisions_with is_deny events
      in if denials = [] then ''None recorded.'' @ nl
         else concat (map (\<lambda>x. ''- '' @ md_text (denial_line x) @ nl) denials))"

definition error_lines :: "audit_event list \<Rightarrow> string" where
  "error_lines events =
     concat (map (\<lambda>m. ''- '' @ md_text (''Task recorded an error: '' @ m) @ nl) (collected error_of events))"

text \<open>The parts of the documents that hold them.\<close>

lemma summary_part_shape:
  assumes "counts_agree clock d events"
  shows "\<exists>a b. summary_part d task n = a @ final_line events @ b"
proof -
  have "summary_part d task n = (''# TaskFence Report: '' @ md_inline (rt_id task) @ nl @ nl @
       heading ''Summary'' @ bullet (''Task ID: '' @ md_inline (rt_id task)) @
       bullet (''Goal: '' @ md_text (rt_goal task))) @ final_line events @
     (bullet (''Runner exit: '' @
         (case rd_exit_status d of Some s \<Rightarrow> format_exit_status s | None \<Rightarrow> ''Not recorded'')) @
       bullet (''Audit events: '' @ dec_digits n) @ nl)"
    using assms by (simp add: summary_part_def final_line_def bullet_def counts_agree_def)
  then show ?thesis by blast
qed

lemma policy_part_shape:
  "counts_agree clock d events \<Longrightarrow> \<exists>b. policy_part d = policy_lines events @ b"
  by (simp add: policy_part_def policy_lines_def heading_def bullet_def counts_agree_def count_of_def
      decisions_with_def)

lemma control_part_shape:
  "counts_agree clock d events \<Longrightarrow> \<exists>b. control_part d = control_lines events @ b"
  by (simp add: control_part_def control_lines_def heading_def bullet_def counts_agree_def count_of_def
      decisions_with_def)

lemma timeline_shape:
  "counts_agree clock d events \<Longrightarrow> heading ''Timeline'' @ timeline_section d = timeline_lines clock events @ nl"
  by (simp add: timeline_section_def timeline_lines_def heading_def counts_agree_def Let_def)

lemma denied_shape:
  "counts_agree clock d events \<Longrightarrow> heading ''Denied Actions'' @ denied_section d = denied_lines events @ nl"
  by (simp add: denied_section_def denied_lines_def heading_def bullet_def counts_agree_def Let_def
      decisions_with_def comp_def)

lemma evidence_part_shape:
  assumes "counts_agree clock d events"
  shows "\<exists>b c. evidence_part read refs d = timeline_lines clock events @ b @ denied_lines events @ c"
proof -
  let ?b = "nl @ heading ''Commands'' @ push_table_or_none (rd_commands d) [''Command'', ''Decision'', ''Reason''] @
     heading ''Tool Calls'' @ push_table_or_none (rd_tool_calls d) [''Tool'', ''Operation'', ''Decision''] @
     heading ''Tool Executions'' @
     push_table_or_none (rd_tool_executions d) [''Tool'', ''Adapter'', ''Outcome'', ''Summary''] @
     heading ''Approvals'' @ push_table_or_none (rd_approvals d) [''Approval ID'', ''Actor'', ''Decision'']"
  let ?c = "nl @ heading ''Network Destinations'' @
     push_table_or_none (rd_network d) [''Host'', ''Port'', ''Decision''] @
     heading ''File Changes'' @ changes_section read refs"
  have "evidence_part read refs d = (heading ''Timeline'' @ timeline_section d) @
      heading ''Commands'' @ push_table_or_none (rd_commands d) [''Command'', ''Decision'', ''Reason''] @
      heading ''Tool Calls'' @ push_table_or_none (rd_tool_calls d) [''Tool'', ''Operation'', ''Decision''] @
      heading ''Tool Executions'' @
      push_table_or_none (rd_tool_executions d) [''Tool'', ''Adapter'', ''Outcome'', ''Summary''] @
      heading ''Approvals'' @ push_table_or_none (rd_approvals d) [''Approval ID'', ''Actor'', ''Decision''] @
      (heading ''Denied Actions'' @ denied_section d) @ heading ''Network Destinations'' @
      push_table_or_none (rd_network d) [''Host'', ''Port'', ''Decision''] @
      heading ''File Changes'' @ changes_section read refs"
    by (simp only: evidence_part_def append_assoc)
  then have "evidence_part read refs d = timeline_lines clock events @ ?b @ denied_lines events @ ?c"
    by (simp only: timeline_shape [OF assms] denied_shape [OF assms] append_assoc)
  then show ?thesis by blast
qed

lemma risks_shape:
  assumes "counts_agree clock d events"
  shows "\<exists>a. risks_section (residual_risks events refs d) = a @ error_lines events"
proof -
  have errs: "error_lines events = concat (map (\<lambda>r. bullet (md_text r)) (map (\<lambda>e. ''Task recorded an error: '' @ e) (rd_errors d)))"
    using assms by (simp add: error_lines_def counts_agree_def bullet_def comp_def)
  show ?thesis
  proof (cases "residual_risks events refs d = []")
    case True
    then have "error_lines events = []" by (simp add: errs residual_risks_def)
    then show ?thesis by simp
  next
    case False
    then have "risks_section (residual_risks events refs d) =
        concat (map (\<lambda>r. bullet (md_text r)) (residual_risks events refs d))"
      by (simp add: risks_section_def)
    then show ?thesis unfolding residual_risks_def map_append concat_append errs by (metis append_assoc)
  qed
qed

text \<open>
  C38: A report tells the whole story of the events it is given. The Markdown report shows, in this
  order, the status of the last status change, the numbers of allowing, approval-requiring and denying
  policy decisions under their labels, a timeline row for every event but the approvals, with its
  time and text and in the order of the events, an entry for each denial in order, and as
  the last risks every recorded error. The compliance document shows the same three numbers.
\<close>

theorem report_agrees_with_events:
  "(\<exists>a b c d e. render_markdown clock read task refs events =
      a @ final_line events @ b @ policy_lines events @ c @ timeline_lines clock events @ d @
      denied_lines events @ e @ error_lines events)
   \<and> (\<exists>a b. render_compliance_markdown clock task refs events = a @ control_lines events @ b)"
proof
  let ?d = "report_data_of clock events"
  note agree = counts_agree_all [of clock events]
  obtain a b where s: "summary_part ?d task (length events) = a @ final_line events @ b"
    using summary_part_shape [OF agree] by blast
  obtain c where p: "policy_part ?d = policy_lines events @ c"
    using policy_part_shape [OF agree] by blast
  obtain e f where v: "evidence_part read refs ?d = timeline_lines clock events @ e @ denied_lines events @ f"
    using evidence_part_shape [OF agree] by blast
  obtain g where r: "risks_section (residual_risks events refs ?d) = g @ error_lines events"
    using risks_shape [OF agree] by blast
  have "render_markdown clock read task refs events =
      a @ final_line events @ (b @ task_part task) @ policy_lines events @ (c @ sandbox_part task) @
      timeline_lines clock events @ e @ denied_lines events @
      (f @ heading ''Test Results'' @ ''No structured test results recorded.'' @ nl @ nl @
       heading ''Artifacts'' @ push_table_or_none (artifact_rows refs (rd_artifacts ?d)) [''Kind'', ''Path''] @
       heading ''Residual Risks'' @ g) @ error_lines events"
    by (simp only: render_markdown_def Let_def s p v r append_assoc)
  then show "\<exists>a b c d e. render_markdown clock read task refs events =
      a @ final_line events @ b @ policy_lines events @ c @ timeline_lines clock events @ d @
      denied_lines events @ e @ error_lines events" by blast
  obtain h where "control_part ?d = control_lines events @ h"
    using control_part_shape [OF agree] by blast
  then show "\<exists>a b. render_compliance_markdown clock task refs events = a @ control_lines events @ b"
    unfolding render_compliance_markdown_def Let_def by (metis append_assoc)
qed

section \<open>Witnesses\<close>

definition sample_rows :: "string list list" where
  "sample_rows = [[''a|b'' @ nl @ ''c'', ''d'']]"


definition sample_report_events :: "audit_event list" where
  "sample_report_events =
     [TaskCreated ''t1'' 1 ''<script>'', Error ''t1'' 2 ''<img src=x>'',
      RunnerExit ''t1'' 3 \<lparr>ex_code = Some 1, ex_timed_out = False, ex_signal = Some ''9''\<rparr>]"

theorem reports_carry_no_html_witness:
  "html_inert (render_markdown (\<lambda>_. ''T'') (\<lambda>_. None) sample_task sample_refs sample_report_events)"
proof -
  have "plain_exit (rd_exit_status (report_data_of (\<lambda>_. ''T'') sample_report_events))"
    by (simp add: plain_exit_def report_data_of_def sample_report_events_def empty_report_data_def
        push_timeline_def)
  from reports_carry_no_html [OF this] show ?thesis by simp
qed

end
