(* ===== verification/Audit_Log.thy ===== *)
theory Audit_Log
  imports Artifact_Store Evidence_Safety
begin

text \<open>
  The audit logger (\<open>LocalJsonlAuditLogger\<close> of \<open>crates/taskfence-audit/src/lib.rs\<close>): one sanitised
  JSON line per event, through a buffered writer that is flushed after each event. Serde is a
  pair of functions, to a JSON value and from it to text.
\<close>

section \<open>The logger\<close>

record audit_codec =
  al_value :: "audit_event \<Rightarrow> string + json"
  al_text :: "json \<Rightarrow> string"

definition default_max_string_bytes :: nat where
  "default_max_string_bytes = 65536"

text \<open>
  The file, and what a failed write left in the buffer of the writer (it is written with the next
  event). A write may fail after any number of bytes, keeping any part of the rest.
\<close>

record audit_log =
  ag_file :: string
  ag_pending :: string
  ag_poisoned :: bool
  ag_calls :: nat

datatype flush_answer = Flushed | FlushFailed string nat nat

record audit_disk =
  ad_create_dir_all :: "path \<Rightarrow> string + unit"
  ad_open :: "path \<Rightarrow> string + string"
  ad_flush :: "nat \<Rightarrow> flush_answer"

definition audit_io_error :: "string \<Rightarrow> taskfence_error" where
  "audit_io_error err = Audit err"

text \<open>Opening for append keeps the content that is there.\<close>

definition logger_new :: "audit_disk \<Rightarrow> path \<Rightarrow> audit_log result" where
  "logger_new disk p =
     rbind (case path_parent p of
              None \<Rightarrow> Inr ()
            | Some parent \<Rightarrow>
                (case ad_create_dir_all disk parent of
                   Inl err \<Rightarrow> Inl (audit_io_error err) | Inr _ \<Rightarrow> Inr ())) (\<lambda>_.
       case ad_open disk p of
         Inl err \<Rightarrow> Inl (audit_io_error err)
       | Inr content \<Rightarrow>
           Inr \<lparr>ag_file = content, ag_pending = [], ag_poisoned = False, ag_calls = 0\<rparr>)"

definition audit_line :: "audit_codec \<Rightarrow> audit_event \<Rightarrow> string result" where
  "audit_line codec event =
     (case al_value codec event of
        Inl err \<Rightarrow> Inl (Audit (''failed to serialize audit event: '' @ err))
      | Inr v \<Rightarrow> Inr (al_text codec (sanitize_json_value default_max_string_bytes v)))"

definition flush_log :: "audit_disk \<Rightarrow> string \<Rightarrow> audit_log \<Rightarrow> unit result \<times> audit_log" where
  "flush_log disk line l =
     (let all = ag_pending l @ line @ nl; l1 = l\<lparr>ag_calls := ag_calls l + 1\<rparr>
      in case ad_flush disk (ag_calls l) of
           Flushed \<Rightarrow> (Inr (), l1\<lparr>ag_file := ag_file l @ all, ag_pending := []\<rparr>)
         | FlushFailed err k m \<Rightarrow>
             (Inl (audit_io_error err),
              l1\<lparr>ag_file := ag_file l @ take k all, ag_pending := take m (drop k all)\<rparr>))"

definition audit_record ::
  "audit_codec \<Rightarrow> audit_disk \<Rightarrow> audit_event \<Rightarrow> audit_log \<Rightarrow> unit result \<times> audit_log" where
  "audit_record codec disk event l =
     (case audit_line codec event of
        Inl err \<Rightarrow> (Inl err, l)
      | Inr line \<Rightarrow>
          if ag_poisoned l then (Inl (Audit ''audit writer lock poisoned''), l)
          else flush_log disk line l)"

text \<open>Recording a sequence of events, and the result of the last one.\<close>

fun audit_all ::
  "audit_codec \<Rightarrow> audit_disk \<Rightarrow> audit_event list \<Rightarrow> audit_log \<Rightarrow> unit result \<times> audit_log" where
  "audit_all codec disk [] l = (Inr (), l)"
| "audit_all codec disk (e # es) l =
     (case audit_record codec disk e l of
        (Inl err, l') \<Rightarrow> (Inl err, l')
      | (Inr _, l') \<Rightarrow> audit_all codec disk es l')"

section \<open>The lines that were written\<close>

definition line_text :: "string \<Rightarrow> bool" where
  "line_text t \<longleftrightarrow> CHR 0x0A \<notin> set t \<and> (t = [] \<or> last t \<noteq> CHR 0x0D)"

lemma str_lines_Nil [simp]: "str_lines [] = []"
  by (simp add: str_lines_def)

lemma str_lines_line: "line_text t \<Longrightarrow> str_lines (t @ nl @ s) = t # str_lines s"
  by (auto simp: str_lines_def nl_def split_on_append_sep split_on_single line_text_def drop_cr_def Let_def)

lemma str_lines_concat:
  "list_all line_text ts \<Longrightarrow> str_lines (concat (map (\<lambda>t. t @ nl) ts)) = ts"
  by (induction ts) (simp_all add: str_lines_line)

text \<open>The value of an event as sanitising leaves it, and the text serde makes of it.\<close>

definition sanitised_value :: "audit_codec \<Rightarrow> audit_event \<Rightarrow> json" where
  "sanitised_value codec e =
     (case al_value codec e of
        Inr v \<Rightarrow> sanitize_json_value default_max_string_bytes v | Inl _ \<Rightarrow> JNull)"

definition event_text :: "audit_codec \<Rightarrow> audit_event \<Rightarrow> string" where
  "event_text codec e = al_text codec (sanitised_value codec e)"

lemma audit_record_ok:
  assumes "audit_record codec disk e l = (Inr (), l')" and "ag_pending l = []"
  shows "ag_file l' = ag_file l @ event_text codec e @ nl \<and> ag_pending l' = []"
  using assms
  by (auto simp: audit_record_def audit_line_def flush_log_def event_text_def sanitised_value_def Let_def
      split: sum.splits if_splits flush_answer.splits)

lemma audit_all_ok:
  assumes "audit_all codec disk es l = (Inr (), l')" and "ag_pending l = []"
  shows "ag_file l' = ag_file l @ concat (map (\<lambda>e. event_text codec e @ nl) es) \<and> ag_pending l' = []
    \<and> (\<forall>e \<in> set es. \<exists>v. al_value codec e = Inr v)"
  using assms
proof (induction es arbitrary: l)
  case Nil
  then show ?case by simp
next
  case (Cons e es)
  then obtain l1 where r: "audit_record codec disk e l = (Inr (), l1)"
      "audit_all codec disk es l1 = (Inr (), l')"
    by (auto split: prod.splits sum.splits)
  from r(1) have "\<exists>v. al_value codec e = Inr v"
    by (auto simp: audit_record_def audit_line_def split: sum.splits)
  with audit_record_ok [OF r(1) Cons.prems(2)] Cons.IH [OF r(2)] show ?case by simp
qed

text \<open>What the reader of the event file makes of a text.\<close>

definition event_lines :: "string \<Rightarrow> (string + string) list" where
  "event_lines s = map Inr (str_lines s)"

text \<open>The events that the reader of a task accepts for a list of values.\<close>

definition read_as ::
  "(json \<Rightarrow> string + audit_event) \<Rightarrow> task_id \<Rightarrow> json \<Rightarrow> audit_event \<Rightarrow> bool" where
  "read_as from_value tid v e \<longleftrightarrow> from_value v = Inr e \<and> audit_event_task_id e = tid"

lemma read_events_lines:
  assumes "\<And>e. e \<in> set es \<Longrightarrow> trim (text e) \<noteq> [] \<and> parse (text e) = from_value (value_of e)"
  shows "read_events_from parse tid p n (map Inr (map text es)) = Inr vs \<longleftrightarrow>
    list_all2 (\<lambda>e. read_as from_value tid (value_of e)) es vs"
  using assms
proof (induction es arbitrary: n vs)
  case Nil
  then show ?case by auto
next
  case (Cons e es)
  then show ?case
    by (cases vs) (auto simp: read_as_def rbind_Inr_iff split: sum.splits)
qed

text \<open>
  Serde as the log relies on it, for the events of a list: it writes the sanitised value of each on
  one line that is not blank, the text is read as that value, and the value of an event that was not
  changed is read as the event.
\<close>

definition serde_reads ::
  "audit_codec \<Rightarrow> (string \<Rightarrow> string + audit_event) \<Rightarrow> (json \<Rightarrow> string + audit_event) \<Rightarrow> audit_event list \<Rightarrow> bool"
  where
  "serde_reads codec parse from_value es \<longleftrightarrow>
     (\<forall>e \<in> set es. line_text (event_text codec e) \<and> trim (event_text codec e) \<noteq> []
        \<and> parse (event_text codec e) = from_value (sanitised_value codec e)
        \<and> (\<forall>v. al_value codec e = Inr v \<longrightarrow> from_value v = Inr e))"

lemma logged_lines:
  assumes "audit_all codec disk es l = (Inr (), l')" and "ag_file l = []" and "ag_pending l = []"
    and "serde_reads codec parse from_value es"
  shows "read_events_file parse tid p (event_lines (ag_file l')) = Inr vs \<longleftrightarrow>
    list_all2 (\<lambda>e. read_as from_value tid (sanitised_value codec e)) es vs"
proof -
  have "str_lines (ag_file l') = map (event_text codec) es"
    using audit_all_ok [OF assms(1,3)] str_lines_concat [of "map (event_text codec) es"] assms(2,4)
    by (simp add: list_all_iff comp_def serde_reads_def)
  moreover have "read_events_from parse tid p 1 (map Inr (map (event_text codec) es)) = Inr vs \<longleftrightarrow>
      list_all2 (\<lambda>e. read_as from_value tid (sanitised_value codec e)) es vs"
    using assms(4) by (intro read_events_lines) (simp add: serde_reads_def)
  ultimately show ?thesis by (simp add: event_lines_def read_events_file_def)
qed


text \<open>
  The id of a task is a string value like any other. A task whose file names no id gets
  \<open>task-<uuid>\<close> (\<open>Config.task_id_new\<close>), in which the redactor sees the token prefix \<open>sk-\<close>: when serde takes the task of an
  event from that string, no log of such a task that has an event is ever read back.
\<close>

lemma default_id_redacted: "sanitize_text (''task-'' @ uuid) n \<noteq> ''task-'' @ uuid"
proof -
  have "\<not> str_contains ''sk-'' (sanitize_text (''task-'' @ uuid) n)"
    using text_safe_sanitize [of n "''task-'' @ uuid"] unfolding text_safe_def token_prefixes_def
    by (simp only: list_all_iff) (blast intro: list.set_intros)
  moreover have "str_contains ''sk-'' (''task-'' @ uuid)"
    by (simp only: str_contains_sublist) (auto simp: sublist_def intro: exI [of _ "''ta''"])
  ultimately show ?thesis by metis
qed

lemma default_id_unreadable:
  assumes "audit_all codec disk (e # es) l = (Inr (), l')" and "ag_file l = []" and "ag_pending l = []"
    and "serde_reads codec parse from_value (e # es)"
    and "\<And>v. from_value (sanitised_value codec e) = Inr v \<Longrightarrow>
      audit_event_task_id v = sanitize_text (''task-'' @ uuid) default_max_string_bytes"
  shows "read_events_file parse (''task-'' @ uuid) p (event_lines (ag_file l')) \<noteq> Inr vs"
proof
  assume "read_events_file parse (''task-'' @ uuid) p (event_lines (ag_file l')) = Inr vs"
  with logged_lines [OF assms(1-4)]
  have "list_all2 (\<lambda>e. read_as from_value (''task-'' @ uuid) (sanitised_value codec e)) (e # es) vs"
    by blast
  then obtain v where "read_as from_value (''task-'' @ uuid) (sanitised_value codec e) v"
    by (auto simp: list_all2_Cons1)
  with assms(5) [of v] default_id_redacted [of uuid default_max_string_bytes] show False
    by (auto simp: read_as_def)
qed

section \<open>A sample log\<close>

text \<open>Serde for the event \<open>TaskCreated\<close> at the time 0: its id and goal, separated by a space.\<close>

definition sample_codec :: audit_codec where
  "sample_codec = \<lparr>al_value = (\<lambda>e. case e of
       TaskCreated tid _ goal \<Rightarrow>
         Inr (JObject [(''TaskCreated'', JObject [(''task_id'', JString tid), (''goal'', JString goal)])])
     | _ \<Rightarrow> Inl ''not supported''),
     al_text = (\<lambda>v. case v of
       JObject [(k, JObject [(k1, JString tid), (k2, JString goal)])] \<Rightarrow> tid @ '' '' @ goal
     | _ \<Rightarrow> ''null'')\<rparr>"

definition sample_from_value :: "json \<Rightarrow> string + audit_event" where
  "sample_from_value v = (case v of
       JObject [(k, JObject [(k1, JString tid), (k2, JString goal)])] \<Rightarrow> Inr (TaskCreated tid 0 goal)
     | _ \<Rightarrow> Inl ''bad'')"

definition sample_parse :: "string \<Rightarrow> string + audit_event" where
  "sample_parse s = (case split_once CHR '' '' s of
       Some (tid, goal) \<Rightarrow> Inr (TaskCreated tid 0 goal) | None \<Rightarrow> Inl ''bad'')"

definition sample_disk :: audit_disk where
  "sample_disk = \<lparr>ad_create_dir_all = (\<lambda>_. Inr ()), ad_open = (\<lambda>_. Inr []), ad_flush = (\<lambda>_. Flushed)\<rparr>"

lemma sanitize_short:
  "redact_secret_like_text (strip_terminal_controls s) = t \<Longrightarrow> length t \<le> n \<Longrightarrow> sanitize_text s n = t"
  by (simp add: sanitize_text_def truncate_utf8_def Let_def)

lemma sample_texts:
  "sanitize_text ''t1'' default_max_string_bytes = ''t1''"
  "sanitize_text ''push with token=abc'' default_max_string_bytes = ''push with token=[redacted]''"
  "sanitize_text ''fix it'' default_max_string_bytes = ''fix it''"
  "sanitize_text ''task-0190c0de'' default_max_string_bytes = ''ta[redacted]''"
  "sanitize_text ''g'' default_max_string_bytes = ''g''"
  by (rule sanitize_short, code_simp, simp add: default_max_string_bytes_def)+

lemma sample_keys:
  "\<not> is_secret_key ''TaskCreated''" "\<not> is_secret_key ''task_id''" "\<not> is_secret_key ''goal''"
  by code_simp+

lemma sample_sanitised:
  "sanitised_value sample_codec (TaskCreated tid 0 goal) =
     JObject [(''TaskCreated'', JObject [(''task_id'', JString (sanitize_text tid default_max_string_bytes)),
       (''goal'', JString (sanitize_text goal default_max_string_bytes))])]"
  by (simp add: sanitised_value_def sample_codec_def sample_keys)

lemma sample_text:
  "event_text sample_codec (TaskCreated tid 0 goal) =
     sanitize_text tid default_max_string_bytes @ '' '' @ sanitize_text goal default_max_string_bytes"
  by (simp add: event_text_def sample_sanitised) (simp add: sample_codec_def)

text \<open>Two events, the first with a token in its goal.\<close>

definition sample_events :: "audit_event list" where
  "sample_events = [TaskCreated ''t1'' 0 ''push with token=abc'', TaskCreated ''t1'' 0 ''fix it'']"

definition sample_read :: "audit_event list" where
  "sample_read = [TaskCreated ''t1'' 0 ''push with token=[redacted]'', TaskCreated ''t1'' 0 ''fix it'']"

lemma sample_lines:
  "line_text ''t1 push with token=[redacted]''" "line_text ''t1 fix it''"
  "trim ''t1 push with token=[redacted]'' \<noteq> []" "trim ''t1 fix it'' \<noteq> []"
  "sample_parse ''t1 push with token=[redacted]'' = Inr (TaskCreated ''t1'' 0 ''push with token=[redacted]'')"
  "sample_parse ''t1 fix it'' = Inr (TaskCreated ''t1'' 0 ''fix it'')"
  by code_simp+


text \<open>The same codec and a default id: the log of one event is rejected.\<close>

lemma default_id_log_rejected:
  assumes "audit_all sample_codec sample_disk [TaskCreated ''task-0190c0de'' 0 ''g'']
      \<lparr>ag_file = [], ag_pending = [], ag_poisoned = False, ag_calls = 0\<rparr> = (r, l)"
  shows "r = Inr () \<and> ag_file l = ''ta[redacted] g'' @ nl
    \<and> read_events_file sample_parse ''task-0190c0de'' ''p'' (event_lines (ag_file l)) =
        Inl (StateErr ''p line 1 belongs to task ta[redacted] instead of task-0190c0de'')"
proof -
  have line: "audit_line sample_codec (TaskCreated ''task-0190c0de'' 0 ''g'') = Inr ''ta[redacted] g''"
    using sample_text [of "''task-0190c0de''" "''g''"]
    by (simp add: audit_line_def event_text_def sanitised_value_def sample_texts split: sum.splits)
      (simp add: sample_codec_def)
  with assms have "r = Inr ()" "ag_file l = ''ta[redacted] g'' @ nl"
    by (auto simp: audit_record_def flush_log_def Let_def sample_disk_def)
  moreover have "read_events_file sample_parse ''task-0190c0de'' ''p'' (event_lines (''ta[redacted] g'' @ nl)) =
        Inl (StateErr ''p line 1 belongs to task ta[redacted] instead of task-0190c0de'')"
    by code_simp
  ultimately show ?thesis by simp
qed

end
