(* ===== verification/Cli_Run.thy ===== *)
theory Cli_Run
  imports Config Report_Render Evidence_Store Agent_Profiles Runner_Exec
    Approval_Safety Artifact_Safety Audit_Log
begin

text \<open>
  The commands of \<open>crates/taskfence-cli/src/main.rs\<close> that work on a task: \<open>init\<close>, \<open>validate\<close>, \<open>run\<close> and
  \<open>replay run\<close>. \<open>cli_orchestrator\<close> is the wiring of the orchestrator: the built-in policy, the
  artifact store in the workspace, the JSONL audit logger, the Markdown report, the in-memory
  state store, the agent adapter of the task, and the runner and the approval engine that the
  command chose. A stateful part behind a trait answers a call from its state after the calls
  logged so far; the world (files, git, clock) answers as it likes at every call.
\<close>

section \<open>Starting a task file\<close>

definition quoted :: "string \<Rightarrow> string" where
  "quoted s = [CHR 0x22] @ s @ [CHR 0x22]"

definition starter_task_file :: string where
  "starter_task_file = concat (map (\<lambda>l. l @ nl)
     [''id: '' @ quoted ''local-demo'',
      ''goal: '' @ quoted ''Describe the task goal here'',
      ''workspace: '' @ quoted ''.'',
      [],
      ''agent:'',
      ''  type: '' @ quoted ''generic'',
      ''  command: '' @ quoted ''echo'',
      ''  args:'',
      ''    - '' @ quoted ''hello from TaskFence'',
      [],
      ''sandbox:'',
      ''  type: '' @ quoted ''docker'',
      ''  image: '' @ quoted ''debian:bookworm-slim'',
      ''  limits:'',
      ''    timeout_minutes: 5'',
      [],
      ''permissions:'',
      ''  paths:'',
      ''    read:'',
      ''      - '' @ quoted ''.'',
      ''    write:'',
      ''      - '' @ quoted ''.'',
      ''  commands:'',
      ''    allow:'',
      ''      - '' @ quoted ''echo'',
      ''  network:'',
      ''    default: '' @ quoted ''disabled'',
      [],
      ''audit:'',
      ''  report:'',
      ''    format: '' @ quoted ''markdown'',
      ''  capture:'',
      ''    stdout: true'',
      ''    stderr: true'',
      ''    file_diff: true'',
      ''    network_destinations: true'',
      ''    approvals: true''])"

datatype create_answer = CreatedNew | AlreadyThere | CreateFailed string

record init_io =
  in_mkdir :: "path \<Rightarrow> string + unit"
  in_create_new :: "path \<Rightarrow> create_answer"
  in_write :: "path \<Rightarrow> (string \<times> nat) option"

definition init_parent :: "init_io \<Rightarrow> path \<Rightarrow> unit result" where
  "init_parent io p =
     (case path_parent p of
        None \<Rightarrow> Inr ()
      | Some parent \<Rightarrow>
          if parent = [] \<or> parent = ''.'' then Inr ()
          else case in_mkdir io parent of
                 Inr _ \<Rightarrow> Inr ()
               | Inl err \<Rightarrow>
                   Inl (Config (''failed to create parent directory '' @ parent @ '': '' @ err)))"

definition write_starter_task_file :: "init_io \<Rightarrow> path \<Rightarrow> unit stored" where
  "write_starter_task_file io p =
     sbind (slift (init_parent io p)) (\<lambda>_ fs.
       case in_create_new io p of
         AlreadyThere \<Rightarrow> (Inl (Config (''task file already exists: '' @ p)), fs)
       | CreateFailed err \<Rightarrow> (Inl (Config (''failed to create task file '' @ p @ '': '' @ err)), fs)
       | CreatedNew \<Rightarrow>
           (case in_write io p of
              None \<Rightarrow> (Inr (), fs(p \<mapsto> starter_task_file))
            | Some (err, n) \<Rightarrow>
                (Inl (Config (''failed to write task file '' @ p @ '': '' @ err)),
                 fs(p \<mapsto> take n starter_task_file))))"

section \<open>Validation\<close>

definition adapter_for_task :: "resolved_task \<Rightarrow> agent_invocation result" where
  "adapter_for_task task =
     (case ag_kind (rt_agent task) of
        Generic \<Rightarrow> build_generic_invocation task
      | Specialized _ \<Rightarrow> build_specialized_invocation task)"

record validation_summary =
  vs_task_id :: string
  vs_workspace :: path
  vs_agent_command :: string
  vs_command_policy :: string
  vs_sandbox_image :: string
  vs_network_mode :: string
  vs_mount_count :: nat

definition compact_cell :: "string \<Rightarrow> string" where
  "compact_cell v = str_join '' '' (split_whitespace v)"

definition compact_rule_suffix :: "string option \<Rightarrow> string" where
  "compact_rule_suffix rule =
     (case rule of Some r \<Rightarrow> '' by rule '' @ compact_cell r | None \<Rightarrow> [])"

fun approval_policy_summary :: "action_decision \<Rightarrow> string" where
  "approval_policy_summary (Allow rule reason) =
     ''allow'' @ compact_rule_suffix rule @ '': '' @ compact_cell reason"
| "approval_policy_summary (RequireApproval kind rule reason risk) =
     ''requires '' @ compact_cell kind @ '' approval'' @ compact_rule_suffix rule @ '': '' @
     compact_cell reason @ ''; risk '' @ risk_label risk"
| "approval_policy_summary (Deny rule reason) =
     ''deny'' @ compact_rule_suffix rule @ '': '' @ compact_cell reason"

definition summary_network_mode :: "prepared_run \<Rightarrow> string" where
  "summary_network_mode p =
     (if pr_runner_kind p = RemoteSsh then ''ssh''
      else case np_default (pr_network p) of NetAllow \<Rightarrow> ''bridge'' | _ \<Rightarrow> ''none'')"

definition validation_summary_of :: "task_validation \<Rightarrow> validation_summary" where
  "validation_summary_of v =
     \<lparr>vs_task_id = tv_task_id v, vs_workspace = tv_workspace_host_path v,
      vs_agent_command = ca_raw (tv_command_action v),
      vs_command_policy = approval_policy_summary (tv_command_decision v),
      vs_sandbox_image = (case pr_image (tv_prepared v) of Some i \<Rightarrow> i | None \<Rightarrow> ''-''),
      vs_network_mode = summary_network_mode (tv_prepared v),
      vs_mount_count = length (pr_mounts (tv_prepared v))\<rparr>"

definition validate_task_file_summary ::
  "(path \<Rightarrow> resolved_task result) \<Rightarrow> glob_compiler \<Rightarrow> docker_runner \<Rightarrow> path \<Rightarrow>
   validation_summary result" where
  "validate_task_file_summary load glob dr task_file =
     rbind (load task_file) (\<lambda>task.
     rbind (validate_task_for_run adapter_for_task (evaluate glob) (expanded_prepare dr) task) (\<lambda>v.
       Inr (validation_summary_of v)))"

section \<open>The wiring of a run\<close>

record runner_ops =
  rr_prepare :: "resolved_task \<Rightarrow> prepared_run result"
  rr_start :: "call list \<Rightarrow> prepared_run \<Rightarrow> agent_invocation \<Rightarrow> running_task result"
  rr_stop :: "call list \<Rightarrow> running_task \<Rightarrow> unit result"
  rr_collect_exit :: "call list \<Rightarrow> running_task \<Rightarrow> run_output result"

record approval_ops =
  ap_request :: "call list \<Rightarrow> resolved_task \<Rightarrow> action \<Rightarrow> action_decision \<Rightarrow> approval_record result"
  ap_wait :: "call list \<Rightarrow> approval_id \<Rightarrow> approval_record result"

text \<open>The local approval engine after the calls of a run.\<close>

definition engine_step ::
  "engine_io \<Rightarrow> local_engine \<Rightarrow> resolved_task \<Rightarrow> call \<Rightarrow> engine_state \<Rightarrow> engine_state" where
  "engine_step io e task c s =
     (case c of
        CRequest a d _ \<Rightarrow> snd (local_request io e task a d s)
      | CWait aid _ \<Rightarrow> snd (local_wait io e aid s)
      | _ \<Rightarrow> s)"

definition engine_after ::
  "engine_io \<Rightarrow> local_engine \<Rightarrow> resolved_task \<Rightarrow> call list \<Rightarrow> engine_state" where
  "engine_after io e task h = fold (engine_step io e task) h empty_engine"

definition local_approval_ops :: "engine_io \<Rightarrow> local_engine \<Rightarrow> resolved_task \<Rightarrow> approval_ops" where
  "local_approval_ops io e task =
     \<lparr>ap_request = (\<lambda>h t a d. fst (local_request io e t a d (engine_after io e task h))),
      ap_wait = (\<lambda>h aid. fst (local_wait io e aid (engine_after io e task h)))\<rparr>"

record run_world =
  cw_now :: "call list \<Rightarrow> time"
  cw_files :: "call list \<Rightarrow> files"
  cw_io :: "call list \<Rightarrow> artifact_io"
  cw_git :: "call list \<Rightarrow> git"
  cw_serialize :: "resolved_task \<Rightarrow> string + string"
  cw_codec :: audit_codec
  cw_disk :: audit_disk
  cw_glob :: glob_compiler
  cw_show_time :: "time \<Rightarrow> string"

definition statuses_after :: "call list \<Rightarrow> state_store" where
  "statuses_after h =
     fold (\<lambda>c s. case c of CSetStatus tid st _ \<Rightarrow> snd (set_status tid st s) | _ \<Rightarrow> s) h
       \<lparr>ss_statuses = [], ss_poisoned = False\<rparr>"

definition audit_after :: "run_world \<Rightarrow> audit_log \<Rightarrow> call list \<Rightarrow> audit_log" where
  "audit_after w log0 h =
     fold (\<lambda>c l. case c of CAudit e _ \<Rightarrow> snd (audit_record (cw_codec w) (cw_disk w) e l) | _ \<Rightarrow> l) h log0"

definition cli_orchestrator ::
  "run_world \<Rightarrow> runner_ops \<Rightarrow> approval_ops \<Rightarrow> audit_log \<Rightarrow> orch_env" where
  "cli_orchestrator w runner approval log0 =
     \<lparr>oe_now = cw_now w,
      oe_set_status = (\<lambda>h tid st. fst (set_status tid st (statuses_after h))),
      oe_audit = (\<lambda>h e. fst (audit_record (cw_codec w) (cw_disk w) e (audit_after w log0 h))),
      oe_build_invocation = (\<lambda>_. adapter_for_task),
      oe_create_task_dir = (\<lambda>h t. fst (create_task_dir in_workspace (cw_io w h) t (cw_files w h))),
      oe_write_resolved_task =
        (\<lambda>h t. fst (write_resolved_task in_workspace (cw_io w h) (cw_serialize w) t (cw_files w h))),
      oe_write_log =
        (\<lambda>h t stream text. fst (write_log in_workspace (cw_io w h) t stream text (cw_files w h))),
      oe_capture_baseline = (\<lambda>h t. capture_baseline (cw_io w h) (cw_git w h) t),
      oe_collect_diff =
        (\<lambda>h t b. fst (collect_diff in_workspace (cw_io w h) (cw_git w h) t b (cw_files w h))),
      oe_evaluate = (\<lambda>_. evaluate (cw_glob w)),
      oe_request = ap_request approval,
      oe_wait = ap_wait approval,
      oe_prepare = (\<lambda>_. rr_prepare runner),
      oe_start = rr_start runner,
      oe_stop = rr_stop runner,
      oe_collect_exit = rr_collect_exit runner,
      oe_generate =
        (\<lambda>h t refs events. fst (generate_markdown (cw_io w h) (cw_show_time w) t refs events (cw_files w h)))\<rparr>"

text \<open>The result of a run with the calls that were made.\<close>

definition run_resolved_task_collecting_result ::
  "run_world \<Rightarrow> runner_ops \<Rightarrow> approval_ops \<Rightarrow> resolved_task \<Rightarrow> task_result result \<times> call list" where
  "run_resolved_task_collecting_result w runner approval task =
     (case artifact_task_dir in_workspace task of
        Inl err \<Rightarrow> (Inl err, [])
      | Inr dir \<Rightarrow>
          (case logger_new (cw_disk w) (path_join dir ''events.jsonl'') of
             Inl err \<Rightarrow> (Inl err, [])
           | Inr log0 \<Rightarrow>
               (let (r, s) = run (cli_orchestrator w runner approval log0) task initial_state
                in (r, os_log s))))"

definition run_resolved_task_with_runner_and_approval ::
  "run_world \<Rightarrow> runner_ops \<Rightarrow> approval_ops \<Rightarrow> resolved_task \<Rightarrow> unit result \<times> call list" where
  "run_resolved_task_with_runner_and_approval w runner approval task =
     (let (r, h) = run_resolved_task_collecting_result w runner approval task
      in (rbind r (\<lambda>result.
            if rs_status result = Succeeded then Inr ()
            else Inl (Runner (''task '' @ rs_task_id result @ '' finished with status '' @
                   format_status (rs_status result) @ '': '' @
                   (case rs_message result of
                      Some m \<Rightarrow> m | None \<Rightarrow> ''task did not finish successfully'')))), h))"

datatype run_approval_mode = RunFailClosed | RunInteractive | RunExternal

text \<open>
  The external engine with the approval records of the task's workspace. A wait that never
  returns has no answer, and the answer in its place is an arbitrary one; \<open>external_wait_ends\<close> shows
  that it returns once the clock passes the timeout, when its reads of the record do.
\<close>

definition engine_external :: external_engine where
  "engine_external = \<lparr>xe_actor = ''local'', xe_source = Some ''external'', xe_timeout_override = None,
     xe_announce = True\<rparr>"

definition external_step ::
  "'c store_env \<Rightarrow> string option \<Rightarrow> resolved_task \<Rightarrow> call \<Rightarrow> 'c store_state \<Rightarrow> 'c store_state" where
  "external_step env announce task c s =
     (case c of
        CRequest a d _ \<Rightarrow> snd (external_request env announce engine_external task a d s)
      | CWait aid _ \<Rightarrow> (case external_wait env engine_external aid s of Some (_, s') \<Rightarrow> s' | None \<Rightarrow> s)
      | _ \<Rightarrow> s)"

definition external_after ::
  "'c store_env \<Rightarrow> string option \<Rightarrow> resolved_task \<Rightarrow> 'c dir_state \<Rightarrow> call list \<Rightarrow> 'c store_state" where
  "external_after env announce task dir h =
     fold (external_step env announce task) h
       \<lparr>st_dir = dir, st_tick = 0, st_timeouts = [], st_poisoned = False\<rparr>"

definition external_approval_ops ::
  "'c store_env \<Rightarrow> string option \<Rightarrow> 'c dir_state \<Rightarrow> resolved_task \<Rightarrow> approval_ops" where
  "external_approval_ops env0 announce dir task =
     (let env = env0\<lparr>sv_workspace := rt_workspace_host_path task\<rparr>
      in \<lparr>ap_request = (\<lambda>h t a d. fst (external_request env announce engine_external t a d
                           (external_after env announce task dir h))),
          ap_wait = (\<lambda>h aid. fst (the (external_wait env engine_external aid
                       (external_after env announce task dir h))))\<rparr>)"

definition run_task_with_runner ::
  "(path \<Rightarrow> resolved_task result) \<Rightarrow> run_world \<Rightarrow> engine_io \<Rightarrow>
   (nat \<Rightarrow> approval_record \<Rightarrow> approval_decision result) \<Rightarrow>
   ('c store_env \<times> string option \<times> 'c dir_state) \<Rightarrow> runner_ops \<Rightarrow>
   path \<Rightarrow> run_approval_mode \<Rightarrow> unit result \<times> call list" where
  "run_task_with_runner load w io prompt external runner task_file mode =
     (case load task_file of
        Inl err \<Rightarrow> (Inl err, [])
      | Inr task \<Rightarrow>
          run_resolved_task_with_runner_and_approval w runner
            (case mode of
               RunFailClosed \<Rightarrow> local_approval_ops io engine_fail_closed task
             | RunInteractive \<Rightarrow> local_approval_ops io (engine_interactive_with_prompt prompt) task
             | RunExternal \<Rightarrow>
                 (case external of (env, announce, dir) \<Rightarrow> external_approval_ops env announce dir task))
            task)"

section \<open>Replay\<close>

record replay_evaluation =
  re_source_status :: "task_status option"
  re_replay_status :: "task_status option"
  re_differing_fields :: "string list"
  re_notes :: "string list"

record replay_run_record =
  rn_source_task_id :: task_id
  rn_replay_task_id :: task_id
  rn_accepted_limitations :: bool
  rn_deterministic :: bool
  rn_limitations :: "string list"
  rn_evaluation :: replay_evaluation

definition validate_replay_plan :: "replay_plan \<Rightarrow> bool \<Rightarrow> unit result" where
  "validate_replay_plan plan accept =
     (if rp_blockers plan \<noteq> []
      then Inl (StateErr (''task '' @ rp_task_id plan @ '' cannot be replayed: '' @
             str_join ''; '' (rp_blockers plan)))
      else if rp_limitations plan \<noteq> [] \<and> \<not> accept
      then Inl (StateErr (''task '' @ rp_task_id plan @
             '' replay has limitations; rerun with --accept-limitations to execute: '' @
             str_join ''; '' (rp_limitations plan)))
      else Inr ())"

definition is_local_fixture :: "gateway_connector_config \<Rightarrow> bool" where
  "is_local_fixture c = (case c of LocalFixture _ _ \<Rightarrow> True | _ \<Rightarrow> False)"

definition validate_replay_task_contract :: "resolved_task \<Rightarrow> unit result" where
  "validate_replay_task_contract task =
     (if list_ex (\<lambda>t. \<not> is_local_fixture (gt_connector t)) (gw_tools (rt_gateway task))
      then Inl (Gateway ''replay execution blocks live or contract-only gateway connector effects'')
      else if gw_mode (rt_gateway task) = LocalListener
      then Inl (Gateway ''replay execution blocks foreground local listener effects'')
      else if np_allow_domains (pm_network (rt_permissions task)) \<noteq> []
              \<or> np_default (pm_network (rt_permissions task)) = NetAllow
      then Inl (Runner ''replay execution requires network disabled in the saved task input'')
      else Inr ())"

definition default_replay_task_id :: "task_id \<Rightarrow> task_id" where
  "default_replay_task_id tid = tid @ ''-replay''"

text \<open>
  What \<open>replay run\<close> checks before it runs; \<open>ev n\<close> is the evidence as the \<open>n\<close>-th reading operation
  finds it, \<open>exists\<close> the answer of \<open>Path::exists\<close>.
\<close>

definition replay_source ::
  "(nat \<Rightarrow> evidence_files) \<Rightarrow> (path \<Rightarrow> bool) \<Rightarrow> path \<Rightarrow> task_id \<Rightarrow> task_id option \<Rightarrow> bool \<Rightarrow>
   (replay_plan \<times> resolved_task) result" where
  "replay_source ev exists workspace tid replay_id accept =
     rbind (replay_plan_of (ev 0) workspace tid) (\<lambda>plan.
     rbind (validate_replay_plan plan accept) (\<lambda>_.
     rbind (read_inputs (ev 1) workspace tid) (\<lambda>inputs.
     let rid = (case replay_id of Some r \<Rightarrow> r | None \<Rightarrow> default_replay_task_id tid)
     in rbind (store_task_dir workspace rid) (\<lambda>dir.
        if exists dir
        then Inl (StateErr (''replay task id '' @ rid @ '' already has evidence at '' @ dir))
        else let task = (ti_task inputs)\<lparr>rt_id := rid\<rparr>
             in rbind (validate_replay_task_contract task) (\<lambda>_. Inr (plan, task))))))"

definition replay_notes :: "bool \<Rightarrow> replay_plan \<Rightarrow> task_result \<Rightarrow> string list" where
  "replay_notes accept plan result =
     (if rs_status result \<noteq> Succeeded
      then [case rs_message result of
              Some m \<Rightarrow> m | None \<Rightarrow> ''replay task did not finish successfully''] else []) @
     (if \<not> accept \<and> rp_limitations plan \<noteq> []
      then [''replay limitations were not accepted''] else [])"

definition replay_record_from_result ::
  "task_id \<Rightarrow> task_id \<Rightarrow> bool \<Rightarrow> replay_plan \<Rightarrow> local_task_comparison \<Rightarrow> task_result \<Rightarrow>
   replay_run_record" where
  "replay_record_from_result source replay accept plan comparison result =
     \<lparr>rn_source_task_id = source, rn_replay_task_id = replay, rn_accepted_limitations = accept,
      rn_deterministic = (rp_deterministic plan \<and> cmp_differing_fields comparison = []),
      rn_limitations = rp_limitations plan,
      rn_evaluation = \<lparr>re_source_status = ts_status (cmp_left comparison),
        re_replay_status = ts_status (cmp_right comparison),
        re_differing_fields = cmp_differing_fields comparison,
        re_notes = replay_notes accept plan result\<rparr>\<rparr>"

record replay_io =
  ry_serialize :: "replay_run_record \<Rightarrow> string + string"
  ry_write :: "path \<Rightarrow> (string \<times> nat) option"

definition write_replay_record :: "replay_io \<Rightarrow> path \<Rightarrow> replay_run_record \<Rightarrow> path stored" where
  "write_replay_record io dir record fs =
     (let p = path_join dir ''artifacts/replay.json''
      in case ry_serialize io record of
           Inl err \<Rightarrow> (Inl (StateErr (''failed to serialize replay record: '' @ err)), fs)
         | Inr bytes \<Rightarrow>
             (case ry_write io p of
                Some (err, n) \<Rightarrow>
                  (Inl (StateErr (''failed to write replay record '' @ p @ '': '' @ err)),
                   fs(p \<mapsto> take n bytes))
              | None \<Rightarrow> (Inr p, fs(p \<mapsto> bytes))))"

definition replay_run_with_runner ::
  "(nat \<Rightarrow> evidence_files) \<Rightarrow> (path \<Rightarrow> bool) \<Rightarrow> run_world \<Rightarrow> engine_io \<Rightarrow> replay_io \<Rightarrow> runner_ops \<Rightarrow>
   path \<Rightarrow> task_id \<Rightarrow> task_id option \<Rightarrow> bool \<Rightarrow> files \<Rightarrow>
   replay_run_record result \<times> call list \<times> files" where
  "replay_run_with_runner ev exists w eio rio runner workspace tid replay_id accept fs =
     (case replay_source ev exists workspace tid replay_id accept of
        Inl err \<Rightarrow> (Inl err, [], fs)
      | Inr (plan, task) \<Rightarrow>
          (case run_resolved_task_collecting_result w runner
                  (local_approval_ops eio engine_fail_closed task) task of
             (Inl err, h) \<Rightarrow> (Inl err, h, fs)
           | (Inr result, h) \<Rightarrow>
               (case compare_tasks (ev 2) workspace tid (rt_id task) of
                  Inl err \<Rightarrow> (Inl err, h, fs)
                | Inr comparison \<Rightarrow>
                    (let record = replay_record_from_result tid (rt_id task) accept plan comparison result
                     in case write_replay_record rio (af_task_dir (rs_artifacts result)) record fs of
                          (Inl err, fs') \<Rightarrow> (Inl err, h, fs')
                        | (Inr _, fs') \<Rightarrow> (Inr record, h, fs')))))"

end
