(* ===== verification/Cli_Safety.thy ===== *)
theory Cli_Safety
  imports Cli_Run Runner_Orchestrator Evidence_Safety
begin

text \<open>
  What the commands of the command line guarantee end to end: a run without an approver starts only
  what the policy allows outright, and a replay is offline.
\<close>

section \<open>The engine that fails closed\<close>

definition unapproved :: "engine_state \<Rightarrow> bool" where
  "unapproved s \<longleftrightarrow> list_all (\<lambda>x. ar_decision (snd x) \<noteq> Some Approved) (es_records s)"

lemma unapproved_get:
  assumes "unapproved s" and "bt_get (es_records s) aid = Some r"
  shows "ar_decision r \<noteq> Some Approved"
  using assms map_of_SomeD [of "es_records s" aid r]
  by (auto simp: unapproved_def list_all_iff bt_get_def)

lemma unapproved_request: "unapproved s \<Longrightarrow> unapproved (snd (local_request io e task a d s))"
  by (simp add: local_request_def Let_def unapproved_def bt_insert_all)

lemma fail_closed_wait:
  assumes "unapproved s" and "local_wait io engine_fail_closed aid s = (r, s')"
  shows "unapproved s' \<and> (case r of Inr rec \<Rightarrow> ar_decision rec \<noteq> Some Approved | Inl _ \<Rightarrow> True)"
  using assms(2) assms(1) unapproved_get [OF assms(1)]
  by (auto simp: local_wait_def local_pending_def local_commit_def sbind_def stry_def sfail_def
      sreturn_def resolve_decision_def engine_fail_closed_def Let_def unapproved_def bt_insert_all
      split: option.splits if_splits prod.splits sum.splits)

lemma fold_inv: "P s \<Longrightarrow> (\<And>c s. P s \<Longrightarrow> P (f c s)) \<Longrightarrow> P (fold f h s)"
  by (induction h arbitrary: s) auto

lemma unapproved_after: "unapproved (engine_after io engine_fail_closed task h)"
  unfolding engine_after_def
proof (rule fold_inv)
  show "unapproved empty_engine" by (simp add: unapproved_def empty_engine_def)
next
  fix c s
  assume s: "unapproved s"
  show "unapproved (engine_step io engine_fail_closed task c s)"
  proof (cases c)
    case (CRequest a d r)
    with s show ?thesis by (simp add: engine_step_def unapproved_request)
  next
    case (CWait aid r)
    with fail_closed_wait [OF s prod.collapse [symmetric], of io aid] show ?thesis
      by (simp add: engine_step_def)
  qed (simp_all add: engine_step_def s)
qed

lemma fail_closed_never_approves:
  assumes "ap_wait (local_approval_ops io engine_fail_closed task) h aid = Inr r"
  shows "ar_decision r \<noteq> Some Approved"
  using fail_closed_wait [OF unapproved_after, of io aid io task h] assms
  by (cases "local_wait io engine_fail_closed aid (engine_after io engine_fail_closed task h)")
    (auto simp: local_approval_ops_def)

section \<open>A run that fails closed\<close>

definition allowed_outright :: "agent_invocation \<Rightarrow> call list \<Rightarrow> bool" where
  "allowed_outright invocation log \<longleftrightarrow>
     (\<exists>d. CEvaluate (Command (command_action_from_invocation invocation)) (Inr d) \<in> set log \<and> is_allow d)"

fun start_allowed :: "call list \<Rightarrow> call \<Rightarrow> bool" where
  "start_allowed pre (CStart prepared invocation r) = allowed_outright invocation pre"
| "start_allowed pre c = True"

lemma fail_closed_run:
  "each_call start_allowed
     (os_log (snd (run (cli_orchestrator w runner (local_approval_ops io engine_fail_closed task0) log0)
        task initial_state)))"
proof (rule each_call_mono [OF starts_authorised_by])
  let ?env = "cli_orchestrator w runner (local_approval_ops io engine_fail_closed task0) log0"
  fix pre c
  assume a: "start_authorised_by ?env pre c"
  show "start_allowed pre c"
  proof (cases c)
    case (CStart prepared invocation r)
    with a show ?thesis
      using fail_closed_never_approves [of io task0]
      by (auto simp: authorised_by_def allowed_outright_def cli_orchestrator_def)
  qed simp_all
qed

section \<open>Replay\<close>

definition replayable :: "(path \<Rightarrow> bool) \<Rightarrow> path \<Rightarrow> bool \<Rightarrow> resolved_task \<Rightarrow> bool" where
  "replayable exists workspace accept task \<longleftrightarrow>
     accept
     \<and> (\<exists>dir. store_task_dir workspace (rt_id task) = Inr dir \<and> \<not> exists dir)
     \<and> list_all (\<lambda>t. is_local_fixture (gt_connector t)) (gw_tools (rt_gateway task))
     \<and> gw_mode (rt_gateway task) \<noteq> LocalListener
     \<and> np_default (pm_network (rt_permissions task)) \<noteq> NetAllow
     \<and> np_allow_domains (pm_network (rt_permissions task)) = []"

lemma validate_replay_planD: "validate_replay_plan plan accept = Inr () \<Longrightarrow> accept \<or> rp_limitations plan = []"
  by (auto simp: validate_replay_plan_def split: if_splits)

lemma replay_plan_limited: "replay_plan_of ev workspace tid = Inr plan \<Longrightarrow> rp_limitations plan \<noteq> []"
  by (auto simp: replay_plan_of_def rbind_Inr_iff Let_def split: if_splits)

lemma validate_replay_task_contractD:
  assumes "validate_replay_task_contract task = Inr ()"
  shows "list_all (\<lambda>t. is_local_fixture (gt_connector t)) (gw_tools (rt_gateway task))
    \<and> gw_mode (rt_gateway task) \<noteq> LocalListener
    \<and> np_default (pm_network (rt_permissions task)) \<noteq> NetAllow
    \<and> np_allow_domains (pm_network (rt_permissions task)) = []"
  using assms by (auto simp: validate_replay_task_contract_def list_ex_iff list_all_iff split: if_splits)

lemma replay_sourceD:
  assumes "replay_source ev exists workspace tid rid accept = Inr (plan, task)"
  shows "replayable exists workspace accept task"
  using assms validate_replay_planD replay_plan_limited validate_replay_task_contractD
  by (fastforce simp: replay_source_def replayable_def rbind_Inr_iff Let_def split: if_splits)

definition offline_process ::
  "docker_runner \<Rightarrow> resolved_task \<Rightarrow> agent_invocation \<Rightarrow> process \<Rightarrow> bool" where
  "offline_process dr task invocation proc \<longleftrightarrow>
     process_executable proc = dr_docker_command dr
     \<and> (process_args proc = [''rm'', ''-f'', docker_container_name (rt_id task)]
        \<or> confined_docker_run dr task invocation (process_args proc)
          \<and> take 2 (drop 7 (process_args proc)) = [''--network'', ''none''])"

lemma sanctioned_offline:
  assumes "sanctioned dr ssh_command task invocation proc"
    and "np_default (pm_network (rt_permissions task)) \<noteq> NetAllow"
  shows "offline_process dr task invocation proc"
  using assms by (auto simp: sanctioned_def offline_process_def confined_docker_run_def confined_ssh_run_def)

definition offline_start :: "docker_runner \<Rightarrow> resolved_task \<Rightarrow> call list \<Rightarrow> call \<Rightarrow> bool" where
  "offline_start dr task pre c \<longleftrightarrow>
     (case c of
        CStart prepared invocation r \<Rightarrow>
          allowed_outright invocation pre
          \<and> (\<forall>w ssh_command s. \<exists>new.
               rst_started (snd (expanded_start w dr ssh_command prepared invocation s)) = rst_started s @ new
               \<and> list_all (offline_process dr task invocation) new)
      | _ \<Rightarrow> True)"

lemma fail_closed_run_offline:
  assumes "rr_prepare runner = expanded_prepare dr"
    and "np_default (pm_network (rt_permissions task)) \<noteq> NetAllow"
  shows "each_call (offline_start dr task)
    (snd (run_resolved_task_collecting_result w runner (local_approval_ops io engine_fail_closed task) task))"
proof -
  have run: "each_call (offline_start dr task)
     (os_log (snd (run (cli_orchestrator w runner (local_approval_ops io engine_fail_closed task) log0)
        task initial_state)))" (is "each_call _ (os_log (snd (run ?env _ _)))") for log0
  proof -
    have both: "each_call (\<lambda>pre c. start_allowed pre c \<and> start_of_task ?env task pre c)
        (os_log (snd (run ?env task initial_state)))"
      using fail_closed_run [of w runner io task log0 task] starts_of_task [of ?env task]
      unfolding each_call_def by blast
    show ?thesis
    proof (rule each_call_mono [OF both])
      fix pre c
      assume c: "start_allowed pre c \<and> start_of_task ?env task pre c"
      show "offline_start dr task pre c"
      proof (cases c)
        case (CStart prepared invocation r)
        with c assms(1) have p: "expanded_prepare dr task = Inr prepared"
          by (auto simp: cli_orchestrator_def)
        have "list_all (offline_process dr task invocation) new"
          if "list_all (sanctioned dr ssh_command task invocation) new" for new ssh_command
          using that sanctioned_offline [OF _ assms(2)] by (auto simp: list_all_iff)
        with c CStart starts_confined [OF p] show ?thesis
          unfolding offline_start_def by (simp, meson)
      qed (simp_all add: offline_start_def)
    qed
  qed
  then show ?thesis
    by (auto simp: run_resolved_task_collecting_result_def case_prod_beta each_call_def split: sum.split)
qed

text \<open>
  C5: Replay is offline. Whatever the evidence, the world and the runner answer, \<open>replay run\<close> calls
  nothing unless the limitations were accepted, the replay id has no evidence yet, every tool of the
  saved task is a local fixture, its gateway no listener and its network closed; and then every
  start follows an evaluation that allowed exactly that command without an approval, and with the
  expanded runner it creates only \<open>docker run\<close> processes with \<open>--network none\<close>, confined as for a
  first run, and the removal of that container.
\<close>

theorem replay_is_offline:
  assumes "replay_run_with_runner ev exists w eio rio runner workspace tid rid accept fs = (r, h, fs')"
    and "rr_prepare runner = expanded_prepare dr"
  shows "h = [] \<or> (\<exists>task. replayable exists workspace accept task \<and> each_call (offline_start dr task) h)"
proof (cases "replay_source ev exists workspace tid rid accept")
  case (Inl err)
  with assms show ?thesis by (simp add: replay_run_with_runner_def)
next
  case (Inr pt)
  obtain plan task where pt: "pt = (plan, task)" by (cases pt)
  let ?run = "run_resolved_task_collecting_result w runner (local_approval_ops eio engine_fail_closed task) task"
  have h: "h = snd ?run"
    using assms(1) Inr pt
    by (cases ?run) (auto simp: replay_run_with_runner_def Let_def split: sum.splits prod.splits)
  have ok: "replayable exists workspace accept task" using Inr pt by (simp add: replay_sourceD)
  then have "each_call (offline_start dr task) h"
    unfolding h by (intro fail_closed_run_offline [OF assms(2)]) (simp add: replayable_def)
  with ok show ?thesis by blast
qed

section \<open>A sample replay\<close>

definition replay_sample_task :: resolved_task where
  "replay_sample_task = open_workspace_task\<lparr>rt_id := ''task-1'', rt_workspace_host_path := ''/w'',
     rt_audit := (rt_audit sample_task)\<lparr>au_report_format := Html\<rparr>,
     rt_permissions := (rt_permissions open_workspace_task)
       \<lparr>pm_paths := \<lparr>pp_read = [], pp_write = [''/w'']\<rparr>,
        pm_commands := \<lparr>cp_allow = [''codex''], cp_approval_required = [], cp_deny = []\<rparr>\<rparr>\<rparr>"

definition replay_world :: run_world where
  "replay_world = \<lparr>cw_now = int \<circ> length, cw_files = (\<lambda>_. Artifact_Safety.sample_files),
     cw_io = (\<lambda>_. Artifact_Safety.sample_io), cw_git = (\<lambda>_. sample_git),
     cw_serialize = (\<lambda>_. Inr ''T''),
     cw_codec = \<lparr>al_value = (\<lambda>_. Inr JNull), al_text = (\<lambda>_. ''n'')\<rparr>,
     cw_disk = Audit_Log.sample_disk, cw_glob = exact_glob,
     cw_show_time = (\<lambda>_. ''now'')\<rparr>"

definition replay_runner :: runner_ops where
  "replay_runner = \<lparr>rr_prepare = expanded_prepare plain_docker,
     rr_start = (\<lambda>_ p _. Inl (Runner ''no daemon'')),
     rr_stop = (\<lambda>_ _. Inr ()), rr_collect_exit = (\<lambda>_ _. Inl (Runner ''none''))\<rparr>"

definition sample_replay_io :: replay_io where
  "sample_replay_io = \<lparr>ry_serialize = (\<lambda>_. Inr ''R''), ry_write = (\<lambda>_. None)\<rparr>"

abbreviation sample_replay :: "replay_run_record result \<times> call list \<times> files" where
  "sample_replay \<equiv> replay_run_with_runner
     (\<lambda>_. sample_evidence\<lparr>ev_parse_task := \<lambda>_. Inr replay_sample_task\<rparr>) (\<lambda>_. False) replay_world
     Approval_Safety.sample_io sample_replay_io replay_runner ''/w'' ''task-1'' (Some ''r'') True Artifact_Safety.sample_files"

fun is_start :: "call \<Rightarrow> bool" where
  "is_start (CStart p i r) = True"
| "is_start c = False"

text \<open>The two byte limits stay symbols in the evaluation.\<close>

declare default_max_string_bytes_def [code del]
declare max_text_bytes_def [code del]

theorem replay_is_offline_witness:
  "list_ex is_start (fst (snd sample_replay))
   \<and> (\<exists>task. replayable (\<lambda>_. False) ''/w'' True task
        \<and> each_call (offline_start plain_docker task) (fst (snd sample_replay)))"
proof -
  obtain r h fs' where x: "sample_replay = (r, h, fs')" by (metis prod.exhaust)
  let ?ev = "sample_evidence\<lparr>ev_parse_task := \<lambda>_. Inr replay_sample_task\<rparr>"
  let ?task = "replay_sample_task\<lparr>rt_id := ''r''\<rparr>"
  have "map_sum id snd (replay_source (\<lambda>_. ?ev) (\<lambda>_. False) ''/w'' ''task-1'' (Some ''r'') True) = Inr ?task"
    by code_simp
  then obtain plan where "replay_source (\<lambda>_. ?ev) (\<lambda>_. False) ''/w'' ''task-1'' (Some ''r'') True = Inr (plan, ?task)"
    by (cases "replay_source (\<lambda>_. ?ev) (\<lambda>_. False) ''/w'' ''task-1'' (Some ''r'') True") auto
  with x have "h = snd (run_resolved_task_collecting_result replay_world replay_runner
      (local_approval_ops Approval_Safety.sample_io engine_fail_closed ?task) ?task)"
    by (auto simp: replay_run_with_runner_def Let_def split: sum.splits prod.splits)
  moreover have "list_ex is_start (snd (run_resolved_task_collecting_result replay_world replay_runner
      (local_approval_ops Approval_Safety.sample_io engine_fail_closed ?task) ?task))"
    by code_simp
  ultimately have s: "list_ex is_start h" by simp
  then have "h \<noteq> []" by auto
  with replay_is_offline [OF x, of plain_docker] s x show ?thesis
    by (simp add: replay_runner_def)
qed

end
