(* ===== verification/Cli_Text.thy ===== *)
theory Cli_Text
  imports Cli_Run
begin

text \<open>
  The texts that the command line prints about evidence and approvals
  (\<open>crates/taskfence-cli/src/main.rs\<close>, the \<open>*_text\<close> and \<open>render_*\<close> functions), and the property of its
  tables: a reader that splits at line feeds and tabs gets the recorded values back.
  The rendering of times is the parameter \<open>clock\<close>.
\<close>

section \<open>Rows\<close>

definition tab :: string where
  "tab = [CHR 0x09]"

definition tsv_line :: "string list \<Rightarrow> string" where
  "tsv_line cells = str_join tab cells @ nl"

section \<open>Actions, approvals and events\<close>

fun approval_action_summary :: "action \<Rightarrow> string" where
  "approval_action_summary (FileRead p) = ''file read '' @ p"
| "approval_action_summary (FileWrite p) = ''file write '' @ p"
| "approval_action_summary (Command c) =
     ''command `'' @ ca_raw c @ ''`'' @ (if ca_shell_wrapped c then '' (shell wrapped)'' else [])"
| "approval_action_summary (Network host port) =
     (case port of
        Some p \<Rightarrow> ''network '' @ host @ '':'' @ dec_digits (unat p)
      | None \<Rightarrow> ''network '' @ host)"
| "approval_action_summary (EnvExpose name) = ''environment variable '' @ name"
| "approval_action_summary (SecretAccess name scope) =
     ''secret access '' @ name @ '' for scope '' @ scope"
| "approval_action_summary (ToolCall t) =
     ''tool call '' @ tool_action_summary t @ '' with '' @ dec_digits (length (ta_parameters t)) @
     '' parameter(s)''"
| "approval_action_summary (Budget kind amount) =
     ''budget '' @ kind @ '' amount '' @ dec_digits (unat amount)"

definition approval_status :: "approval_record \<Rightarrow> string" where
  "approval_status r =
     (case ar_decision r of
        None \<Rightarrow> ''pending''
      | Some Approved \<Rightarrow> ''approved''
      | Some ADenied \<Rightarrow> ''denied''
      | Some ATimedOut \<Rightarrow> ''timed-out'')"

fun event_kind :: "audit_event \<Rightarrow> string" where
  "event_kind (TaskCreated _ _ _) = ''task-created''"
| "event_kind (TaskStatusChanged _ _ _) = ''status''"
| "event_kind (PolicyDecision _ _ _ _) = ''policy''"
| "event_kind (ToolExecutionStarted _ _ _) = ''tool-started''"
| "event_kind (ToolExecutionFinished _ _ _) = ''tool-finished''"
| "event_kind (BudgetUsageRecorded _ _ _) = ''budget-usage''"
| "event_kind (ApprovalRequested _) = ''approval-requested''"
| "event_kind (ApprovalResolved _) = ''approval-resolved''"
| "event_kind (Log _ _) = ''log''"
| "event_kind (RunnerExit _ _ _) = ''runner-exit''"
| "event_kind (Artifact _ _ _ _) = ''artifact''"
| "event_kind (Error _ _ _) = ''error''"

fun event_time :: "(time \<Rightarrow> string) \<Rightarrow> audit_event \<Rightarrow> string" where
  "event_time clock (TaskCreated _ at _) = clock at"
| "event_time clock (TaskStatusChanged _ at _) = clock at"
| "event_time clock (PolicyDecision _ at _ _) = clock at"
| "event_time clock (ToolExecutionStarted _ at _) = clock at"
| "event_time clock (ToolExecutionFinished _ at _) = clock at"
| "event_time clock (BudgetUsageRecorded _ at _) = clock at"
| "event_time clock (RunnerExit _ at _) = clock at"
| "event_time clock (Artifact _ at _ _) = clock at"
| "event_time clock (Error _ at _) = clock at"
| "event_time clock (Log _ chunk) = clock (lc_timestamp chunk)"
| "event_time clock (ApprovalRequested r) = clock (ar_requested_at r)"
| "event_time clock (ApprovalResolved r) =
     clock (case ar_resolved_at r of Some at \<Rightarrow> at | None \<Rightarrow> ar_requested_at r)"

definition exit_status_summary :: "exit_status \<Rightarrow> string" where
  "exit_status_summary x =
     ''exit code '' @ (case ex_code x of Some c \<Rightarrow> code_text c | None \<Rightarrow> ''-'') @ ''; timed_out '' @
     show_bool (ex_timed_out x) @ ''; signal '' @ (case ex_signal x of Some s \<Rightarrow> s | None \<Rightarrow> ''-'')"

definition execution_summary :: "tool_execution \<Rightarrow> string" where
  "execution_summary x =
     (let a = tool_action_summary (tr_action (tx_request x))
      in case (tx_result x, tx_error x) of
           (Some r, None) \<Rightarrow>
             ''tool execution succeeded for '' @ a @ ''; '' @ compact_cell (tres_summary r)
         | (_, Some e) \<Rightarrow>
             ''tool execution failed for '' @ a @ ''; '' @ error_kind_debug (te_kind e) @ '': '' @
             compact_cell (te_message e)
         | (None, None) \<Rightarrow>
             ''tool execution finished for '' @ a @ ''; no result or error recorded'')"

fun event_summary :: "audit_event \<Rightarrow> string" where
  "event_summary (TaskCreated _ _ goal) = ''goal: '' @ compact_cell goal"
| "event_summary (TaskStatusChanged _ _ status) = ''status '' @ format_status status"
| "event_summary (PolicyDecision _ _ a d) =
     approval_action_summary a @ '' => '' @ approval_policy_summary d"
| "event_summary (ToolExecutionStarted _ _ req) =
     ''tool execution started for '' @ tool_action_summary (tr_action req)"
| "event_summary (ToolExecutionFinished _ _ x) = execution_summary x"
| "event_summary (BudgetUsageRecorded _ _ r) =
     ''budget usage '' @ bu_kind (br_usage r) @ '' amount '' @ dec_digits (unat (bu_amount (br_usage r))) @
     '' limit '' @ (case br_limit r of Some l \<Rightarrow> dec_digits (unat (bl_max_amount l)) | None \<Rightarrow> ''-'') @
     '' => '' @ approval_policy_summary (br_decision r)"
| "event_summary (ApprovalRequested r) =
     ''approval '' @ ar_id r @ '' requested for '' @ approval_action_summary (ar_action r) @ ''; '' @
     approval_policy_summary (ar_policy_decision r)"
| "event_summary (ApprovalResolved r) =
     ''approval '' @ ar_id r @ '' '' @ approval_status r @ ''; '' @ approval_action_summary (ar_action r)"
| "event_summary (Log _ chunk) =
     stream_label (lc_stream chunk) @ '' log '' @ dec_digits (length (lc_text chunk)) @ '' byte(s)''"
| "event_summary (RunnerExit _ _ x) = exit_status_summary x"
| "event_summary (Artifact _ _ kind p) = compact_cell kind @ '' artifact '' @ compact_cell p"
| "event_summary (Error _ _ message) = ''error: '' @ compact_cell message"

definition event_row :: "(time \<Rightarrow> string) \<Rightarrow> audit_event \<Rightarrow> string list" where
  "event_row clock e = [event_kind e, event_time clock e, compact_cell (event_summary e)]"

definition render_task_events :: "(time \<Rightarrow> string) \<Rightarrow> task_id \<Rightarrow> task_events \<Rightarrow> string" where
  "render_task_events clock tid events =
     ''Task events'' @ nl @ ''  task: '' @ tid @ nl @ ''  evidence: '' @ tev_path events @ nl @
     tsv_line [''KIND'', ''AT'', ''SUMMARY''] @
     concat (map (\<lambda>e. tsv_line (event_row clock e)) (tev_events events))"

definition render_log_entry :: "task_log_file \<Rightarrow> string" where
  "render_log_entry e =
     ''== '' @ stream_label (lf_stream e) @ '': '' @ lf_path e @ '' =='' @ nl @ lf_contents e @
     (if suffix nl (lf_contents e) then [] else nl)"

definition render_logs :: "task_logs \<Rightarrow> string" where
  "render_logs logs = concat (map render_log_entry (tl_entries logs))"

definition approval_row :: "(time \<Rightarrow> string) \<Rightarrow> approval_record \<Rightarrow> string list" where
  "approval_row clock r =
     [compact_cell (ar_id r), compact_cell (ar_task_id r), approval_status r,
      compact_cell (clock (ar_requested_at r)), compact_cell (approval_action_summary (ar_action r))]"

definition render_approval_records :: "(time \<Rightarrow> string) \<Rightarrow> approval_record list \<Rightarrow> string" where
  "render_approval_records clock records =
     tsv_line [''APPROVAL ID'', ''TASK ID'', ''STATUS'', ''REQUESTED'', ''ACTION''] @
     concat (map (\<lambda>r. tsv_line (approval_row clock r)) records)"

definition render_approval_record :: "(time \<Rightarrow> string) \<Rightarrow> approval_record \<Rightarrow> string" where
  "render_approval_record clock r =
     ''Approval record'' @ nl @ ''  id: '' @ ar_id r @ nl @ ''  task: '' @ ar_task_id r @ nl @
     ''  status: '' @ approval_status r @ nl @ ''  actor: '' @ compact_cell (ar_actor r) @ nl @
     ''  source: '' @ (case ar_source r of Some s \<Rightarrow> compact_cell s | None \<Rightarrow> ''-'') @ nl @
     ''  requested: '' @ clock (ar_requested_at r) @ nl @
     ''  resolved: '' @ (case ar_resolved_at r of Some at \<Rightarrow> clock at | None \<Rightarrow> ''-'') @ nl @
     ''  action: '' @ approval_action_summary (ar_action r) @ nl @
     ''  policy: '' @ approval_policy_summary (ar_policy_decision r) @ nl"

section \<open>Tasks\<close>

definition task_status_text :: "task_summary \<Rightarrow> string" where
  "task_status_text t = (case ts_status t of Some s \<Rightarrow> format_status s | None \<Rightarrow> ''-'')"

definition artifact_flags :: "task_summary \<Rightarrow> string" where
  "artifact_flags t =
     (let flags = (if ts_has_report t then [''report''] else []) @
                  (if ts_has_diff t then [''diff''] else []) @
                  (if ts_has_stdout t then [''stdout''] else []) @
                  (if ts_has_stderr t then [''stderr''] else [])
      in if flags = [] then ''-'' else str_join '','' flags)"

definition warning_count :: "task_summary \<Rightarrow> string" where
  "warning_count t =
     (if ts_warnings t = [] then ''-'' else ''warnings:'' @ dec_digits (length (ts_warnings t)))"

definition task_row :: "task_summary \<Rightarrow> string list" where
  "task_row t =
     [compact_cell (ts_task_id t), task_status_text t, artifact_flags t, warning_count t,
      (case ts_goal t of Some g \<Rightarrow> compact_cell g | None \<Rightarrow> ''-'')]"

definition render_task_summaries :: "task_summary list \<Rightarrow> string" where
  "render_task_summaries tasks =
     tsv_line [''TASK ID'', ''STATUS'', ''ARTIFACTS'', ''WARNINGS'', ''GOAL''] @
     concat (map (\<lambda>t. tsv_line (task_row t)) tasks)"

definition warning_lines :: "string list \<Rightarrow> string" where
  "warning_lines ws =
     (if ws = [] then ''  warnings: -'' @ nl
      else ''  warnings:'' @ nl @ concat (map (\<lambda>w. ''    - '' @ compact_cell w @ nl) ws))"

definition render_task_summary :: "task_summary \<Rightarrow> string" where
  "render_task_summary t =
     ''Task summary'' @ nl @ ''  id: '' @ ts_task_id t @ nl @ ''  status: '' @ task_status_text t @ nl @
     ''  goal: '' @ (case ts_goal t of Some g \<Rightarrow> compact_cell g | None \<Rightarrow> ''-'') @ nl @
     ''  artifacts: '' @ artifact_flags t @ nl @ ''  evidence: '' @ ts_task_dir t @ nl @
     warning_lines (ts_warnings t)"

definition render_task_status :: "task_summary \<Rightarrow> string" where
  "render_task_status t =
     ''Task status'' @ nl @ ''  id: '' @ ts_task_id t @ nl @ ''  status: '' @ task_status_text t @ nl @
     ''  evidence: '' @ ts_task_dir t @ nl @ warning_lines (ts_warnings t)"

definition render_task_inputs :: "string \<Rightarrow> string" where
  "render_task_inputs contents = (if suffix nl contents then contents else contents @ nl)"

fun artifact_kind_label :: "task_artifact_kind \<Rightarrow> string" where
  "artifact_kind_label EvidenceFile = ''evidence''"
| "artifact_kind_label ArtifactFile = ''artifact''"

definition artifact_row :: "task_artifact_file \<Rightarrow> string list" where
  "artifact_row f =
     [artifact_kind_label (taf_kind f), dec_digits (unat (taf_size_bytes f)), taf_relative_path f]"

definition render_task_artifacts :: "task_id \<Rightarrow> task_artifacts \<Rightarrow> string" where
  "render_task_artifacts tid artifacts =
     ''Task artifacts'' @ nl @ ''  task: '' @ tid @ nl @ ''  evidence: '' @ tas_task_dir artifacts @ nl @
     tsv_line [''KIND'', ''BYTES'', ''PATH''] @
     concat (map (\<lambda>f. tsv_line (artifact_row f)) (tas_files artifacts))"

definition comparison_row :: "string \<Rightarrow> string \<Rightarrow> string \<Rightarrow> string list" where
  "comparison_row field l r = [field, compact_cell l, compact_cell r]"

definition comparison_rows :: "task_summary \<Rightarrow> task_summary \<Rightarrow> string list list" where
  "comparison_rows l r =
     [comparison_row ''task'' (ts_task_id l) (ts_task_id r),
      comparison_row ''status'' (task_status_text l) (task_status_text r),
      comparison_row ''goal'' (case ts_goal l of Some g \<Rightarrow> g | None \<Rightarrow> ''-'')
        (case ts_goal r of Some g \<Rightarrow> g | None \<Rightarrow> ''-''),
      comparison_row ''artifacts'' (artifact_flags l) (artifact_flags r),
      comparison_row ''warnings'' (dec_digits (length (ts_warnings l))) (dec_digits (length (ts_warnings r))),
      comparison_row ''evidence'' (ts_task_dir l) (ts_task_dir r)]"

definition render_task_comparison :: "task_summary \<Rightarrow> task_summary \<Rightarrow> string" where
  "render_task_comparison l r =
     ''Task comparison'' @ nl @ tsv_line [''FIELD'', ''LEFT'', ''RIGHT''] @
     concat (map tsv_line (comparison_rows l r))"

definition push_text_list :: "string \<Rightarrow> string list \<Rightarrow> string" where
  "push_text_list label vs =
     ''  '' @ label @ '':'' @
     (if vs = [] then '' -'' @ nl else nl @ concat (map (\<lambda>v. ''    - '' @ compact_cell v @ nl) vs))"

definition path_or_dash :: "path option \<Rightarrow> string" where
  "path_or_dash p = (case p of Some q \<Rightarrow> compact_cell q | None \<Rightarrow> ''-'')"

definition render_replay_plan :: "replay_plan \<Rightarrow> string" where
  "render_replay_plan plan =
     ''Replay plan'' @ nl @ ''  task: '' @ rp_task_id plan @ nl @
     ''  can_replay: '' @ show_bool (rp_can_replay plan) @ nl @
     ''  deterministic: '' @ show_bool (rp_deterministic plan) @ nl @
     ''  status: '' @ (case rp_last_status plan of Some s \<Rightarrow> format_status s | None \<Rightarrow> ''-'') @ nl @
     ''  task_file: '' @ path_or_dash (rp_source_task_file plan) @ nl @
     ''  resolved_task: '' @ path_or_dash (rp_resolved_task_path plan) @ nl @
     ''  events: '' @ path_or_dash (rp_event_log_path plan) @ nl @
     ''  artifacts: '' @ rp_artifact_dir plan @ nl @
     push_text_list ''blockers'' (rp_blockers plan) @ push_text_list ''limitations'' (rp_limitations plan)"

section \<open>The commands that read evidence\<close>

definition logs_text :: "evidence_files \<Rightarrow> path \<Rightarrow> task_id \<Rightarrow> string result" where
  "logs_text ev workspace tid = rbind (read_logs ev workspace tid) (\<lambda>l. Inr (render_logs l))"

definition report_text :: "evidence_files \<Rightarrow> path \<Rightarrow> task_id \<Rightarrow> string result" where
  "report_text ev workspace tid = rbind (read_report ev workspace tid) (\<lambda>r. Inr (tre_contents r))"

definition diff_text :: "evidence_files \<Rightarrow> path \<Rightarrow> task_id \<Rightarrow> string result" where
  "diff_text ev workspace tid = rbind (read_diff ev workspace tid) (\<lambda>d. Inr (td_contents d))"

definition tasks_text :: "evidence_files \<Rightarrow> path \<Rightarrow> string result" where
  "tasks_text ev workspace = rbind (list_tasks ev workspace) (\<lambda>ts. Inr (render_task_summaries ts))"

definition task_text :: "evidence_files \<Rightarrow> path \<Rightarrow> task_id \<Rightarrow> string result" where
  "task_text ev workspace tid =
     rbind (read_task_summary ev workspace tid) (\<lambda>t. Inr (render_task_summary t))"

definition inputs_text :: "evidence_files \<Rightarrow> path \<Rightarrow> task_id \<Rightarrow> string result" where
  "inputs_text ev workspace tid =
     rbind (read_inputs ev workspace tid) (\<lambda>i. Inr (render_task_inputs (ti_contents i)))"

definition artifacts_text :: "evidence_files \<Rightarrow> path \<Rightarrow> task_id \<Rightarrow> string result" where
  "artifacts_text ev workspace tid =
     rbind (read_artifacts ev workspace tid) (\<lambda>a. Inr (render_task_artifacts tid a))"

definition compare_text :: "evidence_files \<Rightarrow> path \<Rightarrow> task_id \<Rightarrow> task_id \<Rightarrow> string result" where
  "compare_text ev workspace l r =
     rbind (read_task_summary ev workspace l) (\<lambda>left.
     rbind (read_task_summary ev workspace r) (\<lambda>right.
       Inr (render_task_comparison left right)))"

definition status_text :: "evidence_files \<Rightarrow> path \<Rightarrow> task_id \<Rightarrow> string result" where
  "status_text ev workspace tid =
     rbind (read_task_summary ev workspace tid) (\<lambda>t. Inr (render_task_status t))"

definition events_text ::
  "evidence_files \<Rightarrow> (time \<Rightarrow> string) \<Rightarrow> path \<Rightarrow> task_id \<Rightarrow> string result" where
  "events_text ev clock workspace tid =
     rbind (read_events ev workspace tid) (\<lambda>e. Inr (render_task_events clock tid e))"

definition replay_plan_text :: "evidence_files \<Rightarrow> path \<Rightarrow> task_id \<Rightarrow> string result" where
  "replay_plan_text ev workspace tid =
     rbind (replay_plan_of ev workspace tid) (\<lambda>p. Inr (render_replay_plan p))"

definition approvals_text :: "'c store_env \<Rightarrow> (time \<Rightarrow> string) \<Rightarrow> ('c, string) store_call" where
  "approvals_text env clock =
     call_bind (store_list env) (\<lambda>rs. call_returns (sreturn (render_approval_records clock rs)))"

definition approval_text :: "'c store_env \<Rightarrow> (time \<Rightarrow> string) \<Rightarrow> approval_id \<Rightarrow> ('c, string) store_call" where
  "approval_text env clock aid =
     call_bind (store_read env aid) (\<lambda>r. call_returns (sreturn (render_approval_record clock r)))"

section \<open>Cells\<close>

definition plain_cell :: "string \<Rightarrow> bool" where
  "plain_cell s \<longleftrightarrow> CHR 0x09 \<notin> set s \<and> CHR 0x0A \<notin> set s"

lemma flush_word_chars:
  "w' \<in> set (flush_word w ws) \<longleftrightarrow> w' \<in> set ws \<or> w' = w \<and> w \<noteq> []"
  by (auto simp: flush_word_def)

lemma split_whitespace_from_chars:
  "list_all (\<lambda>c. \<not> is_ws1 c) w \<Longrightarrow> v \<in> set (split_whitespace_from w s) \<Longrightarrow> list_all (\<lambda>c. \<not> is_ws1 c) v"
  by (induction w s rule: split_whitespace_from.induct)
    (auto simp: flush_word_chars split: if_splits)

lemma plain_join: "plain_cell sep \<Longrightarrow> list_all plain_cell ws \<Longrightarrow> plain_cell (str_join sep ws)"
  by (induction sep ws rule: str_join.induct) (auto simp: plain_cell_def)

lemma no_ws_plain: "list_all (\<lambda>c. \<not> is_ws1 c) w \<Longrightarrow> plain_cell w"
  by (auto simp: plain_cell_def list_all_iff is_ws1_def)

lemma plain_compact [simp]: "plain_cell (compact_cell v)"
  unfolding compact_cell_def
proof (rule plain_join)
  show "plain_cell '' ''" by (simp add: plain_cell_def)
  show "list_all plain_cell (split_whitespace v)"
    unfolding list_all_iff split_whitespace_def
    using split_whitespace_from_chars [of "[]" _ v] no_ws_plain by fastforce
qed

lemma plain_digits [simp]: "plain_cell (dec_digits n)"
  using dec_digits_char [of "CHR 0x09" n] dec_digits_char [of "CHR 0x0A" n]
  by (auto simp: plain_cell_def is_digit_def)

lemma printed_status_plain [simp]: "plain_cell (task_status_text t)"
proof (cases "ts_status t")
  case (Some s)
  then show ?thesis by (cases s) (simp_all add: task_status_text_def plain_cell_def)
qed (simp add: task_status_text_def plain_cell_def)

lemma plain_flags [simp]: "plain_cell (artifact_flags t)"
  by (simp add: artifact_flags_def Let_def plain_cell_def)

lemma plain_warnings [simp]: "plain_cell (warning_count t)"
  using plain_digits [of "length (ts_warnings t)"] by (simp add: warning_count_def plain_cell_def)

lemma plain_approval_status [simp]: "plain_cell (approval_status r)"
  by (simp add: approval_status_def plain_cell_def split: option.split approval_decision.split)

section \<open>Tables read back\<close>

text \<open>The reference reader: lines end with a line feed, cells are separated by tabs.\<close>

definition read_tsv :: "string \<Rightarrow> string list list" where
  "read_tsv s = map (split_on CHR 0x09) (butlast (split_on CHR 0x0A s))"

lemma split_tabs:
  "cells \<noteq> [] \<Longrightarrow> list_all plain_cell cells \<Longrightarrow> split_on CHR 0x09 (str_join tab cells) = cells"
  by (induction tab cells rule: str_join.induct)
    (auto simp: tab_def split_on_append_sep split_on_single plain_cell_def)

lemma row_no_newline: "list_all plain_cell cells \<Longrightarrow> CHR 0x0A \<notin> set (str_join tab cells)"
  by (induction tab cells rule: str_join.induct) (auto simp: tab_def plain_cell_def)

lemma read_tsv_line:
  assumes "cells \<noteq> []" and "list_all plain_cell cells"
  shows "read_tsv (tsv_line cells @ s) = cells # read_tsv s"
  using assms row_no_newline [OF assms(2)]
  by (simp add: read_tsv_def tsv_line_def nl_def split_on_append_sep split_on_single butlast_append split_tabs)

lemma read_tsv_Nil: "read_tsv [] = []"
  by (simp add: read_tsv_def)

lemma read_tsv_rows:
  "list_all (\<lambda>x. row x \<noteq> [] \<and> list_all plain_cell (row x)) xs \<Longrightarrow>
   read_tsv (concat (map (\<lambda>x. tsv_line (row x)) xs)) = map row xs"
  by (induction xs) (simp_all add: read_tsv_Nil read_tsv_line)

lemma read_tsv_table:
  assumes "header \<noteq> []" and "list_all plain_cell header"
    and "\<And>x. row x \<noteq> []" and "\<And>x. list_all plain_cell (row x)"
  shows "read_tsv (tsv_line header @ concat (map (\<lambda>x. tsv_line (row x)) xs)) = header # map row xs"
  using assms by (simp add: read_tsv_line read_tsv_rows list_all_iff)

lemma task_row_plain: "task_row t \<noteq> [] \<and> list_all plain_cell (task_row t)"
  by (simp add: task_row_def plain_cell_def [of "''-''"] split: option.split)

lemma approval_row_plain: "approval_row clock r \<noteq> [] \<and> list_all plain_cell (approval_row clock r)"
  by (simp add: approval_row_def)

text \<open>
  The lists of tasks and of approvals keep their shape. Whatever goals, identifiers, commands
  and tool calls the evidence holds, a reader that splits at line feeds and tabs gets the header
  and one row per task or approval, with the identifiers, states and texts in their columns.
\<close>

theorem tables_read_back:
  "read_tsv (render_task_summaries tasks) =
     [''TASK ID'', ''STATUS'', ''ARTIFACTS'', ''WARNINGS'', ''GOAL''] # map task_row tasks
   \<and> read_tsv (render_approval_records clock records) =
     [''APPROVAL ID'', ''TASK ID'', ''STATUS'', ''REQUESTED'', ''ACTION''] # map (approval_row clock) records"
  unfolding render_task_summaries_def render_approval_records_def
  using task_row_plain approval_row_plain
  by (intro conjI read_tsv_table) (simp_all add: plain_cell_def)

text \<open>
  The other texts do not compact every value: a line feed in the command forges a line of the
  record that \<open>approval\<close> shows, and one in the name of an artifact forges a row of its table.
\<close>

lemma approval_record_line_forged:
  assumes "ar_action r = Command c" and "ca_raw c = ''ls'' @ nl @ ''  policy: allow'' @ nl"
  shows "\<exists>u v. render_approval_record clock r = u @ nl @ ''  policy: allow'' @ nl @ v"
proof -
  let ?rest = "''`'' @ (if ca_shell_wrapped c then '' (shell wrapped)'' else []) @ nl @
     ''  policy: '' @ approval_policy_summary (ar_policy_decision r) @ nl"
  have "render_approval_record clock r =
     (''Approval record'' @ nl @ ''  id: '' @ ar_id r @ nl @ ''  task: '' @ ar_task_id r @ nl @
     ''  status: '' @ approval_status r @ nl @ ''  actor: '' @ compact_cell (ar_actor r) @ nl @
     ''  source: '' @ (case ar_source r of Some s \<Rightarrow> compact_cell s | None \<Rightarrow> ''-'') @ nl @
     ''  requested: '' @ clock (ar_requested_at r) @ nl @
     ''  resolved: '' @ (case ar_resolved_at r of Some at \<Rightarrow> clock at | None \<Rightarrow> ''-'') @ nl @
     ''  action: command `ls'') @ nl @ ''  policy: allow'' @ nl @ ?rest"
    using assms by (simp add: render_approval_record_def)
  then show ?thesis by blast
qed

lemma artifact_row_forged:
  "tsv_line (artifact_row \<lparr>taf_kind = ArtifactFile, taf_relative_path =
      ''a'' @ nl @ ''evidence'' @ tab @ ''7'' @ tab @ ''events.jsonl'', taf_path = p, taf_size_bytes = 3\<rparr>) =
   tsv_line [''artifact'', ''3'', ''a''] @ tsv_line [''evidence'', ''7'', ''events.jsonl'']"
proof -
  have "dec_digits (unat (3 :: u64)) = ''3''" by code_simp
  then show ?thesis by (simp add: artifact_row_def tsv_line_def)
qed

end
