(* ===== verification/Cli_Page.thy ===== *)
theory Cli_Page
  imports Cli_Text
begin

text \<open>
  The review page of \<open>crates/taskfence-cli/src/main.rs\<close> (\<open>render_review_page\<close> and the functions it
  calls), and its safety: the markup of the page is that of its template.
\<close>

section \<open>Escaping\<close>

definition html_char :: "char \<Rightarrow> string" where
  "html_char c =
     (if c = CHR ''&'' then ''&amp;''
      else if c = CHR ''<'' then ''&lt;''
      else if c = CHR ''>'' then ''&gt;''
      else if c = CHR 0x22 then ''&quot;''
      else if c = CHR 0x27 then ''&#39;''
      else [c])"

definition html_escape :: "string \<Rightarrow> string" where
  "html_escape v = concat (map html_char v)"

definition snippet_limit :: nat where
  "snippet_limit = 6000"

definition snippet :: "string \<Rightarrow> string" where
  "snippet v =
     (if length v \<le> snippet_limit then v
      else take (char_boundary_before v snippet_limit) v @ nl @ ''... truncated ...'' @ nl)"

section \<open>The page\<close>

definition page_head :: string where
  "page_head =
     ''<!doctype html><html lang=\"en\"><head><meta charset=\"utf-8\">'' @
     ''<meta name=\"viewport\" content=\"width=device-width, initial-scale=1\">'' @
     ''<title>TaskFence Review</title>'' @
     ''<link rel=\"icon\" href=\"data:,\">'' @
     ''<style>'' @
     ''body{margin:0;font-family:Arial,sans-serif;background:#f6f7f9;color:#1f2933;letter-spacing:0}'' @
     ''header{background:#17324d;color:#fff;padding:20px 24px}'' @
     ''main{max-width:1180px;margin:0 auto;padding:20px 16px 48px}'' @
     ''h1{font-size:24px;margin:0 0 6px}h2{font-size:18px;margin:28px 0 10px}h3{font-size:16px;margin:18px 0 8px}'' @
     ''p{margin:4px 0 10px}.muted{color:#607085}.status{font-weight:700}.ok{color:#176b3a}.blocked{color:#9a3412}'' @
     ''table{width:100%;border-collapse:collapse;background:#fff;border:1px solid #d9dee7}th,td{padding:9px 10px;border-bottom:1px solid #e7ebf0;text-align:left;vertical-align:top}th{background:#eef2f7;font-size:13px}td{font-size:13px}'' @
     ''section{margin-top:18px}.panel{background:#fff;border:1px solid #d9dee7;padding:14px;border-radius:6px}.toolbar{display:flex;gap:8px;flex-wrap:wrap}.button{display:inline-block;border:1px solid #b9c3d0;border-radius:4px;padding:5px 8px;background:#fff;color:#17324d;text-decoration:none;font-size:12px}'' @
     ''pre{background:#101923;color:#f5f7fa;padding:12px;overflow:auto;border-radius:4px;max-height:280px;font-size:12px;line-height:1.45}'' @
     ''@media(max-width:760px){main{padding:14px 8px}table{display:block;overflow-x:auto}header{padding:16px}th,td{white-space:nowrap}.panel{padding:10px}}'' @
     ''</style></head><body>'' @
     ''<header><h1>TaskFence Review</h1><p>Workspace: ''"

definition or_dash_cell :: "string option \<Rightarrow> string" where
  "or_dash_cell v = html_escape (case v of Some s \<Rightarrow> s | None \<Rightarrow> ''-'')"

definition task_row_html :: "task_summary \<Rightarrow> string" where
  "task_row_html t =
     ''<tr><td><a href=\"#task-'' @ html_escape (ts_task_id t) @ ''\">'' @ html_escape (ts_task_id t) @
     ''</a></td><td>'' @ html_escape (task_status_text t) @ ''</td><td>'' @
     html_escape (artifact_flags t) @ ''</td><td>'' @ dec_digits (length (ts_warnings t)) @
     ''</td><td>'' @ or_dash_cell (ts_goal t) @ ''</td></tr>''"

definition tasks_section :: "task_summary list \<Rightarrow> string" where
  "tasks_section tasks =
     ''<section><h2>Tasks</h2>'' @
     (if tasks = [] then ''<p class=\"muted\">No local task evidence was found.</p>''
      else ''<table><thead><tr><th>Task</th><th>Status</th><th>Artifacts</th><th>Warnings</th><th>Goal</th></tr></thead><tbody>'' @
           concat (map task_row_html tasks) @ ''</tbody></table>'') @
     ''</section>''"

definition comparison_row_html :: "task_summary \<Rightarrow> string" where
  "comparison_row_html t =
     ''<tr><td>'' @ html_escape (ts_task_id t) @ ''</td><td>'' @ html_escape (task_status_text t) @
     ''</td><td>'' @ or_dash_cell (ts_goal t) @ ''</td><td>'' @ html_escape (artifact_flags t) @
     ''</td><td>'' @ dec_digits (length (ts_warnings t)) @ ''</td><td>'' @ html_escape (ts_task_dir t) @
     ''</td></tr>''"

definition render_review_comparison :: "task_summary list \<Rightarrow> string" where
  "render_review_comparison tasks =
     ''<section><h2>Run Comparison</h2>'' @
     (if length tasks < 2
      then ''<p class=\"muted\">At least two task runs are needed for comparison.</p>'' @ ''</section>''
      else ''<table><thead><tr><th>Task</th><th>Status</th><th>Goal</th><th>Artifacts</th><th>Warnings</th><th>Evidence</th></tr></thead><tbody>'' @
           concat (map comparison_row_html tasks) @ ''</tbody></table></section>'')"

definition approval_row_html :: "path \<Rightarrow> approval_record \<Rightarrow> string" where
  "approval_row_html workspace r =
     ''<tr><td>'' @ html_escape (ar_id r) @ ''</td><td>'' @ html_escape (ar_task_id r) @ ''</td><td>'' @
     html_escape (approval_action_summary (ar_action r)) @ ''</td><td><code>taskfence approve '' @
     html_escape (ar_id r) @ '' --workspace '' @ html_escape workspace @
     ''</code><br><code>taskfence deny '' @ html_escape (ar_id r) @ '' --workspace '' @
     html_escape workspace @
     ''</code><div class=\"toolbar\" style=\"margin-top:8px\"><form method=\"post\" action=\"/approval/'' @
     html_escape (ar_id r) @
     ''/approve\"><button class=\"button\" type=\"submit\">Approve</button></form><form method=\"post\" action=\"/approval/'' @
     html_escape (ar_id r) @
     ''/deny\"><button class=\"button\" type=\"submit\">Deny</button></form></div></td></tr>''"

definition pending_approvals :: "approval_record list \<Rightarrow> approval_record list" where
  "pending_approvals approvals = filter (\<lambda>r. ar_decision r = None) approvals"

definition approvals_section :: "path \<Rightarrow> approval_record list \<Rightarrow> string" where
  "approvals_section workspace approvals =
     ''<section><h2>Pending Approvals</h2>'' @
     (let pending = pending_approvals approvals
      in if pending = [] then ''<p class=\"muted\">No pending approvals.</p>''
         else ''<table><thead><tr><th>Approval</th><th>Task</th><th>Action</th><th>Resolve</th></tr></thead><tbody>'' @
              concat (map (approval_row_html workspace) pending) @ ''</tbody></table>'') @
     ''</section>''"

definition list_item_html :: "string \<Rightarrow> string" where
  "list_item_html v = ''<li>'' @ html_escape (compact_cell v) @ ''</li>''"

definition render_html_list :: "string \<Rightarrow> string list \<Rightarrow> string" where
  "render_html_list label vs =
     ''<p><strong>'' @ html_escape label @ '':</strong>'' @
     (if vs = [] then '' none</p>''
      else ''</p><ul>'' @ concat (map list_item_html vs) @ ''</ul>'')"

definition artifact_link_html :: "task_id \<Rightarrow> task_artifact_file \<Rightarrow> string" where
  "artifact_link_html tid f =
     ''<a class=\"button\" href=\"/artifact/'' @ html_escape tid @ ''/'' @
     html_escape (taf_relative_path f) @ ''\">'' @ html_escape (taf_relative_path f) @ ''</a>''"

definition pre_html :: "string \<Rightarrow> string option \<Rightarrow> string" where
  "pre_html title v =
     (case v of None \<Rightarrow> []
      | Some s \<Rightarrow> ''<h3>'' @ title @ ''</h3><pre>'' @ html_escape s @ ''</pre>'')"

definition review_head_html :: "task_summary \<Rightarrow> string" where
  "review_head_html t =
     ''<section class=\"panel\" id=\"task-'' @ html_escape (ts_task_id t) @ ''\"><h3>'' @
     html_escape (ts_task_id t) @ ''</h3><p><span class=\"status\">Status:</span> '' @
     html_escape (task_status_text t) @ '' | <span class=\"status\">Artifacts:</span> '' @
     html_escape (artifact_flags t) @ ''</p><p>'' @ or_dash_cell (ts_goal t) @ ''</p>''"

definition replay_html :: "replay_plan \<Rightarrow> string" where
  "replay_html plan =
     ''<h3>Replay</h3><p>'' @
     (if rp_can_replay plan then ''<span class=\"ok\">Ready from saved inputs</span>''
      else ''<span class=\"blocked\">Blocked</span>'') @
     ''; deterministic: '' @ (if rp_deterministic plan then ''yes'' else ''no'') @ ''</p>'' @
     render_html_list ''Blockers'' (rp_blockers plan) @
     render_html_list ''Limitations'' (rp_limitations plan)"

definition render_review_task :: "(time \<Rightarrow> string) \<Rightarrow> local_task_review \<Rightarrow> string" where
  "render_review_task clock r =
     (let tid = ts_task_id (lv_summary r)
      in review_head_html (lv_summary r) @
         (case lv_artifacts r of None \<Rightarrow> []
          | Some a \<Rightarrow> ''<div class=\"toolbar\">'' @ concat (map (artifact_link_html tid) (tas_files a)) @
                      ''</div>'') @
         replay_html (lv_replay r) @
         (if lv_warnings r = [] then [] else render_html_list ''Evidence warnings'' (lv_warnings r)) @
         pre_html ''Timeline'' (map_option (render_task_events clock tid) (lv_events r)) @
         pre_html ''Diff'' (map_option (\<lambda>d. snippet (td_contents d)) (lv_diff r)) @
         pre_html ''Logs'' (map_option (\<lambda>l. snippet (render_logs l)) (lv_logs r)) @
         pre_html ''Report'' (map_option (\<lambda>p. snippet (tre_contents p)) (lv_report r)) @
         ''</section>'')"

definition render_review_page ::
  "(time \<Rightarrow> string) \<Rightarrow> local_review_index \<Rightarrow> local_task_review list \<Rightarrow> approval_record list \<Rightarrow>
   string" where
  "render_review_page clock index reviews approvals =
     page_head @ html_escape (lri_workspace index) @
     ''</p><p><a class=\"button\" href=\"/api/index\">Structured API</a></p></header><main>'' @
     tasks_section (lri_tasks index) @ render_review_comparison (lri_tasks index) @
     approvals_section (lri_workspace index) approvals @
     ''<section><h2>Task Review</h2>'' @ concat (map (render_review_task clock) reviews) @
     ''</section></main></body></html>''"

section \<open>Markup\<close>

text \<open>The characters that open and close tags and attribute values.\<close>

definition is_markup :: "char \<Rightarrow> bool" where
  "is_markup c \<longleftrightarrow> c = CHR ''<'' \<or> c = CHR ''>'' \<or> c = CHR 0x22 \<or> c = CHR 0x27"

definition markup :: "string \<Rightarrow> string" where
  "markup s = filter is_markup s"

lemma markup_append [simp]: "markup (s @ t) = markup s @ markup t"
  by (simp add: markup_def)

lemma markup_Nil [simp]: "markup [] = []"
  by (simp add: markup_def)

definition markup_char :: "char \<Rightarrow> string" where
  "markup_char c = (if is_markup c then [c] else [])"

lemma markup_Cons [simp]: "markup (c # s) = markup_char c @ markup s"
  by (simp add: markup_def markup_char_def)

lemma markup_escape [simp]: "markup (html_escape v) = []"
  by (induction v) (simp_all add: html_escape_def html_char_def markup_char_def is_markup_def)

lemma markup_digits [simp]: "markup (dec_digits n) = []"
proof -
  have "\<not> is_markup c" if "c \<in> set (dec_digits n)" for c
    using dec_digits_char [OF that] by (auto simp: is_markup_def is_digit_def)
  then show ?thesis by (simp add: markup_def filter_empty_conv)
qed

lemma markup_dash [simp]: "markup (or_dash_cell v) = []"
  by (simp add: or_dash_cell_def)

lemma markup_map:
  assumes "length xs = length ys" and "\<And>x y. markup (f x) = markup (g y)"
  shows "markup (concat (map f xs)) = markup (concat (map g ys))"
  using assms(1) by (induction xs ys rule: list_induct2) (simp_all, metis assms(2))

text \<open>
  What the layout of the page depends on: the number of tasks and pending approvals, and for each
  review which parts the evidence has, and how many files, blockers, limitations and warnings.
\<close>

definition review_shape where
  "review_shape r =
     (map_option (\<lambda>a. length (tas_files a)) (lv_artifacts r), rp_can_replay (lv_replay r),
      length (rp_blockers (lv_replay r)), length (rp_limitations (lv_replay r)),
      length (lv_warnings r), lv_events r = None, lv_diff r = None, lv_logs r = None,
      lv_report r = None)"

definition page_shape where
  "page_shape index reviews approvals =
     (length (lri_tasks index), length (pending_approvals approvals), map review_shape reviews)"

lemma markup_html_list:
  assumes "length vs = length ws"
  shows "markup (render_html_list label vs) = markup (render_html_list label ws)"
proof -
  have "markup (concat (map list_item_html vs)) = markup (concat (map list_item_html ws))"
    using assms by (rule markup_map) (simp add: list_item_html_def)
  moreover have "vs = [] \<longleftrightarrow> ws = []" using assms by auto
  ultimately show ?thesis by (simp add: render_html_list_def)
qed

lemma markup_pre: "v = None \<longleftrightarrow> w = None \<Longrightarrow> markup (pre_html title v) = markup (pre_html title w)"
  by (cases v; cases w) (simp_all add: pre_html_def)

lemma markup_replay:
  assumes "rp_can_replay p = rp_can_replay q" and "length (rp_blockers p) = length (rp_blockers q)"
    and "length (rp_limitations p) = length (rp_limitations q)"
  shows "markup (replay_html p) = markup (replay_html q)"
  using assms markup_html_list [OF assms(2)] markup_html_list [OF assms(3)]
  by (simp add: replay_html_def markup_char_def is_markup_def)

lemma markup_review:
  assumes "review_shape r = review_shape r'"
  shows "markup (render_review_task clock r) = markup (render_review_task clock r')"
proof -
  have files: "markup (concat (map (artifact_link_html tid) xs)) =
      markup (concat (map (artifact_link_html tid') ys))"
    if "length xs = length ys" for xs ys tid tid'
    using that by (rule markup_map) (simp add: artifact_link_html_def)
  have artifacts: "markup (case lv_artifacts r of None \<Rightarrow> [] | Some a \<Rightarrow> u @ concat (map (artifact_link_html tid) (tas_files a)) @ v) =
      markup (case lv_artifacts r' of None \<Rightarrow> [] | Some a \<Rightarrow> u @ concat (map (artifact_link_html tid') (tas_files a)) @ v)"
    for u v tid tid'
    using assms files
    by (cases "lv_artifacts r"; cases "lv_artifacts r'") (auto simp: review_shape_def)
  have warnings: "markup (if lv_warnings r = [] then [] else render_html_list l (lv_warnings r)) =
      markup (if lv_warnings r' = [] then [] else render_html_list l (lv_warnings r'))" for l
    using assms markup_html_list [of "lv_warnings r" "lv_warnings r'" l]
    by (auto simp: review_shape_def)
  have head: "markup (review_head_html t) = markup (review_head_html t')" for t t'
    by (simp add: review_head_html_def)
  have replay: "markup (replay_html (lv_replay r)) = markup (replay_html (lv_replay r'))"
    using assms by (intro markup_replay) (simp_all add: review_shape_def)
  have pre: "markup (pre_html title (map_option f (lv_events r))) = markup (pre_html title (map_option f' (lv_events r')))"
    "markup (pre_html title (map_option g (lv_diff r))) = markup (pre_html title (map_option g (lv_diff r')))"
    "markup (pre_html title (map_option h (lv_logs r))) = markup (pre_html title (map_option h (lv_logs r')))"
    "markup (pre_html title (map_option k (lv_report r))) = markup (pre_html title (map_option k (lv_report r')))"
    for title f f' g h k
    using assms by (intro markup_pre; simp add: review_shape_def)+
  show ?thesis
    unfolding render_review_task_def Let_def markup_append
    by (intro arg_cong2 [of _ _ _ _ "(@)"] head artifacts replay warnings pre refl)
qed

lemma markup_tasks:
  assumes "length ts = length us"
  shows "markup (tasks_section ts) = markup (tasks_section us)"
    and "markup (render_review_comparison ts) = markup (render_review_comparison us)"
proof -
  have "markup (concat (map task_row_html ts)) = markup (concat (map task_row_html us))"
    using assms by (rule markup_map) (simp add: task_row_html_def)
  moreover have "ts = [] \<longleftrightarrow> us = []" using assms by auto
  ultimately show "markup (tasks_section ts) = markup (tasks_section us)"
    by (simp add: tasks_section_def)
  have "markup (concat (map comparison_row_html ts)) = markup (concat (map comparison_row_html us))"
    using assms by (rule markup_map) (simp add: comparison_row_html_def)
  with assms show "markup (render_review_comparison ts) = markup (render_review_comparison us)"
    by (simp add: render_review_comparison_def)
qed

lemma markup_approvals:
  assumes "length (pending_approvals as) = length (pending_approvals bs)"
  shows "markup (approvals_section w as) = markup (approvals_section v bs)"
proof -
  have "markup (concat (map (approval_row_html w) (pending_approvals as))) =
      markup (concat (map (approval_row_html v) (pending_approvals bs)))"
    using assms by (rule markup_map) (simp add: approval_row_html_def)
  moreover have "pending_approvals as = [] \<longleftrightarrow> pending_approvals bs = []" using assms by auto
  ultimately show ?thesis by (simp add: approvals_section_def Let_def)
qed

text \<open>
  C39: No value of the evidence becomes markup of the review page. Two states of the evidence with
  the same shape give pages with the same tags and attribute limits, whatever goals, commands,
  file names, events, logs, diffs and reports they hold.
\<close>

theorem page_markup_fixed:
  assumes "page_shape index reviews approvals = page_shape index' reviews' approvals'"
  shows "markup (render_review_page clock index reviews approvals) =
    markup (render_review_page clock index' reviews' approvals')"
proof -
  have l: "length (lri_tasks index) = length (lri_tasks index')"
    and a: "length (pending_approvals approvals) = length (pending_approvals approvals')"
    and r: "map review_shape reviews = map review_shape reviews'"
    using assms by (simp_all add: page_shape_def)
  have reviews: "markup (concat (map (render_review_task clock) rs)) =
      markup (concat (map (render_review_task clock) rs'))"
    if "map review_shape rs = map review_shape rs'" for rs rs'
    using that
  proof (induction rs arbitrary: rs')
    case (Cons x xs)
    then obtain y ys where rs: "rs' = y # ys" "review_shape x = review_shape y"
      "map review_shape xs = map review_shape ys"
      by (auto simp: Cons_eq_map_conv)
    from markup_review [OF rs(2), of clock] Cons.IH [OF rs(3)] rs(1) show ?case by simp
  qed simp
  show ?thesis
    by (simp only: render_review_page_def markup_append markup_escape markup_tasks [OF l]
        markup_approvals [OF a, of "lri_workspace index" "lri_workspace index'"] reviews [OF r])
qed

theorem page_markup_fixed_witness:
  "markup (render_review_page (\<lambda>_. ''now'') \<lparr>lri_workspace = ''<script>'', lri_tasks = []\<rparr> [] []) =
   markup (render_review_page (\<lambda>_. ''now'') \<lparr>lri_workspace = ''/w'', lri_tasks = []\<rparr> [] [])"
  by (rule page_markup_fixed) (simp add: page_shape_def)

text \<open>
  A link does not encode its path as a URL: a percent sign in the name of an artifact is decoded
  by the server, so the link of \<open>a%2Fb\<close> asks for another file.
\<close>

lemma artifact_link_not_encoded:
  "prefix ''<a class=\"button\" href=\"/artifact/t/artifacts/a%2Fb\">''
     (artifact_link_html ''t'' (f\<lparr>taf_relative_path := ''artifacts/a%2Fb''\<rparr>))"
  by (simp add: artifact_link_html_def html_escape_def html_char_def)

end
