(* ===== verification/Review_Server.thy ===== *)
theory Review_Server
  imports Cli_Page Gateway_Commands Approval_Store Evidence_Safety
begin

text \<open>
  The local review server of \<open>crates/taskfence-cli/src/main.rs\<close>: \<open>serve_review_page\<close>, the request
  reader, the routes of the page and of the API, and what they change. The evidence of a task is
  read only; the server changes the approval store and the state index of the workspace.
\<close>

section \<open>URL decoding\<close>

definition hex_value :: "char \<Rightarrow> nat option" where
  "hex_value c =
     (if is_digit c then Some (byte c - 48)
      else if 65 \<le> byte c \<and> byte c \<le> 70 then Some (byte c - 55)
      else if 97 \<le> byte c \<and> byte c \<le> 102 then Some (byte c - 87)
      else None)"

text \<open>\<open>u8::from_str_radix(hex, 16)\<close> of two bytes: a leading plus sign is allowed.\<close>

definition hex_pair :: "char \<Rightarrow> char \<Rightarrow> nat option" where
  "hex_pair a b =
     (if a = CHR ''+'' then hex_value b
      else case (hex_value a, hex_value b) of
             (Some x, Some y) \<Rightarrow> Some (16 * x + y)
           | _ \<Rightarrow> None)"

text \<open>\<open>char::from(byte)\<close>, the character with this number, in UTF-8.\<close>

definition char_from_byte :: "nat \<Rightarrow> string" where
  "char_from_byte n = (if n < 128 then [char_of n] else [char_of (192 + n div 64), char_of (128 + n mod 64)])"

text \<open>
  The two bytes after a percent sign: not UTF-8 (they end inside a character, as the whole value is
  UTF-8), no number, or the byte.
\<close>

definition percent_byte :: "char \<Rightarrow> char \<Rightarrow> nat result" where
  "percent_byte a b =
     (if \<not> utf8_ok [a, b]
      then Inl (StateErr (''invalid percent encoding: incomplete utf-8 byte sequence from index '' @
             (if byte a < 128 then ''1'' else ''0'')))
      else case hex_pair a b of
             None \<Rightarrow> Inl (StateErr (''invalid percent encoding '' @ [a, b] @
                      '': invalid digit found in string''))
           | Some n \<Rightarrow> Inr n)"

fun url_decode_path_component :: "string \<Rightarrow> string result" where
  "url_decode_path_component [] = Inr []"
| "url_decode_path_component (c # s) =
     (if c = CHR ''%'' then
        (case s of
           a # b # t \<Rightarrow>
             rbind (percent_byte a b) (\<lambda>n.
             rbind (url_decode_path_component t) (\<lambda>r. Inr (char_from_byte n @ r)))
         | _ \<Rightarrow> rbind (url_decode_path_component s) (\<lambda>r. Inr (c # r)))
      else rbind (url_decode_path_component s) (\<lambda>r.
             Inr ((if c = CHR ''+'' then '' '' else char_from_byte (byte c)) @ r)))"

definition strip_prefix :: "string \<Rightarrow> string \<Rightarrow> string option" where
  "strip_prefix p s = (if prefix p s then Some (drop (length p) s) else None)"

definition without_query :: "string \<Rightarrow> string" where
  "without_query path = hd (split_on CHR ''?'' path)"

definition route_suffix :: "string \<Rightarrow> string \<Rightarrow> string option" where
  "route_suffix path p =
     (case strip_prefix p (without_query path) of
        None \<Rightarrow> None
      | Some s \<Rightarrow>
          if s = [] then None
          else (case url_decode_path_component s of Inl _ \<Rightarrow> None | Inr v \<Rightarrow> Some v))"

section \<open>Responses\<close>

definition text_type :: string where "text_type = ''text/plain; charset=utf-8''"

definition http_redirect :: "string \<Rightarrow> string \<Rightarrow> string" where
  "http_redirect location body =
     ''HTTP/1.1 303 See Other'' @ crlf @ ''Content-Type: '' @ text_type @ crlf @
     ''Content-Length: '' @ dec_digits (length body) @ crlf @ ''Connection: close'' @ crlf @
     ''Location: '' @ location @ crlf @ crlf @ body"

definition http_error :: "taskfence_error \<Rightarrow> string" where
  "http_error err = http_response ''400 Bad Request'' text_type (error_display err)"

definition http_not_found :: "taskfence_error \<Rightarrow> string" where
  "http_not_found err = http_response ''404 Not Found'' text_type (error_display err)"

definition http_server_error :: "taskfence_error \<Rightarrow> string" where
  "http_server_error err = http_response ''500 Internal Server Error'' text_type (error_display err)"

definition no_route :: string where
  "no_route = http_response ''404 Not Found'' text_type ''not found''"

section \<open>The values of the API\<close>

record local_api_event =
  la_kind :: string
  la_at :: string
  la_summary :: string

record local_api_task_events =
  lae_task_id :: task_id
  lae_path :: path
  lae_events :: "local_api_event list"

record local_api_approval =
  lap_id :: approval_id
  lap_task_id :: task_id
  lap_status :: string
  lap_actor :: string
  lap_source :: "string option"
  lap_requested_at :: string
  lap_resolved_at :: "string option"
  lap_action :: string
  lap_policy :: string

text \<open>What is serialised; the serializer is a parameter of the server.\<close>

datatype api_value =
    ApiIndex local_state_index
  | ApiTasks "task_summary list"
  | ApiTask local_task_review
  | ApiArtifacts task_artifacts
  | ApiEvents local_api_task_events
  | ApiLogs task_logs
  | ApiDiff task_diff
  | ApiReport task_report
  | ApiReplay replay_plan
  | ApiCompare local_task_comparison
  | ApiApprovals "local_api_approval list"
  | ApiApproval local_api_approval

record 'c review_env =
  rv_store :: "'c store_env"
  rv_evidence :: "nat \<Rightarrow> evidence_files"
  rv_index_io :: index_io
  rv_json :: "api_value \<Rightarrow> string + string"
  rv_read_bytes :: "path \<Rightarrow> string + string"
  rv_clock :: "time \<Rightarrow> string"

record 'c review_state =
  rw_approvals :: "'c store_state"
  rw_index :: index_file

definition rv_workspace :: "'c review_env \<Rightarrow> path" where
  "rv_workspace env = sv_workspace (rv_store env)"

text \<open>A response, or \<open>None\<close> for a request on which a read of the approval store never returns.\<close>

type_synonym 'c responder = "'c review_state \<Rightarrow> (string \<times> 'c review_state) option"

definition http_json_response :: "'c review_env \<Rightarrow> string \<Rightarrow> api_value \<Rightarrow> string" where
  "http_json_response env status v =
     (case rv_json env v of
        Inr bytes \<Rightarrow> http_response status json_content_type bytes
      | Inl err \<Rightarrow>
          http_response ''500 Internal Server Error'' text_type
            (''failed to serialize local API JSON: '' @ err))"

definition local_api_event_of :: "(time \<Rightarrow> string) \<Rightarrow> audit_event \<Rightarrow> local_api_event" where
  "local_api_event_of clock e =
     \<lparr>la_kind = event_kind e, la_at = event_time clock e, la_summary = event_summary e\<rparr>"

definition local_api_approval_of :: "(time \<Rightarrow> string) \<Rightarrow> approval_record \<Rightarrow> local_api_approval" where
  "local_api_approval_of clock r =
     \<lparr>lap_id = ar_id r, lap_task_id = ar_task_id r, lap_status = approval_status r,
      lap_actor = ar_actor r, lap_source = ar_source r, lap_requested_at = clock (ar_requested_at r),
      lap_resolved_at = map_option clock (ar_resolved_at r),
      lap_action = approval_action_summary (ar_action r),
      lap_policy = approval_policy_summary (ar_policy_decision r)\<rparr>"

text \<open>An operation of the approval store.\<close>

definition on_approvals ::
  "('c, 'a) store_call \<Rightarrow> ('a result \<Rightarrow> 'c responder) \<Rightarrow> 'c responder" where
  "on_approvals m k s =
     (case m (rw_approvals s) of
        None \<Rightarrow> None
      | Some (r, a) \<Rightarrow> k r (s\<lparr>rw_approvals := a\<rparr>))"

definition answer :: "string \<Rightarrow> 'c responder" where
  "answer response s = Some (response, s)"

section \<open>The routes that read\<close>

definition read_response ::
  "'c review_env \<Rightarrow> ('a \<Rightarrow> api_value) \<Rightarrow> 'a result \<Rightarrow> string" where
  "read_response env wrap r =
     (case r of Inr v \<Rightarrow> http_json_response env ''200 OK'' (wrap v) | Inl err \<Rightarrow> http_not_found err)"

definition task_route ::
  "'c review_env \<Rightarrow> string \<Rightarrow> string \<Rightarrow> (evidence_files \<Rightarrow> path \<Rightarrow> task_id \<Rightarrow> 'a result) \<Rightarrow>
   ('a \<Rightarrow> api_value) \<Rightarrow> string" where
  "task_route env path p read wrap =
     (case route_suffix path p of
        None \<Rightarrow> no_route
      | Some tid \<Rightarrow> read_response env wrap (read (rv_evidence env 0) (rv_workspace env) tid))"

definition local_api_index_response :: "'c review_env \<Rightarrow> 'c responder" where
  "local_api_index_response env s =
     (let (r, file) = refresh_index (rv_evidence env 0) (rv_index_io env) (rv_workspace env) (rw_index s)
      in answer (case r of
            Inr index \<Rightarrow> http_json_response env ''200 OK'' (ApiIndex index)
          | Inl err \<Rightarrow> http_server_error err) (s\<lparr>rw_index := file\<rparr>))"

definition local_api_tasks_response :: "'c review_env \<Rightarrow> string" where
  "local_api_tasks_response env =
     (case list_tasks (rv_evidence env 0) (rv_workspace env) of
        Inr tasks \<Rightarrow> http_json_response env ''200 OK'' (ApiTasks tasks)
      | Inl err \<Rightarrow> http_server_error err)"

definition local_api_task_response :: "'c review_env \<Rightarrow> string \<Rightarrow> string" where
  "local_api_task_response env path = task_route env path ''/api/task/'' read_task_review ApiTask"

definition local_api_artifacts_response :: "'c review_env \<Rightarrow> string \<Rightarrow> string" where
  "local_api_artifacts_response env path =
     task_route env path ''/api/artifacts/'' read_artifacts ApiArtifacts"

definition local_api_events_response :: "'c review_env \<Rightarrow> string \<Rightarrow> string" where
  "local_api_events_response env path =
     (case route_suffix path ''/api/events/'' of
        None \<Rightarrow> no_route
      | Some tid \<Rightarrow>
          read_response env
            (\<lambda>e. ApiEvents \<lparr>lae_task_id = tid, lae_path = tev_path e,
               lae_events = map (local_api_event_of (rv_clock env)) (tev_events e)\<rparr>)
            (read_events (rv_evidence env 0) (rv_workspace env) tid))"

definition local_api_logs_response :: "'c review_env \<Rightarrow> string \<Rightarrow> string" where
  "local_api_logs_response env path = task_route env path ''/api/logs/'' read_logs ApiLogs"

definition local_api_diff_response :: "'c review_env \<Rightarrow> string \<Rightarrow> string" where
  "local_api_diff_response env path = task_route env path ''/api/diff/'' read_diff ApiDiff"

definition local_api_report_response :: "'c review_env \<Rightarrow> string \<Rightarrow> string" where
  "local_api_report_response env path = task_route env path ''/api/report/'' read_report ApiReport"

definition local_api_replay_response :: "'c review_env \<Rightarrow> string \<Rightarrow> string" where
  "local_api_replay_response env path = task_route env path ''/api/replay/'' replay_plan_of ApiReplay"

definition local_api_compare_response :: "'c review_env \<Rightarrow> string \<Rightarrow> string" where
  "local_api_compare_response env path =
     (case route_suffix path ''/api/compare/'' of
        None \<Rightarrow> no_route
      | Some suff \<Rightarrow>
          (case split_on CHR ''/'' suff of
             [l, r] \<Rightarrow> read_response env ApiCompare (compare_tasks (rv_evidence env 0) (rv_workspace env) l r)
           | _ \<Rightarrow> http_response ''400 Bad Request'' text_type
                    ''compare route requires /api/compare/<left>/<right>''))"

definition local_api_approvals_response :: "'c review_env \<Rightarrow> 'c responder" where
  "local_api_approvals_response env =
     on_approvals (store_list (rv_store env)) (\<lambda>r. answer
       (case r of
          Inr records \<Rightarrow>
            http_json_response env ''200 OK''
              (ApiApprovals (map (local_api_approval_of (rv_clock env)) records))
        | Inl err \<Rightarrow> http_server_error err))"

definition local_api_approval_response :: "'c review_env \<Rightarrow> string \<Rightarrow> 'c responder" where
  "local_api_approval_response env path =
     (case route_suffix path ''/api/approval/'' of
        None \<Rightarrow> answer no_route
      | Some aid \<Rightarrow>
          on_approvals (store_read (rv_store env) aid) (\<lambda>r. answer
            (read_response env (\<lambda>v. ApiApproval (local_api_approval_of (rv_clock env) v)) r)))"

definition artifact_request :: "string \<Rightarrow> string + (task_id \<times> path)" where
  "artifact_request path =
     (case route_suffix path ''/artifact/'' of
        None \<Rightarrow> Inl no_route
      | Some suff \<Rightarrow>
          (let (tid, rest) = (case split_once CHR ''/'' suff of
                 None \<Rightarrow> (suff, []) | Some (t, r) \<Rightarrow> (t, r))
           in if tid = [] then Inl no_route
              else if rest = []
              then Inl (http_response ''400 Bad Request'' text_type
                     ''artifact route requires /artifact/<task-id>/<relative-path>'')
              else case url_decode_path_component rest of
                     Inl err \<Rightarrow> Inl (http_error err)
                   | Inr p \<Rightarrow> Inr (tid, p)))"

definition artifact_download_response :: "'c review_env \<Rightarrow> string \<Rightarrow> string" where
  "artifact_download_response env path =
     (case artifact_request path of
        Inl response \<Rightarrow> response
      | Inr (tid, relative_path) \<Rightarrow>
          (case artifact_route (rv_evidence env 0) (rv_workspace env) tid relative_path of
             Inl err \<Rightarrow> http_not_found err
           | Inr route \<Rightarrow>
               (case rv_read_bytes env (lar_path route) of
                  Inr bytes \<Rightarrow> http_response ''200 OK'' ''application/octet-stream'' bytes
                | Inl err \<Rightarrow>
                    http_server_error (StateErr (''failed to read artifact route '' @
                      lar_relative_path route @ '': '' @ err)))))"

definition review_page_html :: "'c review_env \<Rightarrow> ('c, string) store_call" where
  "review_page_html env =
     call_bind (call_returns (slift (review_index (rv_evidence env 0) (rv_workspace env)))) (\<lambda>index.
     call_bind (call_returns (slift (rmap_list (\<lambda>(i, t).
        read_task_review (rv_evidence env (Suc i)) (rv_workspace env) (ts_task_id t))
        (enumerate 0 (lri_tasks index))))) (\<lambda>reviews.
     call_bind (store_list (rv_store env)) (\<lambda>approvals. call_returns
       (sreturn (render_review_page (rv_clock env) index reviews approvals)))))"

definition review_page_response :: "'c review_env \<Rightarrow> 'c responder" where
  "review_page_response env =
     on_approvals (review_page_html env) (\<lambda>r. answer
       (case r of
          Inr html \<Rightarrow> http_response ''200 OK'' ''text/html; charset=utf-8'' html
        | Inl err \<Rightarrow> http_server_error err))"

section \<open>The routes that resolve an approval\<close>

definition approval_target :: "string \<Rightarrow> (approval_id \<times> approval_decision) result" where
  "approval_target path =
     (case split_on CHR ''/'' (trim_start_char CHR ''/'' path) of
        [] \<Rightarrow> Inl (Approval ''approval route is malformed'')
      | root # parts \<Rightarrow>
          if root \<noteq> ''approval'' then Inl (Approval ''approval route is malformed'')
          else (case parts of
             [] \<Rightarrow> Inl (Approval ''approval id is missing'')
           | [aid] \<Rightarrow> Inl (Approval ''approval action is missing'')
           | [aid, action] \<Rightarrow>
               rbind (if action = ''approve'' then Inr Approved
                      else if action = ''deny'' then Inr ADenied
                      else Inl (Approval (''unsupported approval action '' @ action))) (\<lambda>d.
               rbind (url_decode_path_component aid) (\<lambda>v. Inr (v, d)))
           | _ \<Rightarrow> Inl (Approval ''approval route has extra segments'')))"

definition resolve_review_approval_path :: "'c review_env \<Rightarrow> string \<Rightarrow> ('c, string) store_call" where
  "resolve_review_approval_path env path =
     call_bind (call_returns (slift (approval_target path))) (\<lambda>(aid, d).
     call_bind (resolve_with_actor (rv_store env) aid d ''local-review'' (Some ''review-ui'')) (\<lambda>record.
       call_returns (sreturn (''approval '' @ ar_id record @ '' resolved''))))"

definition local_api_resolve_approval_response :: "'c review_env \<Rightarrow> string \<Rightarrow> 'c responder" where
  "local_api_resolve_approval_response env path =
     (case route_suffix path ''/api/approval/'' of
        None \<Rightarrow> answer no_route
      | Some suff \<Rightarrow>
          on_approvals (resolve_review_approval_path env (''/approval/'' @ suff)) (\<lambda>r.
            case r of
              Inr _ \<Rightarrow> local_api_approval_response env (''/api/approval/'' @ hd (split_on CHR ''/'' suff))
            | Inl err \<Rightarrow> answer (http_error err)))"

definition resolve_form_response :: "'c review_env \<Rightarrow> string \<Rightarrow> 'c responder" where
  "resolve_form_response env path =
     on_approvals (resolve_review_approval_path env path) (\<lambda>r. answer
       (case r of Inr message \<Rightarrow> http_redirect ''/'' message | Inl err \<Rightarrow> http_error err))"

section \<open>The server\<close>

record review_http_request =
  hr_method :: string
  hr_path :: string

definition review_http_response :: "'c review_env \<Rightarrow> review_http_request \<Rightarrow> 'c responder" where
  "review_http_response env req =
     (let path = hr_path req in
      if hr_method req = ''GET'' then
        (if path = ''/'' \<or> path = ''/index.html'' then review_page_response env
         else if path = ''/api/index'' then local_api_index_response env
         else if path = ''/api/tasks'' then answer (local_api_tasks_response env)
         else if prefix ''/api/task/'' path then answer (local_api_task_response env path)
         else if prefix ''/api/artifacts/'' path then answer (local_api_artifacts_response env path)
         else if prefix ''/api/events/'' path then answer (local_api_events_response env path)
         else if prefix ''/api/logs/'' path then answer (local_api_logs_response env path)
         else if prefix ''/api/diff/'' path then answer (local_api_diff_response env path)
         else if prefix ''/api/report/'' path then answer (local_api_report_response env path)
         else if prefix ''/api/replay/'' path then answer (local_api_replay_response env path)
         else if prefix ''/api/compare/'' path then answer (local_api_compare_response env path)
         else if path = ''/api/approvals'' then local_api_approvals_response env
         else if prefix ''/api/approval/'' path then local_api_approval_response env path
         else if prefix ''/artifact/'' path then answer (artifact_download_response env path)
         else answer no_route)
      else if hr_method req = ''POST'' then
        (if prefix ''/api/approval/'' path then local_api_resolve_approval_response env path
         else if prefix ''/approval/'' path then resolve_form_response env path
         else answer no_route)
      else answer no_route)"

text \<open>
  A connection: the bytes that arrive, what ends them (the end of the stream or an error), and the
  errors of \<open>try_clone\<close> and \<open>write_all\<close>.
\<close>

record connection =
  cn_bytes :: string
  cn_read_error :: "string option"
  cn_clone_error :: "string option"
  cn_write_error :: "string option"

definition conn_line :: "string option \<Rightarrow> string \<Rightarrow> (string + string) \<times> string" where
  "conn_line err input =
     (case err of
        Some e \<Rightarrow> if CHR 0x0A \<in> set input then read_line input else (Inl e, [])
      | None \<Rightarrow> read_line input)"

lemma conn_line_shorter:
  "conn_line err input = (r, rest) \<Longrightarrow> input \<noteq> [] \<Longrightarrow> length rest < length input"
  by (auto simp: conn_line_def split: option.splits if_splits dest: read_line_shorter)

function read_review_headers :: "string option \<Rightarrow> string \<Rightarrow> unit result" where
  "read_review_headers err input =
     (if input = [] \<and> err = None then Inr ()
      else case conn_line err input of
        (Inl e, rest) \<Rightarrow> Inl (StateErr (''failed to read review request header: '' @ e))
      | (Inr line, rest) \<Rightarrow>
          if ends_headers line \<or> input = [] then Inr () else read_review_headers err rest)"
  by pat_completeness auto
termination
  by (relation "measure (\<lambda>(err, input). length input)") (auto dest!: conn_line_shorter [OF sym])

definition read_http_request :: "connection \<Rightarrow> review_http_request result" where
  "read_http_request cn =
     (case conn_line (cn_read_error cn) (cn_bytes cn) of
        (Inl err, rest) \<Rightarrow> Inl (StateErr (''failed to read review request line: '' @ err))
      | (Inr request_line, rest) \<Rightarrow>
          (let parts = split_whitespace request_line
           in if length parts < 2 then Inl (StateErr ''review request line is malformed'')
              else rbind (read_review_headers (cn_read_error cn) rest) (\<lambda>_.
                     Inr \<lparr>hr_method = parts ! 0, hr_path = parts ! 1\<rparr>)))"

definition handle_review_http_stream ::
  "'c review_env \<Rightarrow> connection \<Rightarrow> 'c review_state \<Rightarrow> (string result \<times> 'c review_state) option" where
  "handle_review_http_stream env cn s =
     (case cn_clone_error cn of
        Some err \<Rightarrow> Some (Inl (StateErr (''failed to clone review connection: '' @ err)), s)
      | None \<Rightarrow>
          (case read_http_request cn of
             Inl err \<Rightarrow> Some (Inl err, s)
           | Inr req \<Rightarrow>
               map_option (\<lambda>(response, s').
                   (case cn_write_error cn of
                      Some err \<Rightarrow> Inl (StateErr (''failed to write review response: '' @ err))
                    | None \<Rightarrow> Inr response, s'))
                 (review_http_response env req s)))"

text \<open>
  The loop over the incoming connections: the responses that were written, and the error that ended
  it. Every connection has its own view of the evidence. A request whose read of the approval store
  never returns stops the server, which handles one connection after the other.
\<close>

fun serve_connections ::
  "(nat \<Rightarrow> 'c review_env) \<Rightarrow> nat \<Rightarrow> (string + connection) list \<Rightarrow> 'c review_state \<Rightarrow>
   (unit result \<times> string list \<times> 'c review_state) option" where
  "serve_connections env n [] s = Some (Inr (), [], s)"
| "serve_connections env n (Inl err # cs) s =
     Some (Inl (StateErr (''review server connection failed: '' @ err)), [], s)"
| "serve_connections env n (Inr cn # cs) s =
     (case handle_review_http_stream (env n) cn s of
        None \<Rightarrow> None
      | Some (Inl err, s') \<Rightarrow> Some (Inl err, [], s')
      | Some (Inr response, s') \<Rightarrow>
          map_option (\<lambda>(r, out, s''). (r, response # out, s'')) (serve_connections env (Suc n) cs s'))"

end
