(* ===== verification/Review_Safety.thy ===== *)
theory Review_Safety
  imports Review_Server
begin

text \<open>
  What the review server can change and show: approvals change only by a \<open>POST\<close> that names one and
  its decision, and a download is a file of the asked task's evidence.
\<close>

section \<open>What a request changes\<close>

definition quiet_env :: "'c review_env \<Rightarrow> bool" where
  "quiet_env env \<longleftrightarrow> (\<forall>t d. sv_world (rv_store env) t d = d)"

definition approvals_of :: "'c review_state \<Rightarrow> 'c dir_state" where
  "approvals_of s = st_dir (rw_approvals s)"

text \<open>One pending approval gets a decision by the review user, every other entry stays.\<close>

definition resolved_by_review ::
  "'c store_env \<Rightarrow> approval_id \<Rightarrow> approval_decision \<Rightarrow> 'c dir_state \<Rightarrow> 'c dir_state \<Rightarrow> bool" where
  "resolved_by_review env aid d dir dir' \<longleftrightarrow>
     (\<exists>record at c.
        known_in env aid dir = Some record \<and> ar_decision record = None
        \<and> sv_encode env (record\<lparr>ar_actor := ''local-review'', ar_source := Some ''review-ui'',
              ar_decision := Some d, ar_resolved_at := Some at\<rparr>) = Inr c
        \<and> dir_entry_at dir' (record_file aid) = Some (FileEntry c)
        \<and> (\<forall>n. n \<noteq> record_file aid \<longrightarrow> dir_entry_at dir' n = dir_entry_at dir n))"

lemma quiet_observe: "quiet_env env \<Longrightarrow> st_dir (observe (rv_store env) a) = st_dir a"
  by (simp add: quiet_env_def)

lemma read_keeps:
  assumes "quiet_env env"
  shows "store_read (rv_store env) aid a = Some (r, a') \<Longrightarrow> st_dir a' = st_dir a"
    and "store_list (rv_store env) a = Some (l, a') \<Longrightarrow> st_dir a' = st_dir a"
  using quiet_observe [OF assms, of a]
  by (auto simp: store_read_def store_list_def Let_def split: sum.splits dir_state.splits)

lemma page_keeps:
  assumes "quiet_env env" and "review_page_html env a = Some (r, a')"
  shows "st_dir a' = st_dir a"
  using assms(2) read_keeps(2) [OF assms(1), of a]
  by (auto simp: review_page_html_def call_bind_apply call_returns_def slift_def sreturn_def
      split: sum.splits option.splits prod.splits)

lemma resolve_effect:
  assumes q: "quiet_env env"
    and r: "resolve_with_actor (rv_store env) aid d ''local-review'' (Some ''review-ui'') a = Some (r, a')"
  shows "st_dir a' = st_dir a \<or> resolved_by_review (rv_store env) aid d (st_dir a) (st_dir a')"
  using r
proof (cases rule: resolve_cases)
  case (no_read e)
  with read_keeps(1) [OF q] show ?thesis by blast
next
  case (decided r0)
  with quiet_observe [OF q] show ?thesis by simp
next
  case (no_write r0 e)
  with quiet_observe [OF q] show ?thesis by metis
next
  case (written r0 r' c f)
  note known = written(1) [unfolded quiet_observe [OF q]]
    and entries = write_file_entry(1) [OF written(6) [unfolded quiet_observe [OF q]]]
  have "resolved_by_review (rv_store env) aid d (st_dir a) f"
    unfolding resolved_by_review_def
    using known written(2) entries
    by (intro exI [of _ r0] exI [of _ "sv_now (rv_store env) (Suc (st_tick a))"] exI [of _ c])
      (simp add: written(5) [unfolded written(3) resolution_def])
  with written(7) show ?thesis by simp
qed

text \<open>
  The approval and the decision that a request names, read off its path: the form posts to
  \<open>/approval/<id>/approve\<close> or \<open>/approval/<id>/deny\<close> with the id URL-encoded, the API client to the
  same path below \<open>/api\<close>, encoded as a whole and perhaps followed by a query.
\<close>

definition decision_route :: "string \<Rightarrow> approval_id \<Rightarrow> approval_decision \<Rightarrow> bool" where
  "decision_route rest aid d \<longleftrightarrow>
     (\<exists>e. url_decode_path_component e = Inr aid
        \<and> (rest = e @ ''/approve'' \<and> d = Approved \<or> rest = e @ ''/deny'' \<and> d = ADenied))"

definition names_approval :: "review_http_request \<Rightarrow> approval_id \<Rightarrow> approval_decision \<Rightarrow> bool" where
  "names_approval req aid d \<longleftrightarrow>
     (\<exists>rest. decision_route rest aid d
        \<and> (hr_path req = ''/approval/'' @ rest
           \<or> (\<exists>raw. without_query (hr_path req) = ''/api/approval/'' @ raw
                \<and> url_decode_path_component raw = Inr rest)))"

lemma approval_target_named:
  assumes "approval_target (''/approval/'' @ rest) = Inr (aid, d)"
  shows "decision_route rest aid d"
proof -
  have "trim_start_char CHR ''/'' (''/approval/'' @ rest) = ''approval/'' @ rest"
    by (simp add: trim_start_char_def)
  moreover have "split_on CHR ''/'' (''approval/'' @ rest) = ''approval'' # split_on CHR ''/'' rest"
    using split_on_append_sep [of "CHR ''/''" "''approval''" rest] by (simp add: split_on_single)
  ultimately obtain e verb where s: "split_on CHR ''/'' rest = [e, verb]"
    and v: "verb = ''approve'' \<and> d = Approved \<or> verb = ''deny'' \<and> d = ADenied"
    and u: "url_decode_path_component e = Inr aid"
    using assms by (auto simp: approval_target_def rbind_Inr_iff split: list.splits if_splits)
  from str_join_split [of "CHR ''/''" rest] s have "rest = e @ ''/'' @ verb" by simp
  with v u show ?thesis unfolding decision_route_def by (intro exI [of _ e]) auto
qed

lemma resolve_path_effect:
  assumes "quiet_env env" and "resolve_review_approval_path env path a = Some (r, a')"
  shows "st_dir a' = st_dir a
    \<or> (\<exists>aid d. approval_target path = Inr (aid, d) \<and> resolved_by_review (rv_store env) aid d (st_dir a) (st_dir a'))"
proof (cases "approval_target path")
  case (Inl err)
  with assms(2) show ?thesis
    by (simp add: resolve_review_approval_path_def call_bind_apply call_returns_def slift_def)
next
  case (Inr t)
  obtain aid d where t: "t = (aid, d)" by (cases t)
  with assms(2) Inr obtain r1 where
    "resolve_with_actor (rv_store env) aid d ''local-review'' (Some ''review-ui'') a = Some (r1, a')"
    by (auto simp: resolve_review_approval_path_def call_bind_apply call_returns_def slift_def sreturn_def
        split: option.splits sum.splits)
  from resolve_effect [OF assms(1) this] Inr t show ?thesis by blast
qed

lemma on_approvals_Some:
  "on_approvals m k s = Some y \<Longrightarrow>
   \<exists>r a. m (rw_approvals s) = Some (r, a) \<and> k r (s\<lparr>rw_approvals := a\<rparr>) = Some y"
  by (auto simp: on_approvals_def split: option.splits)

lemma answer_Some: "answer x s = Some (resp, s') \<longleftrightarrow> resp = x \<and> s' = s"
  by (auto simp: answer_def)

lemma approval_response_keeps:
  assumes "quiet_env env" and "local_api_approval_response env path s = Some (resp, s')"
  shows "approvals_of s' = approvals_of s"
  using assms(2) read_keeps(1) [OF assms(1)]
  by (auto simp: local_api_approval_response_def answer_Some approvals_of_def
      split: option.splits dest!: on_approvals_Some)

lemma index_keeps: "local_api_index_response env s = Some (resp, s') \<Longrightarrow> approvals_of s' = approvals_of s"
  by (auto simp: local_api_index_response_def answer_Some approvals_of_def case_prod_beta Let_def)

lemma list_keeps:
  assumes "quiet_env env" and "local_api_approvals_response env s = Some (resp, s')"
  shows "approvals_of s' = approvals_of s"
  using assms(2) read_keeps(2) [OF assms(1)]
  by (auto simp: local_api_approvals_response_def answer_Some approvals_of_def dest!: on_approvals_Some)

lemma review_page_keeps:
  assumes "quiet_env env" and "review_page_response env s = Some (resp, s')"
  shows "approvals_of s' = approvals_of s"
  using assms(2) page_keeps [OF assms(1)]
  by (auto simp: review_page_response_def answer_Some approvals_of_def dest!: on_approvals_Some)

lemma get_keeps:
  assumes "quiet_env env" and "hr_method req = ''GET''" and "review_http_response env req s = Some (resp, s')"
  shows "approvals_of s' = approvals_of s"
  using assms(2,3) approval_response_keeps [OF assms(1)] index_keeps list_keeps [OF assms(1)]
    review_page_keeps [OF assms(1)]
  by (simp add: review_http_response_def Let_def answer_Some split: if_splits)

lemma post_effect:
  assumes "quiet_env env" and "hr_method req = ''POST''"
    and resp: "review_http_response env req s = Some (resp, s')"
  shows "approvals_of s' = approvals_of s
    \<or> (\<exists>aid d. names_approval req aid d
         \<and> resolved_by_review (rv_store env) aid d (approvals_of s) (approvals_of s'))"
proof -
  have step: "st_dir a = approvals_of s \<or> (\<exists>aid d. decision_route rest aid d
        \<and> resolved_by_review (rv_store env) aid d (approvals_of s) (st_dir a))"
    if "resolve_review_approval_path env (''/approval/'' @ rest) (rw_approvals s) = Some (r, a)" for rest r a
    using resolve_path_effect [OF assms(1) that] approval_target_named [of rest]
    unfolding approvals_of_def by metis
  show ?thesis
  proof (cases "prefix ''/api/approval/'' (hr_path req)")
    case True
    with assms(2) resp have "local_api_resolve_approval_response env (hr_path req) s = Some (resp, s')"
      by (simp add: review_http_response_def Let_def)
    then consider "approvals_of s' = approvals_of s"
      | suff r a where "route_suffix (hr_path req) ''/api/approval/'' = Some suff"
        "resolve_review_approval_path env (''/approval/'' @ suff) (rw_approvals s) = Some (r, a)"
        "approvals_of s' = st_dir a"
    proof (cases "route_suffix (hr_path req) ''/api/approval/''")
      case None
      with \<open>local_api_resolve_approval_response env (hr_path req) s = Some (resp, s')\<close> that(1) show thesis
        by (simp add: local_api_resolve_approval_response_def answer_Some)
    next
      case (Some suff)
      with \<open>local_api_resolve_approval_response env (hr_path req) s = Some (resp, s')\<close>
      have "on_approvals (resolve_review_approval_path env (''/approval/'' @ suff)) (\<lambda>r.
            case r of
              Inr _ \<Rightarrow> local_api_approval_response env (''/api/approval/'' @ hd (split_on CHR ''/'' suff))
            | Inl err \<Rightarrow> answer (http_error err)) s = Some (resp, s')"
        by (simp only: local_api_resolve_approval_response_def option.case)
      from on_approvals_Some [OF this] obtain r a
        where a: "resolve_review_approval_path env (''/approval/'' @ suff) (rw_approvals s) = Some (r, a)"
          and k: "(case r of Inr _ \<Rightarrow> local_api_approval_response env (''/api/approval/'' @ hd (split_on CHR ''/'' suff))
            | Inl err \<Rightarrow> answer (http_error err)) (s\<lparr>rw_approvals := a\<rparr>) = Some (resp, s')"
        by blast
      have "approvals_of s' = st_dir a"
      proof (cases r)
        case (Inl err)
        with k show ?thesis by (simp add: answer_Some approvals_of_def)
      next
        case (Inr x)
        with k approval_response_keeps [OF assms(1)]
        have "approvals_of s' = approvals_of (s\<lparr>rw_approvals := a\<rparr>)" by simp
        then show ?thesis by (simp add: approvals_of_def)
      qed
      with that(2) Some a show thesis by blast
    qed
    then show ?thesis
    proof cases
      case (2 suff r a)
      then obtain raw where raw: "without_query (hr_path req) = ''/api/approval/'' @ raw"
        "url_decode_path_component raw = Inr suff"
        by (auto simp: route_suffix_def strip_prefix_def prefix_def split: option.splits sum.splits if_splits)
      from step [OF 2(2)] 2(3) raw show ?thesis unfolding names_approval_def by metis
    qed simp
  next
    case False
    show ?thesis
    proof (cases "prefix ''/approval/'' (hr_path req)")
      case True
      then obtain rest where rest: "hr_path req = ''/approval/'' @ rest" by (auto simp: prefix_def)
      with assms(2) resp False have "resolve_form_response env (hr_path req) s = Some (resp, s')"
        by (simp add: review_http_response_def Let_def)
      then obtain r a where a: "resolve_review_approval_path env (''/approval/'' @ rest) (rw_approvals s) = Some (r, a)"
        "approvals_of s' = st_dir a"
        by (auto simp: resolve_form_response_def answer_Some approvals_of_def rest dest!: on_approvals_Some)
      from step [OF a(1)] a(2) rest show ?thesis unfolding names_approval_def by metis
    next
      case no: False
      with False assms(2) resp show ?thesis by (simp add: review_http_response_def Let_def answer_Some)
    qed
  qed
qed

text \<open>
  C23: Looking never approves. As long as no other process writes approvals, a request that the
  review server answers leaves the approval directory as it is, or it is a \<open>POST\<close> to
  \<open>/approval/<id>/approve\<close> or \<open>/approval/<id>/deny\<close> (or the same below \<open>/api\<close>), the approval with
  this id was pending, and exactly its record now has the decision of that word, approved or denied,
  by \<open>local-review\<close> from \<open>review-ui\<close>.
\<close>

theorem review_changes_only_by_post:
  assumes "quiet_env env" and "review_http_response env req s = Some (resp, s')"
  shows "approvals_of s' = approvals_of s
    \<or> hr_method req = ''POST'' \<and> (\<exists>aid d. names_approval req aid d
         \<and> resolved_by_review (rv_store env) aid d (approvals_of s) (approvals_of s'))"
proof -
  consider "hr_method req = ''GET''" | "hr_method req = ''POST''"
    | "hr_method req \<noteq> ''GET''" "hr_method req \<noteq> ''POST''" by blast
  then show ?thesis
  proof cases
    case 1
    with get_keeps [OF assms(1) _ assms(2)] show ?thesis by simp
  next
    case 2
    with post_effect [OF assms(1) _ assms(2)] show ?thesis by blast
  next
    case 3
    with assms(2) show ?thesis by (simp add: review_http_response_def Let_def answer_Some)
  qed
qed

section \<open>Downloads\<close>

lemma not_ok_responses:
  "\<not> prefix ''HTTP/1.1 200'' no_route" "\<not> prefix ''HTTP/1.1 200'' (http_error err)"
  "\<not> prefix ''HTTP/1.1 200'' (http_not_found err)" "\<not> prefix ''HTTP/1.1 200'' (http_server_error err)"
  "\<not> prefix ''HTTP/1.1 200'' (http_response ''400 Bad Request'' t body)"
  by (simp_all add: no_route_def http_error_def http_not_found_def http_server_error_def http_response_def)

lemma artifact_request_error: "artifact_request path = Inl r \<Longrightarrow> \<not> prefix ''HTTP/1.1 200'' r"
  by (auto simp: artifact_request_def Let_def not_ok_responses split: option.splits if_splits sum.splits prod.splits)

text \<open>
  C31: A download is a file of the task's evidence. When the server answers a request for an
  artifact with success, the body is what reading one path gives: the path of a file that the manifest
  of the named task lists under the asked relative path, one of the six evidence files or a file
  directly in \<open>artifacts/\<close>, inside the directory of that task. The manifest was read, and the file was
  a regular file and no link, before the body is read.
\<close>

theorem download_contained:
  assumes "hr_method req = ''GET''" and "prefix ''/artifact/'' (hr_path req)"
    and "review_http_response env req s = Some (resp, s')" and "prefix ''HTTP/1.1 200'' resp"
  shows "\<exists>tid p r bytes dir. artifact_request (hr_path req) = Inr (tid, p)
    \<and> resp = http_response ''200 OK'' ''application/octet-stream'' bytes
    \<and> rv_read_bytes env (lar_path r) = Inr bytes \<and> path_eq (lar_relative_path r) p
    \<and> in_manifest (rv_evidence env 0) (rv_workspace env) tid r
    \<and> components dir = components (tasks_dir (rv_workspace env)) @ [Normal tid]
    \<and> route_inside (rv_evidence env 0) dir r"
proof -
  have "\<not> prefix ''/api/task/'' (hr_path req)" "\<not> prefix ''/api/artifacts/'' (hr_path req)"
    "\<not> prefix ''/api/events/'' (hr_path req)" "\<not> prefix ''/api/logs/'' (hr_path req)"
    "\<not> prefix ''/api/diff/'' (hr_path req)" "\<not> prefix ''/api/report/'' (hr_path req)"
    "\<not> prefix ''/api/replay/'' (hr_path req)" "\<not> prefix ''/api/compare/'' (hr_path req)"
    "\<not> prefix ''/api/approval/'' (hr_path req)" "hr_path req \<noteq> ''/api/index''" "hr_path req \<noteq> ''/api/tasks''"
    "hr_path req \<noteq> ''/api/approvals''" "hr_path req \<noteq> ''/''" "hr_path req \<noteq> ''/index.html''"
    using assms(2) by (auto simp: prefix_def)
  with assms(1-3) have resp: "resp = artifact_download_response env (hr_path req)"
    by (simp add: review_http_response_def Let_def answer_def)
  with assms(4) have ok: "prefix ''HTTP/1.1 200'' (artifact_download_response env (hr_path req))" by simp
  obtain tid p where q: "artifact_request (hr_path req) = Inr (tid, p)"
    using ok artifact_request_error [of "hr_path req"]
    by (cases "artifact_request (hr_path req)") (auto simp: artifact_download_response_def)
  obtain r where r: "artifact_route (rv_evidence env 0) (rv_workspace env) tid p = Inr r"
    using ok q not_ok_responses
    by (cases "artifact_route (rv_evidence env 0) (rv_workspace env) tid p")
      (auto simp: artifact_download_response_def)
  obtain bytes where b: "rv_read_bytes env (lar_path r) = Inr bytes"
    using ok q r not_ok_responses
    by (cases "rv_read_bytes env (lar_path r)") (auto simp: artifact_download_response_def)
  from route_contained [OF r] obtain dir where
    "path_eq (lar_relative_path r) p" "in_manifest (rv_evidence env 0) (rv_workspace env) tid r" "components dir = components (tasks_dir (rv_workspace env)) @ [Normal tid]"
    "route_inside (rv_evidence env 0) dir r" by blast
  with q r b resp show ?thesis
    by (intro exI [of _ tid] exI [of _ p] exI [of _ r] exI [of _ bytes] exI [of _ dir])
      (simp add: artifact_download_response_def)
qed

section \<open>What ends the server, and what the decoder accepts\<close>

text \<open>
  An error of one connection ends the loop: a blank request line, a line that is not UTF-8, or a
  client that closes before it has read its answer stops the server for everyone.
\<close>

lemma server_ends_on_blank_line:
  assumes "cn_clone_error cn = None" and "cn_read_error cn = None" and "cn_bytes cn = crlf @ rest"
  shows "serve_connections env n (Inr cn # cs) s =
    Some (Inl (StateErr ''review request line is malformed''), [], s)"
proof -
  have "conn_line None (crlf @ rest) = (Inr crlf, rest)"
    by (simp add: conn_line_def read_line_def crlf_def)
  moreover have "split_whitespace crlf = []" by code_simp
  ultimately have "read_http_request cn = Inl (StateErr ''review request line is malformed'')"
    using assms by (simp add: read_http_request_def)
  then show ?thesis using assms by (simp add: handle_review_http_stream_def)
qed

lemma server_ends_on_closed_client:
  assumes "cn_clone_error cn = None" and "read_http_request cn = Inr req" and "cn_write_error cn = Some err"
    and "review_http_response (env n) req s = Some (resp, s')"
  shows "serve_connections env n (Inr cn # cs) s =
    Some (Inl (StateErr (''failed to write review response: '' @ err)), [], s')"
  using assms by (simp add: handle_review_http_stream_def)

text \<open>
  The decoder reads a plus sign as part of a hexadecimal number, turns every byte of a character
  beyond ASCII into a character of its own, and paths of artifacts are decoded twice.
\<close>

lemma signed_hex_accepted: "url_decode_path_component ''%+F'' = Inr [CHR 0x0F]"
  by code_simp

lemma characters_split:
  "url_decode_path_component [CHR 0xC3, CHR 0xA9] = Inr [CHR 0xC3, CHR 0x83, CHR 0xC2, CHR 0xA9]"
  by code_simp

lemma artifact_decoded_twice: "artifact_request ''/artifact/t/a%252Fb'' = Inr (''t'', ''a/b'')"
  by code_simp

text \<open>Letters, digits and the other unreserved characters stay as they are.\<close>

lemma unreserved_kept:
  "list_all (\<lambda>c. byte c < 128 \<and> c \<noteq> CHR ''%'' \<and> c \<noteq> CHR ''+'') s \<Longrightarrow> url_decode_path_component s = Inr s"
  by (induction s rule: url_decode_path_component.induct) (auto simp: char_from_byte_def rbind_def)

section \<open>A sample server\<close>

definition sample_review_store :: "approval_record store_env" where
  "sample_review_store =
     \<lparr>sv_workspace = ''/w'', sv_encode = Inr, sv_decode = Inr, sv_io_error = (\<lambda>_. None),
      sv_missing = ''missing'', sv_now = int, sv_clock = id, sv_fresh = (\<lambda>_. ''a2''),
      sv_world = no_world\<rparr>"

definition sample_review_env :: "approval_record review_env" where
  "sample_review_env =
     \<lparr>rv_store = sample_review_store, rv_evidence = (\<lambda>_. sample_evidence),
      rv_index_io = \<lparr>ix_mkdir = (\<lambda>_. Inr ()), ix_pretty = (\<lambda>_. Inr ''I''), ix_parse = (\<lambda>_. Inl ''none''),
        ix_write = (\<lambda>_ _. None)\<rparr>,
      rv_json = (\<lambda>_. Inr ''J''), rv_read_bytes = (\<lambda>_. Inr ''data''), rv_clock = (\<lambda>_. ''now'')\<rparr>"

definition sample_review_state :: "approval_record review_state" where
  "sample_review_state = \<lparr>rw_approvals = sample_store, rw_index = Inl ''none''\<rparr>"

theorem review_changes_only_by_post_witness:
  "\<exists>resp s'. review_http_response sample_review_env
         \<lparr>hr_method = ''POST'', hr_path = ''/approval/a1/deny''\<rparr> sample_review_state = Some (resp, s')
     \<and> resolved_by_review (rv_store sample_review_env) ''a1'' ADenied
         (approvals_of sample_review_state) (approvals_of s')"
proof -
  let ?req = "\<lparr>hr_method = ''POST'', hr_path = ''/approval/a1/deny''\<rparr>"
  let ?path = "''/approval/a1/deny''"
  have q: "quiet_env sample_review_env"
    by (simp add: quiet_env_def sample_review_env_def sample_review_store_def no_world_def)
  obtain r a where a: "resolve_review_approval_path sample_review_env ?path sample_store = Some (r, a)"
    and changed: "st_dir a \<noteq> st_dir sample_store"
  proof -
    have "case resolve_review_approval_path sample_review_env ?path sample_store of
        None \<Rightarrow> False | Some (r, a) \<Rightarrow> st_dir a \<noteq> st_dir sample_store"
      by code_simp
    with that show ?thesis by (auto split: option.splits)
  qed
  obtain resp s' where resp: "review_http_response sample_review_env ?req sample_review_state = Some (resp, s')"
    and s': "approvals_of s' = st_dir a"
    using a by (simp add: review_http_response_def resolve_form_response_def on_approvals_def answer_def
        approvals_of_def sample_review_state_def)
  have "approvals_of s' \<noteq> approvals_of sample_review_state"
    using changed s' by (simp add: approvals_of_def sample_review_state_def)
  with review_changes_only_by_post [OF q resp] obtain aid d where n: "names_approval ?req aid d"
    and e: "resolved_by_review (rv_store sample_review_env) aid d (approvals_of sample_review_state) (approvals_of s')"
    by blast
  have "without_query ?path = ''/approval/a1/deny''" by code_simp
  with n obtain u where u: "url_decode_path_component u = Inr aid" "u = ''a1''" "d = ADenied"
    by (auto simp: names_approval_def decision_route_def append_eq_Cons_conv Cons_eq_append_conv)
  have "url_decode_path_component ''a1'' = Inr ''a1''" by code_simp
  with u e resp show ?thesis by auto
qed

theorem download_contained_witness:
  "\<exists>bytes s'. review_http_response sample_review_env
     \<lparr>hr_method = ''GET'', hr_path = ''/artifact/task-1/artifacts/a''\<rparr> sample_review_state =
     Some (http_response ''200 OK'' ''application/octet-stream'' bytes, s')"
proof -
  let ?req = "\<lparr>hr_method = ''GET'', hr_path = ''/artifact/task-1/artifacts/a''\<rparr>"
  have ok: "prefix ''HTTP/1.1 200'' (artifact_download_response sample_review_env (hr_path ?req))"
    by code_simp
  have resp: "review_http_response sample_review_env ?req sample_review_state =
      Some (artifact_download_response sample_review_env (hr_path ?req), sample_review_state)"
    by (simp add: review_http_response_def answer_def)
  from download_contained [OF _ _ resp ok] resp show ?thesis by auto
qed

end
