(* ===== verification/Cli_Team.thy ===== *)
theory Cli_Team
  imports Team_Access Review_Server
begin

text \<open>
  The commands of \<open>crates/taskfence-cli/src/main.rs\<close> that use the team state (\<open>team ...\<close> and the
  migration of local evidence), and those that write a file from evidence: the compliance report,
  the state index and the review page. A command returns what it prints.
\<close>

section \<open>Paths\<close>

datatype cwd_answer = CwdOk path | CwdNotUtf8 string | CwdFailed string

definition make_absolute_utf8 :: "cwd_answer \<Rightarrow> path \<Rightarrow> path result" where
  "make_absolute_utf8 cwd p =
     (if is_absolute p then Inr p
      else case cwd of
             CwdFailed err \<Rightarrow> Inl (Config (''failed to read cwd: '' @ err))
           | CwdNotUtf8 shown \<Rightarrow> Inl (Config (''cwd is not valid UTF-8: '' @ shown))
           | CwdOk c \<Rightarrow> Inr (path_join c p))"

definition artifact_refs_from_task_dir :: "evidence_files \<Rightarrow> path \<Rightarrow> artifact_refs" where
  "artifact_refs_from_task_dir ev dir =
     (let maybe = (\<lambda>name. let p = path_join dir name in if is_file ev p then Some p else None);
          spool = path_join dir ''gateway-spool''
      in \<lparr>af_task_dir = dir, af_resolved_task = maybe ''task.resolved.json'',
          af_events = maybe ''events.jsonl'', af_stdout = maybe ''stdout.log'',
          af_stderr = maybe ''stderr.log'', af_diff = maybe ''diff.patch'', af_report = maybe ''report.md'',
          af_gateway_spool = (case ev_metadata ev spool of Stat _ \<Rightarrow> Some spool | _ \<Rightarrow> None)\<rparr>)"

section \<open>Files from evidence\<close>

definition show_compliance ::
  "evidence_files \<Rightarrow> artifact_io \<Rightarrow> (time \<Rightarrow> string) \<Rightarrow> cwd_answer \<Rightarrow> path \<Rightarrow> task_id \<Rightarrow> path option \<Rightarrow>
   string stored" where
  "show_compliance ev io clock cwd workspace0 tid out =
     sbind (slift (make_absolute_utf8 cwd workspace0)) (\<lambda>workspace.
     sbind (slift (read_inputs ev workspace tid)) (\<lambda>inputs.
     sbind (slift (read_events ev workspace tid)) (\<lambda>events.
     sbind (slift (case out of
        Some p \<Rightarrow> make_absolute_utf8 cwd p
      | None \<Rightarrow> Inr (path_join (path_join (tev_task_dir events) ''artifacts'') ''compliance-report.md''))) (\<lambda>target.
     sbind (generate_compliance io clock (ti_task inputs)
              (artifact_refs_from_task_dir ev (tev_task_dir events)) (tev_events events) target) (\<lambda>p.
       sreturn (''Compliance report written'' @ nl @ ''  task: '' @ tid @ nl @
         ''  events: '' @ dec_digits (length (tev_events events)) @ nl @ ''  report: '' @ p @ nl))))))"

definition state_index_json ::
  "evidence_files \<Rightarrow> index_io \<Rightarrow> (local_state_index \<Rightarrow> string + string) \<Rightarrow> path \<Rightarrow> bool \<Rightarrow> index_file \<Rightarrow>
   string result \<times> index_file" where
  "state_index_json ev ix pretty workspace read_only file =
     (let (r, file') = (if read_only then (read_index ix workspace file, file)
                        else refresh_index ev ix workspace file)
      in (rbind r (\<lambda>index.
            case pretty index of
              Inr s \<Rightarrow> Inr s
            | Inl err \<Rightarrow> Inl (StateErr (''failed to serialize local API JSON: '' @ err))), file'))"

record page_io =
  pg_mkdir :: "path \<Rightarrow> string + unit"
  pg_write :: "path \<Rightarrow> (string \<times> nat) option"

definition save_review_page :: "page_io \<Rightarrow> path \<Rightarrow> path option \<Rightarrow> string \<Rightarrow> path stored" where
  "save_review_page io workspace out html fs =
     (let p = (case out of Some q \<Rightarrow> q | None \<Rightarrow> path_join workspace ''.taskfence/review/index.html'')
      in case (case path_parent p of
                 None \<Rightarrow> Inr ()
               | Some parent \<Rightarrow>
                   (case pg_mkdir io parent of
                      Inr _ \<Rightarrow> Inr ()
                    | Inl err \<Rightarrow>
                        Inl (ArtifactErr (''failed to create review directory '' @ parent @ '': '' @ err)))) of
           Inl err \<Rightarrow> (Inl err, fs)
         | Inr _ \<Rightarrow>
             (case pg_write io p of
                Some (err, n) \<Rightarrow>
                  (Inl (ArtifactErr (''failed to write review page '' @ p @ '': '' @ err)),
                   fs(p \<mapsto> take n html))
              | None \<Rightarrow> (Inr p, fs(p \<mapsto> html))))"

definition write_review_page ::
  "'c review_env \<Rightarrow> page_io \<Rightarrow> path option \<Rightarrow> 'c store_state \<times> files \<Rightarrow>
   (path result \<times> 'c store_state \<times> files) option" where
  "write_review_page env io out s =
     (case review_page_html env (fst s) of
        None \<Rightarrow> None
      | Some (Inl err, a) \<Rightarrow> Some (Inl err, a, snd s)
      | Some (Inr html, a) \<Rightarrow>
          (let (r, fs) = save_review_page io (rv_workspace env) out html (snd s) in Some (r, a, fs)))"

section \<open>The team service of a state file\<close>

definition default_grants :: "rbac_grant list" where
  "default_grants =
     [\<lparr>rg_actor = ''viewer'', rg_role = Viewer\<rparr>, \<lparr>rg_actor = ''approver'', rg_role = Approver\<rparr>,
      \<lparr>rg_actor = ''operator'', rg_role = Operator\<rparr>, \<lparr>rg_actor = ''auditor'', rg_role = Auditor\<rparr>,
      \<lparr>rg_actor = ''admin'', rg_role = Admin\<rparr>]"

definition default_local_team_policy :: "cwd_answer \<Rightarrow> string \<Rightarrow> organization_policy" where
  "default_local_team_policy cwd organization =
     \<lparr>op_organization = organization, op_grants = default_grants, op_require_approval_owner = True,
      op_allowed_artifact_roots =
        [case make_absolute_utf8 cwd ''.taskfence/team/artifacts'' of
           Inr p \<Rightarrow> p | Inl _ \<Rightarrow> ''.taskfence/team/artifacts'']\<rparr>"

text \<open>\<open>disk\<close> is what reading and parsing a state file gives; a missing file is \<open>None\<close>.\<close>

definition open_local_team_service ::
  "cwd_answer \<Rightarrow> (path \<Rightarrow> (taskfence_error + file_team_state) option) \<Rightarrow> path \<Rightarrow> string \<Rightarrow>
   (organization_policy \<times> team_store) result" where
  "open_local_team_service cwd disk state_file0 organization0 =
     (let organization = trim organization0
      in if organization = [] then Inl (StateErr ''team organization must not be empty'')
         else rbind (make_absolute_utf8 cwd state_file0) (\<lambda>state_file.
              let policy = default_local_team_policy cwd organization
              in rbind (team_open policy state_file (disk state_file)) (\<lambda>store. Inr (policy, store))))"

fun worker_lease_state_label :: "worker_lease_state \<Rightarrow> string" where
  "worker_lease_state_label LeasePending = ''pending''"
| "worker_lease_state_label (Leased worker_id) = ''leased:'' @ worker_id"
| "worker_lease_state_label LeaseCompleted = ''completed''"
| "worker_lease_state_label (LeaseFailed reason) = ''failed:'' @ reason"

definition print_worker_lease :: "string \<Rightarrow> worker_lease \<Rightarrow> string" where
  "print_worker_lease label lease =
     label @ nl @ ''  task: '' @ wl_task_id lease @ nl @ ''  organization: '' @ wl_organization lease @ nl @
     ''  state: '' @ worker_lease_state_label (wl_state lease) @ nl"

definition push_stdout_list :: "string \<Rightarrow> string list \<Rightarrow> string" where
  "push_stdout_list label vs =
     (if vs = [] then ''  '' @ label @ '': -'' @ nl
      else ''  '' @ label @ '':'' @ nl @ concat (map (\<lambda>v. ''    - '' @ v @ nl) vs))"

definition show_team_state :: "organization_policy \<Rightarrow> team_io \<Rightarrow> string team_op" where
  "show_team_state policy io =
     sbind (service_list_tasks policy (local_backend io) ''viewer'') (\<lambda>tasks s.
       (Inr (''Team state'' @ nl @ ''  organization: '' @ op_organization policy @ nl @
          ''  state_file: '' @ lt_path s @ nl @ ''  tasks: '' @ dec_digits (length tasks) @ nl), s))"

definition team_worker_enqueue ::
  "organization_policy \<Rightarrow> team_io \<Rightarrow> string \<Rightarrow> task_id \<Rightarrow> string team_op" where
  "team_worker_enqueue policy io actor tid =
     sbind (service_enqueue_task policy (local_backend io) actor tid) (\<lambda>lease.
       sreturn (print_worker_lease ''Team task enqueued'' lease))"

definition team_worker_lease ::
  "organization_policy \<Rightarrow> team_io \<Rightarrow> string \<Rightarrow> string \<Rightarrow> string team_op" where
  "team_worker_lease policy io actor worker_id =
     sbind (service_lease_next policy (local_backend io) actor worker_id) (\<lambda>found.
       sreturn (case found of
         Some lease \<Rightarrow> print_worker_lease ''Team task leased'' lease
       | None \<Rightarrow> ''No pending team tasks'' @ nl))"

definition team_worker_complete ::
  "organization_policy \<Rightarrow> team_io \<Rightarrow> string \<Rightarrow> task_id \<Rightarrow> string \<Rightarrow> string team_op" where
  "team_worker_complete policy io actor tid worker_id =
     sbind (service_complete_task policy (local_backend io) actor tid worker_id) (\<lambda>lease.
       sreturn (print_worker_lease ''Team task completed'' lease))"

definition team_worker_fail ::
  "organization_policy \<Rightarrow> team_io \<Rightarrow> string \<Rightarrow> task_id \<Rightarrow> string \<Rightarrow> string \<Rightarrow> string team_op" where
  "team_worker_fail policy io actor tid worker_id reason =
     sbind (service_fail_task policy (local_backend io) actor tid worker_id reason) (\<lambda>lease.
       sreturn (print_worker_lease ''Team task failed'' lease))"

definition print_audit_export :: "team_audit_export_record \<Rightarrow> string" where
  "print_audit_export record =
     ''Team audit export recorded'' @ nl @ ''  organization: '' @ tae_organization record @ nl @
     ''  requested_by: '' @ tae_requested_by record @ nl @
     ''  sink: '' @ sk_destination_ref (tae_sink record) @ nl @
     (case tae_status record of
        ExportCompleted artifact \<Rightarrow> ''  status: completed'' @ nl @ ''  artifact: '' @ artifact @ nl
      | ExportFailed reason \<Rightarrow> ''  status: failed'' @ nl @ ''  reason: '' @ reason @ nl
      | Planned \<Rightarrow> ''  status: planned'' @ nl)"

definition team_audit_export ::
  "export_io \<Rightarrow> organization_policy \<Rightarrow> team_io \<Rightarrow> string \<Rightarrow> task_id \<Rightarrow> audit_export_sink_kind \<Rightarrow> string \<Rightarrow>
   string \<Rightarrow> string team_op" where
  "team_audit_export ei policy io actor tid kind destination_ref credential_env =
     sbind (slift (audit_export_sink_config_new kind destination_ref credential_env)) (\<lambda>sink.
     sbind (service_export_task_audit ei policy (local_backend io) actor tid sink) (\<lambda>record.
       sreturn (print_audit_export record)))"

text \<open>The migration puts one task after the other; what was put before an error stays.\<close>

fun put_summaries ::
  "evidence_files \<Rightarrow> organization_policy \<Rightarrow> team_io \<Rightarrow> string \<Rightarrow> path \<Rightarrow> task_id list \<Rightarrow> unit team_op" where
  "put_summaries ev policy io actor workspace [] = sreturn ()"
| "put_summaries ev policy io actor workspace (tid # tids) =
     sbind (slift (read_task_summary ev workspace tid)) (\<lambda>summary.
     sbind (service_put_task policy (local_backend io) actor
              \<lparr>tt_organization = op_organization policy, tt_task_id = tid, tt_status = ts_status summary,
               tt_goal = ts_goal summary, tt_evidence_dir = ts_task_dir summary\<rparr>) (\<lambda>_.
       put_summaries ev policy io actor workspace tids))"

definition migrate_tasks ::
  "evidence_files \<Rightarrow> organization_policy \<Rightarrow> team_io \<Rightarrow> string \<Rightarrow> path \<Rightarrow>
   local_to_team_migration_plan \<Rightarrow> string team_op" where
  "migrate_tasks ev policy io actor workspace migration =
     sbind (put_summaries ev policy io actor workspace (mg_tasks migration)) (\<lambda>_.
       sreturn (''Team migration planned'' @ nl @ ''  organization: '' @ op_organization policy @ nl @
         ''  workspace: '' @ workspace @ nl @ ''  tasks: '' @ dec_digits (length (mg_tasks migration)) @ nl @
         push_stdout_list ''warnings'' (mg_warnings migration)))"

datatype team_command =
    TeamShow
  | TeamEnqueue string task_id
  | TeamLease string string
  | TeamComplete string task_id string
  | TeamFail string task_id string string
  | TeamAuditExport string task_id audit_export_sink_kind string string

fun team_command_op ::
  "export_io \<Rightarrow> organization_policy \<Rightarrow> team_io \<Rightarrow> team_command \<Rightarrow> string team_op" where
  "team_command_op ei policy io TeamShow = show_team_state policy io"
| "team_command_op ei policy io (TeamEnqueue actor tid) = team_worker_enqueue policy io actor tid"
| "team_command_op ei policy io (TeamLease actor w) = team_worker_lease policy io actor w"
| "team_command_op ei policy io (TeamComplete actor tid w) = team_worker_complete policy io actor tid w"
| "team_command_op ei policy io (TeamFail actor tid w reason) = team_worker_fail policy io actor tid w reason"
| "team_command_op ei policy io (TeamAuditExport actor tid kind destination credential) =
     team_audit_export ei policy io actor tid kind destination credential"

text \<open>A command with the store that it opened, before and after.\<close>

definition run_team_command ::
  "cwd_answer \<Rightarrow> (path \<Rightarrow> (taskfence_error + file_team_state) option) \<Rightarrow> export_io \<Rightarrow> team_io \<Rightarrow> path \<Rightarrow>
   string \<Rightarrow> team_command \<Rightarrow> string result \<times> (team_store \<times> team_store) option" where
  "run_team_command cwd disk ei io state_file organization command =
     (case open_local_team_service cwd disk state_file organization of
        Inl err \<Rightarrow> (Inl err, None)
      | Inr (policy, s) \<Rightarrow>
          (let (r, s') = team_command_op ei policy io command s in (r, Some (s, s'))))"

definition migrate_local_to_team ::
  "cwd_answer \<Rightarrow> (path \<Rightarrow> (taskfence_error + file_team_state) option) \<Rightarrow> evidence_files \<Rightarrow> team_io \<Rightarrow>
   path \<Rightarrow> path \<Rightarrow> string \<Rightarrow> string \<Rightarrow> string result \<times> (team_store \<times> team_store) option" where
  "migrate_local_to_team cwd disk ev io workspace0 state_file organization actor =
     (case rbind (make_absolute_utf8 cwd workspace0) (\<lambda>workspace.
           rbind (migration_plan ev workspace organization) (\<lambda>migration.
           rbind (open_local_team_service cwd disk state_file organization) (\<lambda>(policy, s).
             Inr (workspace, migration, policy, s)))) of
        Inl err \<Rightarrow> (Inl err, None)
      | Inr (workspace, migration, policy, s) \<Rightarrow>
          (let (r, s') = migrate_tasks ev policy io actor workspace migration s in (r, Some (s, s'))))"

section \<open>Who can change the team state\<close>

fun command_actor :: "team_command \<Rightarrow> string" where
  "command_actor TeamShow = ''viewer''"
| "command_actor (TeamEnqueue actor _) = actor"
| "command_actor (TeamLease actor _) = actor"
| "command_actor (TeamComplete actor _ _) = actor"
| "command_actor (TeamFail actor _ _ _) = actor"
| "command_actor (TeamAuditExport actor _ _ _ _) = actor"

fun command_actors :: "team_command \<Rightarrow> string list" where
  "command_actors TeamShow = [''viewer'']"
| "command_actors (TeamAuditExport _ _ _ _ _) = [''auditor'', ''admin'']"
| "command_actors _ = [''operator'', ''admin'']"

definition has_effect :: "'a result \<Rightarrow> 'b \<Rightarrow> 'b \<Rightarrow> bool" where
  "has_effect r s s' \<longleftrightarrow> is_ok r \<or> s' \<noteq> s"

lemma no_access:
  assumes "\<And>role. actor_role policy actor = Some role \<Longrightarrow> role \<notin> set (method_roles m)"
  shows "\<exists>err. ensure_access policy actor m res = Inl err"
  using assms ensure_access_ok [of policy actor m res]
  by (cases "ensure_access policy actor m res") auto

lemma default_role:
  "actor_role (default_local_team_policy cwd organization) actor = Some role \<Longrightarrow>
   (role = Viewer \<longrightarrow> actor = ''viewer'') \<and> (role = Approver \<longrightarrow> actor = ''approver'')
   \<and> (role = Operator \<longrightarrow> actor = ''operator'') \<and> (role = Auditor \<longrightarrow> actor = ''auditor'')
   \<and> (role = Admin \<longrightarrow> actor = ''admin'')"
  by (auto simp: actor_role_def default_local_team_policy_def default_grants_def split: if_splits)

fun command_method :: "team_command \<Rightarrow> team_api_method" where
  "command_method TeamShow = Read"
| "command_method (TeamAuditExport _ _ _ _ _) = ExportAudit"
| "command_method _ = EnqueueTask"

lemma command_noop:
  assumes "\<And>res. \<exists>err. ensure_access policy (command_actor cmd) (command_method cmd) res = Inl err"
  shows "\<exists>err. team_command_op ei policy io cmd s = (Inl err, s)"
proof -
  obtain err where e: "\<And>res. ensure_access policy (command_actor cmd) (command_method cmd) res = Inl (err res)"
    using assms by metis
  show ?thesis
    using e
    by (cases cmd)
      (auto simp: show_team_state_def team_worker_enqueue_def team_worker_lease_def team_worker_complete_def
        team_worker_fail_def team_audit_export_def service_defs op_simps split: sum.split)
qed

lemma put_summaries_noop:
  assumes "\<And>res. \<exists>err. ensure_access policy actor EnqueueTask res = Inl err"
  shows "snd (put_summaries ev policy io actor workspace tids s) = s"
proof (cases tids)
  case (Cons tid rest)
  obtain err where "ensure_access policy actor EnqueueTask TaskList = Inl err" using assms by blast
  with Cons show ?thesis
    by (cases "read_task_summary ev workspace tid") (auto simp: service_put_task_def op_simps)
qed (simp add: sreturn_def)

lemma opened_policy:
  "open_local_team_service cwd disk state_file organization = Inr (policy, s) \<Longrightarrow>
   policy = default_local_team_policy cwd (trim organization)"
  by (auto simp: open_local_team_service_def Let_def rbind_Inr_iff split: if_splits)

lemma default_role_actor:
  assumes "actor_role (default_local_team_policy cwd organization) (command_actor cmd) = Some role"
    and "role \<in> set (method_roles (command_method cmd))"
  shows "command_actor cmd \<in> set (command_actors cmd)"
  using default_role [OF assms(1)] assms(2)
  by (cases cmd) auto

lemma run_team_commandD:
  assumes "run_team_command cwd disk ei io state_file organization cmd = (r, Some (s, s'))"
  shows "\<exists>policy. open_local_team_service cwd disk state_file organization = Inr (policy, s)
    \<and> team_command_op ei policy io cmd s = (r, s')"
proof (cases "open_local_team_service cwd disk state_file organization")
  case (Inl err)
  with assms show ?thesis by (simp add: run_team_command_def)
next
  case (Inr opened)
  obtain policy s0 where p: "opened = (policy, s0)" by (cases opened)
  obtain x t where x: "team_command_op ei policy io cmd s0 = (x, t)" by (cases "team_command_op ei policy io cmd s0")
  from assms Inr p x have "s0 = s \<and> x = r \<and> t = s'" by (simp add: run_team_command_def)
  with Inr p x show ?thesis by blast
qed

text \<open>
  Through the command line only the built-in operators change the team state. A team command
  has an effect (it succeeds, or the state it opened changes) only when it is given as
  \<open>operator\<close> or \<open>admin\<close> to queue, lease or finish a task, as \<open>auditor\<close> or \<open>admin\<close> to export, and
  always as \<open>viewer\<close> to show. Nothing checks who the caller is: the actor is an argument of the
  command.
\<close>

theorem team_command_needs_role:
  assumes "run_team_command cwd disk ei io state_file organization cmd = (r, Some (s, s'))"
    and "has_effect r s s'"
  shows "command_actor cmd \<in> set (command_actors cmd)"
proof (rule ccontr)
  obtain policy where
    o: "open_local_team_service cwd disk state_file organization = Inr (policy, s)"
    and op: "team_command_op ei policy io cmd s = (r, s')"
    using run_team_commandD [OF assms(1)] by blast
  assume "\<not> ?thesis"
  then have no_role: "role \<notin> set (method_roles (command_method cmd))"
    if "actor_role policy (command_actor cmd) = Some role" for role
    using default_role_actor [of cwd "trim organization" cmd role] that opened_policy [OF o] by blast
  have "\<exists>err. ensure_access policy (command_actor cmd) (command_method cmd) res = Inl err" for res
    using no_role by (rule no_access)
  from command_noop [OF this, of ei io s] op assms(2) show False
    by (auto simp: has_effect_def)
qed

text \<open>A migration changes the state only as operator or admin.\<close>

lemma migration_needs_role:
  assumes "migrate_local_to_team cwd disk ev io workspace state_file organization actor = (r, Some (s, s'))"
    and "s' \<noteq> s"
  shows "actor \<in> {''operator'', ''admin''}"
proof (rule ccontr)
  from assms(1) obtain w migration policy where
    o: "open_local_team_service cwd disk state_file organization = Inr (policy, s)"
    and op: "migrate_tasks ev policy io actor w migration s = (r, s')"
    unfolding migrate_local_to_team_def
    by (cases "rbind (make_absolute_utf8 cwd workspace) (\<lambda>workspace.
           rbind (migration_plan ev workspace organization) (\<lambda>migration.
           rbind (open_local_team_service cwd disk state_file organization) (\<lambda>(policy, s).
             Inr (workspace, migration, policy, s))))") (auto simp: rbind_Inr_iff split: prod.splits)
  assume "\<not> ?thesis"
  then have no_role: "role \<notin> set (method_roles EnqueueTask)" if "actor_role policy actor = Some role" for role
    using default_role [of cwd "trim organization" actor role] that opened_policy [OF o]
    by (cases role) auto
  have "\<exists>err. ensure_access policy actor EnqueueTask res = Inl err" for res
    using no_role by (rule no_access)
  from put_summaries_noop [OF this,
      where ev = ev and io = io and workspace = w and tids = "mg_tasks migration" and s = s] op assms(2) show False
    by (cases "put_summaries ev policy io actor w (mg_tasks migration) s")
      (auto simp: migrate_tasks_def op_simps split: sum.splits)
qed

theorem team_command_needs_role_witness:
  "\<exists>r s s'. run_team_command (CwdOk ''/srv'') (\<lambda>_. None) sample_export_io (Lease_Queue.sample_io None)
     ''team.json'' ''acme'' (TeamEnqueue ''operator'' ''t'') = (r, Some (s, s'))
     \<and> command_actor (TeamEnqueue ''operator'' ''t'') \<in> set (command_actors (TeamEnqueue ''operator'' ''t''))"
proof -
  let ?run = "run_team_command (CwdOk ''/srv'') (\<lambda>_. None) sample_export_io (Lease_Queue.sample_io None)
     ''team.json'' ''acme'' (TeamEnqueue ''operator'' ''t'')"
  have ok: "is_ok (fst ?run) \<and> snd ?run \<noteq> None" by code_simp
  then obtain s s' where "snd ?run = Some (s, s')" by auto
  then have run: "?run = (fst ?run, Some (s, s'))" by (metis prod.collapse)
  with team_command_needs_role [OF run] ok show ?thesis
    unfolding has_effect_def by blast
qed

end
