(* ===== verification/Cli_Show.thy ===== *)
theory Cli_Show
  imports Cli_Team Review_Safety
begin

text \<open>
  What the commands of \<open>crates/taskfence-cli/src/main.rs\<close> print when they succeed: the summaries of
  \<open>validate\<close>, \<open>init\<close>, \<open>gateway call\<close>, \<open>gateway spool\<close> and \<open>replay run\<close>, the approval commands and
  the choice of \<open>review\<close>. \<open>println!\<close> ends a line.
\<close>

definition shown :: "string \<Rightarrow> string \<Rightarrow> string" where
  "shown label v = ''  '' @ label @ '': '' @ v @ nl"

definition init_text :: "path \<Rightarrow> string" where
  "init_text p = ''Task file created'' @ nl @ shown ''path'' p"

definition init_task_file :: "init_io \<Rightarrow> path \<Rightarrow> string stored" where
  "init_task_file io p = sbind (write_starter_task_file io p) (\<lambda>_. sreturn (init_text p))"

definition print_validation_summary :: "validation_summary \<Rightarrow> string" where
  "print_validation_summary v =
     ''Task file valid'' @ nl @ shown ''id'' (vs_task_id v) @ shown ''workspace'' (vs_workspace v) @
     shown ''command'' (vs_agent_command v) @ shown ''command policy'' (vs_command_policy v) @
     shown ''image'' (vs_sandbox_image v) @ shown ''network'' (vs_network_mode v) @
     shown ''mounts'' (dec_digits (vs_mount_count v))"

definition validate_task_file ::
  "(path \<Rightarrow> resolved_task result) \<Rightarrow> glob_compiler \<Rightarrow> docker_runner \<Rightarrow> path \<Rightarrow> string result" where
  "validate_task_file load glob dr task_file =
     rbind (validate_task_file_summary load glob dr task_file) (\<lambda>v. Inr (print_validation_summary v))"

section \<open>Gateway\<close>

text \<open>The derived \<open>Debug\<close> text.\<close>

fun spool_state_debug :: "gateway_spool_response_state \<Rightarrow> string" where
  "spool_state_debug SpoolSucceeded = ''Succeeded''"
| "spool_state_debug SpoolFailed = ''Failed''"
| "spool_state_debug SpoolDenied = ''Denied''"
| "spool_state_debug SpoolTimedOut = ''TimedOut''"
| "spool_state_debug SpoolCancelled = ''Cancelled''"
| "spool_state_debug SpoolMalformedRequest = ''MalformedRequest''"
| "spool_state_debug SpoolUnsupportedAction = ''UnsupportedAction''"

definition shown_error :: "tool_execution_error \<Rightarrow> string" where
  "shown_error err = shown ''error'' (error_kind_debug (te_kind err) @ '': '' @ te_message err)"

text \<open>An error is shown before a result.\<close>

definition shown_execution :: "tool_execution \<Rightarrow> string" where
  "shown_execution x =
     (case (tx_result x, tx_error x) of
        (Some result, None) \<Rightarrow> shown ''result'' (tres_summary result)
      | (_, Some err) \<Rightarrow> shown_error err
      | (None, None) \<Rightarrow> shown ''result'' ''no result or error recorded'')"

definition print_gateway_call_summary ::
  "resolved_task \<Rightarrow> artifact_refs \<Rightarrow> tool_execution \<Rightarrow> task_status \<Rightarrow> path \<Rightarrow> string" where
  "print_gateway_call_summary task artifacts execution status report_path =
     ''Gateway call finished'' @ nl @ shown ''task'' (rt_id task) @
     shown ''status'' (format_status status) @ shown ''artifacts'' (af_task_dir artifacts) @
     shown ''report'' report_path @ shown_execution execution"

definition print_gateway_spool_summary ::
  "resolved_task \<Rightarrow> gateway_spool_response \<Rightarrow> path \<Rightarrow> string" where
  "print_gateway_spool_summary task response response_path =
     ''Gateway spool request processed'' @ nl @ shown ''task'' (rt_id task) @
     shown ''request'' (gsa_request_id response) @
     shown ''state'' (spool_state_debug (gsa_state response)) @ shown ''response'' response_path @
     (case gsa_execution response of
        Some execution \<Rightarrow> shown_execution execution
      | None \<Rightarrow> (case gsa_error response of Some err \<Rightarrow> shown_error err | None \<Rightarrow> []))"

section \<open>Replay, review and approvals\<close>

definition show_replay_run :: "replay_run_record \<Rightarrow> string" where
  "show_replay_run r =
     (let st = (\<lambda>s. case s of Some x \<Rightarrow> format_status x | None \<Rightarrow> ''-'')
      in ''Replay finished'' @ nl @ shown ''source'' (rn_source_task_id r) @
         shown ''replay'' (rn_replay_task_id r) @
         shown ''source_status'' (st (re_source_status (rn_evaluation r))) @
         shown ''replay_status'' (st (re_replay_status (rn_evaluation r))) @
         shown ''deterministic'' (if rn_deterministic r then ''true'' else ''false'') @
         push_stdout_list ''differing_fields'' (re_differing_fields (rn_evaluation r)) @
         push_stdout_list ''notes'' (re_notes (rn_evaluation r)))"

text \<open>What \<open>review\<close> does: serve on a port, or write the page.\<close>

datatype review_mode = ServeReview u16 | WriteReview "path option"

definition show_review :: "path option \<Rightarrow> bool \<Rightarrow> u16 \<Rightarrow> review_mode result" where
  "show_review out serve port =
     (if out \<noteq> None \<and> serve
      then Inl (Config ''--output and --serve cannot be used together'')
      else Inr (if serve then ServeReview port else WriteReview out))"

definition review_written_text :: "path \<Rightarrow> string" where
  "review_written_text p = ''Review page written'' @ nl @ shown ''path'' p"

definition serve_review_text :: "string \<Rightarrow> path \<Rightarrow> string" where
  "serve_review_text address workspace =
     ''Review page serving'' @ nl @ shown ''url'' (''http://'' @ address @ ''/'') @
     shown ''workspace'' workspace"

text \<open>\<open>serve_review_page\<close>: the answers of binding and of asking for the address come first.\<close>

definition serve_review_page ::
  "string + string + string \<Rightarrow> path \<Rightarrow> (nat \<Rightarrow> 'c review_env) \<Rightarrow> (string + connection) list \<Rightarrow>
   'c review_state \<Rightarrow> (unit result \<times> string \<times> string list \<times> 'c review_state) option" where
  "serve_review_page bound workspace env cs s =
     (case bound of
        Inl err \<Rightarrow> Some (Inl (StateErr (''failed to bind local review server: '' @ err)), [], [], s)
      | Inr (Inl err) \<Rightarrow> Some (Inl (StateErr (''failed to inspect review server: '' @ err)), [], [], s)
      | Inr (Inr address) \<Rightarrow>
          map_option (\<lambda>(r, out, s'). (r, serve_review_text address workspace, out, s'))
            (serve_connections env 0 cs s))"

fun decision_debug :: "approval_decision option \<Rightarrow> string" where
  "decision_debug None = ''None''"
| "decision_debug (Some Approved) = ''Some(Approved)''"
| "decision_debug (Some ADenied) = ''Some(Denied)''"
| "decision_debug (Some ATimedOut) = ''Some(TimedOut)''"

definition resolved_text :: "approval_record \<Rightarrow> string" where
  "resolved_text r =
     ''Approval resolved'' @ nl @ shown ''approval'' (ar_id r) @ shown ''task'' (ar_task_id r) @
     shown ''decision'' (decision_debug (ar_decision r))"

definition resolve_approval_command ::
  "'c store_env \<Rightarrow> approval_id \<Rightarrow> approval_decision \<Rightarrow> ('c, string) store_call" where
  "resolve_approval_command env aid decision =
     call_bind (store_resolve env aid decision) (\<lambda>r. call_returns (sreturn (resolved_text r)))"

section \<open>What they say\<close>

text \<open>
  \<open>approve\<close> and \<open>deny\<close> print the decision that was asked for, and only when it is the decision that
  the store now holds for a request that was undecided before.
\<close>

theorem resolve_approval_says_what_is_stored:
  assumes "store_codec env" and "resolve_approval_command env aid d s = Some (Inr text, s')"
  shows "\<exists>r0 r. known_in env aid (st_dir (observe env s)) = Some r0 \<and> ar_decision r0 = None
    \<and> known_in env aid (st_dir s') = Some r \<and> ar_decision r = Some d \<and> same_request r0 r
    \<and> text = resolved_text r"
proof -
  from assms(2) obtain r where r: "resolve_with_actor env aid d ''local-cli'' (Some ''cli'') s = Some (Inr r, s')"
    "text = resolved_text r"
    by (auto simp: resolve_approval_command_def store_resolve_def call_bind_apply call_returns_def sreturn_def
        split: option.splits sum.splits prod.splits)
  from store_codec.resolve_known [OF assms(1) r(1)] r(2) show ?thesis
    by (auto simp: store_codec.known_def [OF assms(1)])
qed

text \<open>An execution with an error is never shown as a result.\<close>

lemma shown_execution_error:
  "tx_error x = Some err \<Longrightarrow> shown_execution x = shown_error err"
  by (auto simp: shown_execution_def split: option.splits)

end
