(* ===== verification/Team_Postgres.thy ===== *)
theory Team_Postgres
  imports Lease_Queue
begin

text \<open>
  The Postgres backend of the team state (\<open>PostgresTeamStateStore\<close> of
  \<open>crates/taskfence-state/src/lib.rs\<close>): the statements that it sends with their parameters, what
  it makes of the answers, and what holds for every database. The database, the driver, the file
  system, SHA-256 and serde are parameters; an operation is a state transformer on the log of its
  calls, in which every call stands with its answer. \<open>Row::get\<close> panics on a value of another type,
  and a transaction that is dropped without a commit is rolled back, as the driver documents.
\<close>

section \<open>The driver\<close>

datatype sql_value = SqlText string | SqlNull | SqlBigint u64

type_synonym sql_row = "sql_value list"

record pg_error =
  pe_text :: string
  pe_code :: "string option"

datatype pg_call =
    PgBatch string "pg_error + unit"
  | PgExecute string "sql_value list" "pg_error + nat"
  | PgQuery string "sql_value list" "pg_error + sql_row list"
  | PgQueryOpt string "sql_value list" "pg_error + sql_row option"
  | PgBegin "pg_error + unit"
  | PgCommit "pg_error + unit"
  | PgRollback
  | PgCreateDirs path "string + unit"
  | PgWriteFile path string "string + unit"

record pg_env =
  px_connect :: "string \<Rightarrow> pg_error option"
  px_batch :: "pg_call list \<Rightarrow> string \<Rightarrow> pg_error + unit"
  px_execute :: "pg_call list \<Rightarrow> string \<Rightarrow> sql_value list \<Rightarrow> pg_error + nat"
  px_query :: "pg_call list \<Rightarrow> string \<Rightarrow> sql_value list \<Rightarrow> pg_error + sql_row list"
  px_query_opt :: "pg_call list \<Rightarrow> string \<Rightarrow> sql_value list \<Rightarrow> pg_error + sql_row option"
  px_begin :: "pg_call list \<Rightarrow> pg_error + unit"
  px_commit :: "pg_call list \<Rightarrow> pg_error + unit"
  px_create_dirs :: "pg_call list \<Rightarrow> path \<Rightarrow> string + unit"
  px_write :: "pg_call list \<Rightarrow> path \<Rightarrow> string \<Rightarrow> string + unit"
  px_sha256_hex :: "string \<Rightarrow> string"
  px_serialize_sink :: "audit_export_sink_config \<Rightarrow> string + string"
  px_serialize_status :: "team_audit_export_status \<Rightarrow> string + string"

text \<open>An operation returns, fails with an error, or panics.\<close>

datatype pg_fault = PgFails taskfence_error | PgPanics

type_synonym 'a pg_op = "pg_call list \<Rightarrow> (pg_fault + 'a) \<times> pg_call list"

fun plift :: "'a result \<Rightarrow> 'a pg_op" where
  "plift (Inl err) log = (Inl (PgFails err), log)"
| "plift (Inr x) log = (Inr x, log)"

definition postgres_state_error :: "pg_error \<Rightarrow> pg_fault" where
  "postgres_state_error err = PgFails (StateErr (''Postgres team state error: '' @ pe_text err))"

definition postgres_unique_violation :: "pg_error \<Rightarrow> bool" where
  "postgres_unique_violation err \<longleftrightarrow> pe_code err = Some ''23505''"

text \<open>One call: ask, write the call with its answer into the log, map the error.\<close>

definition pg_ask ::
  "(pg_call list \<Rightarrow> 'x + 'a) \<Rightarrow> ('x + 'a \<Rightarrow> pg_call) \<Rightarrow> ('x \<Rightarrow> pg_fault) \<Rightarrow> 'a pg_op" where
  "pg_ask ask entry fault log =
     (let r = ask log
      in (case r of Inl e \<Rightarrow> Inl (fault e) | Inr x \<Rightarrow> Inr x, log @ [entry r]))"

definition pg_execute_or ::
  "pg_env \<Rightarrow> (pg_error \<Rightarrow> pg_fault) \<Rightarrow> string \<Rightarrow> sql_value list \<Rightarrow> nat pg_op" where
  "pg_execute_or env fault sql params =
     pg_ask (\<lambda>h. px_execute env h sql params) (PgExecute sql params) fault"

abbreviation pg_execute :: "pg_env \<Rightarrow> string \<Rightarrow> sql_value list \<Rightarrow> nat pg_op" where
  "pg_execute env \<equiv> pg_execute_or env postgres_state_error"

definition pg_query_opt_or ::
  "pg_env \<Rightarrow> string \<Rightarrow> sql_value list \<Rightarrow> sql_row option pg_op" where
  "pg_query_opt_or env sql params =
     pg_ask (\<lambda>h. px_query_opt env h sql params) (PgQueryOpt sql params) postgres_state_error"

definition pg_query :: "pg_env \<Rightarrow> string \<Rightarrow> sql_value list \<Rightarrow> sql_row list pg_op" where
  "pg_query env sql params =
     pg_ask (\<lambda>h. px_query env h sql params) (PgQuery sql params) postgres_state_error"

definition pg_rollback :: "unit pg_op" where
  "pg_rollback log = (Inr (), log @ [PgRollback])"

text \<open>A step inside a transaction: when it fails or panics, the transaction is dropped.\<close>

definition in_transaction :: "'a pg_op \<Rightarrow> 'a pg_op" where
  "in_transaction m = stry m (\<lambda>fault. sbind pg_rollback (\<lambda>_. sfail fault)) sreturn"

text \<open>\<open>Row::get\<close> for \<open>String\<close> and \<open>Option<String>\<close>.\<close>

definition row_text :: "sql_row \<Rightarrow> nat \<Rightarrow> string pg_op" where
  "row_text row i =
     (if i < length row then (case row ! i of SqlText t \<Rightarrow> sreturn t | _ \<Rightarrow> sfail PgPanics)
      else sfail PgPanics)"

definition row_optional_text :: "sql_row \<Rightarrow> nat \<Rightarrow> string option pg_op" where
  "row_optional_text row i =
     (if i < length row
      then (case row ! i of SqlText t \<Rightarrow> sreturn (Some t) | SqlNull \<Rightarrow> sreturn None
              | _ \<Rightarrow> sfail PgPanics)
      else sfail PgPanics)"

fun sql_optional :: "string option \<Rightarrow> sql_value" where
  "sql_optional None = SqlNull"
| "sql_optional (Some t) = SqlText t"

section \<open>Statements\<close>

definition sql_ident :: "string \<Rightarrow> string result" where
  "sql_ident v =
     rbind (validate_schema_name v) (\<lambda>_.
       Inr ([CHR 0x22] @ concat (map (\<lambda>c. if c = CHR 0x22 then [c, c] else [c]) v) @ [CHR 0x22]))"

text \<open>A line break of a statement with the indentation of the next line.\<close>

definition sql_line :: "nat \<Rightarrow> string \<Rightarrow> string" where
  "sql_line n t = CHR 0x0A # replicate n (CHR 0x20) @ t"

definition schema_statements :: "string \<Rightarrow> string list" where
  "schema_statements schema =
     [''CREATE SCHEMA IF NOT EXISTS '' @ schema,
      ''CREATE TABLE IF NOT EXISTS '' @ schema @ ''.tasks ('' @
        sql_line 20 ''organization TEXT NOT NULL,'' @ sql_line 20 ''task_id TEXT NOT NULL,'' @
        sql_line 20 ''status TEXT,'' @ sql_line 20 ''goal TEXT,'' @
        sql_line 20 ''evidence_dir TEXT NOT NULL,'' @
        sql_line 20 ''PRIMARY KEY (organization, task_id)'' @ sql_line 16 '')'',
      ''CREATE TABLE IF NOT EXISTS '' @ schema @ ''.worker_leases ('' @
        sql_line 20 ''organization TEXT NOT NULL,'' @ sql_line 20 ''task_id TEXT NOT NULL,'' @
        sql_line 20 ''state TEXT NOT NULL,'' @ sql_line 20 ''worker_id TEXT,'' @
        sql_line 20 ''failure_reason TEXT,'' @
        sql_line 20 ''PRIMARY KEY (organization, task_id)'' @ sql_line 16 '')'',
      ''CREATE TABLE IF NOT EXISTS '' @ schema @ ''.artifacts ('' @
        sql_line 20 ''organization TEXT NOT NULL,'' @ sql_line 20 ''task_id TEXT NOT NULL,'' @
        sql_line 20 ''path TEXT NOT NULL,'' @ sql_line 20 ''size_bytes BIGINT NOT NULL,'' @
        sql_line 20 ''sha256 TEXT NOT NULL,'' @
        sql_line 20 ''PRIMARY KEY (organization, task_id, path)'' @ sql_line 16 '')'',
      ''CREATE TABLE IF NOT EXISTS '' @ schema @ ''.audit_exports ('' @
        sql_line 20 ''id BIGSERIAL PRIMARY KEY,'' @ sql_line 20 ''organization TEXT NOT NULL,'' @
        sql_line 20 ''sink_json TEXT NOT NULL,'' @ sql_line 20 ''requested_by TEXT NOT NULL,'' @
        sql_line 20 ''status_json TEXT NOT NULL'' @ sql_line 16 '')'']"

definition put_task_sql :: "string \<Rightarrow> string" where
  "put_task_sql schema =
     ''INSERT INTO '' @ schema @ ''.tasks (organization, task_id, status, goal, evidence_dir)'' @
     sql_line 21 ''VALUES ($1, $2, $3, $4, $5)'' @
     sql_line 21 ''ON CONFLICT (organization, task_id)'' @
     sql_line 21 ''DO UPDATE SET status = EXCLUDED.status, goal = EXCLUDED.goal, evidence_dir = EXCLUDED.evidence_dir''"

definition get_task_sql :: "string \<Rightarrow> string" where
  "get_task_sql schema =
     ''SELECT organization, task_id, status, goal, evidence_dir'' @
     sql_line 21 ''FROM '' @ schema @ ''.tasks WHERE organization = $1 AND task_id = $2''"

definition list_tasks_sql :: "string \<Rightarrow> string" where
  "list_tasks_sql schema =
     ''SELECT organization, task_id, status, goal, evidence_dir'' @
     sql_line 21 ''FROM '' @ schema @ ''.tasks WHERE organization = $1 ORDER BY task_id''"

definition enqueue_sql :: "string \<Rightarrow> string" where
  "enqueue_sql schema =
     ''INSERT INTO '' @ schema @ ''.worker_leases (task_id, organization, state)'' @
     sql_line 17 ''VALUES ($1, $2, 'pending')''"

definition next_pending_sql :: "string \<Rightarrow> string" where
  "next_pending_sql schema =
     ''SELECT task_id FROM '' @ schema @ ''.worker_leases'' @
     sql_line 21 ''WHERE organization = $1 AND state = 'pending'' @ [CHR 0x27] @
     sql_line 21 ''ORDER BY task_id'' @ sql_line 21 ''FOR UPDATE SKIP LOCKED'' @
     sql_line 21 ''LIMIT 1''"

definition take_lease_sql :: "string \<Rightarrow> string" where
  "take_lease_sql schema =
     ''UPDATE '' @ schema @ ''.worker_leases'' @
     sql_line 21 ''SET state = 'leased', worker_id = $1, failure_reason = NULL'' @
     sql_line 21 ''WHERE task_id = $2 AND organization = $3 AND state = 'pending'' @ [CHR 0x27]"

definition find_lease_sql :: "string \<Rightarrow> string" where
  "find_lease_sql schema =
     ''SELECT organization, state, worker_id, failure_reason'' @
     sql_line 21 ''FROM '' @ schema @ ''.worker_leases WHERE organization = $1 AND task_id = $2''"

definition finish_lease_sql :: "string \<Rightarrow> string" where
  "finish_lease_sql schema =
     ''UPDATE '' @ schema @ ''.worker_leases'' @
     sql_line 21 ''SET state = $1, worker_id = $2, failure_reason = $3'' @
     sql_line 21 ''WHERE task_id = $4 AND organization = $5 AND state = 'leased' AND worker_id = $2''"

definition artifact_sql :: "string \<Rightarrow> string" where
  "artifact_sql schema =
     ''INSERT INTO '' @ schema @ ''.artifacts (organization, task_id, path, size_bytes, sha256)'' @
     sql_line 21 ''VALUES ($1, $2, $3, $4, $5)'' @
     sql_line 21 ''ON CONFLICT (organization, task_id, path)'' @
     sql_line 21 ''DO UPDATE SET size_bytes = EXCLUDED.size_bytes, sha256 = EXCLUDED.sha256''"

definition audit_export_sql :: "string \<Rightarrow> string" where
  "audit_export_sql schema =
     ''INSERT INTO '' @ schema @ ''.audit_exports (organization, sink_json, requested_by, status_json)'' @
     sql_line 21 ''VALUES ($1, $2, $3, $4)''"

section \<open>Opening\<close>

record postgres_config =
  pc_database_url_env :: string
  pc_schema :: string

definition postgres_config_new :: "string \<Rightarrow> string \<Rightarrow> postgres_config result" where
  "postgres_config_new database_url_env schema =
     rbind (validate_env_ref ''database_url_env'' database_url_env) (\<lambda>_.
     rbind (validate_schema_name schema) (\<lambda>_.
       Inr \<lparr>pc_database_url_env = database_url_env, pc_schema = schema\<rparr>))"

fun run_schema_statements :: "pg_env \<Rightarrow> string list \<Rightarrow> unit pg_op" where
  "run_schema_statements env [] = sreturn ()"
| "run_schema_statements env (sql # sqls) =
     sbind (pg_ask (\<lambda>h. px_batch env h sql) (PgBatch sql)
         (\<lambda>err. PgFails (StateErr (''failed to initialize Postgres team schema: '' @ pe_text err))))
       (\<lambda>_. run_schema_statements env sqls)"

definition ensure_schema :: "pg_env \<Rightarrow> string \<Rightarrow> unit pg_op" where
  "ensure_schema env schema =
     sbind (plift (sql_ident schema)) (\<lambda>ident.
       run_schema_statements env (schema_statements ident))"

text \<open>The store is its schema; its connection is the environment.\<close>

definition postgres_connect :: "pg_env \<Rightarrow> string \<Rightarrow> string \<Rightarrow> string pg_op" where
  "postgres_connect env database_url schema =
     sbind (plift (validate_schema_name schema)) (\<lambda>_.
       case px_connect env database_url of
         Some err \<Rightarrow> sfail (PgFails (StateErr (''failed to connect to Postgres: '' @ pe_text err)))
       | None \<Rightarrow> sbind (ensure_schema env schema) (\<lambda>_. sreturn schema))"

definition postgres_connect_from_env ::
  "pg_env \<Rightarrow> (string \<Rightarrow> string option) \<Rightarrow> postgres_config \<Rightarrow> string pg_op" where
  "postgres_connect_from_env env var config =
     (case var (pc_database_url_env config) of
        None \<Rightarrow>
          sfail (PgFails (StateErr (''Postgres database URL env '' @ pc_database_url_env config @ '' is not set'')))
      | Some database_url \<Rightarrow> postgres_connect env database_url (pc_schema config))"

section \<open>Operations\<close>

definition team_task_record_from_row :: "sql_row \<Rightarrow> team_task_record pg_op" where
  "team_task_record_from_row row =
     sbind (row_optional_text row 2) (\<lambda>status.
     sbind (row_text row 0) (\<lambda>org.
     sbind (row_text row 1) (\<lambda>tid.
     sbind (plift (ropt task_status_from_label status)) (\<lambda>st.
     sbind (row_optional_text row 3) (\<lambda>goal.
     sbind (row_text row 4) (\<lambda>dir.
       sreturn \<lparr>tt_organization = org, tt_task_id = tid, tt_status = st, tt_goal = goal,
                tt_evidence_dir = dir\<rparr>))))))"

fun team_task_records_from_rows :: "sql_row list \<Rightarrow> team_task_record list pg_op" where
  "team_task_records_from_rows [] = sreturn []"
| "team_task_records_from_rows (row # rows) =
     sbind (team_task_record_from_row row) (\<lambda>r.
     sbind (team_task_records_from_rows rows) (\<lambda>rs. sreturn (r # rs)))"

definition postgres_put_task :: "pg_env \<Rightarrow> string \<Rightarrow> team_task_record \<Rightarrow> unit pg_op" where
  "postgres_put_task env schema record =
     sbind (plift (validate_team_task_record record)) (\<lambda>_.
     sbind (plift (sql_ident schema)) (\<lambda>ident.
     sbind (pg_execute env (put_task_sql ident)
         [SqlText (tt_organization record), SqlText (tt_task_id record),
          sql_optional (map_option task_status_label (tt_status record)),
          sql_optional (tt_goal record), SqlText (tt_evidence_dir record)]) (\<lambda>_.
       sreturn ())))"

definition postgres_get_task ::
  "pg_env \<Rightarrow> string \<Rightarrow> string \<Rightarrow> task_id \<Rightarrow> team_task_record option pg_op" where
  "postgres_get_task env schema organization tid =
     sbind (plift (validate_task_id_component tid)) (\<lambda>_.
     sbind (plift (sql_ident schema)) (\<lambda>ident.
     sbind (pg_query_opt_or env (get_task_sql ident) [SqlText organization, SqlText tid]) (\<lambda>row.
       case row of
         None \<Rightarrow> sreturn None
       | Some r \<Rightarrow> sbind (team_task_record_from_row r) (\<lambda>record. sreturn (Some record)))))"

definition postgres_list_tasks :: "pg_env \<Rightarrow> string \<Rightarrow> string \<Rightarrow> team_task_record list pg_op" where
  "postgres_list_tasks env schema organization =
     sbind (plift (normalize_non_empty ''organization'' organization)) (\<lambda>org.
     sbind (plift (sql_ident schema)) (\<lambda>ident.
     sbind (pg_query env (list_tasks_sql ident) [SqlText org]) team_task_records_from_rows))"

definition postgres_enqueue_task ::
  "pg_env \<Rightarrow> string \<Rightarrow> string \<Rightarrow> task_id \<Rightarrow> worker_lease pg_op" where
  "postgres_enqueue_task env schema organization tid =
     sbind (plift (validate_task_id_component tid)) (\<lambda>_.
     sbind (plift (normalize_non_empty ''organization'' organization)) (\<lambda>org.
     sbind (plift (sql_ident schema)) (\<lambda>ident.
     sbind (pg_execute_or env
         (\<lambda>err. if postgres_unique_violation err then PgFails (already_queued tid)
                else postgres_state_error err)
         (enqueue_sql ident) [SqlText tid, SqlText org]) (\<lambda>_.
       sreturn \<lparr>wl_task_id = tid, wl_organization = org, wl_state = LeasePending\<rparr>))))"

definition pg_commit :: "pg_env \<Rightarrow> unit pg_op" where
  "pg_commit env = pg_ask (px_commit env) PgCommit postgres_state_error"

definition postgres_lease_next ::
  "pg_env \<Rightarrow> string \<Rightarrow> string \<Rightarrow> string \<Rightarrow> worker_lease option pg_op" where
  "postgres_lease_next env schema organization worker_id =
     sbind (plift (normalize_non_empty ''organization'' organization)) (\<lambda>org.
     sbind (plift (normalize_non_empty ''worker_id'' worker_id)) (\<lambda>worker.
     sbind (plift (sql_ident schema)) (\<lambda>ident.
     sbind (pg_ask (px_begin env) PgBegin postgres_state_error) (\<lambda>_.
     sbind (in_transaction (pg_query_opt_or env (next_pending_sql ident) [SqlText org])) (\<lambda>found.
       case found of
         None \<Rightarrow> sbind (pg_commit env) (\<lambda>_. sreturn None)
       | Some row \<Rightarrow>
           sbind (in_transaction (row_text row 0)) (\<lambda>tid.
           sbind (in_transaction (pg_execute env (take_lease_sql ident)
               [SqlText worker, SqlText tid, SqlText org])) (\<lambda>_.
           sbind (pg_commit env) (\<lambda>_.
             sreturn (Some \<lparr>wl_task_id = tid, wl_organization = org,
                            wl_state = Leased worker\<rparr>)))))))))"

fun worker_state_to_storage :: "worker_lease_state \<Rightarrow> string \<times> string option" where
  "worker_state_to_storage LeasePending = (''pending'', None)"
| "worker_state_to_storage (Leased _) = (''leased'', None)"
| "worker_state_to_storage LeaseCompleted = (''completed'', None)"
| "worker_state_to_storage (LeaseFailed reason) = (''failed'', Some reason)"

definition stored_finish_error ::
  "task_id \<Rightarrow> string \<Rightarrow> string \<Rightarrow> string option \<Rightarrow> string option \<Rightarrow> taskfence_error option" where
  "stored_finish_error tid worker st leased_by failure_reason =
     (if st = ''leased'' \<and> leased_by = Some worker then None
      else if st = ''leased''
      then Some (StateErr (''task '' @ tid @ '' is leased by worker '' @
             (case leased_by of Some w \<Rightarrow> w | None \<Rightarrow> ''<unknown>'') @ '', not '' @ worker))
      else if st = ''pending''
      then Some (StateErr (''task '' @ tid @ '' has not been leased by a worker''))
      else if st = ''completed''
      then Some (StateErr (''task '' @ tid @ '' is already completed''))
      else if st = ''failed''
      then Some (StateErr (''task '' @ tid @ '' is already failed: '' @
             (case failure_reason of Some r \<Rightarrow> r | None \<Rightarrow> ''unknown'')))
      else Some (StateErr (''task '' @ tid @ '' has unknown worker lease state '' @ st)))"

text \<open>The second half: what happens with the row that was found.\<close>

definition finish_found_lease ::
  "pg_env \<Rightarrow> string \<Rightarrow> task_id \<Rightarrow> string \<Rightarrow> worker_lease_state \<Rightarrow> sql_row \<Rightarrow> worker_lease pg_op" where
  "finish_found_lease env ident tid worker next_state row =
     sbind (row_text row 0) (\<lambda>row_org.
     sbind (row_text row 1) (\<lambda>st.
     sbind (row_optional_text row 2) (\<lambda>leased_by.
     sbind (row_optional_text row 3) (\<lambda>failure_reason.
       case stored_finish_error tid worker st leased_by failure_reason of
         Some err \<Rightarrow> sfail (PgFails err)
       | None \<Rightarrow>
           sbind (pg_execute env (finish_lease_sql ident)
               [SqlText (fst (worker_state_to_storage next_state)), SqlText worker,
                sql_optional (snd (worker_state_to_storage next_state)), SqlText tid,
                SqlText row_org]) (\<lambda>_.
             sreturn \<lparr>wl_task_id = tid, wl_organization = row_org, wl_state = next_state\<rparr>)))))"

definition finish_postgres_lease ::
  "pg_env \<Rightarrow> string \<Rightarrow> string \<Rightarrow> task_id \<Rightarrow> string \<Rightarrow> worker_lease_state \<Rightarrow> worker_lease pg_op" where
  "finish_postgres_lease env schema organization tid worker_id next_state =
     sbind (plift (normalize_non_empty ''organization'' organization)) (\<lambda>org.
     sbind (plift (validate_task_id_component tid)) (\<lambda>_.
     sbind (plift (normalize_non_empty ''worker_id'' worker_id)) (\<lambda>worker.
     sbind (plift (sql_ident schema)) (\<lambda>ident.
     sbind (pg_query_opt_or env (find_lease_sql ident) [SqlText org, SqlText tid]) (\<lambda>found.
       case found of
         None \<Rightarrow> sfail (PgFails (not_queued tid))
       | Some row \<Rightarrow> finish_found_lease env ident tid worker next_state row)))))"

definition postgres_complete_task ::
  "pg_env \<Rightarrow> string \<Rightarrow> string \<Rightarrow> task_id \<Rightarrow> string \<Rightarrow> worker_lease pg_op" where
  "postgres_complete_task env schema organization tid worker_id =
     finish_postgres_lease env schema organization tid worker_id LeaseCompleted"

definition postgres_fail_task ::
  "pg_env \<Rightarrow> string \<Rightarrow> string \<Rightarrow> task_id \<Rightarrow> string \<Rightarrow> string \<Rightarrow> worker_lease pg_op" where
  "postgres_fail_task env schema organization tid worker_id reason =
     sbind (plift (normalize_non_empty ''reason'' reason)) (\<lambda>r.
       finish_postgres_lease env schema organization tid worker_id (LeaseFailed r))"

definition postgres_write_artifact ::
  "pg_env \<Rightarrow> string \<Rightarrow> string \<Rightarrow> task_id \<Rightarrow> path \<Rightarrow> string \<Rightarrow> team_artifact_record pg_op" where
  "postgres_write_artifact env schema organization tid p bytes =
     sbind (plift (validate_task_id_component tid)) (\<lambda>_.
       if \<not> is_absolute p \<or> contains_parent_dir p
       then sfail (PgFails (StateErr (''team artifact path must be absolute without '..'' @ [CHR 0x27])))
       else
         sbind (case path_parent p of
                  None \<Rightarrow> sreturn ()
                | Some parent \<Rightarrow>
                    pg_ask (\<lambda>h. px_create_dirs env h parent) (PgCreateDirs parent)
                      (\<lambda>err. PgFails (StateErr (''failed to create team artifact directory: '' @ err))))
           (\<lambda>_.
         sbind (pg_ask (\<lambda>h. px_write env h p bytes) (PgWriteFile p bytes)
             (\<lambda>err. PgFails (StateErr (''failed to write team artifact '' @ p @ '': '' @ err)))) (\<lambda>_.
         let record = \<lparr>tar_organization = organization, tar_task_id = tid, tar_path = p,
               tar_size_bytes = word_of_nat (length bytes),
               tar_sha256 = px_sha256_hex env bytes\<rparr>
         in sbind (plift (sql_ident schema)) (\<lambda>ident.
            sbind (pg_execute env (artifact_sql ident)
                [SqlText organization, SqlText tid, SqlText p, SqlBigint (tar_size_bytes record),
                 SqlText (tar_sha256 record)]) (\<lambda>_.
              sreturn record)))))"

definition insert_postgres_audit_export ::
  "pg_env \<Rightarrow> string \<Rightarrow> team_audit_export_record \<Rightarrow> unit pg_op" where
  "insert_postgres_audit_export env schema record =
     sbind (plift (sql_ident schema)) (\<lambda>ident.
       case px_serialize_sink env (tae_sink record) of
         Inl err \<Rightarrow> sfail (PgFails (StateErr (''failed to serialize audit export sink: '' @ err)))
       | Inr sink_json \<Rightarrow>
           (case px_serialize_status env (tae_status record) of
              Inl err \<Rightarrow>
                sfail (PgFails (StateErr (''failed to serialize audit export status: '' @ err)))
            | Inr status_json \<Rightarrow>
                sbind (pg_execute env (audit_export_sql ident)
                    [SqlText (tae_organization record), SqlText sink_json,
                     SqlText (tae_requested_by record), SqlText status_json]) (\<lambda>_.
                  sreturn ())))"

text \<open>The common part of the three export operations.\<close>

definition postgres_record_export ::
  "pg_env \<Rightarrow> string \<Rightarrow> string \<Rightarrow> audit_export_sink_config \<Rightarrow> string \<Rightarrow>
   team_audit_export_status result \<Rightarrow> team_audit_export_record pg_op" where
  "postgres_record_export env schema organization sink requested_by status =
     sbind (plift (normalize_non_empty ''organization'' organization)) (\<lambda>org.
     sbind (plift (normalize_non_empty ''requested_by'' requested_by)) (\<lambda>actor.
     sbind (plift status) (\<lambda>st.
     let record = \<lparr>tae_organization = org, tae_sink = sink, tae_requested_by = actor,
           tae_status = st\<rparr>
     in sbind (insert_postgres_audit_export env schema record) (\<lambda>_. sreturn record))))"

definition postgres_plan_audit_export ::
  "pg_env \<Rightarrow> string \<Rightarrow> string \<Rightarrow> audit_export_sink_config \<Rightarrow> string \<Rightarrow>
   team_audit_export_record pg_op" where
  "postgres_plan_audit_export env schema organization sink requested_by =
     postgres_record_export env schema organization sink requested_by (Inr Planned)"

definition postgres_complete_audit_export ::
  "pg_env \<Rightarrow> string \<Rightarrow> string \<Rightarrow> audit_export_sink_config \<Rightarrow> string \<Rightarrow> path \<Rightarrow>
   team_audit_export_record pg_op" where
  "postgres_complete_audit_export env schema organization sink requested_by artifact =
     postgres_record_export env schema organization sink requested_by
       (rbind (validate_completed_export_artifact artifact) (\<lambda>_. Inr (ExportCompleted artifact)))"

definition postgres_fail_audit_export ::
  "pg_env \<Rightarrow> string \<Rightarrow> string \<Rightarrow> audit_export_sink_config \<Rightarrow> string \<Rightarrow> string \<Rightarrow>
   team_audit_export_record pg_op" where
  "postgres_fail_audit_export env schema organization sink requested_by reason =
     postgres_record_export env schema organization sink requested_by
       (rbind (sanitize_export_failure_reason reason) (\<lambda>r. Inr (ExportFailed r)))"

section \<open>What the statements contain\<close>

text \<open>The schema name is all that a statement takes over, quoted, and it has no quote itself.\<close>

lemma sql_ident_quotes:
  assumes "sql_ident v = Inr ident"
  shows "ident = [CHR 0x22] @ v @ [CHR 0x22] \<and> CHR 0x22 \<notin> set v"
proof -
  from assms have l: "list_all (\<lambda>c. is_lower c \<or> is_digit c \<or> c = CHR ''_'') v"
    and i: "ident = [CHR 0x22] @ concat (map (\<lambda>c. if c = CHR 0x22 then [c, c] else [c]) v) @ [CHR 0x22]"
    by (auto simp: sql_ident_def validate_schema_name_def split: if_splits)
  then have q: "CHR 0x22 \<notin> set v"
    by (auto simp: list_all_iff is_lower_def is_digit_def dest!: bspec [where x = "CHR 0x22"])
  then have "concat (map (\<lambda>c. if c = CHR 0x22 then [c, c] else [c]) v) = v"
    by (induction v) auto
  with i q show ?thesis by simp
qed

text \<open>The statements on rows, each with the place of the organization among its parameters.\<close>

definition tenant_statements :: "string \<Rightarrow> (string \<times> nat) list" where
  "tenant_statements ident =
     [(put_task_sql ident, 0), (get_task_sql ident, 0), (list_tasks_sql ident, 0),
      (enqueue_sql ident, 1), (next_pending_sql ident, 0), (take_lease_sql ident, 2),
      (find_lease_sql ident, 0), (finish_lease_sql ident, 4), (artifact_sql ident, 0),
      (audit_export_sql ident, 0)]"

fun pg_statement :: "pg_call \<Rightarrow> (string \<times> sql_value list) option" where
  "pg_statement (PgBatch sql _) = Some (sql, [])"
| "pg_statement (PgExecute sql params _) = Some (sql, params)"
| "pg_statement (PgQuery sql params _) = Some (sql, params)"
| "pg_statement (PgQueryOpt sql params _) = Some (sql, params)"
| "pg_statement _ = None"

definition in_tenant :: "string \<Rightarrow> string list \<Rightarrow> pg_call \<Rightarrow> bool" where
  "in_tenant ident orgs c =
     (case pg_statement c of
        None \<Rightarrow> True
      | Some (sql, params) \<Rightarrow>
          list_ex (\<lambda>(text, k). sql = text \<and> k < length params \<and> params ! k \<in> SqlText ` set orgs)
            (tenant_statements ident))"

lemma appends_plift [append_rules]: "appends p (plift r)"
  by (cases r) (auto simp: appends_def)

lemma appends_plift_bind:
  "(\<And>x. r = Inr x \<Longrightarrow> appends p (f x)) \<Longrightarrow> appends p (sbind (plift r) f)"
  by (cases r) (auto simp: appends_def sbind_def stry_def sfail_def)

lemma appends_ask:
  "(\<And>r. p (entry r)) \<Longrightarrow> appends p (pg_ask ask entry fault)"
  by (auto simp: appends_def pg_ask_def Let_def)

lemma appends_ask_bind:
  assumes "\<And>r. p (entry r)" and "\<And>h x. ask h = Inr x \<Longrightarrow> appends p (f x)"
  shows "appends p (sbind (pg_ask ask entry fault) f)"
  unfolding appends_def
proof
  fix log
  show "\<exists>ext. snd (sbind (pg_ask ask entry fault) f log) = log @ ext \<and> list_all p ext"
  proof (cases "ask log")
    case (Inl e)
    with assms(1) show ?thesis by (auto simp: sbind_def stry_def pg_ask_def sfail_def Let_def)
  next
    case (Inr x)
    from assms(2) [OF this] obtain ext
      where "snd (f x (log @ [entry (Inr x)])) = (log @ [entry (Inr x)]) @ ext" "list_all p ext"
      unfolding appends_def by blast
    with assms(1) Inr show ?thesis by (auto simp: sbind_def stry_def pg_ask_def Let_def)
  qed
qed

lemma appends_row [append_rules]: "appends p (row_text row i)" "appends p (row_optional_text row i)"
  by (auto simp: row_text_def row_optional_text_def appends_sreturn appends_sfail
      split: sql_value.split)

lemma appends_row_bind:
  "(\<And>t. i < length row \<Longrightarrow> row ! i = SqlText t \<Longrightarrow> appends p (f t)) \<Longrightarrow>
   appends p (sbind (row_text row i) f)"
  by (auto simp: row_text_def appends_def sbind_def stry_def sreturn_def sfail_def
      split: sql_value.splits)

lemma appends_record_from_row [append_rules]: "appends p (team_task_record_from_row row)"
  unfolding team_task_record_from_row_def by (intro append_rules)

lemma appends_records_from_rows [append_rules]: "appends p (team_task_records_from_rows rows)"
  by (induction rows) (auto intro!: append_rules)

lemma appends_in_transaction:
  "appends p m \<Longrightarrow> p PgRollback \<Longrightarrow> appends p (in_transaction m)"
  unfolding in_transaction_def by (intro append_rules) (auto simp: appends_def pg_rollback_def)

lemma in_tenant_simps [simp]:
  "in_tenant ident orgs (PgBegin r)" "in_tenant ident orgs (PgCommit r)"
  "in_tenant ident orgs PgRollback" "in_tenant ident orgs (PgCreateDirs p u)"
  "in_tenant ident orgs (PgWriteFile p b u)"
  by (simp_all add: in_tenant_def)

text \<open>The requests to the store, and the organization of each.\<close>

datatype pg_request =
    PgPutTask team_task_record | PgGetTask string task_id | PgListTasks string
  | PgEnqueue string task_id | PgLeaseNext string string | PgComplete string task_id string
  | PgFail string task_id string string | PgWriteArtifact string task_id path string
  | PgPlanExport string audit_export_sink_config string
  | PgCompleteExport string audit_export_sink_config string path
  | PgFailExport string audit_export_sink_config string string

definition void :: "'a pg_op \<Rightarrow> unit pg_op" where
  "void m = sbind m (\<lambda>_. sreturn ())"

fun pg_exec :: "pg_env \<Rightarrow> string \<Rightarrow> pg_request \<Rightarrow> unit pg_op" where
  "pg_exec env schema (PgPutTask record) = void (postgres_put_task env schema record)"
| "pg_exec env schema (PgGetTask org tid) = void (postgres_get_task env schema org tid)"
| "pg_exec env schema (PgListTasks org) = void (postgres_list_tasks env schema org)"
| "pg_exec env schema (PgEnqueue org tid) = void (postgres_enqueue_task env schema org tid)"
| "pg_exec env schema (PgLeaseNext org worker) = void (postgres_lease_next env schema org worker)"
| "pg_exec env schema (PgComplete org tid worker) =
     void (postgres_complete_task env schema org tid worker)"
| "pg_exec env schema (PgFail org tid worker reason) =
     void (postgres_fail_task env schema org tid worker reason)"
| "pg_exec env schema (PgWriteArtifact org tid p bytes) =
     void (postgres_write_artifact env schema org tid p bytes)"
| "pg_exec env schema (PgPlanExport org sink actor) =
     void (postgres_plan_audit_export env schema org sink actor)"
| "pg_exec env schema (PgCompleteExport org sink actor p) =
     void (postgres_complete_audit_export env schema org sink actor p)"
| "pg_exec env schema (PgFailExport org sink actor reason) =
     void (postgres_fail_audit_export env schema org sink actor reason)"

fun request_organization :: "pg_request \<Rightarrow> string" where
  "request_organization (PgPutTask record) = tt_organization record"
| "request_organization (PgGetTask org _) = org"
| "request_organization (PgListTasks org) = org"
| "request_organization (PgEnqueue org _) = org"
| "request_organization (PgLeaseNext org _) = org"
| "request_organization (PgComplete org _ _) = org"
| "request_organization (PgFail org _ _ _) = org"
| "request_organization (PgWriteArtifact org _ _ _) = org"
| "request_organization (PgPlanExport org _ _) = org"
| "request_organization (PgCompleteExport org _ _ _) = org"
| "request_organization (PgFailExport org _ _ _) = org"

text \<open>
  What SQL documents of \<open>SELECT organization ... WHERE organization = $1\<close>: the first column of an
  answer is the first parameter.
\<close>

definition selects_own_rows :: "string \<Rightarrow> pg_env \<Rightarrow> bool" where
  "selects_own_rows ident env \<longleftrightarrow>
     (\<forall>h org tid row. px_query_opt env h (find_lease_sql ident) [SqlText org, SqlText tid] = Inr (Some row) \<longrightarrow>
        row \<noteq> [] \<longrightarrow> hd row = SqlText org)"

lemmas tenant_call = in_tenant_def tenant_statements_def

lemma execute_in_tenant:
  "(\<And>r. in_tenant ident orgs (PgExecute sql params r)) \<Longrightarrow>
   appends (in_tenant ident orgs) (pg_execute_or env fault sql params)"
  unfolding pg_execute_or_def by (rule appends_ask)

lemma query_opt_in_tenant:
  "(\<And>r. in_tenant ident orgs (PgQueryOpt sql params r)) \<Longrightarrow>
   appends (in_tenant ident orgs) (pg_query_opt_or env sql params)"
  unfolding pg_query_opt_or_def by (rule appends_ask)

lemma appends_void: "appends p m \<Longrightarrow> appends p (void m)"
  unfolding void_def by (intro append_rules)

lemma put_task_in_tenant:
  "appends (in_tenant ident [tt_organization record, trim (tt_organization record)])
     (postgres_put_task env schema record)" if "sql_ident schema = Inr ident"
  using that unfolding postgres_put_task_def
  by (intro appends_plift_bind append_rules execute_in_tenant) (auto simp: tenant_call)

lemma get_task_in_tenant:
  "appends (in_tenant ident [org, trim org]) (postgres_get_task env schema org tid)"
  if "sql_ident schema = Inr ident"
  using that unfolding postgres_get_task_def
  by (intro appends_plift_bind append_rules query_opt_in_tenant)
    (auto simp: tenant_call split: option.split intro!: append_rules)

lemma normalized_org: "normalize_non_empty f v = Inr w \<Longrightarrow> SqlText w \<in> SqlText ` set [v, trim v]"
  by (auto dest: normalized)

lemma list_tasks_in_tenant:
  "appends (in_tenant ident [org, trim org]) (postgres_list_tasks env schema org)"
  if "sql_ident schema = Inr ident"
  using that unfolding postgres_list_tasks_def pg_query_def
  by (intro appends_plift_bind append_rules appends_ask) (auto simp: tenant_call dest: normalized)

lemma enqueue_in_tenant:
  "appends (in_tenant ident [org, trim org]) (postgres_enqueue_task env schema org tid)"
  if "sql_ident schema = Inr ident"
  using that unfolding postgres_enqueue_task_def
  by (intro appends_plift_bind append_rules execute_in_tenant) (auto simp: tenant_call dest: normalized)

lemma lease_next_in_tenant:
  "appends (in_tenant ident [org, trim org]) (postgres_lease_next env schema org worker)"
  if "sql_ident schema = Inr ident"
proof -
  have "appends (in_tenant ident [org, trim org])
      (pg_query_opt_or env (next_pending_sql ident) [SqlText (trim org)])"
    by (rule query_opt_in_tenant) (simp add: tenant_call)
  moreover have "appends (in_tenant ident [org, trim org])
      (pg_execute env (take_lease_sql ident) [SqlText w, SqlText t, SqlText (trim org)])" for w t
    by (rule execute_in_tenant) (simp add: tenant_call)
  ultimately show ?thesis
    using that unfolding postgres_lease_next_def pg_commit_def
    by (intro appends_plift_bind append_rules appends_ask)
      (auto dest!: normalized split: option.split intro!: append_rules appends_ask appends_in_transaction)
qed

lemma found_in_tenant:
  assumes "0 < length row \<Longrightarrow> row ! 0 = SqlText (trim org)"
  shows "appends (in_tenant ident [org, trim org]) (finish_found_lease env ident tid worker st row)"
proof -
  have "appends (in_tenant ident [org, trim org])
      (pg_execute env (finish_lease_sql ident) [l, w, v, SqlText tid, SqlText (trim org)])" for l w v
    by (rule execute_in_tenant) (simp add: tenant_call)
  with assms show ?thesis
    unfolding finish_found_lease_def
    by (intro appends_row_bind) (auto intro!: append_rules split: option.split)
qed

lemma finish_in_tenant:
  assumes i: "sql_ident schema = Inr ident" and own: "selects_own_rows ident env"
  shows "appends (in_tenant ident [org, trim org]) (finish_postgres_lease env schema org tid worker st)"
proof -
  have found: "appends (in_tenant ident [org, trim org]) (finish_found_lease env ident tid w st row)"
    if "px_query_opt env h (find_lease_sql ident) [SqlText (trim org), SqlText tid] = Inr (Some row)" for h row w
    using own that unfolding selects_own_rows_def
    by (intro found_in_tenant) (cases row, fastforce+)
  show ?thesis
    unfolding finish_postgres_lease_def pg_query_opt_or_def
    using i
    by (intro appends_plift_bind appends_ask_bind)
      (auto simp: tenant_call dest!: normalized split: option.split intro: append_rules found)
qed

lemma write_artifact_in_tenant:
  "appends (in_tenant ident [org, trim org]) (postgres_write_artifact env schema org tid p bytes)"
  if "sql_ident schema = Inr ident"
proof -
  have "appends (in_tenant ident [org, trim org])
      (pg_execute env (artifact_sql ident) [SqlText org, SqlText tid, SqlText p, n, h])" for n h
    by (rule execute_in_tenant) (simp add: tenant_call)
  with that show ?thesis
    unfolding postgres_write_artifact_def
    by (auto simp: Let_def split: option.split intro!: append_rules appends_plift_bind appends_ask)
qed

lemma record_export_in_tenant:
  "appends (in_tenant ident [org, trim org]) (postgres_record_export env schema org sink actor st)"
  if "sql_ident schema = Inr ident"
proof -
  have "appends (in_tenant ident [org, trim org])
      (pg_execute env (audit_export_sql ident) [SqlText (trim org), a, b, c])" for a b c
    by (rule execute_in_tenant) (simp add: tenant_call)
  with that show ?thesis
    unfolding postgres_record_export_def insert_postgres_audit_export_def
    by (auto simp: Let_def split: sum.split dest!: normalized
        intro!: append_rules appends_plift_bind)
qed

lemmas requests_in_tenant = put_task_in_tenant get_task_in_tenant list_tasks_in_tenant
  enqueue_in_tenant lease_next_in_tenant finish_in_tenant write_artifact_in_tenant
  record_export_in_tenant

theorem postgres_stays_in_tenant:
  assumes "sql_ident schema = Inr ident" and "selects_own_rows ident env"
  shows "appends (in_tenant ident [request_organization req, trim (request_organization req)])
    (pg_exec env schema req)"
proof (cases req)
  case (PgFail org tid worker reason)
  with assms show ?thesis
    by (auto simp: postgres_fail_task_def intro!: appends_void append_rules finish_in_tenant)
qed (use assms in \<open>auto simp: postgres_complete_task_def postgres_plan_audit_export_def
      postgres_complete_audit_export_def postgres_fail_audit_export_def
      intro!: appends_void requests_in_tenant\<close>)

section \<open>Leases\<close>

text \<open>A lease is handed out or refused in one committed transaction; an error commits nothing.\<close>

definition begun :: pg_call where "begun = PgBegin (Inr ())"
definition committed :: pg_call where "committed = PgCommit (Inr ())"

lemmas pg_steps = sbind_def stry_def sfail_def sreturn_def pg_ask_def Let_def pg_execute_or_def
  pg_query_opt_or_def pg_rollback_def in_transaction_def pg_commit_def

lemma plift_ok: "plift r log = (Inr x, log') \<longleftrightarrow> r = Inr x \<and> log' = log"
  by (cases r) auto

theorem postgres_lease_next_atomic:
  assumes "postgres_lease_next env schema org worker log = (r, log @ calls)"
  shows "case r of
      Inr None \<Rightarrow> \<exists>ident. calls =
        [begun, PgQueryOpt (next_pending_sql ident) [SqlText (trim org)] (Inr None), committed]
    | Inr (Some lease) \<Rightarrow> wl_organization lease = trim org \<and> wl_state lease = Leased (trim worker) \<and>
        (\<exists>ident row n. row \<noteq> [] \<and> hd row = SqlText (wl_task_id lease) \<and> calls =
          [begun, PgQueryOpt (next_pending_sql ident) [SqlText (trim org)] (Inr (Some row)),
           PgExecute (take_lease_sql ident)
             [SqlText (trim worker), SqlText (wl_task_id lease), SqlText (trim org)] (Inr n), committed])
    | Inl _ \<Rightarrow> committed \<notin> set calls"
proof (cases "normalize_non_empty ''organization'' org")
  case (Inl e)
  with assms show ?thesis by (auto simp: postgres_lease_next_def pg_steps)
next
  case (Inr o')
  note o = Inr normalized [OF Inr]
  show ?thesis
  proof (cases "normalize_non_empty ''worker_id'' worker")
    case (Inl e)
    with o assms show ?thesis by (auto simp: postgres_lease_next_def pg_steps)
  next
    case (Inr w')
    note w = Inr normalized [OF Inr]
    from assms o w show ?thesis
      by (cases "sql_ident schema")
        (auto simp: postgres_lease_next_def pg_steps begun_def committed_def row_text_def hd_conv_nth
          split: sum.splits option.splits if_splits sql_value.splits prod.splits)
  qed
qed

text \<open>
  A lease is finished only when the row that was read says that this worker holds it; then the
  update is sent, and it is conditional on the same.
\<close>

theorem postgres_finish_earned:
  assumes "finish_postgres_lease env schema org tid worker st log = (Inr lease, log')"
  shows "wl_task_id lease = tid \<and> wl_state lease = st \<and>
    (\<exists>ident row n. row ! 0 = SqlText (wl_organization lease) \<and> row ! 1 = SqlText ''leased''
       \<and> row ! 2 = SqlText (trim worker) \<and> log' = log @
       [PgQueryOpt (find_lease_sql ident) [SqlText (trim org), SqlText tid] (Inr (Some row)),
        PgExecute (finish_lease_sql ident)
          [SqlText (fst (worker_state_to_storage st)), SqlText (trim worker),
           sql_optional (snd (worker_state_to_storage st)), SqlText tid,
           SqlText (wl_organization lease)] (Inr n)])"
  using assms
  by (auto simp: finish_postgres_lease_def finish_found_lease_def pg_steps plift_ok row_text_def
      row_optional_text_def stored_finish_error_def dest!: normalized
      split: sum.splits option.splits if_splits sql_value.splits prod.splits)

text \<open>The stored text of a lease is judged as \<open>finish_lease\<close> of the other stores judges the lease.\<close>

fun stored_holder :: "worker_lease_state \<Rightarrow> string option" where
  "stored_holder (Leased w) = Some w"
| "stored_holder _ = None"

lemma stored_finish_error_agrees:
  "stored_finish_error tid worker (fst (worker_state_to_storage st)) (stored_holder st)
     (snd (worker_state_to_storage st)) = finish_error tid worker st"
  by (cases st) (simp_all add: stored_finish_error_def finish_error_def)

text \<open>
  The number of rows that the update changed is not looked at: when another process finished the
  lease after it was read, the update changes nothing and the call succeeds all the same.
\<close>

lemma postgres_lost_finish:
  assumes "sql_ident schema = Inr ident" and "validate_task_id_component tid = Inr ()"
    and "trim org \<noteq> []" and "trim worker \<noteq> []"
    and "px_query_opt env log (find_lease_sql ident) [SqlText (trim org), SqlText tid] =
      Inr (Some [SqlText (trim org), SqlText ''leased'', SqlText (trim worker), SqlNull])"
    and "\<And>h sql params. px_execute env h sql params = Inr 0"
  shows "fst (finish_postgres_lease env schema org tid worker st log) =
    Inr \<lparr>wl_task_id = tid, wl_organization = trim org, wl_state = st\<rparr>"
  using assms
  by (simp add: finish_postgres_lease_def finish_found_lease_def pg_steps normalize_non_empty_def
      row_text_def row_optional_text_def stored_finish_error_def)

section \<open>Rows and files\<close>

lemma task_status_label_back: "task_status_from_label (task_status_label st) = Inr st"
  by (cases st) (simp_all add: task_status_from_label_def all_statuses_def)

text \<open>The parameters of a stored task read back as that task.\<close>

theorem task_row_read_back:
  "team_task_record_from_row
     [SqlText (tt_organization t), SqlText (tt_task_id t),
      sql_optional (map_option task_status_label (tt_status t)), sql_optional (tt_goal t),
      SqlText (tt_evidence_dir t)] log = (Inr t, log)"
  by (cases "tt_status t"; cases "tt_goal t")
    (simp_all add: team_task_record_from_row_def pg_steps row_text_def row_optional_text_def
      task_status_label_back)

text \<open>
  The artifact is written before the database is asked, below no allowed root, and stays when the
  row is refused: only the service in front of the store checks the path.
\<close>

lemma postgres_artifact_left:
  assumes "validate_task_id_component tid = Inr ()" and "is_absolute p" and "\<not> contains_parent_dir p"
    and "\<And>h d. px_create_dirs env h d = Inr ()" and "\<And>h. px_write env h p bytes = Inr ()"
    and "\<And>h sql params. px_execute env h sql params = Inl err"
  shows "PgWriteFile p bytes (Inr ()) \<in> set (snd (postgres_write_artifact env schema org tid p bytes log))
    \<and> \<not> is_ok (fst (postgres_write_artifact env schema org tid p bytes log))"
  using assms
  by (cases "path_parent p"; cases "sql_ident schema")
    (simp_all add: postgres_write_artifact_def pg_steps)

end
