(* ===== verification/Service_Contracts.thy ===== *)
theory Service_Contracts
  imports Team_Postgres
begin

text \<open>
  The contracts of services that the program describes and does not run: the API daemon with its
  routes, the review page, the replay of connectors, the team server and its readiness
  (\<open>crates/taskfence-state/src/lib.rs\<close>), the gateway transports (\<open>crates/taskfence-gateway/src/lib.rs\<close>)
  and the policy language (\<open>crates/taskfence-policy/src/lib.rs\<close>). They are tables with a few checks;
  the lemmas say which of their entries agree with each other.
\<close>

section \<open>The API daemon\<close>

datatype api_daemon_mode = LocalOnly | TeamOnly | CombinedSeparateModes

datatype api_auth_boundary =
    DevelopmentLoopbackOnly
  | ExternalProviderPlaceholder (provider_ref: string)

datatype api_daemon_resource =
    ApiTaskList | ApiTaskDetail | ApiTaskEvents | ApiTaskLogs | ApiTaskDiff | ApiTaskReport
  | ApiTaskArtifacts | ApiApprovals | ApiApprovalDetail | ApiApprovalResolution | ApiReplayInputs
  | ApiTeamTaskRecords | ApiTeamTaskRecord | ApiWorkerLeases | ApiAuditExports | ApiHealth
  | ApiReadiness

datatype api_route_method = ApiGet | ApiPost

record api_route_contract =
  rt_method :: api_route_method
  rt_path_template :: string
  rt_resource :: api_daemon_resource
  rt_mutates_state :: bool

record api_daemon_config_contract =
  dc_bind_host :: string
  dc_port :: u16
  dc_auth :: api_auth_boundary
  dc_state_backend :: string
  dc_graceful_shutdown_timeout_seconds :: u16
  dc_structured_diagnostics :: bool

definition validate_api_auth_boundary :: "string \<Rightarrow> api_auth_boundary \<Rightarrow> api_auth_boundary result" where
  "validate_api_auth_boundary bind_host auth =
     (case auth of
        DevelopmentLoopbackOnly \<Rightarrow>
          if bind_host \<noteq> ''127.0.0.1'' \<and> bind_host \<noteq> ''::1'' \<and> bind_host \<noteq> ''localhost''
          then Inl (StateErr ''development loopback auth may only bind to a loopback host'')
          else Inr auth
      | ExternalProviderPlaceholder p \<Rightarrow>
          rbind (validate_non_secret_ref ''api auth provider_ref'' p) (\<lambda>_. Inr auth))"

definition api_daemon_config_new ::
  "string \<Rightarrow> u16 \<Rightarrow> api_auth_boundary \<Rightarrow> string \<Rightarrow> api_daemon_config_contract result" where
  "api_daemon_config_new bind_host port auth state_backend =
     rbind (normalize_non_empty ''api daemon bind_host'' bind_host) (\<lambda>host.
     if has_whitespace host
     then Inl (StateErr ''api daemon bind_host must not contain whitespace'')
     else if port = 0
     then Inl (StateErr ''api daemon port must be explicit for the production contract'')
     else
       rbind (validate_api_auth_boundary host auth) (\<lambda>a.
       rbind (normalize_non_empty ''api daemon state_backend'' state_backend) (\<lambda>backend.
         Inr \<lparr>dc_bind_host = host, dc_port = port, dc_auth = a, dc_state_backend = backend,
              dc_graceful_shutdown_timeout_seconds = 30, dc_structured_diagnostics = True\<rparr>)))"

definition route ::
  "api_route_method \<Rightarrow> string \<Rightarrow> api_daemon_resource \<Rightarrow> bool \<Rightarrow> api_route_contract" where
  "route m path_template resource mutates =
     \<lparr>rt_method = m, rt_path_template = path_template, rt_resource = resource,
      rt_mutates_state = mutates\<rparr>"

definition production_api_routes :: "api_route_contract list" where
  "production_api_routes =
     [route ApiGet ''/api/tasks'' ApiTaskList False,
      route ApiGet ''/api/tasks/{task_id}'' ApiTaskDetail False,
      route ApiGet ''/api/tasks/{task_id}/events'' ApiTaskEvents False,
      route ApiGet ''/api/tasks/{task_id}/logs'' ApiTaskLogs False,
      route ApiGet ''/api/tasks/{task_id}/diff'' ApiTaskDiff False,
      route ApiGet ''/api/tasks/{task_id}/report'' ApiTaskReport False,
      route ApiGet ''/api/tasks/{task_id}/artifacts/{relative_path}'' ApiTaskArtifacts False,
      route ApiGet ''/api/approvals'' ApiApprovals False,
      route ApiGet ''/api/approvals/{approval_id}'' ApiApprovalDetail False,
      route ApiPost ''/api/approvals/{approval_id}/resolution'' ApiApprovalResolution True,
      route ApiGet ''/api/tasks/{task_id}/replay-inputs'' ApiReplayInputs False,
      route ApiGet ''/api/team/tasks'' ApiTeamTaskRecords False,
      route ApiGet ''/api/team/tasks/{task_id}'' ApiTeamTaskRecord False,
      route ApiPost ''/api/team/worker-leases'' ApiWorkerLeases True,
      route ApiPost ''/api/team/audit-exports'' ApiAuditExports True,
      route ApiGet ''/healthz'' ApiHealth False,
      route ApiGet ''/readyz'' ApiReadiness False]"

record production_api_daemon_boundary =
  db_mode :: api_daemon_mode
  db_config :: api_daemon_config_contract
  db_routes :: "api_route_contract list"
  db_lifecycle :: "string list"
  db_diagnostics :: "string list"
  db_local_review_fallback_command :: string
  db_unsupported_surfaces :: "string list"

definition combined_local_team :: "api_daemon_config_contract \<Rightarrow> production_api_daemon_boundary" where
  "combined_local_team config =
     \<lparr>db_mode = CombinedSeparateModes, db_config = config, db_routes = production_api_routes,
      db_lifecycle =
        [''foreground start must bind only the configured address and expose health/readiness before accepting mutating requests'',
         ''graceful shutdown must stop accepting new requests, drain in-flight writes, and close state backends before exit'',
         ''local task execution must not require daemon availability''],
      db_diagnostics =
        [''responses use structured error bodies with status, code, message, and request_id'',
         ''request logs redact approval payloads, tool parameters, bearer tokens, and gateway secret references''],
      db_local_review_fallback_command = ''taskfence review --serve --workspace <workspace>'',
      db_unsupported_surfaces =
        [''long-lived HTTP daemon start'', ''production auth provider integration'',
         ''deployed team server daemon'', ''production Web UI'']\<rparr>"

definition daemon_unsupported_start_error :: "production_api_daemon_boundary \<Rightarrow> taskfence_error" where
  "daemon_unsupported_start_error _ =
     UnsupportedErr ''production API daemon is a validated contract only; use taskfence review --serve for the current foreground local review path''"

section \<open>The review page\<close>

datatype review_workflow =
    WfTaskEvidence | WfApprovalQueue | WfReportLogDiffInspection | WfContainedArtifactDownload
  | WfTaskComparison | WfReplayPlanning | WfComplianceView

datatype review_feedback_state =
    LoadingSkeleton | FbEmpty | RecoverableError | AccessDenied | DestructiveConfirmation
  | SuccessToast

record production_review_ui_contract =
  ui_depends_on_api_daemon :: bool
  ui_source_of_truth :: string
  ui_workflows :: "review_workflow list"
  ui_feedback_states :: "review_feedback_state list"
  ui_access_control_aware :: bool
  ui_destructive_actions_require_confirmation :: bool
  ui_static_fallback_command :: string
  ui_unsupported_until :: "string list"

definition after_api_daemon_contract :: production_review_ui_contract where
  "after_api_daemon_contract =
     \<lparr>ui_depends_on_api_daemon = True,
      ui_source_of_truth =
        ''Rust state, approval, audit, artifact, replay, and API daemon contracts'',
      ui_workflows =
        [WfTaskEvidence, WfApprovalQueue, WfReportLogDiffInspection, WfContainedArtifactDownload,
         WfTaskComparison, WfReplayPlanning, WfComplianceView],
      ui_feedback_states =
        [LoadingSkeleton, FbEmpty, RecoverableError, AccessDenied, DestructiveConfirmation,
         SuccessToast],
      ui_access_control_aware = True, ui_destructive_actions_require_confirmation = True,
      ui_static_fallback_command = ''taskfence review --workspace <workspace>'',
      ui_unsupported_until =
        [''production API daemon routes are implemented and authenticated'',
         ''frontend stack, deployment target, and browser validation gates are selected'',
         ''policy, approval, audit, and artifact enforcement stay server-side'']\<rparr>"

section \<open>The replay of connectors\<close>

datatype connector_replay_mode = FixtureMode | DryRun | RecordedResponse | LiveWithFreshCredentials

datatype connector_effect_risk = RiskReadOnly | LocalArtifactOnly | ExternalWrite | Destructive

record connector_replay_rule =
  cr_connector :: string
  cr_operation_pattern :: string
  cr_risk :: connector_effect_risk
  cr_allowed_modes :: "connector_replay_mode list"
  cr_operator_confirmation_required :: bool
  cr_idempotency_required :: bool
  cr_rollback_required :: bool

record evaluation_dimension =
  ed_name :: string
  ed_source :: string

record connector_replay_evaluation_contract =
  ce_rules :: "connector_replay_rule list"
  ce_evaluation_dimensions :: "evaluation_dimension list"
  ce_requires_fresh_gateway_credentials_for_live :: bool
  ce_unsupported_live_side_effect_replay :: "string list"

definition dimension :: "string \<Rightarrow> string \<Rightarrow> evaluation_dimension" where
  "dimension name source = \<lparr>ed_name = name, ed_source = source\<rparr>"

definition default_replay_contract :: connector_replay_evaluation_contract where
  "default_replay_contract =
     \<lparr>ce_rules =
        [\<lparr>cr_connector = ''local_fixture'', cr_operation_pattern = ''*'',
          cr_risk = LocalArtifactOnly, cr_allowed_modes = [FixtureMode],
          cr_operator_confirmation_required = False, cr_idempotency_required = False,
          cr_rollback_required = False\<rparr>,
         \<lparr>cr_connector = ''github_rest'', cr_operation_pattern = ''read_*'',
          cr_risk = RiskReadOnly, cr_allowed_modes = [DryRun, RecordedResponse],
          cr_operator_confirmation_required = False, cr_idempotency_required = False,
          cr_rollback_required = False\<rparr>,
         \<lparr>cr_connector = ''gateway_connector'',
          cr_operation_pattern = ''*write*|create_*|update_*|comment_*|export_*'',
          cr_risk = ExternalWrite, cr_allowed_modes = [DryRun, RecordedResponse],
          cr_operator_confirmation_required = True, cr_idempotency_required = True,
          cr_rollback_required = True\<rparr>,
         \<lparr>cr_connector = ''gateway_connector'',
          cr_operation_pattern = ''delete_*|destroy_*|revoke_*'',
          cr_risk = Destructive, cr_allowed_modes = [],
          cr_operator_confirmation_required = True, cr_idempotency_required = True,
          cr_rollback_required = True\<rparr>],
      ce_evaluation_dimensions =
        [dimension ''agent'' ''resolved task agent profile'',
         dimension ''policy'' ''structured policy decision events'',
         dimension ''connector_mode'' ''replay connector rule'',
         dimension ''runner_backend'' ''resolved task sandbox kind'',
         dimension ''task_version'' ''resolved task input and event evidence''],
      ce_requires_fresh_gateway_credentials_for_live = True,
      ce_unsupported_live_side_effect_replay =
        [''reuse of raw secrets from prior runs'', ''destructive connector operations'',
         ''externally visible writes without confirmation, idempotency, and rollback'']\<rparr>"

section \<open>The team server\<close>

definition team_api_boundary_resources :: "team_api_resource list" where
  "team_api_boundary_resources =
     (let tid = ''{task_id}''; aid = ''{approval_id}''
      in [TaskList, TaskDetail tid, TaskEvents tid, TaskLogs tid, TaskDiff tid, TaskReport tid,
          TaskArtifacts tid, Approvals, ApprovalDetail aid, ReplayInputs tid, AuditExport])"

record team_server_boundary =
  sb_api_resources :: "team_api_resource list"
  sb_worker_model :: string
  sb_state_config :: postgres_config
  sb_artifact_roots :: "path list"
  sb_audit_export_sinks :: "audit_export_sink_config list"

definition team_server_boundary_new ::
  "postgres_config \<Rightarrow> path list \<Rightarrow> team_server_boundary result" where
  "team_server_boundary_new state_config artifact_roots =
     (if artifact_roots = []
      then Inl (StateErr ''team artifact storage requires at least one allowed root'')
      else
        rbind (rmap_list validate_team_artifact_root artifact_roots) (\<lambda>_.
          Inr \<lparr>sb_api_resources = team_api_boundary_resources,
               sb_worker_model = ''durable worker lease storage with duplicate, wrong-worker, unleased, and terminal-state protections'',
               sb_state_config = state_config, sb_artifact_roots = artifact_roots,
               sb_audit_export_sinks = []\<rparr>))"

definition with_audit_export_sinks ::
  "team_server_boundary \<Rightarrow> audit_export_sink_config list \<Rightarrow> team_server_boundary result" where
  "with_audit_export_sinks b sinks =
     (if sinks = []
      then Inl (StateErr ''team audit export sinks require at least one configured destination'')
      else Inr (b\<lparr>sb_audit_export_sinks := sinks\<rparr>))"

definition server_unsupported_start_error :: "team_server_boundary \<Rightarrow> taskfence_error" where
  "server_unsupported_start_error _ =
     UnsupportedErr ''team API is exposed as state-layer service functions; no long-lived HTTP daemon is implemented''"

definition server_unsupported_audit_export_error :: "team_server_boundary \<Rightarrow> taskfence_error" where
  "server_unsupported_audit_export_error _ =
     UnsupportedErr ''team audit export is a validated sink contract only; no live export sink is implemented''"

datatype team_readiness_surface =
    DeployedApiService | LiveWorkerService | Sso | RdObjectStorage | QuotaChargeback

record team_production_readiness_contract =
  rd_promoted_after_api_daemon :: bool
  rd_surfaces :: "team_readiness_surface list"
  rd_worker_guarantees :: "string list"
  rd_sso_prerequisites :: "string list"
  rd_object_storage_prerequisites :: "string list"
  rd_quota_prerequisites :: "string list"
  rd_unsupported_surfaces :: "string list"

definition after_service_boundary :: team_production_readiness_contract where
  "after_service_boundary =
     \<lparr>rd_promoted_after_api_daemon = True,
      rd_surfaces =
        [DeployedApiService, LiveWorkerService, Sso, RdObjectStorage, QuotaChargeback],
      rd_worker_guarantees =
        [''durable leases reject duplicate queue entries'',
         ''wrong-worker completion or failure is rejected'',
         ''unleased task completion or failure is rejected'',
         ''already terminal worker leases cannot be changed'',
         ''retry semantics must distinguish pending, leased, completed, failed, and expired leases''],
      rd_sso_prerequisites =
        [''role, resource, and method mapping is stable'',
         ''approval owner checks are covered by tests'', ''auth claims never carry gateway secrets''],
      rd_object_storage_prerequisites =
        [''artifact path containment is enforced before write or signed download'',
         ''size and SHA-256 metadata are recorded'', ''storage credentials stay service-side''],
      rd_quota_prerequisites =
        [''budget usage events are structured and queryable'',
         ''task ownership is reliable across local-to-team migration'',
         ''chargeback reports do not rely on rendered Markdown scraping''],
      rd_unsupported_surfaces =
        [''deployed team HTTP daemon'', ''live worker service'', ''SSO provider integration'',
         ''object storage adapter'', ''team quota or chargeback enforcement'']\<rparr>"

section \<open>Gateway transports\<close>

datatype gateway_transport_kind =
    McpServer | BoundedHttpAdapter | SdkWebhookEntryPoint | ArbitraryHttpProxy

datatype gateway_transport_status = ReadyForImplementation | ContractOnly | TransportUnsupported

record gateway_transport_limits =
  tl_max_request_bytes :: nat
  tl_max_response_bytes :: nat
  tl_timeout_seconds :: u16
  tl_rate_limit_per_minute :: u16

record gateway_transport_hardening =
  th_kind :: gateway_transport_kind
  th_priority :: nat
  th_status :: gateway_transport_status
  th_request_authentication :: bool
  th_structured_error_schema :: bool
  th_response_redaction :: bool
  th_destination_policy_required :: bool
  th_secret_broker_required :: bool
  th_limits :: gateway_transport_limits
  th_compatible_local_surfaces :: "string list"
  th_unsupported_reason :: "string option"

definition transport_contract ::
  "gateway_transport_kind \<Rightarrow> nat \<Rightarrow> gateway_transport_status \<Rightarrow> gateway_transport_hardening" where
  "transport_contract kind priority status =
     \<lparr>th_kind = kind, th_priority = priority, th_status = status,
      th_request_authentication = True, th_structured_error_schema = True,
      th_response_redaction = True, th_destination_policy_required = True,
      th_secret_broker_required = True,
      th_limits = \<lparr>tl_max_request_bytes = 64 * 1024, tl_max_response_bytes = 1024 * 1024,
        tl_timeout_seconds = 30, tl_rate_limit_per_minute = 120\<rparr>,
      th_compatible_local_surfaces =
        [''taskfence gateway call'', ''taskfence gateway listen'', ''taskfence gateway spool process''],
      th_unsupported_reason = None\<rparr>"

definition unsupported_arbitrary_http_proxy :: gateway_transport_hardening where
  "unsupported_arbitrary_http_proxy =
     (transport_contract ArbitraryHttpProxy 4 TransportUnsupported)
       \<lparr>th_unsupported_reason := Some ''arbitrary HTTP proxying is unsupported until request inspection, destination policy, streaming limits, response redaction, secret handling, audit, and bypass controls are implemented''\<rparr>"

definition production_priority_order :: "gateway_transport_hardening list" where
  "production_priority_order =
     [transport_contract McpServer 1 ReadyForImplementation,
      transport_contract BoundedHttpAdapter 2 ContractOnly,
      transport_contract SdkWebhookEntryPoint 3 ContractOnly,
      unsupported_arbitrary_http_proxy]"

definition transport_unsupported_start_error ::
  "gateway_transport_hardening \<Rightarrow> taskfence_error option" where
  "transport_unsupported_start_error t =
     (if th_status t = TransportUnsupported
      then Some (UnsupportedErr (case th_unsupported_reason t of
             Some reason \<Rightarrow> reason | None \<Rightarrow> ''gateway transport is unsupported''))
      else None)"

section \<open>The policy language\<close>

datatype policy_language_strategy =
    BuiltInEvaluator | OpaContractOnly | CedarContractOnly | CustomPluginContractOnly

record versioned_schema_contract =
  vc_name :: string
  vc_version :: u16

record policy_template_pack =
  tk_name :: string
  tk_opt_in :: bool
  tk_templates :: "string list"

record policy_language_contract =
  pl_strategy :: policy_language_strategy
  pl_schemas :: "versioned_schema_contract list"
  pl_connector_template_packs :: "policy_template_pack list"
  pl_migration_checks :: "string list"
  pl_unsupported_strategies :: "policy_language_strategy list"

definition schema_version :: "string \<Rightarrow> u16 \<Rightarrow> versioned_schema_contract" where
  "schema_version name version = \<lparr>vc_name = name, vc_version = version\<rparr>"

definition template_pack :: "string \<Rightarrow> string list \<Rightarrow> policy_template_pack" where
  "template_pack name templates = \<lparr>tk_name = name, tk_opt_in = True, tk_templates = templates\<rparr>"

definition current_policy_language :: policy_language_contract where
  "current_policy_language =
     \<lparr>pl_strategy = BuiltInEvaluator,
      pl_schemas = [schema_version ''task_file'' 1, schema_version ''audit_event'' 1,
        schema_version ''connector_policy_template'' 1, schema_version ''runner_capability_contract'' 1],
      pl_connector_template_packs =
        [template_pack ''coding_agent'' [''read_workspace'', ''write_workspace'', ''bounded_commands''],
         template_pack ''enterprise_connectors''
           [''github'', ''gitlab'', ''jira'', ''chat'', ''database'', ''siem'']],
      pl_migration_checks =
        [''task files must reject unknown fields and unsafe path changes'',
         ''reports must render from structured events, not scraped terminal output'',
         ''replay inputs must preserve connector effect limitations'',
         ''team records must preserve organization, task id, evidence dir, status, and artifact metadata''],
      pl_unsupported_strategies = [OpaContractOnly, CedarContractOnly, CustomPluginContractOnly]\<rparr>"

section \<open>What the contracts hold\<close>

text \<open>Development authentication is offered on a loopback host only, on an explicit port.\<close>

theorem api_config_confined:
  assumes "api_daemon_config_new bind_host port auth backend = Inr c"
  shows "dc_port c \<noteq> 0 \<and> dc_bind_host c = trim bind_host \<and> dc_bind_host c \<noteq> []
    \<and> \<not> has_whitespace (dc_bind_host c)
    \<and> (dc_auth c = DevelopmentLoopbackOnly \<longrightarrow> dc_bind_host c \<in> {''127.0.0.1'', ''::1'', ''localhost''})"
  using assms
  by (auto simp: api_daemon_config_new_def validate_api_auth_boundary_def normalize_non_empty_def
      Let_def rbind_Inr_iff split: if_splits api_auth_boundary.splits)

text \<open>Exactly the \<open>POST\<close> routes change state, and no two routes have the same template.\<close>

theorem mutating_routes_post:
  "list_all (\<lambda>r. rt_mutates_state r \<longleftrightarrow> rt_method r = ApiPost) production_api_routes"
  "distinct (map rt_path_template production_api_routes)"
  by (simp_all add: production_api_routes_def route_def)

text \<open>No connector is replayed live, and one that writes outside only with every safeguard.\<close>

theorem replay_rules_guarded:
  "list_all (\<lambda>r. LiveWithFreshCredentials \<notin> set (cr_allowed_modes r)
      \<and> (cr_risk r = Destructive \<longrightarrow> cr_allowed_modes r = [])
      \<and> (cr_risk r \<in> {ExternalWrite, Destructive} \<longrightarrow> cr_operator_confirmation_required r
           \<and> cr_idempotency_required r \<and> cr_rollback_required r))
     (ce_rules default_replay_contract)"
  by (simp add: default_replay_contract_def)

theorem server_roots_checked:
  assumes "team_server_boundary_new config roots = Inr b"
  shows "sb_artifact_roots b \<noteq> [] \<and>
    (\<forall>root \<in> set (sb_artifact_roots b). is_absolute root \<and> \<not> contains_parent_dir root)"
  using assms
  by (auto simp: team_server_boundary_new_def rbind_Inr_iff rmap_list_Inr_iff list_all2_conv_all_nth
      in_set_conv_nth validate_team_artifact_root_def split: if_splits)

text \<open>Exactly the arbitrary proxy is refused, and each transport demands every safeguard.\<close>

theorem transports_guarded:
  "list_all (\<lambda>t. (transport_unsupported_start_error t \<noteq> None \<longleftrightarrow> th_kind t = ArbitraryHttpProxy)
      \<and> th_request_authentication t \<and> th_response_redaction t \<and> th_destination_policy_required t
      \<and> th_secret_broker_required t) production_priority_order"
  "map th_priority production_priority_order = [1, 2, 3, 4]"
  by (simp_all add: production_priority_order_def transport_contract_def
      unsupported_arbitrary_http_proxy_def transport_unsupported_start_error_def)

text \<open>The strategy in use is supported, and every other one is listed as unsupported.\<close>

theorem only_built_in_strategy:
  "s \<in> set (pl_unsupported_strategies current_policy_language) \<longleftrightarrow>
   s \<noteq> pl_strategy current_policy_language"
  by (cases s) (simp_all add: current_policy_language_def)

end
