(* ===== verification/Spec2Isabelle.thy ===== *)
theory Spec2Isabelle
  imports Policy_Engine Orchestrator_Outcome Redaction Approval_Store Team_Access Gateway_Listener
    Config_Gateway Evidence_Safety Runner_Orchestrator Artifact_Safety Report_Safety Cli_Safety
    Review_Safety Cli_Team Cli_Show Service_Contracts
begin

text \<open>
  TaskFence (\<open>src/\<close>, a Rust workspace) runs an agent's command for one task: it reads a task
  file, asks a policy engine and a person, runs the command in a container or on a host, mediates
  the tool calls of the agent, and keeps evidence. This development is a model of the program in
  HOL with the theorems that make it correct. Every definition is a translation of the named
  function of \<open>src/crates/\<close>, with the branches and the error texts of the code.

  \<^bold>\<open>How the code is represented.\<close>

  \<^item> \<open>str\<close> and \<open>String\<close> are lists of UTF-8 bytes (\<open>Rust_Str\<close>); what Rust does per character
    recognises the encodings of these characters. Unix paths are strings read as components
    (\<open>Rust_Path\<close>), \<open>BTreeMap\<close> is an association list with ascending keys (\<open>Rust_BTree\<close>, with its
    contract as the locale \<open>ordered_map\<close>). Machine integers are words of their width, or \<open>nat\<close> with
    the limit written out.
  \<^item> \<open>Result\<close> is a sum with \<open>Inl\<close> for \<open>Err\<close>, \<open>?\<close> is \<open>rbind\<close> or \<open>sbind\<close>; a panic, and a call that
    never ends, are values of their own where the code has them (\<open>Runner_Exec.run_end\<close>).
  \<^item> A trait object, and every answer of the outside world, is a response function of a record of
    the environment that gets the log of the calls so far: it may answer differently each time, so
    a theorem over all environments covers every implementation, failure and interference.
    \<open>each_call P log\<close> says that \<open>P\<close> holds of each call together with the calls before it. Statements
    on ordering (a decision precedes a start, an audit record precedes an answer) have this form.
  \<^item> Structures are records, enumerations are datatypes, in-place updates are state transformers
    (\<open>TF_Prelude\<close>, with a weakest precondition \<open>wp\<close> for them).

  \<^bold>\<open>Parts of the program and their theories.\<close>

  \<^item> \<open>taskfence-core\<close>: \<open>Core_Types\<close> (tasks, actions, runs, events), \<open>Core_Command\<close> (command words,
    shell detection, budgets), \<open>Orchestrator\<close> (\<open>Orchestrator::run\<close> step by step). The invariants of
    a run rest on the locales \<open>orch_quiet\<close>, \<open>orch_invariant\<close> and \<open>orch_full_invariant\<close>
    (\<open>Orchestrator_Safety\<close>): an invariant that the single calls keep is kept by the whole run. They
    are interpreted for the policy decisions, the log, the audit trail, the gate before a start,
    the authorisation, the status machine (\<open>Orchestrator_Life\<close>) and the observation of a started
    runner (\<open>Orchestrator_Outcome\<close>).
  \<^item> \<open>taskfence-policy\<close>: \<open>Policy_Engine\<close> (\<open>evaluate\<close> and its per-action decisions, the locale
    \<open>policy_engine\<close> with the built-in engine as its instance, antitonicity of rules).
  \<^item> \<open>taskfence-audit\<close>: \<open>Redaction\<close> (redaction of text, keys and values; also the copies of these
    functions in the gateway and the report crate), \<open>Audit_Log\<close> (the JSONL logger).
  \<^item> \<open>taskfence-approval\<close>: \<open>Approval_Engine\<close> (local engine, directory store, polling engine),
    \<open>Approval_Safety\<close> (the contract \<open>approval_engine\<close>, instance of the local engine),
    \<open>Approval_Store\<close> (the directory under interference; \<open>store_codec\<close> gives the same contract to
    the external engine by a \<open>sublocale\<close>).
  \<^item> \<open>taskfence-config\<close>: \<open>Config\<close> (validation and resolution of a task file), \<open>Config_Safety\<close> (what a
    loaded task is), \<open>Config_Gateway\<close> (what it means to policy engine and gateway).
  \<^item> \<open>taskfence-agent\<close>: \<open>Agent_Profiles\<close>. \<open>taskfence-runner\<close>: \<open>Runner_Plan\<close> (capabilities, Docker
    plan and arguments), \<open>Runner_Exec\<close> (SSH, processes, time-outs, the runners), \<open>Runner_Safety\<close> and
    \<open>Runner_Outcome\<close> (their properties), \<open>Runner_Orchestrator\<close> (runner, agent and orchestrator
    together).
  \<^item> \<open>taskfence-artifacts\<close>: \<open>Artifact_Store\<close>, \<open>Artifact_Safety\<close>. \<open>taskfence-report\<close>: \<open>Report_Render\<close>,
    \<open>Report_Safety\<close>.
  \<^item> \<open>taskfence-gateway\<close>: \<open>Gateway_Names\<close> (normalisation, registry, connectors, secrets),
    \<open>Gateway_Checks\<close> (typed parameters, SQL, URLs), \<open>Gateway_Executor\<close> (mediator and executor),
    \<open>Gateway_Safety\<close> (the locales \<open>gw_appending\<close>, \<open>gw_logging\<close> and \<open>settling\<close> for properties of its
    calls), \<open>Gateway_GitHub\<close> and \<open>Gateway_Connectors\<close> (adapters), \<open>Gateway_Spool\<close> (the file spool).
  \<^item> \<open>taskfence-state\<close>: \<open>Team_State\<close> (in-memory store and queue, file backed team store, roles, audit
    export), \<open>Lease_Queue\<close> (the contract \<open>lease_queue\<close> of a worker queue with two instances),
    \<open>Team_Access\<close> (the service and who may do what), \<open>Evidence_Store\<close> and \<open>Evidence_Safety\<close> (the
    local evidence store, its index, replay plans and migration), \<open>Team_Postgres\<close> (the Postgres
    backend: statements with their parameters, transactions and what is made of the answers),
    \<open>Service_Contracts\<close> (the tables and checks of services that are described and not run, also
    those of the gateway and policy crates).
  \<^item> \<open>taskfence-cli\<close>: \<open>Gateway_Wiring\<close> (which adapter and broker serve an action, the locales
    \<open>metered_adapter\<close> and \<open>live_adapter\<close> with the four adapters as instances), \<open>Gateway_Commands\<close>
    (\<open>gateway call\<close>, \<open>gateway listen\<close> and \<open>gateway spool process\<close>, locales \<open>own_calls\<close> and
    \<open>command_invariant\<close>), \<open>Gateway_Listener\<close> (what a connection may send), \<open>Cli_Run\<close> (\<open>init\<close>,
    \<open>validate\<close>, \<open>run\<close>, \<open>replay run\<close>), \<open>Cli_Safety\<close>, \<open>Cli_Text\<close> (the printed texts), \<open>Cli_Page\<close> (the
    review page), \<open>Review_Server\<close> and \<open>Review_Safety\<close> (the local review server), \<open>Cli_Team\<close> (the team
    commands), \<open>Cli_Show\<close> (what commands print on success).

  A run goes through them as follows. \<open>Cli_Run\<close> loads the task with \<open>Config\<close>, opens its directory
  with \<open>Artifact_Store\<close> and wires \<open>Orchestrator\<close> to \<open>Policy_Engine\<close>, an engine of \<open>Approval_Engine\<close>,
  \<open>Agent_Profiles\<close>, the expanded runner of \<open>Runner_Exec\<close>, \<open>Audit_Log\<close> and \<open>Report_Render\<close>. While the
  agent runs, its tool calls reach \<open>Gateway_Commands\<close> through a listener or the spool, which use
  \<open>Gateway_Executor\<close> with the same policy and approvals. What a run left behind is read by
  \<open>Evidence_Store\<close>, shown by \<open>Cli_Text\<close> and \<open>Cli_Page\<close>, and approvals that a run waits for are
  resolved by \<open>Review_Server\<close>.

  \<^bold>\<open>What the theorems show.\<close>

  \<^item> Nothing runs without authorisation (C1 to C3): only the command that the policy allows, or that
    a person approved, is started, and end to end that very command reaches the runner.
  \<^item> What runs is confined (C4): the processes that a start creates, their mounts, network and
    environment. A replay calls nothing outside its fixtures (C5).
  \<^item> Tool calls are mediated (C6, C7, C11 to C13): the executor settles registration, decision,
    budget, destination and secrets before the adapter, and every answer is recorded.
  \<^item> A task file means what it says (C8 to C10).
  \<^item> A run walks the status machine, observes what it started, and reports success only when it
    was one (C14 to C16); a command with a time-out ends (C20).
  \<^item> The policy engine: exact decisions for tool calls, justification of an allowed command,
    tightening of rules (C17 to C19).
  \<^item> Redaction (C21, C22) and the audit trail (C35).
  \<^item> Approvals: both engines meet their contract (C24, C25), the waiting ends (C26), the review
    server changes one only by a POST that names it (C23).
  \<^item> Team state: leases are exclusive in one process (C27) and not between two (C40), effects need
    a role (C28, C29), artifacts stay below their roots (C30).
    For the Postgres backend, \<open>Team_Postgres\<close> shows that values reach the database as parameters
    only, each statement on the rows of the organization of its request, that a lease is handed out
    in one committed transaction, and that a lease is finished by its holder only.
  \<^item> Evidence: downloads are contained (C31), statuses are those of the log (C32), writes are whole
    or absent (C33), a clean baseline is one that Git reported (C34).
  \<^item> Reports and pages keep their shape and markup whatever was recorded (C36, C37, C39), and agree
    with the log (C38).

  The other lemmas of each theory state the behaviour of single operations and, where the program
  does something else than it means to, the concrete case that shows it (for example
  \<open>Core_Command.shell_wrapped_missed\<close> or \<open>Review_Safety.server_ends_on_blank_line\<close>).

  \<^bold>\<open>Bounds and termination.\<close> There is no fuel. Recursion over text, lists and paths terminates by its
  structure or by a measure. The two polling loops (\<open>Runner_Exec.wait_child\<close> and
  \<open>Approval_Engine.wait_loop\<close>) are partial functions to an option, where \<open>None\<close> means that the loop
  does not end; C20 and C26 prove that they return. The review server and the listener serve a given
  finite list of connections. Limits of the code are kept as they are: 65536 bytes of a string in
  the audit log, 262144 bytes of collected text, 128 KiB of a listener body, 64 bit
  counters that wrap or saturate as the code does.

  \<^bold>\<open>Parameters.\<close> Not under \<open>src/\<close>, and so arguments of the definitions: the glob compiler of
  \<open>globset\<close>, the readers and writers of YAML and JSON, the file system (including
  \<open>canonicalize\<close>), processes (\<open>docker\<close>, \<open>ssh\<close>, \<open>git\<close>), HTTP and database clients, sockets, clocks,
  random identifiers and SHA-256. Their answers are unrestricted, except for hypotheses that a
  theorem names: that a writer's text is read back, that the clock passes a deadline, that no other
  process interferes. Each such theorem has a witness with concrete functions.

  \<^bold>\<open>Not modelled.\<close> The declarations of the command line arguments, the dispatch of a parsed command
  to its function and the writing of its text to standard output, and the fixtures of
  \<open>taskfence-testkit\<close>, which only tests use. What SQL does with a statement belongs to the database,
  redirects and time-outs inside the HTTP client belong to that client. Properties of other
  processes are not claimed: where two processes can meet (team state, approval directory), the
  interference is part of the model.
\<close>

section \<open>The orchestrator under the built-in policy engine\<close>

text \<open>The decision that the log shows for the command of a started invocation.\<close>

definition started_under :: "glob_compiler \<Rightarrow> resolved_task \<Rightarrow> call list \<Rightarrow> call \<Rightarrow> bool" where
  "started_under glob task pre c =
     (case c of
        CStart prepared invocation r \<Rightarrow>
          (case evaluate glob task (Command (command_action_from_invocation invocation)) of
             Inl err \<Rightarrow> False
           | Inr d \<Rightarrow> is_allow d \<or> needs_approval d \<and>
               (\<exists>req res. CRequest (Command (command_action_from_invocation invocation)) d (Inr req) \<in> set pre
                  \<and> CWait (ar_id req) (Inr res) \<in> set pre \<and> ar_decision res = Some Approved))
      | _ \<Rightarrow> True)"

lemma decided_in_log:
  assumes "each_call (decided_by env task) log" and "CEvaluate a (Inr d) \<in> set log"
    and "\<And>h a. oe_evaluate env h task a = evaluate glob task a"
  shows "evaluate glob task a = Inr d"
proof -
  obtain us vs where "log = us @ CEvaluate a (Inr d) # vs" using split_list [OF assms(2)] by blast
  with assms(1) have "decided_by env task us (CEvaluate a (Inr d))"
    unfolding each_call_def by blast
  with assms(3) show ?thesis by simp
qed

text \<open>
  C1: The task file rules what runs. When the orchestrator uses the built-in policy engine, every
  process that a run starts executes an invocation whose command the engine allows for the task,
  or one for which it requires approval and the approval that was requested for exactly that
  command was given. A command that the engine denies or cannot decide is never started.
\<close>

theorem policy_rules_what_starts:
  assumes "\<forall>h a. oe_evaluate env h task a = evaluate glob task a"
  shows "each_call (started_under glob task) (os_log (snd (run env task initial_state)))"
    (is "each_call _ ?log")
proof (rule each_call_mono [OF start_requires_authorised])
  fix pre c
  assume p: "prefix (pre @ [c]) ?log" and a: "start_authorised pre c"
  have "each_call (decided_by env task) (pre @ [c])"
    using each_call_prefix [OF run_policy_inv p] .
  then have dec: "each_call (decided_by env task) pre" by simp
  show "started_under glob task pre c"
  proof (cases c)
    case (CStart prepared invocation r)
    with a obtain d where d: "CEvaluate (Command (command_action_from_invocation invocation)) (Inr d) \<in> set pre"
      "is_allow d \<or> needs_approval d \<and>
         (\<exists>req res. CRequest (Command (command_action_from_invocation invocation)) d (Inr req) \<in> set pre \<and>
            CWait (ar_id req) (Inr res) \<in> set pre \<and> ar_decision res = Some Approved)"
      by (auto simp: authorised_def)
    from decided_in_log [OF dec d(1)] assms d(2) show ?thesis
      by (simp add: started_under_def CStart)
  qed (simp_all add: started_under_def)
qed

theorem policy_rules_what_starts_witness:
  "each_call (started_under exact_glob sample_task)
     (os_log (snd (run (sample_env Approved exit_zero) sample_task initial_state)))"
  by (rule policy_rules_what_starts) simp

end
